(* ===== verification/Tintin_Prelude.thy ===== *)
theory Tintin_Prelude
  imports Main "HOL-Library.Word" "HOL-Library.Monad_Syntax" "HOL-Library.List_Lexorder"
    "HOL-Library.Char_ord" "HOL-Library.Multiset"
begin

unbundle bit_operations_syntax

text \<open>
  Shared material of the TinTin development: the machine types of the Rust code, the two ways a
  Rust function can fail (a panic is \<open>None\<close>, an \<open>Err\<close> is \<open>Inl\<close>), integer arithmetic with the
  build's overflow setting written out, number formatting, and the generic list lemmas the
  components use.
\<close>

section \<open>Machine types\<close>

type_synonym u8 = "8 word"
type_synonym u16 = "16 word"
type_synonym u32 = "32 word"
type_synonym u64 = "64 word"

text \<open>
  A value of Rust's \<open>i64\<close> is an \<open>int\<close>; the places where the code could leave the range (a cast, an
  exhausted row counter) are written out with the bounds below.
\<close>

type_synonym i64 = int

type_synonym bytes = "u8 list"

definition i64_max :: int where
  "i64_max = 2 ^ 63 - 1"

text \<open>The cast \<open>x as i64\<close> of a \<open>u64\<close> given by its value.\<close>

definition as_i64_cast :: "nat \<Rightarrow> i64" where
  "as_i64_cast n = sint (word_of_nat n :: u64)"

text \<open>
  Rust's \<open>+\<close> and \<open>-\<close> on \<open>u32\<close>: with overflow checks (a debug build) they panic, without them (a
  release build) they wrap.
\<close>

definition add_u32 :: "bool \<Rightarrow> u32 \<Rightarrow> u32 \<Rightarrow> u32 option" where
  "add_u32 checks a b = (if checks \<and> 2 ^ 32 \<le> unat a + unat b then None else Some (a + b))"

definition sub_u32 :: "bool \<Rightarrow> u32 \<Rightarrow> u32 \<Rightarrow> u32 option" where
  "sub_u32 checks a b = (if checks \<and> unat a < unat b then None else Some (a - b))"

definition sub_u64 :: "bool \<Rightarrow> u64 \<Rightarrow> u64 \<Rightarrow> u64 option" where
  "sub_u64 checks a b = (if checks \<and> unat a < unat b then None else Some (a - b))"

section \<open>Formatting of numbers\<close>

definition hex_digit :: "nat \<Rightarrow> char" where
  "hex_digit n = ''0123456789abcdef'' ! (n mod 16)"

fun lower_hex :: "nat \<Rightarrow> string" where
  "lower_hex n = (if n < 16 then [hex_digit n] else lower_hex (n div 16) @ [hex_digit (n mod 16)])"

definition dec_digit :: "nat \<Rightarrow> char" where
  "dec_digit n = ''0123456789'' ! (n mod 10)"

fun show_nat :: "nat \<Rightarrow> string" where
  "show_nat n = (if n < 10 then [dec_digit n] else show_nat (n div 10) @ [dec_digit (n mod 10)])"

definition show_int :: "int \<Rightarrow> string" where
  "show_int i = (if i < 0 then CHR ''-'' # show_nat (nat (- i)) else show_nat (nat i))"

text \<open>The format directive \<open>{:08x}\<close>: lower-case hexadecimal, padded with zeros to eight digits.\<close>

definition fmt_08x :: "nat \<Rightarrow> string" where
  "fmt_08x n = replicate (8 - length (lower_hex n)) (CHR ''0'') @ lower_hex n"

declare lower_hex.simps [simp del] show_nat.simps [simp del]

section \<open>Whitespace\<close>

text \<open>
  \<open>str::trim\<close> removes the characters with the Unicode property White\_Space at both ends. A Rust
  string is the list of its UTF-8 bytes, so a whitespace character is one of these byte sequences.
\<close>

definition white_space :: "string list" where
  "white_space =
     [[CHR 0x09], [CHR 0x0A], [CHR 0x0B], [CHR 0x0C], [CHR 0x0D], [CHR 0x20],
      [CHR 0xC2, CHR 0x85], [CHR 0xC2, CHR 0xA0], [CHR 0xE1, CHR 0x9A, CHR 0x80],
      [CHR 0xE2, CHR 0x80, CHR 0x80], [CHR 0xE2, CHR 0x80, CHR 0x81],
      [CHR 0xE2, CHR 0x80, CHR 0x82], [CHR 0xE2, CHR 0x80, CHR 0x83],
      [CHR 0xE2, CHR 0x80, CHR 0x84], [CHR 0xE2, CHR 0x80, CHR 0x85],
      [CHR 0xE2, CHR 0x80, CHR 0x86], [CHR 0xE2, CHR 0x80, CHR 0x87],
      [CHR 0xE2, CHR 0x80, CHR 0x88], [CHR 0xE2, CHR 0x80, CHR 0x89],
      [CHR 0xE2, CHR 0x80, CHR 0x8A], [CHR 0xE2, CHR 0x80, CHR 0xA8],
      [CHR 0xE2, CHR 0x80, CHR 0xA9], [CHR 0xE2, CHR 0x80, CHR 0xAF],
      [CHR 0xE2, CHR 0x81, CHR 0x9F], [CHR 0xE3, CHR 0x80, CHR 0x80]]"

definition starts_with :: "'a list \<Rightarrow> 'a list \<Rightarrow> bool" where
  "starts_with p s \<longleftrightarrow> take (length p) s = p"

text \<open>\<open>str::contains\<close>.\<close>

definition contains_text :: "string \<Rightarrow> string \<Rightarrow> bool" where
  "contains_text needle hay \<longleftrightarrow> list_ex (\<lambda>i. starts_with needle (drop i hay)) [0..<Suc (length hay)]"

definition strip_one :: "string list \<Rightarrow> string \<Rightarrow> string option" where
  "strip_one ws s = (case filter (\<lambda>w. starts_with w s) ws of [] \<Rightarrow> None | w # _ \<Rightarrow> Some (drop (length w) s))"

text \<open>Each round removes at least one byte, so the length of the text is enough fuel.\<close>

primrec strip_all :: "nat \<Rightarrow> string list \<Rightarrow> string \<Rightarrow> string" where
  "strip_all 0 ws s = s"
| "strip_all (Suc n) ws s = (case strip_one ws s of None \<Rightarrow> s | Some s' \<Rightarrow> strip_all n ws s')"

definition trim :: "string \<Rightarrow> string" where
  "trim s =
     (let front = strip_all (length s) white_space s
      in rev (strip_all (length front) (map rev white_space) (rev front)))"

section \<open>Named collections\<close>

named_theorems tt_defs \<open>operations unfolded in the functional lemmas of a component\<close>
named_theorems tt_inv \<open>preservation of the database invariant, one lemma per operation\<close>
named_theorems tt_frame \<open>tables an operation leaves alone\<close>

section \<open>Generic lemmas\<close>

lemma add_u32_no_checks [simp]: "add_u32 False a b = Some (a + b)"
  by (simp add: add_u32_def)

lemma sub_u32_no_checks [simp]: "sub_u32 False a b = Some (a - b)"
  by (simp add: sub_u32_def)

lemma add_u32_SomeD: "add_u32 c a b = Some r \<Longrightarrow> r = a + b"
  by (auto simp: add_u32_def split: if_splits)

lemma sub_u32_SomeD: "sub_u32 c a b = Some r \<Longrightarrow> r = a - b"
  by (auto simp: sub_u32_def split: if_splits)

lemma add_then_sub_u32:
  assumes "add_u32 c a 1 = Some b"
  shows "sub_u32 c b 1 = Some a"
proof -
  have b: "b = a + 1"
    using assms by (rule add_u32_SomeD)
  show ?thesis
  proof (cases c)
    case True
    with assms have "unat a + 1 < 2 ^ 32"
      by (auto simp: add_u32_def split: if_splits)
    then have "unat b = unat a + 1"
      by (simp add: b unat_word_ariths)
    then show ?thesis
      by (simp add: sub_u32_def b)
  next
    case False
    then show ?thesis by (simp add: b)
  qed
qed

lemma as_i64_cast_small: "n < 2 ^ 63 \<Longrightarrow> as_i64_cast n = int n"
  by (simp add: as_i64_cast_def signed_of_nat signed_take_bit_int_eq_self)

lemma length_lower_hex: "0 < k \<Longrightarrow> n < 16 ^ k \<Longrightarrow> length (lower_hex n) \<le> k"
proof (induction n arbitrary: k rule: lower_hex.induct)
  case (1 n)
  show ?case
  proof (cases "n < 16")
    case True
    with "1.prems" show ?thesis by (simp add: lower_hex.simps [of n])
  next
    case False
    then obtain j where k: "k = Suc j" and j: "0 < j"
      using "1.prems" by (cases k; cases "k - 1") auto
    have "n div 16 < 16 ^ j"
      using "1.prems" by (simp add: k less_mult_imp_div_less mult.commute)
    then have "length (lower_hex (n div 16)) \<le> j"
      using "1.IH" False j by blast
    with False show ?thesis
      by (simp add: lower_hex.simps [of n] k)
  qed
qed

lemma set_lower_hex: "set (lower_hex n) \<subseteq> set ''0123456789abcdef''"
proof (induction n rule: lower_hex.induct)
  case (1 n)
  have digit: "hex_digit m \<in> set ''0123456789abcdef''" for m
    unfolding hex_digit_def by (rule nth_mem) simp
  show ?case
    using 1 digit by (subst lower_hex.simps) auto
qed

lemma length_fmt_08x: "n < 2 ^ 32 \<Longrightarrow> length (fmt_08x n) = 8"
  using length_lower_hex [of 8 n] by (simp add: fmt_08x_def)

lemma find_filter: "find P (filter Q xs) = find (\<lambda>x. Q x \<and> P x) xs"
  by (induction xs) auto

lemma find_append: "find P (xs @ ys) = (case find P xs of None \<Rightarrow> find P ys | Some x \<Rightarrow> Some x)"
  by (induction xs) auto

lemma find_cong_P: "(\<And>x. x \<in> set xs \<Longrightarrow> P x = Q x) \<Longrightarrow> find P xs = find Q xs"
  by (induction xs) auto

lemma find_None_set: "find P xs = None \<longleftrightarrow> (\<forall>x\<in>set xs. \<not> P x)"
  by (auto simp: find_None_iff)

lemma find_key_unique:
  assumes "distinct (map f xs)" and "x \<in> set xs"
  shows "find (\<lambda>y. f y = f x) xs = Some x"
  using assms by (induction xs) (auto simp: image_iff)

lemma sorted_wrt_snoc: "sorted_wrt P (xs @ [x]) \<longleftrightarrow> sorted_wrt P xs \<and> (\<forall>y\<in>set xs. P y x)"
  by (auto simp: sorted_wrt_append)

lemma length_filter_disjoint_sum:
  assumes "distinct ks"
  shows "(\<Sum>k\<leftarrow>ks. length (filter (\<lambda>x. f x = k) xs)) = length (filter (\<lambda>x. f x \<in> set ks) xs)"
  using assms
proof (induction ks)
  case Nil
  then show ?case by simp
next
  case (Cons k ks)
  have "length (filter (\<lambda>x. f x \<in> set (k # ks)) xs)
        = length (filter (\<lambda>x. f x = k) xs) + length (filter (\<lambda>x. f x \<in> set ks) xs)"
    using Cons.prems by (induction xs) auto
  with Cons show ?case by simp
qed

end
