(* ===== verification/Json_Value.thy ===== *)
theory Json_Value
  imports Tintin_Prelude
begin

text \<open>
  The JSON tree \<open>serde_json::Value\<close> as the code builds it (\<open>json!\<close>) and reads it (\<open>get\<close>, indexing,
  \<open>as_str\<close>, \<open>as_i64\<close>, \<open>as_u64\<close>, \<open>as_bool\<close>, \<open>as_array\<close>). Text parsing, text printing and the derived
  struct decoders are third-party code and stay parameters of the components that call them.
\<close>

datatype json =
    JNull
  | JBool bool
  | JNumber int
  | JFloat string
  | JString string
  | JArray "json list"
  | JObject "(string \<times> json) list"

text \<open>\<open>Value::get\<close> with a string key: \<open>None\<close> on anything that is not an object.\<close>

fun json_get :: "json \<Rightarrow> string \<Rightarrow> json option" where
  "json_get (JObject kvs) k = map_of kvs k"
| "json_get _ k = None"

text \<open>Indexing \<open>value["key"]\<close> of a shared value: \<open>Null\<close> where the key is missing.\<close>

definition json_index :: "json \<Rightarrow> string \<Rightarrow> json" where
  "json_index v k = (case json_get v k of None \<Rightarrow> JNull | Some w \<Rightarrow> w)"

fun as_str :: "json \<Rightarrow> string option" where
  "as_str (JString s) = Some s"
| "as_str _ = None"

fun as_bool :: "json \<Rightarrow> bool option" where
  "as_bool (JBool b) = Some b"
| "as_bool _ = None"

fun as_i64 :: "json \<Rightarrow> i64 option" where
  "as_i64 (JNumber n) = (if - (2 ^ 63) \<le> n \<and> n \<le> i64_max then Some n else None)"
| "as_i64 _ = None"

fun as_u64 :: "json \<Rightarrow> nat option" where
  "as_u64 (JNumber n) = (if 0 \<le> n \<and> n < 2 ^ 64 then Some (nat n) else None)"
| "as_u64 _ = None"

fun as_array :: "json \<Rightarrow> json list option" where
  "as_array (JArray vs) = Some vs"
| "as_array _ = None"

definition unwrap_or :: "'a option \<Rightarrow> 'a \<Rightarrow> 'a" where
  "unwrap_or x d = (case x of None \<Rightarrow> d | Some y \<Rightarrow> y)"

text \<open>\<open>v.get(k).and_then(|x| x.as_str())\<close>, the way every tag and command name is read.\<close>

definition get_str :: "json \<Rightarrow> string \<Rightarrow> string option" where
  "get_str v k = Option.bind (json_get v k) as_str"

text \<open>A byte vector inside \<open>json!\<close> becomes an array of numbers.\<close>

definition bytes_json :: "bytes \<Rightarrow> json" where
  "bytes_json bs = JArray (map (\<lambda>b. JNumber (uint b)) bs)"

definition opt_string_json :: "string option \<Rightarrow> json" where
  "opt_string_json x = (case x of None \<Rightarrow> JNull | Some s \<Rightarrow> JString s)"

lemma unwrap_or_simps [simp]: "unwrap_or None d = d" "unwrap_or (Some x) d = x"
  by (simp_all add: unwrap_or_def)

lemma get_str_SomeD: "get_str v k = Some s \<Longrightarrow> \<exists>kvs. v = JObject kvs \<and> map_of kvs k = Some (JString s)"
  by (cases v; auto simp: get_str_def bind_eq_Some_conv elim!: as_str.elims)

lemma bytes_json_inject: "bytes_json a = bytes_json b \<longleftrightarrow> a = b"
proof -
  have "inj (\<lambda>b :: u8. JNumber (uint b))"
    by (rule injI) (simp add: word_uint_eq_iff)
  then show ?thesis
    by (simp add: bytes_json_def inj_map_eq_map)
qed

end
