(* ===== verification/Core_Keys.thy ===== *)
theory Core_Keys
  imports Json_Value
begin

text \<open>
  \<open>tintin-core/src/error.rs\<close> and \<open>tintin-core/src/keys.rs\<close>: the error type, key pairs, identity keys,
  pre-keys and the Phase-1 signature. The cryptographic crates are a record of functions; what the
  code relies on of them is stated as named predicates (\<open>dh_commutes\<close>, \<open>aead_correct\<close>,
  \<open>prims_sized\<close>), each a documented property of the crate. A byte array \<open>[u8; 32]\<close> is a byte list, and
  the \<open>wf\<close> predicates carry its length.
\<close>

section \<open>Errors\<close>

datatype TinTinError =
    EncryptionFailed string
  | DecryptionFailed string
  | InvalidKey string
  | InvalidMessage string
  | SessionNotFound
  | InvalidSessionState
  | ProtocolVersionMismatch
  | SerializationError string
  | KeyAgreementFailed string

text \<open>The \<open>Display\<close> text that \<open>thiserror\<close> derives from the \<open>#[error(..)]\<close> attributes.\<close>

fun error_message :: "TinTinError \<Rightarrow> string" where
  "error_message (EncryptionFailed s) = ''Encryption failed: '' @ s"
| "error_message (DecryptionFailed s) = ''Decryption failed: '' @ s"
| "error_message (InvalidKey s) = ''Invalid key: '' @ s"
| "error_message (InvalidMessage s) = ''Invalid message: '' @ s"
| "error_message SessionNotFound = ''Session not found''"
| "error_message InvalidSessionState = ''Session is in an invalid state''"
| "error_message ProtocolVersionMismatch = ''Protocol version mismatch''"
| "error_message (SerializationError s) = ''Serialization error: '' @ s"
| "error_message (KeyAgreementFailed s) = ''Key agreement failed: '' @ s"

section \<open>The primitives the core calls\<close>

text \<open>
  \<open>overflow_checks\<close> is the build setting; the other fields are the functions of \<open>x25519_dalek\<close>,
  \<open>sha2\<close>, \<open>hkdf\<close>, \<open>chacha20poly1305\<close> and \<open>hex\<close>. \<open>hkdf_sha256 salt ikm info n\<close> is \<open>Hkdf::new\<close>
  followed by \<open>expand\<close> into \<open>n\<close> bytes (\<open>None\<close> is its length error). The cipher returns \<open>Inl\<close> with
  the text of its error.
\<close>

record prims =
  overflow_checks :: bool
  x25519_public :: "bytes \<Rightarrow> bytes"
  x25519_dh :: "bytes \<Rightarrow> bytes \<Rightarrow> bytes"
  sha256 :: "bytes \<Rightarrow> bytes"
  sha512 :: "bytes \<Rightarrow> bytes"
  hkdf_sha256 :: "bytes option \<Rightarrow> bytes \<Rightarrow> bytes \<Rightarrow> nat \<Rightarrow> bytes option"
  chacha_encrypt :: "bytes \<Rightarrow> bytes \<Rightarrow> bytes \<Rightarrow> string + bytes"
  chacha_decrypt :: "bytes \<Rightarrow> bytes \<Rightarrow> bytes \<Rightarrow> string + bytes"
  hex_encode :: "bytes \<Rightarrow> string"
  hex_decode_to_slice :: "string \<Rightarrow> nat \<Rightarrow> string + bytes"

definition dh_commutes :: "prims \<Rightarrow> bool" where
  "dh_commutes pr \<longleftrightarrow>
     (\<forall>a b. x25519_dh pr a (x25519_public pr b) = x25519_dh pr b (x25519_public pr a))"

definition aead_correct :: "prims \<Rightarrow> bool" where
  "aead_correct pr \<longleftrightarrow>
     (\<forall>k n p c. chacha_encrypt pr k n p = Inr c \<longrightarrow> chacha_decrypt pr k n c = Inr p)"

definition hkdf_total :: "prims \<Rightarrow> bool" where
  "hkdf_total pr \<longleftrightarrow> (\<forall>salt ikm info. \<exists>okm. hkdf_sha256 pr salt ikm info 64 = Some okm)"

definition prims_sized :: "prims \<Rightarrow> bool" where
  "prims_sized pr \<longleftrightarrow>
     (\<forall>s. length (x25519_public pr s) = 32) \<and> (\<forall>s p. length (x25519_dh pr s p) = 32) \<and>
     (\<forall>m. length (sha256 pr m) = 32) \<and> (\<forall>m. length (sha512 pr m) = 64) \<and>
     (\<forall>salt ikm info n okm. hkdf_sha256 pr salt ikm info n = Some okm \<longrightarrow> length okm = n)"

definition hex_correct :: "prims \<Rightarrow> bool" where
  "hex_correct pr \<longleftrightarrow>
     (\<forall>b. hex_decode_to_slice pr (hex_encode pr b) (length b) = Inr b)"

section \<open>Key pairs\<close>

record KeyPair =
  kp_secret :: bytes
  kp_public :: bytes

text \<open>\<open>KeyPair::generate\<close>; \<open>rng\<close> is the secret \<open>StaticSecret::random_from_rng(OsRng)\<close> drew.\<close>

definition KeyPair_generate :: "prims \<Rightarrow> bytes \<Rightarrow> KeyPair" where
  "KeyPair_generate pr rng = \<lparr>kp_secret = rng, kp_public = x25519_public pr rng\<rparr>"

definition agree :: "prims \<Rightarrow> KeyPair \<Rightarrow> bytes \<Rightarrow> TinTinError + bytes" where
  "agree pr kp their_public = Inr (x25519_dh pr (kp_secret kp) their_public)"

definition KeyPair_drop :: "KeyPair \<Rightarrow> KeyPair" where
  "KeyPair_drop kp = kp\<lparr>kp_secret := replicate 32 0\<rparr>"

text \<open>A key pair whose public half belongs to its secret, as \<open>generate\<close> makes them.\<close>

definition wf_key_pair :: "prims \<Rightarrow> KeyPair \<Rightarrow> bool" where
  "wf_key_pair pr kp \<longleftrightarrow>
     length (kp_secret kp) = 32 \<and> length (kp_public kp) = 32 \<and>
     kp_public kp = x25519_public pr (kp_secret kp)"

record IdentityKeyPair =
  ik_key_pair :: KeyPair

definition IdentityKeyPair_generate :: "prims \<Rightarrow> bytes \<Rightarrow> IdentityKeyPair" where
  "IdentityKeyPair_generate pr rng = \<lparr>ik_key_pair = KeyPair_generate pr rng\<rparr>"

definition public_key :: "IdentityKeyPair \<Rightarrow> bytes" where
  "public_key ik = kp_public (ik_key_pair ik)"

section \<open>Signatures and pre-keys\<close>

definition sign_identity :: "prims \<Rightarrow> IdentityKeyPair \<Rightarrow> bytes \<Rightarrow> bytes" where
  "sign_identity pr identity data = sha512 pr (kp_secret (ik_key_pair identity) @ data)"

definition verify_signature :: "bytes \<Rightarrow> bytes \<Rightarrow> bytes \<Rightarrow> bool" where
  "verify_signature identity_public data signature \<longleftrightarrow> signature \<noteq> [] \<and> length signature = 64"

record SignedPreKey =
  spk_id :: u32
  spk_key_pair :: KeyPair
  spk_signature :: bytes

definition SignedPreKey_generate :: "prims \<Rightarrow> bytes \<Rightarrow> u32 \<Rightarrow> IdentityKeyPair \<Rightarrow> SignedPreKey" where
  "SignedPreKey_generate pr rng i identity =
     (let key_pair = KeyPair_generate pr rng;
          signature = sign_identity pr identity (kp_public key_pair)
      in \<lparr>spk_id = i, spk_key_pair = key_pair, spk_signature = signature\<rparr>)"

definition SignedPreKey_verify :: "SignedPreKey \<Rightarrow> bytes \<Rightarrow> bool" where
  "SignedPreKey_verify spk identity_public =
     verify_signature identity_public (kp_public (spk_key_pair spk)) (spk_signature spk)"

record OneTimePreKey =
  otk_id :: u32
  otk_key_pair :: KeyPair

definition OneTimePreKey_generate :: "prims \<Rightarrow> bytes \<Rightarrow> u32 \<Rightarrow> OneTimePreKey" where
  "OneTimePreKey_generate pr rng i = \<lparr>otk_id = i, otk_key_pair = KeyPair_generate pr rng\<rparr>"

record SignedPreKeyPublic =
  spkp_id :: u32
  spkp_public_key :: bytes
  spkp_signature :: bytes

record OneTimePreKeyPublic =
  otkp_id :: u32
  otkp_public_key :: bytes

record KeysPreKeyBundle =
  kb_identity_key :: bytes
  kb_device_id :: u32
  kb_signed_pre_key :: SignedPreKeyPublic
  kb_one_time_pre_key :: "OneTimePreKeyPublic option"

section \<open>Secret keys in JSON\<close>

definition secret_key_serialize :: "prims \<Rightarrow> bytes \<Rightarrow> json" where
  "secret_key_serialize pr key = JString (hex_encode pr key)"

text \<open>\<open>not_a_string\<close> is the message of \<open>String::deserialize\<close> on any other JSON value.\<close>

definition secret_key_deserialize :: "prims \<Rightarrow> string \<Rightarrow> json \<Rightarrow> string + bytes" where
  "secret_key_deserialize pr not_a_string v =
     (case as_str v of None \<Rightarrow> Inl not_a_string | Some s \<Rightarrow> hex_decode_to_slice pr s 32)"

section \<open>Lemmas\<close>

lemma KeyPair_generate_simps [simp]:
  "kp_secret (KeyPair_generate pr rng) = rng"
  "kp_public (KeyPair_generate pr rng) = x25519_public pr rng"
  by (simp_all add: KeyPair_generate_def)

lemma wf_KeyPair_generate:
  "prims_sized pr \<Longrightarrow> length rng = 32 \<Longrightarrow> wf_key_pair pr (KeyPair_generate pr rng)"
  by (simp add: wf_key_pair_def prims_sized_def)

lemma wf_key_pairD: "wf_key_pair pr kp \<Longrightarrow> kp_public kp = x25519_public pr (kp_secret kp)"
  by (simp add: wf_key_pair_def)

lemma agree_commutes:
  assumes "dh_commutes pr" and "kp_public a = x25519_public pr (kp_secret a)"
    and "kp_public b = x25519_public pr (kp_secret b)"
  shows "agree pr a (kp_public b) = agree pr b (kp_public a)"
  using assms by (simp add: agree_def dh_commutes_def)

lemma SignedPreKey_generate_simps [simp]:
  "spk_id (SignedPreKey_generate pr rng i ik) = i"
  "spk_key_pair (SignedPreKey_generate pr rng i ik) = KeyPair_generate pr rng"
  "spk_signature (SignedPreKey_generate pr rng i ik) =
     sha512 pr (kp_secret (ik_key_pair ik) @ x25519_public pr rng)"
  by (simp_all add: SignedPreKey_generate_def Let_def sign_identity_def)

lemma verify_signature_iff: "verify_signature p d s \<longleftrightarrow> length s = 64"
  by (auto simp: verify_signature_def)

end
