(* ===== verification/Core_Cipher.thy ===== *)
theory Core_Cipher
  imports Core_Keys
begin

text \<open>
  \<open>tintin-core/src/cipher.rs\<close>: the two key derivations and the AEAD wrappers. The \<open>expect\<close> on the
  HKDF expansion is a panic, so the derivations are partial (\<open>None\<close>); \<open>hkdf_total\<close> rules it out.
\<close>

definition ascii_bytes :: "string \<Rightarrow> bytes" where
  "ascii_bytes s = map (\<lambda>c. word_of_nat (of_char c)) s"

definition derive_keys :: "prims \<Rightarrow> bytes \<Rightarrow> bytes \<Rightarrow> (bytes \<times> bytes) option" where
  "derive_keys pr ikm salt =
     do {
       okm \<leftarrow> hkdf_sha256 pr (Some salt) ikm (ascii_bytes ''tintin-message-keys'') 64;
       Some (take 32 okm, drop 32 okm)
     }"

definition derive_chain_keys :: "prims \<Rightarrow> bytes \<Rightarrow> bytes \<Rightarrow> (bytes \<times> bytes) option" where
  "derive_chain_keys pr root_key dh_output =
     do {
       okm \<leftarrow> hkdf_sha256 pr None root_key dh_output 64;
       Some (take 32 okm, drop 32 okm)
     }"

text \<open>\<open>encrypt\<close>; \<open>nonce\<close> is what \<open>rand::thread_rng().fill_bytes\<close> wrote.\<close>

definition encrypt :: "prims \<Rightarrow> bytes \<Rightarrow> bytes \<Rightarrow> bytes \<Rightarrow> TinTinError + (bytes \<times> bytes)" where
  "encrypt pr nonce plaintext key =
     (case chacha_encrypt pr key nonce plaintext of
        Inl e \<Rightarrow> Inl (EncryptionFailed (''ChaCha20Poly1305: '' @ e))
      | Inr ciphertext \<Rightarrow> Inr (ciphertext, nonce))"

definition decrypt :: "prims \<Rightarrow> bytes \<Rightarrow> bytes \<Rightarrow> bytes \<Rightarrow> TinTinError + bytes" where
  "decrypt pr ciphertext key nonce =
     (case chacha_decrypt pr key nonce ciphertext of
        Inl e \<Rightarrow> Inl (DecryptionFailed (''ChaCha20Poly1305: '' @ e))
      | Inr plaintext \<Rightarrow> Inr plaintext)"

section \<open>Lemmas\<close>

lemma derive_chain_keys_total:
  "hkdf_total pr \<Longrightarrow> \<exists>root chain. derive_chain_keys pr rk dh = Some (root, chain)"
proof -
  assume "hkdf_total pr"
  then obtain okm where "hkdf_sha256 pr None rk dh 64 = Some okm"
    unfolding hkdf_total_def by blast
  then show ?thesis by (simp add: derive_chain_keys_def)
qed

lemma derive_chain_keys_sized:
  assumes "prims_sized pr" and "derive_chain_keys pr rk dh = Some (root, chain)"
  shows "length root = 32" and "length chain = 32"
  using assms by (auto simp: derive_chain_keys_def prims_sized_def bind_eq_Some_conv)

lemma encrypt_InrD: "encrypt pr n p k = Inr (c, n') \<Longrightarrow> n' = n \<and> chacha_encrypt pr k n p = Inr c"
  by (auto simp: encrypt_def split: sum.splits)

lemma decrypt_encrypt:
  "aead_correct pr \<Longrightarrow> chacha_encrypt pr k n p = Inr c \<Longrightarrow> decrypt pr c k n = Inr p"
  by (simp add: aead_correct_def decrypt_def)

end
