(* ===== verification/Channel_Interface.thy ===== *)
theory Channel_Interface
  imports Tintin_Prelude
begin

text \<open>
  What the messaging layers promise to each other: two endpoints with an operation that seals a
  plaintext and one that opens a message, joined by a first-in first-out transport in each
  direction. \<open>conv\<close> is the state of such a conversation, \<open>conv_step\<close> its interleaving steps, and the
  locale \<open>duplex_channel\<close> states the laws under which every reachable conversation delivers
  exactly what was sent, in order. The Double Ratchet and the session layer interpret it.
\<close>

record ('st, 'm, 'e) conv =
  cv_a :: 'st
  cv_b :: 'st
  cv_ab :: "'m list"
  cv_ba :: "'m list"
  cv_sent_a :: "bytes list"
  cv_sent_b :: "bytes list"
  cv_got_a :: "('e + bytes) list"
  cv_got_b :: "('e + bytes) list"

definition conv_init :: "'st \<Rightarrow> 'st \<Rightarrow> ('st, 'm, 'e) conv" where
  "conv_init a b =
     \<lparr>cv_a = a, cv_b = b, cv_ab = [], cv_ba = [], cv_sent_a = [], cv_sent_b = [],
      cv_got_a = [], cv_got_b = []\<rparr>"

text \<open>
  Either side sends (drawing a nonce) or opens the oldest message waiting for it. Only a send that
  returned a message reaches the transport; a received message is logged whatever its result.
\<close>

inductive conv_step ::
  "('st \<Rightarrow> bytes \<Rightarrow> bytes \<Rightarrow> (('e + 'm) \<times> 'st) option) \<Rightarrow>
   ('st \<Rightarrow> 'm \<Rightarrow> (('e + bytes) \<times> 'st) option) \<Rightarrow>
   ('st, 'm, 'e) conv \<Rightarrow> ('st, 'm, 'e) conv \<Rightarrow> bool"
  for send recv where
  send_a: "send (cv_a s) n p = Some (Inr m, a') \<Longrightarrow>
    conv_step send recv s
      (s\<lparr>cv_a := a', cv_ab := cv_ab s @ [m], cv_sent_a := cv_sent_a s @ [p]\<rparr>)"
| send_b: "send (cv_b s) n p = Some (Inr m, b') \<Longrightarrow>
    conv_step send recv s
      (s\<lparr>cv_b := b', cv_ba := cv_ba s @ [m], cv_sent_b := cv_sent_b s @ [p]\<rparr>)"
| recv_b: "cv_ab s = m # q \<Longrightarrow> recv (cv_b s) m = Some (r, b') \<Longrightarrow>
    conv_step send recv s (s\<lparr>cv_b := b', cv_ab := q, cv_got_b := cv_got_b s @ [r]\<rparr>)"
| recv_a: "cv_ba s = m # q \<Longrightarrow> recv (cv_a s) m = Some (r, a') \<Longrightarrow>
    conv_step send recv s (s\<lparr>cv_a := a', cv_ba := q, cv_got_a := cv_got_a s @ [r]\<rparr>)"

inductive conv_reach ::
  "('st \<Rightarrow> bytes \<Rightarrow> bytes \<Rightarrow> (('e + 'm) \<times> 'st) option) \<Rightarrow>
   ('st \<Rightarrow> 'm \<Rightarrow> (('e + bytes) \<times> 'st) option) \<Rightarrow>
   ('st, 'm, 'e) conv \<Rightarrow> ('st, 'm, 'e) conv \<Rightarrow> bool"
  for send recv s0 where
  start: "conv_reach send recv s0 s0"
| step: "conv_reach send recv s0 s \<Longrightarrow> conv_step send recv s t \<Longrightarrow> conv_reach send recv s0 t"

declare conv_reach.start [intro]

inductive_cases conv_stepE: "conv_step send recv s t"

text \<open>
  \<open>linked s r q ps\<close>: the messages \<open>q\<close> are in flight from \<open>s\<close> to \<open>r\<close>, and \<open>r\<close> will open them, in
  order, to \<open>ps\<close>.
\<close>

locale duplex_channel =
  fixes send :: "'st \<Rightarrow> bytes \<Rightarrow> bytes \<Rightarrow> (('e + 'm) \<times> 'st) option"
    and recv :: "'st \<Rightarrow> 'm \<Rightarrow> (('e + bytes) \<times> 'st) option"
    and linked :: "'st \<Rightarrow> 'st \<Rightarrow> 'm list \<Rightarrow> bytes list \<Rightarrow> bool"
  assumes linked_length: "linked s r q ps \<Longrightarrow> length q = length ps"
    and send_forward: "linked s r q ps \<Longrightarrow> send s n p = Some (Inr m, s') \<Longrightarrow>
          linked s' r (q @ [m]) (ps @ [p])"
    and send_backward: "linked r s q ps \<Longrightarrow> send s n p = Some (x, s') \<Longrightarrow> linked r s' q ps"
    and recv_forward: "linked s r (m # q) (p # ps) \<Longrightarrow> recv r m = Some (y, r') \<Longrightarrow>
          y = Inr p \<and> linked s r' q ps"
    and recv_backward: "linked r s q ps \<Longrightarrow> linked s r (m # q') (p # ps') \<Longrightarrow>
          recv r m = Some (y, r') \<Longrightarrow> linked r' s q ps"
begin

definition delivered :: "'st \<Rightarrow> 'st \<Rightarrow> 'm list \<Rightarrow> bytes list \<Rightarrow> ('e + bytes) list \<Rightarrow> bool" where
  "delivered s r q sent got \<longleftrightarrow>
     (\<exists>ps. linked s r q ps \<and> (\<exists>opened. sent = opened @ ps \<and> got = map Inr opened))"

definition conv_inv :: "('st, 'm, 'e) conv \<Rightarrow> bool" where
  "conv_inv s \<longleftrightarrow>
     delivered (cv_a s) (cv_b s) (cv_ab s) (cv_sent_a s) (cv_got_b s) \<and>
     delivered (cv_b s) (cv_a s) (cv_ba s) (cv_sent_b s) (cv_got_a s)"

lemma delivered_init: "linked s r [] [] \<Longrightarrow> delivered s r [] [] []"
  by (auto simp: delivered_def)

lemma delivered_send:
  "delivered s r q sent got \<Longrightarrow> send s n p = Some (Inr m, s') \<Longrightarrow>
   delivered s' r (q @ [m]) (sent @ [p]) got"
  unfolding delivered_def by (metis append.assoc send_forward)

lemma delivered_send_back:
  "delivered r s q sent got \<Longrightarrow> send s n p = Some (x, s') \<Longrightarrow> delivered r s' q sent got"
  unfolding delivered_def using send_backward by blast

lemma delivered_ConsE:
  assumes "delivered s r (m # q) sent got"
  obtains p ps opened where "linked s r (m # q) (p # ps)" "sent = opened @ p # ps"
    "got = map Inr opened"
proof -
  from assms obtain ps opened where l: "linked s r (m # q) ps" and "sent = opened @ ps"
    "got = map Inr opened"
    unfolding delivered_def by blast
  moreover from linked_length [OF l] obtain p ps' where "ps = p # ps'"
    by (cases ps) auto
  ultimately show thesis using that by blast
qed

lemma delivered_recv:
  assumes "delivered s r (m # q) sent got" and "recv r m = Some (x, r')"
  shows "delivered s r' q sent (got @ [x])"
proof -
  from assms(1) obtain p ps opened where l: "linked s r (m # q) (p # ps)"
    and sent: "sent = opened @ p # ps" and got: "got = map Inr opened"
    by (rule delivered_ConsE)
  from recv_forward [OF l assms(2)] have x: "x = Inr p" and l': "linked s r' q ps"
    by auto
  have "sent = (opened @ [p]) @ ps" and "got @ [x] = map Inr (opened @ [p])"
    by (simp_all add: sent got x)
  with l' show ?thesis
    unfolding delivered_def by blast
qed

lemma delivered_recv_back:
  assumes "delivered r s q sent got" and "delivered s r (m # q') sent' got'"
    and "recv r m = Some (x, r')"
  shows "delivered r' s q sent got"
proof -
  from assms(2) obtain p ps opened where "linked s r (m # q') (p # ps)"
    by (rule delivered_ConsE)
  then show ?thesis
    using assms(1,3) recv_backward unfolding delivered_def by blast
qed

lemma conv_inv_step: "conv_step send recv s t \<Longrightarrow> conv_inv s \<Longrightarrow> conv_inv t"
proof (induction rule: conv_step.induct)
  case (send_a s n p m a')
  then show ?case
    by (auto simp: conv_inv_def intro: delivered_send delivered_send_back)
next
  case (send_b s n p m b')
  then show ?case
    by (auto simp: conv_inv_def intro: delivered_send delivered_send_back)
next
  case (recv_b s m q r b')
  then show ?case
    by (auto simp: conv_inv_def intro: delivered_recv delivered_recv_back)
next
  case (recv_a s m q r a')
  then show ?case
    by (auto simp: conv_inv_def intro: delivered_recv delivered_recv_back)
qed

lemma conv_inv_reach: "conv_reach send recv s0 s \<Longrightarrow> conv_inv s0 \<Longrightarrow> conv_inv s"
  by (induction rule: conv_reach.induct) (auto intro: conv_inv_step)

lemma delivered_prefix:
  "delivered s r q sent got \<Longrightarrow>
   got = map Inr (take (length got) sent) \<and> length sent = length got + length q"
  by (auto simp: delivered_def dest: linked_length)

lemma in_order_delivery:
  assumes "linked a b [] []" and "linked b a [] []"
    and "conv_reach send recv (conv_init a b) s"
  shows "cv_got_b s = map Inr (take (length (cv_got_b s)) (cv_sent_a s))"
    and "cv_got_a s = map Inr (take (length (cv_got_a s)) (cv_sent_b s))"
    and "length (cv_sent_a s) = length (cv_got_b s) + length (cv_ab s)"
    and "length (cv_sent_b s) = length (cv_got_a s) + length (cv_ba s)"
proof -
  have "conv_inv (conv_init a b)"
    using assms(1,2) by (simp add: conv_inv_def conv_init_def delivered_init)
  then have "conv_inv s"
    using assms(3) conv_inv_reach by blast
  then show "cv_got_b s = map Inr (take (length (cv_got_b s)) (cv_sent_a s))"
    and "cv_got_a s = map Inr (take (length (cv_got_a s)) (cv_sent_b s))"
    and "length (cv_sent_a s) = length (cv_got_b s) + length (cv_ab s)"
    and "length (cv_sent_b s) = length (cv_got_a s) + length (cv_ba s)"
    by (auto simp: conv_inv_def dest: delivered_prefix)
qed

end

end
