(* ===== verification/Core_Ratchet.thy ===== *)
theory Core_Ratchet
  imports Core_Cipher Channel_Interface
begin

text \<open>
  \<open>tintin-core/src/ratchet.rs\<close>: the Double Ratchet of one side of a conversation. An operation that
  the Rust code can leave by a panic (the \<open>expect\<close> of the key derivation, the checked counter
  arithmetic) returns an option; \<open>encrypt_message\<close> and \<open>decrypt_message\<close> return their \<open>Result\<close> with
  the new state, because the code advances the chain before the cipher runs.
\<close>

record Ratchet =
  r_dh_ratchet_key :: KeyPair
  r_their_ratchet_key :: bytes
  r_root_key :: bytes
  r_send_chain_key :: bytes
  r_recv_chain_key :: bytes
  r_send_msg_number :: u32
  r_recv_msg_number :: u32
  r_prev_send_count :: u32
  r_max_skip :: u32
  r_is_initiator :: bool

record RatchetedMessage =
  rm_ratchet_key :: bytes
  rm_ciphertext :: bytes
  rm_nonce :: bytes
  rm_message_number :: u32
  rm_previous_count :: u32

definition ratchet_chain_key :: "prims \<Rightarrow> bytes \<Rightarrow> bytes \<times> bytes" where
  "ratchet_chain_key pr chain_key = (sha256 pr (0x02 # chain_key), sha256 pr (0x01 # chain_key))"

definition Ratchet_new_initiator :: "prims \<Rightarrow> bytes \<Rightarrow> KeyPair \<Rightarrow> bytes \<Rightarrow> Ratchet option" where
  "Ratchet_new_initiator pr shared_secret eph_key bob_signed_pre_key =
     do {
       (root_key, chain_key) \<leftarrow> derive_chain_keys pr shared_secret (kp_public eph_key);
       Some \<lparr>r_dh_ratchet_key = eph_key, r_their_ratchet_key = bob_signed_pre_key,
             r_root_key = root_key, r_send_chain_key = chain_key,
             r_recv_chain_key = replicate 32 0, r_send_msg_number = 0, r_recv_msg_number = 0,
             r_prev_send_count = 0, r_max_skip = 100, r_is_initiator = True\<rparr>
     }"

definition Ratchet_new_responder :: "prims \<Rightarrow> bytes \<Rightarrow> bytes \<Rightarrow> KeyPair \<Rightarrow> Ratchet option" where
  "Ratchet_new_responder pr shared_secret alice_eph_public our_identity_key =
     do {
       (root_key, chain_key) \<leftarrow> derive_chain_keys pr shared_secret alice_eph_public;
       Some \<lparr>r_dh_ratchet_key = our_identity_key, r_their_ratchet_key = alice_eph_public,
             r_root_key = root_key, r_send_chain_key = replicate 32 0,
             r_recv_chain_key = chain_key, r_send_msg_number = 0, r_recv_msg_number = 0,
             r_prev_send_count = 0, r_max_skip = 100, r_is_initiator = False\<rparr>
     }"

definition next_send_key :: "prims \<Rightarrow> Ratchet \<Rightarrow> (bytes \<times> Ratchet) option" where
  "next_send_key pr r =
     (let (new_chain, msg_key) = ratchet_chain_key pr (r_send_chain_key r)
      in do {
        n \<leftarrow> add_u32 (overflow_checks pr) (r_send_msg_number r) 1;
        Some (msg_key, r\<lparr>r_send_chain_key := new_chain, r_send_msg_number := n\<rparr>)
      })"

definition next_recv_key :: "prims \<Rightarrow> Ratchet \<Rightarrow> (bytes \<times> Ratchet) option" where
  "next_recv_key pr r =
     (let (new_chain, msg_key) = ratchet_chain_key pr (r_recv_chain_key r)
      in do {
        n \<leftarrow> add_u32 (overflow_checks pr) (r_recv_msg_number r) 1;
        Some (msg_key, r\<lparr>r_recv_chain_key := new_chain, r_recv_msg_number := n\<rparr>)
      })"

definition dh_ratchet_step :: "prims \<Rightarrow> Ratchet \<Rightarrow> Ratchet option" where
  "dh_ratchet_step pr r =
     (case agree pr (r_dh_ratchet_key r) (r_their_ratchet_key r) of
        Inl e \<Rightarrow> None
      | Inr dh_output \<Rightarrow>
          do {
            (new_root, new_chain) \<leftarrow> derive_chain_keys pr (r_root_key r) dh_output;
            let r1 = r\<lparr>r_root_key := new_root\<rparr>;
            let r2 = (if r_is_initiator r1 then r1\<lparr>r_send_chain_key := new_chain\<rparr>
                      else r1\<lparr>r_recv_chain_key := new_chain\<rparr>);
            Some (r2\<lparr>r_send_msg_number := 0, r_recv_msg_number := 0\<rparr>)
          })"

definition encrypt_message ::
  "prims \<Rightarrow> Ratchet \<Rightarrow> bytes \<Rightarrow> bytes \<Rightarrow> ((TinTinError + RatchetedMessage) \<times> Ratchet) option" where
  "encrypt_message pr r nonce plaintext =
     do {
       (msg_key, r1) \<leftarrow> next_send_key pr r;
       case encrypt pr nonce plaintext msg_key of
         Inl e \<Rightarrow> Some (Inl e, r1)
       | Inr (ciphertext, nonce') \<Rightarrow>
           do {
             k \<leftarrow> sub_u32 (overflow_checks pr) (r_send_msg_number r1) 1;
             Some (Inr \<lparr>rm_ratchet_key = kp_public (r_dh_ratchet_key r1),
                        rm_ciphertext = ciphertext, rm_nonce = nonce',
                        rm_message_number = k, rm_previous_count = r_prev_send_count r1\<rparr>, r1)
           }
     }"

definition decrypt_message ::
  "prims \<Rightarrow> Ratchet \<Rightarrow> RatchetedMessage \<Rightarrow> ((TinTinError + bytes) \<times> Ratchet) option" where
  "decrypt_message pr r msg =
     do {
       r1 \<leftarrow> (if rm_ratchet_key msg \<noteq> r_their_ratchet_key r
             then dh_ratchet_step pr (r\<lparr>r_their_ratchet_key := rm_ratchet_key msg\<rparr>)
             else Some r);
       (msg_key, r2) \<leftarrow> next_recv_key pr r1;
       Some (decrypt pr (rm_ciphertext msg) msg_key (rm_nonce msg), r2)
     }"

section \<open>Chains and runs\<close>

definition next_chain_key :: "prims \<Rightarrow> bytes \<Rightarrow> bytes" where
  "next_chain_key pr ck = fst (ratchet_chain_key pr ck)"

definition message_key :: "prims \<Rightarrow> bytes \<Rightarrow> bytes" where
  "message_key pr ck = snd (ratchet_chain_key pr ck)"

text \<open>Any use a client makes of one ratchet: a sequence of encryptions and decryptions.\<close>

datatype ratchet_op = Encrypt_Op bytes bytes | Decrypt_Op RatchetedMessage

fun ratchet_do :: "prims \<Rightarrow> Ratchet \<Rightarrow> ratchet_op \<Rightarrow> Ratchet option" where
  "ratchet_do pr r (Encrypt_Op nonce p) = map_option snd (encrypt_message pr r nonce p)"
| "ratchet_do pr r (Decrypt_Op m) = map_option snd (decrypt_message pr r m)"

primrec ratchet_run :: "prims \<Rightarrow> Ratchet \<Rightarrow> ratchet_op list \<Rightarrow> Ratchet option" where
  "ratchet_run pr r [] = Some r"
| "ratchet_run pr r (x # xs) = Option.bind (ratchet_do pr r x) (\<lambda>r'. ratchet_run pr r' xs)"

fun is_encrypt :: "ratchet_op \<Rightarrow> bool" where
  "is_encrypt (Encrypt_Op n p) = True"
| "is_encrypt (Decrypt_Op m) = False"

text \<open>
  The messages \<open>q\<close>, sealed along the chain from \<open>ck\<close> to \<open>ck'\<close> under the ratchet key \<open>pub\<close>, carry the
  plaintexts \<open>ps\<close>.
\<close>

fun in_flight :: "prims \<Rightarrow> bytes \<Rightarrow> bytes \<Rightarrow> RatchetedMessage list \<Rightarrow> bytes list \<Rightarrow> bytes \<Rightarrow> bool" where
  "in_flight pr pub ck [] [] ck' = (ck' = ck)"
| "in_flight pr pub ck (m # q) (p # ps) ck' =
     (rm_ratchet_key m = pub \<and>
      chacha_encrypt pr (message_key pr ck) (rm_nonce m) p = Inr (rm_ciphertext m) \<and>
      in_flight pr pub (next_chain_key pr ck) q ps ck')"
| "in_flight pr pub ck _ _ ck' = False"

definition ratchet_linked :: "prims \<Rightarrow> Ratchet \<Rightarrow> Ratchet \<Rightarrow> RatchetedMessage list \<Rightarrow> bytes list \<Rightarrow> bool" where
  "ratchet_linked pr s r q ps \<longleftrightarrow>
     aead_correct pr \<and> r_their_ratchet_key r = kp_public (r_dh_ratchet_key s) \<and>
     in_flight pr (kp_public (r_dh_ratchet_key s)) (r_recv_chain_key r) q ps (r_send_chain_key s)"

section \<open>The symmetric step\<close>

lemma next_send_key_eq:
  "next_send_key pr r =
     map_option (\<lambda>n. (message_key pr (r_send_chain_key r),
         r\<lparr>r_send_chain_key := next_chain_key pr (r_send_chain_key r), r_send_msg_number := n\<rparr>))
       (add_u32 (overflow_checks pr) (r_send_msg_number r) 1)"
  by (cases "add_u32 (overflow_checks pr) (r_send_msg_number r) 1")
    (simp_all add: next_send_key_def ratchet_chain_key_def message_key_def next_chain_key_def)

lemma next_recv_key_eq:
  "next_recv_key pr r =
     map_option (\<lambda>n. (message_key pr (r_recv_chain_key r),
         r\<lparr>r_recv_chain_key := next_chain_key pr (r_recv_chain_key r), r_recv_msg_number := n\<rparr>))
       (add_u32 (overflow_checks pr) (r_recv_msg_number r) 1)"
  by (cases "add_u32 (overflow_checks pr) (r_recv_msg_number r) 1")
    (simp_all add: next_recv_key_def ratchet_chain_key_def message_key_def next_chain_key_def)

lemma add_u32_1_None_iff: "add_u32 c a 1 = None \<longleftrightarrow> c \<and> unat a = 2 ^ 32 - 1"
  using unsigned_less [of a, where ?'a = nat] by (auto simp: add_u32_def)

text \<open>One sending step: a panic of the counter, a cipher error, or the message and the next state.\<close>

lemma encrypt_message_eq:
  "encrypt_message pr r n p =
     (case add_u32 (overflow_checks pr) (r_send_msg_number r) 1 of
        None \<Rightarrow> None
      | Some k \<Rightarrow>
          (let r1 = r\<lparr>r_send_chain_key := next_chain_key pr (r_send_chain_key r), r_send_msg_number := k\<rparr>
           in case encrypt pr n p (message_key pr (r_send_chain_key r)) of
                Inl e \<Rightarrow> Some (Inl e, r1)
              | Inr (c, n') \<Rightarrow>
                  Some (Inr \<lparr>rm_ratchet_key = kp_public (r_dh_ratchet_key r), rm_ciphertext = c,
                             rm_nonce = n', rm_message_number = r_send_msg_number r,
                             rm_previous_count = r_prev_send_count r\<rparr>, r1)))"
  by (auto simp: encrypt_message_def next_send_key_eq Let_def add_then_sub_u32
      split: option.splits sum.splits)

lemma encrypt_message_SomeD:
  assumes "encrypt_message pr r n p = Some (x, r1)"
  shows "r1 = r\<lparr>r_send_chain_key := next_chain_key pr (r_send_chain_key r),
                r_send_msg_number := r_send_msg_number r + 1\<rparr>"
  using assms
  by (auto simp: encrypt_message_eq Let_def split: option.splits sum.splits dest!: add_u32_SomeD)

lemma encrypt_message_InrD:
  assumes "encrypt_message pr r n p = Some (Inr m, r1)"
  shows "rm_ratchet_key m = kp_public (r_dh_ratchet_key r)" and "rm_nonce m = n"
    and "chacha_encrypt pr (message_key pr (r_send_chain_key r)) n p = Inr (rm_ciphertext m)"
    and "rm_message_number m = r_send_msg_number r"
    and "rm_previous_count m = r_prev_send_count r"
  using assms
  by (auto simp: encrypt_message_eq Let_def split: option.splits sum.splits dest!: encrypt_InrD)

lemma decrypt_message_same_key:
  assumes "rm_ratchet_key m = r_their_ratchet_key r" and "decrypt_message pr r m = Some (x, r1)"
  shows "x = decrypt pr (rm_ciphertext m) (message_key pr (r_recv_chain_key r)) (rm_nonce m)"
    and "r1 = r\<lparr>r_recv_chain_key := next_chain_key pr (r_recv_chain_key r),
                r_recv_msg_number := r_recv_msg_number r + 1\<rparr>"
  using assms
  by (auto simp: decrypt_message_def next_recv_key_eq bind_eq_Some_conv dest!: add_u32_SomeD)

lemma dh_ratchet_step_responder:
  "dh_ratchet_step pr r = Some r1 \<Longrightarrow> \<not> r_is_initiator r \<Longrightarrow>
   \<not> r_is_initiator r1 \<and> r_send_chain_key r1 = r_send_chain_key r \<and>
   r_dh_ratchet_key r1 = r_dh_ratchet_key r"
  by (auto simp: dh_ratchet_step_def agree_def bind_eq_Some_conv)

lemma decrypt_message_responder:
  "decrypt_message pr r m = Some (x, r1) \<Longrightarrow> \<not> r_is_initiator r \<Longrightarrow>
   \<not> r_is_initiator r1 \<and> r_send_chain_key r1 = r_send_chain_key r"
  by (auto simp: decrypt_message_def next_recv_key_eq bind_eq_Some_conv split: if_splits
      dest!: dh_ratchet_step_responder)

section \<open>Links\<close>

lemma in_flight_length: "in_flight pr pub ck q ps ck' \<Longrightarrow> length q = length ps"
  by (induction pr pub ck q ps ck' rule: in_flight.induct) auto

lemma in_flight_snoc:
  "in_flight pr pub ck q ps ck' \<Longrightarrow> rm_ratchet_key m = pub \<Longrightarrow>
   chacha_encrypt pr (message_key pr ck') (rm_nonce m) p = Inr (rm_ciphertext m) \<Longrightarrow>
   in_flight pr pub ck (q @ [m]) (ps @ [p]) (next_chain_key pr ck')"
  by (induction pr pub ck q ps ck' rule: in_flight.induct) auto

lemma ratchet_linked_recv:
  assumes "ratchet_linked pr s r (m # q) (p # ps)" and "decrypt_message pr r m = Some (x, r1)"
  shows "x = Inr p" and "ratchet_linked pr s r1 q ps"
    and "r_dh_ratchet_key r1 = r_dh_ratchet_key r" and "r_send_chain_key r1 = r_send_chain_key r"
proof -
  have key: "rm_ratchet_key m = r_their_ratchet_key r"
    and enc: "chacha_encrypt pr (message_key pr (r_recv_chain_key r)) (rm_nonce m) p = Inr (rm_ciphertext m)"
    and aead: "aead_correct pr"
    using assms(1) by (auto simp: ratchet_linked_def)
  note d = decrypt_message_same_key [OF key assms(2)]
  show "x = Inr p"
    using decrypt_encrypt [OF aead enc] d(1) by simp
  show "ratchet_linked pr s r1 q ps"
    using assms(1) by (simp add: ratchet_linked_def d(2))
  show "r_dh_ratchet_key r1 = r_dh_ratchet_key r" "r_send_chain_key r1 = r_send_chain_key r"
    by (simp_all add: d(2))
qed

interpretation ratchet: duplex_channel "encrypt_message pr" "decrypt_message pr" "ratchet_linked pr"
  for pr
proof (unfold_locales, goal_cases)
  case (1 s r q ps)
  then show ?case by (auto simp: ratchet_linked_def dest: in_flight_length)
next
  case (2 s r q ps n p m s')
  then show ?case
    using encrypt_message_SomeD [OF 2(2)] encrypt_message_InrD [OF 2(2)]
    by (auto simp: ratchet_linked_def intro!: in_flight_snoc)
next
  case (3 r s q ps n p x s')
  then show ?case
    by (auto simp: ratchet_linked_def dest: encrypt_message_SomeD)
next
  case (4 s r m q p ps x r')
  then show ?case
    using ratchet_linked_recv(1,2) by blast
next
  case (5 r s q ps m q' p ps' x r')
  then show ?case
    using ratchet_linked_recv(3,4) [OF 5(2,3)] by (simp add: ratchet_linked_def)
qed

end
