(* ===== verification/Core_Message.thy ===== *)
theory Core_Message
  imports Core_Ratchet
begin

text \<open>
  \<open>tintin-core/src/message.rs\<close>: the wire types. Their JSON text form is produced and read by
  \<open>serde_json\<close>, so \<open>to_json\<close> and \<open>from_json\<close> call the codec record \<open>wire\<close>, a parameter; what the code
  relies on is the round trip \<open>wire_codec\<close>.
\<close>

record SessionMessage =
  sm_version :: u8
  sm_ciphertext :: bytes
  sm_nonce :: bytes
  sm_ratchet_key :: bytes
  sm_message_number :: u32

datatype MessageType = Normal | PreKeyBundleType | Receipt | Typing

record Envelope =
  env_sender_id :: string
  env_recipient_id :: string
  env_sender_device_id :: u32
  env_timestamp :: u64
  env_content :: bytes
  env_msg_type :: MessageType

datatype ReceiptType = Delivery | Read

record ReceiptContent =
  rc_receipt_type :: ReceiptType
  rc_original_sender :: string
  rc_original_timestamp :: u64

record ChatMessage =
  cm_text :: string
  cm_timestamp :: u64

record PreKeyBundleMessage =
  pkm_identity_key :: bytes
  pkm_base_key :: bytes
  pkm_session_message :: SessionMessage

record PreKeyBundle =
  pkb_identity_key :: bytes
  pkb_device_id :: u32
  pkb_signed_pre_key_id :: u32
  pkb_signed_pre_key :: bytes
  pkb_signed_pre_key_signature :: bytes
  pkb_one_time_pre_key_id :: "u32 option"
  pkb_one_time_pre_key :: "bytes option"

record RegisterRequest =
  rr_user_id :: string
  rr_identity_key :: bytes
  rr_signed_pre_key :: PreKeyBundle

record PreKeyBundleResponse =
  pbr_user_id :: string
  pbr_bundle :: PreKeyBundle
  pbr_found :: bool

text \<open>The derived serializers and deserializers of the wire types; \<open>Inl\<close> is the error text.\<close>

record wire =
  session_message_to_vec :: "SessionMessage \<Rightarrow> string + bytes"
  session_message_from_slice :: "bytes \<Rightarrow> string + SessionMessage"
  envelope_to_vec :: "Envelope \<Rightarrow> string + bytes"
  envelope_from_slice :: "bytes \<Rightarrow> string + Envelope"
  envelope_to_string :: "Envelope \<Rightarrow> string + string"
  envelope_from_str :: "string \<Rightarrow> string + Envelope"
  envelope_to_value :: "Envelope \<Rightarrow> json"
  receipt_to_vec :: "ReceiptContent \<Rightarrow> string + bytes"
  receipt_from_slice :: "bytes \<Rightarrow> string + ReceiptContent"

definition SessionMessage_to_json :: "wire \<Rightarrow> SessionMessage \<Rightarrow> string + bytes" where
  "SessionMessage_to_json w m = session_message_to_vec w m"

definition SessionMessage_from_json :: "wire \<Rightarrow> bytes \<Rightarrow> string + SessionMessage" where
  "SessionMessage_from_json w data = session_message_from_slice w data"

text \<open>\<open>now_millis\<close> is \<open>duration_since(UNIX_EPOCH).unwrap_or_default().as_millis()\<close>.\<close>

definition Envelope_new :: "nat \<Rightarrow> string \<Rightarrow> string \<Rightarrow> bytes \<Rightarrow> MessageType \<Rightarrow> Envelope" where
  "Envelope_new now_millis sender_id recipient_id content msg_type =
     \<lparr>env_sender_id = sender_id, env_recipient_id = recipient_id, env_sender_device_id = 1,
      env_timestamp = word_of_nat now_millis, env_content = content, env_msg_type = msg_type\<rparr>"

definition Envelope_to_json :: "wire \<Rightarrow> Envelope \<Rightarrow> string + bytes" where
  "Envelope_to_json w e = envelope_to_vec w e"

definition Envelope_from_json :: "wire \<Rightarrow> bytes \<Rightarrow> string + Envelope" where
  "Envelope_from_json w data = envelope_from_slice w data"

text \<open>Serializing a wire value succeeds and deserializing its text gives the value back.\<close>

definition wire_codec :: "wire \<Rightarrow> bool" where
  "wire_codec w \<longleftrightarrow>
     (\<forall>m. \<exists>b. session_message_to_vec w m = Inr b \<and> session_message_from_slice w b = Inr m) \<and>
     (\<forall>e. \<exists>b. envelope_to_vec w e = Inr b \<and> envelope_from_slice w b = Inr e) \<and>
     (\<forall>e. \<exists>s. envelope_to_string w e = Inr s \<and> envelope_from_str w s = Inr e) \<and>
     (\<forall>r. \<exists>b. receipt_to_vec w r = Inr b \<and> receipt_from_slice w b = Inr r)"

lemma Envelope_new_simps [simp]:
  "env_sender_id (Envelope_new t s r c y) = s"
  "env_recipient_id (Envelope_new t s r c y) = r"
  "env_sender_device_id (Envelope_new t s r c y) = 1"
  "env_content (Envelope_new t s r c y) = c"
  "env_msg_type (Envelope_new t s r c y) = y"
  by (simp_all add: Envelope_new_def)

end
