(* ===== verification/Table_Interfaces.thy ===== *)
theory Table_Interfaces
  imports Tintin_Prelude
begin

text \<open>
  The three kinds of container the program keeps its state in, as interfaces: a store with one entry
  per key in which adding replaces (\<open>keyed_store\<close>: the session store, and the tables written with
  \<open>INSERT OR REPLACE\<close>), a membership relation in which adding twice is adding once
  (\<open>membership\<close>: the tables written with \<open>INSERT OR IGNORE\<close>), and an append-only sequence of rows
  with a growing row id (\<open>row_sequence\<close>: the \<open>AUTOINCREMENT\<close> tables).
\<close>

locale keyed_store =
  fixes get :: "'t \<Rightarrow> 'k \<Rightarrow> 'v option"
    and add :: "'v \<Rightarrow> 't \<Rightarrow> 't"
    and remove :: "'k \<Rightarrow> 't \<Rightarrow> 't"
    and key :: "'v \<Rightarrow> 'k"
    and invar :: "'t \<Rightarrow> bool"
  assumes get_add: "invar t \<Longrightarrow> get (add v t) k = (if k = key v then Some v else get t k)"
    and get_remove: "invar t \<Longrightarrow> get (remove j t) k = (if k = j then None else get t k)"
    and get_key: "get t k = Some v \<Longrightarrow> key v = k"
    and invar_add: "invar t \<Longrightarrow> invar (add v t)"
    and invar_remove: "invar t \<Longrightarrow> invar (remove k t)"
begin

lemma add_overwrites:
  "invar t \<Longrightarrow> key v = key w \<Longrightarrow> get (add w (add v t)) k = get (add w t) k"
  by (simp add: get_add invar_add)

lemma add_commutes:
  "invar t \<Longrightarrow> key v \<noteq> key w \<Longrightarrow> get (add w (add v t)) k = get (add v (add w t)) k"
  by (simp add: get_add invar_add)

lemma remove_add: "invar t \<Longrightarrow> get (remove (key v) (add v t)) k = get (remove (key v) t) k"
  by (simp add: get_add get_remove invar_add)

lemma invar_fold_add: "invar t \<Longrightarrow> invar (fold add vs t)"
  by (induction vs arbitrary: t) (simp_all add: invar_add)

text \<open>After any sequence of additions the store holds, for each key, the last value added.\<close>

lemma get_fold_add:
  "invar t \<Longrightarrow>
   get (fold add vs t) k =
     (case find (\<lambda>v. key v = k) (rev vs) of Some v \<Rightarrow> Some v | None \<Rightarrow> get t k)"
proof (induction vs arbitrary: t)
  case Nil
  then show ?case by simp
next
  case (Cons v vs)
  then show ?case
    by (simp add: invar_add get_add find_append split: option.splits)
qed

end

locale membership =
  fixes member :: "'t \<Rightarrow> 'a \<Rightarrow> bool"
    and insert :: "'a \<Rightarrow> 't \<Rightarrow> 't"
    and delete :: "'a \<Rightarrow> 't \<Rightarrow> 't"
    and invar :: "'t \<Rightarrow> bool"
  assumes member_insert: "member (insert x t) y \<longleftrightarrow> y = x \<or> member t y"
    and member_delete: "member (delete x t) y \<longleftrightarrow> y \<noteq> x \<and> member t y"
    and insert_present: "member t x \<Longrightarrow> insert x t = t"
    and invar_insert: "invar t \<Longrightarrow> invar (insert x t)"
    and invar_delete: "invar t \<Longrightarrow> invar (delete x t)"
begin

lemma insert_idem: "insert x (insert x t) = insert x t"
  by (rule insert_present) (simp add: member_insert)

lemma member_delete_insert: "\<not> member (delete x (insert x t)) x"
  by (simp add: member_delete)

end

locale row_sequence =
  fixes ids :: "'t \<Rightarrow> int list"
    and append :: "'m \<Rightarrow> 't \<Rightarrow> (int \<times> 't) option"
    and discard :: "('r \<Rightarrow> bool) \<Rightarrow> 't \<Rightarrow> 't"
    and invar :: "'t \<Rightarrow> bool"
  assumes ids_append: "append m t = Some (i, t') \<Longrightarrow> ids t' = ids t @ [i]"
    and ids_bound: "invar t \<Longrightarrow> append m t = Some (i, t') \<Longrightarrow> j \<in> set (ids t) \<Longrightarrow> j < i"
    and ids_discard: "set (ids (discard P t)) \<subseteq> set (ids t)"
    and invar_sorted: "invar t \<Longrightarrow> sorted_wrt (<) (ids t)"
    and invar_append: "invar t \<Longrightarrow> append m t = Some (i, t') \<Longrightarrow> invar t'"
    and invar_discard: "invar t \<Longrightarrow> invar (discard P t)"
begin

lemma fresh_id: "invar t \<Longrightarrow> append m t = Some (i, t') \<Longrightarrow> i \<notin> set (ids t)"
  using ids_bound by fastforce

lemma ids_distinct: "invar t \<Longrightarrow> distinct (ids t)"
  using invar_sorted strict_sorted_iff by blast

lemma append_keeps: "append m t = Some (i, t') \<Longrightarrow> set (ids t') = insert i (set (ids t))"
  by (simp add: ids_append)

end

section \<open>Row lists\<close>

text \<open>\<open>INSERT OR REPLACE\<close>: a row with the same primary key is deleted, the new row is inserted.\<close>

definition insert_or_replace :: "('r \<Rightarrow> 'k) \<Rightarrow> 'r \<Rightarrow> 'r list \<Rightarrow> 'r list" where
  "insert_or_replace key r t = filter (\<lambda>x. key x \<noteq> key r) t @ [r]"

text \<open>\<open>INSERT OR IGNORE\<close>: nothing happens where the primary key is taken.\<close>

definition insert_or_ignore :: "('r \<Rightarrow> 'k) \<Rightarrow> 'r \<Rightarrow> 'r list \<Rightarrow> 'r list" where
  "insert_or_ignore key r t = (if key r \<in> key ` set t then t else t @ [r])"

definition delete_where :: "('r \<Rightarrow> bool) \<Rightarrow> 'r list \<Rightarrow> 'r list" where
  "delete_where P t = filter (\<lambda>x. \<not> P x) t"

definition lookup_key :: "('r \<Rightarrow> 'k) \<Rightarrow> 'r list \<Rightarrow> 'k \<Rightarrow> 'r option" where
  "lookup_key key t k = find (\<lambda>x. key x = k) t"

text \<open>A table with an \<open>INTEGER PRIMARY KEY AUTOINCREMENT\<close>: its rows and its \<open>sqlite_sequence\<close> entry.\<close>

record 'r auto_table =
  auto_rows :: "'r list"
  auto_seq :: int

definition insert_auto :: "(int \<Rightarrow> 'r) \<Rightarrow> 'r auto_table \<Rightarrow> (int \<times> 'r auto_table) option" where
  "insert_auto mk t =
     (if i64_max \<le> auto_seq t then None
      else Some (auto_seq t + 1,
                 t\<lparr>auto_rows := auto_rows t @ [mk (auto_seq t + 1)], auto_seq := auto_seq t + 1\<rparr>))"

definition auto_delete_where :: "('r \<Rightarrow> bool) \<Rightarrow> 'r auto_table \<Rightarrow> 'r auto_table" where
  "auto_delete_where P t = t\<lparr>auto_rows := delete_where P (auto_rows t)\<rparr>"

definition auto_ok :: "('r \<Rightarrow> int) \<Rightarrow> 'r auto_table \<Rightarrow> bool" where
  "auto_ok rid t \<longleftrightarrow>
     sorted_wrt (<) (map rid (auto_rows t)) \<and> (\<forall>r\<in>set (auto_rows t). 0 < rid r \<and> rid r \<le> auto_seq t) \<and>
     0 \<le> auto_seq t \<and> auto_seq t \<le> i64_max"

definition auto_empty :: "'r auto_table" where
  "auto_empty = \<lparr>auto_rows = [], auto_seq = 0\<rparr>"

lemma set_insert_or_replace:
  "set (insert_or_replace key r t) = {x \<in> set t. key x \<noteq> key r} \<union> {r}"
  by (auto simp: insert_or_replace_def)

lemma distinct_insert_or_replace:
  "distinct (map key t) \<Longrightarrow> distinct (map key (insert_or_replace key r t))"
  by (auto simp: insert_or_replace_def distinct_map_filter)

lemma distinct_insert_or_ignore:
  "distinct (map key t) \<Longrightarrow> distinct (map key (insert_or_ignore key r t))"
  by (auto simp: insert_or_ignore_def)

lemma set_insert_or_ignore:
  "set (insert_or_ignore key r t) \<subseteq> insert r (set t)"
  by (auto simp: insert_or_ignore_def)

lemma distinct_delete_where: "distinct (map key t) \<Longrightarrow> distinct (map key (delete_where P t))"
  by (simp add: delete_where_def distinct_map_filter)

lemma set_delete_where [simp]: "set (delete_where P t) = {x \<in> set t. \<not> P x}"
  by (auto simp: delete_where_def)

lemma lookup_insert_or_replace:
  "lookup_key key (insert_or_replace key r t) k = (if k = key r then Some r else lookup_key key t k)"
proof -
  have "find (\<lambda>x. key x \<noteq> key r \<and> key x = k) t = (if k = key r then None else find (\<lambda>x. key x = k) t)"
    by (induction t) auto
  then show ?thesis
    by (auto simp: lookup_key_def insert_or_replace_def find_append find_filter split: option.splits)
qed

lemma lookup_delete_where:
  "lookup_key key (delete_where (\<lambda>x. key x = j) t) k = (if k = j then None else lookup_key key t k)"
  by (induction t) (auto simp: lookup_key_def delete_where_def)

lemma lookup_key_SomeD: "lookup_key key t k = Some r \<Longrightarrow> r \<in> set t \<and> key r = k"
  by (auto simp: lookup_key_def find_Some_iff)

lemma lookup_key_unique: "distinct (map key t) \<Longrightarrow> r \<in> set t \<Longrightarrow> lookup_key key t (key r) = Some r"
  by (simp add: lookup_key_def find_key_unique)

lemma lookup_key_None: "lookup_key key t k = None \<longleftrightarrow> k \<notin> key ` set t"
  by (auto simp: lookup_key_def find_None_iff)

text \<open>Every row list keyed by a function is a keyed store under replace and delete.\<close>

interpretation row_store: keyed_store "lookup_key key" "insert_or_replace key"
  "\<lambda>k. delete_where (\<lambda>x. key x = k)" key "\<lambda>t. distinct (map key t)"
  for key :: "'r \<Rightarrow> 'k"
  by unfold_locales
    (auto simp: lookup_insert_or_replace lookup_delete_where distinct_insert_or_replace
      distinct_delete_where dest: lookup_key_SomeD)

lemma auto_ok_insert:
  "auto_ok rid t \<Longrightarrow> (\<And>i. rid (mk i) = i) \<Longrightarrow> insert_auto mk t = Some (i, t') \<Longrightarrow> auto_ok rid t'"
  by (force simp: auto_ok_def insert_auto_def sorted_wrt_snoc split: if_splits)

lemma auto_ok_delete: "auto_ok rid t \<Longrightarrow> auto_ok rid (auto_delete_where P t)"
  by (auto simp: auto_ok_def auto_delete_where_def delete_where_def sorted_wrt_filter
      sorted_wrt_map)

lemma auto_ok_empty [simp]: "auto_ok rid auto_empty"
  by (simp add: auto_ok_def auto_empty_def i64_max_def)

lemma insert_auto_SomeD:
  "insert_auto mk t = Some (i, t') \<Longrightarrow>
   i = auto_seq t + 1 \<and> auto_rows t' = auto_rows t @ [mk i] \<and> auto_seq t' = i"
  by (auto simp: insert_auto_def split: if_splits)

lemma auto_ok_distinct: "auto_ok rid t \<Longrightarrow> distinct (map rid (auto_rows t))"
  by (auto simp: auto_ok_def strict_sorted_iff)

lemma auto_ok_fresh: "auto_ok rid t \<Longrightarrow> r \<in> set (auto_rows t) \<Longrightarrow> rid r < auto_seq t + 1"
  by (auto simp: auto_ok_def)

text \<open>
  A table whose rows carry the id they are given is a row sequence, and a row list of keys under
  ignore and delete a membership relation. The tables of the store are instances of both.
\<close>

lemma row_sequence_auto:
  assumes "\<And>m i. rid (mk m i) = i"
  shows "row_sequence (\<lambda>t. map rid (auto_rows t)) (\<lambda>m. insert_auto (mk m)) auto_delete_where (auto_ok rid)"
proof (unfold_locales, goal_cases)
  case (1 m t i t')
  then show ?case using assms by (auto dest: insert_auto_SomeD)
next
  case (2 t m i t' j)
  then show ?case by (auto dest!: insert_auto_SomeD simp: auto_ok_def)
next
  case (3 P t)
  then show ?case by (auto simp: auto_delete_where_def)
next
  case (4 t)
  then show ?case by (simp add: auto_ok_def)
next
  case (5 t m i t')
  then show ?case using auto_ok_insert [of rid t "mk m"] assms by blast
next
  case (6 t P)
  then show ?case by (rule auto_ok_delete)
qed

lemma membership_rows:
  assumes "\<And>k. key (mk k) = k"
  shows "membership (\<lambda>t k. k \<in> key ` set t) (\<lambda>k. insert_or_ignore key (mk k))
           (\<lambda>k. delete_where (\<lambda>x. key x = k)) (\<lambda>t. distinct (map key t))"
  by unfold_locales
    (auto simp: assms insert_or_ignore_def intro: distinct_delete_where distinct_insert_or_ignore)

end
