(* ===== verification/Core_Session.thy ===== *)
theory Core_Session
  imports Core_Message Table_Interfaces
begin

text \<open>
  \<open>tintin-core/src/session.rs\<close>: a session wraps a ratchet with the identities of both ends, and the
  session store keeps one session per remote user and device.
\<close>

definition PROTOCOL_VERSION :: u8 where
  "PROTOCOL_VERSION = 1"

datatype SessionRole = Initiator | Responder

record Session =
  s_remote_user_id :: string
  s_remote_device_id :: u32
  s_role :: SessionRole
  s_our_identity :: IdentityKeyPair
  s_their_identity :: bytes
  s_ratchet :: Ratchet
  s_version :: u8

text \<open>\<open>rng\<close> is the secret drawn by the \<open>KeyPair::generate\<close> of the ephemeral key.\<close>

definition Session_new_initiator ::
  "prims \<Rightarrow> bytes \<Rightarrow> IdentityKeyPair \<Rightarrow> string \<Rightarrow> u32 \<Rightarrow> bytes \<Rightarrow> bytes \<Rightarrow> (TinTinError + Session) option" where
  "Session_new_initiator pr rng our_identity remote_user_id remote_device_id their_identity_key
     signed_pre_key_public =
     (let eph_key = KeyPair_generate pr rng
      in case agree pr eph_key signed_pre_key_public of
           Inl e \<Rightarrow> Some (Inl e)
         | Inr shared_secret \<Rightarrow>
             do {
               ratchet \<leftarrow> Ratchet_new_initiator pr shared_secret eph_key signed_pre_key_public;
               Some (Inr \<lparr>s_remote_user_id = remote_user_id, s_remote_device_id = remote_device_id,
                          s_role = Initiator, s_our_identity = our_identity,
                          s_their_identity = their_identity_key, s_ratchet = ratchet,
                          s_version = PROTOCOL_VERSION\<rparr>)
             })"

definition Session_new_responder ::
  "prims \<Rightarrow> IdentityKeyPair \<Rightarrow> string \<Rightarrow> u32 \<Rightarrow> bytes \<Rightarrow> bytes \<Rightarrow> SignedPreKey \<Rightarrow>
   (TinTinError + Session) option" where
  "Session_new_responder pr our_identity remote_user_id remote_device_id their_identity_key
     alice_eph_public our_signed_pre_key =
     (case agree pr (spk_key_pair our_signed_pre_key) alice_eph_public of
        Inl e \<Rightarrow> Some (Inl e)
      | Inr shared_secret \<Rightarrow>
          do {
            ratchet \<leftarrow> Ratchet_new_responder pr shared_secret alice_eph_public
                        (spk_key_pair our_signed_pre_key);
            Some (Inr \<lparr>s_remote_user_id = remote_user_id, s_remote_device_id = remote_device_id,
                       s_role = Responder, s_our_identity = our_identity,
                       s_their_identity = their_identity_key, s_ratchet = ratchet,
                       s_version = PROTOCOL_VERSION\<rparr>)
          })"

definition Session_encrypt ::
  "prims \<Rightarrow> Session \<Rightarrow> bytes \<Rightarrow> bytes \<Rightarrow> ((TinTinError + SessionMessage) \<times> Session) option" where
  "Session_encrypt pr s nonce plaintext =
     do {
       (x, ratchet) \<leftarrow> encrypt_message pr (s_ratchet s) nonce plaintext;
       let s1 = s\<lparr>s_ratchet := ratchet\<rparr>;
       Some (case x of
               Inl e \<Rightarrow> (Inl e, s1)
             | Inr ratcheted \<Rightarrow>
                 (Inr \<lparr>sm_version = s_version s1, sm_ciphertext = rm_ciphertext ratcheted,
                       sm_nonce = rm_nonce ratcheted, sm_ratchet_key = rm_ratchet_key ratcheted,
                       sm_message_number = rm_message_number ratcheted\<rparr>, s1))
     }"

definition to_ratcheted :: "SessionMessage \<Rightarrow> RatchetedMessage" where
  "to_ratcheted message =
     \<lparr>rm_ratchet_key = sm_ratchet_key message, rm_ciphertext = sm_ciphertext message,
      rm_nonce = sm_nonce message, rm_message_number = sm_message_number message,
      rm_previous_count = 0\<rparr>"

definition Session_decrypt ::
  "prims \<Rightarrow> Session \<Rightarrow> SessionMessage \<Rightarrow> ((TinTinError + bytes) \<times> Session) option" where
  "Session_decrypt pr s message =
     do {
       (x, ratchet) \<leftarrow> decrypt_message pr (s_ratchet s) (to_ratcheted message);
       Some (x, s\<lparr>s_ratchet := ratchet\<rparr>)
     }"

definition remote_id :: "Session \<Rightarrow> string" where
  "remote_id s = s_remote_user_id s"

section \<open>The session store\<close>

record SessionStore =
  ss_sessions :: "Session list"

definition SessionStore_new :: SessionStore where
  "SessionStore_new = \<lparr>ss_sessions = []\<rparr>"

definition SessionStore_get :: "SessionStore \<Rightarrow> string \<Rightarrow> u32 \<Rightarrow> Session option" where
  "SessionStore_get st remote_user_id device_id =
     find (\<lambda>s. s_remote_user_id s = remote_user_id \<and> s_remote_device_id s = device_id) (ss_sessions st)"

fun replace_first :: "('a \<Rightarrow> bool) \<Rightarrow> 'a \<Rightarrow> 'a list \<Rightarrow> 'a list" where
  "replace_first P y [] = []"
| "replace_first P y (x # xs) = (if P x then y # xs else x # replace_first P y xs)"

text \<open>
  \<open>get_mut\<close> lends the first matching session; its second component is the store after the borrower
  has written a session back.
\<close>

definition SessionStore_get_mut ::
  "SessionStore \<Rightarrow> string \<Rightarrow> u32 \<Rightarrow> (Session \<times> (Session \<Rightarrow> SessionStore)) option" where
  "SessionStore_get_mut st remote_user_id device_id =
     map_option
       (\<lambda>s. (s, \<lambda>s'. st\<lparr>ss_sessions :=
          replace_first (\<lambda>x. s_remote_user_id x = remote_user_id \<and> s_remote_device_id x = device_id) s'
            (ss_sessions st)\<rparr>))
       (SessionStore_get st remote_user_id device_id)"

definition SessionStore_add :: "Session \<Rightarrow> SessionStore \<Rightarrow> SessionStore" where
  "SessionStore_add session st =
     st\<lparr>ss_sessions :=
        filter (\<lambda>s. \<not> (s_remote_user_id s = s_remote_user_id session \<and>
                       s_remote_device_id s = s_remote_device_id session)) (ss_sessions st) @ [session]\<rparr>"

definition SessionStore_remove :: "string \<Rightarrow> u32 \<Rightarrow> SessionStore \<Rightarrow> SessionStore" where
  "SessionStore_remove remote_user_id device_id st =
     st\<lparr>ss_sessions :=
        filter (\<lambda>s. \<not> (s_remote_user_id s = remote_user_id \<and> s_remote_device_id s = device_id))
          (ss_sessions st)\<rparr>"

definition SessionStore_len :: "SessionStore \<Rightarrow> nat" where
  "SessionStore_len st = length (ss_sessions st)"

definition SessionStore_default :: SessionStore where
  "SessionStore_default = SessionStore_new"

definition session_key :: "Session \<Rightarrow> string \<times> u32" where
  "session_key s = (s_remote_user_id s, s_remote_device_id s)"

definition store_ok :: "SessionStore \<Rightarrow> bool" where
  "store_ok st \<longleftrightarrow> distinct (map session_key (ss_sessions st))"

section \<open>The store is a keyed store\<close>

lemma SessionStore_get_lookup:
  "SessionStore_get st u d = lookup_key session_key (ss_sessions st) (u, d)"
  by (simp add: SessionStore_get_def lookup_key_def session_key_def)

lemma SessionStore_add_replace:
  "ss_sessions (SessionStore_add s st) = insert_or_replace session_key s (ss_sessions st)"
  by (simp add: SessionStore_add_def insert_or_replace_def session_key_def)

lemma SessionStore_remove_delete:
  "ss_sessions (SessionStore_remove u d st) = delete_where (\<lambda>x. session_key x = (u, d)) (ss_sessions st)"
  by (simp add: SessionStore_remove_def delete_where_def session_key_def)

lemma SessionStore_eqI: "ss_sessions a = ss_sessions b \<Longrightarrow> a = b" for a b :: SessionStore
  by (cases a; cases b) simp

interpretation session_store: keyed_store
  "\<lambda>st (u, d). SessionStore_get st u d" SessionStore_add "\<lambda>(u, d). SessionStore_remove u d"
  session_key store_ok
  by unfold_locales
    (auto simp: SessionStore_get_lookup SessionStore_add_replace SessionStore_remove_delete
      store_ok_def row_store.get_add row_store.get_remove row_store.invar_add row_store.invar_remove
      dest: row_store.get_key split: prod.splits)

lemma replace_first_key:
  assumes "find P xs = Some x" and "f y = f x"
  shows "map f (replace_first P y xs) = map f xs"
  using assms by (induction xs) (auto split: if_splits)

lemma find_replace_first:
  "find P xs = Some x \<Longrightarrow> P y \<Longrightarrow> find P (replace_first P y xs) = Some y"
  by (induction xs) (auto split: if_splits)

lemma find_replace_first_other:
  "find P xs = Some x \<Longrightarrow> P y \<Longrightarrow> (\<And>z. Q z \<Longrightarrow> \<not> P z) \<Longrightarrow>
   find Q (replace_first P y xs) = find Q xs"
  by (induction xs) (auto split: if_splits)

section \<open>Sessions are linked like their ratchets\<close>

definition session_linked :: "prims \<Rightarrow> Session \<Rightarrow> Session \<Rightarrow> SessionMessage list \<Rightarrow> bytes list \<Rightarrow> bool" where
  "session_linked pr s r q ps \<longleftrightarrow>
     ratchet_linked pr (s_ratchet s) (s_ratchet r) (map to_ratcheted q) ps"

lemma Session_encrypt_SomeD:
  assumes "Session_encrypt pr s n p = Some (x, s1)"
  obtains y where "encrypt_message pr (s_ratchet s) n p = Some (y, s_ratchet s1)"
    and "s1 = s\<lparr>s_ratchet := s_ratchet s1\<rparr>"
proof (cases "encrypt_message pr (s_ratchet s) n p")
  case (Some yr)
  then show thesis
    using assms that by (cases yr; cases "fst yr") (auto simp: Session_encrypt_def Let_def)
qed (use assms in \<open>simp add: Session_encrypt_def\<close>)

lemma Session_encrypt_InrD:
  assumes "Session_encrypt pr s n p = Some (Inr m, s1)"
  obtains rm where "encrypt_message pr (s_ratchet s) n p = Some (Inr rm, s_ratchet s1)"
    and "to_ratcheted m = rm\<lparr>rm_previous_count := 0\<rparr>" and "sm_version m = s_version s"
proof (cases "encrypt_message pr (s_ratchet s) n p")
  case (Some yr)
  then show thesis
    using assms that
    by (cases yr; cases "fst yr") (auto simp: Session_encrypt_def Let_def to_ratcheted_def)
qed (use assms in \<open>simp add: Session_encrypt_def\<close>)

lemma Session_decrypt_SomeD:
  "Session_decrypt pr s m = Some (x, s1) \<Longrightarrow>
   decrypt_message pr (s_ratchet s) (to_ratcheted m) = Some (x, s_ratchet s1)"
  by (auto simp: Session_decrypt_def bind_eq_Some_conv)

lemma in_flight_previous_count:
  "in_flight pr pub ck (q @ [m]) ps ck' \<Longrightarrow>
   in_flight pr pub ck (q @ [m\<lparr>rm_previous_count := c\<rparr>]) ps ck'"
proof (induction q arbitrary: ck ps)
  case Nil
  then show ?case by (cases ps) auto
next
  case (Cons x q)
  then show ?case by (cases ps) auto
qed

interpretation session: duplex_channel "Session_encrypt pr" "Session_decrypt pr" "session_linked pr"
  for pr
proof (unfold_locales, goal_cases)
  case (1 s r q ps)
  then show ?case
    unfolding session_linked_def using ratchet.linked_length by fastforce
next
  case (2 s r q ps n p m s')
  from 2(2) obtain rm where e: "encrypt_message pr (s_ratchet s) n p = Some (Inr rm, s_ratchet s')"
    and m: "to_ratcheted m = rm\<lparr>rm_previous_count := 0\<rparr>"
    by (rule Session_encrypt_InrD)
  from ratchet.send_forward [OF 2(1) [unfolded session_linked_def] e] show ?case
    by (auto simp: session_linked_def ratchet_linked_def m intro: in_flight_previous_count)
next
  case (3 r s q ps n p x s')
  from 3(2) obtain y where e: "encrypt_message pr (s_ratchet s) n p = Some (y, s_ratchet s')"
    by (rule Session_encrypt_SomeD)
  from ratchet.send_backward [OF 3(1) [unfolded session_linked_def] e] show ?case
    by (simp add: session_linked_def)
next
  case (4 s r m q p ps x r')
  then show ?case
    using ratchet.recv_forward Session_decrypt_SomeD by (fastforce simp: session_linked_def)
next
  case (5 r s q ps m q' p ps' x r')
  from 5(2) have "ratchet_linked pr (s_ratchet s) (s_ratchet r) (to_ratcheted m # map to_ratcheted q') (p # ps')"
    by (simp add: session_linked_def)
  with 5(1,3) show ?case
    using ratchet.recv_backward Session_decrypt_SomeD unfolding session_linked_def by blast
qed

end
