(* ===== verification/Core_Properties.thy ===== *)
theory Core_Properties
  imports Core_Session
begin

text \<open>
  What the core library guarantees, from the interpretations of \<open>Core_Ratchet\<close> and \<open>Core_Session\<close>:
  delivery of a conversation, progress of the receiver, numbering, the
  session store, and what the code does not protect (the responder's sending chain, signatures,
  the position of a message). \<open>demo_prims\<close> is one instance of the primitives, used to evaluate the
  statements on concrete values.
\<close>

section \<open>A concrete instance of the primitives\<close>

definition pad :: "nat \<Rightarrow> bytes \<Rightarrow> bytes" where
  "pad n s = take n (s @ replicate n 0)"

definition demo_prims :: prims where
  "demo_prims =
     \<lparr>overflow_checks = True,
      x25519_public = pad 32,
      x25519_dh = (\<lambda>s p. map2 (+) (pad 32 s) (pad 32 p)),
      sha256 = pad 32,
      sha512 = pad 64,
      hkdf_sha256 = (\<lambda>salt ikm info n. Some (pad n (ikm @ info))),
      chacha_encrypt = (\<lambda>k n p. Inr (k @ p)),
      chacha_decrypt = (\<lambda>k n c. if take (length k) c = k then Inr (drop (length k) c) else Inl ''aead::Error''),
      hex_encode = (\<lambda>b. map (\<lambda>x. char_of (unat x)) b),
      hex_decode_to_slice = (\<lambda>s n. if length s = n then Inr (map (\<lambda>c. word_of_nat (of_char c)) s)
                                    else Inl ''Invalid string length'')\<rparr>"

lemma length_pad [simp]: "length (pad n s) = n"
  by (simp add: pad_def)

lemma pad_pad [simp]: "pad n (pad n s) = pad n s"
  by (simp add: pad_def)

lemma demo_dh_commutes: "dh_commutes demo_prims"
proof -
  have comm: "map2 (+) a b = map2 (+) b a" for a b :: bytes
    by (rule nth_equalityI) (auto simp: add.commute)
  show ?thesis
    by (auto simp: dh_commutes_def demo_prims_def intro: comm)
qed

lemma demo_aead_correct: "aead_correct demo_prims"
  by (simp add: aead_correct_def demo_prims_def)

lemma demo_hkdf_total: "hkdf_total demo_prims"
  by (simp add: hkdf_total_def demo_prims_def)

lemma demo_prims_sized: "prims_sized demo_prims"
  by (simp add: prims_sized_def demo_prims_def)

lemmas demo_laws = demo_dh_commutes demo_aead_correct demo_hkdf_total demo_prims_sized

section \<open>The handshake\<close>

lemma Session_new_initiator_InrD:
  assumes "Session_new_initiator pr rng ik u d their spk_pub = Some (Inr a)"
  obtains root chain where
    "derive_chain_keys pr (x25519_dh pr rng spk_pub) (x25519_public pr rng) = Some (root, chain)"
    "r_dh_ratchet_key (s_ratchet a) = KeyPair_generate pr rng" "r_their_ratchet_key (s_ratchet a) = spk_pub"
    "r_send_chain_key (s_ratchet a) = chain" "r_recv_chain_key (s_ratchet a) = replicate 32 0"
    "r_send_msg_number (s_ratchet a) = 0" "r_recv_msg_number (s_ratchet a) = 0"
    "session_key a = (u, d)"
  using assms
  by (auto simp: Session_new_initiator_def Let_def agree_def Ratchet_new_initiator_def
      session_key_def bind_eq_Some_conv)

lemma Session_new_responder_InrD:
  assumes "Session_new_responder pr ik u d their eph spk = Some (Inr b)"
  obtains root chain where
    "derive_chain_keys pr (x25519_dh pr (kp_secret (spk_key_pair spk)) eph) eph = Some (root, chain)"
    "r_dh_ratchet_key (s_ratchet b) = spk_key_pair spk" "r_their_ratchet_key (s_ratchet b) = eph"
    "r_send_chain_key (s_ratchet b) = replicate 32 0" "r_recv_chain_key (s_ratchet b) = chain"
    "r_send_msg_number (s_ratchet b) = 0" "r_recv_msg_number (s_ratchet b) = 0"
    "session_key b = (u, d)"
  using assms
  by (auto simp: Session_new_responder_def agree_def Ratchet_new_responder_def
      session_key_def bind_eq_Some_conv)

text \<open>
  A session pair made the way the clients make it: Alice from Bob's published pre-key, Bob from the
  ephemeral key Alice's first message carries.
\<close>

definition handshake ::
  "prims \<Rightarrow> bytes \<Rightarrow> IdentityKeyPair \<Rightarrow> IdentityKeyPair \<Rightarrow> SignedPreKey \<Rightarrow> (string \<times> string) \<Rightarrow>
   (Session \<times> Session) option" where
  "handshake pr rng alice_id bob_id bob_spk names =
     (case Session_new_initiator pr rng alice_id (snd names) 1 (public_key bob_id)
             (kp_public (spk_key_pair bob_spk)) of
        Some (Inr a) \<Rightarrow>
          (case Session_new_responder pr bob_id (fst names) 1 (public_key alice_id)
                  (kp_public (r_dh_ratchet_key (s_ratchet a))) bob_spk of
             Some (Inr b) \<Rightarrow> Some (a, b)
           | _ \<Rightarrow> None)
      | _ \<Rightarrow> None)"

lemma handshake_SomeD:
  assumes "handshake pr rng ia ib spk names = Some (a, b)"
  shows "Session_new_initiator pr rng ia (snd names) 1 (public_key ib) (kp_public (spk_key_pair spk)) = Some (Inr a)"
    and "Session_new_responder pr ib (fst names) 1 (public_key ia)
           (kp_public (r_dh_ratchet_key (s_ratchet a))) spk = Some (Inr b)"
  using assms by (auto simp: handshake_def split: option.splits sum.splits)

lemma handshake_linked:
  assumes "dh_commutes pr" and "aead_correct pr"
    and "kp_public (spk_key_pair spk) = x25519_public pr (kp_secret (spk_key_pair spk))"
    and "handshake pr rng ia ib spk names = Some (a, b)"
  shows "session_linked pr a b [] []" and "session_linked pr b a [] []"
proof -
  note h = handshake_SomeD [OF assms(4)]
  from h(1) obtain root chain where
    ca: "derive_chain_keys pr (x25519_dh pr rng (kp_public (spk_key_pair spk))) (x25519_public pr rng) = Some (root, chain)"
    and a: "r_dh_ratchet_key (s_ratchet a) = KeyPair_generate pr rng"
      "r_their_ratchet_key (s_ratchet a) = kp_public (spk_key_pair spk)"
      "r_send_chain_key (s_ratchet a) = chain" "r_recv_chain_key (s_ratchet a) = replicate 32 0"
    by (rule Session_new_initiator_InrD)
  from h(2) obtain root' chain' where
    cb: "derive_chain_keys pr (x25519_dh pr (kp_secret (spk_key_pair spk)) (x25519_public pr rng))
           (x25519_public pr rng) = Some (root', chain')"
    and b: "r_dh_ratchet_key (s_ratchet b) = spk_key_pair spk"
      "r_their_ratchet_key (s_ratchet b) = x25519_public pr rng"
      "r_send_chain_key (s_ratchet b) = replicate 32 0" "r_recv_chain_key (s_ratchet b) = chain'"
    by (rule Session_new_responder_InrD) (simp_all add: a)
  have "x25519_dh pr rng (kp_public (spk_key_pair spk)) =
        x25519_dh pr (kp_secret (spk_key_pair spk)) (x25519_public pr rng)"
    using assms(1,3) by (simp add: dh_commutes_def)
  with ca cb have "chain = chain'" by simp
  with assms(2) a b show "session_linked pr a b [] []" and "session_linked pr b a [] []"
    by (simp_all add: session_linked_def ratchet_linked_def)
qed

section \<open>Delivery\<close>

definition demo_spk :: SignedPreKey where
  "demo_spk = \<lparr>spk_id = 1, spk_key_pair = KeyPair_generate demo_prims [3], spk_signature = []\<rparr>"

definition demo_identity :: "u8 \<Rightarrow> IdentityKeyPair" where
  "demo_identity x = IdentityKeyPair_generate demo_prims [x]"

definition demo_pair :: "(Session \<times> Session) option" where
  "demo_pair = handshake demo_prims [5] (demo_identity 1) (demo_identity 2) demo_spk (''alice'', ''bob'')"

text \<open>
  Property C3. Conversation safety. Take any session pair made by the handshake (Alice as initiator
  from Bob's signed pre-key, Bob as responder from Alice's ephemeral key) and any interleaving of
  sends and in-order receipts in both directions. Every message a side has opened gave exactly the
  plaintext the other side sealed, in the order it was sealed, and a message is neither lost nor
  duplicated: what was sent is what was opened plus what is in flight.
\<close>

theorem session_conversation_delivers:
  assumes "dh_commutes pr" and "aead_correct pr"
    and "kp_public (spk_key_pair spk) = x25519_public pr (kp_secret (spk_key_pair spk))"
    and "handshake pr rng ia ib spk names = Some (a, b)"
    and "conv_reach (Session_encrypt pr) (Session_decrypt pr) (conv_init a b) s"
  shows "cv_got_b s = map Inr (take (length (cv_got_b s)) (cv_sent_a s)) \<and>
         cv_got_a s = map Inr (take (length (cv_got_a s)) (cv_sent_b s)) \<and>
         length (cv_sent_a s) = length (cv_got_b s) + length (cv_ab s) \<and>
         length (cv_sent_b s) = length (cv_got_a s) + length (cv_ba s)"
  using session.in_order_delivery [OF handshake_linked [OF assms(1-4)] assms(5)] by blast

lemma demo_pair_Some:
  obtains a b where "demo_pair = Some (a, b)"
    "r_send_msg_number (s_ratchet a) = 0" "r_recv_msg_number (s_ratchet b) = 0"
proof -
  have "demo_pair \<noteq> None"
    by (simp add: demo_pair_def handshake_def Session_new_initiator_def Session_new_responder_def
        agree_def Ratchet_new_initiator_def Ratchet_new_responder_def derive_chain_keys_def
        demo_prims_def Let_def)
  then obtain a b where ab: "demo_pair = Some (a, b)" by auto
  note h = handshake_SomeD [OF ab [unfolded demo_pair_def]]
  from h(1) have "r_send_msg_number (s_ratchet a) = 0"
    by (rule Session_new_initiator_InrD)
  moreover from h(2) have "r_recv_msg_number (s_ratchet b) = 0"
    by (rule Session_new_responder_InrD)
  ultimately show thesis using ab that by blast
qed

lemma demo_spk_wf:
  "kp_public (spk_key_pair demo_spk) = x25519_public demo_prims (kp_secret (spk_key_pair demo_spk))"
  by (simp add: demo_spk_def)

text \<open>The receiver is never stuck: unless its checked counter is exhausted, the next message opens.\<close>

lemma session_recv_ready:
  assumes "session_linked pr s r (m # q) (p # ps)"
    and "\<not> overflow_checks pr \<or> unat (r_recv_msg_number (s_ratchet r)) \<noteq> 2 ^ 32 - 1"
  obtains r' where "Session_decrypt pr r m = Some (Inr p, r')"
proof -
  obtain n where "add_u32 (overflow_checks pr) (r_recv_msg_number (s_ratchet r)) 1 = Some n"
    using assms(2) add_u32_1_None_iff by (cases "add_u32 (overflow_checks pr) (r_recv_msg_number (s_ratchet r)) 1") auto
  moreover have "rm_ratchet_key (to_ratcheted m) = r_their_ratchet_key (s_ratchet r)"
    using assms(1) by (simp add: session_linked_def ratchet_linked_def)
  ultimately obtain x r' where d: "Session_decrypt pr r m = Some (x, r')"
    by (simp add: Session_decrypt_def decrypt_message_def next_recv_key_eq)
  with session.recv_forward [OF assms(1)] have "x = Inr p" by blast
  with d that show thesis by blast
qed

lemma session_send_ready:
  assumes "\<not> overflow_checks pr \<or> unat (r_send_msg_number (s_ratchet s)) \<noteq> 2 ^ 32 - 1"
    and "chacha_encrypt pr (message_key pr (r_send_chain_key (s_ratchet s))) n p = Inr c"
  obtains m s' where "Session_encrypt pr s n p = Some (Inr m, s')"
proof -
  obtain k where "add_u32 (overflow_checks pr) (r_send_msg_number (s_ratchet s)) 1 = Some k"
    using assms(1) add_u32_1_None_iff by (cases "add_u32 (overflow_checks pr) (r_send_msg_number (s_ratchet s)) 1") auto
  with assms(2) that show thesis
    by (simp add: Session_encrypt_def encrypt_message_eq encrypt_def Let_def)
qed

text \<open>A concrete conversation: Alice sends one message and Bob opens it.\<close>

lemma demo_conversation:
  obtains a b s where "demo_pair = Some (a, b)"
    "conv_reach (Session_encrypt demo_prims) (Session_decrypt demo_prims) (conv_init a b) s"
    "cv_sent_a s = [[104, 105]]" "cv_got_b s = [Inr [104, 105]]"
proof -
  let ?send = "Session_encrypt demo_prims" and ?recv = "Session_decrypt demo_prims"
  obtain a b where ab: "demo_pair = Some (a, b)" and za: "r_send_msg_number (s_ratchet a) = 0"
    and zb: "r_recv_msg_number (s_ratchet b) = 0"
    by (rule demo_pair_Some)
  have enc: "chacha_encrypt demo_prims k n p = Inr (k @ p)" for k n p
    by (simp add: demo_prims_def)
  from za enc obtain m a' where e: "?send a [1] [104, 105] = Some (Inr m, a')"
    using session_send_ready [of demo_prims a "[1]" "[104, 105]"] by force
  let ?s1 = "(conv_init a b)\<lparr>cv_a := a', cv_ab := [m], cv_sent_a := [[104, 105]]\<rparr>"
  have 1: "conv_step ?send ?recv (conv_init a b) ?s1"
    using conv_step.send_a [of ?send "conv_init a b" "[1]" "[104, 105]" m a' ?recv] e
    by (simp add: conv_init_def)
  have "session_linked demo_prims a' b ([] @ [m]) ([] @ [[104, 105]])"
    using session.send_forward [OF handshake_linked(1) [OF demo_dh_commutes demo_aead_correct
        demo_spk_wf ab [unfolded demo_pair_def]] e] .
  then obtain b' where d: "?recv b m = Some (Inr [104, 105], b')"
    using session_recv_ready [of demo_prims a' b m "[]" "[104, 105]" "[]"] zb by force
  have 2: "conv_step ?send ?recv ?s1 (?s1\<lparr>cv_b := b', cv_ab := [], cv_got_b := [Inr [104, 105]]\<rparr>)"
    using conv_step.recv_b [of ?s1 m "[]" ?recv "Inr [104, 105]" b' ?send] d
    by (simp add: conv_init_def)
  show thesis
    by (rule that [OF ab conv_reach.step [OF conv_reach.step [OF conv_reach.start 1] 2]]) simp_all
qed

theorem session_conversation_delivers_witness:
  "\<exists>a b (s :: (Session, SessionMessage, TinTinError) conv). demo_pair = Some (a, b) \<and>
     cv_got_b s = [Inr [104, 105]] \<and>
     cv_got_b s = map Inr (take (length (cv_got_b s)) (cv_sent_a s))"
proof -
  obtain a b s where ab: "demo_pair = Some (a, b)"
    and reach: "conv_reach (Session_encrypt demo_prims) (Session_decrypt demo_prims) (conv_init a b) s"
    and got: "cv_got_b s = [Inr [104, 105]]"
    by (rule demo_conversation)
  from session_conversation_delivers [OF demo_dh_commutes demo_aead_correct demo_spk_wf
      ab [unfolded demo_pair_def] reach] ab got
  show ?thesis by blast
qed

text \<open>
  Property C10. Progress of a conversation. In every reachable conversation with a message in flight
  to Bob, Bob's next decryption succeeds and yields exactly the oldest plaintext not yet opened,
  unless the build checks overflow and Bob has already received \<open>2\<^sup>3\<^sup>2 - 1\<close> messages on the chain.
\<close>

theorem session_pending_message_opens:
  assumes "dh_commutes pr" and "aead_correct pr"
    and "kp_public (spk_key_pair spk) = x25519_public pr (kp_secret (spk_key_pair spk))"
    and "handshake pr rng ia ib spk names = Some (a, b)"
    and "conv_reach (Session_encrypt pr) (Session_decrypt pr) (conv_init a b) s"
    and "cv_ab s = m # q"
    and "\<not> overflow_checks pr \<or> unat (r_recv_msg_number (s_ratchet (cv_b s))) \<noteq> 2 ^ 32 - 1"
  shows "\<exists>b'. Session_decrypt pr (cv_b s) m = Some (Inr (cv_sent_a s ! length (cv_got_b s)), b')"
proof -
  have "session.conv_inv pr (conv_init a b)"
    using handshake_linked [OF assms(1-4)]
    by (simp add: session.conv_inv_def conv_init_def session.delivered_init)
  then have "session.delivered pr (cv_a s) (cv_b s) (m # q) (cv_sent_a s) (cv_got_b s)"
    using session.conv_inv_reach [OF assms(5)] assms(6) by (simp add: session.conv_inv_def)
  then obtain p ps opened where l: "session_linked pr (cv_a s) (cv_b s) (m # q) (p # ps)"
    and "cv_sent_a s = opened @ p # ps" "cv_got_b s = map Inr opened"
    by (rule session.delivered_ConsE)
  then have p: "cv_sent_a s ! length (cv_got_b s) = p" by simp
  from l assms(7) obtain b' where "Session_decrypt pr (cv_b s) m = Some (Inr p, b')"
    by (rule session_recv_ready)
  with p show ?thesis by blast
qed

lemma demo_in_flight:
  obtains a b s m where "demo_pair = Some (a, b)"
    "conv_reach (Session_encrypt demo_prims) (Session_decrypt demo_prims) (conv_init a b) s"
    "cv_ab s = [m]" "cv_sent_a s = [[104]]" "cv_got_b s = []"
    "r_recv_msg_number (s_ratchet (cv_b s)) = 0"
proof -
  let ?send = "Session_encrypt demo_prims" and ?recv = "Session_decrypt demo_prims"
  obtain a b where ab: "demo_pair = Some (a, b)" and za: "r_send_msg_number (s_ratchet a) = 0"
    and zb: "r_recv_msg_number (s_ratchet b) = 0"
    by (rule demo_pair_Some)
  have "chacha_encrypt demo_prims k n p = Inr (k @ p)" for k n p
    by (simp add: demo_prims_def)
  with za obtain m a' where e: "?send a [1] [104] = Some (Inr m, a')"
    using session_send_ready [of demo_prims a "[1]" "[104]"] by force
  have 1: "conv_step ?send ?recv (conv_init a b)
      ((conv_init a b)\<lparr>cv_a := a', cv_ab := [m], cv_sent_a := [[104]]\<rparr>)"
    using conv_step.send_a [of ?send "conv_init a b" "[1]" "[104]" m a' ?recv] e
    by (simp add: conv_init_def)
  show thesis
    by (rule that [OF ab conv_reach.step [OF conv_reach.start 1]]) (simp_all add: conv_init_def zb)
qed

theorem session_pending_message_opens_witness:
  "\<exists>a b m b' s. demo_pair = Some (a, b) \<and> cv_ab s = [m] \<and>
     Session_decrypt demo_prims (cv_b (s :: (Session, SessionMessage, TinTinError) conv)) m = Some (Inr [104], b')"
proof -
  obtain a b s m where ab: "demo_pair = Some (a, b)"
    and r: "conv_reach (Session_encrypt demo_prims) (Session_decrypt demo_prims) (conv_init a b) s"
    and q: "cv_ab s = [m]" and s: "cv_sent_a s = [[104]]" "cv_got_b s = []"
    and z: "r_recv_msg_number (s_ratchet (cv_b s)) = 0"
    by (rule demo_in_flight)
  have "\<not> overflow_checks demo_prims \<or> unat (r_recv_msg_number (s_ratchet (cv_b s))) \<noteq> 2 ^ 32 - 1"
    by (simp add: z)
  from session_pending_message_opens [OF demo_dh_commutes demo_aead_correct demo_spk_wf
      ab [unfolded demo_pair_def] r q this] ab q s
  show ?thesis by auto
qed

lemma handshake_completes:
  assumes "dh_commutes pr" and "hkdf_total pr"
    and "kp_public (spk_key_pair spk) = x25519_public pr (kp_secret (spk_key_pair spk))"
  shows "\<exists>a b. handshake pr rng ia ib spk (alice, bob) = Some (a, b) \<and>
           session_key a = (bob, 1) \<and> session_key b = (alice, 1) \<and>
           r_send_chain_key (s_ratchet a) = r_recv_chain_key (s_ratchet b) \<and>
           r_root_key (s_ratchet a) = r_root_key (s_ratchet b) \<and>
           s_role a = Initiator \<and> s_role b = Responder"
proof -
  obtain root chain where
    d: "derive_chain_keys pr (x25519_dh pr rng (kp_public (spk_key_pair spk))) (x25519_public pr rng) = Some (root, chain)"
    using derive_chain_keys_total [OF assms(2)] by blast
  have "x25519_dh pr (kp_secret (spk_key_pair spk)) (x25519_public pr rng) =
        x25519_dh pr rng (kp_public (spk_key_pair spk))"
    using assms(1,3) by (simp add: dh_commutes_def)
  with d show ?thesis
    by (simp add: handshake_def Session_new_initiator_def Session_new_responder_def agree_def
        Ratchet_new_initiator_def Ratchet_new_responder_def Let_def session_key_def)
qed

text \<open>
  The handshake completes. If the key derivation accepts its fixed 64-byte output, both
  session constructors return a session (no panic, no error), the sessions are filed under the peer's
  name and device 1, and the two ratchets hold the same chain: Alice's sending chain is Bob's
  receiving chain.
\<close>

theorem session_handshake_completes:
  assumes "dh_commutes pr" and "hkdf_total pr"
    and "kp_public (spk_key_pair spk) = x25519_public pr (kp_secret (spk_key_pair spk))"
  shows "\<exists>a b. handshake pr rng ia ib spk (alice, bob) = Some (a, b) \<and>
           session_key a = (bob, 1) \<and> session_key b = (alice, 1) \<and>
           r_send_chain_key (s_ratchet a) = r_recv_chain_key (s_ratchet b) \<and>
           r_root_key (s_ratchet a) = r_root_key (s_ratchet b) \<and>
           s_role a = Initiator \<and> s_role b = Responder"
  using assms by (rule handshake_completes)

theorem session_handshake_completes_witness:
  "\<exists>a b. handshake demo_prims [5] (demo_identity 1) (demo_identity 2) demo_spk (''alice'', ''bob'') = Some (a, b) \<and>
     session_key a = (''bob'', 1) \<and> r_send_chain_key (s_ratchet a) = r_recv_chain_key (s_ratchet b)"
  using session_handshake_completes [OF demo_dh_commutes demo_hkdf_total demo_spk_wf,
      of "[5]" "demo_identity 1" "demo_identity 2" "''alice''" "''bob''"] by blast

section \<open>The responder's sending chain\<close>

lemma responder_do:
  "ratchet_do pr r x = Some r' \<Longrightarrow> \<not> r_is_initiator r \<Longrightarrow>
   \<not> r_is_initiator r' \<and>
   r_send_chain_key r' = (if is_encrypt x then next_chain_key pr (r_send_chain_key r) else r_send_chain_key r)"
  by (cases x) (auto dest: encrypt_message_SomeD decrypt_message_responder)

lemma responder_run:
  "ratchet_run pr r xs = Some r' \<Longrightarrow> \<not> r_is_initiator r \<Longrightarrow>
   r_send_chain_key r' = (next_chain_key pr ^^ length (filter is_encrypt xs)) (r_send_chain_key r)"
proof (induction xs arbitrary: r)
  case Nil
  then show ?case by simp
next
  case (Cons x xs)
  then obtain r1 where x: "ratchet_do pr r x = Some r1" and xs: "ratchet_run pr r1 xs = Some r'"
    by (auto simp: bind_eq_Some_conv)
  from responder_do [OF x Cons.prems(2)] Cons.IH [OF xs]
  show ?case by (auto simp: funpow_swap1)
qed

text \<open>
  Property C25. The responder's messages are readable by anyone. Whatever secrets went into the
  handshake and whatever the responder has sent and received before, the key of its next message is
  a fixed public value: the message key after as many chain steps as it has made encryptions,
  starting from thirty-two zero bytes. An eavesdropper who counts messages decrypts it without any key.
\<close>

theorem responder_messages_public:
  assumes "aead_correct pr"
    and "Ratchet_new_responder pr shared_secret alice_eph kp = Some r0"
    and "ratchet_run pr r0 xs = Some r"
    and "encrypt_message pr r n p = Some (Inr m, r')"
  shows "decrypt pr (rm_ciphertext m)
           (message_key pr ((next_chain_key pr ^^ length (filter is_encrypt xs)) (replicate 32 0)))
           (rm_nonce m) = Inr p"
proof -
  have r0: "\<not> r_is_initiator r0" "r_send_chain_key r0 = replicate 32 0"
    using assms(2) by (auto simp: Ratchet_new_responder_def bind_eq_Some_conv)
  have "r_send_chain_key r = (next_chain_key pr ^^ length (filter is_encrypt xs)) (replicate 32 0)"
    using responder_run [OF assms(3) r0(1)] r0(2) by simp
  with encrypt_message_InrD(2,3) [OF assms(4)] decrypt_encrypt [OF assms(1)]
  show ?thesis by metis
qed

lemma demo_responder:
  obtains r0 m r' where "Ratchet_new_responder demo_prims [1] [2] (KeyPair_generate demo_prims [3]) = Some r0"
    "encrypt_message demo_prims r0 [9] [42] = Some (Inr m, r')"
proof -
  let ?kp = "KeyPair_generate demo_prims [3]"
  obtain root chain where d: "derive_chain_keys demo_prims [1] [2] = Some (root, chain)"
    using derive_chain_keys_total [OF demo_hkdf_total] by blast
  then obtain r0 where r0: "Ratchet_new_responder demo_prims [1] [2] ?kp = Some r0"
    and z: "r_send_msg_number r0 = 0"
    by (simp add: Ratchet_new_responder_def)
  have "encrypt demo_prims n p k = Inr (k @ p, n)" for n p k
    by (simp add: encrypt_def demo_prims_def)
  with z obtain m r' where "encrypt_message demo_prims r0 [9] [42] = Some (Inr m, r')"
    by (simp add: encrypt_message_eq add_u32_def Let_def)
  with r0 that show thesis by blast
qed

theorem responder_messages_public_witness:
  "\<exists>m :: RatchetedMessage. decrypt demo_prims (rm_ciphertext m) (message_key demo_prims (replicate 32 0)) (rm_nonce m) = Inr [42]"
proof -
  obtain r0 m r' where r: "Ratchet_new_responder demo_prims [1] [2] (KeyPair_generate demo_prims [3]) = Some r0"
    and e: "encrypt_message demo_prims r0 [9] [42] = Some (Inr m, r')"
    by (rule demo_responder)
  have "ratchet_run demo_prims r0 [] = Some r0" by simp
  from responder_messages_public [OF demo_aead_correct r this e] show ?thesis by auto
qed

section \<open>Numbering, and what a message does to the receiver\<close>

definition demo_ratchet :: Ratchet where
  "demo_ratchet =
     \<lparr>r_dh_ratchet_key = KeyPair_generate demo_prims (replicate 32 3), r_their_ratchet_key = replicate 32 4,
      r_root_key = replicate 32 5, r_send_chain_key = replicate 32 6, r_recv_chain_key = replicate 32 7,
      r_send_msg_number = 0, r_recv_msg_number = 0, r_prev_send_count = 0, r_max_skip = 100,
      r_is_initiator = True\<rparr>"

text \<open>
  Message numbers at 32 bits. Encryption panics exactly when the build checks overflow and
  the counter is at its maximum. In every other case the message is numbered with the counter's old
  value and the counter moves to the next value modulo \<open>2\<^sup>3\<^sup>2\<close>, so a release build restarts at zero.
\<close>

theorem encrypt_message_number:
  "(encrypt_message pr r n p = None \<longleftrightarrow>
      overflow_checks pr \<and> unat (r_send_msg_number r) = 2 ^ 32 - 1) \<and>
   (\<forall>m r'. encrypt_message pr r n p = Some (Inr m, r') \<longrightarrow>
      rm_message_number m = r_send_msg_number r \<and>
      unat (r_send_msg_number r') = (unat (r_send_msg_number r) + 1) mod 2 ^ 32)"
proof (intro conjI allI impI)
  show "encrypt_message pr r n p = None \<longleftrightarrow>
      overflow_checks pr \<and> unat (r_send_msg_number r) = 2 ^ 32 - 1"
    using add_u32_1_None_iff [of "overflow_checks pr" "r_send_msg_number r"]
    by (auto simp: encrypt_message_eq Let_def split: option.splits sum.splits)
next
  fix m r' assume e: "encrypt_message pr r n p = Some (Inr m, r')"
  show "rm_message_number m = r_send_msg_number r"
    by (rule encrypt_message_InrD(4) [OF e])
  show "unat (r_send_msg_number r') = (unat (r_send_msg_number r) + 1) mod 2 ^ 32"
    using encrypt_message_SomeD [OF e] by (simp add: unat_word_ariths)
qed

theorem encrypt_message_number_witness:
  "\<exists>m r'. encrypt_message demo_prims demo_ratchet [1] [2] = Some (Inr m, r') \<and>
     rm_message_number m = 0 \<and> unat (r_send_msg_number r') = 1"
proof -
  obtain m r' where e: "encrypt_message demo_prims demo_ratchet [1] [2] = Some (Inr m, r')"
    by (simp add: encrypt_message_eq add_u32_def demo_ratchet_def encrypt_def demo_prims_def Let_def)
  with encrypt_message_number [of demo_prims demo_ratchet "[1]" "[2]"] show ?thesis
    by (auto simp: demo_ratchet_def)
qed

text \<open>
  Property C34. Position and failure are not tracked. Two messages under the peer's current ratchet key
  move the receiver to the same next state whatever their ciphertexts, nonces and message numbers
  are, and that state has consumed one chain key even when the decryption fails. A genuine message
  that follows a forged or lost one is therefore opened with the key of the next position.
\<close>

theorem decrypt_message_advances:
  assumes "rm_ratchet_key m = r_their_ratchet_key r" and "rm_ratchet_key m' = r_their_ratchet_key r"
    and "decrypt_message pr r m = Some (x, r1)" and "decrypt_message pr r m' = Some (x', r1')"
  shows "r1 = r1' \<and> r_recv_chain_key r1 = next_chain_key pr (r_recv_chain_key r) \<and>
         r_recv_msg_number r1 = r_recv_msg_number r + 1 \<and>
         (\<forall>m'' x'' r2. rm_ratchet_key m'' = r_their_ratchet_key r \<longrightarrow>
            decrypt_message pr r1 m'' = Some (x'', r2) \<longrightarrow>
            x'' = decrypt pr (rm_ciphertext m'')
                    (message_key pr (next_chain_key pr (r_recv_chain_key r))) (rm_nonce m''))"
proof -
  note a = decrypt_message_same_key(2) [OF assms(1,3)]
    and b = decrypt_message_same_key(2) [OF assms(2,4)]
  have "x'' = decrypt pr (rm_ciphertext m'')
          (message_key pr (next_chain_key pr (r_recv_chain_key r))) (rm_nonce m'')"
    if "rm_ratchet_key m'' = r_their_ratchet_key r" "decrypt_message pr r1 m'' = Some (x'', r2)"
    for m'' x'' r2
    using decrypt_message_same_key(1) [of m'' r1 pr x'' r2] that by (simp add: a)
  then show ?thesis by (simp add: a b)
qed

definition demo_forged :: "bytes \<Rightarrow> RatchetedMessage" where
  "demo_forged c = \<lparr>rm_ratchet_key = replicate 32 4, rm_ciphertext = c, rm_nonce = [],
                    rm_message_number = 77, rm_previous_count = 0\<rparr>"

theorem decrypt_message_advances_witness:
  "\<exists>r1. decrypt_message demo_prims demo_ratchet (demo_forged []) =
          Some (Inl (DecryptionFailed ''ChaCha20Poly1305: aead::Error''), r1) \<and>
        r_recv_chain_key r1 = next_chain_key demo_prims (replicate 32 7)"
proof -
  have k: "rm_ratchet_key (demo_forged []) = r_their_ratchet_key demo_ratchet"
    by (simp add: demo_forged_def demo_ratchet_def)
  have "\<exists>r1. decrypt_message demo_prims demo_ratchet (demo_forged []) =
          Some (Inl (DecryptionFailed ''ChaCha20Poly1305: aead::Error''), r1)"
    by (simp add: decrypt_message_def demo_forged_def demo_ratchet_def next_recv_key_eq add_u32_def
        decrypt_def demo_prims_def message_key_def ratchet_chain_key_def pad_def)
  then obtain r1 where d: "decrypt_message demo_prims demo_ratchet (demo_forged []) =
          Some (Inl (DecryptionFailed ''ChaCha20Poly1305: aead::Error''), r1)" by blast
  from decrypt_message_advances [OF k k d d] d show ?thesis
    by (auto simp: demo_ratchet_def)
qed

section \<open>Signatures\<close>

text \<open>
  What verification checks. A generated pre-key verifies, under the identity that signed
  it and under every other identity as well; and any pre-key with any 64-byte string in its signature
  field verifies, so verification does not bind a pre-key to an identity.
\<close>

theorem prekey_verification_unbound:
  assumes "prims_sized pr"
  shows "SignedPreKey_verify (SignedPreKey_generate pr rng i ik) any_identity \<and>
         (SignedPreKey_verify spk any_identity \<longleftrightarrow> length (spk_signature spk) = 64)"
  using assms by (simp add: SignedPreKey_verify_def verify_signature_iff prims_sized_def)

theorem prekey_verification_unbound_witness:
  "SignedPreKey_verify \<lparr>spk_id = 1, spk_key_pair = KeyPair_generate demo_prims [1],
     spk_signature = replicate 64 0\<rparr> [9]"
  using prekey_verification_unbound [OF demo_prims_sized, of "[1]" 1 "demo_identity 1" "[9]"
      "\<lparr>spk_id = 1, spk_key_pair = KeyPair_generate demo_prims [1], spk_signature = replicate 64 0\<rparr>"]
  by simp

section \<open>The session store\<close>

lemma store_ok_new: "store_ok SessionStore_new"
  by (simp add: store_ok_def SessionStore_new_def)

text \<open>
  The session store is a map. After any sequence of additions to an empty store, a lookup
  returns the last session added for that user and device and nothing else, the store holds one
  session per key, and removing a key removes exactly its session.
\<close>

theorem session_store_is_map:
  "SessionStore_get (fold SessionStore_add xs SessionStore_new) u d =
     find (\<lambda>s. session_key s = (u, d)) (rev xs) \<and>
   store_ok (fold SessionStore_add xs SessionStore_new) \<and>
   SessionStore_len (fold SessionStore_add xs SessionStore_new) = card (session_key ` set xs) \<and>
   SessionStore_get (SessionStore_remove u' d' (fold SessionStore_add xs SessionStore_new)) u d =
     (if (u, d) = (u', d') then None
      else SessionStore_get (fold SessionStore_add xs SessionStore_new) u d)"
proof -
  let ?st = "fold SessionStore_add xs SessionStore_new"
  have ok: "store_ok ?st"
    by (rule session_store.invar_fold_add [OF store_ok_new])
  have get: "SessionStore_get ?st u d = find (\<lambda>s. session_key s = (u, d)) (rev xs)" for u d
    using session_store.get_fold_add [OF store_ok_new, of xs "(u, d)"]
    by (simp add: SessionStore_new_def SessionStore_get_def split: option.splits)
  have keys: "session_key ` set (ss_sessions (fold SessionStore_add xs st)) =
      session_key ` set (ss_sessions st) \<union> session_key ` set xs" for st
    by (induction xs arbitrary: st) (auto simp: SessionStore_add_replace set_insert_or_replace)
  have "card (session_key ` set xs) = card (set (map session_key (ss_sessions ?st)))"
    using keys [of SessionStore_new] by (simp add: SessionStore_new_def)
  also have "\<dots> = SessionStore_len ?st"
    using ok distinct_card unfolding store_ok_def SessionStore_len_def by fastforce
  finally have len: "SessionStore_len ?st = card (session_key ` set xs)" ..
  have "SessionStore_get (SessionStore_remove u' d' ?st) u d =
      (if (u, d) = (u', d') then None else SessionStore_get ?st u d)"
    using session_store.get_remove [OF ok, of "(u', d')" "(u, d)"] by simp
  with ok get len show ?thesis by simp
qed

text \<open>
  Writing through a borrowed session. \<open>get_mut\<close> returns a session exactly where \<open>get\<close> does,
  and when the borrower writes back a session of the same key (encryption and decryption keep it), the
  next lookup of that key sees it, all other keys see what they saw, and the store keeps one session
  per key.
\<close>

theorem session_store_get_mut:
  assumes "SessionStore_get_mut st u d = Some (s, write_back)" and "session_key s' = (u, d)"
  shows "SessionStore_get st u d = Some s \<and> SessionStore_get (write_back s') u d = Some s' \<and>
         ((u', d') \<noteq> (u, d) \<longrightarrow> SessionStore_get (write_back s') u' d' = SessionStore_get st u' d') \<and>
         store_ok (write_back s') = store_ok st"
proof -
  let ?P = "\<lambda>x. s_remote_user_id x = u \<and> s_remote_device_id x = d"
  from assms(1) have g: "SessionStore_get st u d = Some s"
    and wb: "write_back s' = st\<lparr>ss_sessions := replace_first ?P s' (ss_sessions st)\<rparr>"
    by (auto simp: SessionStore_get_mut_def)
  have f: "find ?P (ss_sessions st) = Some s"
    using g by (simp add: SessionStore_get_def)
  then have "session_key s = (u, d)"
    by (auto simp: find_Some_iff session_key_def)
  then have keys: "map session_key (replace_first ?P s' (ss_sessions st)) = map session_key (ss_sessions st)"
    using replace_first_key [OF f, of session_key s'] assms(2) by simp
  have P: "?P s'" using assms(2) by (simp add: session_key_def)
  have "SessionStore_get (write_back s') u' d' = SessionStore_get st u' d'" if "(u', d') \<noteq> (u, d)"
    unfolding SessionStore_get_def wb using that
    by (auto intro!: find_replace_first_other [of ?P _ s s', OF f P])
  moreover have "SessionStore_get (write_back s') u d = Some s'"
    using find_replace_first [of ?P _ s s', OF f P] by (simp add: SessionStore_get_def wb)
  ultimately show ?thesis
    using g keys by (simp add: store_ok_def wb)
qed

theorem session_store_get_mut_witness:
  "\<exists>a b write_back. demo_pair = Some (a, b) \<and>
     SessionStore_get_mut (SessionStore_add a SessionStore_new) ''bob'' 1 = Some (a, write_back) \<and>
     SessionStore_get (write_back a) ''bob'' 1 = Some a"
proof -
  obtain a b where ab: "demo_pair = Some (a, b)" by (rule demo_pair_Some)
  have key: "session_key a = (''bob'', 1)"
    using handshake_SomeD(1) [OF ab [unfolded demo_pair_def]] by (rule Session_new_initiator_InrD) simp
  then have "SessionStore_get (SessionStore_add a SessionStore_new) ''bob'' 1 = Some a"
    using session_store.get_add [OF store_ok_new, of a "(''bob'', 1)"] by simp
  then obtain wb where w: "SessionStore_get_mut (SessionStore_add a SessionStore_new) ''bob'' 1 = Some (a, wb)"
    by (simp add: SessionStore_get_mut_def)
  from session_store_get_mut [OF w key] ab w show ?thesis by blast
qed

end
