(* ===== verification/Store_Schema.thy ===== *)
theory Store_Schema
  imports Core_Message Table_Interfaces
begin

text \<open>
  The database of \<open>tintin-server/src/store.rs\<close>: one row type per table of \<open>Store::open\<close>, the database
  as a record of tables, and the environment a store call runs in. A SQL statement of the source is
  the list operation it denotes on the table; rows stand in insertion order, and \<open>ORDER BY\<close> is a
  stable sort of them. \<open>ev_fault k\<close> is the error the database engine reports for the \<open>k\<close>-th fallible
  database call of the store function, if any; a failed statement changes nothing. Whether the
  connection enforces \<open>REFERENCES\<close> clauses is a setting of the engine's build, the field
  \<open>foreign_keys\<close>.
\<close>

section \<open>Rows\<close>

record user_row =
  u_user_id :: string
  u_identity_key :: bytes
  u_signed_pre_key :: string
  u_presence :: string

record message_row =
  m_id :: i64
  m_sender_id :: string
  m_recipient_id :: string
  m_envelope :: string
  m_created_at :: string

record group_row =
  g_group_id :: string
  g_name :: string
  g_creator :: string
  g_created_at :: string

record group_member_row =
  gm_group_id :: string
  gm_user_id :: string
  gm_role :: string

record status_row =
  st_user_id :: string
  st_content :: string
  st_created_at :: i64

record channel_row =
  ch_channel_id :: i64
  ch_name :: string
  ch_owner_id :: string
  ch_created_at :: string

record subscriber_row =
  cs_channel_id :: i64
  cs_user_id :: string

record poll_row =
  p_poll_id :: i64
  p_creator :: string
  p_question :: string
  p_active :: i64
  p_created_at :: string

record option_row =
  po_option_id :: i64
  po_poll_id :: i64
  po_option_text :: string

record vote_row =
  pv_poll_id :: i64
  pv_user_id :: string
  pv_option_id :: i64

record post_row =
  tp_post_id :: i64
  tp_user_id :: string
  tp_target_user_id :: "string option"
  tp_content :: string
  tp_created_at :: i64

record comment_row =
  tc_comment_id :: i64
  tc_post_id :: i64
  tc_user_id :: string
  tc_content :: string
  tc_created_at :: i64

record db =
  foreign_keys :: bool
  t_users :: "user_row list"
  t_messages :: "message_row auto_table"
  t_groups :: "group_row list"
  t_group_members :: "group_member_row list"
  t_statuses :: "status_row list"
  t_channels :: "channel_row auto_table"
  t_channel_subscribers :: "subscriber_row list"
  t_polls :: "poll_row auto_table"
  t_poll_options :: "option_row auto_table"
  t_poll_votes :: "vote_row list"
  t_timeline_posts :: "post_row auto_table"
  t_timeline_comments :: "comment_row auto_table"

section \<open>Environment and errors\<close>

text \<open>
  \<open>ev_millis k\<close> is the \<open>k\<close>-th reading of the system clock in the call, in milliseconds since the epoch
  (0 before the epoch, as \<open>unwrap_or_default\<close> gives); \<open>ev_rnd\<close> is \<open>rand::random::<u16>()\<close>;
  \<open>ev_datetime\<close> is SQL's \<open>datetime('now')\<close>; \<open>ev_stop k\<close> is the number of rows after which stepping
  through the query of the \<open>k\<close>-th database call fails, if it does; \<open>ev_checks\<close> says whether the
  build checks overflow.
\<close>

record env =
  ev_millis :: "nat \<Rightarrow> nat"
  ev_rnd :: u16
  ev_datetime :: string
  ev_fault :: "nat \<Rightarrow> string option"
  ev_stop :: "nat \<Rightarrow> nat option"
  ev_checks :: bool

text \<open>The errors of \<open>rusqlite\<close> the store functions pass on, and the boxed texts of \<open>vote_poll\<close>.\<close>

datatype store_error =
    SqliteFault string
  | UniqueConstraint string
  | ForeignKeyConstraint
  | DatabaseFull
  | ToSqlConversionFailure
  | BoxedText string

type_synonym 'a store_result = "(store_error + 'a) \<times> db"

text \<open>The \<open>?\<close> after the \<open>k\<close>-th database call: leave with its error, or go on.\<close>

definition sql :: "env \<Rightarrow> nat \<Rightarrow> db \<Rightarrow> 'a store_result \<Rightarrow> 'a store_result" where
  "sql ev k st rest = (case ev_fault ev k of Some e \<Rightarrow> (Inl (SqliteFault e), st) | None \<Rightarrow> rest)"

text \<open>The \<open>?\<close> after a call that returns a result of its own.\<close>

definition and_then :: "'a store_result \<Rightarrow> ('a \<Rightarrow> db \<Rightarrow> 'b store_result) \<Rightarrow> 'b store_result" where
  "and_then r rest = (case r of (Inl e, st) \<Rightarrow> (Inl e, st) | (Inr x, st) \<Rightarrow> rest x st)"

text \<open>
  \<open>query_map(..)?.filter_map(|r| r.ok()).collect()\<close>: an error while stepping is dropped and ends the
  iteration, so the rows before it are what is collected.
\<close>

definition collect_ok :: "env \<Rightarrow> nat \<Rightarrow> 'r list \<Rightarrow> 'r list" where
  "collect_ok ev k rows = (case ev_stop ev k of None \<Rightarrow> rows | Some n \<Rightarrow> take n rows)"

text \<open>An environment in which the database engine never fails.\<close>

definition no_faults :: "env \<Rightarrow> bool" where
  "no_faults ev \<longleftrightarrow> ev_fault ev = (\<lambda>_. None) \<and> ev_stop ev = (\<lambda>_. None)"

definition as_secs :: "nat \<Rightarrow> nat" where
  "as_secs millis = millis div 1000"

section \<open>Sorting of query results\<close>

definition order_by :: "('r \<Rightarrow> 'k::linorder) \<Rightarrow> 'r list \<Rightarrow> 'r list" where
  "order_by f rows = sort_key f rows"

definition order_by_desc :: "('r \<Rightarrow> 'k::linorder) \<Rightarrow> 'r list \<Rightarrow> 'r list" where
  "order_by_desc f rows = rev (sort_key f (rev rows))"

section \<open>Opening the store\<close>

definition empty_db :: "bool \<Rightarrow> db" where
  "empty_db fk =
     \<lparr>foreign_keys = fk, t_users = [], t_messages = auto_empty, t_groups = [], t_group_members = [],
      t_statuses = [], t_channels = auto_empty, t_channel_subscribers = [], t_polls = auto_empty,
      t_poll_options = auto_empty, t_poll_votes = [], t_timeline_posts = auto_empty,
      t_timeline_comments = auto_empty\<rparr>"

text \<open>
  \<open>Store::open\<close> on a file: \<open>CREATE TABLE IF NOT EXISTS\<close> keeps the tables a database already has and
  makes them empty in a new one. The \<open>ALTER TABLE\<close> migrations ignore their errors and do nothing to a
  database of the current schema.
\<close>

definition Store_open :: "env \<Rightarrow> bool \<Rightarrow> db option \<Rightarrow> store_error + db" where
  "Store_open ev fk file =
     (case ev_fault ev 0 of Some e \<Rightarrow> Inl (SqliteFault e) | None \<Rightarrow>
      (case ev_fault ev 1 of Some e \<Rightarrow> Inl (SqliteFault e) | None \<Rightarrow>
       (case ev_fault ev 2 of Some e \<Rightarrow> Inl (SqliteFault e) | None \<Rightarrow>
        Inr (case file of None \<Rightarrow> empty_db fk | Some d \<Rightarrow> d\<lparr>foreign_keys := fk\<rparr>))))"

section \<open>The invariant of the database\<close>

definition member_key :: "group_member_row \<Rightarrow> string \<times> string" where
  "member_key m = (gm_group_id m, gm_user_id m)"

definition subscriber_key :: "subscriber_row \<Rightarrow> i64 \<times> string" where
  "subscriber_key s = (cs_channel_id s, cs_user_id s)"

definition vote_key :: "vote_row \<Rightarrow> i64 \<times> string" where
  "vote_key v = (pv_poll_id v, pv_user_id v)"

text \<open>Primary keys are unique and row ids grow.\<close>

definition keys_ok :: "db \<Rightarrow> bool" where
  "keys_ok st \<longleftrightarrow>
     distinct (map u_user_id (t_users st)) \<and> distinct (map g_group_id (t_groups st)) \<and>
     distinct (map member_key (t_group_members st)) \<and> distinct (map st_user_id (t_statuses st)) \<and>
     distinct (map subscriber_key (t_channel_subscribers st)) \<and>
     distinct (map vote_key (t_poll_votes st)) \<and>
     auto_ok m_id (t_messages st) \<and> auto_ok ch_channel_id (t_channels st) \<and>
     auto_ok p_poll_id (t_polls st) \<and> auto_ok po_option_id (t_poll_options st) \<and>
     auto_ok tp_post_id (t_timeline_posts st) \<and> auto_ok tc_comment_id (t_timeline_comments st)"

definition group_ids :: "db \<Rightarrow> string set" where
  "group_ids st = g_group_id ` set (t_groups st)"

definition channel_ids :: "db \<Rightarrow> i64 set" where
  "channel_ids st = ch_channel_id ` set (auto_rows (t_channels st))"

definition poll_ids :: "db \<Rightarrow> i64 set" where
  "poll_ids st = p_poll_id ` set (auto_rows (t_polls st))"

definition post_ids :: "db \<Rightarrow> i64 set" where
  "post_ids st = tp_post_id ` set (auto_rows (t_timeline_posts st))"

text \<open>
  References point at rows that exist. Comments do so only on a connection that enforces foreign
  keys; the other references are kept by the server's own checks.
\<close>

definition refs_ok :: "db \<Rightarrow> bool" where
  "refs_ok st \<longleftrightarrow>
     gm_group_id ` set (t_group_members st) \<subseteq> group_ids st \<and>
     cs_channel_id ` set (t_channel_subscribers st) \<subseteq> channel_ids st \<and>
     po_poll_id ` set (auto_rows (t_poll_options st)) \<subseteq> poll_ids st \<and>
     (\<forall>v\<in>set (t_poll_votes st). \<exists>o'\<in>set (auto_rows (t_poll_options st)).
        po_option_id o' = pv_option_id v \<and> po_poll_id o' = pv_poll_id v) \<and>
     (foreign_keys st \<longrightarrow> tc_post_id ` set (auto_rows (t_timeline_comments st)) \<subseteq> post_ids st)"

definition db_ok :: "db \<Rightarrow> bool" where
  "db_ok st \<longleftrightarrow> keys_ok st \<and> refs_ok st"

lemmas db_ok_defs = db_ok_def keys_ok_def refs_ok_def group_ids_def channel_ids_def poll_ids_def post_ids_def

section \<open>Lemmas\<close>

lemma sql_no_fault [simp]: "ev_fault ev k = None \<Longrightarrow> sql ev k st rest = rest"
  by (simp add: sql_def)

lemma sql_fault [simp]: "ev_fault ev k = Some e \<Longrightarrow> sql ev k st rest = (Inl (SqliteFault e), st)"
  by (simp add: sql_def)

text \<open>An invariant holds after a database call when it holds on the fault path and on the other.\<close>

lemma sql_snd: "P st \<Longrightarrow> P (snd rest) \<Longrightarrow> P (snd (sql ev k st rest))"
  by (simp add: sql_def split: option.split)

lemma sql_snd_same: "snd rest = st \<Longrightarrow> snd (sql ev k st rest) = st"
  by (simp add: sql_def split: option.split)

lemma db_ok_sql: "db_ok st \<Longrightarrow> db_ok (snd rest) \<Longrightarrow> db_ok (snd (sql ev k st rest))"
  by (rule sql_snd)

lemma db_ok_and_then:
  "db_ok (snd r) \<Longrightarrow> (\<And>x st. db_ok st \<Longrightarrow> db_ok (snd (rest x st))) \<Longrightarrow> db_ok (snd (and_then r rest))"
  by (cases r) (simp add: and_then_def split: sum.split)

lemma and_then_Inr_conv:
  "and_then r rest = (Inr y, st') \<longleftrightarrow> (\<exists>x st. r = (Inr x, st) \<and> rest x st = (Inr y, st'))"
  by (cases r) (simp add: and_then_def split: sum.split)

lemma and_then_simps [simp]:
  "and_then (Inl e, st) rest = (Inl e, st)"
  "and_then (Inr x, st) rest = rest x st"
  by (simp_all add: and_then_def)

lemma db_ok_if: "(b \<Longrightarrow> db_ok (snd x)) \<Longrightarrow> (\<not> b \<Longrightarrow> db_ok (snd y)) \<Longrightarrow> db_ok (snd (if b then x else y))"
  by simp

lemma sql_Inr_conv: "sql ev k st rest = (Inr r, st') \<longleftrightarrow> ev_fault ev k = None \<and> rest = (Inr r, st')"
  by (simp add: sql_def split: option.split)

lemma no_faults_simps [simp]:
  assumes "no_faults ev"
  shows "ev_fault ev k = None" and "ev_stop ev k = None" and "collect_ok ev k rows = rows"
  using assms by (simp_all add: no_faults_def collect_ok_def)

lemma set_collect_ok: "set (collect_ok ev k rows) \<subseteq> set rows"
  by (auto simp: collect_ok_def dest: in_set_takeD split: option.splits)

lemma db_ok_empty: "db_ok (empty_db fk)"
  by (simp add: db_ok_defs empty_db_def) (simp add: auto_empty_def)

text \<open>
  What an update of one table has to show for the invariant: its own key condition and the references
  that mention it. Every preservation proof goes through these rules.
\<close>

lemma db_okI: "keys_ok st \<Longrightarrow> refs_ok st \<Longrightarrow> db_ok st"
  by (simp add: db_ok_def)

lemma db_okD: assumes "db_ok st" shows "keys_ok st" and "refs_ok st"
  using assms by (simp_all add: db_ok_def)

lemma db_ok_users:
  "db_ok st \<Longrightarrow> distinct (map u_user_id us) \<Longrightarrow> db_ok (st\<lparr>t_users := us\<rparr>)"
  by (simp add: db_ok_defs)

lemma db_ok_messages:
  "db_ok st \<Longrightarrow> auto_ok m_id t \<Longrightarrow> db_ok (st\<lparr>t_messages := t\<rparr>)"
  by (simp add: db_ok_defs)

lemma db_ok_groups:
  "db_ok st \<Longrightarrow> distinct (map g_group_id gs) \<Longrightarrow> group_ids st \<subseteq> g_group_id ` set gs \<Longrightarrow>
   db_ok (st\<lparr>t_groups := gs\<rparr>)"
  unfolding db_ok_def keys_ok_def refs_ok_def channel_ids_def poll_ids_def post_ids_def
  by (simp add: group_ids_def) (meson subset_trans)

lemma db_ok_group_members:
  "db_ok st \<Longrightarrow> distinct (map member_key ms) \<Longrightarrow> gm_group_id ` set ms \<subseteq> group_ids st \<Longrightarrow>
   db_ok (st\<lparr>t_group_members := ms\<rparr>)"
  by (simp add: db_ok_defs)

lemma db_ok_statuses:
  "db_ok st \<Longrightarrow> distinct (map st_user_id ss) \<Longrightarrow> db_ok (st\<lparr>t_statuses := ss\<rparr>)"
  by (simp add: db_ok_defs)

lemma db_ok_channels:
  "db_ok st \<Longrightarrow> auto_ok ch_channel_id t \<Longrightarrow> channel_ids st \<subseteq> ch_channel_id ` set (auto_rows t) \<Longrightarrow>
   db_ok (st\<lparr>t_channels := t\<rparr>)"
  unfolding db_ok_def keys_ok_def refs_ok_def group_ids_def poll_ids_def post_ids_def
  by (simp add: channel_ids_def) (meson subset_trans)

lemma db_ok_subscribers:
  "db_ok st \<Longrightarrow> distinct (map subscriber_key ss) \<Longrightarrow> cs_channel_id ` set ss \<subseteq> channel_ids st \<Longrightarrow>
   db_ok (st\<lparr>t_channel_subscribers := ss\<rparr>)"
  by (simp add: db_ok_defs)

lemma db_ok_polls:
  "db_ok st \<Longrightarrow> auto_ok p_poll_id t \<Longrightarrow> poll_ids st \<subseteq> p_poll_id ` set (auto_rows t) \<Longrightarrow>
   db_ok (st\<lparr>t_polls := t\<rparr>)"
  unfolding db_ok_def keys_ok_def refs_ok_def group_ids_def channel_ids_def post_ids_def
  by (simp add: poll_ids_def) (meson subset_trans)

lemma db_ok_votes:
  "db_ok st \<Longrightarrow> distinct (map vote_key vs) \<Longrightarrow>
   (\<And>v. v \<in> set vs \<Longrightarrow> \<exists>o'\<in>set (auto_rows (t_poll_options st)).
        po_option_id o' = pv_option_id v \<and> po_poll_id o' = pv_poll_id v) \<Longrightarrow>
   db_ok (st\<lparr>t_poll_votes := vs\<rparr>)"
  by (simp add: db_ok_defs)

lemma db_ok_options:
  "db_ok st \<Longrightarrow> auto_ok po_option_id t \<Longrightarrow> po_poll_id ` set (auto_rows t) \<subseteq> poll_ids st \<Longrightarrow>
   set (auto_rows (t_poll_options st)) \<subseteq> set (auto_rows t) \<Longrightarrow>
   db_ok (st\<lparr>t_poll_options := t\<rparr>)"
  unfolding db_ok_def keys_ok_def refs_ok_def group_ids_def channel_ids_def poll_ids_def post_ids_def
  by (simp add: subset_iff) meson

lemma db_ok_posts:
  "db_ok st \<Longrightarrow> auto_ok tp_post_id t \<Longrightarrow>
   (foreign_keys st \<Longrightarrow> tc_post_id ` set (auto_rows (t_timeline_comments st)) \<subseteq> tp_post_id ` set (auto_rows t)) \<Longrightarrow>
   db_ok (st\<lparr>t_timeline_posts := t\<rparr>)"
  by (simp add: db_ok_defs)

lemma db_ok_comments:
  "db_ok st \<Longrightarrow> auto_ok tc_comment_id t \<Longrightarrow>
   (foreign_keys st \<Longrightarrow> tc_post_id ` set (auto_rows t) \<subseteq> post_ids st) \<Longrightarrow>
   db_ok (st\<lparr>t_timeline_comments := t\<rparr>)"
  by (simp add: db_ok_defs)

lemma db_ok_keysD:
  assumes "db_ok st"
  shows "distinct (map u_user_id (t_users st))" "distinct (map g_group_id (t_groups st))"
    "distinct (map member_key (t_group_members st))" "distinct (map st_user_id (t_statuses st))"
    "distinct (map subscriber_key (t_channel_subscribers st))" "distinct (map vote_key (t_poll_votes st))"
    "auto_ok m_id (t_messages st)" "auto_ok ch_channel_id (t_channels st)"
    "auto_ok p_poll_id (t_polls st)" "auto_ok po_option_id (t_poll_options st)"
    "auto_ok tp_post_id (t_timeline_posts st)" "auto_ok tc_comment_id (t_timeline_comments st)"
  using assms by (simp_all add: db_ok_def keys_ok_def)

lemma db_ok_refsD:
  assumes "db_ok st"
  shows "gm_group_id ` set (t_group_members st) \<subseteq> group_ids st"
    "cs_channel_id ` set (t_channel_subscribers st) \<subseteq> channel_ids st"
    "po_poll_id ` set (auto_rows (t_poll_options st)) \<subseteq> poll_ids st"
    "v \<in> set (t_poll_votes st) \<Longrightarrow> \<exists>o'\<in>set (auto_rows (t_poll_options st)).
        po_option_id o' = pv_option_id v \<and> po_poll_id o' = pv_poll_id v"
    "foreign_keys st \<Longrightarrow> tc_post_id ` set (auto_rows (t_timeline_comments st)) \<subseteq> post_ids st"
  using assms by (simp_all add: db_ok_def refs_ok_def)

lemma set_order_by [simp]: "set (order_by f xs) = set xs"
  by (simp add: order_by_def)

lemma set_order_by_desc [simp]: "set (order_by_desc f xs) = set xs"
  by (simp add: order_by_desc_def)

lemma mset_order_by [simp]: "mset (order_by f xs) = mset xs"
  by (simp add: order_by_def)

lemma mset_order_by_desc [simp]: "mset (order_by_desc f xs) = mset xs"
  by (simp add: order_by_desc_def)

lemma length_order_by [simp]: "length (order_by f xs) = length xs"
  by (simp add: order_by_def)

lemma length_order_by_desc [simp]: "length (order_by_desc f xs) = length xs"
  by (simp add: order_by_desc_def)

lemma sorted_order_by: "sorted (map f (order_by f xs))"
  by (simp add: order_by_def)

lemma sorted_order_by_desc: "sorted_wrt (\<ge>) (map f (order_by_desc f xs))"
  by (simp add: order_by_desc_def sorted_wrt_rev flip: rev_map)

end
