(* ===== verification/Store_Users.thy ===== *)
theory Store_Users
  imports Store_Schema
begin

text \<open>
  The users and statuses of \<open>store.rs\<close>: registration and key bundles, presence, the user search and
  the 24-hour stories.
\<close>

section \<open>The LIKE operator\<close>

definition ascii_lower :: "char \<Rightarrow> char" where
  "ascii_lower c = (let n = (of_char c :: nat) in if 65 \<le> n \<and> n \<le> 90 then char_of (n + 32) else c)"

definition utf8_continuation :: "char \<Rightarrow> bool" where
  "utf8_continuation c \<longleftrightarrow> (of_char c :: nat) div 64 = 2"

text \<open>The text after its first UTF-8 character.\<close>

fun utf8_tail :: "string \<Rightarrow> string" where
  "utf8_tail [] = []"
| "utf8_tail (c # s) = (if 192 \<le> (of_char c :: nat) then dropWhile utf8_continuation s else s)"

lemma length_utf8_tail: "length (utf8_tail (c # s)) \<le> length s"
  by (simp add: length_dropWhile_le)

text \<open>
  \<open>text LIKE pattern\<close>: \<open>%\<close> matches any sequence of characters, \<open>_\<close> one character, anything else
  itself up to the case of ASCII letters.
\<close>

function like_match :: "string \<Rightarrow> string \<Rightarrow> bool" where
  "like_match [] s = (s = [])"
| "like_match (p # ps) s =
     (if p = CHR ''%'' then like_match ps s \<or> (if s = [] then False else like_match (p # ps) (utf8_tail s))
      else case s of
             [] \<Rightarrow> False
           | c # s' \<Rightarrow>
               if p = CHR ''_'' then like_match ps (utf8_tail (c # s'))
               else ascii_lower p = ascii_lower c \<and> like_match ps s')"
  by pat_completeness auto
termination
proof (relation "measure (\<lambda>(p, s). length p + length s)", goal_cases)
  case (3 p ps s)
  then show ?case
    using length_utf8_tail by (cases s) (auto simp: le_imp_less_Suc simp del: utf8_tail.simps)
next
  case (4 p ps s c s')
  then show ?case
    using length_utf8_tail [of c s'] by (simp del: utf8_tail.simps)
qed auto

declare like_match.simps(2) [simp del] utf8_tail.simps(2) [simp del]

section \<open>Operations\<close>

definition register_user :: "env \<Rightarrow> string \<Rightarrow> bytes \<Rightarrow> string \<Rightarrow> db \<Rightarrow> unit store_result" where
  "register_user ev user_id identity_key signed_pre_key st =
     sql ev 0 st
       (Inr (), st\<lparr>t_users := insert_or_replace u_user_id
          \<lparr>u_user_id = user_id, u_identity_key = identity_key, u_signed_pre_key = signed_pre_key,
           u_presence = ''offline''\<rparr> (t_users st)\<rparr>)"

definition set_presence :: "env \<Rightarrow> string \<Rightarrow> string \<Rightarrow> db \<Rightarrow> unit store_result" where
  "set_presence ev user_id presence st =
     sql ev 0 st
       (Inr (), st\<lparr>t_users := map (\<lambda>u. if u_user_id u = user_id then u\<lparr>u_presence := presence\<rparr> else u)
          (t_users st)\<rparr>)"

definition list_users :: "env \<Rightarrow> string option \<Rightarrow> db \<Rightarrow> (string \<times> string) list store_result" where
  "list_users ev query st =
     (case query of
        Some q \<Rightarrow>
          (let pattern = ''%'' @ q @ ''%''
           in sql ev 0 st (sql ev 1 st
                (Inr (collect_ok ev 1 (map (\<lambda>u. (u_user_id u, u_presence u))
                   (order_by u_user_id (filter (\<lambda>u. like_match pattern (u_user_id u)) (t_users st))))), st)))
      | None \<Rightarrow>
          sql ev 0 st (sql ev 1 st
            (Inr (collect_ok ev 1 (map (\<lambda>u. (u_user_id u, u_presence u)) (order_by u_user_id (t_users st)))), st)))"

text \<open>\<open>parse\<close> is \<open>serde_json::from_str\<close> to a \<open>Value\<close>; a text that does not parse becomes \<open>Null\<close>.\<close>

definition get_key_bundle :: "(string \<Rightarrow> string + json) \<Rightarrow> env \<Rightarrow> string \<Rightarrow> db \<Rightarrow> json option store_result" where
  "get_key_bundle parse ev user_id st =
     sql ev 0 st (sql ev 1 st (sql ev 2 st
       (case lookup_key u_user_id (t_users st) user_id of
          Some row \<Rightarrow>
            (let signed_pre_key = (case parse (u_signed_pre_key row) of Inl e \<Rightarrow> JNull | Inr v \<Rightarrow> v)
             in (Inr (Some (JObject [(''identity_key'', bytes_json (u_identity_key row)),
                                     (''signed_pre_key'', signed_pre_key)])), st))
        | None \<Rightarrow> (Inr None, st))))"

definition set_status :: "env \<Rightarrow> string \<Rightarrow> string \<Rightarrow> db \<Rightarrow> nat store_result" where
  "set_status ev user_id content st =
     (let ts = as_secs (ev_millis ev 0)
      in if i64_max < int ts then (Inl ToSqlConversionFailure, st)
         else sql ev 0 st
           (Inr ts, st\<lparr>t_statuses := insert_or_replace st_user_id
              \<lparr>st_user_id = user_id, st_content = content, st_created_at = int ts\<rparr> (t_statuses st)\<rparr>))"

definition clear_status :: "env \<Rightarrow> string \<Rightarrow> db \<Rightarrow> unit store_result" where
  "clear_status ev user_id st =
     sql ev 0 st (Inr (), st\<lparr>t_statuses := delete_where (\<lambda>s. st_user_id s = user_id) (t_statuses st)\<rparr>)"

definition status_json :: "status_row \<Rightarrow> json" where
  "status_json s = JObject [(''user_id'', JString (st_user_id s)), (''content'', JString (st_content s)),
                            (''created_at'', JNumber (st_created_at s))]"

text \<open>The rows \<open>get_active_statuses\<close> selects for a cutoff.\<close>

definition active_statuses :: "i64 \<Rightarrow> db \<Rightarrow> status_row list" where
  "active_statuses cutoff st =
     order_by_desc st_created_at (filter (\<lambda>s. cutoff < st_created_at s) (t_statuses st))"

text \<open>\<open>None\<close> is the panic of the unsigned subtraction in a build with overflow checks.\<close>

definition get_active_statuses :: "env \<Rightarrow> db \<Rightarrow> json list store_result option" where
  "get_active_statuses ev st =
     do {
       cutoff \<leftarrow> sub_u64 (ev_checks ev) (word_of_nat (as_secs (ev_millis ev 0))) 86400;
       Some (sql ev 0 st (sql ev 1 st
         (Inr (collect_ok ev 1 (map status_json (active_statuses (as_i64_cast (unat cutoff)) st))), st)))
     }"

section \<open>Preservation of the invariant\<close>

lemma map_presence_keys [simp]:
  "map u_user_id (map (\<lambda>u. if u_user_id u = x then u\<lparr>u_presence := p\<rparr> else u) us) = map u_user_id us"
  by (simp add: comp_def if_distrib cong: if_cong)

lemma register_user_ok [tt_inv]: "db_ok st \<Longrightarrow> db_ok (snd (register_user ev u k b st))"
  unfolding register_user_def
  by (rule db_ok_sql) (simp_all add: db_ok_users db_ok_keysD distinct_insert_or_replace)

lemma set_presence_ok [tt_inv]: "db_ok st \<Longrightarrow> db_ok (snd (set_presence ev u p st))"
  unfolding set_presence_def
  by (rule db_ok_sql) (simp_all add: db_ok_users db_ok_keysD del: map_map)

lemma list_users_pure [simp]: "snd (list_users ev query st) = st"
  unfolding list_users_def Let_def by (cases query) (simp_all add: sql_snd_same)

lemma get_key_bundle_pure [simp]: "snd (get_key_bundle parse ev u st) = st"
  unfolding get_key_bundle_def Let_def by (intro sql_snd_same) (simp split: option.split)

lemma set_status_ok [tt_inv]: "db_ok st \<Longrightarrow> db_ok (snd (set_status ev u c st))"
  unfolding set_status_def Let_def
  by (intro db_ok_if db_ok_sql) (simp_all add: db_ok_statuses db_ok_keysD distinct_insert_or_replace)

lemma clear_status_ok [tt_inv]: "db_ok st \<Longrightarrow> db_ok (snd (clear_status ev u st))"
  unfolding clear_status_def
  by (rule db_ok_sql) (simp_all add: db_ok_statuses db_ok_keysD distinct_delete_where)

lemma get_active_statuses_pure: "get_active_statuses ev st = Some r \<Longrightarrow> snd r = st"
  by (auto simp: get_active_statuses_def bind_eq_Some_conv sql_snd_same)

section \<open>The search pattern\<close>

definition is_ascii :: "string \<Rightarrow> bool" where
  "is_ascii s \<longleftrightarrow> (\<forall>c\<in>set s. (of_char c :: nat) < 128)"

definition plain_pattern :: "string \<Rightarrow> bool" where
  "plain_pattern q \<longleftrightarrow> CHR ''%'' \<notin> set q \<and> CHR ''_'' \<notin> set q"

lemma like_percent: "like_match (CHR ''%'' # ps) s \<longleftrightarrow> like_match ps s \<or> (s \<noteq> [] \<and> like_match (CHR ''%'' # ps) (utf8_tail s))"
  by (subst like_match.simps(2)) simp

lemma like_any: "like_match ''%'' s"
proof (induction s rule: length_induct)
  case (1 s)
  show ?case
  proof (cases s)
    case Nil
    then show ?thesis by (subst like_percent) simp
  next
    case (Cons c s')
    then have "length (utf8_tail s) < length s"
      using length_utf8_tail [of c s'] by simp
    with 1 Cons show ?thesis by (subst like_percent) blast
  qed
qed

lemma like_prefix:
  "plain_pattern q \<Longrightarrow>
   like_match (q @ ''%'') s \<longleftrightarrow> map ascii_lower (take (length q) s) = map ascii_lower q"
proof (induction q arbitrary: s)
  case Nil
  then show ?case by (simp add: like_any)
next
  case (Cons p q)
  have p: "p \<noteq> CHR ''%''" "p \<noteq> CHR ''_''" "plain_pattern q"
    using Cons.prems by (auto simp: plain_pattern_def)
  show ?case
  proof (cases s)
    case Nil
    with p show ?thesis unfolding append_Cons by (subst like_match.simps(2)) simp
  next
    case (Cons c s')
    with p Cons.IH [of s'] show ?thesis unfolding append_Cons by (subst like_match.simps(2)) auto
  qed
qed

lemma like_contains:
  assumes "plain_pattern q" and "is_ascii s"
  shows "like_match (''%'' @ q @ ''%'') s \<longleftrightarrow>
         (\<exists>a b c. s = a @ b @ c \<and> map ascii_lower b = map ascii_lower q)"
  using assms(2)
proof (induction s)
  case Nil
  then show ?case
    using like_prefix [OF assms(1), of "[]"] by (subst append_Cons, subst like_percent) auto
next
  case (Cons x s)
  have tail: "utf8_tail (x # s) = s"
    using Cons.prems by (simp add: is_ascii_def utf8_tail.simps(2))
  have "like_match (''%'' @ q @ ''%'') (x # s) \<longleftrightarrow>
      map ascii_lower (take (length q) (x # s)) = map ascii_lower q \<or> like_match (''%'' @ q @ ''%'') s"
    using like_percent [of "q @ ''%''" "x # s"] like_prefix [OF assms(1), of "x # s"] by (simp only: tail) simp
  also have "\<dots> \<longleftrightarrow> (\<exists>a b c. x # s = a @ b @ c \<and> map ascii_lower b = map ascii_lower q)"
    (is "?p \<or> ?r \<longleftrightarrow> ?e")
  proof
    assume "?p \<or> ?r"
    then show ?e
    proof
      assume ?p
      then show ?e by (intro exI [of _ "[]"] exI [of _ "take (length q) (x # s)"] exI [of _ "drop (length q) (x # s)"]) simp
    next
      assume ?r
      with Cons obtain a b c where "s = a @ b @ c" "map ascii_lower b = map ascii_lower q"
        by (auto simp: is_ascii_def)
      then show ?e by (intro exI [of _ "x # a"] exI [of _ b] exI [of _ c]) simp
    qed
  next
    assume ?e
    then obtain a b c where e: "x # s = a @ b @ c" "map ascii_lower b = map ascii_lower q" by blast
    show "?p \<or> ?r"
    proof (cases a)
      case Nil
      then have "take (length q) (x # s) = b"
        using e by (metis append_Nil append_eq_conv_conj map_eq_imp_length_eq)
      with e show ?thesis by simp
    next
      case (Cons y a')
      then have "s = a' @ b @ c" using e by simp
      with Cons.IH Cons.prems e show ?thesis by (auto simp: is_ascii_def)
    qed
  qed
  finally show ?case .
qed

end
