(* ===== verification/Store_Groups.thy ===== *)
theory Store_Groups
  imports Store_Schema
begin

text \<open>
  The groups of \<open>store.rs\<close>: the generated group ids, creation with the creator as admin member,
  membership and the two listings.
\<close>

section \<open>Operations\<close>

definition generate_group_id :: "nat \<Rightarrow> u16 \<Rightarrow> string" where
  "generate_group_id millis rnd =
     fmt_08x (unat (((word_of_nat millis :: u64) AND 0xFFFFFFFF) XOR (ucast rnd :: u64)))"

definition member_row :: "string \<Rightarrow> string \<times> string \<Rightarrow> group_member_row" where
  "member_row role k = \<lparr>gm_group_id = fst k, gm_user_id = snd k, gm_role = role\<rparr>"

text \<open>The two inserts are separate statements without a transaction: each commits on its own.\<close>

definition create_group :: "env \<Rightarrow> string \<Rightarrow> string \<Rightarrow> db \<Rightarrow> string store_result" where
  "create_group ev name creator st =
     (let group_id = generate_group_id (ev_millis ev 0) (ev_rnd ev)
      in sql ev 0 st
        (if group_id \<in> group_ids st then (Inl (UniqueConstraint ''groups.group_id''), st)
         else
           (let st1 = st\<lparr>t_groups := t_groups st @
                  [\<lparr>g_group_id = group_id, g_name = name, g_creator = creator, g_created_at = ev_datetime ev\<rparr>]\<rparr>
            in sql ev 1 st1
              (if (group_id, creator) \<in> member_key ` set (t_group_members st1)
               then (Inl (UniqueConstraint ''group_members.group_id, group_members.user_id''), st1)
               else (Inr group_id,
                     st1\<lparr>t_group_members := t_group_members st1 @ [member_row ''admin'' (group_id, creator)]\<rparr>)))))"

text \<open>\<open>OR IGNORE\<close> covers the primary key, not the reference to \<open>groups\<close>.\<close>

definition add_group_member :: "env \<Rightarrow> string \<Rightarrow> string \<Rightarrow> db \<Rightarrow> unit store_result" where
  "add_group_member ev group_id user_id st =
     sql ev 0 st
       (if foreign_keys st \<and> group_id \<notin> group_ids st \<and>
           (group_id, user_id) \<notin> member_key ` set (t_group_members st)
        then (Inl ForeignKeyConstraint, st)
        else (Inr (), st\<lparr>t_group_members :=
                insert_or_ignore member_key (member_row ''member'' (group_id, user_id)) (t_group_members st)\<rparr>))"

definition remove_group_member :: "env \<Rightarrow> string \<Rightarrow> string \<Rightarrow> db \<Rightarrow> unit store_result" where
  "remove_group_member ev group_id user_id st =
     sql ev 0 st
       (Inr (), st\<lparr>t_group_members :=
          delete_where (\<lambda>m. member_key m = (group_id, user_id)) (t_group_members st)\<rparr>)"

definition groups_join :: "string \<Rightarrow> db \<Rightarrow> (group_row \<times> group_member_row) list" where
  "groups_join user_id st =
     [(g, m). g \<leftarrow> t_groups st, m \<leftarrow> t_group_members st, g_group_id g = gm_group_id m \<and> gm_user_id m = user_id]"

definition group_json :: "group_row \<times> group_member_row \<Rightarrow> json" where
  "group_json gm = (case gm of (g, m) \<Rightarrow>
     JObject [(''group_id'', JString (g_group_id g)), (''name'', JString (g_name g)),
              (''creator'', JString (g_creator g)), (''role'', JString (gm_role m))])"

definition list_my_groups :: "env \<Rightarrow> string \<Rightarrow> db \<Rightarrow> json list store_result" where
  "list_my_groups ev user_id st =
     sql ev 0 st (sql ev 1 st
       (Inr (collect_ok ev 1 (map group_json (order_by (g_name \<circ> fst) (groups_join user_id st)))), st))"

definition list_group_members :: "env \<Rightarrow> string \<Rightarrow> db \<Rightarrow> string list store_result" where
  "list_group_members ev group_id st =
     sql ev 0 st (sql ev 1 st
       (Inr (collect_ok ev 1
          (order_by id (map gm_user_id (filter (\<lambda>m. gm_group_id m = group_id) (t_group_members st))))), st))"

definition group_exists :: "env \<Rightarrow> string \<Rightarrow> db \<Rightarrow> bool store_result" where
  "group_exists ev group_id st =
     sql ev 0 st (sql ev 1 st
       (let count = length (filter (\<lambda>g. g_group_id g = group_id) (t_groups st)) in (Inr (0 < count), st)))"

section \<open>The membership table\<close>

lemma member_key_row [simp]: "member_key (member_row role k) = k"
  by (simp add: member_key_def member_row_def)

interpretation group_members: membership
  "\<lambda>t k. k \<in> member_key ` set t" "\<lambda>k. insert_or_ignore member_key (member_row ''member'' k)"
  "\<lambda>k. delete_where (\<lambda>x. member_key x = k)" "\<lambda>t. distinct (map member_key t)"
  by (rule membership_rows) simp

lemma group_id_format:
  "length (generate_group_id millis rnd) = 8 \<and> set (generate_group_id millis rnd) \<subseteq> set ''0123456789abcdef''"
proof -
  define w where "w = ((word_of_nat millis :: u64) AND 0xFFFFFFFF) XOR (ucast rnd :: u64)"
  have bit_zero: "\<not> bit w n" if "32 \<le> n" for n
  proof -
    have mask: "(0xFFFFFFFF :: u64) = mask 32"
      by (simp add: mask_eq_exp_minus_1)
    have "\<not> bit (0xFFFFFFFF :: u64) n"
      unfolding mask using that by (simp only: bit_mask_iff) simp
    moreover have "\<not> bit (ucast rnd :: u64) n"
      using that by (auto simp: bit_simps dest: bit_imp_le_length)
    ultimately show ?thesis by (simp add: w_def bit_simps)
  qed
  have "w = take_bit 32 w"
    by (rule bit_word_eqI) (metis bit_take_bit_iff bit_zero not_less)
  then have "unat w < 2 ^ 32"
    by (metis take_bit_nat_less_exp unsigned_take_bit_eq)
  moreover have "set (fmt_08x n) \<subseteq> set ''0123456789abcdef''" for n
    using set_lower_hex [of n] by (auto simp: fmt_08x_def)
  ultimately show ?thesis
    unfolding generate_group_id_def w_def [symmetric] by (blast intro: length_fmt_08x)
qed

section \<open>Preservation of the invariant\<close>

lemma create_group_ok [tt_inv]:
  assumes "db_ok st"
  shows "db_ok (snd (create_group ev name creator st))"
proof -
  define gid where "gid = generate_group_id (ev_millis ev 0) (ev_rnd ev)"
  define st1 where "st1 = st\<lparr>t_groups := t_groups st @
    [\<lparr>g_group_id = gid, g_name = name, g_creator = creator, g_created_at = ev_datetime ev\<rparr>]\<rparr>"
  have st1: "db_ok st1" if "gid \<notin> group_ids st"
    unfolding st1_def using assms that
    by (intro db_ok_groups) (auto simp: db_ok_keysD group_ids_def)
  have st2: "db_ok (st1\<lparr>t_group_members := t_group_members st1 @ [member_row r (gid, creator)]\<rparr>)"
    if "gid \<notin> group_ids st" "(gid, creator) \<notin> member_key ` set (t_group_members st1)" for r
  proof (rule db_ok_group_members)
    note ok = st1 [OF that(1)]
    show "db_ok st1" by (rule ok)
    show "distinct (map member_key (t_group_members st1 @ [member_row r (gid, creator)]))"
      using that(2) db_ok_keysD(3) [OF ok] by auto
    show "gm_group_id ` set (t_group_members st1 @ [member_row r (gid, creator)]) \<subseteq> group_ids st1"
      using db_ok_refsD(1) [OF ok] by (auto simp: member_row_def st1_def group_ids_def)
  qed
  show ?thesis
    unfolding create_group_def Let_def gid_def [symmetric] st1_def [symmetric]
    by (intro db_ok_sql db_ok_if) (use assms st1 st2 in simp_all)
qed

lemma add_group_member_ok [tt_inv]:
  assumes "db_ok st" and "foreign_keys st \<or> group_id \<in> group_ids st"
  shows "db_ok (snd (add_group_member ev group_id user_id st))"
  unfolding add_group_member_def
proof (intro db_ok_sql db_ok_if)
  assume n: "\<not> (foreign_keys st \<and> group_id \<notin> group_ids st \<and>
    (group_id, user_id) \<notin> member_key ` set (t_group_members st))"
  have "gm_group_id ` set (insert_or_ignore member_key (member_row ''member'' (group_id, user_id)) (t_group_members st))
        \<subseteq> group_ids st"
    using n assms db_ok_refsD(1) [OF assms(1)]
    by (auto simp: insert_or_ignore_def member_row_def member_key_def)
  with assms(1) show "db_ok (snd (Inr (), st\<lparr>t_group_members :=
      insert_or_ignore member_key (member_row ''member'' (group_id, user_id)) (t_group_members st)\<rparr>))"
    by (simp add: db_ok_group_members db_ok_keysD distinct_insert_or_ignore)
qed (use assms in simp_all)

lemma remove_group_member_ok [tt_inv]:
  assumes "db_ok st"
  shows "db_ok (snd (remove_group_member ev group_id user_id st))"
  unfolding remove_group_member_def
  using assms db_ok_refsD(1) [OF assms]
  by (intro db_ok_sql) (auto intro!: db_ok_group_members simp: db_ok_keysD distinct_delete_where)

lemma list_my_groups_pure [simp]: "snd (list_my_groups ev u st) = st"
  by (simp add: list_my_groups_def sql_snd_same)

lemma list_group_members_pure [simp]: "snd (list_group_members ev g st) = st"
  by (simp add: list_group_members_def sql_snd_same)

lemma group_exists_pure [simp]: "snd (group_exists ev g st) = st"
  by (simp add: group_exists_def sql_snd_same)

lemma group_exists_iff: "fst (group_exists ev g st) = Inr b \<Longrightarrow> b \<longleftrightarrow> g \<in> group_ids st"
  by (auto simp: group_exists_def sql_def group_ids_def filter_empty_conv split: option.splits)

end
