(* ===== verification/Store_Channels.thy ===== *)
theory Store_Channels
  imports Store_Schema
begin

text \<open>
  The broadcast channels of \<open>store.rs\<close>: creation with a row id from the engine, subscriptions and the
  listings.
\<close>

section \<open>Operations\<close>

definition channel_row_of :: "string \<times> string \<times> string \<Rightarrow> i64 \<Rightarrow> channel_row" where
  "channel_row_of m i = (case m of (name, owner_id, now) \<Rightarrow>
     \<lparr>ch_channel_id = i, ch_name = name, ch_owner_id = owner_id, ch_created_at = now\<rparr>)"

definition create_channel :: "env \<Rightarrow> string \<Rightarrow> string \<Rightarrow> db \<Rightarrow> i64 store_result" where
  "create_channel ev name owner_id st =
     sql ev 0 st
       (case insert_auto (channel_row_of (name, owner_id, ev_datetime ev)) (t_channels st) of
          None \<Rightarrow> (Inl DatabaseFull, st)
        | Some (channel_id, t) \<Rightarrow> (Inr channel_id, st\<lparr>t_channels := t\<rparr>))"

definition subscriber_row_of :: "i64 \<times> string \<Rightarrow> subscriber_row" where
  "subscriber_row_of k = \<lparr>cs_channel_id = fst k, cs_user_id = snd k\<rparr>"

definition subscribe_channel :: "env \<Rightarrow> i64 \<Rightarrow> string \<Rightarrow> db \<Rightarrow> unit store_result" where
  "subscribe_channel ev channel_id user_id st =
     sql ev 0 st
       (if foreign_keys st \<and> channel_id \<notin> channel_ids st \<and>
           (channel_id, user_id) \<notin> subscriber_key ` set (t_channel_subscribers st)
        then (Inl ForeignKeyConstraint, st)
        else (Inr (), st\<lparr>t_channel_subscribers :=
                insert_or_ignore subscriber_key (subscriber_row_of (channel_id, user_id)) (t_channel_subscribers st)\<rparr>))"

definition unsubscribe_channel :: "env \<Rightarrow> i64 \<Rightarrow> string \<Rightarrow> db \<Rightarrow> unit store_result" where
  "unsubscribe_channel ev channel_id user_id st =
     sql ev 0 st
       (Inr (), st\<lparr>t_channel_subscribers :=
          delete_where (\<lambda>s. subscriber_key s = (channel_id, user_id)) (t_channel_subscribers st)\<rparr>)"

definition get_channel_owner :: "env \<Rightarrow> i64 \<Rightarrow> db \<Rightarrow> string option store_result" where
  "get_channel_owner ev channel_id st =
     sql ev 0 st (sql ev 1 st (sql ev 2 st
       (Inr (map_option ch_owner_id (lookup_key ch_channel_id (auto_rows (t_channels st)) channel_id)), st)))"

definition list_channel_subscribers :: "env \<Rightarrow> i64 \<Rightarrow> db \<Rightarrow> string list store_result" where
  "list_channel_subscribers ev channel_id st =
     sql ev 0 st (sql ev 1 st
       (Inr (collect_ok ev 1 (order_by id
          (map cs_user_id (filter (\<lambda>s. cs_channel_id s = channel_id) (t_channel_subscribers st))))), st))"

definition channel_json :: "channel_row \<Rightarrow> json" where
  "channel_json c = JObject [(''channel_id'', JNumber (ch_channel_id c)), (''name'', JString (ch_name c)),
                             (''owner_id'', JString (ch_owner_id c))]"

definition channels_join :: "string \<Rightarrow> db \<Rightarrow> channel_row list" where
  "channels_join user_id st =
     [c. c \<leftarrow> auto_rows (t_channels st), s \<leftarrow> t_channel_subscribers st,
         ch_channel_id c = cs_channel_id s \<and> cs_user_id s = user_id]"

definition list_my_channels :: "env \<Rightarrow> string \<Rightarrow> db \<Rightarrow> json list store_result" where
  "list_my_channels ev user_id st =
     sql ev 0 st (sql ev 1 st
       (Inr (collect_ok ev 1 (map channel_json (order_by ch_name (channels_join user_id st)))), st))"

definition list_all_channels :: "env \<Rightarrow> db \<Rightarrow> json list store_result" where
  "list_all_channels ev st =
     sql ev 0 st (sql ev 1 st
       (Inr (collect_ok ev 1 (map channel_json (order_by ch_name (auto_rows (t_channels st))))), st))"

section \<open>The tables as interfaces\<close>

lemma channel_row_id [simp]: "ch_channel_id (channel_row_of m i) = i"
  by (cases m) (simp add: channel_row_of_def)

lemma subscriber_key_row [simp]: "subscriber_key (subscriber_row_of k) = k"
  by (simp add: subscriber_key_def subscriber_row_of_def)

interpretation channels: row_sequence
  "\<lambda>t. map ch_channel_id (auto_rows t)" "\<lambda>m. insert_auto (channel_row_of m)" auto_delete_where
  "auto_ok ch_channel_id"
  by (rule row_sequence_auto) simp

interpretation subscribers: membership
  "\<lambda>t k. k \<in> subscriber_key ` set t" "\<lambda>k. insert_or_ignore subscriber_key (subscriber_row_of k)"
  "\<lambda>k. delete_where (\<lambda>x. subscriber_key x = k)" "\<lambda>t. distinct (map subscriber_key t)"
  by (rule membership_rows) simp

section \<open>Preservation of the invariant\<close>

lemma create_channel_ok [tt_inv]:
  assumes "db_ok st"
  shows "db_ok (snd (create_channel ev name owner_id st))"
  unfolding create_channel_def
proof (rule db_ok_sql [OF assms])
  let ?m = "(name, owner_id, ev_datetime ev)"
  show "db_ok (snd (case insert_auto (channel_row_of ?m) (t_channels st) of
      None \<Rightarrow> (Inl DatabaseFull, st) | Some (channel_id, t) \<Rightarrow> (Inr channel_id, st\<lparr>t_channels := t\<rparr>)))"
  proof (cases "insert_auto (channel_row_of ?m) (t_channels st)")
    case None
    with assms show ?thesis by simp
  next
    case (Some p)
    then obtain i t where p: "insert_auto (channel_row_of ?m) (t_channels st) = Some (i, t)"
      by (cases p) auto
    have "auto_ok ch_channel_id t"
      using channels.invar_append [OF db_ok_keysD(8) [OF assms] p] .
    moreover have "channel_ids st \<subseteq> ch_channel_id ` set (auto_rows t)"
      using insert_auto_SomeD [OF p] by (auto simp: channel_ids_def)
    ultimately show ?thesis
      using p assms by (simp add: db_ok_channels)
  qed
qed

lemma subscribe_channel_ok [tt_inv]:
  assumes "db_ok st" and "foreign_keys st \<or> channel_id \<in> channel_ids st"
  shows "db_ok (snd (subscribe_channel ev channel_id user_id st))"
  unfolding subscribe_channel_def
proof (intro db_ok_sql db_ok_if)
  assume n: "\<not> (foreign_keys st \<and> channel_id \<notin> channel_ids st \<and>
    (channel_id, user_id) \<notin> subscriber_key ` set (t_channel_subscribers st))"
  have "cs_channel_id ` set (insert_or_ignore subscriber_key (subscriber_row_of (channel_id, user_id))
          (t_channel_subscribers st)) \<subseteq> channel_ids st"
    using n assms db_ok_refsD(2) [OF assms(1)]
    by (auto simp: insert_or_ignore_def subscriber_row_of_def subscriber_key_def)
  with assms(1) show "db_ok (snd (Inr (), st\<lparr>t_channel_subscribers :=
      insert_or_ignore subscriber_key (subscriber_row_of (channel_id, user_id)) (t_channel_subscribers st)\<rparr>))"
    by (simp add: db_ok_subscribers db_ok_keysD distinct_insert_or_ignore)
qed (use assms in simp_all)

lemma unsubscribe_channel_ok [tt_inv]:
  assumes "db_ok st"
  shows "db_ok (snd (unsubscribe_channel ev channel_id user_id st))"
  unfolding unsubscribe_channel_def
  using assms db_ok_refsD(2) [OF assms]
  by (intro db_ok_sql) (auto intro!: db_ok_subscribers simp: db_ok_keysD distinct_delete_where)

lemma get_channel_owner_pure [simp]: "snd (get_channel_owner ev c st) = st"
  by (simp add: get_channel_owner_def sql_snd_same)

lemma list_channel_subscribers_pure [simp]: "snd (list_channel_subscribers ev c st) = st"
  by (simp add: list_channel_subscribers_def sql_snd_same)

lemma list_my_channels_pure [simp]: "snd (list_my_channels ev u st) = st"
  by (simp add: list_my_channels_def sql_snd_same)

lemma list_all_channels_pure [simp]: "snd (list_all_channels ev st) = st"
  by (simp add: list_all_channels_def sql_snd_same)

lemma get_channel_owner_exists:
  "fst (get_channel_owner ev c st) = Inr r \<Longrightarrow> r \<noteq> None \<longleftrightarrow> c \<in> channel_ids st"
  using lookup_key_None [of ch_channel_id "auto_rows (t_channels st)" c]
  by (cases "lookup_key ch_channel_id (auto_rows (t_channels st)) c")
    (auto simp: get_channel_owner_def sql_def channel_ids_def dest: lookup_key_SomeD split: option.splits)

lemma create_channel_Inr:
  "create_channel ev name owner_id st = (Inr i, st') \<Longrightarrow>
   i = auto_seq (t_channels st) + 1 \<and> channel_ids st' = insert i (channel_ids st) \<and>
   lookup_key ch_channel_id (auto_rows (t_channels st')) i =
     (case lookup_key ch_channel_id (auto_rows (t_channels st)) i of
        Some c \<Rightarrow> Some c | None \<Rightarrow> Some (channel_row_of (name, owner_id, ev_datetime ev) i))"
  by (auto simp: create_channel_def sql_Inr_conv channel_ids_def lookup_key_def find_append
      dest!: insert_auto_SomeD split: option.splits)

end
