(* ===== verification/Store_Messages.thy ===== *)
theory Store_Messages
  imports Store_Schema
begin

text \<open>
  The message queue of \<open>store.rs\<close>: queueing an envelope, and fetching, which removes what a user has
  waiting and queues delivery receipts. The abstract view of the table is one FIFO mailbox per
  recipient.
\<close>

section \<open>Operations\<close>

definition message_row_of :: "string \<times> string \<times> string \<times> string \<Rightarrow> i64 \<Rightarrow> message_row" where
  "message_row_of m i = (case m of (sender_id, recipient_id, envelope, now) \<Rightarrow>
     \<lparr>m_id = i, m_sender_id = sender_id, m_recipient_id = recipient_id, m_envelope = envelope,
      m_created_at = now\<rparr>)"

text \<open>\<open>serde_json::to_string(..).unwrap_or_default()\<close> and its \<open>to_vec\<close> form.\<close>

definition unwrap_or_default :: "string + 'a list \<Rightarrow> 'a list" where
  "unwrap_or_default r = (case r of Inl e \<Rightarrow> [] | Inr x \<Rightarrow> x)"

definition insert_message :: "env \<Rightarrow> string \<Rightarrow> string \<Rightarrow> string \<Rightarrow> db \<Rightarrow> unit store_result" where
  "insert_message ev sender_id recipient_id envelope_json st =
     (case insert_auto (message_row_of (sender_id, recipient_id, envelope_json, ev_datetime ev)) (t_messages st) of
        None \<Rightarrow> (Inl DatabaseFull, st)
      | Some (i, t) \<Rightarrow> (Inr (), st\<lparr>t_messages := t\<rparr>))"

definition queue_message :: "wire \<Rightarrow> env \<Rightarrow> Envelope \<Rightarrow> db \<Rightarrow> unit store_result" where
  "queue_message w ev envelope st =
     (let envelope_json = unwrap_or_default (envelope_to_string w envelope)
      in sql ev 0 st (insert_message ev (env_sender_id envelope) (env_recipient_id envelope) envelope_json st))"

definition receipt_envelope :: "wire \<Rightarrow> nat \<Rightarrow> string \<Rightarrow> Envelope \<Rightarrow> Envelope" where
  "receipt_envelope w now user_id msg =
     (let receipt = \<lparr>rc_receipt_type = Delivery, rc_original_sender = env_sender_id msg,
                     rc_original_timestamp = env_timestamp msg\<rparr>;
          receipt_bytes = unwrap_or_default (receipt_to_vec w receipt)
      in Envelope_new now user_id (env_sender_id msg) receipt_bytes Receipt)"

definition wants_receipt :: "Envelope \<Rightarrow> bool" where
  "wants_receipt msg \<longleftrightarrow> env_msg_type msg = Normal \<or> env_msg_type msg = PreKeyBundleType"

text \<open>The loop of step 4; \<open>j\<close> counts the receipts written so far.\<close>

primrec queue_receipts :: "wire \<Rightarrow> env \<Rightarrow> string \<Rightarrow> nat \<Rightarrow> Envelope list \<Rightarrow> db \<Rightarrow> unit store_result" where
  "queue_receipts w ev user_id j [] st = (Inr (), st)"
| "queue_receipts w ev user_id j (msg # msgs) st =
     (if wants_receipt msg then
        (let receipt_env = receipt_envelope w (ev_millis ev j) user_id msg;
             receipt_json = unwrap_or_default (envelope_to_string w receipt_env)
         in sql ev (3 + j) st
           (and_then (insert_message ev (env_sender_id receipt_env) (env_sender_id msg) receipt_json st)
              (\<lambda>_. queue_receipts w ev user_id (Suc j) msgs)))
      else queue_receipts w ev user_id j msgs st)"

text \<open>Step 3: texts that do not deserialize are skipped.\<close>

definition decode_envelopes :: "wire \<Rightarrow> string list \<Rightarrow> Envelope list" where
  "decode_envelopes w texts =
     concat (map (\<lambda>t. case envelope_from_str w t of Inl e \<Rightarrow> [] | Inr env \<Rightarrow> [env]) texts)"

definition rows_for :: "string \<Rightarrow> db \<Rightarrow> message_row list" where
  "rows_for user_id st = filter (\<lambda>m. m_recipient_id m = user_id) (auto_rows (t_messages st))"

definition delete_rows_for :: "string \<Rightarrow> db \<Rightarrow> db" where
  "delete_rows_for user_id st =
     st\<lparr>t_messages := auto_delete_where (\<lambda>m. m_recipient_id m = user_id) (t_messages st)\<rparr>"

definition fetch_messages :: "wire \<Rightarrow> env \<Rightarrow> string \<Rightarrow> db \<Rightarrow> Envelope list store_result" where
  "fetch_messages w ev user_id st =
     sql ev 0 st (sql ev 1 st
       (let rows = collect_ok ev 1 (order_by m_id (rows_for user_id st))
        in sql ev 2 st
          (let st' = delete_rows_for user_id st;
               envelopes = decode_envelopes w (map m_envelope rows)
           in and_then (queue_receipts w ev user_id 0 envelopes st')
                (\<lambda>_ st''. (Inr envelopes, st'')))))"

section \<open>The messages table as an interface\<close>

lemma message_row_id [simp]: "m_id (message_row_of m i) = i"
  by (cases m) (simp add: message_row_of_def)

interpretation messages: row_sequence
  "\<lambda>t. map m_id (auto_rows t)" "\<lambda>m. insert_auto (message_row_of m)" auto_delete_where
  "auto_ok m_id"
  by (rule row_sequence_auto) simp

section \<open>Preservation of the invariant\<close>

lemma insert_message_ok:
  assumes "db_ok st"
  shows "db_ok (snd (insert_message ev s r e st))"
proof (cases "insert_auto (message_row_of (s, r, e, ev_datetime ev)) (t_messages st)")
  case None
  with assms show ?thesis by (simp add: insert_message_def)
next
  case (Some p)
  then obtain i t where p: "insert_auto (message_row_of (s, r, e, ev_datetime ev)) (t_messages st) = Some (i, t)"
    by (cases p) auto
  have "auto_ok m_id t"
    using messages.invar_append [OF db_ok_keysD(7) [OF assms] p] .
  with p assms show ?thesis by (simp add: insert_message_def db_ok_messages)
qed

lemma queue_message_ok [tt_inv]: "db_ok st \<Longrightarrow> db_ok (snd (queue_message w ev e st))"
  unfolding queue_message_def Let_def by (intro db_ok_sql insert_message_ok)

lemma queue_receipts_ok: "db_ok st \<Longrightarrow> db_ok (snd (queue_receipts w ev u j msgs st))"
proof (induction msgs arbitrary: j st)
  case Nil
  then show ?case by simp
next
  case (Cons msg msgs)
  then show ?case
    unfolding queue_receipts.simps Let_def
    by (intro db_ok_if db_ok_sql db_ok_and_then insert_message_ok) simp_all
qed

lemma delete_rows_for_ok: "db_ok st \<Longrightarrow> db_ok (delete_rows_for u st)"
  by (simp add: delete_rows_for_def db_ok_messages db_ok_keysD auto_ok_delete)

lemma fetch_messages_ok [tt_inv]:
  assumes "db_ok st"
  shows "db_ok (snd (fetch_messages w ev u st))"
  unfolding fetch_messages_def Let_def
  using assms
  by (intro db_ok_sql db_ok_and_then queue_receipts_ok delete_rows_for_ok) simp_all

section \<open>Mailboxes\<close>

text \<open>The abstract state: what is waiting for each user, in order.\<close>

type_synonym mailboxes = "string \<Rightarrow> Envelope list"

definition mailbox :: "wire \<Rightarrow> db \<Rightarrow> mailboxes" where
  "mailbox w st user_id = decode_envelopes w (map m_envelope (rows_for user_id st))"

definition mb_deliver :: "Envelope \<Rightarrow> string \<Rightarrow> mailboxes \<Rightarrow> mailboxes" where
  "mb_deliver e r mb = mb(r := mb r @ [e])"

text \<open>The receipts a fetch sends, in order; \<open>j\<close> counts the clock readings.\<close>

primrec receipts_for :: "wire \<Rightarrow> env \<Rightarrow> string \<Rightarrow> nat \<Rightarrow> Envelope list \<Rightarrow> Envelope list" where
  "receipts_for w ev user_id j [] = []"
| "receipts_for w ev user_id j (msg # msgs) =
     (if wants_receipt msg
      then receipt_envelope w (ev_millis ev j) user_id msg # receipts_for w ev user_id (Suc j) msgs
      else receipts_for w ev user_id j msgs)"

definition mb_fetch :: "wire \<Rightarrow> env \<Rightarrow> string \<Rightarrow> mailboxes \<Rightarrow> Envelope list \<times> mailboxes" where
  "mb_fetch w ev user_id mb =
     (mb user_id,
      fold (\<lambda>e. mb_deliver e (env_recipient_id e)) (receipts_for w ev user_id 0 (mb user_id))
        (mb(user_id := [])))"

lemma decode_envelopes_append [simp]:
  "decode_envelopes w (xs @ ys) = decode_envelopes w xs @ decode_envelopes w ys"
  by (simp add: decode_envelopes_def)

lemma decode_envelopes_Nil [simp]: "decode_envelopes w [] = []"
  by (simp add: decode_envelopes_def)

lemma decode_own_text [simp]:
  "wire_codec w \<Longrightarrow> decode_envelopes w [unwrap_or_default (envelope_to_string w e)] = [e]"
  by (auto simp: wire_codec_def decode_envelopes_def unwrap_or_default_def
      dest!: spec [of "\<lambda>e. \<exists>s. envelope_to_string w e = Inr s \<and> envelope_from_str w s = Inr e" e])

lemma receipt_envelope_simps [simp]:
  "env_sender_id (receipt_envelope w now u m) = u"
  "env_recipient_id (receipt_envelope w now u m) = env_sender_id m"
  "env_msg_type (receipt_envelope w now u m) = Receipt"
  by (simp_all add: receipt_envelope_def Let_def)

lemma receipts_are_receipts: "e \<in> set (receipts_for w ev u j msgs) \<Longrightarrow> env_msg_type e = Receipt"
  by (induction msgs arbitrary: j) (auto split: if_splits)

lemma receipts_for_none: "(\<forall>m\<in>set msgs. \<not> wants_receipt m) \<Longrightarrow> receipts_for w ev u j msgs = []"
  by (induction msgs arbitrary: j) auto

lemma insert_message_Inr:
  assumes "wire_codec w"
    and "insert_message ev s r (unwrap_or_default (envelope_to_string w e)) st = (Inr x, st')"
  shows "mailbox w st' = mb_deliver e r (mailbox w st)"
    and "auto_seq (t_messages st') = auto_seq (t_messages st) + 1"
  using assms
  by (auto simp: insert_message_def mailbox_def mb_deliver_def rows_for_def message_row_of_def fun_eq_iff
      dest!: insert_auto_SomeD split: option.splits)

lemma insert_message_total:
  "auto_seq (t_messages st) < i64_max \<Longrightarrow> \<exists>st'. insert_message ev s r e st = (Inr (), st')"
  by (simp add: insert_message_def insert_auto_def)

lemma queue_message_Inr:
  "wire_codec w \<Longrightarrow> queue_message w ev e st = (Inr x, st') \<Longrightarrow>
   mailbox w st' = mb_deliver e (env_recipient_id e) (mailbox w st)"
  by (auto simp: queue_message_def Let_def sql_Inr_conv intro: insert_message_Inr(1))

lemma queue_receipts_Inr:
  assumes "wire_codec w" and "queue_receipts w ev u j msgs st = (Inr x, st')"
  shows "mailbox w st' =
    fold (\<lambda>e. mb_deliver e (env_recipient_id e)) (receipts_for w ev u j msgs) (mailbox w st)"
  using assms(2)
proof (induction msgs arbitrary: j st)
  case Nil
  then show ?case by simp
next
  case (Cons msg msgs)
  show ?case
  proof (cases "wants_receipt msg")
    case False
    with Cons show ?thesis by simp
  next
    case True
    let ?e = "receipt_envelope w (ev_millis ev j) u msg"
    obtain st1 where i: "insert_message ev u (env_sender_id msg) (unwrap_or_default (envelope_to_string w ?e)) st = (Inr (), st1)"
      and r: "queue_receipts w ev u (Suc j) msgs st1 = (Inr x, st')"
      using Cons.prems True
      by (auto simp: Let_def sql_Inr_conv and_then_Inr_conv)
    show ?thesis
      using Cons.IH [OF r] True insert_message_Inr(1) [OF assms(1) i] by simp
  qed
qed

lemma queue_receipts_total:
  assumes "no_faults ev" and "wire_codec w"
    and "auto_seq (t_messages st) + int (length msgs) \<le> i64_max"
  shows "\<exists>st'. queue_receipts w ev u j msgs st = (Inr (), st')"
  using assms(3)
proof (induction msgs arbitrary: j st)
  case Nil
  then show ?case by simp
next
  case (Cons msg msgs)
  show ?case
  proof (cases "wants_receipt msg")
    case False
    with Cons show ?thesis by simp
  next
    case True
    let ?e = "receipt_envelope w (ev_millis ev j) u msg"
    obtain st1 where i: "insert_message ev u (env_sender_id msg) (unwrap_or_default (envelope_to_string w ?e)) st = (Inr (), st1)"
      using insert_message_total Cons.prems by fastforce
    have "\<exists>st'. queue_receipts w ev u (Suc j) msgs st1 = (Inr (), st')"
      using Cons.prems insert_message_Inr(2) [OF assms(2) i] by (intro Cons.IH) simp
    with i True assms(1) show ?thesis by (simp add: Let_def)
  qed
qed

lemma mailbox_delete_rows_for: "mailbox w (delete_rows_for u st) = (mailbox w st)(u := [])"
  by (auto simp: mailbox_def rows_for_def delete_rows_for_def auto_delete_where_def delete_where_def
      fun_eq_iff intro!: arg_cong [where f = "\<lambda>rows. decode_envelopes w (map m_envelope rows)"] filter_cong)

lemma order_by_id_rows: "auto_ok m_id (t_messages st) \<Longrightarrow> order_by m_id (rows_for u st) = rows_for u st"
  unfolding order_by_def
proof (rule sort_key_id_if_sorted)
  assume "auto_ok m_id (t_messages st)"
  then have "sorted_wrt (\<lambda>a b. m_id a < m_id b) (rows_for u st)"
    by (simp add: auto_ok_def rows_for_def sorted_wrt_map sorted_wrt_filter)
  then have "sorted_wrt (\<lambda>a b. m_id a \<le> m_id b) (rows_for u st)"
    by (rule sorted_wrt_mono_rel [rotated]) simp
  then show "sorted (map m_id (rows_for u st))"
    by (simp add: sorted_wrt_map)
qed

text \<open>
  Whatever a fetch returns, it hands out the front of the mailbox and empties it; the rest, which is there
  only when the cursor stopped at a faulty row, is lost.
\<close>

lemma fetch_messages_returns:
  assumes "wire_codec w" and "db_ok st" and "fetch_messages w ev u st = (Inr es, st')"
  obtains lost where "mailbox w st u = es @ lost" and "ev_stop ev 1 = None \<longrightarrow> lost = []"
    and "mailbox w st' =
      fold (\<lambda>e. mb_deliver e (env_recipient_id e)) (receipts_for w ev u 0 es) ((mailbox w st)(u := []))"
proof -
  let ?read = "collect_ok ev 1 (rows_for u st)"
  have es: "es = decode_envelopes w (map m_envelope ?read)"
    and q: "queue_receipts w ev u 0 es (delete_rows_for u st) = (Inr (), st')"
    using assms(3) order_by_id_rows [OF db_ok_keysD(7) [OF assms(2)], of u]
    by (auto simp: fetch_messages_def Let_def sql_Inr_conv and_then_Inr_conv)
  have "\<exists>rest. rows_for u st = ?read @ rest \<and> (ev_stop ev 1 = None \<longrightarrow> rest = [])"
  proof (cases "ev_stop ev 1")
    case (Some n)
    then show ?thesis by (intro exI [of _ "drop n (rows_for u st)"]) (simp add: collect_ok_def)
  qed (simp add: collect_ok_def)
  then obtain rest where rows: "rows_for u st = ?read @ rest" and none: "ev_stop ev 1 = None \<longrightarrow> rest = []"
    by (elim exE conjE)
  have "mailbox w st u = es @ decode_envelopes w (map m_envelope rest)"
    unfolding mailbox_def es by (subst rows) simp
  then show thesis
    using that none queue_receipts_Inr [OF assms(1) q] by (simp add: mailbox_delete_rows_for)
qed

lemma fetch_messages_Inr:
  assumes "wire_codec w" and "db_ok st" and "ev_stop ev 1 = None"
    and "fetch_messages w ev u st = (Inr es, st')"
  shows "(es, mailbox w st') = mb_fetch w ev u (mailbox w st)"
  using fetch_messages_returns [OF assms(1,2,4)] assms(3) by (auto simp: mb_fetch_def)

lemma fetch_messages_total:
  assumes "no_faults ev" and "wire_codec w"
    and "auto_seq (t_messages st) + int (length (mailbox w st u)) \<le> i64_max"
    and "db_ok st"
  shows "\<exists>es st'. fetch_messages w ev u st = (Inr es, st')"
proof -
  have "auto_seq (t_messages (delete_rows_for u st)) = auto_seq (t_messages st)"
    by (simp add: delete_rows_for_def auto_delete_where_def)
  then obtain st' where "queue_receipts w ev u 0 (mailbox w st u) (delete_rows_for u st) = (Inr (), st')"
    using queue_receipts_total [OF assms(1,2)] assms(3) by metis
  with assms(1) order_by_id_rows [OF db_ok_keysD(7) [OF assms(4)], of u] show ?thesis
    by (simp add: fetch_messages_def Let_def mailbox_def)
qed

lemma insert_message_seq_le: "auto_seq (t_messages (snd (insert_message ev s r e st))) \<le> auto_seq (t_messages st) + 1"
  by (auto simp: insert_message_def dest!: insert_auto_SomeD split: option.split)

lemma queue_receipts_seq_le:
  "auto_seq (t_messages (snd (queue_receipts w ev u j msgs st))) \<le> auto_seq (t_messages st) + int (length msgs)"
proof (induction msgs arbitrary: j st)
  case Nil
  then show ?case by simp
next
  case (Cons msg msgs)
  let ?ins = "insert_message ev u (env_sender_id msg)
    (unwrap_or_default (envelope_to_string w (receipt_envelope w (ev_millis ev j) u msg))) st"
  obtain x st1 where i: "?ins = (x, st1)" by fastforce
  have "auto_seq (t_messages st1) \<le> auto_seq (t_messages st) + 1"
    using insert_message_seq_le [of ev u "env_sender_id msg" _ st] i by (metis snd_conv)
  with i Cons.IH [of "Suc j" st1] Cons.IH [of j st] show ?case
    by (cases x) (auto simp: Let_def sql_def split: option.split)
qed

lemma fetch_messages_seq:
  assumes "fetch_messages w ev u st = (Inr es, st')"
  shows "auto_seq (t_messages st') \<le> auto_seq (t_messages st) + int (length es)"
proof -
  have "queue_receipts w ev u 0 es (delete_rows_for u st) = (Inr (), st')"
    using assms by (auto simp: fetch_messages_def Let_def sql_Inr_conv and_then_Inr_conv)
  then show ?thesis
    using queue_receipts_seq_le [of w ev u 0 es "delete_rows_for u st"]
    by (simp add: delete_rows_for_def auto_delete_where_def)
qed

end
