(* ===== verification/Store_Polls.thy ===== *)
theory Store_Polls
  imports Store_Schema
begin

text \<open>
  The polls of \<open>store.rs\<close>: creation with options, voting with one vote per user, results, and closing
  by the creator.
\<close>

section \<open>Operations\<close>

definition poll_row_of :: "string \<times> string \<times> string \<Rightarrow> i64 \<Rightarrow> poll_row" where
  "poll_row_of m i = (case m of (creator, question, now) \<Rightarrow>
     \<lparr>p_poll_id = i, p_creator = creator, p_question = question, p_active = 1, p_created_at = now\<rparr>)"

definition option_row_of :: "i64 \<times> string \<Rightarrow> i64 \<Rightarrow> option_row" where
  "option_row_of m i = (case m of (poll_id, text) \<Rightarrow>
     \<lparr>po_option_id = i, po_poll_id = poll_id, po_option_text = text\<rparr>)"

text \<open>The loop over the options, \<open>k\<close> the number of database calls made before.\<close>

primrec insert_options :: "env \<Rightarrow> nat \<Rightarrow> i64 \<Rightarrow> string list \<Rightarrow> db \<Rightarrow> unit store_result" where
  "insert_options ev k poll_id [] st = (Inr (), st)"
| "insert_options ev k poll_id (opt # opts) st =
     sql ev k st
       (case insert_auto (option_row_of (poll_id, opt)) (t_poll_options st) of
          None \<Rightarrow> (Inl DatabaseFull, st)
        | Some (i, t) \<Rightarrow> insert_options ev (Suc k) poll_id opts (st\<lparr>t_poll_options := t\<rparr>))"

definition create_poll :: "env \<Rightarrow> string \<Rightarrow> string \<Rightarrow> string list \<Rightarrow> db \<Rightarrow> i64 store_result" where
  "create_poll ev creator question options st =
     sql ev 0 st
       (case insert_auto (poll_row_of (creator, question, ev_datetime ev)) (t_polls st) of
          None \<Rightarrow> (Inl DatabaseFull, st)
        | Some (poll_id, t) \<Rightarrow>
            and_then (insert_options ev 1 poll_id options (st\<lparr>t_polls := t\<rparr>)) (\<lambda>_ st'. (Inr poll_id, st')))"

definition find_poll :: "i64 \<Rightarrow> db \<Rightarrow> poll_row option" where
  "find_poll poll_id st = lookup_key p_poll_id (auto_rows (t_polls st)) poll_id"

text \<open>\<open>query_row(..).ok()\<close>: an error of the query reads as no row.\<close>

definition query_row_ok :: "env \<Rightarrow> nat \<Rightarrow> 'a option \<Rightarrow> 'a option" where
  "query_row_ok ev k row = (case ev_fault ev k of Some e \<Rightarrow> None | None \<Rightarrow> row)"

definition options_of :: "i64 \<Rightarrow> db \<Rightarrow> option_row list" where
  "options_of poll_id st = filter (\<lambda>r. po_poll_id r = poll_id) (auto_rows (t_poll_options st))"

definition vote_poll :: "env \<Rightarrow> i64 \<Rightarrow> string \<Rightarrow> i64 \<Rightarrow> db \<Rightarrow> unit store_result" where
  "vote_poll ev poll_id user_id option_id st =
     sql ev 0 st
       (let active = (case query_row_ok ev 1 (find_poll poll_id st) of
                        Some p \<Rightarrow> p_active p \<noteq> 0 | None \<Rightarrow> False)
        in if \<not> active then (Inl (BoxedText ''Poll is closed''), st)
           else sql ev 2 st (sql ev 3 st
             (let count = length (filter (\<lambda>r. po_option_id r = option_id) (options_of poll_id st))
              in if count = 0 then (Inl (BoxedText ''Option not found''), st)
                 else sql ev 4 st
                   (Inr (), st\<lparr>t_poll_votes := insert_or_replace vote_key
                      \<lparr>pv_poll_id = poll_id, pv_user_id = user_id, pv_option_id = option_id\<rparr>
                      (t_poll_votes st)\<rparr>))))"

text \<open>\<open>COUNT(v.user_id)\<close> of the votes joined on the option id.\<close>

definition vote_count :: "option_row \<Rightarrow> db \<Rightarrow> nat" where
  "vote_count r st = length (filter (\<lambda>v. pv_option_id v = po_option_id r) (t_poll_votes st))"

definition option_json :: "db \<Rightarrow> option_row \<Rightarrow> json" where
  "option_json st r =
     JObject [(''option_id'', JNumber (po_option_id r)), (''option_text'', JString (po_option_text r)),
              (''votes'', JNumber (int (vote_count r st)))]"

definition poll_results :: "env \<Rightarrow> i64 \<Rightarrow> db \<Rightarrow> json option store_result" where
  "poll_results ev poll_id st =
     sql ev 0 st
       (case query_row_ok ev 1 (find_poll poll_id st) of
          None \<Rightarrow> (Inr None, st)
        | Some p \<Rightarrow>
            sql ev 2 st (sql ev 3 st
              (let options = collect_ok ev 3 (map (option_json st) (order_by po_option_id (options_of poll_id st)))
               in (Inr (Some (JObject [(''poll_id'', JNumber poll_id), (''question'', JString (p_question p)),
                                       (''creator'', JString (p_creator p)), (''active'', JBool (p_active p \<noteq> 0)),
                                       (''options'', JArray options)])), st))))"

definition poll_json :: "poll_row \<Rightarrow> json" where
  "poll_json p = JObject [(''poll_id'', JNumber (p_poll_id p)), (''question'', JString (p_question p)),
                          (''creator'', JString (p_creator p))]"

definition list_active_polls :: "env \<Rightarrow> db \<Rightarrow> json list store_result" where
  "list_active_polls ev st =
     sql ev 0 st (sql ev 1 st
       (Inr (collect_ok ev 1 (map poll_json
          (order_by_desc p_created_at (filter (\<lambda>p. p_active p = 1) (auto_rows (t_polls st)))))), st))"

definition deactivate :: "i64 \<Rightarrow> db \<Rightarrow> db" where
  "deactivate poll_id st =
     st\<lparr>t_polls := (t_polls st)\<lparr>auto_rows :=
          map (\<lambda>p. if p_poll_id p = poll_id then p\<lparr>p_active := 0\<rparr> else p) (auto_rows (t_polls st))\<rparr>\<rparr>"

definition close_poll :: "env \<Rightarrow> i64 \<Rightarrow> string \<Rightarrow> db \<Rightarrow> bool store_result" where
  "close_poll ev poll_id user_id st =
     sql ev 0 st
       (case query_row_ok ev 1 (map_option p_creator (find_poll poll_id st)) of
          Some c \<Rightarrow> if c = user_id then sql ev 2 st (Inr True, deactivate poll_id st) else (Inr False, st)
        | None \<Rightarrow> (Inr False, st))"

section \<open>The tables as interfaces\<close>

lemma poll_row_id [simp]: "p_poll_id (poll_row_of m i) = i"
  by (cases m) (simp add: poll_row_of_def)

lemma option_row_id [simp]: "po_option_id (option_row_of m i) = i" "po_poll_id (option_row_of m i) = fst m"
  by (cases m, simp add: option_row_of_def)+

interpretation polls: row_sequence
  "\<lambda>t. map p_poll_id (auto_rows t)" "\<lambda>m. insert_auto (poll_row_of m)" auto_delete_where "auto_ok p_poll_id"
  by (rule row_sequence_auto) simp

interpretation poll_options: row_sequence
  "\<lambda>t. map po_option_id (auto_rows t)" "\<lambda>m. insert_auto (option_row_of m)" auto_delete_where
  "auto_ok po_option_id"
  by (rule row_sequence_auto) simp

section \<open>Preservation of the invariant\<close>

lemma insert_options_ok:
  "db_ok st \<Longrightarrow> poll_id \<in> poll_ids st \<Longrightarrow> db_ok (snd (insert_options ev k poll_id opts st))"
proof (induction opts arbitrary: k st)
  case Nil
  then show ?case by simp
next
  case (Cons opt opts)
  show ?case
  proof (cases "insert_auto (option_row_of (poll_id, opt)) (t_poll_options st)")
    case None
    with Cons.prems show ?thesis by (simp add: db_ok_sql)
  next
    case (Some p)
    then obtain i t where p: "insert_auto (option_row_of (poll_id, opt)) (t_poll_options st) = Some (i, t)"
      by (cases p) auto
    have "db_ok (st\<lparr>t_poll_options := t\<rparr>)"
      using Cons.prems insert_auto_SomeD [OF p] db_ok_refsD(3) [OF Cons.prems(1)]
        poll_options.invar_append [OF db_ok_keysD(10) [OF Cons.prems(1)] p]
      by (intro db_ok_options) auto
    then have "db_ok (snd (insert_options ev (Suc k) poll_id opts (st\<lparr>t_poll_options := t\<rparr>)))"
      using Cons.prems(2) by (intro Cons.IH) (simp_all add: poll_ids_def)
    with p Cons.prems(1) show ?thesis by (simp add: db_ok_sql)
  qed
qed

lemma create_poll_ok [tt_inv]:
  assumes "db_ok st"
  shows "db_ok (snd (create_poll ev creator question options st))"
proof (cases "insert_auto (poll_row_of (creator, question, ev_datetime ev)) (t_polls st)")
  case None
  with assms show ?thesis by (simp add: create_poll_def db_ok_sql)
next
  case (Some p)
  then obtain i t where p: "insert_auto (poll_row_of (creator, question, ev_datetime ev)) (t_polls st) = Some (i, t)"
    by (cases p) auto
  note rows = insert_auto_SomeD [OF p]
  have ok: "db_ok (st\<lparr>t_polls := t\<rparr>)"
    using assms rows polls.invar_append [OF db_ok_keysD(9) [OF assms] p]
    by (intro db_ok_polls) (auto simp: poll_ids_def)
  have "i \<in> poll_ids (st\<lparr>t_polls := t\<rparr>)"
    using rows by (simp add: poll_ids_def)
  with p assms ok show ?thesis
    unfolding create_poll_def by (intro db_ok_sql) (simp_all add: db_ok_and_then insert_options_ok)
qed

lemma vote_poll_ok [tt_inv]:
  assumes "db_ok st"
  shows "db_ok (snd (vote_poll ev poll_id user_id option_id st))"
  unfolding vote_poll_def Let_def
proof (intro db_ok_sql db_ok_if)
  let ?v = "\<lparr>pv_poll_id = poll_id, pv_user_id = user_id, pv_option_id = option_id\<rparr>"
  assume "length (filter (\<lambda>r. po_option_id r = option_id) (options_of poll_id st)) \<noteq> 0"
  then obtain r where "r \<in> set (auto_rows (t_poll_options st))" "po_option_id r = option_id" "po_poll_id r = poll_id"
    by (auto simp: options_of_def filter_empty_conv)
  with assms have "db_ok (st\<lparr>t_poll_votes := insert_or_replace vote_key ?v (t_poll_votes st)\<rparr>)"
    by (intro db_ok_votes)
      (auto simp: db_ok_keysD distinct_insert_or_replace set_insert_or_replace dest: db_ok_refsD(4))
  then show "db_ok (snd (Inr (), st\<lparr>t_poll_votes := insert_or_replace vote_key ?v (t_poll_votes st)\<rparr>))"
    by simp
qed (use assms in simp_all)

lemma deactivate_ids:
  "map p_poll_id (map (\<lambda>p. if p_poll_id p = i then p\<lparr>p_active := 0\<rparr> else p) ps) = map p_poll_id ps"
  by (simp add: comp_def if_distrib cong: if_cong)

lemma deactivate_ok:
  assumes "db_ok st"
  shows "db_ok (deactivate i st)"
  unfolding deactivate_def
proof (rule db_ok_polls [OF assms])
  let ?f = "\<lambda>p. if p_poll_id p = i then p\<lparr>p_active := 0\<rparr> else p"
  let ?t = "(t_polls st)\<lparr>auto_rows := map ?f (auto_rows (t_polls st))\<rparr>"
  have ids: "map p_poll_id (auto_rows ?t) = map p_poll_id (auto_rows (t_polls st))"
    using deactivate_ids [of i "auto_rows (t_polls st)"] by simp
  then have set_ids: "p_poll_id ` set (auto_rows ?t) = p_poll_id ` set (auto_rows (t_polls st))"
    by (metis list.set_map)
  then show "poll_ids st \<subseteq> p_poll_id ` set (auto_rows ?t)"
    by (simp add: poll_ids_def)
  show "auto_ok p_poll_id ?t"
    using db_ok_keysD(9) [OF assms] ids by (auto simp: auto_ok_def simp del: map_map)
qed

lemma close_poll_ok [tt_inv]:
  "db_ok st \<Longrightarrow> db_ok (snd (close_poll ev poll_id user_id st))"
  unfolding close_poll_def by (auto intro!: db_ok_sql simp: deactivate_ok split: option.split)

lemma poll_results_pure [simp]: "snd (poll_results ev i st) = st"
  unfolding poll_results_def Let_def by (auto intro!: sql_snd_same split: option.split)

lemma list_active_polls_pure [simp]: "snd (list_active_polls ev st) = st"
  by (simp add: list_active_polls_def sql_snd_same)

section \<open>Counting votes\<close>

lemma order_by_options:
  assumes "db_ok st"
  shows "order_by po_option_id (options_of i st) = options_of i st"
  unfolding order_by_def
proof (rule sort_key_id_if_sorted)
  have "sorted_wrt (\<lambda>a b. po_option_id a < po_option_id b) (options_of i st)"
    using db_ok_keysD(10) [OF assms] by (simp add: auto_ok_def options_of_def sorted_wrt_map sorted_wrt_filter)
  then have "sorted_wrt (\<lambda>a b. po_option_id a \<le> po_option_id b) (options_of i st)"
    by (rule sorted_wrt_mono_rel [rotated]) simp
  then show "sorted (map po_option_id (options_of i st))"
    by (simp add: sorted_wrt_map)
qed

definition votes_in :: "i64 \<Rightarrow> db \<Rightarrow> vote_row list" where
  "votes_in poll_id st = filter (\<lambda>v. pv_poll_id v = poll_id) (t_poll_votes st)"

lemma votes_in_one_per_user:
  assumes "db_ok st"
  shows "distinct (map pv_user_id (votes_in i st))"
proof -
  have "distinct (map vote_key (votes_in i st))"
    unfolding votes_in_def using db_ok_keysD(6) [OF assms] by (rule distinct_map_filter)
  then show ?thesis
    by (auto simp: distinct_map vote_key_def votes_in_def inj_on_def)
qed

text \<open>A vote for an option of a poll is a vote in that poll, and conversely.\<close>

lemma vote_option_poll:
  assumes "db_ok st" and "v \<in> set (t_poll_votes st)"
  shows "pv_option_id v \<in> po_option_id ` set (options_of i st) \<longleftrightarrow> pv_poll_id v = i"
proof -
  obtain r where r: "r \<in> set (auto_rows (t_poll_options st))" "po_option_id r = pv_option_id v" "po_poll_id r = pv_poll_id v"
    using db_ok_refsD(4) [OF assms] by blast
  have inj: "inj_on po_option_id (set (auto_rows (t_poll_options st)))"
    using auto_ok_distinct [OF db_ok_keysD(10) [OF assms(1)]] by (simp add: distinct_map)
  show ?thesis
  proof
    assume "pv_option_id v \<in> po_option_id ` set (options_of i st)"
    then obtain r' where r': "r' \<in> set (auto_rows (t_poll_options st))" "po_poll_id r' = i"
      "po_option_id r' = po_option_id r"
      using r(2) by (auto simp: options_of_def)
    have "r' = r" using inj r'(3,1) r(1) by (rule inj_onD)
    with r' r show "pv_poll_id v = i" by simp
  next
    assume "pv_poll_id v = i"
    with r have "r \<in> set (options_of i st)" by (simp add: options_of_def)
    then show "pv_option_id v \<in> po_option_id ` set (options_of i st)" using r(2) by force
  qed
qed

lemma vote_counts_sum:
  assumes "db_ok st"
  shows "(\<Sum>r\<leftarrow>options_of i st. vote_count r st) = length (votes_in i st)"
proof -
  have d: "distinct (map po_option_id (options_of i st))"
    unfolding options_of_def using auto_ok_distinct [OF db_ok_keysD(10) [OF assms]]
    by (rule distinct_map_filter)
  have "(\<Sum>r\<leftarrow>options_of i st. vote_count r st)
      = (\<Sum>k\<leftarrow>map po_option_id (options_of i st). length (filter (\<lambda>v. pv_option_id v = k) (t_poll_votes st)))"
    by (simp add: vote_count_def comp_def)
  also have "\<dots> = length (filter (\<lambda>v. pv_option_id v \<in> set (map po_option_id (options_of i st))) (t_poll_votes st))"
    by (rule length_filter_disjoint_sum [OF d])
  also have "\<dots> = length (votes_in i st)"
    unfolding votes_in_def
    by (rule arg_cong [where f = length], rule filter_cong) (simp_all add: vote_option_poll [OF assms])
  finally show ?thesis .
qed

lemma vote_poll_Inr:
  "vote_poll ev poll_id user_id option_id st = (Inr u, st') \<Longrightarrow>
   (\<exists>p. find_poll poll_id st = Some p \<and> p_active p \<noteq> 0) \<and>
   option_id \<in> po_option_id ` set (options_of poll_id st) \<and>
   st' = st\<lparr>t_poll_votes := insert_or_replace vote_key
     \<lparr>pv_poll_id = poll_id, pv_user_id = user_id, pv_option_id = option_id\<rparr> (t_poll_votes st)\<rparr>"
  by (auto simp: vote_poll_def Let_def sql_Inr_conv query_row_ok_def filter_empty_conv
      split: option.splits if_splits)

lemma find_poll_deactivate:
  "find_poll j (deactivate i st) =
     (if j = i then map_option (\<lambda>p. p\<lparr>p_active := 0\<rparr>) (find_poll j st) else find_poll j st)"
proof -
  have "find (\<lambda>p. p_poll_id p = j) (map (\<lambda>p. if p_poll_id p = i then p\<lparr>p_active := 0\<rparr> else p) ps)
      = (if j = i then map_option (\<lambda>p. p\<lparr>p_active := 0\<rparr>) (find (\<lambda>p. p_poll_id p = j) ps)
         else find (\<lambda>p. p_poll_id p = j) ps)" for ps
    by (induction ps) auto
  from this [of "auto_rows (t_polls st)"] show ?thesis
    unfolding find_poll_def deactivate_def lookup_key_def by simp
qed

end
