(* ===== verification/Store_Timeline.thy ===== *)
theory Store_Timeline
  imports Store_Schema
begin

text \<open>
  The timeline of \<open>store.rs\<close>: posts and comments with seconds timestamps, deletion, the feed of a user
  and the comments of a post.
\<close>

section \<open>Operations\<close>

definition post_row_of :: "string \<times> string option \<times> string \<times> i64 \<Rightarrow> i64 \<Rightarrow> post_row" where
  "post_row_of m i = (case m of (user_id, target, content, ts) \<Rightarrow>
     \<lparr>tp_post_id = i, tp_user_id = user_id, tp_target_user_id = target, tp_content = content,
      tp_created_at = ts\<rparr>)"

definition comment_row_of :: "i64 \<times> string \<times> string \<times> i64 \<Rightarrow> i64 \<Rightarrow> comment_row" where
  "comment_row_of m i = (case m of (post_id, user_id, content, ts) \<Rightarrow>
     \<lparr>tc_comment_id = i, tc_post_id = post_id, tc_user_id = user_id, tc_content = content,
      tc_created_at = ts\<rparr>)"

definition create_post :: "env \<Rightarrow> string \<Rightarrow> string \<Rightarrow> string option \<Rightarrow> db \<Rightarrow> i64 store_result" where
  "create_post ev user_id content target_user_id st =
     (let ts = as_i64_cast (as_secs (ev_millis ev 0))
      in sql ev 0 st
        (case insert_auto (post_row_of (user_id, target_user_id, content, ts)) (t_timeline_posts st) of
           None \<Rightarrow> (Inl DatabaseFull, st)
         | Some (post_id, t) \<Rightarrow> (Inr post_id, st\<lparr>t_timeline_posts := t\<rparr>)))"

text \<open>The comments go first, and go whoever asks; only the post row is tied to its owner.\<close>

definition delete_comments :: "i64 \<Rightarrow> db \<Rightarrow> db" where
  "delete_comments post_id st =
     st\<lparr>t_timeline_comments := auto_delete_where (\<lambda>c. tc_post_id c = post_id) (t_timeline_comments st)\<rparr>"

definition delete_post :: "env \<Rightarrow> i64 \<Rightarrow> string \<Rightarrow> db \<Rightarrow> bool store_result" where
  "delete_post ev post_id user_id st =
     sql ev 0 st
       (let st1 = delete_comments post_id st;
            own = (\<lambda>p. tp_post_id p = post_id \<and> tp_user_id p = user_id);
            affected = length (filter own (auto_rows (t_timeline_posts st1)))
        in sql ev 1 st1
          (Inr (0 < affected), st1\<lparr>t_timeline_posts := auto_delete_where own (t_timeline_posts st1)\<rparr>))"

text \<open>The users the subquery of \<open>get_timeline\<close> selects: group mates and both ends of queued messages.\<close>

definition timeline_contacts :: "string \<Rightarrow> db \<Rightarrow> string list" where
  "timeline_contacts user_id st =
     (let mine = map gm_group_id (filter (\<lambda>m. gm_user_id m = user_id) (t_group_members st))
      in map gm_user_id (filter (\<lambda>m. gm_group_id m \<in> set mine) (t_group_members st)) @
         map m_sender_id (filter (\<lambda>m. m_recipient_id m = user_id) (auto_rows (t_messages st))) @
         map m_recipient_id (filter (\<lambda>m. m_sender_id m = user_id) (auto_rows (t_messages st))))"

definition timeline_visible :: "string \<Rightarrow> db \<Rightarrow> post_row \<Rightarrow> bool" where
  "timeline_visible user_id st p \<longleftrightarrow>
     tp_user_id p = user_id \<or> tp_user_id p \<in> set (timeline_contacts user_id st) \<or>
     tp_target_user_id p = Some user_id"

definition comment_count :: "i64 \<Rightarrow> db \<Rightarrow> nat" where
  "comment_count post_id st =
     length (filter (\<lambda>c. tc_post_id c = post_id) (auto_rows (t_timeline_comments st)))"

definition timeline_posts :: "string \<Rightarrow> db \<Rightarrow> post_row list" where
  "timeline_posts user_id st =
     take 100 (order_by_desc tp_created_at
       (filter (timeline_visible user_id st) (auto_rows (t_timeline_posts st))))"

definition post_json :: "db \<Rightarrow> post_row \<Rightarrow> json" where
  "post_json st p =
     JObject [(''post_id'', JNumber (tp_post_id p)), (''user_id'', JString (tp_user_id p)),
              (''content'', JString (tp_content p)), (''created_at'', JNumber (tp_created_at p)),
              (''target_user_id'', opt_string_json (tp_target_user_id p)),
              (''comment_count'', JNumber (int (comment_count (tp_post_id p) st)))]"

definition get_timeline :: "env \<Rightarrow> string \<Rightarrow> db \<Rightarrow> json list store_result" where
  "get_timeline ev user_id st =
     sql ev 0 st (sql ev 1 st
       (Inr (collect_ok ev 1 (map (post_json st) (timeline_posts user_id st))), st))"

definition add_comment :: "env \<Rightarrow> i64 \<Rightarrow> string \<Rightarrow> string \<Rightarrow> db \<Rightarrow> i64 store_result" where
  "add_comment ev post_id user_id content st =
     (let ts = as_i64_cast (as_secs (ev_millis ev 0))
      in sql ev 0 st
        (case insert_auto (comment_row_of (post_id, user_id, content, ts)) (t_timeline_comments st) of
           None \<Rightarrow> (Inl DatabaseFull, st)
         | Some (comment_id, t) \<Rightarrow>
             if foreign_keys st \<and> post_id \<notin> post_ids st then (Inl ForeignKeyConstraint, st)
             else (Inr comment_id, st\<lparr>t_timeline_comments := t\<rparr>)))"

definition comment_json :: "comment_row \<Rightarrow> json" where
  "comment_json c =
     JObject [(''comment_id'', JNumber (tc_comment_id c)), (''user_id'', JString (tc_user_id c)),
              (''content'', JString (tc_content c)), (''created_at'', JNumber (tc_created_at c))]"

definition get_comments :: "env \<Rightarrow> i64 \<Rightarrow> db \<Rightarrow> json list store_result" where
  "get_comments ev post_id st =
     sql ev 0 st (sql ev 1 st
       (Inr (collect_ok ev 1 (map comment_json (order_by tc_created_at
          (filter (\<lambda>c. tc_post_id c = post_id) (auto_rows (t_timeline_comments st)))))), st))"

section \<open>The tables as interfaces\<close>

lemma post_row_id [simp]: "tp_post_id (post_row_of m i) = i"
  by (cases m) (simp add: post_row_of_def)

lemma comment_row_id [simp]: "tc_comment_id (comment_row_of m i) = i" "tc_post_id (comment_row_of m i) = fst m"
  by (cases m, simp add: comment_row_of_def)+

interpretation posts: row_sequence
  "\<lambda>t. map tp_post_id (auto_rows t)" "\<lambda>m. insert_auto (post_row_of m)" auto_delete_where "auto_ok tp_post_id"
  by (rule row_sequence_auto) simp

interpretation comments: row_sequence
  "\<lambda>t. map tc_comment_id (auto_rows t)" "\<lambda>m. insert_auto (comment_row_of m)" auto_delete_where
  "auto_ok tc_comment_id"
  by (rule row_sequence_auto) simp

section \<open>Preservation of the invariant\<close>

lemma create_post_ok [tt_inv]:
  assumes "db_ok st"
  shows "db_ok (snd (create_post ev user_id content target st))"
  unfolding create_post_def Let_def
proof (rule db_ok_sql [OF assms])
  let ?m = "(user_id, target, content, as_i64_cast (as_secs (ev_millis ev 0)))"
  show "db_ok (snd (case insert_auto (post_row_of ?m) (t_timeline_posts st) of
      None \<Rightarrow> (Inl DatabaseFull, st) | Some (post_id, t) \<Rightarrow> (Inr post_id, st\<lparr>t_timeline_posts := t\<rparr>)))"
  proof (cases "insert_auto (post_row_of ?m) (t_timeline_posts st)")
    case None
    with assms show ?thesis by simp
  next
    case (Some p)
    then obtain i t where p: "insert_auto (post_row_of ?m) (t_timeline_posts st) = Some (i, t)"
      by (cases p) auto
    have "auto_ok tp_post_id t"
      using posts.invar_append [OF db_ok_keysD(11) [OF assms] p] .
    then have "db_ok (st\<lparr>t_timeline_posts := t\<rparr>)"
      using assms insert_auto_SomeD [OF p] db_ok_refsD(5) [OF assms]
      by (intro db_ok_posts) (auto simp: post_ids_def)
    with p show ?thesis by simp
  qed
qed

lemma delete_comments_ok: "db_ok st \<Longrightarrow> db_ok (delete_comments i st)"
  unfolding delete_comments_def
  by (rule db_ok_comments)
    (simp_all add: db_ok_keysD auto_ok_delete, auto simp: auto_delete_where_def dest: db_ok_refsD(5))

lemma delete_post_ok [tt_inv]:
  assumes "db_ok st"
  shows "db_ok (snd (delete_post ev post_id user_id st))"
  unfolding delete_post_def Let_def
proof (intro db_ok_sql)
  let ?st1 = "delete_comments post_id st"
  let ?own = "\<lambda>p. tp_post_id p = post_id \<and> tp_user_id p = user_id"
  show ok1: "db_ok ?st1" using assms by (rule delete_comments_ok)
  have none: "c \<in> set (auto_rows (t_timeline_comments ?st1)) \<Longrightarrow> tc_post_id c \<noteq> post_id" for c
    by (simp add: delete_comments_def auto_delete_where_def)
  have "tc_post_id ` set (auto_rows (t_timeline_comments ?st1))
      \<subseteq> tp_post_id ` set (auto_rows (auto_delete_where ?own (t_timeline_posts ?st1)))" if "foreign_keys ?st1"
  proof
    fix i assume "i \<in> tc_post_id ` set (auto_rows (t_timeline_comments ?st1))"
    then have "i \<in> post_ids ?st1" "i \<noteq> post_id"
      using db_ok_refsD(5) [OF ok1 that] none by auto
    then show "i \<in> tp_post_id ` set (auto_rows (auto_delete_where ?own (t_timeline_posts ?st1)))"
      by (auto simp: post_ids_def auto_delete_where_def)
  qed
  then show "db_ok (snd (Inr (0 < length (filter ?own (auto_rows (t_timeline_posts ?st1)))),
      ?st1\<lparr>t_timeline_posts := auto_delete_where ?own (t_timeline_posts ?st1)\<rparr>))"
    using ok1 by (simp add: db_ok_posts db_ok_keysD auto_ok_delete)
qed (rule assms)

lemma add_comment_ok [tt_inv]:
  assumes "db_ok st"
  shows "db_ok (snd (add_comment ev post_id user_id content st))"
  unfolding add_comment_def Let_def
proof (rule db_ok_sql [OF assms])
  let ?m = "(post_id, user_id, content, as_i64_cast (as_secs (ev_millis ev 0)))"
  show "db_ok (snd (case insert_auto (comment_row_of ?m) (t_timeline_comments st) of
      None \<Rightarrow> (Inl DatabaseFull, st)
    | Some (comment_id, t) \<Rightarrow> if foreign_keys st \<and> post_id \<notin> post_ids st then (Inl ForeignKeyConstraint, st)
        else (Inr comment_id, st\<lparr>t_timeline_comments := t\<rparr>)))"
  proof (cases "insert_auto (comment_row_of ?m) (t_timeline_comments st)")
    case None
    with assms show ?thesis by simp
  next
    case (Some p)
    then obtain i t where p: "insert_auto (comment_row_of ?m) (t_timeline_comments st) = Some (i, t)"
      by (cases p) auto
    have "auto_ok tc_comment_id t"
      using comments.invar_append [OF db_ok_keysD(12) [OF assms] p] .
    then have "db_ok (st\<lparr>t_timeline_comments := t\<rparr>)" if "\<not> (foreign_keys st \<and> post_id \<notin> post_ids st)"
      using assms that insert_auto_SomeD [OF p] db_ok_refsD(5) [OF assms]
      by (intro db_ok_comments) auto
    with p assms show ?thesis by simp
  qed
qed

lemma get_timeline_pure [simp]: "snd (get_timeline ev u st) = st"
  by (simp add: get_timeline_def sql_snd_same)

lemma get_comments_pure [simp]: "snd (get_comments ev i st) = st"
  by (simp add: get_comments_def sql_snd_same)

lemma set_timeline_posts:
  "set (timeline_posts u st) \<subseteq> {p \<in> set (auto_rows (t_timeline_posts st)). timeline_visible u st p}"
  by (auto simp: timeline_posts_def dest: in_set_takeD)

lemma timeline_posts_all:
  "length (filter (timeline_visible u st) (auto_rows (t_timeline_posts st))) \<le> 100 \<Longrightarrow>
   set (timeline_posts u st) = {p \<in> set (auto_rows (t_timeline_posts st)). timeline_visible u st p}"
  by (auto simp: timeline_posts_def)

lemma timeline_posts_sorted: "sorted_wrt (\<ge>) (map tp_created_at (timeline_posts u st))"
  unfolding timeline_posts_def take_map [symmetric]
  by (rule sorted_wrt_take) (rule sorted_order_by_desc)

text \<open>A visible post that the limit cuts off is not newer than any post shown.\<close>

lemma timeline_posts_newest:
  assumes "p \<in> set (auto_rows (t_timeline_posts st))" and "timeline_visible u st p"
    and "p \<notin> set (timeline_posts u st)" and "q \<in> set (timeline_posts u st)"
  shows "tp_created_at p \<le> tp_created_at q"
proof -
  let ?all = "order_by_desc tp_created_at (filter (timeline_visible u st) (auto_rows (t_timeline_posts st)))"
  have split: "?all = take 100 ?all @ drop 100 ?all" by simp
  have "p \<in> set ?all" using assms(1,2) by simp
  then have "p \<in> set (drop 100 ?all)"
    using assms(3) split unfolding timeline_posts_def by (metis Un_iff set_append)
  moreover have "sorted_wrt (\<lambda>a b. tp_created_at b \<le> tp_created_at a) (take 100 ?all @ drop 100 ?all)"
    using sorted_order_by_desc [of tp_created_at] by (simp add: sorted_wrt_map)
  ultimately show ?thesis
    using assms(4) unfolding timeline_posts_def sorted_wrt_append by blast
qed

end
