(* ===== verification/Server_Commands.thy ===== *)
theory Server_Commands
  imports Store_Users Store_Groups Store_Channels Store_Messages Store_Polls Store_Timeline
begin

text \<open>
  The protocol types of \<open>tintin-server/src/main.rs\<close>: one record per command struct and the response.
  The derived deserializers of the structs and \<open>serde_json\<close>'s text functions are third-party code:
  they are the fields of \<open>server\<close>, which every handler takes.
\<close>

section \<open>Command structs\<close>

record RegisterCmd =
  rg_cmd :: string
  rg_user_id :: string
  rg_identity_key :: bytes
  rg_signed_pre_key :: PreKeyBundle

record FetchKeysCmd =
  fk_cmd :: string
  fk_user_id :: string

record SendCmd =
  sn_cmd :: string
  sn_envelope :: Envelope

record ReceiveCmd =
  rv_cmd :: string
  rv_user_id :: string

record ListUsersCmd =
  lu_cmd :: string
  lu_query :: "string option"

record CreateGroupCmd =
  cg_cmd :: string
  cg_name :: string
  cg_creator :: string

record JoinGroupCmd =
  jg_cmd :: string
  jg_group_id :: string
  jg_user_id :: string

record LeaveGroupCmd =
  lg_cmd :: string
  lg_group_id :: string
  lg_user_id :: string

record MyGroupsCmd =
  mg_cmd :: string
  mg_user_id :: string

record GroupMembersCmd =
  gmc_cmd :: string
  gmc_group_id :: string

record SetStatusCmd =
  ss_cmd :: string
  ss_user_id :: string
  ss_content :: string

record ClearStatusCmd =
  cls_cmd :: string
  cls_user_id :: string

record SetPresenceCmd =
  sp_cmd :: string
  sp_user_id :: string
  sp_presence :: string

record CreateChannelCmd =
  cc_cmd :: string
  cc_name :: string
  cc_owner_id :: string

record SubscribeChannelCmd =
  sc_cmd :: string
  sc_channel_id :: i64
  sc_user_id :: string

record UnsubscribeChannelCmd =
  uc_cmd :: string
  uc_channel_id :: i64
  uc_user_id :: string

record ChannelMembersCmd =
  chm_cmd :: string
  chm_channel_id :: i64

record CreatePollCmd =
  cp_cmd :: string
  cp_creator :: string
  cp_question :: string
  cp_options :: "string list"

record VotePollCmd =
  vp_cmd :: string
  vp_poll_id :: i64
  vp_user_id :: string
  vp_option_id :: i64

record PollByIdCmd =
  pb_cmd :: string
  pb_poll_id :: i64

record ClosePollCmd =
  clp_cmd :: string
  clp_poll_id :: i64
  clp_user_id :: string

record CreatePostCmd =
  cpo_cmd :: string
  cpo_user_id :: string
  cpo_content :: string
  cpo_target_user_id :: "string option"

record TimelineCmd =
  tl_cmd :: string
  tl_user_id :: string

record AddCommentCmd =
  ac_cmd :: string
  ac_post_id :: i64
  ac_user_id :: string
  ac_content :: string

record PostIdCmd =
  pi_cmd :: string
  pi_post_id :: i64

record DeletePostCmd =
  dp_cmd :: string
  dp_post_id :: i64
  dp_user_id :: string

record ServerResponse =
  sr_status :: string
  sr_data :: "json option"
  sr_error :: "string option"

section \<open>Third-party functions of the server\<close>

text \<open>
  \<open><struct>_from_value\<close> is \<open>serde_json::from_value\<close> at the struct, \<open>show_rusqlite\<close> the \<open>Display\<close> of a
  database error. Deserializing an \<open>Envelope\<close> inside a command is part of \<open>SendCmd_from_value\<close>.
\<close>

record decoders =
  RegisterCmd_from_value :: "json \<Rightarrow> string + RegisterCmd"
  FetchKeysCmd_from_value :: "json \<Rightarrow> string + FetchKeysCmd"
  SendCmd_from_value :: "json \<Rightarrow> string + SendCmd"
  ReceiveCmd_from_value :: "json \<Rightarrow> string + ReceiveCmd"
  ListUsersCmd_from_value :: "json \<Rightarrow> string + ListUsersCmd"
  CreateGroupCmd_from_value :: "json \<Rightarrow> string + CreateGroupCmd"
  JoinGroupCmd_from_value :: "json \<Rightarrow> string + JoinGroupCmd"
  LeaveGroupCmd_from_value :: "json \<Rightarrow> string + LeaveGroupCmd"
  MyGroupsCmd_from_value :: "json \<Rightarrow> string + MyGroupsCmd"
  GroupMembersCmd_from_value :: "json \<Rightarrow> string + GroupMembersCmd"
  SetStatusCmd_from_value :: "json \<Rightarrow> string + SetStatusCmd"
  ClearStatusCmd_from_value :: "json \<Rightarrow> string + ClearStatusCmd"
  SetPresenceCmd_from_value :: "json \<Rightarrow> string + SetPresenceCmd"
  CreateChannelCmd_from_value :: "json \<Rightarrow> string + CreateChannelCmd"
  SubscribeChannelCmd_from_value :: "json \<Rightarrow> string + SubscribeChannelCmd"
  UnsubscribeChannelCmd_from_value :: "json \<Rightarrow> string + UnsubscribeChannelCmd"
  ChannelMembersCmd_from_value :: "json \<Rightarrow> string + ChannelMembersCmd"
  CreatePollCmd_from_value :: "json \<Rightarrow> string + CreatePollCmd"
  VotePollCmd_from_value :: "json \<Rightarrow> string + VotePollCmd"
  PollByIdCmd_from_value :: "json \<Rightarrow> string + PollByIdCmd"
  ClosePollCmd_from_value :: "json \<Rightarrow> string + ClosePollCmd"
  CreatePostCmd_from_value :: "json \<Rightarrow> string + CreatePostCmd"
  TimelineCmd_from_value :: "json \<Rightarrow> string + TimelineCmd"
  AddCommentCmd_from_value :: "json \<Rightarrow> string + AddCommentCmd"
  PostIdCmd_from_value :: "json \<Rightarrow> string + PostIdCmd"
  DeletePostCmd_from_value :: "json \<Rightarrow> string + DeletePostCmd"

record server =
  dec :: decoders
  codec :: wire
  value_from_str :: "string \<Rightarrow> string + json"
  bundle_to_string :: "PreKeyBundle \<Rightarrow> string + string"
  response_to_string :: "ServerResponse \<Rightarrow> string + string"
  show_rusqlite :: "store_error \<Rightarrow> string"

text \<open>\<open>Display\<close> of what a store function returns as its error; a boxed text shows itself.\<close>

fun show_error :: "server \<Rightarrow> store_error \<Rightarrow> string" where
  "show_error sv (BoxedText t) = t"
| "show_error sv e = show_rusqlite sv e"

section \<open>Responses\<close>

definition ok_response :: "json option \<Rightarrow> ServerResponse" where
  "ok_response d = \<lparr>sr_status = ''ok'', sr_data = d, sr_error = None\<rparr>"

definition error_response :: "string \<Rightarrow> ServerResponse" where
  "error_response msg = \<lparr>sr_status = ''error'', sr_data = None, sr_error = Some msg\<rparr>"

text \<open>
  The two shapes every handler is made of: \<open>match serde_json::from_value(value.clone())\<close> with its
  early return, and the \<open>match\<close> on the result of the store call.
\<close>

definition decode_payload :: "string \<Rightarrow> string + 'c \<Rightarrow> db \<Rightarrow> ('c \<Rightarrow> ServerResponse \<times> db) \<Rightarrow> ServerResponse \<times> db" where
  "decode_payload what r st k =
     (case r of Inl e \<Rightarrow> (error_response (what @ '': '' @ e), st) | Inr cmd \<Rightarrow> k cmd)"

definition respond :: "server \<Rightarrow> string \<Rightarrow> 'a store_result \<Rightarrow> ('a \<Rightarrow> ServerResponse) \<Rightarrow> ServerResponse \<times> db" where
  "respond sv what r f =
     (case r of (Inr x, st) \<Rightarrow> (f x, st) | (Inl e, st) \<Rightarrow> (error_response (what @ '': '' @ show_error sv e), st))"

lemma respond_simps [simp]:
  "respond sv what (Inr x, st) f = (f x, st)"
  "respond sv what (Inl e, st) f = (error_response (what @ '': '' @ show_error sv e), st)"
  by (simp_all add: respond_def)

lemma snd_respond [simp]: "snd (respond sv what r f) = snd r"
  by (cases r) (simp add: respond_def split: sum.split)

lemma decode_payload_simps [simp]:
  "decode_payload what (Inl e) st k = (error_response (what @ '': '' @ e), st)"
  "decode_payload what (Inr c) st k = k c"
  by (simp_all add: decode_payload_def)

lemma snd_decode_payload_same: "(\<And>c. snd (k c) = st) \<Longrightarrow> snd (decode_payload what r st k) = st"
  by (simp add: decode_payload_def split: sum.split)

lemma decode_payload_ok:
  "db_ok st \<Longrightarrow> (\<And>c. db_ok (snd (k c))) \<Longrightarrow> db_ok (snd (decode_payload what r st k))"
  by (simp add: decode_payload_def split: sum.split)

lemma response_distinct [simp]:
  "ok_response d \<noteq> error_response e" "error_response e \<noteq> ok_response d"
  by (simp_all add: ok_response_def error_response_def)

end
