(* ===== verification/Server_Handlers.thy ===== *)
theory Server_Handlers
  imports Server_Commands
begin

text \<open>
  The command handlers of \<open>tintin-server/src/main.rs\<close>, the dispatcher and the connection loop. A
  handler maps the request value and the database to the response and the database after it. The two
  handlers that look before they write (\<open>handle_join_group\<close>, \<open>handle_subscribe_channel\<close>) and
  \<open>handle_create_channel\<close> make two store calls, each under its own lock, so they are composed of the
  part before and the part after the gap, and take one environment per call.
\<close>

section \<open>Users, keys and messages\<close>

definition handle_register :: "server \<Rightarrow> env \<Rightarrow> json \<Rightarrow> db \<Rightarrow> ServerResponse \<times> db" where
  "handle_register sv ev value st =
     decode_payload ''Invalid register payload'' (RegisterCmd_from_value (dec sv) value) st (\<lambda>cmd.
       (let signed_pre_key_json = unwrap_or_default (bundle_to_string sv (rg_signed_pre_key cmd))
        in respond sv ''Database error'' (register_user ev (rg_user_id cmd) (rg_identity_key cmd) signed_pre_key_json st)
             (\<lambda>_. ok_response (Some (JObject [(''user_id'', JString (rg_user_id cmd))])))))"

definition handle_fetch_keys :: "server \<Rightarrow> env \<Rightarrow> json \<Rightarrow> db \<Rightarrow> ServerResponse \<times> db" where
  "handle_fetch_keys sv ev value st =
     decode_payload ''Invalid fetch_keys payload'' (FetchKeysCmd_from_value (dec sv) value) st (\<lambda>cmd.
       respond sv ''Database error'' (get_key_bundle (value_from_str sv) ev (fk_user_id cmd) st)
         (\<lambda>r. case r of Some bundle \<Rightarrow> ok_response (Some bundle)
            | None \<Rightarrow> error_response (''User '' @ CHR 0x27 # fk_user_id cmd @ CHR 0x27 # '' not found'')))"

definition handle_send :: "server \<Rightarrow> env \<Rightarrow> json \<Rightarrow> db \<Rightarrow> ServerResponse \<times> db" where
  "handle_send sv ev value st =
     decode_payload ''Invalid send payload'' (SendCmd_from_value (dec sv) value) st (\<lambda>cmd.
       respond sv ''Database error'' (queue_message (codec sv) ev (sn_envelope cmd) st)
         (\<lambda>_. ok_response (Some (JObject [(''queued_for'', JString (env_recipient_id (sn_envelope cmd)))]))))"

definition handle_receive :: "server \<Rightarrow> env \<Rightarrow> json \<Rightarrow> db \<Rightarrow> ServerResponse \<times> db" where
  "handle_receive sv ev value st =
     decode_payload ''Invalid receive payload'' (ReceiveCmd_from_value (dec sv) value) st (\<lambda>cmd.
       respond sv ''Database error'' (fetch_messages (codec sv) ev (rv_user_id cmd) st)
         (\<lambda>messages. ok_response (Some (JObject [(''messages'', JArray (map (envelope_to_value (codec sv)) messages))]))))"

definition user_json :: "string \<times> string \<Rightarrow> json" where
  "user_json u = JObject [(''user_id'', JString (fst u)), (''presence'', JString (snd u))]"

definition handle_list_users :: "server \<Rightarrow> env \<Rightarrow> json \<Rightarrow> db \<Rightarrow> ServerResponse \<times> db" where
  "handle_list_users sv ev value st =
     decode_payload ''Invalid payload'' (ListUsersCmd_from_value (dec sv) value) st (\<lambda>cmd.
       respond sv ''Database error'' (list_users ev (lu_query cmd) st)
         (\<lambda>users. ok_response (Some (JObject [(''users'', JArray (map user_json users))]))))"

section \<open>Groups\<close>

definition handle_create_group :: "server \<Rightarrow> env \<Rightarrow> json \<Rightarrow> db \<Rightarrow> ServerResponse \<times> db" where
  "handle_create_group sv ev value st =
     decode_payload ''Invalid payload'' (CreateGroupCmd_from_value (dec sv) value) st (\<lambda>cmd.
       respond sv ''Database error'' (create_group ev (cg_name cmd) (cg_creator cmd) st)
         (\<lambda>group_id. ok_response (Some (JObject [(''group_id'', JString group_id)]))))"

definition group_not_found :: "string \<Rightarrow> ServerResponse" where
  "group_not_found g = error_response (''Group '' @ CHR 0x27 # g @ CHR 0x27 # '' not found'')"

text \<open>The check: \<open>group_exists(..).unwrap_or(false)\<close>.\<close>

definition join_group_check :: "env \<Rightarrow> JoinGroupCmd \<Rightarrow> db \<Rightarrow> bool" where
  "join_group_check ev cmd st = (case fst (group_exists ev (jg_group_id cmd) st) of Inl e \<Rightarrow> False | Inr b \<Rightarrow> b)"

definition join_group_commit :: "server \<Rightarrow> env \<Rightarrow> JoinGroupCmd \<Rightarrow> db \<Rightarrow> ServerResponse \<times> db" where
  "join_group_commit sv ev cmd st =
     respond sv ''Database error'' (add_group_member ev (jg_group_id cmd) (jg_user_id cmd) st) (\<lambda>_. ok_response None)"

definition handle_join_group :: "server \<Rightarrow> (nat \<Rightarrow> env) \<Rightarrow> json \<Rightarrow> db \<Rightarrow> ServerResponse \<times> db" where
  "handle_join_group sv evs value st =
     decode_payload ''Invalid payload'' (JoinGroupCmd_from_value (dec sv) value) st (\<lambda>cmd.
       if \<not> join_group_check (evs 0) cmd st then (group_not_found (jg_group_id cmd), st)
       else join_group_commit sv (evs 1) cmd st)"

definition handle_leave_group :: "server \<Rightarrow> env \<Rightarrow> json \<Rightarrow> db \<Rightarrow> ServerResponse \<times> db" where
  "handle_leave_group sv ev value st =
     decode_payload ''Invalid payload'' (LeaveGroupCmd_from_value (dec sv) value) st (\<lambda>cmd.
       respond sv ''Database error'' (remove_group_member ev (lg_group_id cmd) (lg_user_id cmd) st)
         (\<lambda>_. ok_response None))"

definition handle_my_groups :: "server \<Rightarrow> env \<Rightarrow> json \<Rightarrow> db \<Rightarrow> ServerResponse \<times> db" where
  "handle_my_groups sv ev value st =
     decode_payload ''Invalid payload'' (MyGroupsCmd_from_value (dec sv) value) st (\<lambda>cmd.
       respond sv ''Database error'' (list_my_groups ev (mg_user_id cmd) st)
         (\<lambda>groups. ok_response (Some (JObject [(''groups'', JArray groups)]))))"

definition handle_group_members :: "server \<Rightarrow> env \<Rightarrow> json \<Rightarrow> db \<Rightarrow> ServerResponse \<times> db" where
  "handle_group_members sv ev value st =
     decode_payload ''Invalid payload'' (GroupMembersCmd_from_value (dec sv) value) st (\<lambda>cmd.
       respond sv ''Database error'' (list_group_members ev (gmc_group_id cmd) st)
         (\<lambda>members. ok_response (Some (JObject [(''members'', JArray (map JString members))]))))"

section \<open>Statuses and presence\<close>

definition handle_set_status :: "server \<Rightarrow> env \<Rightarrow> json \<Rightarrow> db \<Rightarrow> ServerResponse \<times> db" where
  "handle_set_status sv ev value st =
     decode_payload ''Invalid payload'' (SetStatusCmd_from_value (dec sv) value) st (\<lambda>cmd.
       respond sv ''Database error'' (set_status ev (ss_user_id cmd) (ss_content cmd) st)
         (\<lambda>ts. ok_response (Some (JObject [(''created_at'', JNumber (int ts))]))))"

definition handle_clear_status :: "server \<Rightarrow> env \<Rightarrow> json \<Rightarrow> db \<Rightarrow> ServerResponse \<times> db" where
  "handle_clear_status sv ev value st =
     decode_payload ''Invalid payload'' (ClearStatusCmd_from_value (dec sv) value) st (\<lambda>cmd.
       respond sv ''Database error'' (clear_status ev (cls_user_id cmd) st)
         (\<lambda>_. ok_response None))"

definition handle_set_presence :: "server \<Rightarrow> env \<Rightarrow> json \<Rightarrow> db \<Rightarrow> ServerResponse \<times> db" where
  "handle_set_presence sv ev value st =
     decode_payload ''Invalid payload'' (SetPresenceCmd_from_value (dec sv) value) st (\<lambda>cmd.
       respond sv ''Database error'' (set_presence ev (sp_user_id cmd) (sp_presence cmd) st)
         (\<lambda>_. ok_response None))"

text \<open>\<open>None\<close>: the handler panics and the connection task ends.\<close>

definition handle_get_stories :: "server \<Rightarrow> env \<Rightarrow> json \<Rightarrow> db \<Rightarrow> (ServerResponse \<times> db) option" where
  "handle_get_stories sv ev value st =
     map_option (\<lambda>r. respond sv ''Database error'' r
         (\<lambda>statuses. ok_response (Some (JObject [(''stories'', JArray statuses)]))))
       (get_active_statuses ev st)"

section \<open>Channels\<close>

definition create_channel_begin :: "server \<Rightarrow> env \<Rightarrow> CreateChannelCmd \<Rightarrow> db \<Rightarrow> (ServerResponse + i64) \<times> db" where
  "create_channel_begin sv ev cmd st =
     (case create_channel ev (cc_name cmd) (cc_owner_id cmd) st of
        (Inr channel_id, st') \<Rightarrow> (Inr channel_id, st')
      | (Inl e, st') \<Rightarrow> (Inl (error_response (''Database error: '' @ show_error sv e)), st'))"

text \<open>The owner's own subscription; its error is dropped.\<close>

definition create_channel_commit :: "env \<Rightarrow> CreateChannelCmd \<Rightarrow> i64 \<Rightarrow> db \<Rightarrow> ServerResponse \<times> db" where
  "create_channel_commit ev cmd channel_id st =
     (ok_response (Some (JObject [(''channel_id'', JNumber channel_id)])),
      snd (subscribe_channel ev channel_id (cc_owner_id cmd) st))"

definition handle_create_channel :: "server \<Rightarrow> (nat \<Rightarrow> env) \<Rightarrow> json \<Rightarrow> db \<Rightarrow> ServerResponse \<times> db" where
  "handle_create_channel sv evs value st =
     decode_payload ''Invalid payload'' (CreateChannelCmd_from_value (dec sv) value) st (\<lambda>cmd.
       (case create_channel_begin sv (evs 0) cmd st of
          (Inl r, st') \<Rightarrow> (r, st')
        | (Inr channel_id, st') \<Rightarrow> create_channel_commit (evs 1) cmd channel_id st'))"

definition channel_not_found :: "i64 \<Rightarrow> ServerResponse" where
  "channel_not_found c = error_response (''Channel '' @ CHR 0x27 # show_int c @ CHR 0x27 # '' not found'')"

text \<open>The check: \<open>get_channel_owner(..).unwrap_or(None).is_none()\<close>, negated.\<close>

definition subscribe_channel_check :: "env \<Rightarrow> SubscribeChannelCmd \<Rightarrow> db \<Rightarrow> bool" where
  "subscribe_channel_check ev cmd st =
     (case fst (get_channel_owner ev (sc_channel_id cmd) st) of Inl e \<Rightarrow> False | Inr x \<Rightarrow> x \<noteq> None)"

definition subscribe_channel_commit :: "server \<Rightarrow> env \<Rightarrow> SubscribeChannelCmd \<Rightarrow> db \<Rightarrow> ServerResponse \<times> db" where
  "subscribe_channel_commit sv ev cmd st =
     respond sv ''Database error'' (subscribe_channel ev (sc_channel_id cmd) (sc_user_id cmd) st)
       (\<lambda>_. ok_response None)"

definition handle_subscribe_channel :: "server \<Rightarrow> (nat \<Rightarrow> env) \<Rightarrow> json \<Rightarrow> db \<Rightarrow> ServerResponse \<times> db" where
  "handle_subscribe_channel sv evs value st =
     decode_payload ''Invalid payload'' (SubscribeChannelCmd_from_value (dec sv) value) st (\<lambda>cmd.
       if \<not> subscribe_channel_check (evs 0) cmd st then (channel_not_found (sc_channel_id cmd), st)
       else subscribe_channel_commit sv (evs 1) cmd st)"

definition handle_unsubscribe_channel :: "server \<Rightarrow> env \<Rightarrow> json \<Rightarrow> db \<Rightarrow> ServerResponse \<times> db" where
  "handle_unsubscribe_channel sv ev value st =
     decode_payload ''Invalid payload'' (UnsubscribeChannelCmd_from_value (dec sv) value) st (\<lambda>cmd.
       respond sv ''Database error'' (unsubscribe_channel ev (uc_channel_id cmd) (uc_user_id cmd) st)
         (\<lambda>_. ok_response None))"

definition handle_list_channels :: "server \<Rightarrow> env \<Rightarrow> json \<Rightarrow> db \<Rightarrow> ServerResponse \<times> db" where
  "handle_list_channels sv ev value st =
     respond sv ''Database error'' (list_all_channels ev st)
       (\<lambda>channels. ok_response (Some (JObject [(''channels'', JArray channels)])))"

text \<open>This handler decodes the struct of \<open>subscribe_channel\<close>, with its channel id.\<close>

definition handle_my_channels :: "server \<Rightarrow> env \<Rightarrow> json \<Rightarrow> db \<Rightarrow> ServerResponse \<times> db" where
  "handle_my_channels sv ev value st =
     decode_payload ''Invalid payload'' (SubscribeChannelCmd_from_value (dec sv) value) st (\<lambda>cmd.
       respond sv ''Database error'' (list_my_channels ev (sc_user_id cmd) st)
         (\<lambda>channels. ok_response (Some (JObject [(''channels'', JArray channels)]))))"

definition handle_channel_members :: "server \<Rightarrow> env \<Rightarrow> json \<Rightarrow> db \<Rightarrow> ServerResponse \<times> db" where
  "handle_channel_members sv ev value st =
     decode_payload ''Invalid payload'' (ChannelMembersCmd_from_value (dec sv) value) st (\<lambda>cmd.
       respond sv ''Database error'' (list_channel_subscribers ev (chm_channel_id cmd) st)
         (\<lambda>members. ok_response (Some (JObject [(''members'', JArray (map JString members))]))))"

section \<open>Polls\<close>

definition handle_create_poll :: "server \<Rightarrow> env \<Rightarrow> json \<Rightarrow> db \<Rightarrow> ServerResponse \<times> db" where
  "handle_create_poll sv ev value st =
     decode_payload ''Invalid payload'' (CreatePollCmd_from_value (dec sv) value) st (\<lambda>cmd.
       if length (cp_options cmd) < 2 then (error_response ''Poll must have at least 2 options'', st)
       else respond sv ''Database error'' (create_poll ev (cp_creator cmd) (cp_question cmd) (cp_options cmd) st)
         (\<lambda>poll_id. ok_response (Some (JObject [(''poll_id'', JNumber poll_id)]))))"

definition handle_vote_poll :: "server \<Rightarrow> env \<Rightarrow> json \<Rightarrow> db \<Rightarrow> ServerResponse \<times> db" where
  "handle_vote_poll sv ev value st =
     decode_payload ''Invalid payload'' (VotePollCmd_from_value (dec sv) value) st (\<lambda>cmd.
       respond sv ''Vote error'' (vote_poll ev (vp_poll_id cmd) (vp_user_id cmd) (vp_option_id cmd) st)
         (\<lambda>_. ok_response None))"

definition handle_poll_results :: "server \<Rightarrow> env \<Rightarrow> json \<Rightarrow> db \<Rightarrow> ServerResponse \<times> db" where
  "handle_poll_results sv ev value st =
     decode_payload ''Invalid payload'' (PollByIdCmd_from_value (dec sv) value) st (\<lambda>cmd.
       respond sv ''Database error'' (poll_results ev (pb_poll_id cmd) st)
         (\<lambda>r. case r of Some results \<Rightarrow> ok_response (Some results)
            | None \<Rightarrow> error_response (''Poll '' @ CHR 0x27 # show_int (pb_poll_id cmd) @ CHR 0x27 # '' not found'')))"

definition handle_list_polls :: "server \<Rightarrow> env \<Rightarrow> json \<Rightarrow> db \<Rightarrow> ServerResponse \<times> db" where
  "handle_list_polls sv ev value st =
     respond sv ''Database error'' (list_active_polls ev st)
       (\<lambda>polls. ok_response (Some (JObject [(''polls'', JArray polls)])))"

definition handle_close_poll :: "server \<Rightarrow> env \<Rightarrow> json \<Rightarrow> db \<Rightarrow> ServerResponse \<times> db" where
  "handle_close_poll sv ev value st =
     decode_payload ''Invalid payload'' (ClosePollCmd_from_value (dec sv) value) st (\<lambda>cmd.
       respond sv ''Database error'' (close_poll ev (clp_poll_id cmd) (clp_user_id cmd) st)
         (\<lambda>closed. if closed then ok_response None
            else error_response ''Poll not found or you are not the creator''))"

section \<open>Timeline\<close>

definition handle_create_post :: "server \<Rightarrow> env \<Rightarrow> json \<Rightarrow> db \<Rightarrow> ServerResponse \<times> db" where
  "handle_create_post sv ev value st =
     decode_payload ''Invalid payload'' (CreatePostCmd_from_value (dec sv) value) st (\<lambda>cmd.
       respond sv ''Database error'' (create_post ev (cpo_user_id cmd) (cpo_content cmd) (cpo_target_user_id cmd) st)
         (\<lambda>post_id. ok_response (Some (JObject [(''post_id'', JNumber post_id)]))))"

definition handle_get_timeline :: "server \<Rightarrow> env \<Rightarrow> json \<Rightarrow> db \<Rightarrow> ServerResponse \<times> db" where
  "handle_get_timeline sv ev value st =
     decode_payload ''Invalid payload'' (TimelineCmd_from_value (dec sv) value) st (\<lambda>cmd.
       respond sv ''Database error'' (get_timeline ev (tl_user_id cmd) st)
         (\<lambda>posts. ok_response (Some (JObject [(''posts'', JArray posts)]))))"

definition handle_add_comment :: "server \<Rightarrow> env \<Rightarrow> json \<Rightarrow> db \<Rightarrow> ServerResponse \<times> db" where
  "handle_add_comment sv ev value st =
     decode_payload ''Invalid payload'' (AddCommentCmd_from_value (dec sv) value) st (\<lambda>cmd.
       respond sv ''Database error'' (add_comment ev (ac_post_id cmd) (ac_user_id cmd) (ac_content cmd) st)
         (\<lambda>comment_id. ok_response (Some (JObject [(''comment_id'', JNumber comment_id)]))))"

definition handle_delete_post :: "server \<Rightarrow> env \<Rightarrow> json \<Rightarrow> db \<Rightarrow> ServerResponse \<times> db" where
  "handle_delete_post sv ev value st =
     decode_payload ''Invalid payload'' (DeletePostCmd_from_value (dec sv) value) st (\<lambda>cmd.
       respond sv ''Database error'' (delete_post ev (dp_post_id cmd) (dp_user_id cmd) st)
         (\<lambda>deleted. if deleted then ok_response None
            else error_response ''Post not found or not yours''))"

definition handle_get_comments :: "server \<Rightarrow> env \<Rightarrow> json \<Rightarrow> db \<Rightarrow> ServerResponse \<times> db" where
  "handle_get_comments sv ev value st =
     decode_payload ''Invalid payload'' (PostIdCmd_from_value (dec sv) value) st (\<lambda>cmd.
       respond sv ''Database error'' (get_comments ev (pi_post_id cmd) st)
         (\<lambda>comments. ok_response (Some (JObject [(''comments'', JArray comments)]))))"

section \<open>Dispatch and the connection loop\<close>

text \<open>The \<open>match\<close> on the command name.\<close>

definition dispatch :: "server \<Rightarrow> (nat \<Rightarrow> env) \<Rightarrow> string \<Rightarrow> json \<Rightarrow> db \<Rightarrow> (ServerResponse \<times> db) option" where
  "dispatch sv evs cmd value st =
     (if cmd = ''register'' then Some (handle_register sv (evs 0) value st)
      else if cmd = ''fetch_keys'' then Some (handle_fetch_keys sv (evs 0) value st)
      else if cmd = ''send'' then Some (handle_send sv (evs 0) value st)
      else if cmd = ''receive'' then Some (handle_receive sv (evs 0) value st)
      else if cmd = ''list_users'' then Some (handle_list_users sv (evs 0) value st)
      else if cmd = ''create_group'' then Some (handle_create_group sv (evs 0) value st)
      else if cmd = ''join_group'' then Some (handle_join_group sv evs value st)
      else if cmd = ''leave_group'' then Some (handle_leave_group sv (evs 0) value st)
      else if cmd = ''my_groups'' then Some (handle_my_groups sv (evs 0) value st)
      else if cmd = ''group_members'' then Some (handle_group_members sv (evs 0) value st)
      else if cmd = ''set_status'' then Some (handle_set_status sv (evs 0) value st)
      else if cmd = ''set_presence'' then Some (handle_set_presence sv (evs 0) value st)
      else if cmd = ''clear_status'' then Some (handle_clear_status sv (evs 0) value st)
      else if cmd = ''get_stories'' then handle_get_stories sv (evs 0) value st
      else if cmd = ''create_channel'' then Some (handle_create_channel sv evs value st)
      else if cmd = ''subscribe_channel'' then Some (handle_subscribe_channel sv evs value st)
      else if cmd = ''unsubscribe_channel'' then Some (handle_unsubscribe_channel sv (evs 0) value st)
      else if cmd = ''list_channels'' then Some (handle_list_channels sv (evs 0) value st)
      else if cmd = ''my_channels'' then Some (handle_my_channels sv (evs 0) value st)
      else if cmd = ''channel_members'' then Some (handle_channel_members sv (evs 0) value st)
      else if cmd = ''create_poll'' then Some (handle_create_poll sv (evs 0) value st)
      else if cmd = ''vote_poll'' then Some (handle_vote_poll sv (evs 0) value st)
      else if cmd = ''poll_results'' then Some (handle_poll_results sv (evs 0) value st)
      else if cmd = ''list_polls'' then Some (handle_list_polls sv (evs 0) value st)
      else if cmd = ''close_poll'' then Some (handle_close_poll sv (evs 0) value st)
      else if cmd = ''create_post'' then Some (handle_create_post sv (evs 0) value st)
      else if cmd = ''get_timeline'' then Some (handle_get_timeline sv (evs 0) value st)
      else if cmd = ''add_comment'' then Some (handle_add_comment sv (evs 0) value st)
      else if cmd = ''delete_post'' then Some (handle_delete_post sv (evs 0) value st)
      else if cmd = ''get_comments'' then Some (handle_get_comments sv (evs 0) value st)
      else Some (error_response (''Unknown command: '' @ cmd), st))"

definition handle_command :: "server \<Rightarrow> (nat \<Rightarrow> env) \<Rightarrow> string \<Rightarrow> db \<Rightarrow> (ServerResponse \<times> db) option" where
  "handle_command sv evs line st =
     (case value_from_str sv line of
        Inl e \<Rightarrow> Some (error_response (''Invalid JSON: '' @ e), st)
      | Inr value \<Rightarrow>
          (case get_str value ''cmd'' of
             None \<Rightarrow> Some (error_response (''Missing '' @ CHR 0x27 # ''cmd'' @ CHR 0x27 # '' field''), st)
           | Some cmd \<Rightarrow> dispatch sv evs cmd value st))"

text \<open>
  What \<open>read_line\<close> gives: a line, or an error, which ends the connection; the end of the list and a
  read of no bytes are the end of the stream.
\<close>

datatype read_result = Line string | ReadError

text \<open>
  One connection, on the reads it gets: the texts written back and the database at its end. \<open>n\<close> counts
  the commands; \<open>evs n\<close> are the environments of the \<open>n\<close>-th. A panic ends the task. Whether a write
  reaches the peer is ignored by the code.
\<close>

fun handle_client :: "server \<Rightarrow> (nat \<Rightarrow> nat \<Rightarrow> env) \<Rightarrow> nat \<Rightarrow> read_result list \<Rightarrow> db \<Rightarrow> string list \<times> db" where
  "handle_client sv evs n [] st = ([], st)"
| "handle_client sv evs n (ReadError # rest) st = ([], st)"
| "handle_client sv evs n (Line line # rest) st =
     (if length line = 0 then ([], st)
      else if trim line = [] then handle_client sv evs n rest st
      else (case handle_command sv (evs n) (trim line) st of
              None \<Rightarrow> ([], st)
            | Some (response, st') \<Rightarrow>
                (let (out, st'') = handle_client sv evs (Suc n) rest st'
                 in (case response_to_string sv response of
                       Inr json \<Rightarrow> ((json @ [CHR 0x0A]) # out, st'')
                     | Inl e \<Rightarrow> (out, st'')))))"

end
