(* ===== verification/Demo_Instances.thy ===== *)
theory Demo_Instances
  imports Server_Handlers
begin

text \<open>
  Concrete values for the parameters that stand for third-party code, used where a property is applied
  to a concrete input: a length-prefixed text format in place of JSON for the wire types, an
  environment in which nothing fails, and a server whose requests are recognised by their name.
\<close>

section \<open>A wire format\<close>

definition field_text :: "string \<Rightarrow> string" where
  "field_text s = replicate (length s) (CHR ''1'') @ CHR ''0'' # s"

definition read_field :: "string \<Rightarrow> string \<times> string" where
  "read_field t =
     (let n = length (takeWhile (\<lambda>c. c = CHR ''1'') t); r = drop (Suc n) t in (take n r, drop n r))"

lemma read_field_text [simp]: "read_field (field_text s @ rest) = (s, rest)"
proof -
  have "takeWhile (\<lambda>c. c = CHR ''1'') (field_text s @ rest) = replicate (length s) (CHR ''1'')"
    by (simp add: field_text_def takeWhile_append)
  then show ?thesis by (simp add: read_field_def Let_def field_text_def)
qed

lemma read_field_text_end [simp]: "read_field (field_text s) = (s, [])"
  using read_field_text [of s "[]"] by simp

definition word_text :: "'a::len word \<Rightarrow> string" where
  "word_text w = map (\<lambda>i. if bit w i then CHR ''1'' else CHR ''0'') [0..<LENGTH('a)]"

definition text_word :: "string \<Rightarrow> 'a::len word" where
  "text_word s = horner_sum of_bool 2 (map (\<lambda>c. c = CHR ''1'') s)"

lemma text_word_text [simp]: "text_word (word_text w) = w"
proof -
  have "map (\<lambda>c. c = CHR ''1'') (word_text w) = map (bit w) [0..<LENGTH('a)]"
    by (simp add: word_text_def)
  then have "text_word (word_text w) = take_bit LENGTH('a) w"
    by (simp add: text_word_def horner_sum_bit_eq_take_bit)
  then show ?thesis by simp
qed

definition bytes_text :: "bytes \<Rightarrow> string" where
  "bytes_text bs = map (\<lambda>b. char_of (unat b)) bs"

definition text_bytes :: "string \<Rightarrow> bytes" where
  "text_bytes s = map (\<lambda>c. word_of_nat (of_char c)) s"

lemma text_bytes_text [simp]: "text_bytes (bytes_text bs) = bs"
proof -
  have "(word_of_nat (of_char (char_of (unat b) :: char)) :: u8) = b" for b :: u8
    using unsigned_less [where 'a = nat, of b] by simp
  then show ?thesis by (simp add: text_bytes_def bytes_text_def comp_def)
qed

lemma bytes_text_bytes [simp]: "bytes_text (text_bytes s) = s"
proof -
  have "char_of (unat (word_of_nat (of_char c) :: u8)) = c" for c :: char
    by (simp add: unsigned_of_nat take_bit_eq_mod)
  then show ?thesis by (simp add: text_bytes_def bytes_text_def comp_def)
qed

definition type_text :: "MessageType \<Rightarrow> string" where
  "type_text t = (case t of Normal \<Rightarrow> ''n'' | PreKeyBundleType \<Rightarrow> ''p'' | Receipt \<Rightarrow> ''r'' | Typing \<Rightarrow> ''t'')"

definition text_type :: "string \<Rightarrow> MessageType" where
  "text_type s = (if s = ''n'' then Normal else if s = ''p'' then PreKeyBundleType
                  else if s = ''r'' then Receipt else Typing)"

lemma text_type_text [simp]: "text_type (type_text t) = t"
  by (cases t) (simp_all add: type_text_def text_type_def)

definition envelope_text :: "Envelope \<Rightarrow> string" where
  "envelope_text e =
     field_text (env_sender_id e) @ field_text (env_recipient_id e) @
     field_text (word_text (env_sender_device_id e)) @ field_text (word_text (env_timestamp e)) @
     field_text (bytes_text (env_content e)) @ field_text (type_text (env_msg_type e))"

definition text_envelope :: "string \<Rightarrow> Envelope" where
  "text_envelope t =
     (let (a, t1) = read_field t; (b, t2) = read_field t1; (c, t3) = read_field t2;
          (d, t4) = read_field t3; (e, t5) = read_field t4; (f, t6) = read_field t5
      in \<lparr>env_sender_id = a, env_recipient_id = b, env_sender_device_id = text_word c,
          env_timestamp = text_word d, env_content = text_bytes e, env_msg_type = text_type f\<rparr>)"

lemma text_envelope_text [simp]: "text_envelope (envelope_text e) = e"
  by (simp add: text_envelope_def envelope_text_def)

definition session_text :: "SessionMessage \<Rightarrow> string" where
  "session_text m =
     field_text (word_text (sm_version m)) @ field_text (bytes_text (sm_ciphertext m)) @
     field_text (bytes_text (sm_nonce m)) @ field_text (bytes_text (sm_ratchet_key m)) @
     field_text (word_text (sm_message_number m))"

definition text_session :: "string \<Rightarrow> SessionMessage" where
  "text_session t =
     (let (a, t1) = read_field t; (b, t2) = read_field t1; (c, t3) = read_field t2;
          (d, t4) = read_field t3; (e, t5) = read_field t4
      in \<lparr>sm_version = text_word a, sm_ciphertext = text_bytes b, sm_nonce = text_bytes c,
          sm_ratchet_key = text_bytes d, sm_message_number = text_word e\<rparr>)"

lemma text_session_text [simp]: "text_session (session_text m) = m"
  by (simp add: text_session_def session_text_def)

definition receipt_text :: "ReceiptContent \<Rightarrow> string" where
  "receipt_text r =
     field_text (if rc_receipt_type r = Delivery then ''d'' else ''r'') @ field_text (rc_original_sender r) @
     field_text (word_text (rc_original_timestamp r))"

definition text_receipt :: "string \<Rightarrow> ReceiptContent" where
  "text_receipt t =
     (let (a, t1) = read_field t; (b, t2) = read_field t1; (c, t3) = read_field t2
      in \<lparr>rc_receipt_type = (if a = ''d'' then Delivery else Read), rc_original_sender = b,
          rc_original_timestamp = text_word c\<rparr>)"

lemma text_receipt_text [simp]: "text_receipt (receipt_text r) = r"
proof (cases r)
  case (fields y s t)
  then show ?thesis by (cases y) (simp_all add: text_receipt_def receipt_text_def)
qed

definition demo_wire :: wire where
  "demo_wire =
     \<lparr>session_message_to_vec = (\<lambda>m. Inr (text_bytes (session_text m))),
      session_message_from_slice = (\<lambda>b. Inr (text_session (bytes_text b))),
      envelope_to_vec = (\<lambda>e. Inr (text_bytes (envelope_text e))),
      envelope_from_slice = (\<lambda>b. Inr (text_envelope (bytes_text b))),
      envelope_to_string = (\<lambda>e. Inr (envelope_text e)),
      envelope_from_str = (\<lambda>s. Inr (text_envelope s)),
      envelope_to_value = (\<lambda>e. JString (envelope_text e)),
      receipt_to_vec = (\<lambda>r. Inr (text_bytes (receipt_text r))),
      receipt_from_slice = (\<lambda>b. Inr (text_receipt (bytes_text b)))\<rparr>"

lemma demo_wire_codec [simp]: "wire_codec demo_wire"
  by (simp add: wire_codec_def demo_wire_def)

section \<open>Environments\<close>

definition quiet_env :: "nat \<Rightarrow> env" where
  "quiet_env millis =
     \<lparr>ev_millis = (\<lambda>_. millis), ev_rnd = 0x1234, ev_datetime = ''2026-01-01 00:00:00'',
      ev_fault = (\<lambda>_. None), ev_stop = (\<lambda>_. None), ev_checks = True\<rparr>"

text \<open>The environment in which only the \<open>k\<close>-th database call fails.\<close>

definition faulty_env :: "nat \<Rightarrow> env" where
  "faulty_env k = (quiet_env 0)\<lparr>ev_fault := (\<lambda>j. if j = k then Some ''disk I/O error'' else None)\<rparr>"

lemma quiet_env_simps [simp]:
  "no_faults (quiet_env m)" "ev_millis (quiet_env m) j = m" "ev_rnd (quiet_env m) = 0x1234"
  "ev_datetime (quiet_env m) = ''2026-01-01 00:00:00''" "ev_checks (quiet_env m) = True"
  by (simp_all add: no_faults_def quiet_env_def)

lemma faulty_env_simps [simp]:
  "ev_fault (faulty_env k) j = (if j = k then Some ''disk I/O error'' else None)"
  "ev_stop (faulty_env k) j = None" "ev_millis (faulty_env k) j = 0" "ev_rnd (faulty_env k) = 0x1234"
  "ev_datetime (faulty_env k) = ''2026-01-01 00:00:00''"
  by (simp_all add: faulty_env_def quiet_env_def)

lemma empty_db_simps [simp]:
  "mailbox w (empty_db fk) u = []" "auto_seq (t_messages (empty_db fk)) = 0"
  by (simp_all add: mailbox_def rows_for_def empty_db_def auto_empty_def)

section \<open>A server\<close>

definition demo_bundle :: PreKeyBundle where
  "demo_bundle =
     \<lparr>pkb_identity_key = replicate 32 7, pkb_device_id = 1, pkb_signed_pre_key_id = 1,
      pkb_signed_pre_key = replicate 32 9, pkb_signed_pre_key_signature = replicate 64 0,
      pkb_one_time_pre_key_id = None, pkb_one_time_pre_key = None\<rparr>"

definition demo_str :: "json \<Rightarrow> string \<Rightarrow> string" where
  "demo_str v k = unwrap_or (get_str v k) []"

definition demo_int :: "json \<Rightarrow> string \<Rightarrow> i64" where
  "demo_int v k = unwrap_or (as_i64 (json_index v k)) 0"

text \<open>Decoders that take the fields they know from the object; one that requires its channel id.\<close>

definition demo_decoders :: decoders where
  "demo_decoders =
     \<lparr>RegisterCmd_from_value = (\<lambda>v. Inr \<lparr>rg_cmd = demo_str v ''cmd'', rg_user_id = demo_str v ''user_id'',
        rg_identity_key = replicate 32 7, rg_signed_pre_key = demo_bundle\<rparr>),
      FetchKeysCmd_from_value = (\<lambda>v. Inr \<lparr>fk_cmd = demo_str v ''cmd'', fk_user_id = demo_str v ''user_id''\<rparr>),
      SendCmd_from_value = (\<lambda>v. Inr \<lparr>sn_cmd = demo_str v ''cmd'', sn_envelope = text_envelope (demo_str v ''envelope'')\<rparr>),
      ReceiveCmd_from_value = (\<lambda>v. Inr \<lparr>rv_cmd = demo_str v ''cmd'', rv_user_id = demo_str v ''user_id''\<rparr>),
      ListUsersCmd_from_value = (\<lambda>v. Inr \<lparr>lu_cmd = demo_str v ''cmd'', lu_query = get_str v ''query''\<rparr>),
      CreateGroupCmd_from_value = (\<lambda>v. Inr \<lparr>cg_cmd = demo_str v ''cmd'', cg_name = demo_str v ''name'', cg_creator = demo_str v ''creator''\<rparr>),
      JoinGroupCmd_from_value = (\<lambda>v. Inr \<lparr>jg_cmd = demo_str v ''cmd'', jg_group_id = demo_str v ''group_id'', jg_user_id = demo_str v ''user_id''\<rparr>),
      LeaveGroupCmd_from_value = (\<lambda>v. Inr \<lparr>lg_cmd = demo_str v ''cmd'', lg_group_id = demo_str v ''group_id'', lg_user_id = demo_str v ''user_id''\<rparr>),
      MyGroupsCmd_from_value = (\<lambda>v. Inr \<lparr>mg_cmd = demo_str v ''cmd'', mg_user_id = demo_str v ''user_id''\<rparr>),
      GroupMembersCmd_from_value = (\<lambda>v. Inr \<lparr>gmc_cmd = demo_str v ''cmd'', gmc_group_id = demo_str v ''group_id''\<rparr>),
      SetStatusCmd_from_value = (\<lambda>v. Inr \<lparr>ss_cmd = demo_str v ''cmd'', ss_user_id = demo_str v ''user_id'', ss_content = demo_str v ''content''\<rparr>),
      ClearStatusCmd_from_value = (\<lambda>v. Inr \<lparr>cls_cmd = demo_str v ''cmd'', cls_user_id = demo_str v ''user_id''\<rparr>),
      SetPresenceCmd_from_value = (\<lambda>v. Inr \<lparr>sp_cmd = demo_str v ''cmd'', sp_user_id = demo_str v ''user_id'', sp_presence = demo_str v ''presence''\<rparr>),
      CreateChannelCmd_from_value = (\<lambda>v. Inr \<lparr>cc_cmd = demo_str v ''cmd'', cc_name = demo_str v ''name'', cc_owner_id = demo_str v ''owner_id''\<rparr>),
      SubscribeChannelCmd_from_value = (\<lambda>v. case json_get v ''channel_id'' of None \<Rightarrow> Inl ''missing field channel_id''
        | Some c \<Rightarrow> Inr \<lparr>sc_cmd = demo_str v ''cmd'', sc_channel_id = demo_int v ''channel_id'', sc_user_id = demo_str v ''user_id''\<rparr>),
      UnsubscribeChannelCmd_from_value = (\<lambda>v. Inr \<lparr>uc_cmd = demo_str v ''cmd'', uc_channel_id = demo_int v ''channel_id'', uc_user_id = demo_str v ''user_id''\<rparr>),
      ChannelMembersCmd_from_value = (\<lambda>v. Inr \<lparr>chm_cmd = demo_str v ''cmd'', chm_channel_id = demo_int v ''channel_id''\<rparr>),
      CreatePollCmd_from_value = (\<lambda>v. Inr \<lparr>cp_cmd = demo_str v ''cmd'', cp_creator = demo_str v ''creator'', cp_question = demo_str v ''question'', cp_options = [''yes'', ''no'']\<rparr>),
      VotePollCmd_from_value = (\<lambda>v. Inr \<lparr>vp_cmd = demo_str v ''cmd'', vp_poll_id = demo_int v ''poll_id'', vp_user_id = demo_str v ''user_id'', vp_option_id = demo_int v ''option_id''\<rparr>),
      PollByIdCmd_from_value = (\<lambda>v. Inr \<lparr>pb_cmd = demo_str v ''cmd'', pb_poll_id = demo_int v ''poll_id''\<rparr>),
      ClosePollCmd_from_value = (\<lambda>v. Inr \<lparr>clp_cmd = demo_str v ''cmd'', clp_poll_id = demo_int v ''poll_id'', clp_user_id = demo_str v ''user_id''\<rparr>),
      CreatePostCmd_from_value = (\<lambda>v. Inr \<lparr>cpo_cmd = demo_str v ''cmd'', cpo_user_id = demo_str v ''user_id'', cpo_content = demo_str v ''content'', cpo_target_user_id = get_str v ''target_user_id''\<rparr>),
      TimelineCmd_from_value = (\<lambda>v. Inr \<lparr>tl_cmd = demo_str v ''cmd'', tl_user_id = demo_str v ''user_id''\<rparr>),
      AddCommentCmd_from_value = (\<lambda>v. Inr \<lparr>ac_cmd = demo_str v ''cmd'', ac_post_id = demo_int v ''post_id'', ac_user_id = demo_str v ''user_id'', ac_content = demo_str v ''content''\<rparr>),
      PostIdCmd_from_value = (\<lambda>v. Inr \<lparr>pi_cmd = demo_str v ''cmd'', pi_post_id = demo_int v ''post_id''\<rparr>),
      DeletePostCmd_from_value = (\<lambda>v. Inr \<lparr>dp_cmd = demo_str v ''cmd'', dp_post_id = demo_int v ''post_id'', dp_user_id = demo_str v ''user_id''\<rparr>)\<rparr>"

text \<open>A request text is the name of its command; its other fields are fixed.\<close>

definition demo_request :: "string \<Rightarrow> json" where
  "demo_request name =
     JObject [(''cmd'', JString name), (''user_id'', JString ''bob''), (''name'', JString ''news''),
              (''owner_id'', JString ''alice''), (''channel_id'', JNumber 1), (''content'', JString ''hi'')]"

definition demo_server :: server where
  "demo_server =
     \<lparr>dec = demo_decoders, codec = demo_wire, value_from_str = (\<lambda>s. Inr (demo_request s)),
      bundle_to_string = (\<lambda>b. Inr ''bundle''), response_to_string = (\<lambda>r. Inr (sr_status r)),
      show_rusqlite = (\<lambda>e. ''database error'')\<rparr>"

end
