(* ===== verification/Store_Frames.thy ===== *)
theory Store_Frames
  imports Store_Users Store_Groups Store_Channels Store_Messages Store_Polls Store_Timeline
begin

text \<open>
  What no store operation ever takes back: groups and channels, once there, stay, a closed poll stays
  closed and its votes as they are, and the setting of the connection does not change. The checks of
  \<open>join_group\<close> and \<open>subscribe_channel\<close>, which look under one lock and write under another, rest on
  this.
\<close>

definition closed_polls :: "db \<Rightarrow> i64 set" where
  "closed_polls st = {i. \<exists>p. find_poll i st = Some p \<and> p_active p = 0}"

definition grows :: "db \<Rightarrow> db \<Rightarrow> bool" where
  "grows st st' \<longleftrightarrow>
     group_ids st \<subseteq> group_ids st' \<and> channel_ids st \<subseteq> channel_ids st' \<and> foreign_keys st' = foreign_keys st \<and>
     closed_polls st \<subseteq> closed_polls st' \<and> (\<forall>i\<in>closed_polls st. votes_in i st' = votes_in i st)"

lemmas grows_defs = grows_def group_ids_def channel_ids_def closed_polls_def votes_in_def find_poll_def

lemma grows_refl [simp]: "grows st st"
  by (simp add: grows_def)

lemma grows_trans: "grows a b \<Longrightarrow> grows b c \<Longrightarrow> grows a c"
  unfolding grows_def by (metis subset_iff)

lemma grows_sql: "grows st0 st \<Longrightarrow> grows st0 (snd rest) \<Longrightarrow> grows st0 (snd (sql ev k st rest))"
  by (simp add: sql_def split: option.split)

lemma grows_and_then:
  "grows st0 (snd r) \<Longrightarrow> (\<And>x st. grows st0 st \<Longrightarrow> grows st0 (snd (rest x st))) \<Longrightarrow> grows st0 (snd (and_then r rest))"
  by (cases r) (simp add: and_then_def split: sum.split)

lemma grows_update [simp]:
  "grows st0 (st\<lparr>t_users := us\<rparr>) = grows st0 st" "grows st0 (st\<lparr>t_messages := mt\<rparr>) = grows st0 st"
  "grows st0 (st\<lparr>t_group_members := ms\<rparr>) = grows st0 st" "grows st0 (st\<lparr>t_statuses := ss\<rparr>) = grows st0 st"
  "grows st0 (st\<lparr>t_channel_subscribers := cs\<rparr>) = grows st0 st" "grows st0 (st\<lparr>t_poll_options := ot\<rparr>) = grows st0 st"
  "grows st0 (st\<lparr>t_timeline_posts := tt\<rparr>) = grows st0 st" "grows st0 (st\<lparr>t_timeline_comments := ct\<rparr>) = grows st0 st"
  by (simp_all add: grows_defs)

lemma grows_groups: "grows st (st\<lparr>t_groups := t_groups st @ gs\<rparr>)"
  by (auto simp: grows_defs)

lemma grows_channels:
  "set (auto_rows (t_channels st)) \<subseteq> set (auto_rows t) \<Longrightarrow> grows st (st\<lparr>t_channels := t\<rparr>)"
  by (auto simp: grows_defs)

lemma grows_polls_append: "grows st (st\<lparr>t_polls := t\<rparr>)" if "auto_rows t = auto_rows (t_polls st) @ ps"
  using that by (auto simp: grows_defs lookup_key_def find_append split: option.splits)

lemma grows_deactivate: "grows st (deactivate i st)"
proof -
  have "closed_polls st \<subseteq> closed_polls (deactivate i st)"
    by (auto simp: closed_polls_def find_poll_deactivate)
  then show ?thesis
    by (simp add: grows_def) (simp add: deactivate_def group_ids_def channel_ids_def votes_in_def)
qed

lemma grows_votes: "grows st (st\<lparr>t_poll_votes := insert_or_replace vote_key v (t_poll_votes st)\<rparr>)"
  if "pv_poll_id v \<notin> closed_polls st"
proof -
  have "filter (\<lambda>x. pv_poll_id x = i) (insert_or_replace vote_key v (t_poll_votes st))
      = filter (\<lambda>x. pv_poll_id x = i) (t_poll_votes st)" if "i \<in> closed_polls st" for i
  proof -
    have "pv_poll_id v \<noteq> i" using that \<open>pv_poll_id v \<notin> closed_polls st\<close> by blast
    then show ?thesis
      by (auto simp: insert_or_replace_def vote_key_def intro!: filter_cong)
  qed
  then show ?thesis
    by (auto simp: grows_def group_ids_def channel_ids_def votes_in_def) (simp_all add: closed_polls_def find_poll_def)
qed

lemma register_user_grows [tt_frame]: "grows st (snd (register_user ev u k b st))"
  by (simp add: register_user_def grows_sql)

lemma set_presence_grows [tt_frame]: "grows st (snd (set_presence ev u p st))"
  by (simp add: set_presence_def grows_sql)

lemma set_status_grows [tt_frame]: "grows st (snd (set_status ev u c st))"
  by (simp add: set_status_def Let_def grows_sql)

lemma clear_status_grows [tt_frame]: "grows st (snd (clear_status ev u st))"
  by (simp add: clear_status_def grows_sql)

lemma create_group_grows [tt_frame]: "grows st (snd (create_group ev n c st))"
  by (simp add: create_group_def Let_def grows_sql grows_groups)

lemma add_group_member_grows [tt_frame]: "grows st (snd (add_group_member ev g u st))"
  by (simp add: add_group_member_def grows_sql)

lemma remove_group_member_grows [tt_frame]: "grows st (snd (remove_group_member ev g u st))"
  by (simp add: remove_group_member_def grows_sql)

lemma create_channel_grows [tt_frame]: "grows st (snd (create_channel ev n ow st))"
  unfolding create_channel_def
  by (rule grows_sql) (auto intro!: grows_channels dest!: insert_auto_SomeD split: option.split)

lemma subscribe_channel_grows [tt_frame]: "grows st (snd (subscribe_channel ev c u st))"
  by (simp add: subscribe_channel_def grows_sql)

lemma unsubscribe_channel_grows [tt_frame]: "grows st (snd (unsubscribe_channel ev c u st))"
  by (simp add: unsubscribe_channel_def grows_sql)

lemma insert_message_grows: "grows st0 st \<Longrightarrow> grows st0 (snd (insert_message ev s r e st))"
  by (simp add: insert_message_def split: option.split prod.split)

lemma queue_message_grows [tt_frame]: "grows st (snd (queue_message w ev e st))"
  by (simp add: queue_message_def Let_def grows_sql insert_message_grows)

lemma queue_receipts_grows: "grows st0 st \<Longrightarrow> grows st0 (snd (queue_receipts w ev u j msgs st))"
proof (induction msgs arbitrary: j st)
  case (Cons msg msgs)
  then show ?case by (simp add: Let_def grows_sql grows_and_then insert_message_grows)
qed simp

lemma fetch_messages_grows [tt_frame]: "grows st (snd (fetch_messages w ev u st))"
  unfolding fetch_messages_def Let_def
  by (intro grows_sql grows_and_then queue_receipts_grows) (simp_all add: delete_rows_for_def)

lemma insert_options_grows: "grows st0 st \<Longrightarrow> grows st0 (snd (insert_options ev k i opts st))"
proof (induction opts arbitrary: k st)
  case (Cons opt opts)
  then show ?case by (simp add: grows_sql split: option.split prod.split)
qed simp

lemma create_poll_grows [tt_frame]: "grows st (snd (create_poll ev c q opts st))"
  unfolding create_poll_def
  by (auto intro!: grows_sql grows_and_then insert_options_grows grows_polls_append dest: insert_auto_SomeD
      split: option.split prod.split)

lemma vote_poll_grows [tt_frame]: "grows st (snd (vote_poll ev i u k st))"
  unfolding vote_poll_def Let_def
  by (auto intro!: grows_sql grows_votes simp: query_row_ok_def closed_polls_def split: option.split)

lemma close_poll_grows [tt_frame]: "grows st (snd (close_poll ev i u st))"
  by (simp add: close_poll_def grows_deactivate grows_sql split: option.split)

lemma create_post_grows [tt_frame]: "grows st (snd (create_post ev u c tg st))"
  by (simp add: create_post_def Let_def grows_sql split: option.split prod.split)

lemma delete_post_grows [tt_frame]: "grows st (snd (delete_post ev i u st))"
  by (simp add: delete_post_def Let_def grows_sql delete_comments_def)

lemma add_comment_grows [tt_frame]: "grows st (snd (add_comment ev i u c st))"
  by (simp add: add_comment_def Let_def grows_sql split: option.split prod.split)

end
