(* ===== verification/Message_Properties.thy ===== *)
theory Message_Properties
  imports Demo_Instances Store_Frames
begin

text \<open>
  Properties of the message queue: it refines one FIFO mailbox per user, delivers what was queued once
  and in order, and never answers a receipt; and what an engine error between the deletion and the
  receipts costs.
\<close>

section \<open>Queueing a list\<close>

primrec queue_all :: "wire \<Rightarrow> env \<Rightarrow> Envelope list \<Rightarrow> db \<Rightarrow> unit store_result" where
  "queue_all w ev [] st = (Inr (), st)"
| "queue_all w ev (e # es) st = and_then (queue_message w ev e st) (\<lambda>_. queue_all w ev es)"

lemma queue_message_total:
  "no_faults ev \<Longrightarrow> auto_seq (t_messages st) < i64_max \<Longrightarrow> \<exists>st'. queue_message w ev e st = (Inr (), st')"
  by (simp add: queue_message_def Let_def insert_message_total)

lemma queue_message_seq:
  "queue_message w ev e st = (Inr x, st') \<Longrightarrow> auto_seq (t_messages st') = auto_seq (t_messages st) + 1"
  by (auto simp: queue_message_def Let_def sql_Inr_conv insert_message_def dest!: insert_auto_SomeD
      split: option.splits)

lemma queue_all_run:
  assumes "wire_codec w" and "no_faults ev" and "db_ok st"
    and "auto_seq (t_messages st) + int (length es) \<le> i64_max"
  shows "\<exists>st'. queue_all w ev es st = (Inr (), st') \<and> db_ok st' \<and>
           auto_seq (t_messages st') = auto_seq (t_messages st) + int (length es) \<and>
           (\<forall>r. mailbox w st' r = mailbox w st r @ filter (\<lambda>e. env_recipient_id e = r) es)"
  using assms(3,4)
proof (induction es arbitrary: st)
  case Nil
  then show ?case by simp
next
  case (Cons e es)
  obtain st1 where q: "queue_message w ev e st = (Inr (), st1)"
    using queue_message_total [OF assms(2), of st w e] Cons.prems by auto
  have ok: "db_ok st1" using queue_message_ok [OF Cons.prems(1), of w ev e] q by simp
  note seq = queue_message_seq [OF q] and mb = queue_message_Inr [OF assms(1) q]
  obtain st' where "queue_all w ev es st1 = (Inr (), st')" "db_ok st'"
    "auto_seq (t_messages st') = auto_seq (t_messages st1) + int (length es)"
    "\<forall>r. mailbox w st' r = mailbox w st1 r @ filter (\<lambda>e. env_recipient_id e = r) es"
    using Cons.IH [OF ok] Cons.prems(2) seq by auto
  with q seq mb show ?case by (auto simp: mb_deliver_def)
qed

lemma fold_deliver:
  "fold (\<lambda>e. mb_deliver e (env_recipient_id e)) es mb r = mb r @ filter (\<lambda>e. env_recipient_id e = r) es"
  by (induction es arbitrary: mb) (simp_all add: mb_deliver_def)

section \<open>Properties\<close>

text \<open>Property C5. The message table refines one first-in-first-out mailbox per user. Queueing an
  envelope appends it to its recipient's mailbox. A fetch that returns hands out the front of the user's
  mailbox in order, empties the mailbox, and appends one delivery receipt per normal or pre-key message
  handed out to the mailbox of that message's sender; nothing else changes. It hands out the whole mailbox
  unless the cursor stopped at a row that could not be read: then the messages behind that row are neither
  handed out nor kept. With no engine fault and row ids left, both calls return.\<close>

theorem message_queue_refines_mailboxes:
  assumes "wire_codec w" and "db_ok st"
  shows "(\<forall>st'. queue_message w ev e st = (Inr (), st') \<longrightarrow>
            mailbox w st' = mb_deliver e (env_recipient_id e) (mailbox w st)) \<and>
         (\<forall>es st'. fetch_messages w ev u st = (Inr es, st') \<longrightarrow>
            (\<exists>lost. mailbox w st u = es @ lost \<and> (ev_stop ev 1 = None \<longrightarrow> lost = [])) \<and>
            mailbox w st' =
              fold (\<lambda>e. mb_deliver e (env_recipient_id e)) (receipts_for w ev u 0 es) ((mailbox w st)(u := []))) \<and>
         (no_faults ev \<and> auto_seq (t_messages st) + int (length (mailbox w st u)) < i64_max \<longrightarrow>
            (\<exists>st'. queue_message w ev e st = (Inr (), st')) \<and> (\<exists>es st'. fetch_messages w ev u st = (Inr es, st')))"
proof (intro conjI allI impI)
  fix st' assume "queue_message w ev e st = (Inr (), st')"
  with assms(1) show "mailbox w st' = mb_deliver e (env_recipient_id e) (mailbox w st)"
    by (rule queue_message_Inr)
next
  fix es st' assume "fetch_messages w ev u st = (Inr es, st')"
  from fetch_messages_returns [OF assms this]
  show "\<exists>lost. mailbox w st u = es @ lost \<and> (ev_stop ev 1 = None \<longrightarrow> lost = [])"
    and "mailbox w st' =
      fold (\<lambda>e. mb_deliver e (env_recipient_id e)) (receipts_for w ev u 0 es) ((mailbox w st)(u := []))"
    by metis+
next
  assume "no_faults ev \<and> auto_seq (t_messages st) + int (length (mailbox w st u)) < i64_max"
  then show "\<exists>st'. queue_message w ev e st = (Inr (), st')" and "\<exists>es st'. fetch_messages w ev u st = (Inr es, st')"
    using assms queue_message_total [of ev st w e] fetch_messages_total [of ev w st u] by auto
qed

definition demo_envelope :: "string \<Rightarrow> string \<Rightarrow> MessageType \<Rightarrow> Envelope" where
  "demo_envelope s r t = Envelope_new 5 s r [1, 2, 3] t"

lemma demo_envelope_simps [simp]:
  "env_sender_id (demo_envelope s r t) = s" "env_recipient_id (demo_envelope s r t) = r"
  "env_msg_type (demo_envelope s r t) = t"
  by (simp_all add: demo_envelope_def)

lemma one_waiting:
  obtains st where "queue_message demo_wire (quiet_env 0) (demo_envelope ''alice'' ''bob'' Normal) (empty_db True) = (Inr (), st)"
    and "db_ok st" and "auto_seq (t_messages st) = 1"
proof -
  obtain st where q: "queue_message demo_wire (quiet_env 0) (demo_envelope ''alice'' ''bob'' Normal) (empty_db True) = (Inr (), st)"
    using queue_message_total [of "quiet_env 0" "empty_db True" demo_wire] by (auto simp: i64_max_def)
  have "db_ok st"
    using queue_message_ok [OF db_ok_empty, of demo_wire "quiet_env 0" "demo_envelope ''alice'' ''bob'' Normal" True] q by simp
  with q queue_message_seq [OF q] that show thesis by simp
qed

theorem message_queue_refines_mailboxes_witness:
  "\<exists>st1 st2 st3 r.
     queue_message demo_wire (quiet_env 0) (demo_envelope ''alice'' ''bob'' Normal) (empty_db True) = (Inr (), st1) \<and>
     queue_message demo_wire (quiet_env 0) (demo_envelope ''carol'' ''bob'' Normal) st1 = (Inr (), st2) \<and>
     fetch_messages demo_wire (quiet_env 0) ''bob'' st2 =
       (Inr [demo_envelope ''alice'' ''bob'' Normal, demo_envelope ''carol'' ''bob'' Normal], st3) \<and>
     mailbox demo_wire st3 ''bob'' = [] \<and> mailbox demo_wire st3 ''carol'' = [r] \<and> env_msg_type r = Receipt"
proof -
  let ?e1 = "demo_envelope ''alice'' ''bob'' Normal" and ?e2 = "demo_envelope ''carol'' ''bob'' Normal"
  have nf: "no_faults (quiet_env 0)" "ev_stop (quiet_env 0) 1 = None" by simp_all
  obtain st1 where q1: "queue_message demo_wire (quiet_env 0) ?e1 (empty_db True) = (Inr (), st1)"
    and ok1: "db_ok st1" and seq1: "auto_seq (t_messages st1) = 1" by (rule one_waiting)
  note first = message_queue_refines_mailboxes [OF demo_wire_codec db_ok_empty, of "quiet_env 0" ?e1 True "''bob''"]
  note second = message_queue_refines_mailboxes [OF demo_wire_codec ok1, of "quiet_env 0" ?e2 "''bob''"]
  have mb1: "mailbox demo_wire st1 = mb_deliver ?e1 ''bob'' (mailbox demo_wire (empty_db True))"
    using conjunct1 [OF first] q1 by simp
  have none: "mailbox demo_wire (empty_db True) = (\<lambda>_. [])" by (rule ext) simp
  obtain st2 where q2: "queue_message demo_wire (quiet_env 0) ?e2 st1 = (Inr (), st2)"
    using second nf seq1 mb1 by (auto simp: mb_deliver_def none i64_max_def)
  have mb2: "mailbox demo_wire st2 = (\<lambda>_. [])(''bob'' := [?e1, ?e2])"
    using conjunct1 [OF second] q2 mb1 by (simp add: mb_deliver_def none)
  have ok2: "db_ok st2" using queue_message_ok [OF ok1, of demo_wire "quiet_env 0" ?e2] q2 by simp
  have seq2: "auto_seq (t_messages st2) = 2" using queue_message_seq [OF q2] seq1 by simp
  note third = message_queue_refines_mailboxes [OF demo_wire_codec ok2, of "quiet_env 0" ?e2 "''bob''"]
  obtain es st3 where f: "fetch_messages demo_wire (quiet_env 0) ''bob'' st2 = (Inr es, st3)"
    using third nf seq2 mb2 by (auto simp: i64_max_def)
  have es: "es = [?e1, ?e2]" and mb3: "mailbox demo_wire st3 = fold (\<lambda>e. mb_deliver e (env_recipient_id e))
      (receipts_for demo_wire (quiet_env 0) ''bob'' 0 es) ((mailbox demo_wire st2)(''bob'' := []))"
    using third f nf(2) mb2 by auto
  show ?thesis
    using q1 q2 f mb3 by (simp add: es mb2 mb_deliver_def wants_receipt_def)
qed

text \<open>What is queued is delivered once and in order: after any list of envelopes has been
  queued, the recipient's fetch returns what was waiting before followed by exactly the new envelopes
  addressed to it, in the order queued, and a second fetch returns only receipts (those the first one
  wrote for messages the user sent to itself).\<close>

theorem queued_messages_delivered_once:
  assumes "wire_codec w" and "no_faults ev" and "db_ok st"
    and "auto_seq (t_messages st) + 3 * int (length es) + 2 * int (length (mailbox w st u)) \<le> i64_max"
  shows "\<exists>st1 st2 st3 rs.
     queue_all w ev es st = (Inr (), st1) \<and>
     fetch_messages w ev u st1 = (Inr (mailbox w st u @ filter (\<lambda>e. env_recipient_id e = u) es), st2) \<and>
     fetch_messages w ev u st2 = (Inr rs, st3) \<and>
     (\<forall>r\<in>set rs. env_msg_type r = Receipt \<and> env_sender_id r = u) \<and> mailbox w st3 u = []"
proof -
  have lens: "length (receipts_for w ev u j ms) \<le> length ms" for j ms
    by (induction ms arbitrary: j) (auto simp: le_SucI)
  have sender: "r \<in> set (receipts_for w ev u j ms) \<Longrightarrow> env_sender_id r = u" for r j ms
    by (induction ms arbitrary: j) (auto split: if_splits)
  let ?mine = "mailbox w st u @ filter (\<lambda>e. env_recipient_id e = u) es"
  obtain st1 where q: "queue_all w ev es st = (Inr (), st1)" and ok1: "db_ok st1"
    and seq1: "auto_seq (t_messages st1) = auto_seq (t_messages st) + int (length es)"
    and mb1: "\<forall>r. mailbox w st1 r = mailbox w st r @ filter (\<lambda>e. env_recipient_id e = r) es"
    using queue_all_run [OF assms(1-3), of es] assms(4) by auto
  have le: "length ?mine \<le> length (mailbox w st u) + length es"
    by simp
  have "length (mailbox w st1 u) \<le> length (mailbox w st u) + length es" using mb1 by simp
  then have "auto_seq (t_messages st1) + int (length (mailbox w st1 u)) \<le> i64_max"
    using seq1 assms(4) by linarith
  then obtain es1 st2 where f1: "fetch_messages w ev u st1 = (Inr es1, st2)"
    using fetch_messages_total [OF assms(2,1) _ ok1, of u] by blast
  have stop: "ev_stop ev 1 = None" using assms(2) by simp
  note r1 = fetch_messages_Inr [OF assms(1) ok1 stop f1]
  have es1: "es1 = ?mine" using r1 mb1 by (simp add: mb_fetch_def)
  let ?rs = "filter (\<lambda>e. env_recipient_id e = u) (receipts_for w ev u 0 ?mine)"
  have mb2: "mailbox w st2 u = ?rs"
    using r1 mb1 by (simp add: mb_fetch_def fold_deliver)
  have ok2: "db_ok st2" using fetch_messages_ok [OF ok1, of w ev u] f1 by simp
  have seq2: "auto_seq (t_messages st2) \<le> auto_seq (t_messages st1) + int (length ?mine)"
    using fetch_messages_seq [OF f1] es1 by simp
  have "length (mailbox w st2 u) \<le> length ?mine"
    unfolding mb2 using lens [of 0 ?mine] length_filter_le order_trans by blast
  then have "auto_seq (t_messages st2) + int (length (mailbox w st2 u)) \<le> i64_max"
    using seq1 seq2 assms(4) le by linarith
  then obtain rs st3 where f2: "fetch_messages w ev u st2 = (Inr rs, st3)"
    using fetch_messages_total [OF assms(2,1) _ ok2, of u] by blast
  note r2 = fetch_messages_Inr [OF assms(1) ok2 stop f2]
  have rs: "rs = ?rs" using r2 mb2 by (simp add: mb_fetch_def)
  have "receipts_for w ev u 0 ?rs = []"
    by (rule receipts_for_none) (auto simp: wants_receipt_def dest: receipts_are_receipts)
  then have "mailbox w st3 u = []" using r2 mb2 by (simp add: mb_fetch_def)
  with q f1 f2 es1 rs sender receipts_are_receipts show ?thesis by auto
qed

theorem queued_messages_delivered_once_witness:
  "\<exists>st1 st2 st3 rs.
     queue_all demo_wire (quiet_env 0)
       [demo_envelope ''alice'' ''bob'' Normal, demo_envelope ''bob'' ''alice'' Normal, demo_envelope ''carol'' ''bob'' Typing]
       (empty_db True) = (Inr (), st1) \<and>
     fetch_messages demo_wire (quiet_env 0) ''bob'' st1 =
       (Inr [demo_envelope ''alice'' ''bob'' Normal, demo_envelope ''carol'' ''bob'' Typing], st2) \<and>
     fetch_messages demo_wire (quiet_env 0) ''bob'' st2 = (Inr rs, st3) \<and>
     (\<forall>r\<in>set rs. env_msg_type r = Receipt \<and> env_sender_id r = ''bob'') \<and> mailbox demo_wire st3 ''bob'' = []"
proof -
  let ?es = "[demo_envelope ''alice'' ''bob'' Normal, demo_envelope ''bob'' ''alice'' Normal,
    demo_envelope ''carol'' ''bob'' Typing]"
  have "auto_seq (t_messages (empty_db True)) + 3 * int (length ?es)
      + 2 * int (length (mailbox demo_wire (empty_db True) ''bob'')) \<le> i64_max"
    by (simp add: i64_max_def)
  from queued_messages_delivered_once [OF demo_wire_codec quiet_env_simps(1) db_ok_empty this]
  show ?thesis by (simp add: demo_envelope_def)
qed

text \<open>Receipts are never answered: when nothing in the user's mailbox asks for a receipt (only
  receipts and typing notices wait), a fetch writes no row at all; and whatever waits, every envelope
  a fetch adds to a mailbox is a receipt, so no sequence of fetches creates a message that asks for
  another receipt.\<close>

theorem receipts_never_answered:
  assumes "wire_codec w" and "db_ok st" and "ev_stop ev 1 = None"
    and "fetch_messages w ev u st = (Inr es, st')"
  shows "((\<forall>e\<in>set (mailbox w st u). \<not> wants_receipt e) \<longrightarrow> st' = delete_rows_for u st) \<and>
         (\<forall>r. \<exists>new. mailbox w st' r = (if r = u then [] else mailbox w st r) @ new \<and>
            (\<forall>e\<in>set new. env_msg_type e = Receipt \<and> \<not> wants_receipt e))"
proof
  have q: "queue_receipts w ev u 0 (mailbox w st u) (delete_rows_for u st) = (Inr (), st')"
    using assms(3,4) order_by_id_rows [OF db_ok_keysD(7) [OF assms(2)], of u]
    by (auto simp: fetch_messages_def Let_def sql_Inr_conv and_then_Inr_conv collect_ok_def mailbox_def)
  have none: "queue_receipts w ev u j ms s = (Inr (), s)" if "\<forall>e\<in>set ms. \<not> wants_receipt e" for j ms s
    using that by (induction ms) auto
  show "(\<forall>e\<in>set (mailbox w st u). \<not> wants_receipt e) \<longrightarrow> st' = delete_rows_for u st"
    using q none by auto
  have "mailbox w st' r = (if r = u then [] else mailbox w st r) @
      filter (\<lambda>e. env_recipient_id e = r) (receipts_for w ev u 0 (mailbox w st u))" for r
    using fetch_messages_Inr [OF assms] by (simp add: mb_fetch_def fold_deliver)
  then show "\<forall>r. \<exists>new. mailbox w st' r = (if r = u then [] else mailbox w st r) @ new \<and>
      (\<forall>e\<in>set new. env_msg_type e = Receipt \<and> \<not> wants_receipt e)"
    using receipts_are_receipts by (fastforce simp: wants_receipt_def)
qed

lemma demo_fetch_some:
  "\<exists>es st'. fetch_messages demo_wire (quiet_env 0) u (empty_db True) = (Inr es, st')"
  by (rule fetch_messages_total) (simp_all add: i64_max_def db_ok_empty)

theorem receipts_never_answered_witness:
  "\<exists>es st'. fetch_messages demo_wire (quiet_env 0) ''bob'' (empty_db True) = (Inr es, st') \<and>
     st' = delete_rows_for ''bob'' (empty_db True)"
proof -
  obtain es st' where f: "fetch_messages demo_wire (quiet_env 0) ''bob'' (empty_db True) = (Inr es, st')"
    using demo_fetch_some by blast
  with receipts_never_answered [OF demo_wire_codec db_ok_empty _ f] show ?thesis by simp
qed

text \<open>The engine fails when the receipt number \<open>n\<close> is written: the receipts before it stay.\<close>

lemma queue_receipts_fault:
  assumes "wire_codec w"
  shows "\<lbrakk>\<forall>k<i + n. ev_fault ev (3 + k) = None; ev_fault ev (3 + (i + n)) = Some err;
    n < length (filter wants_receipt msgs); auto_seq (t_messages st) + int n \<le> i64_max\<rbrakk> \<Longrightarrow>
    \<exists>st'. queue_receipts w ev u i msgs st = (Inl (SqliteFault err), st') \<and>
      mailbox w st' =
        fold (\<lambda>e. mb_deliver e (env_recipient_id e)) (take n (receipts_for w ev u i msgs)) (mailbox w st)"
proof (induction msgs arbitrary: i n st)
  case (Cons m msgs)
  show ?case
  proof (cases "wants_receipt m")
    case False
    with Cons.IH [of i n st] Cons.prems show ?thesis by simp
  next
    case True
    let ?e = "receipt_envelope w (ev_millis ev i) u m"
    show ?thesis
    proof (cases n)
      case 0
      with True Cons.prems show ?thesis by (simp add: Let_def)
    next
      case (Suc k)
      obtain st1 where i: "insert_message ev u (env_sender_id m) (unwrap_or_default (envelope_to_string w ?e)) st = (Inr (), st1)"
        using insert_message_total Cons.prems(4) Suc by fastforce
      note ins = insert_message_Inr [OF assms i]
      have "auto_seq (t_messages st1) + int k \<le> i64_max" using Cons.prems(4) Suc ins(2) by simp
      with Cons.IH [of "Suc i" k st1] Cons.prems(1-3) True Suc obtain st' where
        "queue_receipts w ev u (Suc i) msgs st1 = (Inl (SqliteFault err), st')"
        "mailbox w st' = fold (\<lambda>e. mb_deliver e (env_recipient_id e)) (take k (receipts_for w ev u (Suc i) msgs)) (mailbox w st1)"
        by auto
      moreover have "ev_fault ev (3 + i) = None" using Cons.prems(1) Suc by simp
      ultimately show ?thesis using True Suc i ins(1) by (simp add: Let_def)
    qed
  qed
qed simp

text \<open>Property C38. A fetch deletes the rows before it writes the receipts, each in a statement of its own. When
  a receipt cannot be written, be it the first or a later one, the caller gets the error and no message;
  the mailbox has been emptied all the same, and the receipts written before the fault tell their senders
  that the messages were delivered. The messages are lost.\<close>

theorem fetch_fault_loses_messages:
  assumes "wire_codec w" and "db_ok st" and "ev_stop ev 1 = None"
    and "\<forall>k<3 + n. ev_fault ev k = None" and "ev_fault ev (3 + n) = Some err"
    and "n < length (filter wants_receipt (mailbox w st u))" and "auto_seq (t_messages st) + int n \<le> i64_max"
  shows "\<exists>st'. fetch_messages w ev u st = (Inl (SqliteFault err), st') \<and>
    mailbox w st' = fold (\<lambda>e. mb_deliver e (env_recipient_id e)) (take n (receipts_for w ev u 0 (mailbox w st u)))
      ((mailbox w st)(u := []))"
proof -
  have faults: "ev_fault ev 0 = None" "ev_fault ev 1 = None" "ev_fault ev 2 = None"
    using assms(4) by simp_all
  have "\<forall>k<0 + n. ev_fault ev (3 + k) = None" "ev_fault ev (3 + (0 + n)) = Some err" using assms(4,5) by simp_all
  moreover have "auto_seq (t_messages (delete_rows_for u st)) + int n \<le> i64_max"
    using assms(7) by (simp add: delete_rows_for_def auto_delete_where_def)
  ultimately obtain st' where
    "queue_receipts w ev u 0 (mailbox w st u) (delete_rows_for u st) = (Inl (SqliteFault err), st')"
    "mailbox w st' = fold (\<lambda>e. mb_deliver e (env_recipient_id e)) (take n (receipts_for w ev u 0 (mailbox w st u)))
      (mailbox w (delete_rows_for u st))"
    using queue_receipts_fault [OF assms(1) _ _ assms(6)] by blast
  moreover have "collect_ok ev 1 (order_by m_id (rows_for u st)) = rows_for u st"
    using assms(3) order_by_id_rows [OF db_ok_keysD(7) [OF assms(2)], of u] by (simp add: collect_ok_def)
  ultimately show ?thesis
    using faults by (simp add: fetch_messages_def Let_def mailbox_def [symmetric] mailbox_delete_rows_for)
qed

text \<open>Bob has messages from Alice and Carol; the second receipt fails. Alice is told of a delivery that nobody got.\<close>

theorem fetch_fault_loses_messages_witness:
  "\<exists>st st' r. mailbox demo_wire st ''bob'' = [demo_envelope ''alice'' ''bob'' Normal, demo_envelope ''carol'' ''bob'' Normal] \<and>
     fetch_messages demo_wire (faulty_env 4) ''bob'' st = (Inl (SqliteFault ''disk I/O error''), st') \<and>
     mailbox demo_wire st' ''bob'' = [] \<and> mailbox demo_wire st' ''alice'' = [r] \<and> env_msg_type r = Receipt \<and>
     mailbox demo_wire st' ''carol'' = []"
proof -
  let ?es = "[demo_envelope ''alice'' ''bob'' Normal, demo_envelope ''carol'' ''bob'' Normal]"
  obtain st where ok: "db_ok st" and mb: "\<forall>r. mailbox demo_wire st r = filter (\<lambda>e. env_recipient_id e = r) ?es"
    and seq: "auto_seq (t_messages st) = 2"
    using queue_all_run [OF demo_wire_codec quiet_env_simps(1) db_ok_empty, of True ?es 0] by (auto simp: i64_max_def)
  have bob: "mailbox demo_wire st ''bob'' = ?es" using mb by simp
  have n: "1 < length (filter wants_receipt (mailbox demo_wire st ''bob''))" by (simp add: bob wants_receipt_def)
  have f: "ev_stop (faulty_env 4) 1 = None" "\<forall>k<3 + 1. ev_fault (faulty_env 4) k = None"
    "ev_fault (faulty_env 4) (3 + 1) = Some ''disk I/O error''" by (simp_all add: faulty_env_def)
  have room: "auto_seq (t_messages st) + int 1 \<le> i64_max" using seq by (simp add: i64_max_def)
  have others: "mailbox demo_wire st ''alice'' = []" "mailbox demo_wire st ''carol'' = []" using mb by simp_all
  from fetch_fault_loses_messages [OF demo_wire_codec ok f n room] obtain st' where
    "fetch_messages demo_wire (faulty_env 4) ''bob'' st = (Inl (SqliteFault ''disk I/O error''), st')"
    "mailbox demo_wire st' = (mailbox demo_wire st)(''bob'' := [], ''alice'' :=
      [receipt_envelope demo_wire (ev_millis (faulty_env 4) 0) ''bob'' (demo_envelope ''alice'' ''bob'' Normal)])"
    by (auto simp: bob others mb_deliver_def wants_receipt_def)
  then show ?thesis by (intro exI [of _ st] exI [of _ st']) (simp add: bob others)
qed

end
