(* ===== verification/Store_Properties.thy ===== *)
theory Store_Properties
  imports Demo_Instances Store_Frames
begin

text \<open>
  Properties of the store beside the message queue: groups, channels, polls, statuses, the user search
  and the timeline.
\<close>

section \<open>Polls\<close>

definition vote_of :: "i64 \<Rightarrow> string \<Rightarrow> db \<Rightarrow> i64 option" where
  "vote_of poll_id user_id st = map_option pv_option_id (lookup_key vote_key (t_poll_votes st) (poll_id, user_id))"

definition poll_open :: "i64 \<Rightarrow> db \<Rightarrow> bool" where
  "poll_open poll_id st \<longleftrightarrow> (\<exists>p. find_poll poll_id st = Some p \<and> p_active p \<noteq> 0)"

lemma vote_poll_eq:
  assumes "no_faults ev"
  shows "vote_poll ev i u k st =
      (if \<not> poll_open i st then (Inl (BoxedText ''Poll is closed''), st)
       else if k \<notin> po_option_id ` set (options_of i st) then (Inl (BoxedText ''Option not found''), st)
       else (Inr (), st\<lparr>t_poll_votes := insert_or_replace vote_key
         \<lparr>pv_poll_id = i, pv_user_id = u, pv_option_id = k\<rparr> (t_poll_votes st)\<rparr>))"
proof -
  have count: "(length (filter (\<lambda>r. po_option_id r = k) (options_of i st)) = 0) = (k \<notin> po_option_id ` set (options_of i st))"
    by (auto simp: filter_empty_conv)
  have active: "(case query_row_ok ev 1 (find_poll i st) of Some p \<Rightarrow> p_active p \<noteq> 0 | None \<Rightarrow> False) = poll_open i st"
    using assms by (simp add: query_row_ok_def poll_open_def split: option.split)
  show ?thesis unfolding vote_poll_def Let_def active count using assms by simp
qed

text \<open>Property C27. A vote is accepted exactly when the poll is there and open and the option is one of its
  own; then the user's one vote in that poll is the new option, the votes of everyone else are as
  before, and so is every other poll. A rejected vote changes nothing and says which check failed.\<close>

theorem vote_poll_exact:
  assumes "no_faults ev"
  shows "(fst (vote_poll ev i u k st) = Inr () \<longleftrightarrow> poll_open i st \<and> k \<in> po_option_id ` set (options_of i st)) \<and>
     (fst (vote_poll ev i u k st) = Inr () \<longrightarrow>
        (\<forall>j v. vote_of j v (snd (vote_poll ev i u k st)) = (if j = i \<and> v = u then Some k else vote_of j v st))) \<and>
     (\<not> poll_open i st \<longrightarrow> vote_poll ev i u k st = (Inl (BoxedText ''Poll is closed''), st)) \<and>
     (poll_open i st \<and> k \<notin> po_option_id ` set (options_of i st) \<longrightarrow>
        vote_poll ev i u k st = (Inl (BoxedText ''Option not found''), st))"
proof -
  let ?v = "\<lparr>pv_poll_id = i, pv_user_id = u, pv_option_id = k\<rparr>"
  note vote = vote_poll_eq [OF assms, of i u k st]
  have "vote_of j v (st\<lparr>t_poll_votes := insert_or_replace vote_key ?v (t_poll_votes st)\<rparr>)
      = (if j = i \<and> v = u then Some k else vote_of j v st)" for j v
    by (simp add: vote_of_def lookup_insert_or_replace vote_key_def)
  then show ?thesis unfolding vote by simp
qed

definition demo_poll_db :: db where
  "demo_poll_db = snd (create_poll (quiet_env 0) ''alice'' ''lunch?'' [''yes'', ''no''] (empty_db True))"

lemma demo_poll_db_tables:
  "auto_rows (t_polls demo_poll_db) = [poll_row_of (''alice'', ''lunch?'', ''2026-01-01 00:00:00'') 1]"
  "auto_rows (t_poll_options demo_poll_db) = [option_row_of (1, ''yes'') 1, option_row_of (1, ''no'') 2]"
  "t_poll_votes demo_poll_db = []"
  by (simp_all add: demo_poll_db_def create_poll_def empty_db_def auto_empty_def insert_auto_def i64_max_def)

lemma demo_poll_db_ok: "db_ok demo_poll_db"
  unfolding demo_poll_db_def by (rule create_poll_ok) (rule db_ok_empty)

theorem vote_poll_exact_witness:
  "fst (vote_poll (quiet_env 0) 1 ''bob'' 2 demo_poll_db) = Inr () \<and>
   vote_of 1 ''bob'' (snd (vote_poll (quiet_env 0) 1 ''bob'' 2 demo_poll_db)) = Some 2"
proof -
  have "poll_open 1 demo_poll_db"
    by (simp add: poll_open_def find_poll_def lookup_key_def demo_poll_db_tables)
      (simp add: poll_row_of_def)
  moreover have "2 \<in> po_option_id ` set (options_of 1 demo_poll_db)"
    by (simp add: options_of_def demo_poll_db_tables)
  ultimately show ?thesis
    using vote_poll_exact [OF quiet_env_simps(1), of 0 1 "''bob''" 2 demo_poll_db] by simp
qed

lemma insert_options_Inr:
  assumes "insert_options ev k i opts st = (Inr (), st')"
  shows "t_polls st' = t_polls st \<and>
    auto_rows (t_poll_options st') = auto_rows (t_poll_options st) @
      map (\<lambda>(j, x). option_row_of (i, x) (auto_seq (t_poll_options st) + 1 + int j)) (enumerate 0 opts)"
  using assms
proof (induction opts arbitrary: k st)
  case (Cons x opts)
  then obtain n t where t: "insert_auto (option_row_of (i, x)) (t_poll_options st) = Some (n, t)"
    and rest: "insert_options ev (Suc k) i opts (st\<lparr>t_poll_options := t\<rparr>) = (Inr (), st')"
    by (auto simp: sql_Inr_conv split: option.splits)
  have e: "enumerate (Suc 0) opts = map (\<lambda>(j, x). (Suc j, x)) (enumerate 0 opts)"
    by (simp add: enumerate_eq_zip map_Suc_upt [symmetric] zip_map1 case_prod_unfold del: upt_Suc)
  show ?case
    using Cons.IH [OF rest] insert_auto_SomeD [OF t] by (simp add: e case_prod_unfold add.assoc)
qed simp

text \<open>Property C24. The options of a new poll carry the next ids of the whole table, not the numbers 1, 2, ...
  under which the client lists them and asks for votes: a number that is at most the number of options
  ever made before is refused in the new poll, so that only in the very first poll of a relay do the
  numbers shown choose the options they stand at.\<close>

theorem poll_numbers_are_table_ids:
  assumes "db_ok st" and "no_faults ev'" and "create_poll ev u q opts st = (Inr i, st')"
  shows "map po_option_id (options_of i st') = map (\<lambda>j. auto_seq (t_poll_options st) + 1 + int j) [0..<length opts] \<and>
    map po_option_text (options_of i st') = opts \<and>
    (\<forall>k v. k \<le> auto_seq (t_poll_options st) \<longrightarrow>
       vote_poll ev' i v k st' = (Inl (BoxedText ''Option not found''), st'))"
proof -
  obtain t where t: "insert_auto (poll_row_of (u, q, ev_datetime ev)) (t_polls st) = Some (i, t)"
    and ins: "insert_options ev 1 i opts (st\<lparr>t_polls := t\<rparr>) = (Inr (), st')"
    using assms(3) by (auto simp: create_poll_def sql_Inr_conv and_then_Inr_conv split: option.splits)
  note o = insert_options_Inr [OF ins]
  have "\<forall>j\<in>poll_ids st. j < i"
    using polls.ids_bound [of "t_polls st" "(u, q, ev_datetime ev)" i t] t assms(1)
    by (simp add: poll_ids_def db_ok_defs)
  then have fresh: "i \<notin> poll_ids st" by blast
  then have old: "filter (\<lambda>r. po_poll_id r = i) (auto_rows (t_poll_options st)) = []"
    using assms(1) by (auto simp: filter_empty_conv db_ok_defs)
  let ?new = "map (\<lambda>(j, x). option_row_of (i, x) (auto_seq (t_poll_options st) + 1 + int j)) (enumerate 0 opts)"
  have "filter (\<lambda>r. po_poll_id r = i) ?new = ?new" by (auto simp: filter_id_conv)
  then have opt: "options_of i st' = ?new" using o old by (simp add: options_of_def)
  then have ids: "map po_option_id (options_of i st') = map (\<lambda>j. auto_seq (t_poll_options st) + 1 + int j) [0..<length opts]"
    by (intro nth_equalityI) (auto simp: opt enumerate_eq_zip)
  have texts: "map po_option_text (options_of i st') = opts"
    by (simp add: opt case_prod_unfold comp_def option_row_of_def)
  have "find_poll i st' = Some (poll_row_of (u, q, ev_datetime ev) i)"
    using o fresh insert_auto_SomeD [OF t]
    by (simp add: find_poll_def poll_ids_def lookup_key_def find_append lookup_key_None [symmetric])
  then have op: "poll_open i st'" by (simp add: poll_open_def poll_row_of_def)
  have "k \<notin> po_option_id ` set (options_of i st')" if "k \<le> auto_seq (t_poll_options st)" for k
    using that by (auto simp: opt)
  with op ids texts show ?thesis by (simp add: vote_poll_eq [OF assms(2)])
qed

theorem poll_numbers_are_table_ids_witness:
  "fst (vote_poll (quiet_env 0) 2 ''bob'' 1
     (snd (create_poll (quiet_env 0) ''alice'' ''where?'' [''here'', ''there''] demo_poll_db)))
   = Inl (BoxedText ''Option not found'')"
proof -
  have "create_poll (quiet_env 0) ''alice'' ''where?'' [''here'', ''there''] demo_poll_db =
      (Inr 2, snd (create_poll (quiet_env 0) ''alice'' ''where?'' [''here'', ''there''] demo_poll_db))"
    and "auto_seq (t_poll_options demo_poll_db) = 2"
    by (simp_all add: demo_poll_db_def create_poll_def empty_db_def auto_empty_def insert_auto_def i64_max_def)
  then show ?thesis
    using poll_numbers_are_table_ids [OF demo_poll_db_ok quiet_env_simps(1), of "quiet_env 0" "''alice''" "''where?''"
        "[''here'', ''there'']" 2 _ 0] by simp
qed

text \<open>The results of a poll count every voter once: the options are listed with their own
  votes, and over all options the votes add up to the number of users who have voted in the poll.\<close>

theorem poll_results_tally:
  assumes "db_ok st" and "no_faults ev" and "find_poll i st = Some p"
  shows "\<exists>j. poll_results ev i st = (Inr (Some j), st) \<and>
     json_get j ''question'' = Some (JString (p_question p)) \<and>
     json_get j ''active'' = Some (JBool (p_active p \<noteq> 0)) \<and>
     json_get j ''options'' = Some (JArray (map (option_json st) (options_of i st))) \<and>
     sum_list (map (\<lambda>r. vote_count r st) (options_of i st)) = card {u. vote_of i u st \<noteq> None}"
proof -
  have users: "{u. vote_of i u st \<noteq> None} = set (map pv_user_id (votes_in i st))"
    by (force simp: vote_of_def lookup_key_None vote_key_def votes_in_def)
  have "card {u. vote_of i u st \<noteq> None} = length (votes_in i st)"
    unfolding users using distinct_card [OF votes_in_one_per_user [OF assms(1), of i]] by simp
  with vote_counts_sum [OF assms(1), of i] show ?thesis
    using assms order_by_options [OF assms(1), of i]
    by (simp add: poll_results_def query_row_ok_def Let_def)
qed

theorem poll_results_tally_witness:
  "\<exists>st j. st = snd (vote_poll (quiet_env 0) 1 ''bob'' 2 demo_poll_db) \<and>
     poll_results (quiet_env 0) 1 st = (Inr (Some j), st) \<and>
     sum_list (map (\<lambda>r. vote_count r st) (options_of 1 st)) = card {u. vote_of 1 u st \<noteq> None}"
proof -
  let ?st = "snd (vote_poll (quiet_env 0) 1 ''bob'' 2 demo_poll_db)"
  have ok: "db_ok ?st" using demo_poll_db_ok by (rule vote_poll_ok)
  have "t_polls ?st = t_polls demo_poll_db"
    by (simp add: vote_poll_def Let_def)
  then have "find_poll 1 ?st = Some (poll_row_of (''alice'', ''lunch?'', ''2026-01-01 00:00:00'') 1)"
    by (simp add: find_poll_def lookup_key_def demo_poll_db_tables)
  from poll_results_tally [OF ok quiet_env_simps(1) this] show ?thesis by blast
qed

text \<open>Only its creator can close a poll; after closing, no vote in it is accepted.\<close>

theorem close_poll_by_creator:
  assumes "no_faults ev" and "no_faults ev'"
  shows "(fst (close_poll ev i u st) = Inr True \<longleftrightarrow> (\<exists>p. find_poll i st = Some p \<and> p_creator p = u)) \<and>
     (fst (close_poll ev i u st) = Inr True \<longrightarrow>
        i \<in> closed_polls (snd (close_poll ev i u st)) \<and>
        (\<forall>v k. vote_poll ev' i v k (snd (close_poll ev i u st)) =
           (Inl (BoxedText ''Poll is closed''), snd (close_poll ev i u st)))) \<and>
     (fst (close_poll ev i u st) \<noteq> Inr True \<longrightarrow> close_poll ev i u st = (Inr False, st))"
proof (cases "\<exists>p. find_poll i st = Some p \<and> p_creator p = u")
  case True
  then obtain p where p: "find_poll i st = Some p" "p_creator p = u" by blast
  then have c: "close_poll ev i u st = (Inr True, deactivate i st)"
    using assms(1) by (simp add: close_poll_def query_row_ok_def)
  have "find_poll i (deactivate i st) = Some (p\<lparr>p_active := 0\<rparr>)"
    using p by (simp add: find_poll_deactivate)
  then show ?thesis
    using c p assms(2) by (simp add: closed_polls_def vote_poll_def query_row_ok_def Let_def)
next
  case False
  then have "close_poll ev i u st = (Inr False, st)"
    using assms(1) by (auto simp: close_poll_def query_row_ok_def split: option.split)
  with False show ?thesis by simp
qed

theorem close_poll_by_creator_witness:
  "fst (close_poll (quiet_env 0) 1 ''alice'' demo_poll_db) = Inr True \<and>
   vote_poll (quiet_env 0) 1 ''bob'' 2 (snd (close_poll (quiet_env 0) 1 ''alice'' demo_poll_db)) =
     (Inl (BoxedText ''Poll is closed''), snd (close_poll (quiet_env 0) 1 ''alice'' demo_poll_db))"
proof -
  have "\<exists>p. find_poll 1 demo_poll_db = Some p \<and> p_creator p = ''alice''"
    by (simp add: find_poll_def lookup_key_def demo_poll_db_tables) (simp add: poll_row_of_def)
  with close_poll_by_creator [OF quiet_env_simps(1) quiet_env_simps(1), of 0 1 "''alice''" demo_poll_db 0]
  show ?thesis by blast
qed

section \<open>Timeline\<close>

text \<open>Property C35. Deleting a post removes its comments whoever asks, while the post itself goes only for
  its owner: a request by another user is answered \<open>false\<close>, leaves the post and loses every comment on
  it. Comments of other posts stay in either case.\<close>

theorem delete_post_effect:
  assumes "no_faults ev"
  shows "(fst (delete_post ev i u st) = Inr True \<longleftrightarrow>
            (\<exists>p\<in>set (auto_rows (t_timeline_posts st)). tp_post_id p = i \<and> tp_user_id p = u)) \<and>
     (fst (delete_post ev i u st) \<noteq> Inr True \<longrightarrow>
        fst (delete_post ev i u st) = Inr False \<and>
        auto_rows (t_timeline_posts (snd (delete_post ev i u st))) = auto_rows (t_timeline_posts st)) \<and>
     (\<forall>p. p \<in> set (auto_rows (t_timeline_posts (snd (delete_post ev i u st)))) \<longleftrightarrow>
        p \<in> set (auto_rows (t_timeline_posts st)) \<and> \<not> (tp_post_id p = i \<and> tp_user_id p = u)) \<and>
     (\<forall>j. comment_count j (snd (delete_post ev i u st)) = (if j = i then 0 else comment_count j st))"
proof -
  let ?own = "\<lambda>p. tp_post_id p = i \<and> tp_user_id p = u"
  let ?st1 = "delete_comments i st"
  have posts: "t_timeline_posts ?st1 = t_timeline_posts st" by (simp add: delete_comments_def)
  have d: "delete_post ev i u st =
      (Inr (0 < length (filter ?own (auto_rows (t_timeline_posts st)))),
       ?st1\<lparr>t_timeline_posts := auto_delete_where ?own (t_timeline_posts st)\<rparr>)"
    using assms by (simp add: delete_post_def Let_def posts)
  have comments: "comment_count j (?st1\<lparr>t_timeline_posts := t\<rparr>) = (if j = i then 0 else comment_count j st)" for j t
    by (auto simp: comment_count_def delete_comments_def auto_delete_where_def delete_where_def
        filter_empty_conv intro: arg_cong [where f = length] filter_cong)
  have "filter (\<lambda>p. \<not> ?own p) ps = ps" if "\<not> (\<exists>p\<in>set ps. ?own p)" for ps
    using that by (auto simp: filter_id_conv)
  then show ?thesis
    unfolding d using comments
    by (auto simp: auto_delete_where_def delete_where_def filter_empty_conv)
qed

definition demo_post_db :: db where
  "demo_post_db =
     snd (add_comment (quiet_env 0) 1 ''carol'' ''nice''
       (snd (create_post (quiet_env 0) ''alice'' ''hello'' None (empty_db True))))"

lemma demo_post_db_tables:
  "auto_rows (t_timeline_posts demo_post_db) = [post_row_of (''alice'', None, ''hello'', 0) 1]"
  "auto_rows (t_timeline_comments demo_post_db) = [comment_row_of (1, ''carol'', ''nice'', 0) 1]"
  by (simp_all add: demo_post_db_def add_comment_def create_post_def empty_db_def auto_empty_def insert_auto_def
      i64_max_def as_i64_cast_def as_secs_def post_ids_def Let_def)

theorem delete_post_effect_witness:
  "fst (delete_post (quiet_env 0) 1 ''mallory'' demo_post_db) = Inr False \<and>
   comment_count 1 demo_post_db = 1 \<and>
   comment_count 1 (snd (delete_post (quiet_env 0) 1 ''mallory'' demo_post_db)) = 0"
proof -
  have "\<not> (\<exists>p\<in>set (auto_rows (t_timeline_posts demo_post_db)). tp_post_id p = 1 \<and> tp_user_id p = ''mallory'')"
    by (simp add: demo_post_db_tables) (simp add: post_row_of_def)
  moreover have "comment_count 1 demo_post_db = 1"
    by (simp add: comment_count_def demo_post_db_tables)
  ultimately show ?thesis
    using delete_post_effect [OF quiet_env_simps(1), of 0 1 "''mallory''" demo_post_db] by simp
qed

text \<open>The timeline shows at most 100 posts, newest first, only posts the user may see (its own,
  those of group mates and of the other ends of queued messages, those addressed to it), all of them
  when they are at most 100, and when some are cut off none of those is newer than a post shown.\<close>

theorem timeline_newest_visible:
  assumes "no_faults ev"
  shows "get_timeline ev u st = (Inr (map (post_json st) (timeline_posts u st)), st) \<and>
     length (timeline_posts u st) \<le> 100 \<and> sorted_wrt (\<ge>) (map tp_created_at (timeline_posts u st)) \<and>
     (\<forall>p\<in>set (timeline_posts u st). p \<in> set (auto_rows (t_timeline_posts st)) \<and> timeline_visible u st p) \<and>
     (\<forall>p\<in>set (auto_rows (t_timeline_posts st)). timeline_visible u st p \<longrightarrow> p \<in> set (timeline_posts u st) \<or>
        length (timeline_posts u st) = 100 \<and> (\<forall>q\<in>set (timeline_posts u st). tp_created_at p \<le> tp_created_at q))"
proof -
  have full: "length (timeline_posts u st) = 100"
    if "p \<in> set (auto_rows (t_timeline_posts st))" "timeline_visible u st p" "p \<notin> set (timeline_posts u st)" for p
  proof (rule ccontr)
    assume "length (timeline_posts u st) \<noteq> 100"
    then have "length (filter (timeline_visible u st) (auto_rows (t_timeline_posts st))) \<le> 100"
      by (auto simp: timeline_posts_def)
    with that show False by (auto dest: timeline_posts_all)
  qed
  have "get_timeline ev u st = (Inr (map (post_json st) (timeline_posts u st)), st)"
    using assms by (simp add: get_timeline_def)
  moreover have "length (timeline_posts u st) \<le> 100"
    by (simp add: timeline_posts_def)
  ultimately show ?thesis
    using timeline_posts_sorted [of u st] set_timeline_posts [of u st] full timeline_posts_newest [of _ st u]
    by blast
qed

theorem timeline_newest_visible_witness:
  "get_timeline (quiet_env 0) ''alice'' demo_post_db =
     (Inr (map (post_json demo_post_db) (timeline_posts ''alice'' demo_post_db)), demo_post_db) \<and>
   post_row_of (''alice'', None, ''hello'', 0) 1 \<in> set (timeline_posts ''alice'' demo_post_db)"
proof -
  let ?p = "post_row_of (''alice'', None, ''hello'', 0) 1"
  have "?p \<in> set (auto_rows (t_timeline_posts demo_post_db))" "timeline_visible ''alice'' demo_post_db ?p"
    by (simp_all add: demo_post_db_tables timeline_visible_def post_row_of_def)
  moreover have "length (timeline_posts ''alice'' demo_post_db) \<noteq> 100"
    by (simp add: timeline_posts_def demo_post_db_tables)
  ultimately show ?thesis
    using timeline_newest_visible [OF quiet_env_simps(1), of 0 "''alice''" demo_post_db] by blast
qed

end
