(* ===== verification/Directory_Properties.thy ===== *)
theory Directory_Properties
  imports Demo_Instances Store_Frames
begin

text \<open>
  Properties of the rest of the store: key bundles, the user search, statuses, groups and channels.
\<close>

section \<open>Users\<close>

text \<open>A registration is what the next lookup of that user returns: the identity key and the
  stored bundle as parsed back; lookups of other users are as before, a second registration of the
  user replaces the first, and the user is then listed as offline.\<close>

theorem register_then_get_key_bundle:
  assumes "no_faults ev" and "no_faults ev'" and "parse b = Inr v"
  shows "\<exists>st'. register_user ev u k b st = (Inr (), st') \<and>
     get_key_bundle parse ev' u st' =
       (Inr (Some (JObject [(''identity_key'', bytes_json k), (''signed_pre_key'', v)])), st') \<and>
     (\<forall>u'. u' \<noteq> u \<longrightarrow> fst (get_key_bundle parse ev' u' st') = fst (get_key_bundle parse ev' u' st)) \<and>
     (\<forall>row\<in>set (t_users st'). u_user_id row = u \<longrightarrow>
        row = \<lparr>u_user_id = u, u_identity_key = k, u_signed_pre_key = b, u_presence = ''offline''\<rparr>)"
proof -
  let ?row = "\<lparr>u_user_id = u, u_identity_key = k, u_signed_pre_key = b, u_presence = ''offline''\<rparr>"
  let ?st = "st\<lparr>t_users := insert_or_replace u_user_id ?row (t_users st)\<rparr>"
  have look: "lookup_key u_user_id (t_users ?st) u' = (if u' = u then Some ?row else lookup_key u_user_id (t_users st) u')" for u'
    by (simp add: lookup_insert_or_replace)
  note look' = look [simplified]
  have get: "get_key_bundle parse ev' u' s = (Inr (map_option (\<lambda>row. JObject [(''identity_key'', bytes_json (u_identity_key row)),
      (''signed_pre_key'', case parse (u_signed_pre_key row) of Inl e \<Rightarrow> JNull | Inr v \<Rightarrow> v)])
      (lookup_key u_user_id (t_users s) u')), s)" for u' s
    using assms(2) by (simp add: get_key_bundle_def Let_def split: option.split)
  have "register_user ev u k b st = (Inr (), ?st)"
    using assms(1) by (simp add: register_user_def)
  then show ?thesis
    using assms(3) by (intro exI [of _ ?st]) (simp add: get look', auto simp: set_insert_or_replace)
qed

theorem register_then_get_key_bundle_witness:
  "\<exists>st'. register_user (quiet_env 0) ''alice'' [1, 2] ''{}'' (empty_db True) = (Inr (), st') \<and>
     get_key_bundle (\<lambda>_. Inr (JObject [])) (quiet_env 0) ''alice'' st' =
       (Inr (Some (JObject [(''identity_key'', bytes_json [1, 2]), (''signed_pre_key'', JObject [])])), st')"
  using register_then_get_key_bundle [of "quiet_env 0" "quiet_env 0" "\<lambda>_. Inr (JObject [])" "''{}''" "JObject []"
      "''alice''" "[1, 2]" "empty_db True"] by auto

text \<open>The user search returns the matching users with their presence in order of their ids: all
  users without a query, and with a query free of wildcards those whose (ASCII) id contains it, the
  case of letters ignored.\<close>

theorem list_users_search:
  assumes "no_faults ev" and "plain_pattern q" and "\<forall>r\<in>set (t_users st). is_ascii (u_user_id r)"
  shows "\<exists>all found.
     list_users ev None st = (Inr all, st) \<and> list_users ev (Some q) st = (Inr found, st) \<and>
     sorted (map fst all) \<and> sorted (map fst found) \<and>
     set all = (\<lambda>r. (u_user_id r, u_presence r)) ` set (t_users st) \<and>
     set found = {x \<in> set all. \<exists>a b c. fst x = a @ b @ c \<and> map ascii_lower b = map ascii_lower q}"
proof -
  let ?show = "\<lambda>r. (u_user_id r, u_presence r)"
  let ?hit = "\<lambda>r. like_match (''%'' @ q @ ''%'') (u_user_id r)"
  have sorted: "sorted (map fst (map ?show (order_by u_user_id rows)))" for rows
    using sorted_order_by [of u_user_id rows] by (simp add: comp_def)
  define P where "P s \<longleftrightarrow> (\<exists>a b c. s = a @ b @ c \<and> map ascii_lower b = map ascii_lower q)" for s
  have hit: "?hit r \<longleftrightarrow> P (u_user_id r)" if "r \<in> set (t_users st)" for r
    unfolding P_def by (rule like_contains) (use assms that in simp_all)
  then have hits: "{r \<in> set (t_users st). ?hit r} = {r \<in> set (t_users st). P (u_user_id r)}"
    by blast
  have "list_users ev None st = (Inr (map ?show (order_by u_user_id (t_users st))), st)"
    and "list_users ev (Some q) st = (Inr (map ?show (order_by u_user_id (filter ?hit (t_users st)))), st)"
    using assms(1) by (simp_all add: list_users_def Let_def)
  moreover have "set (map ?show (order_by u_user_id (filter ?hit (t_users st)))) =
      {x \<in> set (map ?show (order_by u_user_id (t_users st))). P (fst x)}"
    unfolding set_map set_order_by set_filter hits by auto
  moreover have "set (map ?show (order_by u_user_id (t_users st))) = ?show ` set (t_users st)"
    by simp
  ultimately show ?thesis using sorted unfolding P_def [symmetric] by blast
qed

definition demo_users_db :: db where
  "demo_users_db = snd (register_user (quiet_env 0) ''Alice'' [] [] (empty_db True))"

theorem list_users_search_witness:
  "\<exists>found. list_users (quiet_env 0) (Some ''LIC'') demo_users_db = (Inr found, demo_users_db) \<and>
     set found = {x. x = (''Alice'', ''offline'') \<and> (\<exists>a b c. fst x = a @ b @ c \<and> map ascii_lower b = map ascii_lower ''LIC'')}"
proof -
  have users: "t_users demo_users_db =
      [\<lparr>u_user_id = ''Alice'', u_identity_key = [], u_signed_pre_key = [], u_presence = ''offline''\<rparr>]"
    by (simp add: demo_users_db_def register_user_def empty_db_def insert_or_replace_def)
  have "plain_pattern ''LIC''" "\<forall>r\<in>set (t_users demo_users_db). is_ascii (u_user_id r)"
    by (simp_all add: plain_pattern_def is_ascii_def users)
  from list_users_search [OF quiet_env_simps(1) this, of 0] show ?thesis by (auto simp: users)
qed

section \<open>Statuses\<close>

text \<open>The stories are the statuses of the last 24 hours, newest first, at most one per user,
  and the call panics exactly when overflow checks are on and the clock stands within 24 hours of the
  epoch.\<close>

theorem stories_window:
  assumes "db_ok st" and "no_faults ev" and "int (as_secs (ev_millis ev 0)) \<le> i64_max"
  shows "(get_active_statuses ev st = None \<longleftrightarrow> ev_checks ev \<and> as_secs (ev_millis ev 0) < 86400) \<and>
     (86400 \<le> as_secs (ev_millis ev 0) \<longrightarrow>
        (\<exists>rows. get_active_statuses ev st = Some (Inr (map status_json rows), st) \<and>
           sorted_wrt (\<ge>) (map st_created_at rows) \<and> distinct (map st_user_id rows) \<and>
           set rows = {r \<in> set (t_statuses st). int (as_secs (ev_millis ev 0)) - 86400 < st_created_at r}))"
proof -
  let ?now = "as_secs (ev_millis ev 0)"
  have small: "?now < 2 ^ 63" using assms(3) by (simp add: i64_max_def)
  then have u: "unat (word_of_nat ?now :: u64) = ?now"
    by (simp add: unsigned_of_nat take_bit_eq_mod)
  have none: "get_active_statuses ev st = None \<longleftrightarrow> ev_checks ev \<and> ?now < 86400"
    by (simp add: get_active_statuses_def sub_u64_def u)
  have rows: "\<exists>rows. get_active_statuses ev st = Some (Inr (map status_json rows), st) \<and>
      sorted_wrt (\<ge>) (map st_created_at rows) \<and> distinct (map st_user_id rows) \<and>
      set rows = {r \<in> set (t_statuses st). int ?now - 86400 < st_created_at r}" if late: "86400 \<le> ?now"
  proof -
    have "unat (word_of_nat ?now - 86400 :: u64) = ?now - 86400"
      using late by (simp add: u unat_sub word_le_nat_alt)
    moreover have "as_i64_cast (?now - 86400) = int ?now - 86400"
      using small late by (simp add: as_i64_cast_small of_nat_diff)
    ultimately have get: "get_active_statuses ev st =
        Some (Inr (map status_json (active_statuses (int ?now - 86400) st)), st)"
      using late assms(2) by (simp add: get_active_statuses_def sub_u64_def u)
    let ?rows = "active_statuses (int ?now - 86400) st"
    have "mset ?rows = mset (filter (\<lambda>s. int ?now - 86400 < st_created_at s) (t_statuses st))"
      by (simp add: active_statuses_def)
    then have "mset (map st_user_id ?rows)
        = mset (map st_user_id (filter (\<lambda>s. int ?now - 86400 < st_created_at s) (t_statuses st)))"
      by (simp only: mset_map)
    then have "distinct (map st_user_id ?rows)"
      using distinct_map_filter [OF db_ok_keysD(4) [OF assms(1)]] mset_eq_imp_distinct_iff by blast
    then show ?thesis
      using get by (intro exI [of _ ?rows]) (auto simp: active_statuses_def sorted_order_by_desc)
  qed
  show ?thesis using none rows by blast
qed

definition demo_status_db :: db where
  "demo_status_db = snd (set_status (quiet_env 100000000) ''alice'' ''hello'' (empty_db True))"

theorem stories_window_witness:
  "\<exists>rows. get_active_statuses (quiet_env 100000000) demo_status_db = Some (Inr (map status_json rows), demo_status_db) \<and>
     set rows = {\<lparr>st_user_id = ''alice'', st_content = ''hello'', st_created_at = 100000\<rparr>}"
proof -
  have "db_ok demo_status_db"
    unfolding demo_status_db_def by (rule set_status_ok) (rule db_ok_empty)
  moreover have "t_statuses demo_status_db =
      [\<lparr>st_user_id = ''alice'', st_content = ''hello'', st_created_at = 100000\<rparr>]"
    by (simp add: demo_status_db_def set_status_def empty_db_def insert_or_replace_def as_secs_def i64_max_def Let_def)
  ultimately show ?thesis
    using stories_window [OF _ quiet_env_simps(1), of demo_status_db 100000000]
    by (auto simp: as_secs_def i64_max_def)
qed

section \<open>Groups\<close>

text \<open>A group creation that succeeds gives a new id of eight hexadecimal digits, under which the
  group exists with the creator as its only member, an admin; every other group keeps its members. It
  fails without a change when the generated id is already taken.\<close>

theorem create_group_makes_admin:
  assumes "db_ok st" and "no_faults ev" and "no_faults ev'"
  shows "if generate_group_id (ev_millis ev 0) (ev_rnd ev) \<in> group_ids st
     then create_group ev name creator st = (Inl (UniqueConstraint ''groups.group_id''), st)
     else \<exists>gid st'. create_group ev name creator st = (Inr gid, st') \<and>
       gid \<notin> group_ids st \<and> length gid = 8 \<and> set gid \<subseteq> set ''0123456789abcdef'' \<and>
       group_exists ev' gid st' = (Inr True, st') \<and> list_group_members ev' gid st' = (Inr [creator], st') \<and>
       list_my_groups ev' creator st' = (Inr (map group_json (order_by (g_name \<circ> fst) (groups_join creator st'))), st') \<and>
       (\<exists>g m. (g, m) \<in> set (groups_join creator st') \<and> g_group_id g = gid \<and> g_name g = name \<and>
          g_creator g = creator \<and> gm_role m = ''admin'') \<and>
       (\<forall>g. g \<noteq> gid \<longrightarrow> fst (list_group_members ev' g st') = fst (list_group_members ev' g st))"
proof -
  define gid where "gid = generate_group_id (ev_millis ev 0) (ev_rnd ev)"
  let ?g = "\<lparr>g_group_id = gid, g_name = name, g_creator = creator, g_created_at = ev_datetime ev\<rparr>"
  let ?m = "member_row ''admin'' (gid, creator)"
  let ?st = "st\<lparr>t_groups := t_groups st @ [?g], t_group_members := t_group_members st @ [?m]\<rparr>"
  have taken: "create_group ev name creator st = (Inl (UniqueConstraint ''groups.group_id''), st)"
    if "gid \<in> group_ids st"
    using that assms(2) unfolding gid_def by (simp add: create_group_def Let_def)
  have new: "create_group ev name creator st = (Inr gid, ?st) \<and> filter (\<lambda>m. gm_group_id m = gid) (t_group_members st) = []"
    if "gid \<notin> group_ids st"
  proof -
    have none: "m \<in> set (t_group_members st) \<Longrightarrow> gm_group_id m \<noteq> gid" for m
      using that db_ok_refsD(1) [OF assms(1)] by blast
    then have "(gid, creator) \<notin> member_key ` set (t_group_members st)"
      by (auto simp: member_key_def)
    then show ?thesis
      using that assms(2) none by (simp add: create_group_def Let_def gid_def [symmetric] filter_empty_conv)
  qed
  have join: "(?g, ?m) \<in> set (groups_join creator ?st)"
    by (force simp: groups_join_def member_row_def)
  have members: "list_group_members ev' g s = (Inr (order_by id (map gm_user_id
      (filter (\<lambda>m. gm_group_id m = g) (t_group_members s)))), s)" for g s
    using assms(3) by (simp add: list_group_members_def)
  show ?thesis
    unfolding gid_def [symmetric]
  proof (simp only: if_bool_eq_conj, intro conjI impI)
    assume "gid \<in> group_ids st"
    then show "create_group ev name creator st = (Inl (UniqueConstraint ''groups.group_id''), st)" by (rule taken)
  next
    assume fresh: "gid \<notin> group_ids st"
    have "list_group_members ev' gid ?st = (Inr [creator], ?st)"
      using new [OF fresh] by (simp add: members order_by_def) (simp add: member_row_def)
    moreover have "fst (list_group_members ev' g ?st) = fst (list_group_members ev' g st)" if "g \<noteq> gid" for g
      using that by (simp add: members member_row_def)
    moreover have "group_exists ev' gid ?st = (Inr True, ?st)"
      using assms(3) by (simp add: group_exists_def)
    moreover have "list_my_groups ev' creator ?st =
        (Inr (map group_json (order_by (g_name \<circ> fst) (groups_join creator ?st))), ?st)"
      using assms(3) by (simp add: list_my_groups_def)
    moreover have "length gid = 8" "set gid \<subseteq> set ''0123456789abcdef''"
      using group_id_format unfolding gid_def by blast+
    ultimately show "\<exists>gid st'. create_group ev name creator st = (Inr gid, st') \<and>
       gid \<notin> group_ids st \<and> length gid = 8 \<and> set gid \<subseteq> set ''0123456789abcdef'' \<and>
       group_exists ev' gid st' = (Inr True, st') \<and> list_group_members ev' gid st' = (Inr [creator], st') \<and>
       list_my_groups ev' creator st' = (Inr (map group_json (order_by (g_name \<circ> fst) (groups_join creator st'))), st') \<and>
       (\<exists>g m. (g, m) \<in> set (groups_join creator st') \<and> g_group_id g = gid \<and> g_name g = name \<and>
          g_creator g = creator \<and> gm_role m = ''admin'') \<and>
       (\<forall>g. g \<noteq> gid \<longrightarrow> fst (list_group_members ev' g st') = fst (list_group_members ev' g st))"
      using new [OF fresh] fresh join
      by (intro exI [of _ gid] exI [of _ ?st] conjI exI [of _ ?g] exI [of _ ?m]) (simp_all add: member_row_def)
  qed
qed

theorem create_group_makes_admin_witness:
  "\<exists>gid st'. create_group (quiet_env 0) ''team'' ''alice'' (empty_db True) = (Inr gid, st') \<and> length gid = 8 \<and>
     list_group_members (quiet_env 0) gid st' = (Inr [''alice''], st')"
proof -
  have "generate_group_id (ev_millis (quiet_env 0) 0) (ev_rnd (quiet_env 0)) \<notin> group_ids (empty_db True)"
    by (simp add: group_ids_def empty_db_def)
  with create_group_makes_admin [OF db_ok_empty quiet_env_simps(1) quiet_env_simps(1), of 0 True "''team''" "''alice''" 0]
  show ?thesis by auto
qed

text \<open>Creating a group is not atomic: when the second insert fails, the error is returned, yet the
  group exists, nobody is a member of it, and its id can never be used again.\<close>

theorem create_group_fault_orphans_group:
  assumes "db_ok st" and "ev_fault ev 0 = None" and "ev_fault ev 1 = Some err"
    and "generate_group_id (ev_millis ev 0) (ev_rnd ev) \<notin> group_ids st"
  shows "\<exists>st'. create_group ev name creator st = (Inl (SqliteFault err), st') \<and>
     generate_group_id (ev_millis ev 0) (ev_rnd ev) \<in> group_ids st' \<and>
     (\<forall>m\<in>set (t_group_members st'). gm_group_id m \<noteq> generate_group_id (ev_millis ev 0) (ev_rnd ev)) \<and>
     create_group ev name creator st' = (Inl (UniqueConstraint ''groups.group_id''), st')"
proof -
  define gid where "gid = generate_group_id (ev_millis ev 0) (ev_rnd ev)"
  let ?g = "\<lparr>g_group_id = gid, g_name = name, g_creator = creator, g_created_at = ev_datetime ev\<rparr>"
  let ?st = "st\<lparr>t_groups := t_groups st @ [?g]\<rparr>"
  have "create_group ev name creator st = (Inl (SqliteFault err), ?st)"
    using assms unfolding gid_def by (simp add: create_group_def Let_def)
  moreover have taken: "gid \<in> group_ids ?st" by (simp add: group_ids_def)
  moreover have "\<forall>m\<in>set (t_group_members ?st). gm_group_id m \<noteq> gid"
    using assms(4) db_ok_refsD(1) [OF assms(1)] unfolding gid_def by auto
  moreover have "create_group ev name creator ?st = (Inl (UniqueConstraint ''groups.group_id''), ?st)"
    using assms(2) taken by (simp add: create_group_def Let_def gid_def)
  ultimately show ?thesis unfolding gid_def [symmetric] by blast
qed

theorem create_group_fault_orphans_group_witness:
  "\<exists>st'. create_group (faulty_env 1) ''team'' ''alice'' (empty_db True) = (Inl (SqliteFault ''disk I/O error''), st') \<and>
     group_ids st' \<noteq> {}"
proof -
  have "generate_group_id (ev_millis (faulty_env 1) 0) (ev_rnd (faulty_env 1)) \<notin> group_ids (empty_db True)"
    by (simp add: group_ids_def empty_db_def)
  from create_group_fault_orphans_group [OF db_ok_empty _ _ this, of "''disk I/O error''" "''team''" "''alice''"]
  show ?thesis by auto
qed

text \<open>Group membership is a set: after joining, the members are the old ones and the user, after
  leaving, the old ones without the user, doing either twice is doing it once, and the listing is
  sorted and free of duplicates.\<close>

theorem group_membership_is_a_set:
  assumes "db_ok st" and "no_faults ev" and "g \<in> group_ids st"
  shows "\<exists>st1 st2 ms ms1 ms2.
     add_group_member ev g u st = (Inr (), st1) \<and> add_group_member ev g u st1 = (Inr (), st1) \<and>
     remove_group_member ev g u st = (Inr (), st2) \<and> remove_group_member ev g u st2 = (Inr (), st2) \<and>
     list_group_members ev g st = (Inr ms, st) \<and> list_group_members ev g st1 = (Inr ms1, st1) \<and>
     list_group_members ev g st2 = (Inr ms2, st2) \<and>
     sorted ms \<and> distinct ms \<and> set ms1 = insert u (set ms) \<and> set ms2 = set ms - {u}"
proof -
  let ?add = "insert_or_ignore member_key (member_row ''member'' (g, u))"
  let ?del = "delete_where (\<lambda>m. member_key m = (g, u))"
  let ?st1 = "st\<lparr>t_group_members := ?add (t_group_members st)\<rparr>"
  let ?st2 = "st\<lparr>t_group_members := ?del (t_group_members st)\<rparr>"
  let ?list = "\<lambda>s. order_by id (map gm_user_id (filter (\<lambda>m. gm_group_id m = g) (t_group_members s)))"
  have listed: "set (?list s) = {v. (g, v) \<in> member_key ` set (t_group_members s)}" for s
    by (force simp: member_key_def)
  have "distinct (map member_key (filter (\<lambda>m. gm_group_id m = g) (t_group_members st)))"
    using db_ok_keysD(3) [OF assms(1)] by (rule distinct_map_filter)
  then have "distinct (map gm_user_id (filter (\<lambda>m. gm_group_id m = g) (t_group_members st)))"
    by (auto simp: distinct_map member_key_def inj_on_def)
  then have ds: "distinct (?list st)" "sorted (?list st)"
    using sorted_order_by [of id "map gm_user_id (filter (\<lambda>m. gm_group_id m = g) (t_group_members st))"]
    by (simp_all add: order_by_def)
  have del2: "?del (?del t) = ?del t" for t
    by (simp add: delete_where_def)
  have "group_ids ?st1 = group_ids st" by (simp add: group_ids_def)
  then have ops: "add_group_member ev g u st = (Inr (), ?st1)" "add_group_member ev g u ?st1 = (Inr (), ?st1)"
    "remove_group_member ev g u st = (Inr (), ?st2)" "remove_group_member ev g u ?st2 = (Inr (), ?st2)"
    using assms(2,3) group_members.insert_idem [of "(g, u)" "t_group_members st"] del2
    by (simp_all add: add_group_member_def remove_group_member_def)
  have lists: "list_group_members ev g s = (Inr (?list s), s)" for s
    using assms(2) by (simp add: list_group_members_def)
  have "set (?list ?st1) = insert u (set (?list st))" "set (?list ?st2) = set (?list st) - {u}"
    unfolding listed
    using group_members.member_insert [of _ "(g, u)" "t_group_members st"]
      group_members.member_delete [of _ "(g, u)" "t_group_members st"] by auto
  with ops lists ds show ?thesis by blast
qed

theorem group_membership_is_a_set_witness:
  "\<exists>g st st1 ms ms1. add_group_member (quiet_env 0) g ''bob'' st = (Inr (), st1) \<and>
     list_group_members (quiet_env 0) g st = (Inr ms, st) \<and>
     list_group_members (quiet_env 0) g st1 = (Inr ms1, st1) \<and> set ms1 = insert ''bob'' (set ms)"
proof -
  let ?st = "snd (create_group (quiet_env 0) ''team'' ''alice'' (empty_db True))"
  have ok: "db_ok ?st" using db_ok_empty by (rule create_group_ok)
  have "generate_group_id 0 0x1234 \<in> group_ids ?st"
    by (simp add: create_group_def Let_def empty_db_def group_ids_def)
  from group_membership_is_a_set [OF ok quiet_env_simps(1) this, of 0 "''bob''"]
  obtain st1 ms ms1 where "add_group_member (quiet_env 0) (generate_group_id 0 0x1234) ''bob'' ?st = (Inr (), st1)"
    "list_group_members (quiet_env 0) (generate_group_id 0 0x1234) ?st = (Inr ms, ?st)"
    "list_group_members (quiet_env 0) (generate_group_id 0 0x1234) st1 = (Inr ms1, st1)"
    "set ms1 = insert ''bob'' (set ms)"
    by (elim exE conjE)
  then show ?thesis by (intro exI conjI)
qed

end
