(* ===== verification/Server_Invariant.thy ===== *)
theory Server_Invariant
  imports Server_Handlers Store_Frames
begin

text \<open>
  The invariant of the database through the handlers, the dispatcher and a connection. The handlers
  are grouped: those that only read, those that make one writing store call, and the three that make
  two.
\<close>

section \<open>Handlers that only read\<close>

lemma handle_fetch_keys_pure [simp]: "snd (handle_fetch_keys sv ev value st) = st"
  by (simp add: handle_fetch_keys_def snd_decode_payload_same)

lemma handle_list_users_pure [simp]: "snd (handle_list_users sv ev value st) = st"
  by (simp add: handle_list_users_def snd_decode_payload_same)

lemma handle_my_groups_pure [simp]: "snd (handle_my_groups sv ev value st) = st"
  by (simp add: handle_my_groups_def snd_decode_payload_same)

lemma handle_group_members_pure [simp]: "snd (handle_group_members sv ev value st) = st"
  by (simp add: handle_group_members_def snd_decode_payload_same)

lemma handle_list_channels_pure [simp]: "snd (handle_list_channels sv ev value st) = st"
  by (simp add: handle_list_channels_def snd_decode_payload_same)

lemma handle_my_channels_pure [simp]: "snd (handle_my_channels sv ev value st) = st"
  by (simp add: handle_my_channels_def snd_decode_payload_same)

lemma handle_channel_members_pure [simp]: "snd (handle_channel_members sv ev value st) = st"
  by (simp add: handle_channel_members_def snd_decode_payload_same)

lemma handle_poll_results_pure [simp]: "snd (handle_poll_results sv ev value st) = st"
  by (simp add: handle_poll_results_def snd_decode_payload_same)

lemma handle_list_polls_pure [simp]: "snd (handle_list_polls sv ev value st) = st"
  by (simp add: handle_list_polls_def snd_decode_payload_same)

lemma handle_get_timeline_pure [simp]: "snd (handle_get_timeline sv ev value st) = st"
  by (simp add: handle_get_timeline_def snd_decode_payload_same)

lemma handle_get_comments_pure [simp]: "snd (handle_get_comments sv ev value st) = st"
  by (simp add: handle_get_comments_def snd_decode_payload_same)

lemma handle_get_stories_pure: "handle_get_stories sv ev value st = Some r \<Longrightarrow> snd r = st"
  by (auto simp: handle_get_stories_def dest: get_active_statuses_pure)

section \<open>Handlers with one store call\<close>

text \<open>\<open>keeps\<close> is what a store call and a handler do to a good database: it stays good and grows.\<close>

definition keeps :: "db \<Rightarrow> db \<Rightarrow> bool" where
  "keeps st st' \<longleftrightarrow> (db_ok st \<longrightarrow> db_ok st') \<and> grows st st'"

lemma keeps_refl [simp]: "keeps st st"
  by (simp add: keeps_def)

lemma keeps_trans: "keeps a b \<Longrightarrow> keeps b c \<Longrightarrow> keeps a c"
  by (auto simp: keeps_def intro: grows_trans)

lemma keeps_decode: "(\<And>c. keeps st (snd (k c))) \<Longrightarrow> keeps st (snd (decode_payload what r st k))"
  by (simp add: decode_payload_def split: sum.split)

lemma handle_register_keeps: "keeps st (snd (handle_register sv ev value st))"
  unfolding handle_register_def Let_def by (rule keeps_decode) (simp add: keeps_def tt_inv tt_frame)

lemma handle_send_keeps: "keeps st (snd (handle_send sv ev value st))"
  unfolding handle_send_def by (rule keeps_decode) (simp add: keeps_def tt_inv tt_frame)

lemma handle_receive_keeps: "keeps st (snd (handle_receive sv ev value st))"
  unfolding handle_receive_def by (rule keeps_decode) (simp add: keeps_def tt_inv tt_frame)

lemma handle_create_group_keeps: "keeps st (snd (handle_create_group sv ev value st))"
  unfolding handle_create_group_def by (rule keeps_decode) (simp add: keeps_def tt_inv tt_frame)

lemma handle_leave_group_keeps: "keeps st (snd (handle_leave_group sv ev value st))"
  unfolding handle_leave_group_def by (rule keeps_decode) (simp add: keeps_def tt_inv tt_frame)

lemma handle_set_status_keeps: "keeps st (snd (handle_set_status sv ev value st))"
  unfolding handle_set_status_def by (rule keeps_decode) (simp add: keeps_def tt_inv tt_frame)

lemma handle_clear_status_keeps: "keeps st (snd (handle_clear_status sv ev value st))"
  unfolding handle_clear_status_def by (rule keeps_decode) (simp add: keeps_def tt_inv tt_frame)

lemma handle_set_presence_keeps: "keeps st (snd (handle_set_presence sv ev value st))"
  unfolding handle_set_presence_def by (rule keeps_decode) (simp add: keeps_def tt_inv tt_frame)

lemma handle_unsubscribe_channel_keeps: "keeps st (snd (handle_unsubscribe_channel sv ev value st))"
  unfolding handle_unsubscribe_channel_def by (rule keeps_decode) (simp add: keeps_def tt_inv tt_frame)

lemma handle_create_poll_keeps: "keeps st (snd (handle_create_poll sv ev value st))"
  unfolding handle_create_poll_def by (rule keeps_decode) (simp add: keeps_def tt_inv tt_frame)

lemma handle_vote_poll_keeps: "keeps st (snd (handle_vote_poll sv ev value st))"
  unfolding handle_vote_poll_def by (rule keeps_decode) (simp add: keeps_def tt_inv tt_frame)

lemma handle_close_poll_keeps: "keeps st (snd (handle_close_poll sv ev value st))"
  unfolding handle_close_poll_def by (rule keeps_decode) (simp add: keeps_def tt_inv tt_frame)

lemma handle_create_post_keeps: "keeps st (snd (handle_create_post sv ev value st))"
  unfolding handle_create_post_def by (rule keeps_decode) (simp add: keeps_def tt_inv tt_frame)

lemma handle_add_comment_keeps: "keeps st (snd (handle_add_comment sv ev value st))"
  unfolding handle_add_comment_def by (rule keeps_decode) (simp add: keeps_def tt_inv tt_frame)

lemma handle_delete_post_keeps: "keeps st (snd (handle_delete_post sv ev value st))"
  unfolding handle_delete_post_def by (rule keeps_decode) (simp add: keeps_def tt_inv tt_frame)

section \<open>Handlers with two store calls\<close>

lemma join_group_check_exists: "join_group_check ev cmd st \<Longrightarrow> jg_group_id cmd \<in> group_ids st"
  by (auto simp: join_group_check_def dest: group_exists_iff split: sum.splits)

lemma join_group_commit_keeps:
  "jg_group_id cmd \<in> group_ids st \<Longrightarrow> keeps st (snd (join_group_commit sv ev cmd st))"
  by (simp add: join_group_commit_def keeps_def add_group_member_ok add_group_member_grows)

lemma handle_join_group_keeps: "keeps st (snd (handle_join_group sv evs value st))"
  unfolding handle_join_group_def
  by (rule keeps_decode) (simp add: join_group_check_exists join_group_commit_keeps)

lemma subscribe_channel_check_exists: "subscribe_channel_check ev cmd st \<Longrightarrow> sc_channel_id cmd \<in> channel_ids st"
  using get_channel_owner_exists [of ev "sc_channel_id cmd" st]
  by (cases "fst (get_channel_owner ev (sc_channel_id cmd) st)") (simp_all add: subscribe_channel_check_def)

lemma subscribe_channel_commit_keeps:
  "sc_channel_id cmd \<in> channel_ids st \<Longrightarrow> keeps st (snd (subscribe_channel_commit sv ev cmd st))"
  by (simp add: subscribe_channel_commit_def keeps_def subscribe_channel_ok subscribe_channel_grows)

lemma handle_subscribe_channel_keeps: "keeps st (snd (handle_subscribe_channel sv evs value st))"
  unfolding handle_subscribe_channel_def
  by (rule keeps_decode) (simp add: subscribe_channel_check_exists subscribe_channel_commit_keeps)

lemma create_channel_begin_keeps: "keeps st (snd (create_channel_begin sv ev cmd st))"
  using create_channel_ok [of st ev "cc_name cmd" "cc_owner_id cmd"]
    create_channel_grows [of st ev "cc_name cmd" "cc_owner_id cmd"]
  by (auto simp: create_channel_begin_def keeps_def split: prod.split sum.split)

lemma create_channel_begin_exists:
  "create_channel_begin sv ev cmd st = (Inr i, st') \<Longrightarrow> i \<in> channel_ids st'"
  by (auto simp: create_channel_begin_def dest!: create_channel_Inr split: prod.splits sum.splits)

lemma create_channel_commit_keeps:
  "i \<in> channel_ids st \<Longrightarrow> keeps st (snd (create_channel_commit ev cmd i st))"
  by (simp add: create_channel_commit_def keeps_def subscribe_channel_ok subscribe_channel_grows)

lemma handle_create_channel_keeps: "keeps st (snd (handle_create_channel sv evs value st))"
  unfolding handle_create_channel_def
proof (rule keeps_decode)
  fix cmd
  obtain r st' where b: "create_channel_begin sv (evs 0) cmd st = (r, st')" by fastforce
  then have k: "keeps st st'"
    using create_channel_begin_keeps [of st sv "evs 0" cmd] by simp
  show "keeps st (snd (case create_channel_begin sv (evs 0) cmd st of (Inl r, st') \<Rightarrow> (r, st')
      | (Inr channel_id, st') \<Rightarrow> create_channel_commit (evs 1) cmd channel_id st'))"
  proof (cases r)
    case (Inl e)
    with b k show ?thesis by simp
  next
    case (Inr i)
    with b have "i \<in> channel_ids st'" by (blast intro: create_channel_begin_exists)
    then have "keeps st' (snd (create_channel_commit (evs 1) cmd i st'))"
      by (rule create_channel_commit_keeps)
    with b k Inr show ?thesis by (simp add: keeps_trans)
  qed
qed

section \<open>Dispatcher and connection\<close>

lemmas handler_keeps =
  handle_register_keeps
  handle_send_keeps
  handle_receive_keeps
  handle_create_group_keeps
  handle_leave_group_keeps
  handle_set_status_keeps
  handle_clear_status_keeps
  handle_set_presence_keeps
  handle_unsubscribe_channel_keeps
  handle_create_poll_keeps
  handle_vote_poll_keeps
  handle_close_poll_keeps
  handle_create_post_keeps
  handle_add_comment_keeps
  handle_delete_post_keeps
  handle_join_group_keeps handle_subscribe_channel_keeps handle_create_channel_keeps

lemma dispatch_keeps:
  assumes "dispatch sv evs cmd value st = Some r"
  shows "keeps st (snd r)"
proof -
  have stories: "keeps st (snd r)" if "handle_get_stories sv (evs 0) value st = Some r"
    using handle_get_stories_pure [OF that] by simp
  show ?thesis
    using assms unfolding dispatch_def
    by (simp only: split: if_splits) (auto simp: handler_keeps dest: stories)
qed

lemma handle_command_keeps:
  "handle_command sv evs line st = Some r \<Longrightarrow> keeps st (snd r)"
  by (auto simp: handle_command_def dest: dispatch_keeps split: sum.splits option.splits)

lemma handle_client_keeps: "keeps st (snd (handle_client sv evs n reads st))"
proof (induction sv evs n reads st rule: handle_client.induct)
  case (3 sv evs n line rest st)
  show ?case
  proof (cases "handle_command sv (evs n) (trim line) st")
    case None
    with 3 show ?thesis by simp
  next
    case (Some p)
    obtain r st' where p: "p = (r, st')" by fastforce
    have k: "keeps st st'"
      using handle_command_keeps [OF Some] by (simp add: p)
    show ?thesis
    proof (cases "length line = 0 \<or> trim line = []")
      case True
      with 3 show ?thesis by auto
    next
      case False
      with 3(2) Some p have "keeps st' (snd (handle_client sv evs (Suc n) rest st'))" by auto
      with k have "keeps st (snd (handle_client sv evs (Suc n) rest st'))" by (rule keeps_trans)
      with False Some p show ?thesis
        by (auto simp: split_beta Let_def split: sum.split)
    qed
  qed
qed simp_all

end
