(* ===== verification/Server_Concurrency.thy ===== *)
theory Server_Concurrency
  imports Server_Invariant
begin

text \<open>
  Connections running side by side. Every store call holds the connection's mutex to its end, so a
  call is one atomic step, and no call panics while it holds the mutex (the cutoff of the stories is
  computed before the lock), so that it is never poisoned; the gap between the two calls of \<open>handle_join_group\<close>,
  \<open>handle_subscribe_channel\<close> and \<open>handle_create_channel\<close> is a state of the task in which any other
  task may run.
\<close>

section \<open>Tasks and steps\<close>

datatype task =
    Idle
  | JoinGap JoinGroupCmd
  | SubscribeGap SubscribeChannelCmd
  | ChannelGap CreateChannelCmd i64
  | Ended

type_synonym sys = "db \<times> (nat \<Rightarrow> task)"

definition two_calls :: "string list" where
  "two_calls = [''join_group'', ''subscribe_channel'', ''create_channel'']"

definition single_call :: "server \<Rightarrow> string \<Rightarrow> bool" where
  "single_call sv line =
     (case value_from_str sv line of Inl e \<Rightarrow> True
      | Inr value \<Rightarrow> (case get_str value ''cmd'' of None \<Rightarrow> True | Some c \<Rightarrow> c \<notin> set two_calls))"

text \<open>A line that names a command and decodes to its struct.\<close>

definition parsed_as :: "server \<Rightarrow> string \<Rightarrow> (json \<Rightarrow> string + 'c) \<Rightarrow> string \<Rightarrow> string + 'c \<Rightarrow> bool" where
  "parsed_as sv name decoder line r =
     (case value_from_str sv line of Inl e \<Rightarrow> False
      | Inr value \<Rightarrow> get_str value ''cmd'' = Some name \<and> decoder value = r)"

inductive server_step :: "server \<Rightarrow> sys \<Rightarrow> sys \<Rightarrow> bool" for sv :: server where
  accept: "ts c = Ended \<Longrightarrow> server_step sv (st, ts) (st, ts(c := Idle))"
| close: "ts c = Idle \<Longrightarrow> server_step sv (st, ts) (st, ts(c := Ended))"
| command: "ts c = Idle \<Longrightarrow> single_call sv line \<Longrightarrow> handle_command sv evs line st = Some (r, st') \<Longrightarrow>
    server_step sv (st, ts) (st', ts)"
| panic: "ts c = Idle \<Longrightarrow> handle_command sv evs line st = None \<Longrightarrow>
    server_step sv (st, ts) (st, ts(c := Ended))"
| join_refused: "ts c = Idle \<Longrightarrow> parsed_as sv ''join_group'' (JoinGroupCmd_from_value (dec sv)) line r \<Longrightarrow>
    (\<forall>cmd. r = Inr cmd \<longrightarrow> \<not> join_group_check ev cmd st) \<Longrightarrow> server_step sv (st, ts) (st, ts)"
| join_checked: "ts c = Idle \<Longrightarrow> parsed_as sv ''join_group'' (JoinGroupCmd_from_value (dec sv)) line (Inr cmd) \<Longrightarrow>
    join_group_check ev cmd st \<Longrightarrow> server_step sv (st, ts) (st, ts(c := JoinGap cmd))"
| join_done: "ts c = JoinGap cmd \<Longrightarrow> join_group_commit sv ev cmd st = (r, st') \<Longrightarrow>
    server_step sv (st, ts) (st', ts(c := Idle))"
| subscribe_refused: "ts c = Idle \<Longrightarrow>
    parsed_as sv ''subscribe_channel'' (SubscribeChannelCmd_from_value (dec sv)) line r \<Longrightarrow>
    (\<forall>cmd. r = Inr cmd \<longrightarrow> \<not> subscribe_channel_check ev cmd st) \<Longrightarrow> server_step sv (st, ts) (st, ts)"
| subscribe_checked: "ts c = Idle \<Longrightarrow>
    parsed_as sv ''subscribe_channel'' (SubscribeChannelCmd_from_value (dec sv)) line (Inr cmd) \<Longrightarrow>
    subscribe_channel_check ev cmd st \<Longrightarrow> server_step sv (st, ts) (st, ts(c := SubscribeGap cmd))"
| subscribe_done: "ts c = SubscribeGap cmd \<Longrightarrow> subscribe_channel_commit sv ev cmd st = (r, st') \<Longrightarrow>
    server_step sv (st, ts) (st', ts(c := Idle))"
| channel_refused: "ts c = Idle \<Longrightarrow>
    parsed_as sv ''create_channel'' (CreateChannelCmd_from_value (dec sv)) line (Inl e) \<Longrightarrow>
    server_step sv (st, ts) (st, ts)"
| channel_failed: "ts c = Idle \<Longrightarrow>
    parsed_as sv ''create_channel'' (CreateChannelCmd_from_value (dec sv)) line (Inr cmd) \<Longrightarrow>
    create_channel_begin sv ev cmd st = (Inl r, st') \<Longrightarrow> server_step sv (st, ts) (st', ts)"
| channel_created: "ts c = Idle \<Longrightarrow>
    parsed_as sv ''create_channel'' (CreateChannelCmd_from_value (dec sv)) line (Inr cmd) \<Longrightarrow>
    create_channel_begin sv ev cmd st = (Inr i, st') \<Longrightarrow>
    server_step sv (st, ts) (st', ts(c := ChannelGap cmd i))"
| channel_done: "ts c = ChannelGap cmd i \<Longrightarrow> create_channel_commit ev cmd i st = (r, st') \<Longrightarrow>
    server_step sv (st, ts) (st', ts(c := Idle))"

inductive_cases server_stepE: "server_step sv s s'"

section \<open>Invariant\<close>

text \<open>What a task in its gap has seen still holds.\<close>

fun gap_ok :: "db \<Rightarrow> task \<Rightarrow> bool" where
  "gap_ok st (JoinGap cmd) \<longleftrightarrow> jg_group_id cmd \<in> group_ids st"
| "gap_ok st (SubscribeGap cmd) \<longleftrightarrow> sc_channel_id cmd \<in> channel_ids st"
| "gap_ok st (ChannelGap cmd i) \<longleftrightarrow> i \<in> channel_ids st"
| "gap_ok st _ \<longleftrightarrow> True"

definition sys_ok :: "sys \<Rightarrow> bool" where
  "sys_ok s \<longleftrightarrow> db_ok (fst s) \<and> (\<forall>c. gap_ok (fst s) (snd s c))"

lemma gap_ok_grows: "gap_ok st t \<Longrightarrow> grows st st' \<Longrightarrow> gap_ok st' t"
  by (cases t) (auto simp: grows_def)

lemma sys_ok_update:
  assumes "sys_ok (st, ts)" and "keeps st st'" and "\<And>c. ts' c = ts c \<or> gap_ok st' (ts' c)"
  shows "sys_ok (st', ts')"
proof -
  have "gap_ok st' (ts' c)" for c
    using assms gap_ok_grows [of st "ts c" st'] by (metis fst_conv keeps_def snd_conv sys_ok_def)
  with assms show ?thesis by (simp add: sys_ok_def keeps_def)
qed

lemma snd_keeps: "keeps st (snd p) \<Longrightarrow> p = (r, st') \<Longrightarrow> keeps st st'"
  by simp

lemma server_step_ok:
  assumes "server_step sv s s'" and "sys_ok s"
  shows "sys_ok s'"
  using assms
proof (induction rule: server_step.induct)
  case (command ts c line evs st r st')
  then have "keeps st st'" using handle_command_keeps by fastforce
  with command.prems show ?case by (rule sys_ok_update) simp
next
  case (join_checked ts c line cmd ev st)
  from join_checked.prems keeps_refl show ?case
    by (rule sys_ok_update) (use join_group_check_exists [OF join_checked(3)] in simp)
next
  case (join_done ts c cmd ev st r st')
  then have "jg_group_id cmd \<in> group_ids st" by (metis fst_conv gap_ok.simps(1) snd_conv sys_ok_def)
  then have "keeps st st'" using snd_keeps [OF join_group_commit_keeps join_done(2)] by blast
  with join_done.prems show ?case by (rule sys_ok_update) simp
next
  case (subscribe_checked ts c line cmd ev st)
  from subscribe_checked.prems keeps_refl show ?case
    by (rule sys_ok_update) (use subscribe_channel_check_exists [OF subscribe_checked(3)] in simp)
next
  case (subscribe_done ts c cmd ev st r st')
  then have "sc_channel_id cmd \<in> channel_ids st" by (metis fst_conv gap_ok.simps(2) snd_conv sys_ok_def)
  then have "keeps st st'" using snd_keeps [OF subscribe_channel_commit_keeps subscribe_done(2)] by blast
  with subscribe_done.prems show ?case by (rule sys_ok_update) simp
next
  case (channel_failed ts c line cmd ev st r st')
  with snd_keeps [OF create_channel_begin_keeps] have "keeps st st'" by blast
  with channel_failed.prems show ?case by (rule sys_ok_update) simp
next
  case (channel_created ts c line cmd ev st i st')
  with snd_keeps [OF create_channel_begin_keeps] have "keeps st st'" by blast
  with channel_created.prems show ?case
    by (rule sys_ok_update) (use channel_created in \<open>simp add: create_channel_begin_exists\<close>)
next
  case (channel_done ts c cmd i ev st r st')
  then have "i \<in> channel_ids st" by (metis fst_conv gap_ok.simps(3) snd_conv sys_ok_def)
  then have "keeps st st'" using snd_keeps [OF create_channel_commit_keeps channel_done(2)] by blast
  with channel_done.prems show ?case by (rule sys_ok_update) simp
qed (auto simp: sys_ok_def)

text \<open>The states the server can be in, from the opening of its store on.\<close>

definition server_start :: "db \<Rightarrow> sys" where
  "server_start st = (st, \<lambda>_. Ended)"

text \<open>
  \<open>main\<close>: the path of the database is an environment variable or the default; an address that cannot be
  bound and a database that cannot be opened are panics. The loop that accepts connections and gives
  each a task is \<open>accept\<close> of the step relation.
\<close>

definition DB_PATH :: string where
  "DB_PATH = ''tintin-server.db''"

definition server_main ::
  "string option \<Rightarrow> string + unit \<Rightarrow> env \<Rightarrow> bool \<Rightarrow> (string \<Rightarrow> db option) \<Rightarrow> sys option" where
  "server_main db_path_var bound ev fk disk =
     (case bound of
        Inl e \<Rightarrow> None
      | Inr _ \<Rightarrow>
          (case Store_open ev fk (disk (unwrap_or db_path_var DB_PATH)) of
             Inl e \<Rightarrow> None
           | Inr store \<Rightarrow> Some (server_start store)))"

definition server_reach :: "server \<Rightarrow> db \<Rightarrow> sys \<Rightarrow> bool" where
  "server_reach sv st0 s \<longleftrightarrow> (server_step sv)\<^sup>*\<^sup>* (server_start st0) s"

lemma server_reach_ok:
  assumes "server_reach sv st0 s" and "db_ok st0"
  shows "sys_ok s"
  using assms(1) unfolding server_reach_def
proof (induction rule: rtranclp_induct)
  case base
  show ?case using assms(2) by (simp add: server_start_def sys_ok_def)
next
  case (step s s')
  then show ?case by (blast intro: server_step_ok)
qed

section \<open>Commands run alone\<close>

text \<open>A command handled without a pause is a run of steps of its task.\<close>

lemma dispatch_join: "dispatch sv evs ''join_group'' value st = Some (handle_join_group sv evs value st)"
  by (simp add: dispatch_def)

lemma dispatch_subscribe:
  "dispatch sv evs ''subscribe_channel'' value st = Some (handle_subscribe_channel sv evs value st)"
  by (simp add: dispatch_def)

lemma dispatch_create_channel:
  "dispatch sv evs ''create_channel'' value st = Some (handle_create_channel sv evs value st)"
  by (simp add: dispatch_def)

lemma join_run:
  assumes "ts c = Idle" and "value_from_str sv line = Inr value" and "get_str value ''cmd'' = Some ''join_group''"
    and "handle_join_group sv evs value st = (r, st')"
  shows "(server_step sv)\<^sup>*\<^sup>* (st, ts) (st', ts)"
proof (cases "JoinGroupCmd_from_value (dec sv) value")
  case (Inl e)
  with assms(4) show ?thesis by (simp add: handle_join_group_def)
next
  case (Inr cmd)
  have p: "parsed_as sv ''join_group'' (JoinGroupCmd_from_value (dec sv)) line (Inr cmd)"
    using assms Inr by (simp add: parsed_as_def)
  show ?thesis
  proof (cases "join_group_check (evs 0) cmd st")
    case False
    with assms(4) Inr show ?thesis by (simp add: handle_join_group_def)
  next
    case True
    let ?ts = "ts(c := JoinGap cmd)"
    have "server_step sv (st, ts) (st, ?ts)"
      using assms(1) p True by (rule join_checked)
    moreover have "server_step sv (st, ?ts) (st', ?ts(c := Idle))"
      using assms(4) Inr True by (intro join_done) (simp_all add: handle_join_group_def)
    moreover have "?ts(c := Idle) = ts" using assms(1) by auto
    ultimately show ?thesis by (metis converse_rtranclp_into_rtranclp r_into_rtranclp)
  qed
qed

lemma subscribe_run:
  assumes "ts c = Idle" and "value_from_str sv line = Inr value"
    and "get_str value ''cmd'' = Some ''subscribe_channel''"
    and "handle_subscribe_channel sv evs value st = (r, st')"
  shows "(server_step sv)\<^sup>*\<^sup>* (st, ts) (st', ts)"
proof (cases "SubscribeChannelCmd_from_value (dec sv) value")
  case (Inl e)
  with assms(4) show ?thesis by (simp add: handle_subscribe_channel_def)
next
  case (Inr cmd)
  have p: "parsed_as sv ''subscribe_channel'' (SubscribeChannelCmd_from_value (dec sv)) line (Inr cmd)"
    using assms Inr by (simp add: parsed_as_def)
  show ?thesis
  proof (cases "subscribe_channel_check (evs 0) cmd st")
    case False
    with assms(4) Inr show ?thesis by (simp add: handle_subscribe_channel_def)
  next
    case True
    let ?ts = "ts(c := SubscribeGap cmd)"
    have "server_step sv (st, ts) (st, ?ts)"
      using assms(1) p True by (rule subscribe_checked)
    moreover have "server_step sv (st, ?ts) (st', ?ts(c := Idle))"
      using assms(4) Inr True by (intro subscribe_done) (simp_all add: handle_subscribe_channel_def)
    moreover have "?ts(c := Idle) = ts" using assms(1) by auto
    ultimately show ?thesis by (metis converse_rtranclp_into_rtranclp r_into_rtranclp)
  qed
qed

lemma create_channel_run:
  assumes "ts c = Idle" and "value_from_str sv line = Inr value"
    and "get_str value ''cmd'' = Some ''create_channel''"
    and "handle_create_channel sv evs value st = (r, st')"
  shows "(server_step sv)\<^sup>*\<^sup>* (st, ts) (st', ts)"
proof (cases "CreateChannelCmd_from_value (dec sv) value")
  case (Inl e)
  with assms(4) show ?thesis by (simp add: handle_create_channel_def)
next
  case (Inr cmd)
  have p: "parsed_as sv ''create_channel'' (CreateChannelCmd_from_value (dec sv)) line (Inr cmd)"
    using assms Inr by (simp add: parsed_as_def)
  obtain x st1 where b: "create_channel_begin sv (evs 0) cmd st = (x, st1)" by fastforce
  show ?thesis
  proof (cases x)
    case (Inl e)
    with b have "server_step sv (st, ts) (st1, ts)" using assms(1) p by (blast intro: channel_failed)
    with assms(4) Inl Inr b show ?thesis by (simp add: handle_create_channel_def)
  next
    case (Inr i)
    let ?ts = "ts(c := ChannelGap cmd i)"
    have "server_step sv (st, ts) (st1, ?ts)"
      using assms(1) p b Inr by (blast intro: channel_created)
    moreover have "server_step sv (st1, ?ts) (st', ?ts(c := Idle))"
      using assms(4) \<open>CreateChannelCmd_from_value (dec sv) value = Inr cmd\<close> Inr b
      by (intro channel_done) (simp_all add: handle_create_channel_def)
    moreover have "?ts(c := Idle) = ts" using assms(1) by auto
    ultimately show ?thesis by (metis converse_rtranclp_into_rtranclp r_into_rtranclp)
  qed
qed

lemma command_run:
  assumes idle: "ts c = Idle" and h: "handle_command sv evs line st = Some (r, st')"
  shows "(server_step sv)\<^sup>*\<^sup>* (st, ts) (st', ts)"
proof (cases "single_call sv line")
  case True
  from idle True h have "server_step sv (st, ts) (st', ts)" by (rule command)
  then show ?thesis ..
next
  case False
  then obtain v c' where v: "value_from_str sv line = Inr v" "get_str v ''cmd'' = Some c'"
    and c': "c' \<in> set two_calls"
    by (auto simp: single_call_def split: sum.splits option.splits)
  from c' consider "c' = ''join_group''" | "c' = ''subscribe_channel''" | "c' = ''create_channel''"
    by (auto simp: two_calls_def)
  then show ?thesis
  proof cases
    case 1
    with h v have "handle_join_group sv evs v st = (r, st')"
      by (simp add: handle_command_def dispatch_join)
    with idle v 1 show ?thesis by (blast intro: join_run)
  next
    case 2
    with h v have "handle_subscribe_channel sv evs v st = (r, st')"
      by (simp add: handle_command_def dispatch_subscribe)
    with idle v 2 show ?thesis by (blast intro: subscribe_run)
  next
    case 3
    with h v have "handle_create_channel sv evs v st = (r, st')"
      by (simp add: handle_command_def dispatch_create_channel)
    with idle v 3 show ?thesis by (blast intro: create_channel_run)
  qed
qed

end
