(* ===== verification/Server_Properties.thy ===== *)
theory Server_Properties
  imports Server_Concurrency Demo_Instances
begin

text \<open>
  Properties of the server as a whole: what every interleaving of connections keeps, that a check made
  before the gap still holds after it, when a command can panic, and the handlers that do more than
  pass a store call on.
\<close>

section \<open>All interleavings\<close>

lemma server_step_grows: "server_step sv s s' \<Longrightarrow> grows (fst s) (fst s')"
proof (induction rule: server_step.induct)
  case (command ts c line evs st r st')
  then show ?case using handle_command_keeps by (fastforce simp: keeps_def)
next
  case (join_done ts c cmd ev st r st')
  then show ?case using add_group_member_grows by (metis fst_conv join_group_commit_def snd_conv snd_respond)
next
  case (subscribe_done ts c cmd ev st r st')
  then show ?case using subscribe_channel_grows by (metis fst_conv subscribe_channel_commit_def snd_conv snd_respond)
next
  case (channel_failed ts c line cmd ev st r st')
  then show ?case using create_channel_begin_keeps by (metis fst_conv keeps_def snd_conv)
next
  case (channel_created ts c line cmd ev st i st')
  then show ?case using create_channel_begin_keeps by (metis fst_conv keeps_def snd_conv)
next
  case (channel_done ts c cmd i ev st r st')
  then show ?case using subscribe_channel_grows by (metis create_channel_commit_def fst_conv snd_conv)
qed simp_all

lemma server_steps_grow: "(server_step sv)\<^sup>*\<^sup>* s s' \<Longrightarrow> grows (fst s) (fst s')"
  by (induction rule: rtranclp_induct) (auto intro: grows_trans server_step_grows)

text \<open>Property C6. A server that starts, with a new database or one whose tables are in order, keeps it so: every
  state it can reach keeps the database in order (unique keys, growing row ids, references to rows that exist),
  for any number of connections, any requests, any engine faults and any interleaving of the store
  calls, and what a handler between its two calls has checked still holds.\<close>

theorem server_invariant_all_interleavings:
  assumes "server_main db_path_var bound ev fk disk = Some s0"
    and "\<forall>p d. disk p = Some d \<longrightarrow> db_ok (d\<lparr>foreign_keys := fk\<rparr>)"
    and "(server_step sv)\<^sup>*\<^sup>* s0 s"
  shows "db_ok (fst s) \<and> (\<forall>c. gap_ok (fst s) (snd s c))"
proof -
  obtain st0 where o: "Store_open ev fk (disk (unwrap_or db_path_var DB_PATH)) = Inr st0" and s0: "s0 = server_start st0"
    using assms(1) by (auto simp: server_main_def split: sum.splits)
  have "db_ok st0"
    using o assms(2) db_ok_empty by (auto simp: Store_open_def split: option.splits)
  moreover have "server_reach sv st0 s" using assms(3) by (simp add: server_reach_def s0)
  ultimately show ?thesis using server_reach_ok sys_ok_def by blast
qed

lemma demo_gap_reach:
  "\<exists>st cmd. server_reach demo_server (empty_db True) (st, (\<lambda>_. Ended)(0 := ChannelGap cmd 1))"
proof -
  let ?v = "demo_request ''create_channel''"
  let ?ts = "(\<lambda>_. Ended)(0 := Idle)"
  obtain cmd where cmd: "CreateChannelCmd_from_value (dec demo_server) ?v = Inr cmd"
    by (simp add: demo_server_def demo_decoders_def)
  have p: "parsed_as demo_server ''create_channel'' (CreateChannelCmd_from_value (dec demo_server)) ''create_channel'' (Inr cmd)"
    using cmd by (simp add: parsed_as_def demo_server_def demo_request_def get_str_def)
  obtain st where b: "create_channel_begin demo_server (quiet_env 0) cmd (empty_db True) = (Inr 1, st)"
    by (simp add: create_channel_begin_def create_channel_def empty_db_def auto_empty_def insert_auto_def i64_max_def)
  have "server_step demo_server (server_start (empty_db True)) (empty_db True, ?ts)"
    unfolding server_start_def by (rule accept) simp
  moreover have "server_step demo_server (empty_db True, ?ts) (st, ?ts(0 := ChannelGap cmd 1))"
    by (rule channel_created [OF _ p b]) simp
  ultimately have "server_reach demo_server (empty_db True) (st, ?ts(0 := ChannelGap cmd 1))"
    unfolding server_reach_def by (metis converse_rtranclp_into_rtranclp r_into_rtranclp)
  moreover have "?ts(0 := ChannelGap cmd 1) = (\<lambda>_. Ended)(0 := ChannelGap cmd 1)" by simp
  ultimately show ?thesis by metis
qed

theorem server_invariant_all_interleavings_witness:
  "\<exists>st ts cmd. server_reach demo_server (empty_db True) (st, ts) \<and> ts 0 = ChannelGap cmd 1 \<and>
     db_ok st \<and> gap_ok st (ts 0)"
proof -
  obtain st cmd where r: "server_reach demo_server (empty_db True) (st, (\<lambda>_. Ended)(0 := ChannelGap cmd 1))"
    using demo_gap_reach by blast
  have "server_main None (Inr ()) (quiet_env 0) True (\<lambda>_. None) = Some (server_start (empty_db True))"
    by (simp add: server_main_def Store_open_def)
  from server_invariant_all_interleavings [OF this _ r [unfolded server_reach_def]]
  have "db_ok st \<and> gap_ok st (ChannelGap cmd 1)" by (metis fst_conv fun_upd_same option.distinct(1) snd_conv)
  with r show ?thesis by (intro exI [of _ st] exI [of _ "(\<lambda>_. Ended)(0 := ChannelGap cmd 1)"] exI [of _ cmd]) simp
qed

text \<open>Looking first and writing later is safe here: whatever other connections did in the gap, a
  join or subscription whose check passed goes through when the engine does not fail, and the user is
  a member or subscriber afterwards; so does the owner's own subscription to a new channel.\<close>

theorem checked_request_goes_through:
  assumes "server_reach sv st0 (st, ts)" and "db_ok st0" and "no_faults ev"
  shows "(\<forall>c cmd. ts c = JoinGap cmd \<longrightarrow>
            fst (join_group_commit sv ev cmd st) = ok_response None \<and>
            (jg_group_id cmd, jg_user_id cmd) \<in> member_key ` set (t_group_members (snd (join_group_commit sv ev cmd st)))) \<and>
         (\<forall>c cmd. ts c = SubscribeGap cmd \<longrightarrow>
            fst (subscribe_channel_commit sv ev cmd st) = ok_response None \<and>
            (sc_channel_id cmd, sc_user_id cmd)
              \<in> subscriber_key ` set (t_channel_subscribers (snd (subscribe_channel_commit sv ev cmd st)))) \<and>
         (\<forall>c cmd i. ts c = ChannelGap cmd i \<longrightarrow>
            (i, cc_owner_id cmd)
              \<in> subscriber_key ` set (t_channel_subscribers (snd (create_channel_commit ev cmd i st))))"
proof -
  have gaps: "gap_ok st (ts c)" for c
    using server_reach_ok [OF assms(1,2)] by (simp add: sys_ok_def)
  have add: "add_group_member ev g u st = (Inr (), st\<lparr>t_group_members :=
      insert_or_ignore member_key (member_row ''member'' (g, u)) (t_group_members st)\<rparr>)" if "g \<in> group_ids st" for g u
    using that assms(3) by (simp add: add_group_member_def)
  have sub: "subscribe_channel ev c u st = (Inr (), st\<lparr>t_channel_subscribers :=
      insert_or_ignore subscriber_key (subscriber_row_of (c, u)) (t_channel_subscribers st)\<rparr>)" if "c \<in> channel_ids st" for c u
    using that assms(3) by (simp add: subscribe_channel_def)
  show ?thesis
  proof (intro conjI allI impI)
    fix c cmd assume "ts c = JoinGap cmd"
    then have "jg_group_id cmd \<in> group_ids st" using gaps [of c] by simp
    then show "fst (join_group_commit sv ev cmd st) = ok_response None"
      and "(jg_group_id cmd, jg_user_id cmd) \<in> member_key ` set (t_group_members (snd (join_group_commit sv ev cmd st)))"
      using group_members.member_insert by (simp_all add: join_group_commit_def add)
  next
    fix c cmd assume "ts c = SubscribeGap cmd"
    then have "sc_channel_id cmd \<in> channel_ids st" using gaps [of c] by simp
    then show "fst (subscribe_channel_commit sv ev cmd st) = ok_response None"
      and "(sc_channel_id cmd, sc_user_id cmd)
        \<in> subscriber_key ` set (t_channel_subscribers (snd (subscribe_channel_commit sv ev cmd st)))"
      using subscribers.member_insert by (simp_all add: subscribe_channel_commit_def sub)
  next
    fix c cmd i assume "ts c = ChannelGap cmd i"
    then have "i \<in> channel_ids st" using gaps [of c] by simp
    then show "(i, cc_owner_id cmd) \<in> subscriber_key ` set (t_channel_subscribers (snd (create_channel_commit ev cmd i st)))"
      using subscribers.member_insert by (simp add: create_channel_commit_def sub)
  qed
qed

theorem checked_request_goes_through_witness:
  "\<exists>st ts cmd. server_reach demo_server (empty_db True) (st, ts) \<and> ts 0 = ChannelGap cmd 1 \<and>
     (1, cc_owner_id cmd)
       \<in> subscriber_key ` set (t_channel_subscribers (snd (create_channel_commit (quiet_env 0) cmd 1 st)))"
proof -
  obtain st cmd where r: "server_reach demo_server (empty_db True) (st, (\<lambda>_. Ended)(0 := ChannelGap cmd 1))"
    using demo_gap_reach by blast
  from checked_request_goes_through [OF this db_ok_empty quiet_env_simps(1), of 0]
  have "(1, cc_owner_id cmd)
      \<in> subscriber_key ` set (t_channel_subscribers (snd (create_channel_commit (quiet_env 0) cmd 1 st)))"
    by (metis fun_upd_same)
  with r show ?thesis by (intro exI [of _ st] exI [of _ "(\<lambda>_. Ended)(0 := ChannelGap cmd 1)"] exI [of _ cmd]) simp
qed

text \<open>Property C33. A poll once closed stays closed for good, and its votes never change again, whatever any
  connection requests and however the requests interleave.\<close>

theorem closed_poll_frozen:
  assumes "(server_step sv)\<^sup>*\<^sup>* (st, ts) (st', ts')" and "i \<in> closed_polls st"
  shows "i \<in> closed_polls st' \<and> votes_in i st' = votes_in i st"
  using server_steps_grow [OF assms(1)] assms(2) by (auto simp: grows_def)

definition demo_closed_db :: db where
  "demo_closed_db =
     (empty_db True)\<lparr>t_polls := \<lparr>auto_rows = [(poll_row_of (''alice'', ''lunch?'', ''today'') 1)\<lparr>p_active := 0\<rparr>], auto_seq = 1\<rparr>\<rparr>"

theorem closed_poll_frozen_witness:
  "\<exists>st' ts'. (server_step demo_server)\<^sup>*\<^sup>* (demo_closed_db, \<lambda>_. Ended) (st', ts') \<and> ts' 0 = Idle \<and>
     1 \<in> closed_polls st' \<and> votes_in 1 st' = []"
proof -
  have "server_step demo_server (demo_closed_db, \<lambda>_. Ended) (demo_closed_db, (\<lambda>_. Ended)(0 := Idle))"
    by (rule accept) simp
  then have run: "(server_step demo_server)\<^sup>*\<^sup>* (demo_closed_db, \<lambda>_. Ended) (demo_closed_db, (\<lambda>_. Ended)(0 := Idle))" ..
  have "1 \<in> closed_polls demo_closed_db"
    by (simp add: closed_polls_def find_poll_def lookup_key_def demo_closed_db_def)
  from closed_poll_frozen [OF run this] run show ?thesis
    by (intro exI [of _ demo_closed_db] exI [of _ "(\<lambda>_. Ended)(0 := Idle)"])
      (simp add: votes_in_def, simp add: demo_closed_db_def empty_db_def)
qed

text \<open>A connection served alone is one of these interleavings: the database at its end is reached
  from the one at its start by steps of its task, so the invariant covers \<open>handle_client\<close> too.\<close>

theorem connection_is_a_run:
  assumes "ts c = Idle"
  shows "(server_step sv)\<^sup>*\<^sup>* (st, ts) (snd (handle_client sv evs n reads st), ts)"
proof (induction sv evs n reads st rule: handle_client.induct)
  case (3 sv evs n line rest st)
  show ?case
  proof (cases "length line = 0 \<or> trim line = [] \<or> handle_command sv (evs n) (trim line) st = None")
    case True
    with 3 show ?thesis by (auto split: option.split)
  next
    case False
    then obtain r st' where h: "handle_command sv (evs n) (trim line) st = Some (r, st')" by auto
    have "(server_step sv)\<^sup>*\<^sup>* (st, ts) (st', ts)"
      using assms h by (rule command_run)
    also have "(server_step sv)\<^sup>*\<^sup>* (st', ts) (snd (handle_client sv evs (Suc n) rest st'), ts)"
      using 3(2) False h by auto
    finally show ?thesis
      using False h by (auto simp: split_beta Let_def split: sum.split)
  qed
qed simp_all

theorem connection_is_a_run_witness:
  "(server_step demo_server)\<^sup>*\<^sup>* (empty_db True, \<lambda>_. Idle)
     (snd (handle_client demo_server (\<lambda>_ _. quiet_env 0) 0 [Line ''register'', Line ''create_channel''] (empty_db True)), \<lambda>_. Idle)"
  by (rule connection_is_a_run) (rule refl)

section \<open>Requests\<close>

text \<open>Property C36. A command never panics, except the story listing in a build with overflow checks while the
  clock stands within 24 hours of the epoch.\<close>

theorem command_panics_only_on_early_clock:
  "handle_command sv evs line st = None \<longleftrightarrow>
     (\<exists>v. value_from_str sv line = Inr v \<and> get_str v ''cmd'' = Some ''get_stories'' \<and> ev_checks (evs 0) \<and>
        unat (word_of_nat (as_secs (ev_millis (evs 0) 0)) :: u64) < 86400)"
proof -
  have stories: "handle_get_stories sv (evs 0) v st = None \<longleftrightarrow>
      ev_checks (evs 0) \<and> unat (word_of_nat (as_secs (ev_millis (evs 0) 0)) :: u64) < 86400" for v
    by (simp add: handle_get_stories_def get_active_statuses_def sub_u64_def)
  have "dispatch sv evs c v st = None \<longleftrightarrow> c = ''get_stories'' \<and> handle_get_stories sv (evs 0) v st = None" for c v
    unfolding dispatch_def by (simp split: if_split)
  then show ?thesis
    by (auto simp: handle_command_def stories split: sum.split option.split)
qed

text \<open>A request that is not JSON, names no command or names one the server does not know is
  answered with an error and changes nothing.\<close>

theorem malformed_request_refused:
  assumes "\<forall>v c. value_from_str sv line = Inr v \<and> get_str v ''cmd'' = Some c \<longrightarrow>
             c \<notin> {''register'', ''fetch_keys'', ''send'', ''receive'', ''list_users'', ''create_group'', ''join_group'',
               ''leave_group'', ''my_groups'', ''group_members'', ''set_status'', ''set_presence'', ''clear_status'',
               ''get_stories'', ''create_channel'', ''subscribe_channel'', ''unsubscribe_channel'', ''list_channels'',
               ''my_channels'', ''channel_members'', ''create_poll'', ''vote_poll'', ''poll_results'', ''list_polls'',
               ''close_poll'', ''create_post'', ''get_timeline'', ''add_comment'', ''delete_post'', ''get_comments''}"
  shows "\<exists>msg. handle_command sv evs line st = Some (error_response msg, st)"
proof (cases "value_from_str sv line")
  case (Inl e)
  then show ?thesis unfolding handle_command_def by auto
next
  case (Inr v)
  show ?thesis
  proof (cases "get_str v ''cmd''")
    case None
    with Inr show ?thesis unfolding handle_command_def by auto
  next
    case (Some c)
    with assms Inr have "dispatch sv evs c v st = Some (error_response (''Unknown command: '' @ c), st)"
      unfolding dispatch_def by simp
    with Inr Some show ?thesis unfolding handle_command_def by auto
  qed
qed

theorem malformed_request_refused_witness:
  "\<exists>msg. handle_command demo_server (\<lambda>_. quiet_env 0) ''shutdown'' (empty_db True) = Some (error_response msg, empty_db True)"
  by (rule malformed_request_refused) (simp add: demo_server_def demo_request_def get_str_def)

definition requires_field :: "(json \<Rightarrow> string + 'c) \<Rightarrow> string \<Rightarrow> bool" where
  "requires_field decoder k \<longleftrightarrow> (\<forall>v. json_get v k = None \<longrightarrow> (\<exists>e. decoder v = Inl e))"

text \<open>Serde reports a missing field without a default as an error. The handler of \<open>my_channels\<close>
  decodes the struct of \<open>subscribe_channel\<close>, so a request with the user alone, which is what the command
  needs, is always refused.\<close>

theorem my_channels_needs_channel_id:
  assumes "requires_field (SubscribeChannelCmd_from_value (dec sv)) ''channel_id''"
    and "json_get v ''channel_id'' = None"
  shows "\<exists>e. handle_my_channels sv ev v st = (error_response (''Invalid payload: '' @ e), st)"
proof -
  obtain e where "SubscribeChannelCmd_from_value (dec sv) v = Inl e"
    using assms by (auto simp: requires_field_def)
  then show ?thesis by (intro exI [of _ e]) (simp add: handle_my_channels_def)
qed

theorem my_channels_needs_channel_id_witness:
  "\<exists>e. handle_my_channels demo_server (quiet_env 0) (JObject [(''cmd'', JString ''my_channels''), (''user_id'', JString ''bob'')])
     (empty_db True) = (error_response (''Invalid payload: '' @ e), empty_db True)"
  by (rule my_channels_needs_channel_id) (simp_all add: requires_field_def demo_server_def demo_decoders_def)

text \<open>Creating a channel answers with an id no channel had before, larger than every earlier one,
  under which the channel has the requested owner, who is its only subscriber.\<close>

theorem create_channel_fresh:
  assumes "db_ok st" and "no_faults (evs 0)" and "no_faults (evs 1)" and "no_faults ev"
    and "CreateChannelCmd_from_value (dec sv) v = Inr cmd" and "auto_seq (t_channels st) < i64_max"
  shows "\<exists>i st'. handle_create_channel sv evs v st = (ok_response (Some (JObject [(''channel_id'', JNumber i)])), st') \<and>
     (\<forall>j\<in>channel_ids st. j < i) \<and> channel_ids st' = insert i (channel_ids st) \<and>
     get_channel_owner ev i st' = (Inr (Some (cc_owner_id cmd)), st') \<and>
     list_channel_subscribers ev i st' = (Inr [cc_owner_id cmd], st')"
proof -
  let ?m = "(cc_name cmd, cc_owner_id cmd, ev_datetime (evs 0))"
  obtain i t where ins: "insert_auto (channel_row_of ?m) (t_channels st) = Some (i, t)"
    using assms(6) by (simp add: insert_auto_def)
  let ?st1 = "st\<lparr>t_channels := t\<rparr>"
  have c: "create_channel (evs 0) (cc_name cmd) (cc_owner_id cmd) st = (Inr i, ?st1)"
    using ins assms(2) by (simp add: create_channel_def)
  note cr = create_channel_Inr [OF c]
  have lt: "\<forall>j\<in>channel_ids st. j < i"
    using channels.ids_bound [OF db_ok_keysD(8) [OF assms(1)] ins] by (simp add: channel_ids_def)
  then have fresh: "i \<notin> channel_ids st" by blast
  then have look: "lookup_key ch_channel_id (auto_rows t) i = Some (channel_row_of ?m i)"
    using cr by (auto simp: channel_ids_def lookup_key_None [symmetric])
  have none: "filter (\<lambda>s. cs_channel_id s = i) (t_channel_subscribers st) = []"
    using fresh db_ok_refsD(2) [OF assms(1)] by (auto simp: filter_empty_conv)
  then have new: "(i, cc_owner_id cmd) \<notin> subscriber_key ` set (t_channel_subscribers st)"
    by (auto simp: subscriber_key_def filter_empty_conv)
  let ?st2 = "?st1\<lparr>t_channel_subscribers := t_channel_subscribers st @ [subscriber_row_of (i, cc_owner_id cmd)]\<rparr>"
  have s: "subscribe_channel (evs 1) i (cc_owner_id cmd) ?st1 = (Inr (), ?st2)"
    using assms(3) cr new by (simp add: subscribe_channel_def insert_or_ignore_def)
  have "handle_create_channel sv evs v st = (ok_response (Some (JObject [(''channel_id'', JNumber i)])), ?st2)"
    using assms(5) c s by (simp add: handle_create_channel_def create_channel_begin_def create_channel_commit_def)
  moreover have "channel_ids ?st2 = insert i (channel_ids st)"
    using cr by (simp add: channel_ids_def)
  moreover have "get_channel_owner ev i ?st2 = (Inr (Some (cc_owner_id cmd)), ?st2)"
    using assms(4) look by (simp add: get_channel_owner_def channel_row_of_def)
  moreover have "list_channel_subscribers ev i ?st2 = (Inr [cc_owner_id cmd], ?st2)"
    using assms(4) none by (simp add: list_channel_subscribers_def order_by_def subscriber_row_of_def)
  ultimately show ?thesis using lt by blast
qed

theorem create_channel_fresh_witness:
  "\<exists>i st'. handle_create_channel demo_server (\<lambda>_. quiet_env 0) (demo_request ''create_channel'') (empty_db True) =
       (ok_response (Some (JObject [(''channel_id'', JNumber i)])), st') \<and>
     list_channel_subscribers (quiet_env 0) i st' = (Inr [''alice''], st')"
proof -
  let ?cmd = "\<lparr>cc_cmd = ''create_channel'', cc_name = ''news'', cc_owner_id = ''alice''\<rparr>"
  have d: "CreateChannelCmd_from_value (dec demo_server) (demo_request ''create_channel'') = Inr ?cmd"
    by (simp add: demo_server_def demo_decoders_def demo_request_def demo_str_def get_str_def)
  have "auto_seq (t_channels (empty_db True)) < i64_max"
    by (simp add: empty_db_def auto_empty_def i64_max_def)
  from create_channel_fresh [OF db_ok_empty _ _ quiet_env_simps(1) d this, of "\<lambda>_. quiet_env 0" 0]
  show ?thesis by auto
qed

end
