(* ===== verification/Sdk_Manifest.thy ===== *)
theory Sdk_Manifest
  imports Json_Value
begin

text \<open>
  \<open>tintin-sdk/src/lib.rs\<close>: the mini-app manifest and its validation, the permission set and the sandbox
  configuration built from a manifest, and the bridge messages.
\<close>

section \<open>Manifest\<close>

record DeveloperInfo =
  di_name :: string
  di_website :: string

record MiniAppManifest =
  app_id :: string
  mf_name :: string
  mf_version :: string
  description :: string
  icon :: string
  entry :: string
  mf_permissions :: "string list"
  size_bytes :: u64
  developer :: "DeveloperInfo option"

definition default_entry :: string where
  "default_entry = ''index.html''"

section \<open>Permissions\<close>

definition PROFILE_READ :: string where "PROFILE_READ = ''user.profile.read''"
definition LOCATION :: string where "LOCATION = ''user.location''"
definition SEND_MESSAGE :: string where "SEND_MESSAGE = ''message.send''"
definition CAMERA :: string where "CAMERA = ''media.camera''"
definition GALLERY :: string where "GALLERY = ''media.gallery''"
definition NETWORK :: string where "NETWORK = ''network.request''"

lemmas permission_names = PROFILE_READ_def LOCATION_def SEND_MESSAGE_def CAMERA_def GALLERY_def NETWORK_def

record PermissionSet =
  granted :: "string set"

definition PermissionSet_new :: PermissionSet where
  "PermissionSet_new = \<lparr>granted = {}\<rparr>"

definition grant :: "string \<Rightarrow> PermissionSet \<Rightarrow> PermissionSet" where
  "grant perm ps = ps\<lparr>granted := insert perm (granted ps)\<rparr>"

definition check :: "PermissionSet \<Rightarrow> string \<Rightarrow> bool" where
  "check ps perm \<longleftrightarrow> perm \<in> granted ps"

definition PermissionSet_list :: "PermissionSet \<Rightarrow> string list" where
  "PermissionSet_list ps = sorted_list_of_set (granted ps)"

section \<open>Bridge messages\<close>

record JsBridgeRequest =
  jq_id :: string
  jq_method :: string
  jq_params :: json

record JsBridgeResponse =
  jr_id :: string
  jr_result :: json

record JsError =
  je_code :: "32 word"
  je_message :: string

record JsBridgeError =
  jb_id :: string
  jb_error :: JsError

datatype JsBridgeOutcome = Success JsBridgeResponse | Error JsBridgeError

record UserProfile =
  up_id :: string
  up_display_name :: string
  up_avatar_url :: string
  up_language :: string

section \<open>Sandbox\<close>

record SandboxConfig =
  app_dir :: string
  sc_permissions :: PermissionSet
  storage_quota :: u64
  allowed_domains :: "string list"

definition SandboxConfig_default :: SandboxConfig where
  "SandboxConfig_default =
     \<lparr>app_dir = [], sc_permissions = PermissionSet_new, storage_quota = 10 * 1024 * 1024, allowed_domains = []\<rparr>"

definition from_manifest :: "MiniAppManifest \<Rightarrow> string \<Rightarrow> SandboxConfig" where
  "from_manifest manifest dir =
     (let perms = fold grant (mf_permissions manifest) PermissionSet_new
      in SandboxConfig_default\<lparr>app_dir := dir, sc_permissions := perms\<rparr>)"

section \<open>Validation\<close>

datatype PackageError =
    InvalidManifest string
  | MissingEntry
  | IconTooLarge
  | PackageTooLarge
  | PermissionNotRecognized string

fun show_package_error :: "PackageError \<Rightarrow> string" where
  "show_package_error (InvalidManifest s) = ''invalid manifest: '' @ s"
| "show_package_error MissingEntry = ''entry file not found in package''"
| "show_package_error IconTooLarge = ''icon exceeds maximum size''"
| "show_package_error PackageTooLarge = ''package exceeds 5 MB limit''"
| "show_package_error (PermissionNotRecognized p) = ''unknown permission: '' @ p"

definition known_permissions :: "string list" where
  "known_permissions = [PROFILE_READ, LOCATION, SEND_MESSAGE, CAMERA, GALLERY, NETWORK]"

primrec check_permissions :: "string list \<Rightarrow> PackageError + unit" where
  "check_permissions [] = Inr ()"
| "check_permissions (p # ps) =
     (if p \<notin> set known_permissions then Inl (PermissionNotRecognized p) else check_permissions ps)"

definition validate_manifest :: "MiniAppManifest \<Rightarrow> PackageError + unit" where
  "validate_manifest m =
     (if app_id m = [] then Inl (InvalidManifest ''app_id is required'')
      else if mf_name m = [] then Inl (InvalidManifest ''name is required'')
      else if mf_version m = [] then Inl (InvalidManifest ''version is required'')
      else if icon m = [] then Inl (InvalidManifest ''icon is required'')
      else if entry m = [] then Inl (InvalidManifest ''entry is required'')
      else if 5 * 1024 * 1024 < size_bytes m then Inl PackageTooLarge
      else check_permissions (mf_permissions m))"

section \<open>Lemmas\<close>

lemma granted_fold_grant: "granted (fold grant ps s) = set ps \<union> granted s"
  by (induction ps arbitrary: s) (auto simp: grant_def)

lemma check_permissions_ok: "check_permissions ps = Inr () \<longleftrightarrow> set ps \<subseteq> set known_permissions"
  by (induction ps) auto

lemma check_permissions_split:
  "check_permissions ps = Inl (PermissionNotRecognized p) \<longleftrightarrow>
     (\<exists>as bs. ps = as @ p # bs \<and> set as \<subseteq> set known_permissions \<and> p \<notin> set known_permissions)"
proof (induction ps)
  case (Cons q ps)
  let ?at = "\<lambda>xs as bs. xs = as @ p # bs \<and> set as \<subseteq> set known_permissions \<and> p \<notin> set known_permissions"
  show ?case
  proof (cases "q \<in> set known_permissions")
    case True
    have "(\<exists>as bs. ?at (q # ps) as bs) \<longleftrightarrow> (\<exists>as bs. ?at ps as bs)"
    proof
      assume "\<exists>as bs. ?at (q # ps) as bs"
      then obtain as bs where at: "?at (q # ps) as bs" by blast
      with True obtain as' where "as = q # as'" by (cases as) auto
      with at have "?at ps as' bs" by simp
      then show "\<exists>as bs. ?at ps as bs" by blast
    next
      assume "\<exists>as bs. ?at ps as bs"
      then obtain as bs where "?at ps as bs" by blast
      with True have "?at (q # ps) (q # as) bs" by simp
      then show "\<exists>as bs. ?at (q # ps) as bs" by blast
    qed
    with True Cons show ?thesis by simp
  next
    case False
    then show ?thesis by (auto simp: Cons_eq_append_conv)
  qed
qed simp

text \<open>Property C40. A manifest is accepted exactly when its five required texts are there, its declared
  size is at most 5 MB and every permission it asks for is one of the six known ones; the sandbox built
  from it then grants exactly the permissions listed, all of them known, with the default quota of 10
  MB. Its list of allowed network domains is empty for every manifest: a manifest has no field for
  domains, although the documentation says that they are whitelisted there.\<close>

theorem manifest_acceptance:
  "(validate_manifest m = Inr () \<longleftrightarrow>
      app_id m \<noteq> [] \<and> mf_name m \<noteq> [] \<and> mf_version m \<noteq> [] \<and> icon m \<noteq> [] \<and> entry m \<noteq> [] \<and>
      unat (size_bytes m) \<le> 5242880 \<and> set (mf_permissions m) \<subseteq> set known_permissions) \<and>
   (\<forall>p. check (sc_permissions (from_manifest m d)) p = (p \<in> set (mf_permissions m))) \<and>
   unat (storage_quota (from_manifest m d)) = 10485760 \<and> allowed_domains (from_manifest m d) = [] \<and>
   app_dir (from_manifest m d) = d"
proof -
  have "(5242880 < size_bytes m) = (5242880 < unat (size_bytes m))"
    by (simp add: word_less_nat_alt)
  then show ?thesis
    by (auto simp: validate_manifest_def check_permissions_ok from_manifest_def check_def
        granted_fold_grant PermissionSet_new_def SandboxConfig_default_def)
qed

text \<open>The permission that validation rejects is the first unknown one of the list, and it is
  reported only for a manifest whose other fields are in order.\<close>

theorem manifest_first_unknown_permission:
  "validate_manifest m = Inl (PermissionNotRecognized p) \<longleftrightarrow>
     app_id m \<noteq> [] \<and> mf_name m \<noteq> [] \<and> mf_version m \<noteq> [] \<and> icon m \<noteq> [] \<and> entry m \<noteq> [] \<and>
     unat (size_bytes m) \<le> 5242880 \<and>
     (\<exists>as bs. mf_permissions m = as @ p # bs \<and> set as \<subseteq> set known_permissions \<and> p \<notin> set known_permissions)"
proof -
  have size: "(5242880 < size_bytes m) = (5242880 < unat (size_bytes m))"
    by (simp add: word_less_nat_alt)
  show ?thesis
    by (simp add: validate_manifest_def check_permissions_split size not_less)
qed

text \<open>Granting the permissions of a list one after another gives a set whose sorted listing
  has no duplicates, holds exactly the list's permissions and does not depend on their order.\<close>

theorem permission_list_canonical:
  "sorted (PermissionSet_list (fold grant ps PermissionSet_new)) \<and>
   distinct (PermissionSet_list (fold grant ps PermissionSet_new)) \<and>
   set (PermissionSet_list (fold grant ps PermissionSet_new)) = set ps \<and>
   PermissionSet_list (fold grant (rev ps) PermissionSet_new) = PermissionSet_list (fold grant ps PermissionSet_new)"
  by (simp add: PermissionSet_list_def granted_fold_grant PermissionSet_new_def)

end
