(* ===== verification/Cli_State.thy ===== *)
theory Cli_State
  imports Core_Session
begin

text \<open>
  The state of the terminal client, \<open>tintin-cli/src/main.rs\<close>: the client's records, its files under
  \<open>~/.tintin\<close> and the chat log. The file system is a map from paths to texts. Console output is not
  modelled. The socket halves of \<open>TinTinClient\<close> are not state of the model: a request and its answer
  are one call of the network function of \<open>Cli_Messaging\<close>.
\<close>

section \<open>Data\<close>

datatype CallState = Offering | Ringing | Connected

record ActiveCall =
  ca_peer :: string
  ca_call_id :: string
  ca_media_key_pair :: KeyPair
  ca_peer_media_key :: "bytes option"
  ca_shared_media_secret :: "bytes option"
  ca_state :: CallState

datatype MessageStatus = Sent | Delivered | ReadStatus

record SentMessage =
  sm_recipient :: string
  sm_text :: string
  sm_timestamp :: u64
  sm_status :: MessageStatus
  sm_edited :: bool

datatype MessageDirection = Outgoing | Incoming

record MessageRecord =
  mr_peer :: string
  mr_text :: string
  mr_timestamp :: u64
  mr_direction :: MessageDirection
  mr_is_group :: bool
  mr_group_name :: "string option"
  mr_is_channel :: bool
  mr_channel_name :: "string option"
  mr_edited :: bool

text \<open>A \<open>HashMap\<close> is a list of its entries with one entry per key.\<close>

record PendingFile =
  pf_file_name :: string
  pf_file_size :: nat
  pf_total_chunks :: nat
  pf_received_chunks :: "(nat \<times> bytes) list"

record GroupInfo =
  gi_group_id :: string
  gi_name :: string
  gi_creator :: string
  gi_role :: string

record TinTinClient =
  c_user_id :: string
  c_identity :: IdentityKeyPair
  c_signed_pre_key :: SignedPreKey
  c_sessions :: SessionStore
  c_sent_messages :: "SentMessage list"
  c_groups :: "(string \<times> GroupInfo) list"
  c_chat_log :: "MessageRecord list"
  c_pending_files :: "(string \<times> PendingFile) list"
  c_channels :: "(i64 \<times> string) list"
  c_active_call :: "ActiveCall option"

section \<open>Files\<close>

type_synonym files = "string \<Rightarrow> string option"

text \<open>
  The file system calls and the serializers of the persisted data. \<open>fs_write path text old\<close> is what the
  file holds after \<open>std::fs::write\<close>; a write that succeeded leaves \<open>Some text\<close>. \<open>alloc_ok n\<close> is that the
  allocator grants a buffer of \<open>n\<close> bytes; it is asked for the one buffer whose size a peer chooses.
\<close>

record storage =
  fs_home :: string
  fs_write :: "string \<Rightarrow> string \<Rightarrow> string option \<Rightarrow> string option"
  alloc_ok :: "nat \<Rightarrow> bool"
  history_to_string :: "SentMessage list \<Rightarrow> string + string"
  history_from_str :: "string \<Rightarrow> string + SentMessage list"
  groups_to_string :: "(string \<times> GroupInfo) list \<Rightarrow> string + string"
  groups_from_str :: "string \<Rightarrow> string + (string \<times> GroupInfo) list"
  channels_to_string :: "(i64 \<times> string) list \<Rightarrow> string + string"
  channels_from_str :: "string \<Rightarrow> string + (i64 \<times> string) list"
  chat_log_to_string :: "MessageRecord list \<Rightarrow> string + string"
  chat_log_from_str :: "string \<Rightarrow> string + MessageRecord list"

text \<open>\<open>Path::join\<close> on Unix: an absolute second part replaces the first.\<close>

definition path_join :: "string \<Rightarrow> string \<Rightarrow> string" where
  "path_join dir f =
     (if starts_with ''/'' f then f
      else if dir = [] \<or> last dir = CHR ''/'' then dir @ f else dir @ ''/'' @ f)"

definition tintin_dir :: "storage \<Rightarrow> string" where
  "tintin_dir fs = path_join (fs_home fs) ''.tintin''"

definition history_path :: "storage \<Rightarrow> TinTinClient \<Rightarrow> string" where
  "history_path fs c = path_join (tintin_dir fs) (c_user_id c @ ''.json'')"

definition groups_path :: "storage \<Rightarrow> TinTinClient \<Rightarrow> string" where
  "groups_path fs c = path_join (tintin_dir fs) (c_user_id c @ ''_groups.json'')"

definition channels_path :: "storage \<Rightarrow> TinTinClient \<Rightarrow> string" where
  "channels_path fs c = path_join (tintin_dir fs) (c_user_id c @ ''_channels.json'')"

definition chat_log_path :: "storage \<Rightarrow> TinTinClient \<Rightarrow> string" where
  "chat_log_path fs c = path_join (tintin_dir fs) (c_user_id c @ ''_chatlog.json'')"

definition write_file :: "storage \<Rightarrow> string \<Rightarrow> string \<Rightarrow> files \<Rightarrow> files" where
  "write_file fs path text files = files(path := fs_write fs path text (files path))"

text \<open>Serialize and write; a value that does not serialize is not written.\<close>

definition save_to :: "storage \<Rightarrow> string \<Rightarrow> string + string \<Rightarrow> files \<Rightarrow> files" where
  "save_to fs path r files = (case r of Inl e \<Rightarrow> files | Inr json \<Rightarrow> write_file fs path json files)"

definition save_history :: "storage \<Rightarrow> TinTinClient \<Rightarrow> files \<Rightarrow> files" where
  "save_history fs c files = save_to fs (history_path fs c) (history_to_string fs (c_sent_messages c)) files"

definition save_groups :: "storage \<Rightarrow> TinTinClient \<Rightarrow> files \<Rightarrow> files" where
  "save_groups fs c files = save_to fs (groups_path fs c) (groups_to_string fs (c_groups c)) files"

definition save_channels :: "storage \<Rightarrow> TinTinClient \<Rightarrow> files \<Rightarrow> files" where
  "save_channels fs c files = save_to fs (channels_path fs c) (channels_to_string fs (c_channels c)) files"

definition save_chat_log :: "storage \<Rightarrow> TinTinClient \<Rightarrow> files \<Rightarrow> files" where
  "save_chat_log fs c files = save_to fs (chat_log_path fs c) (chat_log_to_string fs (c_chat_log c)) files"

definition save_all :: "storage \<Rightarrow> TinTinClient \<Rightarrow> files \<Rightarrow> files" where
  "save_all fs c files =
     save_chat_log fs c (save_channels fs c (save_groups fs c (save_history fs c files)))"

text \<open>A file that is missing or does not parse leaves the field as it is.\<close>

definition load_from :: "string \<Rightarrow> (string \<Rightarrow> string + 'a) \<Rightarrow> files \<Rightarrow> 'a \<Rightarrow> 'a" where
  "load_from path parse files old =
     (case files path of None \<Rightarrow> old
      | Some json \<Rightarrow> (case parse json of Inl e \<Rightarrow> old | Inr x \<Rightarrow> x))"

definition load_history :: "storage \<Rightarrow> files \<Rightarrow> TinTinClient \<Rightarrow> TinTinClient" where
  "load_history fs files c =
     c\<lparr>c_sent_messages := load_from (history_path fs c) (history_from_str fs) files (c_sent_messages c)\<rparr>"

definition load_groups :: "storage \<Rightarrow> files \<Rightarrow> TinTinClient \<Rightarrow> TinTinClient" where
  "load_groups fs files c =
     c\<lparr>c_groups := load_from (groups_path fs c) (groups_from_str fs) files (c_groups c)\<rparr>"

definition load_channels :: "storage \<Rightarrow> files \<Rightarrow> TinTinClient \<Rightarrow> TinTinClient" where
  "load_channels fs files c =
     c\<lparr>c_channels := load_from (channels_path fs c) (channels_from_str fs) files (c_channels c)\<rparr>"

definition load_chat_log :: "storage \<Rightarrow> files \<Rightarrow> TinTinClient \<Rightarrow> TinTinClient" where
  "load_chat_log fs files c =
     c\<lparr>c_chat_log := load_from (chat_log_path fs c) (chat_log_from_str fs) files (c_chat_log c)\<rparr>"

text \<open>\<open>rng_id\<close> and \<open>rng_spk\<close> are the secrets drawn for the two key pairs.\<close>

definition TinTinClient_new :: "prims \<Rightarrow> storage \<Rightarrow> bytes \<Rightarrow> bytes \<Rightarrow> files \<Rightarrow> string \<Rightarrow> TinTinClient" where
  "TinTinClient_new pr fs rng_id rng_spk files user_id =
     (let identity = IdentityKeyPair_generate pr rng_id;
          signed_pre_key = SignedPreKey_generate pr rng_spk 1 identity;
          client = \<lparr>c_user_id = user_id, c_identity = identity, c_signed_pre_key = signed_pre_key,
                    c_sessions = SessionStore_new, c_sent_messages = [], c_groups = [], c_chat_log = [],
                    c_pending_files = [], c_channels = [], c_active_call = None\<rparr>
      in load_chat_log fs files (load_channels fs files (load_groups fs files (load_history fs files client))))"

definition record_message ::
  "storage \<Rightarrow> nat \<Rightarrow> string \<Rightarrow> string \<Rightarrow> bool \<Rightarrow> bool \<Rightarrow> string option \<Rightarrow> bool \<Rightarrow> string option \<Rightarrow>
   TinTinClient \<times> files \<Rightarrow> TinTinClient \<times> files" where
  "record_message fs now peer text outgoing is_group group_name is_channel channel_name cf =
     (case cf of (c, files) \<Rightarrow>
       (let c' = c\<lparr>c_chat_log := c_chat_log c @
              [\<lparr>mr_peer = peer, mr_text = text, mr_timestamp = word_of_nat now,
                mr_direction = (if outgoing then Outgoing else Incoming), mr_is_group = is_group,
                mr_group_name = group_name, mr_is_channel = is_channel, mr_channel_name = channel_name,
                mr_edited = False\<rparr>]\<rparr>
        in (c', save_chat_log fs c' files)))"

section \<open>Text of bytes\<close>

definition as_bytes :: "string \<Rightarrow> bytes" where
  "as_bytes s = map (\<lambda>c. word_of_nat (of_char c)) s"

definition in_range :: "nat \<Rightarrow> nat \<Rightarrow> nat \<Rightarrow> bool" where
  "in_range lo hi b \<longleftrightarrow> lo \<le> b \<and> b \<le> hi"

text \<open>The byte at a position, 0 past the end, as the standard library's UTF-8 scanner reads it.\<close>

definition byte_at :: "bytes \<Rightarrow> nat \<Rightarrow> nat" where
  "byte_at bs i = (if i < length bs then unat (bs ! i) else 0)"

text \<open>The second byte a three- or four-byte sequence may have after its first.\<close>

definition second_ok :: "nat \<Rightarrow> nat \<Rightarrow> bool" where
  "second_ok b1 b2 \<longleftrightarrow>
     (if b1 = 0xE0 then in_range 0xA0 0xBF b2 else if b1 = 0xED then in_range 0x80 0x9F b2
      else if b1 = 0xF0 then in_range 0x90 0xBF b2 else if b1 = 0xF4 then in_range 0x80 0x8F b2
      else in_range 0x80 0xBF b2)"

text \<open>Whether the text starts with a valid character, and how many bytes it or the broken part takes.\<close>

definition utf8_step :: "bytes \<Rightarrow> bool \<times> nat" where
  "utf8_step bs =
     (let b1 = byte_at bs 0; b2 = byte_at bs 1; b3 = byte_at bs 2; b4 = byte_at bs 3; cont = in_range 0x80 0xBF
      in if b1 < 0x80 then (True, 1)
         else if in_range 0xC2 0xDF b1 then (if cont b2 then (True, 2) else (False, 1))
         else if in_range 0xE0 0xEF b1 then
           (if \<not> second_ok b1 b2 then (False, 1) else if \<not> cont b3 then (False, 2) else (True, 3))
         else if in_range 0xF0 0xF4 b1 then
           (if \<not> second_ok b1 b2 then (False, 1) else if \<not> cont b3 then (False, 2)
            else if \<not> cont b4 then (False, 3) else (True, 4))
         else (False, 1))"

lemma utf8_step_pos: "0 < snd (utf8_step bs)"
  by (simp add: utf8_step_def Let_def)

text \<open>\<open>String::from_utf8_lossy\<close>: each broken part becomes one U+FFFD.\<close>

function from_utf8_lossy :: "bytes \<Rightarrow> string" where
  "from_utf8_lossy [] = []"
| "from_utf8_lossy (b # bs) =
     (let (ok, n) = utf8_step (b # bs)
      in (if ok then map (\<lambda>x. char_of (unat x)) (take n (b # bs)) else [CHR 0xEF, CHR 0xBF, CHR 0xBD]) @
         from_utf8_lossy (drop n (b # bs)))"
  by pat_completeness auto
termination
proof (relation "measure length", goal_cases)
  case (2 b bs x ok n)
  then have "0 < n"
    using utf8_step_pos [of "b # bs"] by (metis snd_conv)
  then show ?case by simp
qed simp

section \<open>Lemmas\<close>

lemma path_join_inject: "starts_with ''/'' a = starts_with ''/'' b \<Longrightarrow> path_join d a = path_join d b \<longleftrightarrow> a = b"
  by (auto simp: path_join_def)

lemma starts_slash_append: "x \<noteq> [] \<Longrightarrow> starts_with ''/'' (x @ y) = starts_with ''/'' x"
  by (cases x) (auto simp: starts_with_def)

lemma starts_slash_suffix [simp]:
  "starts_with ''/'' (u @ ''.json'') = starts_with ''/'' (u @ ''_groups.json'')"
  "starts_with ''/'' (u @ ''_channels.json'') = starts_with ''/'' (u @ ''_groups.json'')"
  "starts_with ''/'' (u @ ''_chatlog.json'') = starts_with ''/'' (u @ ''_groups.json'')"
  by (cases u; simp add: starts_with_def)+

lemma paths_distinct:
  "distinct [history_path fs c, groups_path fs c, channels_path fs c, chat_log_path fs c]"
  by (simp add: history_path_def groups_path_def channels_path_def chat_log_path_def path_join_inject)

end
