(* ===== verification/Cli_Signals.thy ===== *)
theory Cli_Signals
  imports Cli_State
begin

text \<open>
  What the client does with a decrypted payload: call signals, file chunks and the chat log entry, and
  the contact URIs. The JSON parser, \<open>hex\<close> and \<open>base64\<close> are parameters.
\<close>

record codecs =
  value_from_slice :: "bytes \<Rightarrow> string + json"
  hex_decode_vec :: "string \<Rightarrow> string + bytes"
  base64_encode :: "bytes \<Rightarrow> string"
  base64_decode :: "string \<Rightarrow> string + bytes"

text \<open>\<open>payload["k"].as_str().unwrap_or(d)\<close> and \<open>payload["k"].as_u64().unwrap_or(0)\<close>.\<close>

definition str_or :: "json \<Rightarrow> string \<Rightarrow> string \<Rightarrow> string" where
  "str_or v k d = unwrap_or (as_str (json_index v k)) d"

definition u64_or_0 :: "json \<Rightarrow> string \<Rightarrow> nat" where
  "u64_or_0 v k = unwrap_or (as_u64 (json_index v k)) 0"

section \<open>Calls\<close>

text \<open>\<open>hex::decode(s).ok()\<close> followed by the conversion to \<open>[u8; 32]\<close>.\<close>

definition media_key_of :: "codecs \<Rightarrow> json \<Rightarrow> bytes option" where
  "media_key_of cd payload =
     (case hex_decode_vec cd (str_or payload ''media_key_pub'' []) of
        Inl e \<Rightarrow> None
      | Inr b \<Rightarrow> if length b = 32 then Some b else None)"

text \<open>\<open>agree(..).ok()\<close>.\<close>

definition agree_ok :: "prims \<Rightarrow> KeyPair \<Rightarrow> bytes \<Rightarrow> bytes option" where
  "agree_ok pr kp their = (case agree pr kp their of Inl e \<Rightarrow> None | Inr s \<Rightarrow> Some s)"

definition process_call_signal ::
  "prims \<Rightarrow> codecs \<Rightarrow> bytes \<Rightarrow> string \<Rightarrow> bytes \<Rightarrow> TinTinClient \<Rightarrow> bool \<times> TinTinClient" where
  "process_call_signal pr cd rng sender plaintext c =
     (case value_from_slice cd plaintext of
        Inl e \<Rightarrow> (False, c)
      | Inr payload \<Rightarrow>
          (case get_str payload ''__tintin_type'' of
             None \<Rightarrow> (False, c)
           | Some tt \<Rightarrow>
               if tt = ''call_offer'' then
                 (True, c\<lparr>c_active_call := Some
                    \<lparr>ca_peer = sender, ca_call_id = str_or payload ''call_id'' ''?'',
                     ca_media_key_pair = KeyPair_generate pr rng, ca_peer_media_key = media_key_of cd payload,
                     ca_shared_media_secret = None, ca_state = Ringing\<rparr>\<rparr>)
               else if tt = ''call_accept'' then
                 (True,
                  case c_active_call c of
                    None \<Rightarrow> c
                  | Some call \<Rightarrow>
                      if ca_state call = Offering \<or> ca_state call = Ringing then
                        (case media_key_of cd payload of
                           None \<Rightarrow> c
                         | Some peer_pk \<Rightarrow>
                             c\<lparr>c_active_call := Some (call\<lparr>ca_peer_media_key := Some peer_pk,
                                 ca_shared_media_secret := agree_ok pr (ca_media_key_pair call) peer_pk,
                                 ca_state := Connected\<rparr>)\<rparr>)
                      else c)
               else if tt = ''call_end'' then (True, c\<lparr>c_active_call := None\<rparr>)
               else (False, c)))"

section \<open>Files\<close>

definition downloads_dir :: "storage \<Rightarrow> string" where
  "downloads_dir fs = path_join (tintin_dir fs) ''downloads''"

text \<open>The loop that removes the chunks in order and appends them.\<close>

definition assemble :: "PendingFile \<Rightarrow> bytes" where
  "assemble pf =
     concat (map (\<lambda>i. case map_of (pf_received_chunks pf) i of None \<Rightarrow> [] | Some d \<Rightarrow> d) [0..<pf_total_chunks pf])"

text \<open>
  \<open>None\<close> ends the program: the percentage of a file announced with no chunks divides by zero, and
  \<open>Vec::with_capacity\<close> of the announced size panics above \<open>isize::MAX\<close> and aborts below it if the
  allocator refuses; a capacity of zero allocates nothing. \<open>usize\<close> has 64 bits.
\<close>

definition with_capacity_ok :: "storage \<Rightarrow> nat \<Rightarrow> bool" where
  "with_capacity_ok fs n \<longleftrightarrow> n = 0 \<or> n < 2 ^ 63 \<and> alloc_ok fs n"

definition process_file_chunk ::
  "codecs \<Rightarrow> storage \<Rightarrow> string \<Rightarrow> bytes \<Rightarrow> TinTinClient \<times> files \<Rightarrow> (bool \<times> TinTinClient \<times> files) option" where
  "process_file_chunk cd fs sender plaintext cf =
     (case cf of (c, files) \<Rightarrow>
      (case value_from_slice cd plaintext of
         Inl e \<Rightarrow> Some (False, c, files)
       | Inr payload \<Rightarrow>
           (let chunk_type = get_str payload ''__tintin_type''
            in if chunk_type \<noteq> Some ''file'' \<and> chunk_type \<noteq> Some ''voice'' then Some (False, c, files)
               else
                 (let file_id = str_or payload ''file_id'' [];
                      file_name = str_or payload ''file_name'' ''unknown'';
                      file_size = u64_or_0 payload ''file_size'';
                      total_chunks = u64_or_0 payload ''total_chunks'';
                      chunk_index = u64_or_0 payload ''chunk_index''
                  in (case base64_decode cd (str_or payload ''data'' []) of
                        Inl e \<Rightarrow> Some (True, c, files)
                      | Inr chunk_data \<Rightarrow>
                          (let entry = unwrap_or (map_of (c_pending_files c) file_id)
                                 \<lparr>pf_file_name = file_name, pf_file_size = file_size,
                                  pf_total_chunks = total_chunks, pf_received_chunks = []\<rparr>;
                               pending = entry\<lparr>pf_received_chunks :=
                                  insert_or_replace fst (chunk_index, chunk_data) (pf_received_chunks entry)\<rparr>;
                               c' = c\<lparr>c_pending_files := insert_or_replace fst (file_id, pending) (c_pending_files c)\<rparr>
                           in if length (pf_received_chunks pending) = pf_total_chunks pending then
                                if \<not> with_capacity_ok fs (pf_file_size pending) then None
                                else
                                  (let out_path = path_join (downloads_dir fs) (pf_file_name pending);
                                       files' = write_file fs out_path (map (\<lambda>x. char_of (unat x)) (assemble pending)) files
                                   in Some (True,
                                        c'\<lparr>c_pending_files := delete_where (\<lambda>x. fst x = file_id) (c_pending_files c')\<rparr>,
                                        files'))
                              else if pf_total_chunks pending = 0 then None
                              else Some (True, c', files)))))))"

text \<open>The sending side, from \<open>send_file_inner\<close>: the chunks of the file and the payload of each.\<close>

definition CHUNK_SIZE :: nat where
  "CHUNK_SIZE = 256 * 1024"

text \<open>\<open>slice::chunks(n)\<close>.\<close>

function chunks :: "nat \<Rightarrow> 'a list \<Rightarrow> 'a list list" where
  "chunks n xs = (if n = 0 \<or> xs = [] then [] else take n xs # chunks n (drop n xs))"
  by pat_completeness auto
termination
  by (relation "measure (\<lambda>(n, xs). length xs)") auto

declare chunks.simps [simp del]

definition total_chunks_of :: "bytes \<Rightarrow> nat" where
  "total_chunks_of file_data =
     (if file_data = [] then 1 else (length file_data + CHUNK_SIZE - 1) div CHUNK_SIZE)"

definition chunk_payload ::
  "codecs \<Rightarrow> string \<Rightarrow> string \<Rightarrow> string \<Rightarrow> bytes \<Rightarrow> bool \<Rightarrow> string \<Rightarrow> nat \<Rightarrow> bytes \<Rightarrow> json" where
  "chunk_payload cd msg_type file_id file_name file_data is_image thumbnail_b64 i chunk =
     JObject ([(''__tintin_type'', JString msg_type), (''file_id'', JString file_id),
               (''file_name'', JString file_name), (''file_size'', JNumber (int (length file_data))),
               (''total_chunks'', JNumber (int (total_chunks_of file_data))), (''chunk_index'', JNumber (int i)),
               (''data'', JString (base64_encode cd chunk)),
               (''is_image'', JBool (is_image \<and> thumbnail_b64 \<noteq> [])),
               (''original_width'', JNumber 0), (''original_height'', JNumber 0)] @
              (if i = 0 \<and> thumbnail_b64 \<noteq> [] then [(''thumbnail'', JString thumbnail_b64)] else []))"

definition file_payloads ::
  "codecs \<Rightarrow> string \<Rightarrow> string \<Rightarrow> string \<Rightarrow> bytes \<Rightarrow> bool \<Rightarrow> string \<Rightarrow> json list" where
  "file_payloads cd msg_type file_id file_name file_data is_image thumbnail_b64 =
     (let cs = chunks CHUNK_SIZE file_data
      in map (\<lambda>i. chunk_payload cd msg_type file_id file_name file_data is_image thumbnail_b64 i (cs ! i)) [0..<length cs])"

section \<open>Chat log\<close>

text \<open>The text and the group and channel tags of the log entry for a payload.\<close>

definition log_fields ::
  "codecs \<Rightarrow> bytes \<Rightarrow> string \<times> bool \<times> string option \<times> bool \<times> string option" where
  "log_fields cd plaintext =
     (let plain = (from_utf8_lossy plaintext, False, None, False, None)
      in case value_from_slice cd plaintext of
           Inl e \<Rightarrow> plain
         | Inr payload \<Rightarrow>
             (case get_str payload ''__tintin_type'' of
                None \<Rightarrow> plain
              | Some tt \<Rightarrow>
                  if tt = ''group'' then
                    (str_or payload ''text'' [], True, Some (str_or payload ''group_name'' ''Group''), False, None)
                  else if tt = ''channel'' then
                    (str_or payload ''text'' [], False, None, True, Some (str_or payload ''channel_name'' ''Channel''))
                  else if tt = ''poll'' then
                    (''[Poll] '' @ str_or payload ''question'' ''Poll'', False, None, False, None)
                  else if tt = ''sticker'' then
                    (''[Sticker] '' @ str_or payload ''emoji''
                       [CHR 0xF0, CHR 0x9F, CHR 0x96, CHR 0xBC, CHR 0xEF, CHR 0xB8, CHR 0x8F], False, None, False, None)
                  else if tt = ''call_offer'' \<or> tt = ''call_accept'' \<or> tt = ''call_end'' then
                    (''[Call signal]'', False, None, False, None)
                  else plain))"

definition record_decrypted ::
  "codecs \<Rightarrow> storage \<Rightarrow> nat \<Rightarrow> string \<Rightarrow> bytes \<Rightarrow> TinTinClient \<times> files \<Rightarrow> TinTinClient \<times> files" where
  "record_decrypted cd fs now sender plaintext cf =
     (case log_fields cd plaintext of (text, is_group, group_name, is_channel, channel_name) \<Rightarrow>
        record_message fs now sender text False is_group group_name is_channel channel_name cf)"

section \<open>Contact URIs\<close>

definition contact_uri :: "prims \<Rightarrow> TinTinClient \<Rightarrow> string" where
  "contact_uri pr c =
     ''tintin://add-contact?user_id='' @ c_user_id c @ ''&key='' @ hex_encode pr (public_key (c_identity c))"

text \<open>\<open>str::split(sep)\<close>: the parts between the separators, one more than there are separators.\<close>

fun split_on :: "char \<Rightarrow> string \<Rightarrow> string list" where
  "split_on sep [] = [[]]"
| "split_on sep (x # xs) =
     (if x = sep then [] # split_on sep xs
      else case split_on sep xs of [] \<Rightarrow> [[x]] | p # ps \<Rightarrow> (x # p) # ps)"

text \<open>\<open>splitn(2, '=')\<close> and its two \<open>next()?\<close>.\<close>

definition split_pair :: "string \<Rightarrow> (string \<times> string) option" where
  "split_pair s =
     (case dropWhile (\<lambda>c. c \<noteq> CHR ''='') s of [] \<Rightarrow> None
      | _ # v \<Rightarrow> Some (takeWhile (\<lambda>c. c \<noteq> CHR ''='') s, v))"

primrec scan_pairs :: "string list \<Rightarrow> string option \<times> string option \<Rightarrow> (string option \<times> string option) option" where
  "scan_pairs [] acc = Some acc"
| "scan_pairs (pair # pairs) acc =
     (case split_pair pair of
        None \<Rightarrow> None
      | Some (name, v) \<Rightarrow>
          scan_pairs pairs
            (if name = ''user_id'' then (Some v, snd acc) else if name = ''key'' then (fst acc, Some v) else acc))"

definition parse_contact_uri :: "string \<Rightarrow> (string \<times> string) option" where
  "parse_contact_uri uri =
     (let prefix = ''tintin://add-contact?''
      in if \<not> starts_with prefix uri then None
         else do {
           acc \<leftarrow> scan_pairs (split_on (CHR ''&'') (drop (length prefix) uri)) (None, None);
           user_id \<leftarrow> fst acc;
           key \<leftarrow> snd acc;
           Some (user_id, key)
         })"

end
