(* ===== verification/Cli_Messaging.thy ===== *)
theory Cli_Messaging
  imports Cli_Signals
begin

text \<open>
  Sending from the client, \<open>tintin-cli/src/main.rs\<close>: registration, key lookup, the encrypted send with
  its session set-up, read receipts, and the three call operations built on sending. A request and its
  answer over the socket (\<open>send_json\<close>, \<open>recv_json\<close>) is the network function, a parameter that maps the
  request and the outside world to the answer or the error text and the world after it.
\<close>

type_synonym 'w net = "json \<Rightarrow> 'w \<Rightarrow> (string + json) \<times> 'w"

record client_env =
  ce_prims :: prims
  ce_wire :: wire
  ce_codecs :: codecs
  ce_storage :: storage
  bundle_to_value :: "PreKeyBundle \<Rightarrow> json"
  bundle_from_value :: "json \<Rightarrow> string + PreKeyBundle"
  prekey_to_vec :: "PreKeyBundleMessage \<Rightarrow> string + bytes"
  value_to_string :: "json \<Rightarrow> string + string"
  show_value :: "json \<Rightarrow> string"
  envelope_from_value :: "json \<Rightarrow> string + Envelope"
  prekey_from_slice :: "bytes \<Rightarrow> string + PreKeyBundleMessage"
  group_info_from_value :: "json \<Rightarrow> string + GroupInfo"
  unicode_alphanumeric :: "string \<Rightarrow> bool"

text \<open>What one operation draws: secrets for new key pairs, the cipher's nonce and clock readings.\<close>

record draws =
  dr_rng :: "nat \<Rightarrow> bytes"
  dr_nonce :: bytes
  dr_millis :: "nat \<Rightarrow> nat"

type_synonym 'w cstate = "TinTinClient \<times> files \<times> 'w"

definition resp_ok :: "json \<Rightarrow> bool" where
  "resp_ok resp \<longleftrightarrow> json_index resp ''status'' = JString ''ok''"

section \<open>Registration and key lookup\<close>

definition own_bundle :: "TinTinClient \<Rightarrow> PreKeyBundle" where
  "own_bundle c =
     \<lparr>pkb_identity_key = public_key (c_identity c), pkb_device_id = 1,
      pkb_signed_pre_key_id = spk_id (c_signed_pre_key c),
      pkb_signed_pre_key = kp_public (spk_key_pair (c_signed_pre_key c)),
      pkb_signed_pre_key_signature = spk_signature (c_signed_pre_key c),
      pkb_one_time_pre_key_id = None, pkb_one_time_pre_key = None\<rparr>"

definition register :: "client_env \<Rightarrow> 'w net \<Rightarrow> TinTinClient \<Rightarrow> 'w \<Rightarrow> (string + unit) \<times> 'w" where
  "register ce net c w =
     (let request = JObject [(''cmd'', JString ''register''), (''user_id'', JString (c_user_id c)),
                             (''identity_key'', bytes_json (public_key (c_identity c))),
                             (''signed_pre_key'', bundle_to_value ce (own_bundle c))]
      in case net request w of
           (Inl e, w') \<Rightarrow> (Inl e, w')
         | (Inr resp, w') \<Rightarrow>
             if \<not> resp_ok resp then (Inl (''Registration failed: '' @ show_value ce (json_index resp ''error'')), w')
             else (Inr (), w'))"

definition fetch_bundle :: "client_env \<Rightarrow> 'w net \<Rightarrow> string \<Rightarrow> 'w \<Rightarrow> (string + PreKeyBundle) \<times> 'w" where
  "fetch_bundle ce net user_id w =
     (let request = JObject [(''cmd'', JString ''fetch_keys''), (''user_id'', JString user_id)]
      in case net request w of
           (Inl e, w') \<Rightarrow> (Inl e, w')
         | (Inr resp, w') \<Rightarrow>
             if \<not> resp_ok resp then (Inl (''User '' @ CHR 0x27 # user_id @ CHR 0x27 # '' not found''), w')
             else (bundle_from_value ce (json_index (json_index resp ''data'') ''signed_pre_key''), w'))"

section \<open>Sending\<close>

text \<open>
  The session to use: the stored one, or a new initiator session from the recipient's bundle, which is
  added to the store. The flag tells which.
\<close>

definition get_or_create_session ::
  "client_env \<Rightarrow> 'w net \<Rightarrow> draws \<Rightarrow> string \<Rightarrow> 'w cstate \<Rightarrow> ((string + bool) \<times> 'w cstate) option" where
  "get_or_create_session ce net dr recipient s =
     (case s of (c, files, w) \<Rightarrow>
       (case SessionStore_get_mut (c_sessions c) recipient 1 of
          Some _ \<Rightarrow> Some (Inr False, s)
        | None \<Rightarrow>
            (case fetch_bundle ce net recipient w of
               (Inl e, w') \<Rightarrow> Some (Inl e, c, files, w')
             | (Inr bundle, w') \<Rightarrow>
                 (case Session_new_initiator (ce_prims ce) (dr_rng dr 0) (c_identity c) recipient 1
                         (pkb_identity_key bundle) (pkb_signed_pre_key bundle) of
                    None \<Rightarrow> None
                  | Some (Inl e) \<Rightarrow> Some (Inl (error_message e), c, files, w')
                  | Some (Inr new_session) \<Rightarrow>
                      Some (Inr True, c\<lparr>c_sessions := SessionStore_add new_session (c_sessions c)\<rparr>, files, w')))))"

text \<open>\<open>get_mut(recipient, 1).unwrap()\<close> and \<open>encrypt\<close>, the session written back.\<close>

definition encrypt_in_store ::
  "prims \<Rightarrow> bytes \<Rightarrow> string \<Rightarrow> bytes \<Rightarrow> SessionStore \<Rightarrow>
   ((TinTinError + SessionMessage) \<times> Session \<times> SessionStore) option" where
  "encrypt_in_store pr nonce recipient plaintext sessions =
     (case SessionStore_get_mut sessions recipient 1 of
        None \<Rightarrow> None
      | Some (session, put) \<Rightarrow>
          map_option (\<lambda>(r, session'). (r, session', put session')) (Session_encrypt pr session nonce plaintext))"

text \<open>The session set-up, the encryption and the wrapping of a first message, which the code repeats for every kind of send.\<close>

definition seal_for ::
  "client_env \<Rightarrow> 'w net \<Rightarrow> draws \<Rightarrow> string \<Rightarrow> bytes \<Rightarrow> 'w cstate \<Rightarrow>
   ((string + bytes \<times> MessageType) \<times> 'w cstate) option" where
  "seal_for ce net dr recipient payload_bytes s =
     (case get_or_create_session ce net dr recipient s of
        None \<Rightarrow> None
      | Some (Inl e, s') \<Rightarrow> Some (Inl e, s')
      | Some (Inr is_new, (c, files, w)) \<Rightarrow>
          (case encrypt_in_store (ce_prims ce) (dr_nonce dr) recipient payload_bytes (c_sessions c) of
             None \<Rightarrow> None
           | Some (r, session, sessions) \<Rightarrow>
               (let s' = (c\<lparr>c_sessions := sessions\<rparr>, files, w)
                in case r of
                     Inl e \<Rightarrow> Some (Inl (error_message e), s')
                   | Inr encrypted \<Rightarrow>
                       if is_new then
                         (let prekey = \<lparr>pkm_identity_key = public_key (c_identity c),
                                        pkm_base_key = kp_public (r_dh_ratchet_key (s_ratchet session)),
                                        pkm_session_message = encrypted\<rparr>
                          in Some (case prekey_to_vec ce prekey of
                                     Inl e \<Rightarrow> (Inl e, s')
                                   | Inr content \<Rightarrow> (Inr (content, PreKeyBundleType), s')))
                       else
                         Some (case SessionMessage_to_json (ce_wire ce) encrypted of
                                 Inl e \<Rightarrow> (Inl e, s')
                               | Inr content \<Rightarrow> (Inr (content, Normal), s')))))"

definition send_encrypted ::
  "client_env \<Rightarrow> 'w net \<Rightarrow> draws \<Rightarrow> string \<Rightarrow> string \<Rightarrow> 'w cstate \<Rightarrow>
   ((string + bytes \<times> MessageType) \<times> 'w cstate) option" where
  "send_encrypted ce net dr recipient plaintext s = seal_for ce net dr recipient (as_bytes plaintext) s"

text \<open>Messages to oneself go out as they are.\<close>

definition send_message ::
  "client_env \<Rightarrow> 'w net \<Rightarrow> draws \<Rightarrow> string \<Rightarrow> string \<Rightarrow> 'w cstate \<Rightarrow> ((string + unit) \<times> 'w cstate) option" where
  "send_message ce net dr recipient plaintext s =
     (case (if recipient = c_user_id (fst s) then Some (Inr (as_bytes plaintext, Normal), s)
            else send_encrypted ce net dr recipient plaintext s) of
        None \<Rightarrow> None
      | Some (Inl e, s') \<Rightarrow> Some (Inl e, s')
      | Some (Inr (content, msg_type), (c, files, w)) \<Rightarrow>
          (let envelope = Envelope_new (dr_millis dr 0) (c_user_id c) recipient content msg_type;
               request = JObject [(''cmd'', JString ''send''), (''envelope'', envelope_to_value (ce_wire ce) envelope)]
           in case net request w of
                (Inl e, w') \<Rightarrow> Some (Inl e, c, files, w')
              | (Inr resp, w') \<Rightarrow>
                  if \<not> resp_ok resp
                  then Some (Inl (''Send failed: '' @ show_value ce (json_index resp ''error'')), c, files, w')
                  else
                    (let c1 = c\<lparr>c_sent_messages := c_sent_messages c @
                              [\<lparr>sm_recipient = recipient, sm_text = plaintext, sm_timestamp = env_timestamp envelope,
                                sm_status = Sent, sm_edited = False\<rparr>]\<rparr>;
                         files1 = save_history (ce_storage ce) c1 files;
                         (c2, files2) = record_message (ce_storage ce) (dr_millis dr 1) recipient plaintext True
                                          False None False None (c1, files1)
                     in Some (Inr (), c2, files2, w'))))"

definition send_receipt ::
  "client_env \<Rightarrow> 'w net \<Rightarrow> nat \<Rightarrow> string \<Rightarrow> string \<Rightarrow> u64 \<Rightarrow> ReceiptType \<Rightarrow> TinTinClient \<Rightarrow> 'w \<Rightarrow>
   (string + unit) \<times> 'w" where
  "send_receipt ce net now recipient original_sender original_timestamp receipt_type c w =
     (let receipt = \<lparr>rc_receipt_type = receipt_type, rc_original_sender = original_sender,
                     rc_original_timestamp = original_timestamp\<rparr>
      in case receipt_to_vec (ce_wire ce) receipt of
           Inl e \<Rightarrow> (Inl e, w)
         | Inr receipt_bytes \<Rightarrow>
             (let receipt_env = Envelope_new now (c_user_id c) recipient receipt_bytes Receipt;
                  request = JObject [(''cmd'', JString ''send''),
                                     (''envelope'', envelope_to_value (ce_wire ce) receipt_env)]
              in case net request w of
                   (Inl e, w') \<Rightarrow> (Inl e, w')
                 | (Inr resp, w') \<Rightarrow> (Inr (), w')))"

section \<open>Calls\<close>

definition call_payload :: "string \<Rightarrow> string \<Rightarrow> string \<times> string \<Rightarrow> json" where
  "call_payload tt call_id field =
     JObject [(''__tintin_type'', JString tt), (''call_id'', JString call_id), (fst field, JString (snd field))]"

text \<open>\<open>serde_json::to_string(&payload)?\<close> and the send.\<close>

definition send_payload ::
  "client_env \<Rightarrow> 'w net \<Rightarrow> draws \<Rightarrow> string \<Rightarrow> json \<Rightarrow> 'w cstate \<Rightarrow> ((string + unit) \<times> 'w cstate) option" where
  "send_payload ce net dr peer payload s =
     (case value_to_string ce payload of
        Inl e \<Rightarrow> Some (Inl e, s)
      | Inr text \<Rightarrow> send_message ce net dr peer text s)"

text \<open>The secret of the media key pair is draw 1, the clock in the call id reading 2.\<close>

definition start_call ::
  "client_env \<Rightarrow> 'w net \<Rightarrow> draws \<Rightarrow> string \<Rightarrow> 'w cstate \<Rightarrow> ((string + unit) \<times> 'w cstate) option" where
  "start_call ce net dr peer s =
     (case s of (c, files, w) \<Rightarrow>
       if c_active_call c \<noteq> None then Some (Inl ''Already in a call. Use /end to hang up first.'', s)
       else
         (let call_id = c_user_id c @ ''_'' @ show_nat (dr_millis dr 2);
              media_key_pair = KeyPair_generate (ce_prims ce) (dr_rng dr 1);
              payload = call_payload ''call_offer'' call_id
                (''media_key_pub'', hex_encode (ce_prims ce) (kp_public media_key_pair));
              c' = c\<lparr>c_active_call := Some
                \<lparr>ca_peer = peer, ca_call_id = call_id, ca_media_key_pair = media_key_pair,
                 ca_peer_media_key = None, ca_shared_media_secret = None, ca_state = Offering\<rparr>\<rparr>
          in send_payload ce net dr peer payload (c', files, w)))"

definition accept_call ::
  "client_env \<Rightarrow> 'w net \<Rightarrow> draws \<Rightarrow> string \<Rightarrow> 'w cstate \<Rightarrow> ((string + unit) \<times> 'w cstate) option" where
  "accept_call ce net dr call_id s =
     (case s of (c, files, w) \<Rightarrow>
       (case c_active_call c of
          None \<Rightarrow> Some (Inl ''No incoming call to accept'', s)
        | Some call \<Rightarrow>
            if ca_call_id call \<noteq> call_id then Some (Inl ''Active call has different ID'', s)
            else
              (let media_key_pair = KeyPair_generate (ce_prims ce) (dr_rng dr 1);
                   payload = call_payload ''call_accept'' call_id
                     (''media_key_pub'', hex_encode (ce_prims ce) (kp_public media_key_pair));
                   call1 = call\<lparr>ca_state := Connected, ca_media_key_pair := media_key_pair\<rparr>;
                   call2 = (case ca_peer_media_key call1 of
                              None \<Rightarrow> call1
                            | Some peer_pk \<Rightarrow>
                                call1\<lparr>ca_shared_media_secret := agree_ok (ce_prims ce) media_key_pair peer_pk\<rparr>)
               in send_payload ce net dr (ca_peer call) payload (c\<lparr>c_active_call := Some call2\<rparr>, files, w))))"

definition end_call ::
  "client_env \<Rightarrow> 'w net \<Rightarrow> draws \<Rightarrow> string \<Rightarrow> 'w cstate \<Rightarrow> ((string + unit) \<times> 'w cstate) option" where
  "end_call ce net dr reason s =
     (case c_active_call (fst s) of
        None \<Rightarrow> Some (Inl ''No active call'', s)
      | Some call \<Rightarrow>
          (let payload = call_payload ''call_end'' (ca_call_id call) (''reason'', reason)
           in case send_payload ce net dr (ca_peer call) payload s of
                None \<Rightarrow> None
              | Some (Inl e, s') \<Rightarrow> Some (Inl e, s')
              | Some (Inr u, (c, files, w)) \<Rightarrow> Some (Inr (), c\<lparr>c_active_call := None\<rparr>, files, w)))"

section \<open>Lemmas\<close>

lemma Session_encrypt_key:
  assumes "Session_encrypt pr s n p = Some (x, s')"
  shows "session_key s' = session_key s"
proof -
  have "session_key (s\<lparr>s_ratchet := r\<rparr>) = session_key s" for r by (simp add: session_key_def)
  then show ?thesis using Session_encrypt_SomeD [OF assms] by metis
qed

lemma encrypt_in_store_keeps:
  assumes "encrypt_in_store pr nonce r p sessions = Some (m, session, sessions')"
  shows "SessionStore_get sessions' r 1 = Some session"
proof -
  let ?P = "\<lambda>x. s_remote_user_id x = r \<and> s_remote_device_id x = 1"
  from assms obtain s0 where f: "find ?P (ss_sessions sessions) = Some s0"
    and e: "Session_encrypt pr s0 nonce p = Some (m, session)"
    and s': "sessions' = sessions\<lparr>ss_sessions := replace_first ?P session (ss_sessions sessions)\<rparr>"
    by (auto simp: encrypt_in_store_def SessionStore_get_mut_def SessionStore_get_def split: option.splits)
  have "?P s0" using f by (auto simp: find_Some_iff)
  then have "?P session" using Session_encrypt_key [OF e] by (simp add: session_key_def)
  from find_replace_first [of ?P, OF f this] show ?thesis by (simp add: SessionStore_get_def s')
qed

lemma Session_encrypt_dh:
  assumes "Session_encrypt pr s n p = Some (x, s')"
  shows "r_dh_ratchet_key (s_ratchet s') = r_dh_ratchet_key (s_ratchet s)"
proof (rule Session_encrypt_SomeD [OF assms])
  fix y assume "encrypt_message pr (s_ratchet s) n p = Some (y, s_ratchet s')"
  from encrypt_message_SomeD [OF this] show ?thesis by simp
qed

end
