(* ===== verification/Cli_Properties.thy ===== *)
theory Cli_Properties
  imports Cli_Messaging Core_Properties
begin

text \<open>
  Properties of the client: file transfer in chunks, the media keys of a call, contact URIs, and three
  ways a client gets stuck or is harmed by what it receives.
\<close>

section \<open>Files\<close>

lemma concat_chunks: "0 < n \<Longrightarrow> concat (chunks n xs) = xs"
  by (induction n xs rule: chunks.induct) (subst chunks.simps, auto)

lemma length_chunks: "0 < n \<Longrightarrow> length (chunks n xs) = (length xs + n - 1) div n"
proof (induction n xs rule: chunks.induct)
  case (1 n xs)
  show ?case
  proof (cases "xs = []")
    case True
    with 1 show ?thesis by (subst chunks.simps) simp
  next
    case False
    have step: "length (chunks n xs) = Suc ((length xs - n + n - 1) div n)"
      using 1 False by (subst chunks.simps) simp
    show ?thesis
    proof (cases "length xs \<le> n")
      case True
      have "(length xs + n - 1) div n = 1"
        using True False 1(2) by (cases xs) (auto intro!: div_nat_eqI)
      with True 1(2) step show ?thesis by simp
    next
      case False
      then have eqs: "length xs + n - 1 = (length xs - 1) + n" "length xs - n + n - 1 = length xs - 1" by auto
      show ?thesis unfolding step eqs using 1(2) by (simp only: div_add_self2)
    qed
  qed
qed

lemma total_chunks_of_chunks: "d \<noteq> [] \<Longrightarrow> total_chunks_of d = length (chunks CHUNK_SIZE d)"
  by (simp add: total_chunks_of_def length_chunks CHUNK_SIZE_def)

text \<open>One after another, over the decrypted texts as they arrive.\<close>

primrec process_chunks ::
  "codecs \<Rightarrow> storage \<Rightarrow> string \<Rightarrow> bytes list \<Rightarrow> TinTinClient \<times> files \<Rightarrow> (TinTinClient \<times> files) option" where
  "process_chunks cd fs sender [] cf = Some cf"
| "process_chunks cd fs sender (p # ps) cf =
     (case process_file_chunk cd fs sender p cf of
        Some (True, cf') \<Rightarrow> process_chunks cd fs sender ps cf'
      | _ \<Rightarrow> None)"

definition received_map :: "bytes list \<Rightarrow> nat list \<Rightarrow> (nat \<times> bytes) list" where
  "received_map cs is = map (\<lambda>i. (i, cs ! i)) is"

lemma received_map_snoc:
  "i \<notin> set is \<Longrightarrow> insert_or_replace fst (i, cs ! i) (received_map cs is) = received_map cs (is @ [i])"
proof -
  assume "i \<notin> set is"
  then have "filter (\<lambda>x. fst x \<noteq> i) (received_map cs is) = received_map cs is"
    by (induction "is") (auto simp: received_map_def)
  then show ?thesis by (simp add: insert_or_replace_def received_map_def)
qed

lemma map_of_received: "distinct is \<Longrightarrow> i \<in> set is \<Longrightarrow> map_of (received_map cs is) i = Some (cs ! i)"
  by (induction "is") (auto simp: received_map_def)

lemma assemble_received:
  assumes "distinct is" and "set is = {0..<length cs}"
  shows "assemble \<lparr>pf_file_name = n, pf_file_size = s, pf_total_chunks = length cs,
           pf_received_chunks = received_map cs is\<rparr> = concat cs"
proof -
  have "map (\<lambda>i. case map_of (received_map cs is) i of None \<Rightarrow> [] | Some d \<Rightarrow> d) [0..<length cs]
      = map (\<lambda>i. cs ! i) [0..<length cs]"
    using map_of_received [OF assms(1)] assms(2) by (intro map_cong) auto
  then show ?thesis by (simp add: assemble_def map_nth)
qed

lemma chunk_payload_fields:
  assumes "m = ''file'' \<or> m = ''voice''"
  shows "get_str (chunk_payload cd m fid nm d im th i ch) ''__tintin_type'' = Some m"
    "str_or (chunk_payload cd m fid nm d im th i ch) ''file_id'' [] = fid"
    "str_or (chunk_payload cd m fid nm d im th i ch) ''file_name'' ''unknown'' = nm"
    "length d < 2 ^ 64 \<Longrightarrow> u64_or_0 (chunk_payload cd m fid nm d im th i ch) ''file_size'' = length d"
    "total_chunks_of d < 2 ^ 64 \<Longrightarrow> u64_or_0 (chunk_payload cd m fid nm d im th i ch) ''total_chunks'' = total_chunks_of d"
    "i < 2 ^ 64 \<Longrightarrow> u64_or_0 (chunk_payload cd m fid nm d im th i ch) ''chunk_index'' = i"
    "str_or (chunk_payload cd m fid nm d im th i ch) ''data'' [] = base64_encode cd ch"
  by (simp_all add: chunk_payload_def get_str_def str_or_def u64_or_0_def json_index_def nat_less_iff)

text \<open>A text from which the receiver reads chunk \<open>i\<close> of the file.\<close>

definition reads_chunk :: "codecs \<Rightarrow> string \<Rightarrow> string \<Rightarrow> string \<Rightarrow> bytes \<Rightarrow> nat \<Rightarrow> bytes \<Rightarrow> bool" where
  "reads_chunk cd m fid nm d i pt \<longleftrightarrow>
     (\<exists>v. value_from_slice cd pt = Inr v \<and> get_str v ''__tintin_type'' = Some m \<and> str_or v ''file_id'' [] = fid \<and>
        str_or v ''file_name'' ''unknown'' = nm \<and> u64_or_0 v ''file_size'' = length d \<and>
        u64_or_0 v ''total_chunks'' = total_chunks_of d \<and> u64_or_0 v ''chunk_index'' = i \<and>
        base64_decode cd (str_or v ''data'' []) = Inr (chunks CHUNK_SIZE d ! i))"

lemma chunk_sizes:
  assumes "length d < 2 ^ 63" and "i < length (chunks CHUNK_SIZE d)"
  shows "d \<noteq> []" "total_chunks_of d < 2 ^ 64" "length d < 2 ^ 64" "i < 2 ^ 64"
proof -
  show d: "d \<noteq> []" using assms(2) by (auto simp: chunks.simps)
  then have tc: "total_chunks_of d = length (chunks CHUNK_SIZE d)" by (simp add: total_chunks_of_chunks)
  moreover have "length (chunks CHUNK_SIZE d) \<le> length d"
    using d unfolding tc [symmetric] by (simp add: total_chunks_of_def CHUNK_SIZE_def)
  ultimately show "total_chunks_of d < 2 ^ 64" "length d < 2 ^ 64" "i < 2 ^ 64" using assms by auto
qed

lemma chunk_payload_reads:
  assumes "value_from_slice cd pt = Inr (chunk_payload cd m fid nm d im th i (chunks CHUNK_SIZE d ! i))"
    and "m = ''file'' \<or> m = ''voice''" and "\<forall>b. base64_decode cd (base64_encode cd b) = Inr b"
    and "length d < 2 ^ 63" and "i < length (chunks CHUNK_SIZE d)"
  shows "reads_chunk cd m fid nm d i pt"
  using assms(1,3) chunk_payload_fields [OF assms(2)] chunk_sizes [OF assms(4,5)] by (simp add: reads_chunk_def)

lemma with_capacity_less: "with_capacity_ok fs n \<Longrightarrow> n < 2 ^ 63"
  by (auto simp: with_capacity_ok_def)

text \<open>What a new chunk does to the client, apart from the file it may complete.\<close>

lemma process_chunk_step:
  assumes "reads_chunk cd m fid nm d i pt"
    and "m = ''file'' \<or> m = ''voice''"
    and "with_capacity_ok fs (length d)" and "cs = chunks CHUNK_SIZE d" and "i < length cs" and "i \<notin> set is"
    and "(is = [] \<and> map_of (c_pending_files c) fid = None) \<or>
         map_of (c_pending_files c) fid = Some \<lparr>pf_file_name = nm, pf_file_size = length d,
           pf_total_chunks = length cs, pf_received_chunks = received_map cs is\<rparr>"
  defines "pf \<equiv> \<lparr>pf_file_name = nm, pf_file_size = length d, pf_total_chunks = length cs,
                pf_received_chunks = received_map cs (is @ [i])\<rparr>"
  shows "process_file_chunk cd fs sender pt (c, files) =
     (let c' = c\<lparr>c_pending_files := insert_or_replace fst (fid, pf) (c_pending_files c)\<rparr>
      in Some (if Suc (length is) = length cs
               then (True, c'\<lparr>c_pending_files := delete_where (\<lambda>x. fst x = fid) (c_pending_files c')\<rparr>,
                     write_file fs (path_join (downloads_dir fs) nm) (map (\<lambda>x. char_of (unat x)) (assemble pf)) files)
               else (True, c', files)))"
proof -
  have "d \<noteq> []" using assms(4,5) by (auto simp: chunks.simps)
  then have tc: "total_chunks_of d = length cs" by (simp add: total_chunks_of_chunks assms(4))
  obtain v where v: "value_from_slice cd pt = Inr v" "get_str v ''__tintin_type'' = Some m" "str_or v ''file_id'' [] = fid"
    "str_or v ''file_name'' ''unknown'' = nm" "u64_or_0 v ''file_size'' = length d"
    "u64_or_0 v ''total_chunks'' = length cs" "u64_or_0 v ''chunk_index'' = i"
    "base64_decode cd (str_or v ''data'' []) = Inr (cs ! i)"
    using assms(1) by (auto simp: reads_chunk_def assms(4) tc)
  have entry: "unwrap_or (map_of (c_pending_files c) fid) \<lparr>pf_file_name = nm, pf_file_size = length d,
      pf_total_chunks = length cs, pf_received_chunks = []\<rparr>
      = \<lparr>pf_file_name = nm, pf_file_size = length d, pf_total_chunks = length cs,
         pf_received_chunks = received_map cs is\<rparr>"
    using assms(7) by (auto simp: received_map_def)
  have cm: "insert_or_replace fst (i, cs ! i) (received_map cs is) = received_map cs (is @ [i])"
    using assms(6) by (rule received_map_snoc)
  have len: "length (received_map cs (is @ [i])) = Suc (length is)" by (simp add: received_map_def)
  have t: "\<not> (Some m \<noteq> Some ''file'' \<and> Some m \<noteq> Some ''voice'')" using assms(2) by auto
  have pos: "length cs \<noteq> 0" using assms(5) by auto
  show ?thesis
    unfolding process_file_chunk_def v sum.case prod.case Let_def entry
    using t pos assms(3) len by (simp add: cm pf_def)
qed

lemma map_of_lookup: "map_of xs k = map_option snd (lookup_key fst xs k)"
  by (induction xs) (auto simp: lookup_key_def)

lemma process_chunks_rest:
  assumes "cs = chunks CHUNK_SIZE d" and "with_capacity_ok fs (length d)" and "m = ''file'' \<or> m = ''voice''"
    and "\<forall>i<length cs. reads_chunk cd m fid nm d i (pt i)"
  shows "rest \<noteq> [] \<Longrightarrow> distinct (is @ rest) \<Longrightarrow> set (is @ rest) = {0..<length cs} \<Longrightarrow>
    (is = [] \<and> map_of (c_pending_files c) fid = None) \<or>
      map_of (c_pending_files c) fid = Some \<lparr>pf_file_name = nm, pf_file_size = length d,
        pf_total_chunks = length cs, pf_received_chunks = received_map cs is\<rparr> \<Longrightarrow>
    \<exists>c'. process_chunks cd fs sender (map pt rest) (c, files) =
        Some (c', write_file fs (path_join (downloads_dir fs) nm) (map (\<lambda>x. char_of (unat x)) d) files) \<and>
      map_of (c_pending_files c') fid = None \<and>
      (\<forall>f. f \<noteq> fid \<longrightarrow> map_of (c_pending_files c') f = map_of (c_pending_files c) f) \<and>
      c' = c\<lparr>c_pending_files := c_pending_files c'\<rparr>"
proof (induction rest arbitrary: "is" c)
  case Nil
  then show ?case by simp
next
  case (Cons i rest)
  have i: "i < length cs" "i \<notin> set is" using Cons.prems(2,3) by auto
  define pf where "pf = \<lparr>pf_file_name = nm, pf_file_size = length d, pf_total_chunks = length cs,
    pf_received_chunks = received_map cs (is @ [i])\<rparr>"
  let ?c1 = "c\<lparr>c_pending_files := insert_or_replace fst (fid, pf) (c_pending_files c)\<rparr>"
  have step: "process_file_chunk cd fs sender (pt i) (c, files) =
     Some (if Suc (length is) = length cs
           then (True, ?c1\<lparr>c_pending_files := delete_where (\<lambda>x. fst x = fid) (c_pending_files ?c1)\<rparr>,
                 write_file fs (path_join (downloads_dir fs) nm) (map (\<lambda>x. char_of (unat x)) (assemble pf)) files)
           else (True, ?c1, files))"
    using process_chunk_step [OF _ assms(3,2,1) i Cons.prems(4), of cd "pt i" sender files]
      assms(4) i(1) by (simp add: pf_def Let_def)
  have total: "length (is @ i # rest) = length cs"
    using distinct_card [OF Cons.prems(2)] Cons.prems(3) by simp
  show ?case
  proof (cases "rest = []")
    case True
    have "assemble pf = d"
      unfolding pf_def using Cons.prems(2,3) True assms(1)
      by (subst assemble_received) (auto simp: concat_chunks CHUNK_SIZE_def)
    moreover have "Suc (length is) = length cs" using total True by simp
    ultimately show ?thesis
      using step True by (simp add: map_of_lookup lookup_delete_where lookup_insert_or_replace)
  next
    case False
    then have "Suc (length is) \<noteq> length cs" using total by (cases rest) auto
    with step have step': "process_file_chunk cd fs sender (pt i) (c, files) = Some (True, ?c1, files)" by simp
    have "map_of (c_pending_files ?c1) fid = Some pf"
      by (simp add: map_of_lookup lookup_insert_or_replace)
    with Cons.IH [OF False, of "is @ [i]" ?c1] Cons.prems(2,3) obtain c' where
      "process_chunks cd fs sender (map pt rest) (?c1, files) =
        Some (c', write_file fs (path_join (downloads_dir fs) nm) (map (\<lambda>x. char_of (unat x)) d) files)"
      "map_of (c_pending_files c') fid = None"
      "\<forall>f. f \<noteq> fid \<longrightarrow> map_of (c_pending_files c') f = map_of (c_pending_files ?c1) f"
      "c' = ?c1\<lparr>c_pending_files := c_pending_files c'\<rparr>"
      unfolding pf_def by auto
    with step' show ?thesis
      by (intro exI [of _ c']) (simp add: map_of_lookup lookup_insert_or_replace)
  qed
qed

text \<open>Property C26. A file survives the transfer: the payloads the sender makes of a non-empty file, arriving in
  any order, each once, under a file id the receiver does not know yet, make the receiver write exactly
  the sender's bytes under the file's name in its download directory, and forget the transfer; other
  transfers in progress are untouched.\<close>

theorem file_transfer_roundtrip:
  assumes "\<forall>b. base64_decode cd (base64_encode cd b) = Inr b"
    and "m = ''file'' \<or> m = ''voice''" and "d \<noteq> []" and "with_capacity_ok fs (length d)"
    and "payloads = file_payloads cd m fid nm d im th"
    and "\<forall>i<length payloads. value_from_slice cd (pt i) = Inr (payloads ! i)"
    and "distinct order" and "set order = {0..<length payloads}"
    and "map_of (c_pending_files c) fid = None"
  shows "\<exists>c'. process_chunks cd fs sender (map pt order) (c, files) =
        Some (c', write_file fs (path_join (downloads_dir fs) nm) (map (\<lambda>x. char_of (unat x)) d) files) \<and>
      map_of (c_pending_files c') fid = None \<and>
      (\<forall>f. f \<noteq> fid \<longrightarrow> map_of (c_pending_files c') f = map_of (c_pending_files c) f) \<and>
      c' = c\<lparr>c_pending_files := c_pending_files c'\<rparr>"
proof -
  let ?cs = "chunks CHUNK_SIZE d"
  have len: "length payloads = length ?cs" by (simp add: assms(5) file_payloads_def Let_def)
  have "\<forall>i<length ?cs. reads_chunk cd m fid nm d i (pt i)"
    using assms(6) unfolding len
    by (auto simp: assms(5) file_payloads_def Let_def intro!: chunk_payload_reads [OF _ assms(2,1) with_capacity_less [OF assms(4)]])
  moreover have "0 < length ?cs"
    using assms(3) by (subst chunks.simps) (simp add: CHUNK_SIZE_def)
  then have "order \<noteq> []" using assms(8) len by auto
  ultimately show ?thesis
    using process_chunks_rest [OF refl assms(4,2), of cd fid nm pt order "[]" c sender files]
      assms(7-9) len by simp
qed

text \<open>The codecs of a small example: the text of a payload is the position of its chunk.\<close>

definition demo_codecs :: codecs where
  "demo_codecs =
     \<lparr>value_from_slice = (\<lambda>b. Inr (chunk_payload
        \<lparr>value_from_slice = (\<lambda>_. Inl []), hex_decode_vec = (\<lambda>_. Inl []),
         base64_encode = map (\<lambda>x. char_of (unat x)), base64_decode = (\<lambda>s. Inr (as_bytes s))\<rparr>
        ''file'' ''f1'' ''a.txt'' [104, 105] False [] 0 [104, 105])),
      hex_decode_vec = (\<lambda>s. Inr (as_bytes s)),
      base64_encode = map (\<lambda>x. char_of (unat x)), base64_decode = (\<lambda>s. Inr (as_bytes s))\<rparr>"

definition demo_storage :: storage where
  "demo_storage =
     \<lparr>fs_home = ''/home/bob'', fs_write = (\<lambda>p t old. Some t), alloc_ok = (\<lambda>n. n < 2 ^ 30),
      history_to_string = (\<lambda>_. Inr []), history_from_str = (\<lambda>_. Inl []),
      groups_to_string = (\<lambda>_. Inr []), groups_from_str = (\<lambda>_. Inl []),
      channels_to_string = (\<lambda>_. Inr []), channels_from_str = (\<lambda>_. Inl []),
      chat_log_to_string = (\<lambda>_. Inr []), chat_log_from_str = (\<lambda>_. Inl [])\<rparr>"

definition demo_client :: "string \<Rightarrow> TinTinClient" where
  "demo_client u = TinTinClient_new demo_prims demo_storage [1] [3] (\<lambda>_. None) u"

lemma as_bytes_chars [simp]: "as_bytes (map (\<lambda>x. char_of (unat x)) bs) = bs"
proof -
  have "(word_of_nat (of_char (char_of (unat b) :: char)) :: u8) = b" for b :: u8
    using unsigned_less [where 'a = nat, of b] by simp
  then show ?thesis by (simp add: as_bytes_def comp_def)
qed

theorem file_transfer_roundtrip_witness:
  "\<exists>c'. process_chunks demo_codecs demo_storage ''alice'' [[0]] (demo_client ''bob'', \<lambda>_. None) =
     Some (c', (\<lambda>_. None)(''/home/bob/.tintin/downloads/a.txt'' \<mapsto> ''hi''))"
proof -
  let ?p = "file_payloads demo_codecs ''file'' ''f1'' ''a.txt'' [104, 105] False []"
  have cs: "chunks CHUNK_SIZE [104, 105 :: u8] = [[104, 105]]"
    by (subst chunks.simps, subst chunks.simps) (simp add: CHUNK_SIZE_def)
  have p: "?p = [chunk_payload demo_codecs ''file'' ''f1'' ''a.txt'' [104, 105] False [] 0 [104, 105]]"
    by (simp add: file_payloads_def cs)
  have v: "\<forall>i<length ?p. value_from_slice demo_codecs ((\<lambda>_. [0]) i) = Inr (?p ! i)"
    by (simp add: p) (simp add: demo_codecs_def chunk_payload_def)
  have b: "\<forall>b. base64_decode demo_codecs (base64_encode demo_codecs b) = Inr b"
    by (simp add: demo_codecs_def)
  have path: "path_join (downloads_dir demo_storage) ''a.txt'' = ''/home/bob/.tintin/downloads/a.txt''"
    by (simp add: downloads_dir_def tintin_dir_def path_join_def starts_with_def demo_storage_def)
  have "map_of (c_pending_files (demo_client ''bob'')) ''f1'' = None"
    by (simp add: demo_client_def TinTinClient_new_def Let_def load_chat_log_def load_channels_def load_groups_def load_history_def)
  moreover have "with_capacity_ok demo_storage (length [104, 105 :: u8])"
    by (simp add: with_capacity_ok_def demo_storage_def)
  ultimately obtain c' where run: "process_chunks demo_codecs demo_storage ''alice'' [[0]] (demo_client ''bob'', \<lambda>_. None) =
      Some (c', write_file demo_storage ''/home/bob/.tintin/downloads/a.txt'' (map (\<lambda>x. char_of (unat x)) [104, 105 :: u8]) (\<lambda>_. None))"
    using file_transfer_roundtrip [OF b _ _ _ refl v, of demo_storage "[0]" "demo_client ''bob''" "''alice''" "\<lambda>_. None"]
    by (auto simp: p path simp del: process_chunks.simps)
  have "map (\<lambda>x. char_of (unat x)) [104, 105 :: u8] = ''hi''" by code_simp
  with run show ?thesis by (simp add: write_file_def del: process_chunks.simps) (simp add: demo_storage_def)
qed

text \<open>Property C39. What a peer can do with one file chunk: a chunk that announces no chunks at all makes the
  client panic, a complete file whose name is an absolute path is written to that path, not to the
  download directory, and a file of one chunk that announces a size for which no memory can be reserved
  (more than half of the address space, or more than the allocator gives) ends the program, whatever the
  chunk holds.\<close>

theorem file_chunk_hazards:
  assumes "value_from_slice cd pt = Inr payload" and "get_str payload ''__tintin_type'' = Some ''file''"
    and "base64_decode cd (str_or payload ''data'' []) = Inr b"
    and "map_of (c_pending_files c) (str_or payload ''file_id'' []) = None"
  shows "(u64_or_0 payload ''total_chunks'' = 0 \<longrightarrow> process_file_chunk cd fs sender pt (c, files) = None) \<and>
     (u64_or_0 payload ''total_chunks'' = 1 \<and> u64_or_0 payload ''chunk_index'' = 0 \<and>
      with_capacity_ok fs (u64_or_0 payload ''file_size'') \<and> starts_with ''/'' (str_or payload ''file_name'' ''unknown'') \<longrightarrow>
        (\<exists>c'. process_file_chunk cd fs sender pt (c, files) =
           Some (True, c', write_file fs (str_or payload ''file_name'' ''unknown'') (map (\<lambda>x. char_of (unat x)) b) files))) \<and>
     (u64_or_0 payload ''total_chunks'' = 1 \<and> \<not> with_capacity_ok fs (u64_or_0 payload ''file_size'') \<longrightarrow>
        process_file_chunk cd fs sender pt (c, files) = None)"
  using assms
  by (auto simp: process_file_chunk_def Let_def insert_or_replace_def path_join_def assemble_def)

theorem file_chunk_hazards_witness:
  "let cd = demo_codecs\<lparr>value_from_slice := (\<lambda>_. Inr (JObject [(''__tintin_type'', JString ''file''), (''data'', JString [])]))\<rparr>
   in process_file_chunk cd demo_storage ''mallory'' [] (demo_client ''bob'', \<lambda>_. None) = None"
proof -
  let ?v = "JObject [(''__tintin_type'', JString ''file''), (''data'', JString [])]"
  let ?cd = "demo_codecs\<lparr>value_from_slice := (\<lambda>_. Inr ?v)\<rparr>"
  have "value_from_slice ?cd [] = Inr ?v" "get_str ?v ''__tintin_type'' = Some ''file''"
    "base64_decode ?cd (str_or ?v ''data'' []) = Inr []"
    "map_of (c_pending_files (demo_client ''bob'')) (str_or ?v ''file_id'' []) = None"
    "u64_or_0 ?v ''total_chunks'' = 0"
    by (simp_all add: get_str_def str_or_def u64_or_0_def json_index_def demo_codecs_def as_bytes_def
        demo_client_def TinTinClient_new_def Let_def load_chat_log_def load_channels_def load_groups_def load_history_def)
  with file_chunk_hazards [of ?cd "[]" ?v "[]" "demo_client ''bob''" demo_storage "''mallory''" "\<lambda>_. None"]
  show ?thesis by (simp add: Let_def)
qed

section \<open>Sending and sessions\<close>

text \<open>\<open>keeps_call\<close>: the operations that only send leave the identity and the call of the client alone.\<close>

definition keeps_call :: "'w cstate \<Rightarrow> 'w cstate \<Rightarrow> bool" where
  "keeps_call s s' \<longleftrightarrow>
     c_active_call (fst s') = c_active_call (fst s) \<and> c_user_id (fst s') = c_user_id (fst s)"

lemma keeps_call_refl [simp]: "keeps_call s s"
  by (simp add: keeps_call_def)

lemma get_or_create_keeps_call:
  "get_or_create_session ce net dr r s = Some (x, s') \<Longrightarrow> keeps_call s s'"
  by (auto simp: get_or_create_session_def keeps_call_def
      split: prod.splits option.splits sum.splits)

lemma send_encrypted_keeps_call:
  "send_encrypted ce net dr r p s = Some (x, s') \<Longrightarrow> keeps_call s s'"
  by (auto simp: send_encrypted_def seal_for_def keeps_call_def Let_def dest!: get_or_create_keeps_call
      split: prod.splits option.splits sum.splits if_splits)

lemma record_message_keeps:
  "c_active_call (fst (record_message fs now p t og g gn ch cn cf)) = c_active_call (fst cf)"
  "c_user_id (fst (record_message fs now p t og g gn ch cn cf)) = c_user_id (fst cf)"
  "c_sessions (fst (record_message fs now p t og g gn ch cn cf)) = c_sessions (fst cf)"
  by (simp_all add: record_message_def Let_def split: prod.split)

lemma send_message_keeps_call:
  assumes "send_message ce net dr r p s = Some (x, s')"
  shows "keeps_call s s'"
proof (cases "r = c_user_id (fst s)")
  case True
  with assms show ?thesis
    by (cases s) (auto simp: send_message_def keeps_call_def Let_def record_message_def
        split: prod.splits sum.splits if_splits)
next
  case False
  then obtain y s1 where e: "send_encrypted ce net dr r p s = Some (y, s1)"
    using assms by (auto simp: send_message_def split: option.splits)
  note k = send_encrypted_keeps_call [OF e]
  from assms False e have "keeps_call s1 s'"
    by (cases s1; cases y) (auto simp: send_message_def keeps_call_def Let_def record_message_def
        split: prod.splits sum.splits if_splits)
  with k show ?thesis by (simp add: keeps_call_def)
qed

lemma send_payload_keeps_call:
  "send_payload ce net dr peer v s = Some (x, s') \<Longrightarrow> keeps_call s s'"
  by (auto simp: send_payload_def dest: send_message_keeps_call split: sum.splits)

section \<open>Calls\<close>

text \<open>The relay has no keys for the peer, now or later.\<close>

definition unknown_peer :: "'w net \<Rightarrow> string \<Rightarrow> bool" where
  "unknown_peer net peer \<longleftrightarrow>
     (\<forall>w. \<exists>resp w'. net (JObject [(''cmd'', JString ''fetch_keys''), (''user_id'', JString peer)]) w = (Inr resp, w') \<and>
        \<not> resp_ok resp)"

lemma send_message_unknown:
  assumes "unknown_peer net peer"
    and "peer \<noteq> c_user_id (fst s)" and "SessionStore_get (c_sessions (fst s)) peer 1 = None"
  shows "\<exists>e w'. send_message ce net dr peer t s = Some (Inl e, fst s, fst (snd s), w')"
proof -
  obtain c files w where s: "s = (c, files, w)" by (cases s) auto
  obtain resp w' where "net (JObject [(''cmd'', JString ''fetch_keys''), (''user_id'', JString peer)]) w = (Inr resp, w')"
    and "\<not> resp_ok resp"
    using assms(1) unfolding unknown_peer_def by blast
  with assms(2,3) show ?thesis
    by (simp add: s send_message_def send_encrypted_def seal_for_def get_or_create_session_def fetch_bundle_def SessionStore_get_mut_def)
qed

lemma send_payload_unknown:
  assumes "unknown_peer net peer"
    and "peer \<noteq> c_user_id (fst s)" and "SessionStore_get (c_sessions (fst s)) peer 1 = None"
  shows "\<exists>e w'. send_payload ce net dr peer v s = Some (Inl e, fst s, fst (snd s), w')"
proof (cases "value_to_string ce v")
  case (Inl e)
  then show ?thesis by (cases s) (simp add: send_payload_def)
next
  case (Inr t)
  with send_message_unknown [OF assms, of ce dr t] show ?thesis by (simp add: send_payload_def)
qed

definition demo_client_env :: client_env where
  "demo_client_env =
     \<lparr>ce_prims = demo_prims,
      ce_wire = \<lparr>session_message_to_vec = (\<lambda>m. Inr []), session_message_from_slice = (\<lambda>b. Inl []),
        envelope_to_vec = (\<lambda>e. Inr []), envelope_from_slice = (\<lambda>b. Inl []), envelope_to_string = (\<lambda>e. Inr []),
        envelope_from_str = (\<lambda>s. Inl []), envelope_to_value = (\<lambda>e. JString (env_sender_id e)),
        receipt_to_vec = (\<lambda>r. Inr []), receipt_from_slice = (\<lambda>b. Inl [])\<rparr>,
      ce_codecs = demo_codecs, ce_storage = demo_storage,
      bundle_to_value = (\<lambda>b. JNull),
      bundle_from_value = (\<lambda>v. Inr \<lparr>pkb_identity_key = [2], pkb_device_id = 1, pkb_signed_pre_key_id = 1,
        pkb_signed_pre_key = [4], pkb_signed_pre_key_signature = [], pkb_one_time_pre_key_id = None,
        pkb_one_time_pre_key = None\<rparr>),
      prekey_to_vec = (\<lambda>m. Inr []), value_to_string = (\<lambda>v. Inr ''payload''), show_value = (\<lambda>v. ''error''),
      envelope_from_value = (\<lambda>v. Inl []), prekey_from_slice = (\<lambda>b. Inl []),
      group_info_from_value = (\<lambda>v. Inl []), unicode_alphanumeric = (\<lambda>c. False)\<rparr>"

definition demo_draws :: draws where
  "demo_draws = \<lparr>dr_rng = (\<lambda>i. [word_of_nat i + 5]), dr_nonce = [9], dr_millis = (\<lambda>i. i)\<rparr>"

text \<open>A relay that answers every request with the given status.\<close>

definition demo_net :: "string \<Rightarrow> unit net" where
  "demo_net status request w = (Inr (JObject [(''status'', JString status)]), w)"

lemmas demo_client_defs = demo_client_def TinTinClient_new_def load_chat_log_def load_channels_def load_groups_def
  load_history_def SessionStore_new_def SessionStore_get_mut_def SessionStore_get_def

lemma demo_unknown: "unknown_peer (demo_net ''error'') peer"
  by (simp add: unknown_peer_def demo_net_def resp_ok_def json_index_def)

definition stuck :: "string \<Rightarrow> 'w cstate \<Rightarrow> bool" where
  "stuck peer s \<longleftrightarrow>
     (\<exists>call. c_active_call (fst s) = Some call \<and> ca_peer call = peer) \<and> peer \<noteq> c_user_id (fst s) \<and>
     SessionStore_get (c_sessions (fst s)) peer 1 = None"

text \<open>A call to someone the relay does not know cannot be left: starting it fails but keeps the
  call, hanging up fails too, because it has to send to the same peer first, and keeps it again, and
  meanwhile every new call is refused.\<close>

theorem call_to_unknown_peer_sticks:
  assumes "unknown_peer net peer"
    and "peer \<noteq> c_user_id (fst s)" and "SessionStore_get (c_sessions (fst s)) peer 1 = None"
  shows "(c_active_call (fst s) = None \<longrightarrow> (\<exists>e s'. start_call ce net dr peer s = Some (Inl e, s') \<and> stuck peer s')) \<and>
     (stuck peer s \<longrightarrow> (\<exists>e s'. end_call ce net dr reason s = Some (Inl e, s') \<and> stuck peer s') \<and>
        start_call ce net dr other s = Some (Inl ''Already in a call. Use /end to hang up first.'', s))"
proof (intro conjI impI)
  obtain c files w where s: "s = (c, files, w)" by (cases s) auto
  assume n: "c_active_call (fst s) = None"
  define call where "call = \<lparr>ca_peer = peer, ca_call_id = c_user_id c @ ''_'' @ show_nat (dr_millis dr 2),
    ca_media_key_pair = KeyPair_generate (ce_prims ce) (dr_rng dr 1), ca_peer_media_key = None,
    ca_shared_media_secret = None, ca_state = Offering\<rparr>"
  let ?s = "(c\<lparr>c_active_call := Some call\<rparr>, files, w)"
  have "peer \<noteq> c_user_id (fst ?s)" "SessionStore_get (c_sessions (fst ?s)) peer 1 = None"
    using assms(2,3) by (simp_all add: s)
  from send_payload_unknown [where s = ?s, OF assms(1) this] n obtain e w' where
    "start_call ce net dr peer s = Some (Inl e, fst ?s, fst (snd ?s), w')"
    unfolding start_call_def s Let_def call_def by fastforce
  moreover have "stuck peer (fst ?s, fst (snd ?s), w')"
    using assms(2,3) by (simp add: stuck_def s call_def)
  ultimately show "\<exists>e s'. start_call ce net dr peer s = Some (Inl e, s') \<and> stuck peer s'" by blast
next
  assume st: "stuck peer s"
  then obtain call where call: "c_active_call (fst s) = Some call" "ca_peer call = peer"
    by (auto simp: stuck_def)
  obtain e w' where "send_payload ce net dr peer (call_payload ''call_end'' (ca_call_id call) (''reason'', reason)) s
      = Some (Inl e, fst s, fst (snd s), w')"
    using send_payload_unknown [OF assms] by blast
  then have "end_call ce net dr reason s = Some (Inl e, fst s, fst (snd s), w')"
    using call by (simp add: end_call_def)
  moreover have "stuck peer (fst s, fst (snd s), w')" using st by (simp add: stuck_def)
  ultimately show "\<exists>e s'. end_call ce net dr reason s = Some (Inl e, s') \<and> stuck peer s'" by blast
  show "start_call ce net dr other s = Some (Inl ''Already in a call. Use /end to hang up first.'', s)"
    using call by (cases s) (simp add: start_call_def)
qed

theorem call_to_unknown_peer_sticks_witness:
  "\<exists>e s'. start_call demo_client_env (demo_net ''error'') demo_draws ''nobody'' (demo_client ''alice'', \<lambda>_. None, ()) =
     Some (Inl e, s') \<and> stuck ''nobody'' s'"
proof -
  have "''nobody'' \<noteq> c_user_id (fst (demo_client ''alice'', \<lambda>_. None, ()))"
    "SessionStore_get (c_sessions (fst (demo_client ''alice'', \<lambda>_. None, ()))) ''nobody'' 1 = None"
    "c_active_call (fst (demo_client ''alice'', \<lambda>_. None, ())) = None"
    by (simp_all add: demo_client_defs Let_def)
  then show ?thesis
    using call_to_unknown_peer_sticks [OF demo_unknown, of "''nobody''" "(demo_client ''alice'', \<lambda>_. None, ())"
        demo_client_env demo_draws] by blast
qed

section \<open>The first message\<close>

lemma send_encrypted_keeps:
  assumes "get_or_create_session ce net dr r s = Some (Inr is_new, s0)"
    and "send_encrypted ce net dr r p s = Some (x, s1)"
  shows "SessionStore_get (c_sessions (fst s1)) r 1 \<noteq> None"
proof -
  obtain c0 f0 w0 where s0: "s0 = (c0, f0, w0)" by (cases s0) auto
  obtain m session sessions where
    es: "encrypt_in_store (ce_prims ce) (dr_nonce dr) r (as_bytes p) (c_sessions c0) = Some (m, session, sessions)"
    and "fst s1 = c0\<lparr>c_sessions := sessions\<rparr>"
    using assms by (auto simp: send_encrypted_def seal_for_def s0 Let_def split: option.splits sum.splits prod.splits if_splits)
  then show ?thesis using encrypt_in_store_keeps [OF es] by simp
qed

lemma seal_for_Normal:
  assumes "SessionStore_get (c_sessions (fst s)) r 1 \<noteq> None"
    and "seal_for ce net dr r p s = Some (Inr (content, ty), s')"
  shows "ty = Normal"
proof -
  have "get_or_create_session ce net dr r s = Some (Inr False, s)"
    using assms(1) by (cases s) (auto simp: get_or_create_session_def SessionStore_get_mut_def)
  with assms(2) show ?thesis
    by (cases s) (auto simp: seal_for_def Let_def split: option.splits sum.splits)
qed

text \<open>A first message that could not be delivered leaves its session behind.\<close>

lemma failed_first_send_keeps:
  assumes "get_or_create_session ce net dr r s = Some (Inr is_new, s0)" and "r \<noteq> c_user_id (fst s)"
    and "send_message ce net dr r p s = Some (Inl e, s1)"
  shows "SessionStore_get (c_sessions (fst s1)) r 1 \<noteq> None"
proof -
  obtain x s' where enc: "send_encrypted ce net dr r p s = Some (x, s')"
    using assms(2,3) by (auto simp: send_message_def split: option.splits)
  have "c_sessions (fst s1) = c_sessions (fst s')"
    using assms(2,3) enc
    by (auto simp: send_message_def Let_def split: sum.splits prod.splits if_splits)
  with send_encrypted_keeps [OF assms(1) enc] show ?thesis by simp
qed

text \<open>A relay that knows everybody's keys and refuses every message.\<close>

definition demo_refusing_net :: "unit net" where
  "demo_refusing_net request w =
     (Inr (JObject [(''status'', JString (if json_index request ''cmd'' = JString ''fetch_keys'' then ''ok'' else ''error''))]), w)"

lemma demo_first_session:
  "\<exists>a s0. Session_new_initiator demo_prims [5] (c_identity (demo_client ''alice'')) ''bob'' 1 [2] [4] = Some (Inr a) \<and>
     s0 = ((demo_client ''alice'')\<lparr>c_sessions := SessionStore_add a SessionStore_new\<rparr>, \<lambda>_. None, ()) \<and>
     get_or_create_session demo_client_env demo_refusing_net demo_draws ''bob'' (demo_client ''alice'', \<lambda>_. None, ())
       = Some (Inr True, s0)"
proof -
  have "\<exists>a. Session_new_initiator demo_prims [5] (c_identity (demo_client ''alice'')) ''bob'' 1 [2] [4] = Some (Inr a)"
    by (simp add: Session_new_initiator_def agree_def KeyPair_generate_def Ratchet_new_initiator_def Let_def
        derive_chain_keys_def derive_keys_def demo_prims_def)
  moreover have "c_sessions (demo_client ''alice'') = SessionStore_new" by (simp add: demo_client_defs Let_def)
  ultimately show ?thesis
    by (auto simp: get_or_create_session_def SessionStore_get_mut_def SessionStore_get_def SessionStore_new_def
        fetch_bundle_def demo_client_env_def demo_refusing_net_def resp_ok_def json_index_def demo_draws_def)
qed

lemma demo_first_send_fails:
  "\<exists>s0 e s1. get_or_create_session demo_client_env demo_refusing_net demo_draws ''bob'' (demo_client ''alice'', \<lambda>_. None, ())
       = Some (Inr True, s0) \<and>
     send_message demo_client_env demo_refusing_net demo_draws ''bob'' ''hi'' (demo_client ''alice'', \<lambda>_. None, ()) =
       Some (Inl e, s1)"
proof -
  let ?s = "(demo_client ''alice'', \<lambda>_. None, ())"
  obtain a s0 where a: "Session_new_initiator demo_prims [5] (c_identity (demo_client ''alice'')) ''bob'' 1 [2] [4] = Some (Inr a)"
    and s0: "s0 = ((demo_client ''alice'')\<lparr>c_sessions := SessionStore_add a SessionStore_new\<rparr>, \<lambda>_. None, ())"
    and g: "get_or_create_session demo_client_env demo_refusing_net demo_draws ''bob'' ?s = Some (Inr True, s0)"
    using demo_first_session by blast
  have n: "''bob'' \<noteq> c_user_id (fst ?s)" by (simp add: demo_client_defs Let_def)
  have "r_send_msg_number (s_ratchet a) = 0" and key: "session_key a = (''bob'', 1)"
    using Session_new_initiator_InrD [OF a] by metis+
  moreover have "chacha_encrypt demo_prims k n p = Inr (k @ p)" for k n p by (simp add: demo_prims_def)
  ultimately obtain m a' where "Session_encrypt demo_prims a [9] (as_bytes ''hi'') = Some (Inr m, a')"
    using session_send_ready [of demo_prims a "[9]" "as_bytes ''hi''"] by force
  then have "\<exists>sessions. encrypt_in_store demo_prims [9] ''bob'' (as_bytes ''hi'') (SessionStore_add a SessionStore_new)
      = Some (Inr m, a', sessions)"
    using key by (simp add: encrypt_in_store_def SessionStore_get_mut_def SessionStore_get_def SessionStore_add_def
        SessionStore_new_def session_key_def)
  then have "\<exists>x s1. send_encrypted demo_client_env demo_refusing_net demo_draws ''bob'' ''hi'' ?s = Some (Inr x, s1)"
    using g s0 by (auto simp: send_encrypted_def seal_for_def demo_client_env_def demo_draws_def Let_def)
  then obtain e s1 where sent: "send_message demo_client_env demo_refusing_net demo_draws ''bob'' ''hi'' ?s = Some (Inl e, s1)"
    using n by (auto simp: send_message_def Let_def demo_refusing_net_def resp_ok_def json_index_def)
  with g show ?thesis by blast
qed

section \<open>Contact URIs\<close>

lemma split_on_no_sep: "sep \<notin> set p \<Longrightarrow> split_on sep p = [p]"
  by (induction p) auto

lemma split_on_append: "sep \<notin> set p \<Longrightarrow> split_on sep (p @ sep # q) = p # split_on sep q"
  by (induction p) auto

lemma split_pair_append: "CHR ''='' \<notin> set n \<Longrightarrow> split_pair (n @ CHR ''='' # v) = Some (n, v)"
proof -
  assume n: "CHR ''='' \<notin> set n"
  have "dropWhile (\<lambda>c. c \<noteq> CHR ''='') (n @ CHR ''='' # v) = CHR ''='' # v"
    "takeWhile (\<lambda>c. c \<noteq> CHR ''='') (n @ CHR ''='' # v) = n"
    using n by (induction n) auto
  then show ?thesis by (simp add: split_pair_def)
qed

text \<open>The contact URI a client shows is read back by the scanner as the client's user id and its
  identity key in hex, whenever neither holds an ampersand; the user id may hold equals signs.\<close>

theorem contact_uri_roundtrip:
  assumes "CHR ''&'' \<notin> set (c_user_id c)"
    and "CHR ''&'' \<notin> set (hex_encode pr (public_key (c_identity c)))"
  shows "parse_contact_uri (contact_uri pr c) = Some (c_user_id c, hex_encode pr (public_key (c_identity c)))"
proof -
  let ?u = "''user_id'' @ CHR ''='' # c_user_id c"
    and ?k = "''key'' @ CHR ''='' # hex_encode pr (public_key (c_identity c))"
  have uri: "contact_uri pr c = ''tintin://add-contact?'' @ (?u @ CHR ''&'' # ?k)"
    by (simp add: contact_uri_def)
  have "starts_with ''tintin://add-contact?'' (contact_uri pr c)"
    unfolding uri starts_with_def by simp
  moreover have "drop (length ''tintin://add-contact?'') (contact_uri pr c) = ?u @ CHR ''&'' # ?k"
    unfolding uri by (simp only: append_eq_conv_conj [THEN iffD1] drop_append) simp
  moreover have "split_on (CHR ''&'') (?u @ CHR ''&'' # ?k) = [?u, ?k]"
    using assms by (subst split_on_append) (simp_all add: split_on_no_sep)
  moreover have "scan_pairs [?u, ?k] (None, None) =
      Some (Some (c_user_id c), Some (hex_encode pr (public_key (c_identity c))))"
    using split_pair_append [of "''user_id''" "c_user_id c"]
      split_pair_append [of "''key''" "hex_encode pr (public_key (c_identity c))"] by simp
  ultimately show ?thesis by (simp only: parse_contact_uri_def Let_def) simp
qed

theorem contact_uri_roundtrip_witness:
  "parse_contact_uri (contact_uri demo_prims (demo_client ''al=ice'')) =
     Some (''al=ice'', hex_encode demo_prims (public_key (c_identity (demo_client ''al=ice''))))"
proof -
  let ?c = "demo_client ''al=ice''"
  have u: "c_user_id ?c = ''al=ice''" and i: "c_identity ?c = IdentityKeyPair_generate demo_prims [1]"
    by (simp_all add: demo_client_defs Let_def)
  have "CHR ''&'' \<notin> set (c_user_id ?c)" unfolding u by simp
  moreover have "CHR ''&'' \<notin> set (hex_encode demo_prims (public_key (c_identity ?c)))"
    unfolding i by code_simp
  ultimately show ?thesis using contact_uri_roundtrip [of ?c demo_prims] u by simp
qed

end
