(* ===== verification/Cli_Connection.thy ===== *)
theory Cli_Connection
  imports Cli_Messaging
begin

text \<open>
  The connection of the client, \<open>connect\<close>, \<open>send_json\<close> and \<open>recv_json\<close> of \<open>tintin-cli/src/main.rs\<close>. The
  socket and the JSON parser are parameters; one exchange is a function of type \<open>net\<close>, as the requests of
  the client take it.
\<close>

text \<open>
  \<open>tcp_connect\<close> opens the connection, \<open>sock_write\<close> is \<open>write_all\<close> and \<open>flush\<close> of a text, \<open>sock_read_line\<close>
  is \<open>read_line\<close>: the next line with its newline, or the empty text at the end of the stream.
\<close>

record 'w socket =
  tcp_connect :: "string \<Rightarrow> 'w \<Rightarrow> (string + unit) \<times> 'w"
  sock_write :: "string \<Rightarrow> 'w \<Rightarrow> (string + unit) \<times> 'w"
  sock_read_line :: "'w \<Rightarrow> (string + string) \<times> 'w"

text \<open>Writer and reader are there once \<open>connect\<close> has succeeded; without a writer nothing is sent.\<close>

definition send_json :: "client_env \<Rightarrow> 'w socket option \<Rightarrow> json \<Rightarrow> 'w \<Rightarrow> (string + unit) \<times> 'w" where
  "send_json ce writer v w =
     (case value_to_string ce v of
        Inl e \<Rightarrow> (Inl e, w)
      | Inr json \<Rightarrow> (case writer of Some sk \<Rightarrow> sock_write sk (json @ [CHR 0x0A]) w | None \<Rightarrow> (Inr (), w)))"

definition recv_json :: "(string \<Rightarrow> string + json) \<Rightarrow> 'w socket option \<Rightarrow> 'w \<Rightarrow> (string + json) \<times> 'w" where
  "recv_json parse reader w =
     (case reader of
        None \<Rightarrow> (Inl ''Not connected'', w)
      | Some sk \<Rightarrow>
          (case sock_read_line sk w of
             (Inl e, w') \<Rightarrow> (Inl e, w')
           | (Inr line, w') \<Rightarrow>
               if trim line = [] then (Inl ''Connection closed'', w') else (parse (trim line), w')))"

text \<open>\<open>self.send_json(&req).await?; let resp = self.recv_json().await?;\<close>\<close>

definition exchange :: "client_env \<Rightarrow> (string \<Rightarrow> string + json) \<Rightarrow> 'w socket option \<Rightarrow> 'w net" where
  "exchange ce parse sk request w =
     (case send_json ce sk request w of
        (Inl e, w') \<Rightarrow> (Inl e, w')
      | (Inr _, w') \<Rightarrow> recv_json parse sk w')"

definition connect ::
  "client_env \<Rightarrow> (string \<Rightarrow> string + json) \<Rightarrow> 'w socket \<Rightarrow> string \<Rightarrow> TinTinClient \<Rightarrow> 'w \<Rightarrow> (string + unit) \<times> 'w" where
  "connect ce parse sk addr c w =
     (case tcp_connect sk addr w of
        (Inl e, w') \<Rightarrow> (Inl e, w')
      | (Inr _, w') \<Rightarrow> register ce (exchange ce parse (Some sk)) c w')"

end
