(* ===== verification/Cli_Receive.thy ===== *)
theory Cli_Receive
  imports Cli_Messaging
begin

text \<open>
  Receiving in the client, \<open>receive_messages\<close> of \<open>tintin-cli/src/main.rs\<close>: the fetch, the loop over the
  envelopes with its three kinds of messages, audio chunks of a call, and the status of sent messages.
  One message takes one \<open>draws\<close>: the secret of a key pair, and the clock for the log,
  for the receipt and for a sticker's file name.
\<close>

section \<open>Audio of a call\<close>

definition recordings_dir :: "storage \<Rightarrow> string" where
  "recordings_dir fs = path_join (tintin_dir fs) ''recordings''"

definition ascii_alphanumeric :: "char \<Rightarrow> bool" where
  "ascii_alphanumeric c \<longleftrightarrow>
     (let n = of_char c :: nat in in_range 48 57 n \<or> in_range 65 90 n \<or> in_range 97 122 n)"

text \<open>\<open>sender.replace(|c| !c.is_alphanumeric(), "_")\<close>, character by character of the UTF-8 text.\<close>

function replace_special :: "(string \<Rightarrow> bool) \<Rightarrow> string \<Rightarrow> string" where
  "replace_special alnum [] = []"
| "replace_special alnum (x # xs) =
     (let n = snd (utf8_step (as_bytes (x # xs))); ch = take n (x # xs)
      in (if (if n = 1 then ascii_alphanumeric x else alnum ch) then ch else ''_'') @
         replace_special alnum (drop n (x # xs)))"
  by pat_completeness auto
termination
proof (relation "measure (length \<circ> snd)", goal_cases)
  case (2 alnum x xs n ch)
  then have "0 < n" using utf8_step_pos by simp
  then show ?case by simp
qed simp

definition call_media_key :: "prims \<Rightarrow> bytes \<Rightarrow> bytes" where
  "call_media_key pr secret = sha256 pr (secret @ as_bytes ''tintin-call-media-v1'')"

text \<open>Twelve zero bytes with as much of the given nonce as fits copied over them.\<close>

definition nonce_of :: "bytes \<Rightarrow> bytes" where
  "nonce_of b = take 12 b @ replicate (12 - length b) 0"

definition process_media_chunk ::
  "client_env \<Rightarrow> string \<Rightarrow> bytes \<Rightarrow> TinTinClient \<Rightarrow> files \<Rightarrow> bool \<times> files" where
  "process_media_chunk ce sender plaintext c files =
     (case value_from_slice (ce_codecs ce) plaintext of
        Inl e \<Rightarrow> (False, files)
      | Inr payload \<Rightarrow>
          if get_str payload ''__tintin_type'' \<noteq> Some ''media_chunk'' then (False, files)
          else
            (case c_active_call c of
               None \<Rightarrow> (False, files)
             | Some call \<Rightarrow>
                 if ca_peer call \<noteq> sender then (False, files)
                 else
                   (case ca_shared_media_secret call of
                      None \<Rightarrow> (False, files)
                    | Some secret \<Rightarrow>
                        (let media_key = call_media_key (ce_prims ce) secret;
                             is_end = unwrap_or (Option.bind (json_get payload ''end_of_stream'') as_bool) False;
                             seq = u64_or_0 payload ''seq'';
                             data_b64 = str_or payload ''data'' [];
                             nonce_hex = str_or payload ''nonce'' []
                         in if is_end then (True, files)
                            else if data_b64 = [] \<or> nonce_hex = [] then (True, files)
                            else
                              (case base64_decode (ce_codecs ce) data_b64 of
                                 Inl e \<Rightarrow> (True, files)
                               | Inr ciphertext \<Rightarrow>
                                   (case hex_decode_vec (ce_codecs ce) nonce_hex of
                                      Inl e \<Rightarrow> (True, files)
                                    | Inr nonce_bytes \<Rightarrow>
                                        (case decrypt (ce_prims ce) ciphertext media_key (nonce_of nonce_bytes) of
                                           Inl e \<Rightarrow> (True, files)
                                         | Inr audio \<Rightarrow>
                                             (let out_name = ''call_media_'' @
                                                    replace_special (unicode_alphanumeric ce) sender @
                                                    ''_seq'' @ show_nat seq @ ''.raw'';
                                                  out_path = path_join (recordings_dir (ce_storage ce)) out_name
                                              in (True, write_file (ce_storage ce) out_path
                                                    (map (\<lambda>x. char_of (unat x)) audio) files)))))))))"

section \<open>A decrypted message\<close>

definition sticker_dir :: "storage \<Rightarrow> string" where
  "sticker_dir fs = path_join (tintin_dir fs) ''stickers''"

text \<open>
  Of \<open>display_decrypted\<close> the effect beside the console: the image of a custom sticker is saved under its
  name and the clock's seconds.
\<close>

definition display_decrypted :: "client_env \<Rightarrow> nat \<Rightarrow> bytes \<Rightarrow> files \<Rightarrow> files" where
  "display_decrypted ce now_secs plaintext files =
     (case value_from_slice (ce_codecs ce) plaintext of
        Inl e \<Rightarrow> files
      | Inr payload \<Rightarrow>
          if get_str payload ''__tintin_type'' = Some ''sticker'' \<and> str_or payload ''pack_id'' ''?'' = ''custom'' then
            (let sticker_name = str_or payload ''sticker_name'' ''sticker'';
                 data_b64 = str_or payload ''image_data'' []
             in if data_b64 = [] then files
                else (case base64_decode (ce_codecs ce) data_b64 of
                        Inl e \<Rightarrow> files
                      | Inr img_data \<Rightarrow>
                          write_file (ce_storage ce)
                            (path_join (sticker_dir (ce_storage ce)) (sticker_name @ ''_'' @ show_nat now_secs @ ''.jpg''))
                            (map (\<lambda>x. char_of (unat x)) img_data) files))
          else files)"

text \<open>
  What both branches of the loop do with a plaintext; only the branch of pre-key messages looks for
  audio chunks. The result of the read receipt is dropped (\<open>.ok()\<close>).
\<close>

definition handle_plaintext ::
  "client_env \<Rightarrow> 'w net \<Rightarrow> draws \<Rightarrow> bool \<Rightarrow> Envelope \<Rightarrow> bytes \<Rightarrow> 'w cstate \<Rightarrow> 'w cstate option" where
  "handle_plaintext ce net dr prekey envelope plaintext s =
     (case s of (c, files, w) \<Rightarrow>
       (let sender = env_sender_id envelope;
            (is_call_signal, c1) =
              process_call_signal (ce_prims ce) (ce_codecs ce) (dr_rng dr 0) sender plaintext c;
            files1 = (if prekey \<and> \<not> is_call_signal
                      then snd (process_media_chunk ce sender plaintext c1 files) else files)
        in case (if is_call_signal then Some (c1, files1)
                 else (case process_file_chunk (ce_codecs ce) (ce_storage ce) sender plaintext (c1, files1) of
                         None \<Rightarrow> None
                       | Some (handled, c', files') \<Rightarrow>
                           Some (if handled then (c', files')
                                 else record_decrypted (ce_codecs ce) (ce_storage ce) (dr_millis dr 0) sender plaintext
                                        (c', display_decrypted ce (dr_millis dr 2 div 1000) plaintext files')))) of
             None \<Rightarrow> None
           | Some (c2, files2) \<Rightarrow>
               Some (c2, files2,
                 snd (send_receipt ce net (dr_millis dr 1) sender sender (env_timestamp envelope) Read c2 w))))"

section \<open>The status of a sent message\<close>

fun update_first :: "('a \<Rightarrow> bool) \<Rightarrow> ('a \<Rightarrow> 'a) \<Rightarrow> 'a list \<Rightarrow> 'a list" where
  "update_first P f [] = []"
| "update_first P f (x # xs) = (if P x then f x # xs else x # update_first P f xs)"

text \<open>The history is saved when the text of the message found is not empty.\<close>

definition apply_receipt ::
  "client_env \<Rightarrow> string \<Rightarrow> ReceiptContent \<Rightarrow> TinTinClient \<times> files \<Rightarrow> TinTinClient \<times> files" where
  "apply_receipt ce sender receipt cf =
     (case cf of (c, files) \<Rightarrow>
       (let matching = (\<lambda>m. sm_recipient m = sender \<and> SentMessage.sm_timestamp m = rc_original_timestamp receipt);
            status = (case rc_receipt_type receipt of Delivery \<Rightarrow> Delivered | Read \<Rightarrow> ReadStatus);
            found_text = (case find matching (c_sent_messages c) of None \<Rightarrow> [] | Some m \<Rightarrow> sm_text m);
            c' = c\<lparr>c_sent_messages := update_first matching (\<lambda>m. m\<lparr>sm_status := status\<rparr>) (c_sent_messages c)\<rparr>
        in (c', if found_text \<noteq> [] then save_history (ce_storage ce) c' files else files)))"

section \<open>The loop\<close>

text \<open>\<open>Inl\<close> is an error that leaves the loop by \<open>?\<close>; a message that is only reported is \<open>Inr\<close>.\<close>

definition receive_prekey ::
  "client_env \<Rightarrow> 'w net \<Rightarrow> draws \<Rightarrow> Envelope \<Rightarrow> 'w cstate \<Rightarrow> ((string + unit) \<times> 'w cstate) option" where
  "receive_prekey ce net dr envelope s =
     (case s of (c, files, w) \<Rightarrow>
       (case prekey_from_slice ce (env_content envelope) of
          Inl e \<Rightarrow> Some (Inl e, s)
        | Inr prekey \<Rightarrow>
            (case Session_new_responder (ce_prims ce) (c_identity c) (env_sender_id envelope)
                    (env_sender_device_id envelope) (pkm_identity_key prekey) (pkm_base_key prekey)
                    (c_signed_pre_key c) of
               None \<Rightarrow> None
             | Some (Inl e) \<Rightarrow> Some (Inl (error_message e), s)
             | Some (Inr new_session) \<Rightarrow>
                 (case Session_decrypt (ce_prims ce) new_session (pkm_session_message prekey) of
                    None \<Rightarrow> None
                  | Some (Inl e, _) \<Rightarrow> Some (Inr (), s)
                  | Some (Inr plaintext, session) \<Rightarrow>
                      map_option (\<lambda>s'. (Inr (), s'))
                        (handle_plaintext ce net dr True envelope plaintext
                           (c\<lparr>c_sessions := SessionStore_add session (c_sessions c)\<rparr>, files, w))))))"

definition receive_normal ::
  "client_env \<Rightarrow> 'w net \<Rightarrow> draws \<Rightarrow> Envelope \<Rightarrow> 'w cstate \<Rightarrow> ((string + unit) \<times> 'w cstate) option" where
  "receive_normal ce net dr envelope s =
     (case s of (c, files, w) \<Rightarrow>
       if env_sender_id envelope = c_user_id c then
         (let (c', files') = record_message (ce_storage ce) (dr_millis dr 0) (c_user_id c)
                (from_utf8_lossy (env_content envelope)) False False None False None (c, files)
          in Some (Inr (), c', files', w))
       else
         (case SessionMessage_from_json (ce_wire ce) (env_content envelope) of
            Inl e \<Rightarrow> Some (Inr (), s)
          | Inr session_msg \<Rightarrow>
              (case SessionStore_get_mut (c_sessions c) (env_sender_id envelope) 1 of
                 None \<Rightarrow> Some (Inr (), s)
               | Some (session, put) \<Rightarrow>
                   (case Session_decrypt (ce_prims ce) session session_msg of
                      None \<Rightarrow> None
                    | Some (r, session') \<Rightarrow>
                        (let s' = (c\<lparr>c_sessions := put session'\<rparr>, files, w)
                         in case r of
                              Inl e \<Rightarrow> Some (Inr (), s')
                            | Inr plaintext \<Rightarrow>
                                map_option (\<lambda>s''. (Inr (), s''))
                                  (handle_plaintext ce net dr False envelope plaintext s'))))))"

definition receive_message ::
  "client_env \<Rightarrow> 'w net \<Rightarrow> draws \<Rightarrow> Envelope \<Rightarrow> 'w cstate \<Rightarrow> ((string + unit) \<times> 'w cstate) option" where
  "receive_message ce net dr envelope s =
     (case env_msg_type envelope of
        PreKeyBundleType \<Rightarrow> receive_prekey ce net dr envelope s
      | Normal \<Rightarrow> receive_normal ce net dr envelope s
      | Receipt \<Rightarrow>
          (case receipt_from_slice (ce_wire ce) (env_content envelope) of
             Inl e \<Rightarrow> Some (Inr (), s)
           | Inr receipt \<Rightarrow>
               (case s of (c, files, w) \<Rightarrow>
                 (let (c', files') = apply_receipt ce (env_sender_id envelope) receipt (c, files)
                  in Some (Inr (), c', files', w))))
      | Typing \<Rightarrow> Some (Inr (), s))"

primrec receive_loop ::
  "client_env \<Rightarrow> 'w net \<Rightarrow> (nat \<Rightarrow> draws) \<Rightarrow> nat \<Rightarrow> json list \<Rightarrow> 'w cstate \<Rightarrow>
   ((string + unit) \<times> 'w cstate) option" where
  "receive_loop ce net drs i [] s = Some (Inr (), s)"
| "receive_loop ce net drs i (v # vs) s =
     (case envelope_from_value ce v of
        Inl e \<Rightarrow> Some (Inl e, s)
      | Inr envelope \<Rightarrow>
          (case receive_message ce net (drs i) envelope s of
             None \<Rightarrow> None
           | Some (Inl e, s') \<Rightarrow> Some (Inl e, s')
           | Some (Inr _, s') \<Rightarrow> receive_loop ce net drs (Suc i) vs s'))"

definition receive_messages ::
  "client_env \<Rightarrow> 'w net \<Rightarrow> (nat \<Rightarrow> draws) \<Rightarrow> 'w cstate \<Rightarrow> ((string + unit) \<times> 'w cstate) option" where
  "receive_messages ce net drs s =
     (case s of (c, files, w) \<Rightarrow>
       (let request = JObject [(''cmd'', JString ''receive''), (''user_id'', JString (c_user_id c))]
        in case net request w of
             (Inl e, w') \<Rightarrow> Some (Inl e, c, files, w')
           | (Inr resp, w') \<Rightarrow>
               if \<not> resp_ok resp
               then Some (Inl (''Receive failed: '' @ show_value ce (json_index resp ''error'')), c, files, w')
               else receive_loop ce net drs 0
                      (unwrap_or (as_array (json_index (json_index resp ''data'') ''messages'')) []) (c, files, w')))"

end
