(* ===== verification/Client_Relay.thy ===== *)
theory Client_Relay
  imports Cli_Connection Cli_Receive Core_Properties Message_Properties
begin

text \<open>
  The client connected to the server: the network function of the client is the connection loop of the
  server on the one line a request is (\<open>send_json\<close> and \<open>recv_json\<close> of \<open>tintin-cli/src/main.rs\<close> against
  \<open>handle_client\<close> of \<open>tintin-server/src/main.rs\<close>).
\<close>

section \<open>JSON objects by their keys\<close>

text \<open>
  \<open>serde_json\<close> keeps objects sorted by key; \<open>jnorm\<close> is that representation. A value without floating
  point numbers, without repeated keys and with its integers in range is printed and read back.
\<close>

fun jnorm :: "json \<Rightarrow> json" where
  "jnorm (JObject kvs) = JObject (sort_key fst (map (\<lambda>kv. (fst kv, jnorm (snd kv))) kvs))"
| "jnorm (JArray vs) = JArray (map jnorm vs)"
| "jnorm v = v"

fun jvalid :: "json \<Rightarrow> bool" where
  "jvalid (JObject kvs) \<longleftrightarrow> distinct (map fst kvs) \<and> (\<forall>kv\<in>set kvs. jvalid (snd kv))"
| "jvalid (JArray vs) \<longleftrightarrow> (\<forall>v\<in>set vs. jvalid v)"
| "jvalid (JNumber n) \<longleftrightarrow> - (2 ^ 63) \<le> n \<and> n < 2 ^ 64"
| "jvalid (JFloat s) \<longleftrightarrow> False"
| "jvalid v \<longleftrightarrow> True"

lemma map_of_sort_key:
  "distinct (map fst kvs) \<Longrightarrow> map_of (sort_key fst kvs) = map_of (kvs :: (string \<times> 'a) list)"
  by (subst map_of_inject_set) (simp_all add: distinct_map)

lemma json_get_jnorm: "jvalid v \<Longrightarrow> json_get (jnorm v) k = map_option jnorm (json_get v k)"
proof (cases v)
  case (JObject kvs)
  assume "jvalid v"
  then have "distinct (map fst (map (\<lambda>kv. (fst kv, jnorm (snd kv))) kvs))"
    by (simp add: JObject comp_def)
  from map_of_sort_key [OF this] show ?thesis
    using map_of_map [of jnorm kvs] by (simp add: JObject case_prod_unfold)
qed simp_all

lemma json_index_jnorm: "jvalid v \<Longrightarrow> json_index (jnorm v) k = jnorm (json_index v k)"
  by (simp add: json_index_def json_get_jnorm split: option.split)

lemma jvalid_index: "jvalid v \<Longrightarrow> jvalid (json_index v k)"
  by (cases v) (auto simp: json_index_def split: option.split dest: map_of_SomeD)

lemma as_str_jnorm: "as_str (jnorm v) = as_str v"
  by (cases v) simp_all

lemma get_str_jnorm: "jvalid v \<Longrightarrow> get_str (jnorm v) k = get_str v k"
  by (simp add: get_str_def json_get_jnorm as_str_jnorm bind_map_option comp_def split: option.split)

lemma jvalid_bytes_json: "jvalid (bytes_json bs)"
proof -
  have "uint b < 2 ^ 64" for b :: u8
    using uint_lt2p [of b] by simp
  moreover have "- (2 ^ 63) \<le> uint b" for b :: u8
    using order_trans [OF _ uint_ge_0 [of b], of "- (2 ^ 63)"] by simp
  ultimately show ?thesis by (auto simp: bytes_json_def)
qed

section \<open>The network\<close>

text \<open>The text of a response: \<open>skip_serializing_if\<close> leaves out the fields that are \<open>None\<close>.\<close>

definition response_value :: "ServerResponse \<Rightarrow> json" where
  "response_value r =
     JObject ([(''status'', JString (sr_status r))] @
              (case sr_data r of None \<Rightarrow> [] | Some d \<Rightarrow> [(''data'', d)]) @
              (case sr_error r of None \<Rightarrow> [] | Some e \<Rightarrow> [(''error'', JString e)]))"

text \<open>
  The socket between the two programs: what the client writes is a line the server reads, the answers of
  the server wait in the socket until the client reads them, and a stream without answers is at its end.
\<close>

definition relay_socket :: "server \<Rightarrow> (nat \<Rightarrow> env) \<Rightarrow> (db \<times> string list) socket" where
  "relay_socket sv evs =
     \<lparr>tcp_connect = (\<lambda>addr w. (Inr (), w)),
      sock_write = (\<lambda>t (st, waiting).
        (case handle_client sv (\<lambda>_. evs) 0 [Line t] st of (answers, st') \<Rightarrow> (Inr (), st', waiting @ answers))),
      sock_read_line = (\<lambda>(st, waiting).
        (case waiting of [] \<Rightarrow> (Inr [], st, []) | line # rest \<Rightarrow> (Inr line, st, rest)))\<rparr>"

text \<open>One exchange with the server.\<close>

definition relay_net :: "client_env \<Rightarrow> server \<Rightarrow> (nat \<Rightarrow> env) \<Rightarrow> db net" where
  "relay_net ce sv evs request st =
     (case exchange ce (value_from_str sv) (Some (relay_socket sv evs)) request (st, []) of (r, st', waiting) \<Rightarrow> (r, st'))"

lemmas exchange_defs = relay_net_def exchange_def send_json_def recv_json_def relay_socket_def

text \<open>
  What the two programs rely on in \<open>serde_json\<close>: the text of a value is one line without surrounding
  blanks and parses to the value; the derived serializers and deserializers of a type are inverse; and
  a command struct is read from the object with its fields. Both programs use the same core library.
\<close>

definition one_line :: "string \<Rightarrow> bool" where
  "one_line t \<longleftrightarrow> t \<noteq> [] \<and> CHR 0x0A \<notin> set t \<and> trim (t @ [CHR 0x0A]) = t"

definition json_codec :: "client_env \<Rightarrow> server \<Rightarrow> bool" where
  "json_codec ce sv \<longleftrightarrow>
     (\<forall>v. jvalid v \<longrightarrow> (\<exists>t. value_to_string ce v = Inr t \<and> one_line t \<and> value_from_str sv t = Inr (jnorm v))) \<and>
     (\<forall>r. jvalid (response_value r) \<longrightarrow>
        (\<exists>t. response_to_string sv r = Inr t \<and> one_line t \<and> value_from_str sv t = Inr (jnorm (response_value r))))"

definition struct_codec :: "client_env \<Rightarrow> server \<Rightarrow> bool" where
  "struct_codec ce sv \<longleftrightarrow>
     ce_wire ce = codec sv \<and> wire_codec (codec sv) \<and>
     (\<forall>b. jvalid (bundle_to_value ce b)) \<and> (\<forall>e. jvalid (envelope_to_value (codec sv) e)) \<and>
     (\<forall>b. \<exists>t v. bundle_to_string sv b = Inr t \<and> value_from_str sv t = Inr v \<and> jvalid v \<and>
        bundle_from_value ce (jnorm v) = Inr b) \<and>
     (\<forall>e. envelope_from_value ce (jnorm (envelope_to_value (codec sv) e)) = Inr e) \<and>
     (\<forall>m. \<exists>b. prekey_to_vec ce m = Inr b \<and> prekey_from_slice ce b = Inr m)"

definition command_codec :: "client_env \<Rightarrow> server \<Rightarrow> bool" where
  "command_codec ce sv \<longleftrightarrow>
     (\<forall>u k b. length k = 32 \<longrightarrow>
        RegisterCmd_from_value (dec sv) (jnorm (JObject [(''cmd'', JString ''register''), (''user_id'', JString u),
          (''identity_key'', bytes_json k), (''signed_pre_key'', bundle_to_value ce b)])) =
        Inr \<lparr>rg_cmd = ''register'', rg_user_id = u, rg_identity_key = k, rg_signed_pre_key = b\<rparr>) \<and>
     (\<forall>u. FetchKeysCmd_from_value (dec sv) (jnorm (JObject [(''cmd'', JString ''fetch_keys''), (''user_id'', JString u)])) =
        Inr \<lparr>fk_cmd = ''fetch_keys'', fk_user_id = u\<rparr>) \<and>
     (\<forall>e. SendCmd_from_value (dec sv) (jnorm (JObject [(''cmd'', JString ''send''),
          (''envelope'', envelope_to_value (codec sv) e)])) =
        Inr \<lparr>sn_cmd = ''send'', sn_envelope = e\<rparr>) \<and>
     (\<forall>u. ReceiveCmd_from_value (dec sv) (jnorm (JObject [(''cmd'', JString ''receive''), (''user_id'', JString u)])) =
        Inr \<lparr>rv_cmd = ''receive'', rv_user_id = u\<rparr>)"

lemma relay_net_command:
  assumes "json_codec ce sv" and "jvalid request" and "get_str request ''cmd'' = Some c"
    and "dispatch sv evs c (jnorm request) st = Some (resp, st')" and "jvalid (response_value resp)"
  shows "relay_net ce sv evs request st = (Inr (jnorm (response_value resp)), st')"
proof -
  obtain t where t: "value_to_string ce request = Inr t" "one_line t" "value_from_str sv t = Inr (jnorm request)"
    using assms(1,2) by (auto simp: json_codec_def)
  obtain a where a: "response_to_string sv resp = Inr a" "one_line a" "value_from_str sv a = Inr (jnorm (response_value resp))"
    using assms(1,5) by (auto simp: json_codec_def)
  have "handle_command sv evs t st = Some (resp, st')"
    using t assms(2-4) by (simp add: handle_command_def get_str_jnorm)
  with t a show ?thesis by (auto simp: exchange_defs one_line_def)
qed

lemma resp_ok_jnorm:
  "jvalid (response_value r) \<Longrightarrow> resp_ok (jnorm (response_value r)) \<longleftrightarrow> sr_status r = ''ok''"
proof -
  assume "jvalid (response_value r)"
  moreover have "json_index (response_value r) ''status'' = JString (sr_status r)"
    by (simp add: response_value_def json_index_def)
  ultimately show ?thesis by (simp add: resp_ok_def json_index_jnorm)
qed

lemma data_jnorm:
  assumes "jvalid d"
  shows "jvalid (response_value (ok_response (Some d)))"
    "json_index (jnorm (response_value (ok_response (Some d)))) k = (if k = ''data'' then jnorm d
       else if k = ''status'' then JString ''ok'' else JNull)"
    "resp_ok (jnorm (response_value (ok_response (Some d))))"
proof -
  show v: "jvalid (response_value (ok_response (Some d)))"
    using assms by (simp add: response_value_def ok_response_def)
  show "json_index (jnorm (response_value (ok_response (Some d)))) k = (if k = ''data'' then jnorm d
       else if k = ''status'' then JString ''ok'' else JNull)"
    using json_index_jnorm [OF v] by (simp add: json_index_def response_value_def ok_response_def)
  show "resp_ok (jnorm (response_value (ok_response (Some d))))"
    using resp_ok_jnorm [OF v] by (simp add: ok_response_def)
qed

section \<open>One request\<close>

definition relay_laws :: "client_env \<Rightarrow> server \<Rightarrow> (nat \<Rightarrow> env) \<Rightarrow> bool" where
  "relay_laws ce sv evs \<longleftrightarrow> json_codec ce sv \<and> struct_codec ce sv \<and> command_codec ce sv \<and> no_faults (evs 0)"

lemma relay_lawsD:
  assumes "relay_laws ce sv evs"
  shows "json_codec ce sv" "struct_codec ce sv" "command_codec ce sv" "no_faults (evs 0)"
    "ce_wire ce = codec sv" "wire_codec (codec sv)"
  using assms by (simp_all add: relay_laws_def struct_codec_def)

text \<open>The relay has the bundle in the user's row.\<close>

definition published :: "server \<Rightarrow> PreKeyBundle \<Rightarrow> string \<Rightarrow> db \<Rightarrow> bool" where
  "published sv b u st \<longleftrightarrow>
     (\<exists>row. lookup_key u_user_id (t_users st) u = Some row \<and> bundle_to_string sv b = Inr (u_signed_pre_key row))"

lemma relay_register:
  assumes "relay_laws ce sv evs" and "length (public_key (c_identity c)) = 32"
  shows "\<exists>b. register ce (relay_net ce sv evs) c st =
      (Inr (), snd (register_user (evs 0) (c_user_id c) (public_key (c_identity c)) b st)) \<and>
    published sv (own_bundle c) (c_user_id c)
      (snd (register_user (evs 0) (c_user_id c) (public_key (c_identity c)) b st))"
proof -
  note laws = relay_lawsD [OF assms(1)]
  obtain t where t: "bundle_to_string sv (own_bundle c) = Inr t"
    using laws(2) unfolding struct_codec_def by blast
  let ?req = "JObject [(''cmd'', JString ''register''), (''user_id'', JString (c_user_id c)),
    (''identity_key'', bytes_json (public_key (c_identity c))), (''signed_pre_key'', bundle_to_value ce (own_bundle c))]"
  let ?st = "snd (register_user (evs 0) (c_user_id c) (public_key (c_identity c)) t st)"
  let ?d = "JObject [(''user_id'', JString (c_user_id c))]"
  have "jvalid ?req" using laws(2) by (simp add: struct_codec_def jvalid_bytes_json)
  moreover have "get_str ?req ''cmd'' = Some ''register''" by (simp add: get_str_def)
  moreover have "dispatch sv evs ''register'' (jnorm ?req) st = Some (ok_response (Some ?d), ?st)"
    using laws(3,4) assms(2) t
    by (simp add: dispatch_def handle_register_def command_codec_def unwrap_or_default_def register_user_def del: jnorm.simps)
  ultimately have "relay_net ce sv evs ?req st = (Inr (jnorm (response_value (ok_response (Some ?d)))), ?st)"
    using relay_net_command [OF laws(1)] data_jnorm(1) [of ?d] by simp
  then have "register ce (relay_net ce sv evs) c st = (Inr (), ?st)"
    using data_jnorm(3) [of ?d] by (simp add: register_def)
  moreover have "published sv (own_bundle c) (c_user_id c) ?st"
    using t laws(4) by (simp add: published_def register_user_def lookup_insert_or_replace)
  ultimately show ?thesis by blast
qed

lemma relay_fetch_bundle:
  assumes "relay_laws ce sv evs" and "published sv b u st"
  shows "fetch_bundle ce (relay_net ce sv evs) u st = (Inr b, st)"
proof -
  note laws = relay_lawsD [OF assms(1)]
  obtain row t where row: "lookup_key u_user_id (t_users st) u = Some row" "u_signed_pre_key row = t"
    and t: "bundle_to_string sv b = Inr t"
    using assms(2) by (auto simp: published_def)
  obtain v where v: "value_from_str sv t = Inr v" "jvalid v" "bundle_from_value ce (jnorm v) = Inr b"
  proof -
    obtain t' v where "bundle_to_string sv b = Inr t'" "value_from_str sv t' = Inr v" "jvalid v"
      "bundle_from_value ce (jnorm v) = Inr b"
      using laws(2) unfolding struct_codec_def by blast
    with t that show thesis by simp
  qed
  let ?req = "JObject [(''cmd'', JString ''fetch_keys''), (''user_id'', JString u)]"
  let ?d = "JObject [(''identity_key'', bytes_json (u_identity_key row)), (''signed_pre_key'', v)]"
  have d: "jvalid ?d" using v(2) by (simp add: jvalid_bytes_json)
  have "get_key_bundle (value_from_str sv) (evs 0) u st = (Inr (Some ?d), st)"
    using row v(1) laws(4) by (simp add: get_key_bundle_def Let_def)
  then have "dispatch sv evs ''fetch_keys'' (jnorm ?req) st = Some (ok_response (Some ?d), st)"
    using laws(3) by (simp add: dispatch_def handle_fetch_keys_def command_codec_def del: jnorm.simps)
  moreover have "jvalid ?req" "get_str ?req ''cmd'' = Some ''fetch_keys''" by (simp_all add: get_str_def)
  ultimately have "relay_net ce sv evs ?req st = (Inr (jnorm (response_value (ok_response (Some ?d)))), st)"
    using relay_net_command [OF laws(1)] data_jnorm(1) [OF d] by blast
  moreover have "json_index (jnorm ?d) ''signed_pre_key'' = jnorm v"
    using json_index_jnorm [OF d] by (simp add: json_index_def)
  ultimately show ?thesis
    using data_jnorm(2,3) [OF d] v(3) by (simp add: fetch_bundle_def del: jnorm.simps)
qed

lemma relay_send:
  assumes "relay_laws ce sv evs" and "queue_message (codec sv) (evs 0) e st = (Inr (), st')"
  shows "\<exists>resp. relay_net ce sv evs (JObject [(''cmd'', JString ''send''),
      (''envelope'', envelope_to_value (codec sv) e)]) st = (Inr resp, st') \<and> resp_ok resp"
proof -
  note laws = relay_lawsD [OF assms(1)]
  let ?req = "JObject [(''cmd'', JString ''send''), (''envelope'', envelope_to_value (codec sv) e)]"
  let ?d = "JObject [(''queued_for'', JString (env_recipient_id e))]"
  have "jvalid ?req" "get_str ?req ''cmd'' = Some ''send''"
    using laws(2) by (simp_all add: get_str_def struct_codec_def)
  moreover have "dispatch sv evs ''send'' (jnorm ?req) st = Some (ok_response (Some ?d), st')"
    using laws(3) assms(2) by (simp add: dispatch_def handle_send_def command_codec_def del: jnorm.simps)
  ultimately show ?thesis
    using relay_net_command [OF laws(1)] data_jnorm(1,3) [of ?d] by simp
qed

lemma relay_receive:
  assumes "relay_laws ce sv evs" and "fetch_messages (codec sv) (evs 0) u st = (Inr es, st')"
  shows "\<exists>resp. relay_net ce sv evs (JObject [(''cmd'', JString ''receive''), (''user_id'', JString u)]) st = (Inr resp, st') \<and>
    resp_ok resp \<and> as_array (json_index (json_index resp ''data'') ''messages'') =
      Some (map (\<lambda>e. jnorm (envelope_to_value (codec sv) e)) es)"
proof -
  note laws = relay_lawsD [OF assms(1)]
  let ?req = "JObject [(''cmd'', JString ''receive''), (''user_id'', JString u)]"
  let ?d = "JObject [(''messages'', JArray (map (envelope_to_value (codec sv)) es))]"
  have d: "jvalid ?d" using laws(2) by (simp add: struct_codec_def)
  have "jvalid ?req" "get_str ?req ''cmd'' = Some ''receive''" by (simp_all add: get_str_def)
  moreover have "dispatch sv evs ''receive'' (jnorm ?req) st = Some (ok_response (Some ?d), st')"
    using laws(3) assms(2) by (simp add: dispatch_def handle_receive_def command_codec_def del: jnorm.simps)
  ultimately have "relay_net ce sv evs ?req st = (Inr (jnorm (response_value (ok_response (Some ?d)))), st')"
    using relay_net_command [OF laws(1)] data_jnorm(1) [OF d] by blast
  moreover have "json_index (jnorm ?d) ''messages'' = JArray (map (\<lambda>e. jnorm (envelope_to_value (codec sv) e)) es)"
    using json_index_jnorm [OF d] by (simp add: json_index_def comp_def)
  ultimately show ?thesis using data_jnorm(2,3) [OF d] by simp
qed

section \<open>The first message\<close>

text \<open>The cipher seals every text of reasonable length.\<close>

definition aead_total :: "prims \<Rightarrow> bool" where
  "aead_total pr \<longleftrightarrow> (\<forall>k n p. length p < 2 ^ 32 \<longrightarrow> (\<exists>c. chacha_encrypt pr k n p = Inr c))"

text \<open>The keys of a client are made by the generators.\<close>

definition client_keys :: "prims \<Rightarrow> TinTinClient \<Rightarrow> bool" where
  "client_keys pr c \<longleftrightarrow> length (public_key (c_identity c)) = 32 \<and>
     kp_public (spk_key_pair (c_signed_pre_key c)) = x25519_public pr (kp_secret (spk_key_pair (c_signed_pre_key c)))"

lemma TinTinClient_new_keys: "prims_sized pr \<Longrightarrow> client_keys pr (TinTinClient_new pr fs r1 r2 files u)"
  by (simp add: client_keys_def TinTinClient_new_def Let_def load_chat_log_def load_channels_def load_groups_def
      load_history_def IdentityKeyPair_generate_def public_key_def SignedPreKey_generate_def KeyPair_generate_def
      prims_sized_def)

lemma find_append_last: "(\<And>x. x \<in> set xs \<Longrightarrow> \<not> P x) \<Longrightarrow> P y \<Longrightarrow> find P (xs @ [y]) = Some y"
  by (induction xs) auto

lemma SessionStore_get_add:
  "session_key a = (u, d) \<Longrightarrow> SessionStore_get (SessionStore_add a st) u d = Some a"
  unfolding SessionStore_get_def SessionStore_add_def session_key_def
  by (auto intro!: find_append_last)

lemma send_message_sent:
  assumes "r \<noteq> c_user_id c" and "send_encrypted ce net dr r text (c, files, w) = Some (Inr (content, ty), c1, files1, w1)"
    and "net (JObject [(''cmd'', JString ''send''), (''envelope'', envelope_to_value (ce_wire ce)
           (Envelope_new (dr_millis dr 0) (c_user_id c1) r content ty))]) w1 = (Inr resp, w2)" and "resp_ok resp"
  shows "\<exists>c' files'. send_message ce net dr r text (c, files, w) = Some (Inr (), c', files', w2) \<and>
    c_user_id c' = c_user_id c1 \<and> c_sessions c' = c_sessions c1 \<and> c_identity c' = c_identity c1 \<and>
    c_sent_messages c' = c_sent_messages c1 @ [\<lparr>sm_recipient = r, sm_text = text,
      sm_timestamp = word_of_nat (dr_millis dr 0), sm_status = Sent, sm_edited = False\<rparr>]"
  using assms by (simp add: send_message_def Let_def record_message_def Envelope_new_def)

lemma first_send:
  assumes laws: "relay_laws ce sv evs" and "hkdf_total (ce_prims ce)" and "aead_total (ce_prims ce)"
    and "dh_commutes (ce_prims ce)" and "client_keys (ce_prims ce) cb"
    and "published sv (own_bundle cb) bob st" and "bob \<noteq> c_user_id ca"
    and "SessionStore_get (c_sessions ca) bob 1 = None"
    and "length text < 2 ^ 32" and "auto_seq (t_messages st) < i64_max"
  shows "\<exists>a b m a' content ca' files' st'.
    handshake (ce_prims ce) (dr_rng dr 0) (c_identity ca) (c_identity cb) (c_signed_pre_key cb) (c_user_id ca, bob) = Some (a, b) \<and>
    Session_encrypt (ce_prims ce) a (dr_nonce dr) (as_bytes text) = Some (Inr m, a') \<and>
    prekey_from_slice ce content = Inr \<lparr>pkm_identity_key = public_key (c_identity ca),
      pkm_base_key = kp_public (r_dh_ratchet_key (s_ratchet a)), pkm_session_message = m\<rparr> \<and>
    queue_message (codec sv) (evs 0) (Envelope_new (dr_millis dr 0) (c_user_id ca) bob content PreKeyBundleType) st = (Inr (), st') \<and>
    send_message ce (relay_net ce sv evs) dr bob text (ca, files, st) = Some (Inr (), ca', files', st') \<and>
    c_user_id ca' = c_user_id ca \<and> SessionStore_get (c_sessions ca') bob 1 = Some a' \<and>
    c_sent_messages ca' = c_sent_messages ca @ [\<lparr>sm_recipient = bob, sm_text = text,
      sm_timestamp = word_of_nat (dr_millis dr 0), sm_status = Sent, sm_edited = False\<rparr>]"
proof -
  let ?pr = "ce_prims ce" and ?net = "relay_net ce sv evs"
  note D = relay_lawsD [OF laws]
  obtain a b where hs: "handshake ?pr (dr_rng dr 0) (c_identity ca) (c_identity cb) (c_signed_pre_key cb) (c_user_id ca, bob) = Some (a, b)"
    using handshake_completes [OF assms(4,2)] assms(5) unfolding client_keys_def by blast
  note ini = handshake_SomeD(1) [OF hs, simplified]
  have num: "r_send_msg_number (s_ratchet a) = 0" and key: "session_key a = (bob, 1)"
    using Session_new_initiator_InrD [OF ini] by metis+
  have "length (as_bytes text) < 2 ^ 32" using assms(9) by (simp add: as_bytes_def)
  then obtain c where ch: "chacha_encrypt ?pr (message_key ?pr (r_send_chain_key (s_ratchet a))) (dr_nonce dr) (as_bytes text) = Inr c"
    using assms(3) unfolding aead_total_def by blast
  have "\<not> overflow_checks ?pr \<or> unat (r_send_msg_number (s_ratchet a)) \<noteq> 2 ^ 32 - 1" using num by simp
  from session_send_ready [OF this ch]
  obtain m a' where enc: "Session_encrypt ?pr a (dr_nonce dr) (as_bytes text) = Some (Inr m, a')" .
  let ?pk = "\<lparr>pkm_identity_key = public_key (c_identity ca), pkm_base_key = kp_public (r_dh_ratchet_key (s_ratchet a)),
    pkm_session_message = m\<rparr>"
  obtain content where content: "prekey_to_vec ce ?pk = Inr content" "prekey_from_slice ce content = Inr ?pk"
    using D(2) unfolding struct_codec_def by blast
  let ?c0 = "ca\<lparr>c_sessions := SessionStore_add a (c_sessions ca)\<rparr>"
  have "get_or_create_session ce ?net dr bob (ca, files, st) = Some (Inr True, ?c0, files, st)"
    using assms(8) ini relay_fetch_bundle [OF laws assms(6)]
    by (simp add: get_or_create_session_def SessionStore_get_mut_def own_bundle_def)
  moreover have "\<exists>sessions. encrypt_in_store ?pr (dr_nonce dr) bob (as_bytes text) (SessionStore_add a (c_sessions ca))
      = Some (Inr m, a', sessions)"
    using enc by (simp add: encrypt_in_store_def SessionStore_get_mut_def SessionStore_get_add [OF key])
  then obtain sessions where
    es: "encrypt_in_store ?pr (dr_nonce dr) bob (as_bytes text) (SessionStore_add a (c_sessions ca)) = Some (Inr m, a', sessions)"
    by blast
  moreover have "kp_public (r_dh_ratchet_key (s_ratchet a')) = kp_public (r_dh_ratchet_key (s_ratchet a))"
    using Session_encrypt_dh [OF enc] by simp
  ultimately have se: "send_encrypted ce ?net dr bob text (ca, files, st) =
      Some (Inr (content, PreKeyBundleType), ?c0\<lparr>c_sessions := sessions\<rparr>, files, st)"
    using content(1) by (simp add: send_encrypted_def seal_for_def Let_def)
  let ?env = "Envelope_new (dr_millis dr 0) (c_user_id ca) bob content PreKeyBundleType"
  obtain st' where q: "queue_message (codec sv) (evs 0) ?env st = (Inr (), st')"
    using queue_message_total [OF D(4) assms(10)] by blast
  obtain resp where "?net (JObject [(''cmd'', JString ''send''), (''envelope'', envelope_to_value (codec sv) ?env)]) st = (Inr resp, st')"
    "resp_ok resp"
    using relay_send [OF laws q] by blast
  from send_message_sent [OF assms(7) se, unfolded D(5), simplified, OF this] obtain ca' files' where
    "send_message ce ?net dr bob text (ca, files, st) = Some (Inr (), ca', files', st')"
    "c_user_id ca' = c_user_id ca" "c_sessions ca' = sessions"
    "c_sent_messages ca' = c_sent_messages ca @ [\<lparr>sm_recipient = bob, sm_text = text,
      sm_timestamp = word_of_nat (dr_millis dr 0), sm_status = Sent, sm_edited = False\<rparr>]"
    by auto
  with hs enc content(2) q encrypt_in_store_keeps [OF es] show ?thesis by blast
qed

section \<open>Receiving it\<close>

text \<open>A text that is not one of the client's tagged payloads, and is UTF-8.\<close>

definition plain_text :: "client_env \<Rightarrow> string \<Rightarrow> bool" where
  "plain_text ce text \<longleftrightarrow>
     (\<forall>v. value_from_slice (ce_codecs ce) (as_bytes text) = Inr v \<longrightarrow> get_str v ''__tintin_type'' = None) \<and>
     from_utf8_lossy (as_bytes text) = text"

definition incoming :: "string \<Rightarrow> string \<Rightarrow> nat \<Rightarrow> MessageRecord" where
  "incoming sender text now =
     \<lparr>mr_peer = sender, mr_text = text, mr_timestamp = word_of_nat now, mr_direction = Incoming, mr_is_group = False,
      mr_group_name = None, mr_is_channel = False, mr_channel_name = None, mr_edited = False\<rparr>"

lemma handle_plain_text:
  assumes "plain_text ce text"
  shows "\<exists>c' files'. handle_plaintext ce net dr prekey e (as_bytes text) (c, files, w) =
      Some (c', files', snd (send_receipt ce net (dr_millis dr 1) (env_sender_id e) (env_sender_id e) (env_timestamp e) Read c' w)) \<and>
    c' = c\<lparr>c_chat_log := c_chat_log c @ [incoming (env_sender_id e) text (dr_millis dr 0)]\<rparr>"
proof (cases "value_from_slice (ce_codecs ce) (as_bytes text)")
  case (Inl err)
  then show ?thesis
    using assms by (simp add: handle_plaintext_def process_call_signal_def process_media_chunk_def process_file_chunk_def
        display_decrypted_def record_decrypted_def log_fields_def record_message_def plain_text_def incoming_def Let_def)
next
  case (Inr v)
  then have "get_str v ''__tintin_type'' = None" using assms by (simp add: plain_text_def)
  with Inr show ?thesis
    using assms by (simp add: handle_plaintext_def process_call_signal_def process_media_chunk_def process_file_chunk_def
        display_decrypted_def record_decrypted_def log_fields_def record_message_def plain_text_def incoming_def Let_def)
qed

lemma relay_receipt:
  assumes laws: "relay_laws ce sv evs" and "auto_seq (t_messages st) < i64_max"
  shows "\<exists>b st'. receipt_from_slice (codec sv) b = Inr \<lparr>rc_receipt_type = ty, rc_original_sender = os, rc_original_timestamp = ots\<rparr> \<and>
    send_receipt ce (relay_net ce sv evs) now r os ots ty c st = (Inr (), st') \<and>
    queue_message (codec sv) (evs 0) (Envelope_new now (c_user_id c) r b Receipt) st = (Inr (), st')"
proof -
  note D = relay_lawsD [OF laws]
  let ?r = "\<lparr>rc_receipt_type = ty, rc_original_sender = os, rc_original_timestamp = ots\<rparr>"
  obtain b where b: "receipt_to_vec (codec sv) ?r = Inr b" "receipt_from_slice (codec sv) b = Inr ?r"
    using D(6) unfolding wire_codec_def by blast
  obtain st' where q: "queue_message (codec sv) (evs 0) (Envelope_new now (c_user_id c) r b Receipt) st = (Inr (), st')"
    using queue_message_total [OF D(4) assms(2)] by blast
  with relay_send [OF laws q] b show ?thesis
    by (auto simp: send_receipt_def D(5) Let_def)
qed

lemma relay_receive_messages:
  assumes laws: "relay_laws ce sv evs" and "fetch_messages (codec sv) (evs 0) (c_user_id c) st = (Inr es, st')"
  shows "receive_messages ce (relay_net ce sv evs) drs (c, files, st) =
    receive_loop ce (relay_net ce sv evs) drs 0 (map (\<lambda>e. jnorm (envelope_to_value (codec sv) e)) es) (c, files, st')"
  using relay_receive [OF assms] by (auto simp: receive_messages_def Let_def)

lemma receive_loop_Cons:
  assumes "relay_laws ce sv evs" and "receive_message ce net (drs i) e s = Some (Inr (), s')"
  shows "receive_loop ce net drs i (jnorm (envelope_to_value (codec sv) e) # vs) s = receive_loop ce net drs (Suc i) vs s'"
  using relay_lawsD(2) [OF assms(1)] assms(2) by (simp add: struct_codec_def)

lemma first_receive:
  assumes laws: "relay_laws ce sv evs" and "dh_commutes (ce_prims ce)" and "aead_correct (ce_prims ce)"
    and "client_keys (ce_prims ce) cb" and "plain_text ce text"
    and hs: "handshake (ce_prims ce) rng (c_identity ca) (c_identity cb) (c_signed_pre_key cb) (alice, bob) = Some (a, b)"
    and enc: "Session_encrypt (ce_prims ce) a nonce (as_bytes text) = Some (Inr m, a')"
    and pk: "prekey_from_slice ce content = Inr \<lparr>pkm_identity_key = public_key (c_identity ca),
      pkm_base_key = kp_public (r_dh_ratchet_key (s_ratchet a)), pkm_session_message = m\<rparr>"
    and "auto_seq (t_messages st) < i64_max" and "c_user_id cb = bob"
    and e_def: "e = Envelope_new now alice bob content PreKeyBundleType"
  shows "\<exists>b' cb' files' c st'.
    receive_message ce (relay_net ce sv evs) dr e (cb, files, st) = Some (Inr (), cb', files', st') \<and>
    receipt_from_slice (codec sv) c = Inr \<lparr>rc_receipt_type = Read, rc_original_sender = alice,
      rc_original_timestamp = word_of_nat now\<rparr> \<and>
    queue_message (codec sv) (evs 0) (Envelope_new (dr_millis dr 1) bob alice c Receipt) st = (Inr (), st') \<and>
    session_linked (ce_prims ce) a' b' [] [] \<and> session_key b' = (alice, 1) \<and>
    s_their_identity b' = public_key (c_identity ca) \<and>
    cb' = cb\<lparr>c_sessions := SessionStore_add b' (c_sessions cb),
             c_chat_log := c_chat_log cb @ [incoming alice text (dr_millis dr 0)]\<rparr>"
proof -
  let ?pr = "ce_prims ce" and ?net = "relay_net ce sv evs"
  have wf: "kp_public (spk_key_pair (c_signed_pre_key cb)) = x25519_public ?pr (kp_secret (spk_key_pair (c_signed_pre_key cb)))"
    using assms(4) by (simp add: client_keys_def)
  note res = handshake_SomeD(2) [OF hs, simplified]
  have linked: "session_linked ?pr a' b [m] [as_bytes text]"
    using session.send_forward [OF handshake_linked(1) [OF assms(2,3) wf hs] enc] by simp
  have num: "r_recv_msg_number (s_ratchet b) = 0" using res by (rule Session_new_responder_InrD)
  have key: "session_key b = (alice, 1)" using res by (rule Session_new_responder_InrD)
  from num have "\<not> overflow_checks ?pr \<or> unat (r_recv_msg_number (s_ratchet b)) \<noteq> 2 ^ 32 - 1" by simp
  from session_recv_ready [OF linked this] obtain b' where d: "Session_decrypt ?pr b m = Some (Inr (as_bytes text), b')" .
  then have l: "session_linked ?pr a' b' [] []" using session.recv_forward [OF linked d] by simp
  have key': "session_key b' = (alice, 1)" "s_their_identity b' = s_their_identity b"
    using d key by (auto simp: Session_decrypt_def session_key_def bind_eq_Some_conv)
  moreover have "s_their_identity b = public_key (c_identity ca)"
    using res by (auto simp: Session_new_responder_def bind_eq_Some_conv split: sum.splits)
  ultimately have ident: "s_their_identity b' = public_key (c_identity ca)" by simp
  let ?c1 = "cb\<lparr>c_sessions := SessionStore_add b' (c_sessions cb)\<rparr>"
  obtain c' files' where h: "handle_plaintext ce ?net dr True e (as_bytes text) (?c1, files, st) =
      Some (c', files', snd (send_receipt ce ?net (dr_millis dr 1) alice alice (word_of_nat now) Read c' st))"
    and c': "c' = ?c1\<lparr>c_chat_log := c_chat_log ?c1 @ [incoming alice text (dr_millis dr 0)]\<rparr>"
    using handle_plain_text [OF assms(5), of ?net dr True e ?c1 files st] by (auto simp: e_def Envelope_new_def)
  have u: "c_user_id c' = bob" using assms(10) by (simp add: c')
  obtain c st' where r: "receipt_from_slice (codec sv) c = Inr \<lparr>rc_receipt_type = Read, rc_original_sender = alice,
      rc_original_timestamp = word_of_nat now\<rparr>"
    "send_receipt ce ?net (dr_millis dr 1) alice alice (word_of_nat now) Read c' st = (Inr (), st')"
    "queue_message (codec sv) (evs 0) (Envelope_new (dr_millis dr 1) bob alice c Receipt) st = (Inr (), st')"
    using relay_receipt [OF laws assms(9), of Read alice "word_of_nat now" "dr_millis dr 1" alice c'] u by auto
  have "receive_message ce ?net dr e (cb, files, st) = Some (Inr (), c', files', st')"
    using pk res d h r(2) by (simp add: receive_message_def e_def receive_prekey_def)
  with r(1,3) l key' ident c' show ?thesis by auto
qed

end
