(* ===== verification/Relay_Instance.thy ===== *)
theory Relay_Instance
  imports Client_Relay "HOL-Library.Countable"
begin

text \<open>
  An instance of the codecs between client and server, for concrete runs of the whole system: the text of
  a JSON value is a line of as many digits as the number of the value, the structs of the wire are
  length-prefixed texts, and the decoders read the fields they need from the object.
\<close>

instance json :: countable
  by countable_datatype

section \<open>Text of a value\<close>

definition value_text :: "json \<Rightarrow> string" where
  "value_text v = replicate (Suc (to_nat (jnorm v))) (CHR ''1'')"

definition text_value :: "string \<Rightarrow> json" where
  "text_value s = from_nat (length s - 1)"

lemma text_value_text [simp]: "text_value (value_text v) = jnorm v"
  by (simp add: text_value_def value_text_def)

lemma strip_one_digits: "strip_one white_space (CHR ''1'' # s) = None" "strip_one (map rev white_space) (CHR ''1'' # s) = None"
  by (simp_all add: strip_one_def white_space_def starts_with_def)

lemma strip_all_digits: "strip_all n white_space (CHR ''1'' # s) = CHR ''1'' # s"
  "strip_all n (map rev white_space) (CHR ''1'' # s) = CHR ''1'' # s"
  by (cases n; simp add: strip_one_digits)+

lemma trim_digits: "trim (replicate (Suc n) (CHR ''1'') @ [CHR 0x0A]) = replicate (Suc n) (CHR ''1'')"
proof -
  let ?d = "replicate (Suc n) (CHR ''1'')"
  have d: "?d = CHR ''1'' # replicate n (CHR ''1'')" by simp
  have "strip_one (map rev white_space) (CHR 0x0A # ?d) = Some ?d"
    by (simp add: strip_one_def white_space_def starts_with_def)
  then have "strip_all (Suc m) (map rev white_space) (CHR 0x0A # ?d) = ?d" for m
    using strip_all_digits(2) [of m "replicate n (CHR ''1'')"] d by simp
  moreover have "strip_all m white_space (?d @ [CHR 0x0A]) = ?d @ [CHR 0x0A]" for m
    using strip_all_digits(1) by (simp add: d)
  ultimately show ?thesis
    unfolding trim_def Let_def by (simp del: replicate.simps add: rev_replicate)
qed

lemma one_line_value_text: "one_line (value_text v)"
  using trim_digits by (simp add: one_line_def value_text_def)

section \<open>Structs\<close>

definition opt_text :: "('a \<Rightarrow> string) \<Rightarrow> 'a option \<Rightarrow> string" where
  "opt_text f x = (case x of None \<Rightarrow> [] | Some y \<Rightarrow> CHR ''s'' # f y)"

definition text_opt :: "(string \<Rightarrow> 'a) \<Rightarrow> string \<Rightarrow> 'a option" where
  "text_opt f s = (case s of [] \<Rightarrow> None | _ # t \<Rightarrow> Some (f t))"

lemma text_opt_text [simp]: "(\<And>y. g (f y) = y) \<Longrightarrow> text_opt g (opt_text f x) = x"
  by (cases x) (simp_all add: opt_text_def text_opt_def)

definition bundle_text :: "PreKeyBundle \<Rightarrow> string" where
  "bundle_text b =
     field_text (bytes_text (pkb_identity_key b)) @ field_text (word_text (pkb_device_id b)) @
     field_text (word_text (pkb_signed_pre_key_id b)) @ field_text (bytes_text (pkb_signed_pre_key b)) @
     field_text (bytes_text (pkb_signed_pre_key_signature b)) @
     field_text (opt_text word_text (pkb_one_time_pre_key_id b)) @
     field_text (opt_text bytes_text (pkb_one_time_pre_key b))"

definition text_bundle :: "string \<Rightarrow> PreKeyBundle" where
  "text_bundle t =
     (let (a, t1) = read_field t; (b, t2) = read_field t1; (c, t3) = read_field t2; (d, t4) = read_field t3;
          (e, t5) = read_field t4; (f, t6) = read_field t5; (g, t7) = read_field t6
      in \<lparr>pkb_identity_key = text_bytes a, pkb_device_id = text_word b, pkb_signed_pre_key_id = text_word c,
          pkb_signed_pre_key = text_bytes d, pkb_signed_pre_key_signature = text_bytes e,
          pkb_one_time_pre_key_id = text_opt text_word f, pkb_one_time_pre_key = text_opt text_bytes g\<rparr>)"

lemma text_bundle_text [simp]: "text_bundle (bundle_text b) = b"
  by (simp add: text_bundle_def bundle_text_def)

definition prekey_text :: "PreKeyBundleMessage \<Rightarrow> string" where
  "prekey_text m = field_text (bytes_text (pkm_identity_key m)) @ field_text (bytes_text (pkm_base_key m)) @
     field_text (session_text (pkm_session_message m))"

definition text_prekey :: "string \<Rightarrow> PreKeyBundleMessage" where
  "text_prekey t =
     (let (a, t1) = read_field t; (b, t2) = read_field t1; (c, t3) = read_field t2
      in \<lparr>pkm_identity_key = text_bytes a, pkm_base_key = text_bytes b, pkm_session_message = text_session c\<rparr>)"

lemma text_prekey_text [simp]: "text_prekey (prekey_text m) = m"
  by (simp add: text_prekey_def prekey_text_def)

definition json_bytes :: "json \<Rightarrow> bytes" where
  "json_bytes v = map (\<lambda>x. case x of JNumber n \<Rightarrow> word_of_int n | _ \<Rightarrow> 0) (unwrap_or (as_array v) [])"

lemma json_bytes_json [simp]: "json_bytes (jnorm (bytes_json b)) = b"
  by (simp add: json_bytes_def bytes_json_def comp_def)

section \<open>Client and server\<close>

definition relay_client_env :: client_env where
  "relay_client_env =
     \<lparr>ce_prims = demo_prims, ce_wire = demo_wire,
      ce_codecs = \<lparr>value_from_slice = (\<lambda>b. Inl ''not JSON''), hex_decode_vec = (\<lambda>s. Inr (as_bytes s)),
        base64_encode = (\<lambda>b. []), base64_decode = (\<lambda>s. Inr [])\<rparr>,
      ce_storage = \<lparr>fs_home = ''/home/u'', fs_write = (\<lambda>p t old. Some t), alloc_ok = (\<lambda>n. n < 2 ^ 30),
        history_to_string = (\<lambda>x. Inr []), history_from_str = (\<lambda>s. Inl []),
        groups_to_string = (\<lambda>x. Inr []), groups_from_str = (\<lambda>s. Inl []),
        channels_to_string = (\<lambda>x. Inr []), channels_from_str = (\<lambda>s. Inl []),
        chat_log_to_string = (\<lambda>x. Inr []), chat_log_from_str = (\<lambda>s. Inl [])\<rparr>,
      bundle_to_value = (\<lambda>b. JString (bundle_text b)),
      bundle_from_value = (\<lambda>v. Inr (text_bundle (unwrap_or (as_str v) []))),
      prekey_to_vec = (\<lambda>m. Inr (text_bytes (prekey_text m))),
      value_to_string = (\<lambda>v. Inr (value_text v)), show_value = (\<lambda>v. ''error''),
      envelope_from_value = (\<lambda>v. Inr (text_envelope (unwrap_or (as_str v) []))),
      prekey_from_slice = (\<lambda>b. if b = [] then Inl ''EOF'' else Inr (text_prekey (bytes_text b))),
      group_info_from_value = (\<lambda>v. Inl ''missing field''), unicode_alphanumeric = (\<lambda>c. False)\<rparr>"

definition relay_server :: server where
  "relay_server =
     \<lparr>dec = demo_decoders\<lparr>RegisterCmd_from_value := (\<lambda>v. Inr \<lparr>rg_cmd = demo_str v ''cmd'', rg_user_id = demo_str v ''user_id'',
        rg_identity_key = json_bytes (json_index v ''identity_key''),
        rg_signed_pre_key = text_bundle (demo_str v ''signed_pre_key'')\<rparr>)\<rparr>,
      codec = demo_wire, value_from_str = (\<lambda>s. Inr (text_value s)),
      bundle_to_string = (\<lambda>b. Inr (value_text (JString (bundle_text b)))),
      response_to_string = (\<lambda>r. Inr (value_text (response_value r))),
      show_rusqlite = (\<lambda>e. ''database error'')\<rparr>"

lemma relay_server_json_codec: "json_codec relay_client_env relay_server"
  by (simp add: json_codec_def relay_client_env_def relay_server_def one_line_value_text)

lemma prekey_text_nonempty: "text_bytes (prekey_text m) \<noteq> []"
  by (simp add: prekey_text_def text_bytes_def field_text_def)

lemma relay_server_struct_codec: "struct_codec relay_client_env relay_server"
  using demo_wire_codec
  by (simp add: struct_codec_def relay_client_env_def relay_server_def prekey_text_nonempty) (simp add: demo_wire_def)

lemma demo_str_jnorm: "jvalid v \<Longrightarrow> demo_str (jnorm v) k = demo_str v k"
  by (simp add: demo_str_def get_str_jnorm)

lemma relay_server_command_codec: "command_codec relay_client_env relay_server"
proof -
  let ?reg = "\<lambda>u k b. JObject [(''cmd'', JString ''register''), (''user_id'', JString u),
    (''identity_key'', bytes_json k), (''signed_pre_key'', JString (bundle_text b))]"
  have reg: "jvalid (?reg u k b)" for u k b by (simp add: jvalid_bytes_json)
  have key: "json_bytes (json_index (jnorm (?reg u k b)) ''identity_key'') = k" for u k b
    by (subst json_index_jnorm [OF reg]) (simp add: json_index_def)
  have send: "jvalid (JObject [(''cmd'', JString ''send''), (''envelope'', JString t)])"
    and one: "jvalid (JObject [(''cmd'', JString c), (''user_id'', JString u)])" for t c u by simp_all
  note read = demo_str_jnorm [OF reg] demo_str_jnorm [OF send] demo_str_jnorm [OF one] key
  show ?thesis
    unfolding command_codec_def relay_client_env_def relay_server_def client_env.simps server.simps
      decoders.simps demo_decoders_def demo_wire_def wire.simps read
    by (simp add: demo_str_def get_str_def)
qed

lemma relay_laws_hold: "relay_laws relay_client_env relay_server (\<lambda>_. quiet_env 0)"
  by (simp add: relay_laws_def relay_server_json_codec relay_server_struct_codec relay_server_command_codec)

lemma demo_aead_total: "aead_total demo_prims"
  by (simp add: aead_total_def demo_prims_def)

end
