(* ===== verification/Client_Properties.thy ===== *)
theory Client_Properties
  imports Relay_Instance
begin

text \<open>
  The whole system at work: two clients and the relay between them, from the registration of one to the
  read mark at the other.
\<close>

section \<open>Receipts\<close>

lemma update_first_append:
  "(\<And>x. x \<in> set xs \<Longrightarrow> \<not> P x) \<Longrightarrow> P y \<Longrightarrow> update_first P f (xs @ [y]) = xs @ [f y]"
  by (induction xs) auto

lemma apply_receipt_last:
  assumes "c_sent_messages c = ms @ [m]" and "sm_recipient m = sender" and "sm_timestamp m = rc_original_timestamp r"
    and "\<forall>x\<in>set ms. \<not> (sm_recipient x = sender \<and> sm_timestamp x = rc_original_timestamp r)"
  shows "fst (apply_receipt ce sender r (c, files)) = c\<lparr>c_sent_messages :=
    ms @ [m\<lparr>sm_status := (case rc_receipt_type r of Delivery \<Rightarrow> Delivered | Read \<Rightarrow> ReadStatus)\<rparr>]\<rparr>"
proof -
  let ?P = "\<lambda>x. sm_recipient x = sender \<and> sm_timestamp x = rc_original_timestamp r"
  have "update_first ?P f (ms @ [m]) = ms @ [f m]" for f
    using assms(2-4) by (intro update_first_append) auto
  then show ?thesis by (simp add: apply_receipt_def Let_def assms(1))
qed

lemma receive_receipt:
  assumes "relay_laws ce sv evs" and "receipt_from_slice (codec sv) b = Inr r"
    and "c_sent_messages c = ms @ [m]" and "sm_recipient m = sender" and "sm_timestamp m = rc_original_timestamp r"
    and "\<forall>x\<in>set ms. \<not> (sm_recipient x = sender \<and> sm_timestamp x = rc_original_timestamp r)"
  shows "\<exists>files'. receive_message ce net dr (Envelope_new now sender u b Receipt) (c, files, w) =
    Some (Inr (), c\<lparr>c_sent_messages := ms @ [m\<lparr>sm_status :=
      (case rc_receipt_type r of Delivery \<Rightarrow> Delivered | Read \<Rightarrow> ReadStatus)\<rparr>]\<rparr>, files', w)"
  using apply_receipt_last [OF assms(3-6), of ce files] relay_lawsD(5) [OF assms(1)] assms(2)
  by (cases "apply_receipt ce sender r (c, files)") (simp add: receive_message_def)

text \<open>The two receipts of one message, in the order they wait at the relay.\<close>

lemma receive_both_receipts:
  assumes laws: "relay_laws ce sv evs"
    and d: "receipt_from_slice (codec sv) b1 = Inr \<lparr>rc_receipt_type = Delivery, rc_original_sender = u, rc_original_timestamp = ts\<rparr>"
    and r: "receipt_from_slice (codec sv) b2 = Inr \<lparr>rc_receipt_type = Read, rc_original_sender = u, rc_original_timestamp = ts\<rparr>"
    and m: "c_sent_messages c = ms @ [m]" "sm_recipient m = sender" "sm_timestamp m = ts"
      "\<forall>x\<in>set ms. \<not> (sm_recipient x = sender \<and> sm_timestamp x = ts)"
  shows "\<exists>files'. receive_loop ce net drs 0 (map (\<lambda>e. jnorm (envelope_to_value (codec sv) e))
      [Envelope_new n1 sender u b1 Receipt, Envelope_new n2 sender u b2 Receipt]) (c, files, w) =
    Some (Inr (), c\<lparr>c_sent_messages := ms @ [m\<lparr>sm_status := ReadStatus\<rparr>]\<rparr>, files', w)"
proof -
  let ?c1 = "c\<lparr>c_sent_messages := ms @ [m\<lparr>sm_status := Delivered\<rparr>]\<rparr>"
  obtain f1 where 1: "receive_message ce net (drs 0) (Envelope_new n1 sender u b1 Receipt) (c, files, w) = Some (Inr (), ?c1, f1, w)"
    using receive_receipt [OF laws d m(1,2), of net "drs 0" n1 u files w] m(3,4) by auto
  obtain f2 where 2: "receive_message ce net (drs 1) (Envelope_new n2 sender u b2 Receipt) (?c1, f1, w) =
      Some (Inr (), c\<lparr>c_sent_messages := ms @ [m\<lparr>sm_status := ReadStatus\<rparr>]\<rparr>, f2, w)"
    using receive_receipt [OF laws r, of ?c1 ms "m\<lparr>sm_status := Delivered\<rparr>" sender net "drs 1" n2 u f1 w] m by auto
  show ?thesis
    using receive_loop_Cons [where drs = drs and i = 0, OF laws 1]
      receive_loop_Cons [where drs = drs and i = 1, OF laws 2] by simp
qed

section \<open>First contact\<close>

lemma register_user_mailbox: "mailbox w (snd (register_user ev u k b st)) = mailbox w st"
  by (rule ext) (simp add: register_user_def mailbox_def rows_for_def sql_def split: option.split)

lemma register_user_seq: "auto_seq (t_messages (snd (register_user ev u k b st))) = auto_seq (t_messages st)"
  by (simp add: register_user_def sql_def split: option.split)

text \<open>What the relay does with the message and its two receipts.\<close>

lemma relay_delivery:
  assumes laws: "relay_laws ce sv evs" and "db_ok st" and "mailbox (codec sv) st alice = []" and "mailbox (codec sv) st bob = []"
    and "alice \<noteq> bob" and "auto_seq (t_messages st) + 5 \<le> i64_max"
    and "queue_message (codec sv) (evs 0) e st = (Inr (), st1)"
    and "env_sender_id e = alice" and "env_recipient_id e = bob" and "wants_receipt e"
  shows "\<exists>b st2. fetch_messages (codec sv) (evs 0) bob st1 = (Inr [e], st2) \<and>
    receipt_from_slice (codec sv) b = Inr \<lparr>rc_receipt_type = Delivery, rc_original_sender = alice,
      rc_original_timestamp = env_timestamp e\<rparr> \<and>
    mailbox (codec sv) st2 alice = [Envelope_new (ev_millis (evs 0) 0) bob alice b Receipt] \<and>
    mailbox (codec sv) st2 bob = [] \<and> db_ok st2 \<and> auto_seq (t_messages st2) + 3 \<le> i64_max"
proof -
  let ?w = "codec sv"
  note D = relay_lawsD [OF laws]
  have ok1: "db_ok st1" using queue_message_ok [OF assms(2)] assms(7) by (metis snd_conv)
  have seq1: "auto_seq (t_messages st1) = auto_seq (t_messages st) + 1" by (rule queue_message_seq [OF assms(7)])
  have mb1: "mailbox ?w st1 = (mailbox ?w st)(bob := [e])"
    using queue_message_Inr [OF D(6) assms(7)] assms(4,9) by (simp add: mb_deliver_def)
  obtain es st2 where f: "fetch_messages ?w (evs 0) bob st1 = (Inr es, st2)"
    using fetch_messages_total [OF D(4,6) _ ok1, of bob] seq1 mb1 assms(6) by auto
  let ?r = "\<lparr>rc_receipt_type = Delivery, rc_original_sender = alice, rc_original_timestamp = env_timestamp e\<rparr>"
  obtain b where b: "receipt_to_vec ?w ?r = Inr b" "receipt_from_slice ?w b = Inr ?r"
    using D(6) unfolding wire_codec_def by blast
  have "(es, mailbox ?w st2) = mb_fetch ?w (evs 0) bob (mailbox ?w st1)"
    using fetch_messages_Inr [OF D(6) ok1 _ f] D(4) by simp
  then have es: "es = [e]" and mb2: "mailbox ?w st2 = (mailbox ?w st)(bob := [], alice := [Envelope_new (ev_millis (evs 0) 0) bob alice b Receipt])"
    using b(1) assms(3,5,8,10)
    by (auto simp: mb_fetch_def mb1 mb_deliver_def receipt_envelope_def unwrap_or_default_def Let_def)
  have "db_ok st2" using fetch_messages_ok [OF ok1] f by (metis snd_conv)
  moreover have "auto_seq (t_messages st2) + 3 \<le> i64_max"
    using fetch_messages_seq [OF f] es seq1 assms(6) by simp
  ultimately show ?thesis using f es b(2) mb2 assms(5) by auto
qed

text \<open>What the sender's fetch does with both receipts.\<close>

lemma receipts_reach_sender:
  assumes laws: "relay_laws ce sv evs" and "db_ok st" and "auto_seq (t_messages st) + 3 \<le> i64_max"
    and "mailbox (codec sv) st alice = [Envelope_new n1 bob alice b1 Receipt]" and "mailbox (codec sv) st bob = []"
    and q: "queue_message (codec sv) (evs 0) (Envelope_new n2 bob alice b2 Receipt) st = (Inr (), st1)" and "alice \<noteq> bob"
    and d: "receipt_from_slice (codec sv) b1 = Inr \<lparr>rc_receipt_type = Delivery, rc_original_sender = alice, rc_original_timestamp = ts\<rparr>"
    and r: "receipt_from_slice (codec sv) b2 = Inr \<lparr>rc_receipt_type = Read, rc_original_sender = alice, rc_original_timestamp = ts\<rparr>"
    and "c_user_id c = alice" and m: "c_sent_messages c = ms @ [m]" "sm_recipient m = bob" "sm_timestamp m = ts"
      "\<forall>x\<in>set ms. \<not> (sm_recipient x = bob \<and> sm_timestamp x = ts)"
  shows "\<exists>files' st2. receive_messages ce (relay_net ce sv evs) drs (c, files, st1) =
      Some (Inr (), c\<lparr>c_sent_messages := ms @ [m\<lparr>sm_status := ReadStatus\<rparr>]\<rparr>, files', st2) \<and>
    mailbox (codec sv) st2 alice = [] \<and> mailbox (codec sv) st2 bob = []"
proof -
  let ?w = "codec sv" and ?es = "[Envelope_new n1 bob alice b1 Receipt, Envelope_new n2 bob alice b2 Receipt]"
  note D = relay_lawsD [OF laws]
  have ok1: "db_ok st1" using queue_message_ok [OF assms(2)] q by (metis snd_conv)
  have mb1: "mailbox ?w st1 = (mailbox ?w st)(alice := ?es)"
    using queue_message_Inr [OF D(6) q] assms(4) by (simp add: mb_deliver_def)
  obtain es st2 where f: "fetch_messages ?w (evs 0) alice st1 = (Inr es, st2)"
    using fetch_messages_total [OF D(4,6) _ ok1, of alice] queue_message_seq [OF q] mb1 assms(3) by auto
  have "(es, mailbox ?w st2) = mb_fetch ?w (evs 0) alice (mailbox ?w st1)"
    using fetch_messages_Inr [OF D(6) ok1 _ f] D(4) by simp
  then have es: "es = ?es" and mb2: "mailbox ?w st2 = (mailbox ?w st)(alice := [])"
    by (auto simp: mb_fetch_def mb1 wants_receipt_def)
  obtain files' where "receive_loop ce (relay_net ce sv evs) drs 0 (map (\<lambda>e. jnorm (envelope_to_value ?w e)) ?es) (c, files, st2) =
      Some (Inr (), c\<lparr>c_sent_messages := ms @ [m\<lparr>sm_status := ReadStatus\<rparr>]\<rparr>, files', st2)"
    using receive_both_receipts [OF laws d r m, of "relay_net ce sv evs" drs n1 n2 files st2] by blast
  with relay_receive_messages [OF laws, of c st1 es st2 drs files] f es mb2 assms(5,7,10) show ?thesis by auto
qed

text \<open>
  Property C1. First contact, end to end through both programs. Bob registers at the relay; Alice, who has
  never talked to him, sends him a text; Bob fetches his messages, then Alice hers. No step fails. Bob's
  chat log then ends with Alice's text, both clients hold sessions that are linked to each other with
  nothing in flight, Alice's sent message is marked as read, and no message is left at the relay for
  either. The requests and answers go through the JSON texts on the connection and the server's
  connection loop.
\<close>

theorem first_contact:
  assumes "relay_laws ce sv evs" and "dh_commutes (ce_prims ce)" and "hkdf_total (ce_prims ce)"
    and "aead_correct (ce_prims ce)" and "aead_total (ce_prims ce)" and "client_keys (ce_prims ce) cb"
    and "plain_text ce text" and "length text < 2 ^ 32"
    and "c_user_id ca = alice" and "c_user_id cb = bob" and "alice \<noteq> bob"
    and "SessionStore_get (c_sessions ca) bob 1 = None"
    and "\<forall>m\<in>set (c_sent_messages ca). \<not> (sm_recipient m = bob \<and> sm_timestamp m = word_of_nat (dr_millis dr 0))"
    and "db_ok st" and "mailbox (codec sv) st alice = []" and "mailbox (codec sv) st bob = []"
    and "auto_seq (t_messages st) + 5 \<le> i64_max"
  shows "\<exists>st1 ca1 fa1 st2 cb1 fb1 st3 ca2 fa2 st4 sa sb.
    register ce (relay_net ce sv evs) cb st = (Inr (), st1) \<and>
    send_message ce (relay_net ce sv evs) dr bob text (ca, fa, st1) = Some (Inr (), ca1, fa1, st2) \<and>
    receive_messages ce (relay_net ce sv evs) drs_b (cb, fb, st2) = Some (Inr (), cb1, fb1, st3) \<and>
    receive_messages ce (relay_net ce sv evs) drs_a (ca1, fa1, st3) = Some (Inr (), ca2, fa2, st4) \<and>
    c_chat_log cb1 = c_chat_log cb @ [incoming alice text (dr_millis (drs_b 0) 0)] \<and>
    SessionStore_get (c_sessions ca2) bob 1 = Some sa \<and> SessionStore_get (c_sessions cb1) alice 1 = Some sb \<and>
    session_linked (ce_prims ce) sa sb [] [] \<and>
    c_sent_messages ca2 = c_sent_messages ca @ [\<lparr>sm_recipient = bob, sm_text = text,
      sm_timestamp = word_of_nat (dr_millis dr 0), sm_status = ReadStatus, sm_edited = False\<rparr>] \<and>
    mailbox (codec sv) st4 alice = [] \<and> mailbox (codec sv) st4 bob = []"
proof -
  let ?net = "relay_net ce sv evs" and ?w = "codec sv" and ?pr = "ce_prims ce"
  note D = relay_lawsD [OF assms(1)]
  obtain bt where reg: "register ce ?net cb st = (Inr (), snd (register_user (evs 0) bob (public_key (c_identity cb)) bt st))"
    and pub: "published sv (own_bundle cb) bob (snd (register_user (evs 0) bob (public_key (c_identity cb)) bt st))"
    using relay_register [OF assms(1), of cb st] assms(6,10) by (auto simp: client_keys_def)
  define st1 where "st1 = snd (register_user (evs 0) bob (public_key (c_identity cb)) bt st)"
  have st1: "db_ok st1" "mailbox ?w st1 alice = []" "mailbox ?w st1 bob = []" "auto_seq (t_messages st1) + 5 \<le> i64_max"
    using assms(14-17) by (simp_all add: st1_def register_user_ok register_user_mailbox register_user_seq)
  then have room: "auto_seq (t_messages st1) < i64_max" by simp
  have "bob \<noteq> c_user_id ca" using assms(9,11) by simp
  from first_send [OF assms(1,3,5,2,6) pub [folded st1_def] this assms(12,8) room, of dr fa]
  obtain a b m a' content ca1 fa1 st2 where
    hs: "handshake ?pr (dr_rng dr 0) (c_identity ca) (c_identity cb) (c_signed_pre_key cb) (alice, bob) = Some (a, b)"
    and enc: "Session_encrypt ?pr a (dr_nonce dr) (as_bytes text) = Some (Inr m, a')"
    and pk: "prekey_from_slice ce content = Inr \<lparr>pkm_identity_key = public_key (c_identity ca),
      pkm_base_key = kp_public (r_dh_ratchet_key (s_ratchet a)), pkm_session_message = m\<rparr>"
    and q: "queue_message ?w (evs 0) (Envelope_new (dr_millis dr 0) alice bob content PreKeyBundleType) st1 = (Inr (), st2)"
    and sent: "send_message ce ?net dr bob text (ca, fa, st1) = Some (Inr (), ca1, fa1, st2)"
    and ca1: "c_user_id ca1 = alice" "SessionStore_get (c_sessions ca1) bob 1 = Some a'"
      "c_sent_messages ca1 = c_sent_messages ca @ [\<lparr>sm_recipient = bob, sm_text = text,
        sm_timestamp = word_of_nat (dr_millis dr 0), sm_status = Sent, sm_edited = False\<rparr>]"
    using assms(9) by auto
  let ?e = "Envelope_new (dr_millis dr 0) alice bob content PreKeyBundleType"
  have ts: "env_timestamp ?e = word_of_nat (dr_millis dr 0)" by (simp add: Envelope_new_def)
  obtain d st2' where f: "fetch_messages ?w (evs 0) bob st2 = (Inr [?e], st2')"
    and d: "receipt_from_slice ?w d = Inr \<lparr>rc_receipt_type = Delivery, rc_original_sender = alice,
        rc_original_timestamp = word_of_nat (dr_millis dr 0)\<rparr>"
    and mb: "mailbox ?w st2' alice = [Envelope_new (ev_millis (evs 0) 0) bob alice d Receipt]" "mailbox ?w st2' bob = []"
    and st2': "db_ok st2'" "auto_seq (t_messages st2') + 3 \<le> i64_max"
    using relay_delivery [OF assms(1) st1(1-3) assms(11) st1(4) q] ts by (auto simp: wants_receipt_def)
  have room': "auto_seq (t_messages st2') < i64_max" using st2'(2) by simp
  obtain b' cb1 fb1 r st3 where
    recv: "receive_message ce ?net (drs_b 0) ?e (cb, fb, st2') = Some (Inr (), cb1, fb1, st3)"
    and r: "receipt_from_slice ?w r = Inr \<lparr>rc_receipt_type = Read, rc_original_sender = alice,
        rc_original_timestamp = word_of_nat (dr_millis dr 0)\<rparr>"
    and qr: "queue_message ?w (evs 0) (Envelope_new (dr_millis (drs_b 0) 1) bob alice r Receipt) st2' = (Inr (), st3)"
    and linked: "session_linked ?pr a' b' [] []" and key: "session_key b' = (alice, 1)"
    and cb1: "cb1 = cb\<lparr>c_sessions := SessionStore_add b' (c_sessions cb),
        c_chat_log := c_chat_log cb @ [incoming alice text (dr_millis (drs_b 0) 0)]\<rparr>"
    using first_receive [where dr = "drs_b 0" and files = fb, OF assms(1,2,4,6,7) hs enc pk room' assms(10) refl] by blast
  have got: "receive_messages ce ?net drs_b (cb, fb, st2) = Some (Inr (), cb1, fb1, st3)"
    using relay_receive_messages [OF assms(1), of cb st2 "[?e]" st2' drs_b fb] f assms(10)
      receive_loop_Cons [where drs = drs_b and i = 0, OF assms(1) recv] by simp
  let ?m = "\<lparr>sm_recipient = bob, sm_text = text, sm_timestamp = word_of_nat (dr_millis dr 0),
    sm_status = ReadStatus, sm_edited = False\<rparr>"
  let ?ca2 = "ca1\<lparr>c_sent_messages := c_sent_messages ca @ [?m]\<rparr>"
  obtain fa2 st4 where read: "receive_messages ce ?net drs_a (ca1, fa1, st3) = Some (Inr (), ?ca2, fa2, st4)"
    and mb4: "mailbox ?w st4 alice = []" "mailbox ?w st4 bob = []"
    using receipts_reach_sender [OF assms(1) st2' mb qr assms(11) d r ca1(1,3) _ _ assms(13), of drs_a fa1] by auto
  have log: "c_chat_log cb1 = c_chat_log cb @ [incoming alice text (dr_millis (drs_b 0) 0)]"
    and sb: "SessionStore_get (c_sessions cb1) alice 1 = Some b'"
    using SessionStore_get_add [OF key] by (simp_all add: cb1)
  have sa: "SessionStore_get (c_sessions ?ca2) bob 1 = Some a'" and sm: "c_sent_messages ?ca2 = c_sent_messages ca @ [?m]"
    using ca1(2) by simp_all
  show ?thesis
    by (intro exI conjI, rule reg [folded st1_def], rule sent, rule got, rule read, rule log, rule sa, rule sb,
        rule linked, rule sm, rule mb4, rule mb4)
qed

definition relay_client :: "u8 \<Rightarrow> string \<Rightarrow> TinTinClient" where
  "relay_client x u = TinTinClient_new demo_prims (ce_storage relay_client_env) [x] [x + 1] (\<lambda>_. None) u"

lemma relay_client_fields:
  "c_user_id (relay_client x u) = u" "c_sessions (relay_client x u) = SessionStore_new"
  "c_sent_messages (relay_client x u) = []"
  by (simp_all add: relay_client_def TinTinClient_new_def Let_def load_chat_log_def load_channels_def load_groups_def
      load_history_def load_from_def)

lemma relay_client_keys: "client_keys demo_prims (relay_client x u)"
  unfolding relay_client_def by (rule TinTinClient_new_keys [OF demo_prims_sized])

lemma plain_text_hi: "plain_text relay_client_env ''hi''"
proof -
  have "from_utf8_lossy (as_bytes ''hi'') = ''hi''" by code_simp
  then show ?thesis by (simp add: plain_text_def relay_client_env_def)
qed

definition demo_draw :: draws where
  "demo_draw = \<lparr>dr_rng = (\<lambda>i. [word_of_nat i + 5]), dr_nonce = [9], dr_millis = (\<lambda>i. i)\<rparr>"

theorem first_contact_witness:
  "\<exists>st1 ca1 fa1 st2 cb1 fb1 st3 ca2 fa2 st4.
    register relay_client_env (relay_net relay_client_env relay_server (\<lambda>_. quiet_env 0)) (relay_client 20 ''bob'') (empty_db True)
      = (Inr (), st1) \<and>
    send_message relay_client_env (relay_net relay_client_env relay_server (\<lambda>_. quiet_env 0)) demo_draw ''bob'' ''hi''
      (relay_client 10 ''alice'', \<lambda>_. None, st1) = Some (Inr (), ca1, fa1, st2) \<and>
    receive_messages relay_client_env (relay_net relay_client_env relay_server (\<lambda>_. quiet_env 0)) (\<lambda>_. demo_draw)
      (relay_client 20 ''bob'', \<lambda>_. None, st2) = Some (Inr (), cb1, fb1, st3) \<and>
    receive_messages relay_client_env (relay_net relay_client_env relay_server (\<lambda>_. quiet_env 0)) (\<lambda>_. demo_draw)
      (ca1, fa1, st3) = Some (Inr (), ca2, fa2, st4) \<and>
    map mr_text (c_chat_log cb1) = map mr_text (c_chat_log (relay_client 20 ''bob'')) @ [''hi''] \<and>
    map sm_status (c_sent_messages ca2) = [ReadStatus]"
proof -
  have pr: "ce_prims relay_client_env = demo_prims" "codec relay_server = demo_wire"
    by (simp_all add: relay_client_env_def relay_server_def)
  have none: "SessionStore_get (c_sessions (relay_client 10 ''alice'')) ''bob'' 1 = None"
    by (simp add: relay_client_fields SessionStore_get_def SessionStore_new_def)
  have room: "auto_seq (t_messages (empty_db True)) + 5 \<le> i64_max" by (simp add: i64_max_def)
  from first_contact [where ca = "relay_client 10 ''alice''" and dr = demo_draw and fa = "\<lambda>_. None" and fb = "\<lambda>_. None"
      and drs_a = "\<lambda>_. demo_draw" and drs_b = "\<lambda>_. demo_draw" and alice = "''alice''" and bob = "''bob''",
      OF relay_laws_hold, unfolded pr, OF demo_dh_commutes demo_hkdf_total demo_aead_correct demo_aead_total
        relay_client_keys [of 20 "''bob''"] plain_text_hi _ relay_client_fields(1) relay_client_fields(1) _ none _
        db_ok_empty _ _ room]
  show ?thesis
    by (simp add: relay_client_fields(3)) (elim exE conjE, intro exI conjI, assumption+, simp_all add: incoming_def)
qed

end
