(* ===== verification/Cli_Requests.thy ===== *)
theory Cli_Requests
  imports Cli_Messaging
begin

text \<open>
  The requests of the client that are one exchange with the relay, \<open>tintin-cli/src/main.rs\<close>: presence,
  groups, channels, polls, timeline and stories. Names that the store also uses carry the prefix \<open>cli_\<close>.
\<close>

section \<open>One exchange\<close>

text \<open>
  \<open>send_json(..)?\<close>, \<open>recv_json()?\<close> and the early return on a status other than \<open>ok\<close>, whose error is the
  given text and the error field.
\<close>

definition ask :: "client_env \<Rightarrow> 'w net \<Rightarrow> string \<Rightarrow> json \<Rightarrow> 'w \<Rightarrow> (string + json) \<times> 'w" where
  "ask ce net failed request w =
     (case net request w of
        (Inl e, w') \<Rightarrow> (Inl e, w')
      | (Inr resp, w') \<Rightarrow>
          if \<not> resp_ok resp then (Inl (failed @ '': '' @ show_value ce (json_index resp ''error'')), w')
          else (Inr resp, w'))"

definition map_reply :: "('a \<Rightarrow> 'b) \<Rightarrow> (string + 'a) \<times> 'w \<Rightarrow> (string + 'b) \<times> 'w" where
  "map_reply f r = (case r of (Inl e, w) \<Rightarrow> (Inl e, w) | (Inr x, w) \<Rightarrow> (Inr (f x), w))"

text \<open>\<open>resp["data"]["k"].as_array().cloned().unwrap_or_default()\<close> and the same for \<open>as_i64\<close>.\<close>

definition data_array :: "string \<Rightarrow> json \<Rightarrow> json list" where
  "data_array k resp = unwrap_or (as_array (json_index (json_index resp ''data'') k)) []"

definition data_i64 :: "string \<Rightarrow> json \<Rightarrow> i64" where
  "data_i64 k resp = unwrap_or (as_i64 (json_index (json_index resp ''data'') k)) 0"

text \<open>\<open>filter_map(|v| v.as_str().map(..))\<close>.\<close>

definition strings_of :: "json list \<Rightarrow> string list" where
  "strings_of vs = List.map_filter as_str vs"

section \<open>Users\<close>

definition user_entry :: "json \<Rightarrow> (string \<times> string) option" where
  "user_entry v = map_option (\<lambda>u. (u, str_or v ''presence'' ''offline'')) (as_str (json_index v ''user_id''))"

definition cli_list_users :: "client_env \<Rightarrow> 'w net \<Rightarrow> 'w \<Rightarrow> (string + (string \<times> string) list) \<times> 'w" where
  "cli_list_users ce net w =
     map_reply (\<lambda>resp. List.map_filter user_entry (data_array ''users'' resp))
       (ask ce net ''Failed to list users'' (JObject [(''cmd'', JString ''list_users'')]) w)"

definition set_my_presence :: "client_env \<Rightarrow> 'w net \<Rightarrow> string \<Rightarrow> TinTinClient \<Rightarrow> 'w \<Rightarrow> (string + unit) \<times> 'w" where
  "set_my_presence ce net presence c w =
     map_reply (\<lambda>_. ()) (ask ce net ''Failed to set presence''
       (JObject [(''cmd'', JString ''set_presence''), (''user_id'', JString (c_user_id c)),
                 (''presence'', JString presence)]) w)"

section \<open>Groups\<close>

text \<open>A request whose answer changes the client: \<open>f\<close> is what follows the status check.\<close>

definition ask_then ::
  "client_env \<Rightarrow> 'w net \<Rightarrow> string \<Rightarrow> json \<Rightarrow> (json \<Rightarrow> TinTinClient \<Rightarrow> 'a \<times> TinTinClient) \<Rightarrow>
   (TinTinClient \<Rightarrow> files \<Rightarrow> files) \<Rightarrow> 'w cstate \<Rightarrow> (string + 'a) \<times> 'w cstate" where
  "ask_then ce net failed request f save s =
     (case s of (c, files, w) \<Rightarrow>
       (case ask ce net failed request w of
          (Inl e, w') \<Rightarrow> (Inl e, c, files, w')
        | (Inr resp, w') \<Rightarrow> (let (x, c') = f resp c in (Inr x, c', save c' files, w'))))"

definition cli_create_group ::
  "client_env \<Rightarrow> 'w net \<Rightarrow> string \<Rightarrow> 'w cstate \<Rightarrow> (string + string) \<times> 'w cstate" where
  "cli_create_group ce net name s =
     ask_then ce net ''Failed to create group''
       (JObject [(''cmd'', JString ''create_group''), (''name'', JString name),
                 (''creator'', JString (c_user_id (fst s)))])
       (\<lambda>resp c. let group_id = str_or (json_index resp ''data'') ''group_id'' [];
                     info = \<lparr>gi_group_id = group_id, gi_name = name, gi_creator = c_user_id c, gi_role = ''admin''\<rparr>
                 in (group_id, c\<lparr>c_groups := insert_or_replace fst (group_id, info) (c_groups c)\<rparr>))
       (save_groups (ce_storage ce)) s"

text \<open>The groups the answer lists replace the local ones; an entry that does not decode is left out.\<close>

definition synced_groups :: "client_env \<Rightarrow> json \<Rightarrow> (string \<times> GroupInfo) list" where
  "synced_groups ce resp =
     fold (\<lambda>info groups. insert_or_replace fst (gi_group_id info, info) groups)
       (List.map_filter (\<lambda>g. case group_info_from_value ce g of Inl e \<Rightarrow> None | Inr info \<Rightarrow> Some info)
          (data_array ''groups'' resp)) []"

definition sync_groups :: "client_env \<Rightarrow> 'w net \<Rightarrow> 'w cstate \<Rightarrow> (string + unit) \<times> 'w cstate" where
  "sync_groups ce net s =
     ask_then ce net ''Failed to list groups''
       (JObject [(''cmd'', JString ''my_groups''), (''user_id'', JString (c_user_id (fst s)))])
       (\<lambda>resp c. ((), c\<lparr>c_groups := synced_groups ce resp\<rparr>))
       (save_groups (ce_storage ce)) s"

definition cli_join_group :: "client_env \<Rightarrow> 'w net \<Rightarrow> string \<Rightarrow> 'w cstate \<Rightarrow> (string + unit) \<times> 'w cstate" where
  "cli_join_group ce net group_id s =
     (case s of (c, files, w) \<Rightarrow>
       (case ask ce net ''Failed to join group''
               (JObject [(''cmd'', JString ''join_group''), (''group_id'', JString group_id),
                         (''user_id'', JString (c_user_id c))]) w of
          (Inl e, w') \<Rightarrow> (Inl e, c, files, w')
        | (Inr resp, w') \<Rightarrow> sync_groups ce net (c, files, w')))"

definition cli_leave_group :: "client_env \<Rightarrow> 'w net \<Rightarrow> string \<Rightarrow> 'w cstate \<Rightarrow> (string + unit) \<times> 'w cstate" where
  "cli_leave_group ce net group_id s =
     ask_then ce net ''Failed to leave group''
       (JObject [(''cmd'', JString ''leave_group''), (''group_id'', JString group_id),
                 (''user_id'', JString (c_user_id (fst s)))])
       (\<lambda>resp c. ((), c\<lparr>c_groups := delete_where (\<lambda>g. fst g = group_id) (c_groups c)\<rparr>))
       (save_groups (ce_storage ce)) s"

definition group_members :: "client_env \<Rightarrow> 'w net \<Rightarrow> string \<Rightarrow> 'w \<Rightarrow> (string + string list) \<times> 'w" where
  "group_members ce net group_id w =
     map_reply (\<lambda>resp. strings_of (data_array ''members'' resp))
       (ask ce net ''Failed to get members''
          (JObject [(''cmd'', JString ''group_members''), (''group_id'', JString group_id)]) w)"

section \<open>Channels\<close>

definition cli_create_channel :: "client_env \<Rightarrow> 'w net \<Rightarrow> string \<Rightarrow> 'w cstate \<Rightarrow> (string + i64) \<times> 'w cstate" where
  "cli_create_channel ce net name s =
     ask_then ce net ''Failed to create channel''
       (JObject [(''cmd'', JString ''create_channel''), (''name'', JString name),
                 (''owner_id'', JString (c_user_id (fst s)))])
       (\<lambda>resp c. let channel_id = data_i64 ''channel_id'' resp
                 in (channel_id, c\<lparr>c_channels := insert_or_replace fst (channel_id, name) (c_channels c)\<rparr>))
       (save_channels (ce_storage ce)) s"

definition cli_subscribe_channel :: "client_env \<Rightarrow> 'w net \<Rightarrow> i64 \<Rightarrow> 'w cstate \<Rightarrow> (string + unit) \<times> 'w cstate" where
  "cli_subscribe_channel ce net channel_id s =
     ask_then ce net ''Failed to subscribe''
       (JObject [(''cmd'', JString ''subscribe_channel''), (''channel_id'', JNumber channel_id),
                 (''user_id'', JString (c_user_id (fst s)))])
       (\<lambda>resp c. ((), c\<lparr>c_channels := insert_or_replace fst (channel_id, ''ch'' @ show_int channel_id) (c_channels c)\<rparr>))
       (save_channels (ce_storage ce)) s"

definition cli_unsubscribe_channel :: "client_env \<Rightarrow> 'w net \<Rightarrow> i64 \<Rightarrow> 'w cstate \<Rightarrow> (string + unit) \<times> 'w cstate" where
  "cli_unsubscribe_channel ce net channel_id s =
     ask_then ce net ''Failed to unsubscribe''
       (JObject [(''cmd'', JString ''unsubscribe_channel''), (''channel_id'', JNumber channel_id),
                 (''user_id'', JString (c_user_id (fst s)))])
       (\<lambda>resp c. ((), c\<lparr>c_channels := delete_where (\<lambda>x. fst x = channel_id) (c_channels c)\<rparr>))
       (save_channels (ce_storage ce)) s"

definition cli_list_all_channels :: "client_env \<Rightarrow> 'w net \<Rightarrow> 'w \<Rightarrow> (string + json list) \<times> 'w" where
  "cli_list_all_channels ce net w =
     map_reply (data_array ''channels'') (ask ce net ''Failed to list channels''
       (JObject [(''cmd'', JString ''list_channels'')]) w)"

definition channel_entry :: "json \<Rightarrow> (i64 \<times> string) option" where
  "channel_entry ch =
     (case (as_i64 (json_index ch ''channel_id''), as_str (json_index ch ''name'')) of
        (Some cid, Some name) \<Rightarrow> Some (cid, name)
      | _ \<Rightarrow> None)"

definition cli_list_my_channels :: "client_env \<Rightarrow> 'w net \<Rightarrow> 'w cstate \<Rightarrow> (string + json list) \<times> 'w cstate" where
  "cli_list_my_channels ce net s =
     ask_then ce net ''Failed to list my channels''
       (JObject [(''cmd'', JString ''my_channels''), (''user_id'', JString (c_user_id (fst s)))])
       (\<lambda>resp c. (data_array ''channels'' resp,
          c\<lparr>c_channels := fold (insert_or_replace fst)
              (List.map_filter channel_entry (data_array ''channels'' resp)) (c_channels c)\<rparr>))
       (save_channels (ce_storage ce)) s"

definition channel_members :: "client_env \<Rightarrow> 'w net \<Rightarrow> i64 \<Rightarrow> 'w \<Rightarrow> (string + string list) \<times> 'w" where
  "channel_members ce net channel_id w =
     map_reply (\<lambda>resp. strings_of (data_array ''members'' resp))
       (ask ce net ''Failed to get channel members''
          (JObject [(''cmd'', JString ''channel_members''), (''channel_id'', JNumber channel_id)]) w)"

section \<open>Polls\<close>

definition cli_create_poll ::
  "client_env \<Rightarrow> 'w net \<Rightarrow> draws \<Rightarrow> string \<Rightarrow> string list \<Rightarrow> string option \<Rightarrow> 'w cstate \<Rightarrow>
   ((string + i64) \<times> 'w cstate) option" where
  "cli_create_poll ce net dr question options notify_recipient s =
     (case s of (c, files, w) \<Rightarrow>
       (case ask ce net ''Failed to create poll''
               (JObject [(''cmd'', JString ''create_poll''), (''creator'', JString (c_user_id c)),
                         (''question'', JString question), (''options'', JArray (map JString options))]) w of
          (Inl e, w') \<Rightarrow> Some (Inl e, c, files, w')
        | (Inr resp, w') \<Rightarrow>
            (let poll_id = data_i64 ''poll_id'' resp
             in case notify_recipient of
                  None \<Rightarrow> Some (Inr poll_id, c, files, w')
                | Some recipient \<Rightarrow>
                    (case send_payload ce net dr recipient
                            (JObject [(''__tintin_type'', JString ''poll''), (''poll_id'', JNumber poll_id),
                                      (''question'', JString question), (''options'', JArray (map JString options))])
                            (c, files, w') of
                       None \<Rightarrow> None
                     | Some (Inl e, s') \<Rightarrow> Some (Inl e, s')
                     | Some (Inr _, s') \<Rightarrow> Some (Inr poll_id, s')))))"

definition cli_vote_poll :: "client_env \<Rightarrow> 'w net \<Rightarrow> i64 \<Rightarrow> i64 \<Rightarrow> TinTinClient \<Rightarrow> 'w \<Rightarrow> (string + unit) \<times> 'w" where
  "cli_vote_poll ce net poll_id option_id c w =
     map_reply (\<lambda>_. ()) (ask ce net ''Vote failed''
       (JObject [(''cmd'', JString ''vote_poll''), (''poll_id'', JNumber poll_id), (''user_id'', JString (c_user_id c)),
                 (''option_id'', JNumber option_id)]) w)"

definition cli_poll_results :: "client_env \<Rightarrow> 'w net \<Rightarrow> i64 \<Rightarrow> 'w \<Rightarrow> (string + json) \<times> 'w" where
  "cli_poll_results ce net poll_id w =
     map_reply (\<lambda>resp. json_index resp ''data'') (ask ce net ''Failed''
       (JObject [(''cmd'', JString ''poll_results''), (''poll_id'', JNumber poll_id)]) w)"

definition cli_list_polls :: "client_env \<Rightarrow> 'w net \<Rightarrow> 'w \<Rightarrow> (string + json list) \<times> 'w" where
  "cli_list_polls ce net w =
     map_reply (data_array ''polls'') (ask ce net ''Failed'' (JObject [(''cmd'', JString ''list_polls'')]) w)"

definition cli_close_poll :: "client_env \<Rightarrow> 'w net \<Rightarrow> i64 \<Rightarrow> TinTinClient \<Rightarrow> 'w \<Rightarrow> (string + unit) \<times> 'w" where
  "cli_close_poll ce net poll_id c w =
     map_reply (\<lambda>_. ()) (ask ce net ''Failed to close poll''
       (JObject [(''cmd'', JString ''close_poll''), (''poll_id'', JNumber poll_id), (''user_id'', JString (c_user_id c))]) w)"

section \<open>Timeline\<close>

definition post_to_timeline ::
  "client_env \<Rightarrow> 'w net \<Rightarrow> string \<Rightarrow> string option \<Rightarrow> TinTinClient \<Rightarrow> 'w \<Rightarrow> (string + i64) \<times> 'w" where
  "post_to_timeline ce net content target_user c w =
     map_reply (data_i64 ''post_id'') (ask ce net ''Failed to post''
       (JObject ([(''cmd'', JString ''create_post''), (''user_id'', JString (c_user_id c)), (''content'', JString content)] @
                 (case target_user of None \<Rightarrow> [] | Some tu \<Rightarrow> [(''target_user_id'', JString tu)]))) w)"

definition get_timeline_posts :: "client_env \<Rightarrow> 'w net \<Rightarrow> TinTinClient \<Rightarrow> 'w \<Rightarrow> (string + json list) \<times> 'w" where
  "get_timeline_posts ce net c w =
     map_reply (data_array ''posts'') (ask ce net ''Failed''
       (JObject [(''cmd'', JString ''get_timeline''), (''user_id'', JString (c_user_id c))]) w)"

definition cli_add_comment :: "client_env \<Rightarrow> 'w net \<Rightarrow> i64 \<Rightarrow> string \<Rightarrow> TinTinClient \<Rightarrow> 'w \<Rightarrow> (string + i64) \<times> 'w" where
  "cli_add_comment ce net post_id content c w =
     map_reply (data_i64 ''comment_id'') (ask ce net ''Failed''
       (JObject [(''cmd'', JString ''add_comment''), (''post_id'', JNumber post_id), (''user_id'', JString (c_user_id c)),
                 (''content'', JString content)]) w)"

definition get_post_comments :: "client_env \<Rightarrow> 'w net \<Rightarrow> i64 \<Rightarrow> 'w \<Rightarrow> (string + json list) \<times> 'w" where
  "get_post_comments ce net post_id w =
     map_reply (data_array ''comments'') (ask ce net ''Failed''
       (JObject [(''cmd'', JString ''get_comments''), (''post_id'', JNumber post_id)]) w)"

definition cli_delete_post :: "client_env \<Rightarrow> 'w net \<Rightarrow> i64 \<Rightarrow> TinTinClient \<Rightarrow> 'w \<Rightarrow> (string + unit) \<times> 'w" where
  "cli_delete_post ce net post_id c w =
     map_reply (\<lambda>_. ()) (ask ce net ''Failed''
       (JObject [(''cmd'', JString ''delete_post''), (''post_id'', JNumber post_id), (''user_id'', JString (c_user_id c))]) w)"

section \<open>Stories\<close>

definition set_story :: "client_env \<Rightarrow> 'w net \<Rightarrow> string \<Rightarrow> TinTinClient \<Rightarrow> 'w \<Rightarrow> (string + unit) \<times> 'w" where
  "set_story ce net content c w =
     map_reply (\<lambda>_. ()) (ask ce net ''Failed to set status''
       (JObject [(''cmd'', JString ''set_status''), (''user_id'', JString (c_user_id c)), (''content'', JString content)]) w)"

definition clear_story :: "client_env \<Rightarrow> 'w net \<Rightarrow> TinTinClient \<Rightarrow> 'w \<Rightarrow> (string + unit) \<times> 'w" where
  "clear_story ce net c w =
     map_reply (\<lambda>_. ()) (ask ce net ''Failed to clear status''
       (JObject [(''cmd'', JString ''clear_status''), (''user_id'', JString (c_user_id c))]) w)"

definition get_stories :: "client_env \<Rightarrow> 'w net \<Rightarrow> 'w \<Rightarrow> (string + json list) \<times> 'w" where
  "get_stories ce net w =
     map_reply (data_array ''stories'') (ask ce net ''Failed to get stories''
       (JObject [(''cmd'', JString ''get_stories'')]) w)"

end
