(* ===== verification/Cli_Fanout.thy ===== *)
theory Cli_Fanout
  imports Cli_Requests Cli_Receive
begin

text \<open>
  Messages to several people and to several pieces, \<open>tintin-cli/src/main.rs\<close>: group and channel messages,
  which are encrypted once per member over the pairwise sessions, edits, files in chunks and stickers.
\<close>

section \<open>One encrypted piece\<close>

text \<open>\<open>serde_json::to_vec\<close> gives the bytes of \<open>to_string\<close>.\<close>

definition value_to_vec :: "client_env \<Rightarrow> json \<Rightarrow> string + bytes" where
  "value_to_vec ce v = (case value_to_string ce v of Inl e \<Rightarrow> Inl e | Inr t \<Rightarrow> Inr (as_bytes t))"

definition send_request :: "client_env \<Rightarrow> Envelope \<Rightarrow> json" where
  "send_request ce envelope =
     JObject [(''cmd'', JString ''send''), (''envelope'', envelope_to_value (ce_wire ce) envelope)]"

text \<open>
  The body of the loops over members and chunks: session, encryption, envelope, exchange. An answer with
  another status than \<open>ok\<close> is only printed.
\<close>

definition send_piece ::
  "client_env \<Rightarrow> 'w net \<Rightarrow> draws \<Rightarrow> string \<Rightarrow> bytes \<Rightarrow> 'w cstate \<Rightarrow> ((string + unit) \<times> 'w cstate) option" where
  "send_piece ce net dr recipient payload_bytes s =
     (case seal_for ce net dr recipient payload_bytes s of
        None \<Rightarrow> None
      | Some (Inl e, s') \<Rightarrow> Some (Inl e, s')
      | Some (Inr (content, msg_type), (c, files, w)) \<Rightarrow>
          (case net (send_request ce (Envelope_new (dr_millis dr 0) (c_user_id c) recipient content msg_type)) w of
             (Inl e, w') \<Rightarrow> Some (Inl e, c, files, w')
           | (Inr resp, w') \<Rightarrow> Some (Inr (), c, files, w')))"

text \<open>\<open>drs i\<close> is what the \<open>i\<close>-th round draws.\<close>

primrec send_to_members ::
  "client_env \<Rightarrow> 'w net \<Rightarrow> (nat \<Rightarrow> draws) \<Rightarrow> nat \<Rightarrow> bytes \<Rightarrow> string list \<Rightarrow> 'w cstate \<Rightarrow>
   ((string + unit) \<times> 'w cstate) option" where
  "send_to_members ce net drs i payload_bytes [] s = Some (Inr (), s)"
| "send_to_members ce net drs i payload_bytes (member # others) s =
     (case send_piece ce net (drs i) member payload_bytes s of
        None \<Rightarrow> None
      | Some (Inl e, s') \<Rightarrow> Some (Inl e, s')
      | Some (Inr _, s') \<Rightarrow> send_to_members ce net drs (Suc i) payload_bytes others s')"

section \<open>Groups and channels\<close>

definition push_sent :: "client_env \<Rightarrow> nat \<Rightarrow> string \<Rightarrow> string \<Rightarrow> TinTinClient \<times> files \<Rightarrow> TinTinClient \<times> files" where
  "push_sent ce now recipient text cf =
     (case cf of (c, files) \<Rightarrow>
       (let c' = c\<lparr>c_sent_messages := c_sent_messages c @
              [\<lparr>sm_recipient = recipient, sm_text = text, sm_timestamp = word_of_nat now,
                sm_status = Sent, sm_edited = False\<rparr>]\<rparr>
        in (c', save_history (ce_storage ce) c' files)))"

definition send_group_message ::
  "client_env \<Rightarrow> 'w net \<Rightarrow> draws \<Rightarrow> (nat \<Rightarrow> draws) \<Rightarrow> string \<Rightarrow> string \<Rightarrow> 'w cstate \<Rightarrow>
   ((string + unit) \<times> 'w cstate) option" where
  "send_group_message ce net dr drs group_id plaintext s =
     (case s of (c, files, w) \<Rightarrow>
       (let group_name = (case map_of (c_groups c) group_id of None \<Rightarrow> group_id | Some g \<Rightarrow> gi_name g)
        in case group_members ce net group_id w of
             (Inl e, w') \<Rightarrow> Some (Inl e, c, files, w')
           | (Inr members, w') \<Rightarrow>
               (let others = filter (\<lambda>m. m \<noteq> c_user_id c) members
                in if others = [] then send_message ce net dr (c_user_id c) plaintext (c, files, w')
                   else
                     (case value_to_vec ce
                             (JObject [(''__tintin_type'', JString ''group''), (''group_id'', JString group_id),
                                       (''group_name'', JString group_name), (''text'', JString plaintext)]) of
                        Inl e \<Rightarrow> Some (Inl e, c, files, w')
                      | Inr payload_bytes \<Rightarrow>
                          (case send_to_members ce net drs 0 payload_bytes others (c, files, w') of
                             None \<Rightarrow> None
                           | Some (Inl e, s') \<Rightarrow> Some (Inl e, s')
                           | Some (Inr _, (c1, files1, w1)) \<Rightarrow>
                               (let cf2 = push_sent ce (dr_millis dr 0) (''['' @ group_name @ ''] '' @ group_id)
                                            plaintext (c1, files1);
                                    (c3, files3) = record_message (ce_storage ce) (dr_millis dr 1) group_name plaintext
                                            True True (Some group_name) False None cf2
                                in Some (Inr (), c3, files3, w1)))))))"

definition send_channel_message ::
  "client_env \<Rightarrow> 'w net \<Rightarrow> draws \<Rightarrow> (nat \<Rightarrow> draws) \<Rightarrow> i64 \<Rightarrow> string \<Rightarrow> 'w cstate \<Rightarrow>
   ((string + unit) \<times> 'w cstate) option" where
  "send_channel_message ce net dr drs channel_id plaintext s =
     (case s of (c, files, w) \<Rightarrow>
       (let channel_name = unwrap_or (map_of (c_channels c) channel_id) (''ch'' @ show_int channel_id)
        in case channel_members ce net channel_id w of
             (Inl e, w') \<Rightarrow> Some (Inl e, c, files, w')
           | (Inr members, w') \<Rightarrow>
               (let others = filter (\<lambda>m. m \<noteq> c_user_id c) members
                in if others = [] then Some (Inr (), c, files, w')
                   else
                     (case value_to_vec ce
                             (JObject [(''__tintin_type'', JString ''channel''), (''channel_id'', JNumber channel_id),
                                       (''channel_name'', JString channel_name), (''text'', JString plaintext)]) of
                        Inl e \<Rightarrow> Some (Inl e, c, files, w')
                      | Inr payload_bytes \<Rightarrow>
                          (case send_to_members ce net drs 0 payload_bytes others (c, files, w') of
                             None \<Rightarrow> None
                           | Some (Inl e, s') \<Rightarrow> Some (Inl e, s')
                           | Some (Inr _, (c1, files1, w1)) \<Rightarrow>
                               (let cf2 = push_sent ce (dr_millis dr 0)
                                            (''['' @ channel_name @ ''] ch'' @ show_int channel_id) plaintext (c1, files1);
                                    (c3, files3) = record_message (ce_storage ce) (dr_millis dr 1) channel_name plaintext
                                            True False None True (Some channel_name) cf2
                                in Some (Inr (), c3, files3, w1)))))))"

section \<open>Edits\<close>

text \<open>
  \<open>send_json(..)?\<close> followed by \<open>let _ = recv_json()\<close>: \<open>wr\<close> is the error of writing the request, if it
  fails; what the answer is does not matter.
\<close>

definition send_unanswered ::
  "'w net \<Rightarrow> (json \<Rightarrow> 'w \<Rightarrow> string option) \<Rightarrow> json \<Rightarrow> 'w \<Rightarrow> (string + unit) \<times> 'w" where
  "send_unanswered net wr request w =
     (case wr request w of Some e \<Rightarrow> (Inl e, snd (net request w)) | None \<Rightarrow> (Inr (), snd (net request w)))"

text \<open>The edit for one recipient; without a session nothing is sent.\<close>

definition edit_for ::
  "client_env \<Rightarrow> 'w net \<Rightarrow> (json \<Rightarrow> 'w \<Rightarrow> string option) \<Rightarrow> draws \<Rightarrow> string \<Rightarrow> bytes \<Rightarrow> 'w cstate \<Rightarrow>
   ((string + unit) \<times> 'w cstate) option" where
  "edit_for ce net wr dr recipient payload_bytes s =
     (case s of (c, files, w) \<Rightarrow>
       if SessionStore_get_mut (c_sessions c) recipient 1 = None then Some (Inr (), s)
       else
         (case encrypt_in_store (ce_prims ce) (dr_nonce dr) recipient payload_bytes (c_sessions c) of
            None \<Rightarrow> None
          | Some (r, session, sessions) \<Rightarrow>
              (let c' = c\<lparr>c_sessions := sessions\<rparr>
               in case r of
                    Inl e \<Rightarrow> Some (Inl (error_message e), c', files, w)
                  | Inr encrypted \<Rightarrow>
                      (case SessionMessage_to_json (ce_wire ce) encrypted of
                         Inl e \<Rightarrow> Some (Inl e, c', files, w)
                       | Inr content \<Rightarrow>
                           (case send_unanswered net wr (send_request ce
                                   (Envelope_new (dr_millis dr 0) (c_user_id c') recipient content Normal)) w of
                              (r', w') \<Rightarrow> Some (r', c', files, w'))))))"

primrec edit_for_members ::
  "client_env \<Rightarrow> 'w net \<Rightarrow> (json \<Rightarrow> 'w \<Rightarrow> string option) \<Rightarrow> (nat \<Rightarrow> draws) \<Rightarrow> nat \<Rightarrow> bytes \<Rightarrow> string list \<Rightarrow>
   'w cstate \<Rightarrow> ((string + unit) \<times> 'w cstate) option" where
  "edit_for_members ce net wr drs i payload_bytes [] s = Some (Inr (), s)"
| "edit_for_members ce net wr drs i payload_bytes (member # members) s =
     (if member = c_user_id (fst s) then edit_for_members ce net wr drs (Suc i) payload_bytes members s
      else (case edit_for ce net wr (drs i) member payload_bytes s of
              None \<Rightarrow> None
            | Some (Inl e, s') \<Rightarrow> Some (Inl e, s')
            | Some (Inr _, s') \<Rightarrow> edit_for_members ce net wr drs (Suc i) payload_bytes members s'))"

definition edit_send ::
  "client_env \<Rightarrow> 'w net \<Rightarrow> (json \<Rightarrow> 'w \<Rightarrow> string option) \<Rightarrow> (nat \<Rightarrow> draws) \<Rightarrow> string \<Rightarrow> string \<Rightarrow> bytes \<Rightarrow>
   'w cstate \<Rightarrow> ((string + unit) \<times> 'w cstate) option" where
  "edit_send ce net wr drs recipient new_text payload_bytes s =
     (case s of (c, files, w) \<Rightarrow>
       if recipient = c_user_id c then
         (case send_unanswered net wr (send_request ce
                 (Envelope_new (dr_millis (drs 0) 0) (c_user_id c) (c_user_id c) (as_bytes new_text) Normal)) w of
            (r, w') \<Rightarrow> Some (r, c, files, w'))
       else if starts_with ''['' recipient then
         (case group_members ce net (last (split_on (CHR '' '') recipient)) w of
            (Inl e, w') \<Rightarrow> Some (Inl e, c, files, w')
          | (Inr members, w') \<Rightarrow> edit_for_members ce net wr drs 0 payload_bytes members (c, files, w'))
       else edit_for ce net wr (drs 0) recipient payload_bytes s)"

text \<open>The message at the index takes the new text; the last outgoing entry of the log is marked.\<close>

definition mark_edited :: "client_env \<Rightarrow> nat \<Rightarrow> string \<Rightarrow> TinTinClient \<times> files \<Rightarrow> TinTinClient \<times> files" where
  "mark_edited ce index new_text cf =
     (case cf of (c, files) \<Rightarrow>
       (let sent = (if index < length (c_sent_messages c)
                    then (c_sent_messages c)[index := (c_sent_messages c ! index)\<lparr>sm_text := new_text, sm_edited := True\<rparr>]
                    else c_sent_messages c);
            log = rev (update_first (\<lambda>r. mr_direction r = Outgoing) (\<lambda>r. r\<lparr>mr_edited := True\<rparr>) (rev (c_chat_log c)));
            c' = c\<lparr>c_sent_messages := sent, c_chat_log := log\<rparr>
        in (c', save_chat_log (ce_storage ce) c' (save_history (ce_storage ce) c' files))))"

definition edit_message ::
  "client_env \<Rightarrow> 'w net \<Rightarrow> (json \<Rightarrow> 'w \<Rightarrow> string option) \<Rightarrow> (nat \<Rightarrow> draws) \<Rightarrow> nat \<Rightarrow> string \<Rightarrow> 'w cstate \<Rightarrow>
   ((string + unit) \<times> 'w cstate) option" where
  "edit_message ce net wr drs index new_text s =
     (if length (c_sent_messages (fst s)) \<le> index then
        Some (Inl (''Message #'' @ show_nat index @ '' not found (you have '' @
                   show_nat (length (c_sent_messages (fst s))) @ '' messages)''), s)
      else
        (let msg = c_sent_messages (fst s) ! index
         in case value_to_vec ce
                   (JObject [(''__tintin_type'', JString ''edit''),
                             (''original_timestamp'', JNumber (uint (sm_timestamp msg))),
                             (''new_text'', JString new_text)]) of
              Inl e \<Rightarrow> Some (Inl e, s)
            | Inr payload_bytes \<Rightarrow>
                (case edit_send ce net wr drs (sm_recipient msg) new_text payload_bytes s of
                   None \<Rightarrow> None
                 | Some (Inl e, s') \<Rightarrow> Some (Inl e, s')
                 | Some (Inr _, (c, files, w)) \<Rightarrow>
                     (let (c', files') = mark_edited ce index new_text (c, files) in Some (Inr (), c', files', w)))))"

end
