(* ===== verification/Established_Session.thy ===== *)
theory Established_Session
  imports Client_Relay Cli_Fanout
begin

text \<open>
  Sending and receiving over a session that both sides already have: what one encrypted piece does to the
  sender's store, what the receiver's loop makes of its envelope, and the requests of a loop over several.
\<close>

section \<open>Counters\<close>

definition room_to_send :: "prims \<Rightarrow> nat \<Rightarrow> Session \<Rightarrow> bool" where
  "room_to_send pr n s \<longleftrightarrow> (overflow_checks pr \<longrightarrow> unat (r_send_msg_number (s_ratchet s)) + n < 2 ^ 32)"

definition room_to_receive :: "prims \<Rightarrow> nat \<Rightarrow> Session \<Rightarrow> bool" where
  "room_to_receive pr n s \<longleftrightarrow> (overflow_checks pr \<longrightarrow> unat (r_recv_msg_number (s_ratchet s)) + n < 2 ^ 32)"

lemma unat_Suc_u32: "unat x + Suc n < 2 ^ 32 \<Longrightarrow> unat (x + 1) + n < 2 ^ 32" for x :: u32
  by (simp add: unat_word_ariths)

lemma encrypt_linked:
  assumes "session_linked pr s r q ps" and "room_to_send pr (Suc n) s" and "aead_total pr" and "length p < 2 ^ 32"
  obtains m s' where "Session_encrypt pr s nonce p = Some (Inr m, s')" "session_linked pr s' r (q @ [m]) (ps @ [p])"
    "session_key s' = session_key s" "room_to_send pr n s'"
proof -
  have ready: "\<not> overflow_checks pr \<or> unat (r_send_msg_number (s_ratchet s)) \<noteq> 2 ^ 32 - 1"
    using assms(2) by (auto simp: room_to_send_def)
  obtain c where "chacha_encrypt pr (message_key pr (r_send_chain_key (s_ratchet s))) nonce p = Inr c"
    using assms(3,4) unfolding aead_total_def by blast
  with ready obtain m s' where e: "Session_encrypt pr s nonce p = Some (Inr m, s')"
    using session_send_ready by blast
  obtain rm where "encrypt_message pr (s_ratchet s) nonce p = Some (Inr rm, s_ratchet s')"
    using e by (rule Session_encrypt_InrD)
  from encrypt_message_SomeD [OF this] have "room_to_send pr n s'"
    using assms(2) unat_Suc_u32 by (simp add: room_to_send_def)
  then show thesis
    using that e session.send_forward [OF assms(1) e] Session_encrypt_key [OF e] by blast
qed

lemma decrypt_linked:
  assumes "session_linked pr s r (m # q) (p # ps)" and "room_to_receive pr (Suc n) r"
  obtains r' where "Session_decrypt pr r m = Some (Inr p, r')" "session_linked pr s r' q ps"
    "session_key r' = session_key r" "room_to_receive pr n r'"
proof -
  have "\<not> overflow_checks pr \<or> unat (r_recv_msg_number (s_ratchet r)) \<noteq> 2 ^ 32 - 1"
    using assms(2) by (auto simp: room_to_receive_def)
  with assms(1) obtain r' where d: "Session_decrypt pr r m = Some (Inr p, r')"
    by (rule session_recv_ready)
  have "rm_ratchet_key (to_ratcheted m) = r_their_ratchet_key (s_ratchet r)"
    using assms(1) by (simp add: session_linked_def ratchet_linked_def)
  from decrypt_message_same_key(2) [OF this Session_decrypt_SomeD [OF d]]
  have "room_to_receive pr n r'"
    using assms(2) unat_Suc_u32 by (simp add: room_to_receive_def)
  moreover have "session_key r' = session_key r"
    using d by (auto simp: Session_decrypt_def session_key_def bind_eq_Some_conv)
  ultimately show thesis
    using that d session.recv_forward [OF assms(1) d] by blast
qed

text \<open>One message from \<open>a\<close> to \<open>b\<close>, sealed and opened, leaves both directions of the pair usable.\<close>

lemma exchange_linked:
  assumes "aead_total pr" and ab: "session_linked pr a b [] []" and ba: "session_linked pr b a [] []"
    and "room_to_send pr (Suc n) a" and "room_to_receive pr (Suc n) b"
    and "room_to_send pr k b" and "room_to_receive pr k a" and "length p < 2 ^ 32"
  obtains m a1 b1 where "Session_encrypt pr a nonce p = Some (Inr m, a1)" "Session_decrypt pr b m = Some (Inr p, b1)"
    "session_key a1 = session_key a" "session_key b1 = session_key b"
    "session_linked pr a1 b1 [] []" "session_linked pr b1 a1 [] []"
    "room_to_send pr n a1" "room_to_receive pr n b1" "room_to_send pr k b1" "room_to_receive pr k a1"
proof -
  obtain m a1 where e: "Session_encrypt pr a nonce p = Some (Inr m, a1)" and "session_linked pr a1 b ([] @ [m]) ([] @ [p])"
    and ka: "session_key a1 = session_key a" and sa: "room_to_send pr n a1"
    using encrypt_linked [OF ab assms(4,1,8)] by metis
  then have l: "session_linked pr a1 b [m] [p]" by simp
  obtain b1 where d: "Session_decrypt pr b m = Some (Inr p, b1)" and l1: "session_linked pr a1 b1 [] []"
    and kb: "session_key b1 = session_key b" and rb: "room_to_receive pr n b1"
    using decrypt_linked [OF l assms(5)] by metis
  have "session_linked pr b a1 [] []" using session.send_backward [OF ba e] by simp
  then have rev_l: "session_linked pr b1 a1 [] []" using session.recv_backward [OF _ l d] by blast
  obtain rm where "encrypt_message pr (s_ratchet a) nonce p = Some (Inr rm, s_ratchet a1)" using e by (rule Session_encrypt_InrD)
  from encrypt_message_SomeD [OF this] have ra: "room_to_receive pr k a1"
    using assms(7) by (simp add: room_to_receive_def)
  have "rm_ratchet_key (to_ratcheted m) = r_their_ratchet_key (s_ratchet b)"
    using l by (simp add: session_linked_def ratchet_linked_def)
  from decrypt_message_same_key(2) [OF this Session_decrypt_SomeD [OF d]] have sb: "room_to_send pr k b1"
    using assms(6) by (simp add: room_to_send_def)
  show thesis by (rule that [OF e d ka kb l1 rev_l sa rb sb ra])
qed

section \<open>The sender's store\<close>

definition store_put :: "string \<Rightarrow> Session \<Rightarrow> SessionStore \<Rightarrow> SessionStore" where
  "store_put r s st =
     st\<lparr>ss_sessions := replace_first (\<lambda>x. s_remote_user_id x = r \<and> s_remote_device_id x = 1) s (ss_sessions st)\<rparr>"

lemma store_put_get:
  assumes "SessionStore_get st r 1 = Some s" and "session_key s' = session_key s"
  shows "SessionStore_get (store_put r s' st) u 1 = (if u = r then Some s' else SessionStore_get st u 1)"
proof -
  let ?P = "\<lambda>u x. s_remote_user_id x = u \<and> s_remote_device_id x = 1"
  have f: "find (?P r) (ss_sessions st) = Some s" using assms(1) by (simp add: SessionStore_get_def)
  then have "?P r s" by (auto simp: find_Some_iff)
  then have p: "?P r s'" using assms(2) by (simp add: session_key_def)
  have "u \<noteq> r \<Longrightarrow> ?P u z \<Longrightarrow> \<not> ?P r z" for z by simp
  from find_replace_first [of "?P r", OF f p] find_replace_first_other [of "?P r", OF f p this]
  show ?thesis by (simp add: SessionStore_get_def store_put_def)
qed

lemma seal_for_established:
  assumes "SessionStore_get (c_sessions c) r 1 = Some s"
    and "Session_encrypt (ce_prims ce) s (dr_nonce dr) p = Some (Inr m, s')"
    and "SessionMessage_to_json (ce_wire ce) m = Inr content"
  shows "seal_for ce net dr r p (c, files, w) =
    Some (Inr (content, Normal), c\<lparr>c_sessions := store_put r s' (c_sessions c)\<rparr>, files, w)"
  using assms by (simp add: seal_for_def get_or_create_session_def encrypt_in_store_def SessionStore_get_mut_def
      store_put_def Let_def)

lemma send_piece_established:
  assumes "SessionStore_get (c_sessions c) r 1 = Some s"
    and "Session_encrypt (ce_prims ce) s (dr_nonce dr) p = Some (Inr m, s')"
    and "SessionMessage_to_json (ce_wire ce) m = Inr content"
    and "net (send_request ce (Envelope_new (dr_millis dr 0) (c_user_id c) r content Normal)) w = (Inr resp, w')"
  shows "send_piece ce net dr r p (c, files, w) =
    Some (Inr (), c\<lparr>c_sessions := store_put r s' (c_sessions c)\<rparr>, files, w')"
  using seal_for_established [OF assms(1-3), of net files w] assms(4) by (simp add: send_piece_def)

section \<open>The receiver's loop\<close>

lemma receive_established:
  assumes "env_msg_type e = Normal" and "env_sender_id e \<noteq> c_user_id c"
    and "SessionMessage_from_json (ce_wire ce) (env_content e) = Inr m"
    and "SessionStore_get (c_sessions c) (env_sender_id e) 1 = Some r"
    and "Session_decrypt (ce_prims ce) r m = Some (Inr p, r')"
  shows "receive_message ce net dr e (c, files, w) =
    map_option (\<lambda>s. (Inr (), s))
      (handle_plaintext ce net dr False e p (c\<lparr>c_sessions := store_put (env_sender_id e) r' (c_sessions c)\<rparr>, files, w))"
  using assms by (simp add: receive_message_def receive_normal_def SessionStore_get_mut_def store_put_def Let_def)

section \<open>The requests of a loop\<close>

text \<open>A network that keeps the requests made.\<close>

definition logged :: "'w net \<Rightarrow> (json list \<times> 'w) net" where
  "logged net request lw =
     (case lw of (reqs, w) \<Rightarrow> (case net request w of (r, w') \<Rightarrow> (r, reqs @ [request], w')))"

text \<open>An answer comes back for every envelope sent, whatever it says.\<close>

definition answers_sends :: "client_env \<Rightarrow> 'w net \<Rightarrow> bool" where
  "answers_sends ce net \<longleftrightarrow> (\<forall>e w. \<exists>resp w'. net (send_request ce e) w = (Inr resp, w'))"

text \<open>The receiver opens the envelope with its session and gets the payload.\<close>

definition opens_to :: "client_env \<Rightarrow> Session \<Rightarrow> Envelope \<Rightarrow> bytes \<Rightarrow> bool" where
  "opens_to ce r e p \<longleftrightarrow>
     (\<exists>m r'. SessionMessage_from_json (ce_wire ce) (env_content e) = Inr m \<and>
        Session_decrypt (ce_prims ce) r m = Some (Inr p, r'))"

lemma session_codec:
  assumes "wire_codec w"
  obtains content where "SessionMessage_to_json w m = Inr content" "SessionMessage_from_json w content = Inr m"
  using assms unfolding wire_codec_def SessionMessage_to_json_def SessionMessage_from_json_def by blast

text \<open>A member with an idle session that the member's own session is linked to.\<close>

definition reachable_member :: "prims \<Rightarrow> (string \<Rightarrow> Session) \<Rightarrow> SessionStore \<Rightarrow> string \<Rightarrow> bool" where
  "reachable_member pr peer st m \<longleftrightarrow>
     (\<exists>s. SessionStore_get st m 1 = Some s \<and> session_linked pr s (peer m) [] [] \<and> room_to_send pr 1 s \<and>
        room_to_receive pr 1 (peer m))"

lemma send_to_members_established:
  assumes "wire_codec (ce_wire ce)" and "aead_total (ce_prims ce)" and "length p < 2 ^ 32" and "answers_sends ce net"
    and "distinct others" and "\<forall>m\<in>set others. reachable_member (ce_prims ce) peer (c_sessions c) m"
  shows "\<exists>sessions w' envs.
    send_to_members ce (logged net) drs i p others (c, files, reqs, w) =
      Some (Inr (), c\<lparr>c_sessions := sessions\<rparr>, files, reqs @ map (send_request ce) envs, w') \<and>
    map env_recipient_id envs = others \<and>
    (\<forall>e\<in>set envs. env_sender_id e = c_user_id c \<and> env_msg_type e = Normal \<and> opens_to ce (peer (env_recipient_id e)) e p)"
  using assms(5,6)
proof (induction others arbitrary: i c reqs w)
  case Nil
  have "c\<lparr>c_sessions := c_sessions c\<rparr> = c" by simp
  then show ?case by (metis append_Nil2 list.map(1) send_to_members.simps(1) empty_iff list.set(1))
next
  case (Cons r others)
  let ?pr = "ce_prims ce" and ?w = "ce_wire ce"
  obtain s where s: "SessionStore_get (c_sessions c) r 1 = Some s" "session_linked ?pr s (peer r) [] []"
    "room_to_send ?pr (Suc 0) s" "room_to_receive ?pr (Suc 0) (peer r)"
    using Cons.prems(2) by (auto simp: reachable_member_def)
  obtain m s' where e: "Session_encrypt ?pr s (dr_nonce (drs i)) p = Some (Inr m, s')"
    and l: "session_linked ?pr s' (peer r) ([] @ [m]) ([] @ [p])" and k: "session_key s' = session_key s"
    using encrypt_linked [OF s(2,3) assms(2,3)] by metis
  obtain r' where d: "Session_decrypt ?pr (peer r) m = Some (Inr p, r')"
    using decrypt_linked [OF l [simplified] s(4)] by metis
  obtain content where ct: "SessionMessage_to_json ?w m = Inr content" "SessionMessage_from_json ?w content = Inr m"
    using session_codec [OF assms(1)] by metis
  let ?e = "Envelope_new (dr_millis (drs i) 0) (c_user_id c) r content Normal"
  let ?c = "c\<lparr>c_sessions := store_put r s' (c_sessions c)\<rparr>"
  obtain resp w1 where "net (send_request ce ?e) w = (Inr resp, w1)"
    using assms(4) unfolding answers_sends_def by blast
  then have "logged net (send_request ce ?e) (reqs, w) = (Inr resp, reqs @ [send_request ce ?e], w1)"
    by (simp add: logged_def)
  from send_piece_established [where net = "logged net" and files = files, OF s(1) e ct(1) this]
  have step: "send_piece ce (logged net) (drs i) r p (c, files, reqs, w) =
    Some (Inr (), ?c, files, reqs @ [send_request ce ?e], w1)" .
  have "\<forall>m\<in>set others. reachable_member ?pr peer (c_sessions ?c) m"
    using Cons.prems store_put_get [OF s(1) k] by (auto simp: reachable_member_def)
  with Cons.IH [of ?c "Suc i" "reqs @ [send_request ce ?e]" w1] Cons.prems(1) obtain sessions w' envs where
    rest: "send_to_members ce (logged net) drs (Suc i) p others (?c, files, reqs @ [send_request ce ?e], w1) =
      Some (Inr (), c\<lparr>c_sessions := sessions\<rparr>, files, reqs @ map (send_request ce) (?e # envs), w')"
    and envs: "map env_recipient_id envs = others"
      "\<forall>e\<in>set envs. env_sender_id e = c_user_id c \<and> env_msg_type e = Normal \<and> opens_to ce (peer (env_recipient_id e)) e p"
    by auto
  have "opens_to ce (peer r) ?e p" using ct d by (auto simp: opens_to_def)
  with envs have "map env_recipient_id (?e # envs) = r # others" and
    "\<forall>e\<in>set (?e # envs). env_sender_id e = c_user_id c \<and> env_msg_type e = Normal \<and> opens_to ce (peer (env_recipient_id e)) e p"
    by simp_all
  moreover have "send_to_members ce (logged net) drs i p (r # others) (c, files, reqs, w) =
      Some (Inr (), c\<lparr>c_sessions := sessions\<rparr>, files, reqs @ map (send_request ce) (?e # envs), w')"
    using step rest by simp
  ultimately show ?case
    by (intro exI [of _ sessions] exI [of _ w'] exI [of _ "?e # envs"] conjI)
qed

end
