(* ===== verification/F32_Arithmetic.thy ===== *)
theory F32_Arithmetic
  imports Tintin_Prelude
begin

text \<open>
  The \<open>f32\<close> arithmetic of the voice recorder. Every finite value is a multiple of \<open>2 ^ -149\<close>, so a
  finite number is the integer that counts these units; the sign of a zero is not kept, since no
  operation here shows it. Results are rounded to 24 significant bits, ties to even.
\<close>

section \<open>Values and rounding\<close>

datatype f32 = NaN | PosInf | NegInf | Fin int

text \<open>\<open>f32_of_int i\<close> is the integer \<open>i\<close> in units; exact for integers of at most 24 bits.\<close>

definition f32_of_int :: "int \<Rightarrow> f32" where
  "f32_of_int i = Fin (i * 2 ^ 149)"

fun bit_len :: "nat \<Rightarrow> nat" where
  "bit_len n = (if n = 0 then 0 else Suc (bit_len (n div 2)))"

declare bit_len.simps [simp del]

definition round_div :: "int \<Rightarrow> int \<Rightarrow> int" where
  "round_div p q =
     (let d = p div q; r = p mod q in if 2 * r < q \<or> 2 * r = q \<and> even d then d else d + 1)"

text \<open>The value nearest to \<open>p / q\<close> units for a positive \<open>q\<close>, infinite from \<open>2 ^ 128\<close> on.\<close>

definition ulp :: "int \<Rightarrow> int \<Rightarrow> int" where
  "ulp p q = 2 ^ (bit_len (nat (\<bar>p\<bar> div q)) - 24)"

definition round_units :: "int \<Rightarrow> int \<Rightarrow> int" where
  "round_units p q = round_div p (q * ulp p q) * ulp p q"

definition round_f32 :: "int \<Rightarrow> int \<Rightarrow> f32" where
  "round_f32 p q =
     (let n = round_units p q
      in if 2 ^ 277 \<le> n then PosInf else if n \<le> - (2 ^ 277) then NegInf else Fin n)"

section \<open>Operations\<close>

fun f32_add :: "f32 \<Rightarrow> f32 \<Rightarrow> f32" where
  "f32_add (Fin a) (Fin b) = round_f32 (a + b) 1"
| "f32_add NaN _ = NaN"
| "f32_add _ NaN = NaN"
| "f32_add PosInf NegInf = NaN"
| "f32_add NegInf PosInf = NaN"
| "f32_add PosInf _ = PosInf"
| "f32_add NegInf _ = NegInf"
| "f32_add _ PosInf = PosInf"
| "f32_add _ NegInf = NegInf"

text \<open>Multiplication and division by a positive integer of at most 24 bits.\<close>

fun f32_mul_int :: "f32 \<Rightarrow> int \<Rightarrow> f32" where
  "f32_mul_int (Fin a) k = round_f32 (a * k) 1"
| "f32_mul_int x k = x"

fun f32_div_int :: "f32 \<Rightarrow> int \<Rightarrow> f32" where
  "f32_div_int (Fin a) k = round_f32 a k"
| "f32_div_int x k = x"

text \<open>\<open>f32::clamp\<close> between two integers; not a number stays so.\<close>

fun f32_clamp :: "f32 \<Rightarrow> int \<Rightarrow> int \<Rightarrow> f32" where
  "f32_clamp NaN lo hi = NaN"
| "f32_clamp PosInf lo hi = f32_of_int hi"
| "f32_clamp NegInf lo hi = f32_of_int lo"
| "f32_clamp (Fin a) lo hi =
     (if a < lo * 2 ^ 149 then f32_of_int lo else if hi * 2 ^ 149 < a then f32_of_int hi else Fin a)"

text \<open>\<open>as i16\<close>: cut towards zero, saturating; not a number is zero.\<close>

definition trunc_units :: "int \<Rightarrow> int" where
  "trunc_units a = sgn a * (\<bar>a\<bar> div 2 ^ 149)"

fun f32_as_i16 :: "f32 \<Rightarrow> int" where
  "f32_as_i16 NaN = 0"
| "f32_as_i16 PosInf = 32767"
| "f32_as_i16 NegInf = - 32768"
| "f32_as_i16 (Fin a) = max (- 32768) (min 32767 (trunc_units a))"

section \<open>Rounding is close\<close>

lemma ulp_pos [simp]: "0 < ulp p q"
  by (simp add: ulp_def)

lemma round_div_error:
  assumes "0 < q"
  shows "2 * \<bar>round_div p q * q - p\<bar> \<le> q"
proof -
  have m: "0 \<le> p mod q" "p mod q < q" using assms by auto
  have p: "p = p div q * q + p mod q" by simp
  have "p div q * q - p = - (p mod q)" "(p div q + 1) * q - p = q - p mod q"
    using p by (simp_all add: algebra_simps)
  then show ?thesis using m by (auto simp: round_div_def Let_def)
qed

lemma round_units_error:
  assumes "0 < q"
  shows "2 * \<bar>round_units p q * q - p\<bar> \<le> q * ulp p q"
  using round_div_error [of "q * ulp p q" p] assms by (simp add: round_units_def ac_simps)

lemma round_div_exact: "0 < q \<Longrightarrow> round_div (k * q) q = k"
  by (simp add: round_div_def)

lemma bit_len_bound: "n < 2 ^ k \<Longrightarrow> bit_len n \<le> k"
proof (induction k arbitrary: n)
  case (Suc k)
  then have "n div 2 < 2 ^ k" by auto
  from Suc.IH [OF this] show ?case by (subst bit_len.simps) simp
qed (simp add: bit_len.simps)

text \<open>A value within \<open>2 ^ k\<close> units has a last place of at most \<open>2 ^ (k - 24)\<close> units.\<close>

lemma ulp_le:
  assumes "\<bar>p\<bar> < q * 2 ^ k" and "0 < q"
  shows "ulp p q \<le> 2 ^ (k - 24)"
proof -
  have "\<bar>p\<bar> div q < 2 ^ k"
  proof (rule ccontr)
    assume "\<not> ?thesis"
    then have "q * 2 ^ k \<le> q * (\<bar>p\<bar> div q)" using assms(2) by simp
    also have "\<dots> \<le> \<bar>p\<bar>" using assms(2) by (simp add: minus_mod_eq_mult_div [symmetric])
    finally show False using assms(1) by simp
  qed
  moreover have "0 \<le> \<bar>p\<bar> div q" using assms(2) by (simp add: pos_imp_zdiv_nonneg_iff)
  ultimately have "nat (\<bar>p\<bar> div q) < 2 ^ k" by (simp add: nat_less_iff)
  then have "bit_len (nat (\<bar>p\<bar> div q)) \<le> k" by (rule bit_len_bound)
  then show ?thesis by (simp add: ulp_def)
qed

end
