(* ===== verification/Cli_Voice.thy ===== *)
theory Cli_Voice
  imports Cli_Receive F32_Arithmetic
begin

text \<open>
  Voice notes, \<open>record_voice\<close> of \<open>tintin-cli/src/main.rs\<close>: the loop that takes samples from the
  microphone, the conversion to one channel of 16-bit samples and the file. The audio library is a
  parameter, and so is what a failing write leaves.
\<close>

section \<open>Devices\<close>

text \<open>
  What \<open>recv_timeout\<close> gives: the samples of a callback, with the elapsed nanoseconds read after them,
  nothing in time, or that the sender is gone.
\<close>

datatype received = Chunk "f32 list" nat | Timeout | Disconnected

text \<open>
  The default microphone: channels and sample rate of its configuration or an error, the errors of the
  calls for its name, to flush the first line printed, to build the stream, to start and to pause it and
  to flush the mark of a second on the progress bar, and the rounds of the loop for a
  duration in seconds, each the elapsed nanoseconds and what is received then. After the last of the
  rounds the time is over.
\<close>

record microphone =
  mi_config :: "string + u16 \<times> u32"
  mi_name_error :: "string option"
  mi_flush_error :: "string option"
  mi_tick_error :: "nat \<Rightarrow> string option"
  mi_build_error :: "string option"
  mi_play_error :: "string option"
  mi_pause_error :: "string option"
  mi_rounds :: "nat \<Rightarrow> (nat \<times> received) list"

text \<open>
  The devices and libraries behind recordings and stickers. \<open>note_stamp\<close> is the clock reading in the name of a
  recording. \<open>create_error\<close> is the error, if any, of creating a file and \<open>write_error\<close> that of creating or
  writing it (what is left of it is \<open>fs_write\<close>), \<open>remove_leaves\<close> what a removal leaves. \<open>sticker_jpeg\<close> is
  the image library: \<open>None\<close> if the bytes are no image, else the bytes it writes for the image of at most
  256 by 256 points and the error of the encoder. \<open>list_dir\<close> are the paths in a directory, none if it
  cannot be read.
\<close>

record devices =
  mic :: "microphone option"
  note_stamp :: nat
  create_error :: "string \<Rightarrow> string option"
  write_error :: "string \<Rightarrow> string option"
  remove_leaves :: "string \<Rightarrow> string option \<Rightarrow> string option"
  sticker_jpeg :: "bytes \<Rightarrow> (bytes \<times> string option) option"
  list_dir :: "string \<Rightarrow> string list"
  file_len :: "string \<Rightarrow> nat"

section \<open>The samples\<close>

text \<open>The first of the errors, if there is one.\<close>

primrec first_error :: "string option list \<Rightarrow> string option" where
  "first_error [] = None"
| "first_error (e # es) = (case e of None \<Rightarrow> first_error es | Some x \<Rightarrow> Some x)"

text \<open>
  The loop, until the time is over or the stream is gone. After each chunk the progress bar gets a mark
  for every second passed that has none; an error of writing one leaves the function.
\<close>

fun capture ::
  "nat \<Rightarrow> (nat \<Rightarrow> string option) \<Rightarrow> (nat \<times> received) list \<Rightarrow> nat \<Rightarrow> f32 list \<Rightarrow> string + f32 list" where
  "capture duration_secs tick_error [] progress_ticks all_samples = Inr all_samples"
| "capture duration_secs tick_error ((elapsed, r) # rounds) progress_ticks all_samples =
     (if duration_secs * 10 ^ 9 \<le> elapsed then Inr all_samples
      else case r of
             Chunk chunk now \<Rightarrow>
               (let expected_ticks = min (now div 10 ^ 9) duration_secs
                in case first_error (map tick_error [progress_ticks..<expected_ticks]) of
                     Some e \<Rightarrow> Inl e
                   | None \<Rightarrow>
                       capture duration_secs tick_error rounds (max progress_ticks expected_ticks) (all_samples @ chunk))
           | Timeout \<Rightarrow> capture duration_secs tick_error rounds progress_ticks all_samples
           | Disconnected \<Rightarrow> Inr all_samples)"

text \<open>One frame: the average of its channels, scaled, clamped and cut to 16 bits.\<close>

definition frame_sum :: "nat \<Rightarrow> f32 list \<Rightarrow> nat \<Rightarrow> f32" where
  "frame_sum channels all_samples frame =
     fold (\<lambda>ch acc. let idx = frame * channels + ch
                    in if idx < length all_samples then f32_add acc (all_samples ! idx) else acc)
       [0..<channels] (f32_of_int 0)"

definition frame_level :: "nat \<Rightarrow> f32 list \<Rightarrow> nat \<Rightarrow> int" where
  "frame_level channels all_samples frame =
     (let avg = f32_div_int (frame_sum channels all_samples frame) (int channels)
      in f32_as_i16 (f32_clamp (f32_mul_int avg 32767) (- 32768) 32767))"

definition mono_pcm :: "nat \<Rightarrow> f32 list \<Rightarrow> u16 list" where
  "mono_pcm channels all_samples =
     map (\<lambda>frame. word_of_int (frame_level channels all_samples frame)) [0..<length all_samples div channels]"

section \<open>The file\<close>

text \<open>
  The file \<open>record_voice\<close> writes for 16-bit samples: the size of the data is a \<open>usize\<close>, so its
  \<open>to_le_bytes\<close> has eight bytes. Sizes and rates that do not fit 32 bits wrap around here, as in a build
  without overflow checks.
\<close>

definition u64_le_bytes :: "nat \<Rightarrow> bytes" where
  "u64_le_bytes n = map (\<lambda>i. word_of_nat (n div 256 ^ i)) [0..<8]"

definition u32_le_bytes :: "nat \<Rightarrow> bytes" where
  "u32_le_bytes n = map (\<lambda>i. word_of_nat (n div 256 ^ i)) [0..<4]"

definition u16_le_bytes :: "nat \<Rightarrow> bytes" where
  "u16_le_bytes n = map (\<lambda>i. word_of_nat (n div 256 ^ i)) [0..<2]"

definition sample_bytes :: "u16 list \<Rightarrow> bytes" where
  "sample_bytes pcm_data = concat (map (\<lambda>s. u16_le_bytes (unat s)) pcm_data)"

definition voice_note :: "nat \<Rightarrow> u16 list \<Rightarrow> bytes" where
  "voice_note sample_rate pcm_data =
     (let data_size = length pcm_data * 2; byte_rate = sample_rate * 2
      in as_bytes ''RIFF'' @ u32_le_bytes (36 + data_size) @ as_bytes ''WAVE'' @
         as_bytes ''fmt '' @ u32_le_bytes 16 @ u16_le_bytes 1 @ u16_le_bytes 1 @ u32_le_bytes sample_rate @
         u32_le_bytes byte_rate @ u16_le_bytes 2 @ u16_le_bytes 16 @
         as_bytes ''data'' @ u64_le_bytes data_size @ sample_bytes pcm_data)"

definition bytes_text :: "bytes \<Rightarrow> string" where
  "bytes_text bs = map (\<lambda>x. char_of (unat x)) bs"

section \<open>Recording\<close>

text \<open>
  A configuration without channels divides by zero. With overflow checks, a byte rate or a file size that
  does not fit 32 bits is a panic.
\<close>

definition write_note ::
  "client_env \<Rightarrow> devices \<Rightarrow> nat \<Rightarrow> u16 list \<Rightarrow> files \<Rightarrow> ((string + string) \<times> files) option" where
  "write_note ce dv sample_rate pcm files =
     (let out_path = path_join (recordings_dir (ce_storage ce)) (''voice_note_'' @ show_nat (note_stamp dv) @ ''.wav'');
          checks = overflow_checks (ce_prims ce)
      in if checks \<and> 2 ^ 32 \<le> sample_rate * 2 then None
         else
           (case create_error dv out_path of
              Some e \<Rightarrow> Some (Inl e, files)
            | None \<Rightarrow>
                if checks \<and> 2 ^ 32 \<le> 36 + length pcm * 2 mod 2 ^ 32 then None
                else Some (case write_error dv out_path of Some e \<Rightarrow> Inl e | None \<Rightarrow> Inr out_path,
                       write_file (ce_storage ce) out_path (bytes_text (voice_note sample_rate pcm)) files)))"

definition record_voice ::
  "client_env \<Rightarrow> devices \<Rightarrow> nat \<Rightarrow> files \<Rightarrow> ((string + string) \<times> files) option" where
  "record_voice ce dv duration_secs files =
     (case mic dv of
        None \<Rightarrow> Some (Inl ''No input device found. Plug in a microphone.'', files)
      | Some m \<Rightarrow>
          (case mi_config m of
             Inl e \<Rightarrow> Some (Inl e, files)
           | Inr (channels, sample_rate) \<Rightarrow>
               (case first_error [mi_name_error m, mi_flush_error m, mi_build_error m, mi_play_error m] of
                  Some e \<Rightarrow> Some (Inl e, files)
                | None \<Rightarrow>
                    (case capture duration_secs (mi_tick_error m) (mi_rounds m duration_secs) 0 [] of
                       Inl e \<Rightarrow> Some (Inl e, files)
                     | Inr all_samples \<Rightarrow>
                         (case mi_pause_error m of
                            Some e \<Rightarrow> Some (Inl e, files)
                          | None \<Rightarrow>
                              if all_samples = [] then Some (Inl ''No audio captured.'', files)
                              else if channels = 0 then None
                              else write_note ce dv (unat sample_rate) (mono_pcm (unat channels) all_samples) files)))))"

end
