(* ===== verification/Cli_Media.thy ===== *)
theory Cli_Media
  imports Cli_Fanout Cli_Voice
begin

text \<open>
  Files, stickers and the audio of a call, \<open>tintin-cli/src/main.rs\<close>. The image library and reading a file
  are parameters.
\<close>

section \<open>File names\<close>

text \<open>\<open>Path::file_name\<close> on Unix: the last component, unless it is \<open>..\<close>; \<open>.\<close> and empty parts are none.\<close>

definition path_file_name :: "string \<Rightarrow> string option" where
  "path_file_name p =
     (case rev (filter (\<lambda>part. part \<noteq> [] \<and> part \<noteq> ''.'') (split_on (CHR ''/'') p)) of
        [] \<Rightarrow> None
      | f # _ \<Rightarrow> if f = ''..'' then None else Some f)"

text \<open>\<open>Path::extension\<close>: what follows the last dot of the file name, if something stands before it.\<close>

definition path_extension :: "string \<Rightarrow> string option" where
  "path_extension p =
     (case path_file_name p of
        None \<Rightarrow> None
      | Some f \<Rightarrow>
          (case dropWhile (\<lambda>c. c \<noteq> CHR ''.'') (rev f) of
             [] \<Rightarrow> None
           | _ # before \<Rightarrow> if before = [] then None else Some (rev (takeWhile (\<lambda>c. c \<noteq> CHR ''.'') (rev f)))))"

definition lower_char :: "char \<Rightarrow> char" where
  "lower_char c = (let n = of_char c :: nat in if in_range 65 90 n then char_of (n + 32) else c)"

text \<open>Of \<open>to_lowercase\<close> the ASCII letters; no other letter becomes one of an image extension.\<close>

definition is_image_name :: "string \<Rightarrow> bool" where
  "is_image_name p \<longleftrightarrow>
     map lower_char (unwrap_or (path_extension p) []) \<in> {''jpg'', ''jpeg'', ''png'', ''gif'', ''webp'', ''bmp''}"

section \<open>Sending a file\<close>

text \<open>
  \<open>read_file\<close> is \<open>std::fs::read\<close>; \<open>recompress\<close> is the image library on a file: \<open>None\<close> if it is no image it
  knows, an error of the encoder, or the recompressed image and its thumbnail.
\<close>

record media_env =
  read_file :: "string \<Rightarrow> string + bytes"
  recompress :: "bytes \<Rightarrow> (string + bytes \<times> bytes) option"

text \<open>
  The data to send and the thumbnail in base64. The percentage printed for a recompressed image is
  \<open>100 - compressed * 100 / original\<close> in \<open>u64\<close>, a panic in a build with overflow checks when the image grew.
\<close>

definition prepare_file ::
  "client_env \<Rightarrow> media_env \<Rightarrow> string \<Rightarrow> string \<Rightarrow> bool \<Rightarrow> (string + bytes \<times> string) option" where
  "prepare_file ce me file_path msg_type is_hd =
     (case read_file me file_path of
        Inl e \<Rightarrow> Some (Inl e)
      | Inr file_data \<Rightarrow>
          if is_image_name file_path \<and> \<not> is_hd \<and> msg_type \<noteq> ''voice'' then
            (case recompress me file_data of
               None \<Rightarrow> Some (Inr (file_data, []))
             | Some (Inl e) \<Rightarrow> Some (Inl e)
             | Some (Inr (compressed, thumb_data)) \<Rightarrow>
                 if 0 < length file_data \<and> overflow_checks (ce_prims ce) \<and>
                    100 < length compressed * 100 div length file_data
                 then None
                 else Some (Inr (compressed, base64_encode (ce_codecs ce) thumb_data)))
          else Some (Inr (file_data, [])))"

primrec send_chunks ::
  "client_env \<Rightarrow> 'w net \<Rightarrow> (nat \<Rightarrow> draws) \<Rightarrow> nat \<Rightarrow> string \<Rightarrow> json list \<Rightarrow> 'w cstate \<Rightarrow>
   ((string + unit) \<times> 'w cstate) option" where
  "send_chunks ce net drs i recipient [] s = Some (Inr (), s)"
| "send_chunks ce net drs i recipient (payload # payloads) s =
     (case value_to_vec ce payload of
        Inl e \<Rightarrow> Some (Inl e, s)
      | Inr payload_bytes \<Rightarrow>
          (case send_piece ce net (drs i) recipient payload_bytes s of
             None \<Rightarrow> None
           | Some (Inl e, s') \<Rightarrow> Some (Inl e, s')
           | Some (Inr _, s') \<Rightarrow> send_chunks ce net drs (Suc i) recipient payloads s'))"

definition file_label :: "string \<Rightarrow> string \<Rightarrow> bool \<Rightarrow> string \<Rightarrow> nat \<Rightarrow> string" where
  "file_label msg_type file_name is_image thumbnail_b64 file_size =
     (if is_image \<and> thumbnail_b64 \<noteq> [] then
        [CHR 0xF0, CHR 0x9F, CHR 0x96, CHR 0xBC, CHR 0xEF, CHR 0xB8, CHR 0x8F] @ '' '' @ file_name @ '' ('' @ show_nat (file_size div 1024) @ '' KB, compressed)''
      else if msg_type = ''voice'' then [CHR 0xF0, CHR 0x9F, CHR 0x8E, CHR 0xA4] @ '' Voice ('' @ file_name @ '')''
      else [CHR 0xF0, CHR 0x9F, CHR 0x93, CHR 0x81] @ '' '' @ file_name @ '' ('' @ show_nat (file_size div 1024) @ '' KB)'')"

text \<open>\<open>nanos\<close> is the clock reading the file id is made of.\<close>

definition send_file_inner ::
  "client_env \<Rightarrow> media_env \<Rightarrow> 'w net \<Rightarrow> draws \<Rightarrow> (nat \<Rightarrow> draws) \<Rightarrow> nat \<Rightarrow> string \<Rightarrow> string \<Rightarrow> string \<Rightarrow> bool \<Rightarrow>
   'w cstate \<Rightarrow> ((string + unit) \<times> 'w cstate) option" where
  "send_file_inner ce me net dr drs nanos recipient file_path msg_type is_hd s =
     (case prepare_file ce me file_path msg_type is_hd of
        None \<Rightarrow> None
      | Some (Inl e) \<Rightarrow> Some (Inl e, s)
      | Some (Inr (file_data, thumbnail_b64)) \<Rightarrow>
          (let file_name = unwrap_or (path_file_name file_path) ''unknown'';
               is_image = is_image_name file_path;
               payloads = file_payloads (ce_codecs ce) msg_type (lower_hex nanos) file_name file_data is_image thumbnail_b64
           in case send_chunks ce net drs 0 recipient payloads s of
                None \<Rightarrow> None
              | Some (Inl e, s') \<Rightarrow> Some (Inl e, s')
              | Some (Inr _, (c, files, w)) \<Rightarrow>
                  (let (c', files') = push_sent ce (dr_millis dr 0) recipient
                         (file_label msg_type file_name is_image thumbnail_b64 (length file_data)) (c, files)
                   in Some (Inr (), c', files', w))))"

definition send_file ::
  "client_env \<Rightarrow> media_env \<Rightarrow> 'w net \<Rightarrow> draws \<Rightarrow> (nat \<Rightarrow> draws) \<Rightarrow> nat \<Rightarrow> string \<Rightarrow> string \<Rightarrow> bool \<Rightarrow>
   'w cstate \<Rightarrow> ((string + unit) \<times> 'w cstate) option" where
  "send_file ce me net dr drs nanos recipient file_path is_hd s =
     send_file_inner ce me net dr drs nanos recipient file_path ''file'' is_hd s"

definition send_voice ::
  "client_env \<Rightarrow> media_env \<Rightarrow> 'w net \<Rightarrow> draws \<Rightarrow> (nat \<Rightarrow> draws) \<Rightarrow> nat \<Rightarrow> string \<Rightarrow> string \<Rightarrow>
   'w cstate \<Rightarrow> ((string + unit) \<times> 'w cstate) option" where
  "send_voice ce me net dr drs nanos recipient file_path s =
     send_file_inner ce me net dr drs nanos recipient file_path ''voice'' True s"

section \<open>Stickers\<close>

definition STICKER_PACKS :: "(string \<times> (i64 \<times> string \<times> string) list) list" where
  "STICKER_PACKS =
     [(''wave'', [(1, [CHR 0xF0, CHR 0x9F, CHR 0x91, CHR 0x8B], ''Wave''),
        (2, [CHR 0xF0, CHR 0x9F, CHR 0x91, CHR 0x8D], ''Thumbs up''),
        (3, [CHR 0xE2, CHR 0x9C, CHR 0x8C, CHR 0xEF, CHR 0xB8, CHR 0x8F], ''Peace''),
        (4, [CHR 0xF0, CHR 0x9F, CHR 0xA4, CHR 0x99], ''Call me'')]),
      (''face'', [(1, [CHR 0xF0, CHR 0x9F, CHR 0x98, CHR 0x8A], ''Smile''),
        (2, [CHR 0xF0, CHR 0x9F, CHR 0x98, CHR 0x82], ''LOL''),
        (3, [CHR 0xF0, CHR 0x9F, CHR 0x98, CHR 0x8D], ''Love''),
        (4, [CHR 0xF0, CHR 0x9F, CHR 0x98, CHR 0xA2], ''Sad''),
        (5, [CHR 0xF0, CHR 0x9F, CHR 0x98, CHR 0xA1], ''Angry'')]),
      (''heart'', [(1, [CHR 0xE2, CHR 0x9D, CHR 0xA4, CHR 0xEF, CHR 0xB8, CHR 0x8F], ''Red heart''),
        (2, [CHR 0xF0, CHR 0x9F, CHR 0xA7, CHR 0xA1], ''Orange heart''),
        (3, [CHR 0xF0, CHR 0x9F, CHR 0x92, CHR 0x9B], ''Yellow heart''),
        (4, [CHR 0xF0, CHR 0x9F, CHR 0x92, CHR 0x9A], ''Green heart''),
        (5, [CHR 0xF0, CHR 0x9F, CHR 0x92, CHR 0x9C], ''Purple heart'')]),
      (''mood'', [(1, [CHR 0xF0, CHR 0x9F, CHR 0x8E, CHR 0x89], ''Party''),
        (2, [CHR 0xF0, CHR 0x9F, CHR 0x94, CHR 0xA5], ''Fire''),
        (3, [CHR 0xF0, CHR 0x9F, CHR 0x92, CHR 0xAF], ''100''),
        (4, [CHR 0xE2, CHR 0xAD, CHR 0x90], ''Star''),
        (5, [CHR 0xF0, CHR 0x9F, CHR 0x8E, CHR 0x82], ''Birthday'')])]"

definition find_sticker :: "string \<Rightarrow> i64 \<Rightarrow> string \<times> string" where
  "find_sticker pack_id sticker_id =
     (case find (\<lambda>p. fst p = pack_id) STICKER_PACKS of
        None \<Rightarrow> ([CHR 0xF0, CHR 0x9F, CHR 0x96, CHR 0xBC, CHR 0xEF, CHR 0xB8, CHR 0x8F], [])
      | Some (_, stickers) \<Rightarrow>
          (case find (\<lambda>s. fst s = sticker_id) stickers of
             None \<Rightarrow> ([CHR 0xF0, CHR 0x9F, CHR 0x96, CHR 0xBC, CHR 0xEF, CHR 0xB8, CHR 0x8F], [])
           | Some (_, e, a) \<Rightarrow> (e, a)))"

definition send_sticker ::
  "client_env \<Rightarrow> 'w net \<Rightarrow> draws \<Rightarrow> string \<Rightarrow> string \<Rightarrow> i64 \<Rightarrow> 'w cstate \<Rightarrow> ((string + unit) \<times> 'w cstate) option" where
  "send_sticker ce net dr recipient pack_id sticker_id s =
     (case find_sticker pack_id sticker_id of (emoji, alt) \<Rightarrow>
       send_payload ce net dr recipient
         (JObject [(''__tintin_type'', JString ''sticker''), (''pack_id'', JString pack_id),
                   (''sticker_id'', JNumber sticker_id), (''emoji'', JString emoji), (''alt'', JString alt)]) s)"

text \<open>The sticker file of the client's directory; one that cannot be read after all is an error too.\<close>

definition send_custom_sticker ::
  "client_env \<Rightarrow> media_env \<Rightarrow> 'w net \<Rightarrow> draws \<Rightarrow> string \<Rightarrow> string \<Rightarrow> 'w cstate \<Rightarrow>
   ((string + unit) \<times> 'w cstate) option" where
  "send_custom_sticker ce me net dr recipient sticker_name s =
     (let sticker_path = path_join (sticker_dir (ce_storage ce)) (sticker_name @ ''.jpg'')
      in if fst (snd s) sticker_path = None
         then Some (Inl (''Sticker '' @ CHR 0x27 # sticker_name @ CHR 0x27 # '' not found. Use /sticker list to see available stickers.''), s)
         else (case read_file me sticker_path of
                 Inl e \<Rightarrow> Some (Inl e, s)
               | Inr sticker_data \<Rightarrow>
                   send_payload ce net dr recipient
                     (JObject [(''__tintin_type'', JString ''sticker''), (''pack_id'', JString ''custom''),
                               (''sticker_name'', JString sticker_name),
                               (''image_data'', JString (base64_encode (ce_codecs ce) sticker_data))]) s))"

section \<open>Audio of a call\<close>

definition media_chunk_payload :: "client_env \<Rightarrow> string \<Rightarrow> nat \<Rightarrow> nat \<Rightarrow> bytes \<Rightarrow> json" where
  "media_chunk_payload ce call_id total_chunks seq ciphertext =
     JObject [(''__tintin_type'', JString ''media_chunk''), (''call_id'', JString call_id), (''seq'', JNumber (int seq)),
              (''total'', JNumber (int total_chunks)), (''data'', JString (base64_encode (ce_codecs ce) ciphertext)),
              (''nonce'', JString (hex_encode (ce_prims ce) (u64_le_bytes seq @ replicate 4 0))),
              (''sample_rate'', JNumber 44100), (''channels'', JNumber 1)]"

text \<open>The nonce the cipher draws is \<open>dr_nonce (drs (2 * seq))\<close>; the send itself draws from \<open>drs (2 * seq + 1)\<close>.\<close>

primrec send_media_chunks ::
  "client_env \<Rightarrow> 'w net \<Rightarrow> (nat \<Rightarrow> draws) \<Rightarrow> string \<Rightarrow> string \<Rightarrow> bytes \<Rightarrow> nat \<Rightarrow> nat \<Rightarrow> bytes list \<Rightarrow> 'w cstate \<Rightarrow>
   ((string + unit) \<times> 'w cstate) option" where
  "send_media_chunks ce net drs peer call_id media_key total_chunks seq [] s = Some (Inr (), s)"
| "send_media_chunks ce net drs peer call_id media_key total_chunks seq (chunk # cs) s =
     (case encrypt (ce_prims ce) (dr_nonce (drs (2 * seq))) chunk media_key of
        Inl e \<Rightarrow> Some (Inl (''Encryption error: '' @ error_message e), s)
      | Inr (ciphertext, _) \<Rightarrow>
          (case send_payload ce net (drs (2 * seq + 1)) peer (media_chunk_payload ce call_id total_chunks seq ciphertext) s of
             None \<Rightarrow> None
           | Some (Inl e, s') \<Rightarrow> Some (Inl e, s')
           | Some (Inr _, s') \<Rightarrow> send_media_chunks ce net drs peer call_id media_key total_chunks (Suc seq) cs s'))"

definition stream_audio ::
  "client_env \<Rightarrow> devices \<Rightarrow> 'w net \<Rightarrow> (nat \<Rightarrow> draws) \<Rightarrow> draws \<Rightarrow> ActiveCall \<Rightarrow> bytes \<Rightarrow> string \<Rightarrow> bytes \<Rightarrow>
   'w cstate \<Rightarrow> ((string + unit) \<times> 'w cstate) option" where
  "stream_audio ce dv net drs fin call shared_secret path audio_data s =
     (let chunk_size = min 88200 (length audio_data);
          total_chunks = (length audio_data + chunk_size - 1) div chunk_size
      in case send_media_chunks ce net drs (ca_peer call) (ca_call_id call)
                (call_media_key (ce_prims ce) shared_secret) total_chunks 0 (chunks chunk_size audio_data) s of
           None \<Rightarrow> None
         | Some (Inl e, s') \<Rightarrow> Some (Inl e, s')
         | Some (Inr _, s') \<Rightarrow>
             (case send_payload ce net fin (ca_peer call)
                     (JObject [(''__tintin_type'', JString ''media_chunk''),
                               (''call_id'', JString (ca_call_id call)), (''seq'', JNumber (int total_chunks)),
                               (''total'', JNumber (int total_chunks)), (''end_of_stream'', JBool True)]) s' of
                None \<Rightarrow> None
              | Some (Inl e, s'') \<Rightarrow> Some (Inl e, s'')
              | Some (Inr _, (c, files, w)) \<Rightarrow>
                  Some (Inr (), c, files(path := remove_leaves dv path (files path)), w)))"

text \<open>
  A recording that reads back empty divides by zero. The send number \<open>i\<close> of the stream draws from
  \<open>drs i\<close>, \<open>fin\<close> is what the end marker draws; the recording is removed when all is sent.
\<close>

definition send_call_media ::
  "client_env \<Rightarrow> media_env \<Rightarrow> devices \<Rightarrow> 'w net \<Rightarrow> (nat \<Rightarrow> draws) \<Rightarrow> draws \<Rightarrow> nat \<Rightarrow> 'w cstate \<Rightarrow>
   ((string + unit) \<times> 'w cstate) option" where
  "send_call_media ce me dv net drs fin duration_secs s =
     (case c_active_call (fst s) of
        None \<Rightarrow> Some (Inl ''No active call. Use /call <user> first.'', s)
      | Some call \<Rightarrow>
          if ca_state call \<noteq> Connected then Some (Inl ''Call is not connected yet. Use /accept first.'', s)
          else
            (case ca_shared_media_secret call of
               None \<Rightarrow> Some (Inl ''Media key not established yet. Wait for the call to connect fully.'', s)
             | Some shared_secret \<Rightarrow>
                 (case record_voice ce dv duration_secs (fst (snd s)) of
                    None \<Rightarrow> None
                  | Some (Inl e, files1) \<Rightarrow> Some (Inl e, fst s, files1, snd (snd s))
                  | Some (Inr path, files1) \<Rightarrow>
                      (case read_file me path of
                         Inl e \<Rightarrow> Some (Inl e, fst s, files1, snd (snd s))
                       | Inr audio_data \<Rightarrow>
                           if audio_data = [] then None
                           else stream_audio ce dv net drs fin call shared_secret path audio_data
                                  (fst s, files1, snd (snd s))))))"

section \<open>The client's own stickers\<close>

definition quoted :: "string \<Rightarrow> string" where
  "quoted s = CHR 0x27 # s @ [CHR 0x27]"

definition add_custom_sticker ::
  "client_env \<Rightarrow> media_env \<Rightarrow> devices \<Rightarrow> string \<Rightarrow> string \<Rightarrow> files \<Rightarrow> (string + unit) \<times> files" where
  "add_custom_sticker ce me dv file_path name files =
     (case read_file me file_path of
        Inl e \<Rightarrow> (Inl (''Cannot read '' @ quoted file_path @ '': '' @ e), files)
      | Inr data \<Rightarrow>
          (case sticker_jpeg dv data of
             None \<Rightarrow> (Inl (quoted file_path @ '' is not a supported image format''), files)
           | Some (jpeg, encoder_error) \<Rightarrow>
               (let out_path = path_join (sticker_dir (ce_storage ce)) (name @ ''.jpg'')
                in case write_error dv out_path of
                     Some e \<Rightarrow> (Inl e, files)
                   | None \<Rightarrow>
                       (case encoder_error of None \<Rightarrow> Inr () | Some e \<Rightarrow> Inl (''Failed to write sticker: '' @ e),
                        write_file (ce_storage ce) out_path (bytes_text jpeg) files))))"

text \<open>\<open>Path::file_stem\<close>: the file name without its extension.\<close>

definition path_stem :: "string \<Rightarrow> string option" where
  "path_stem p =
     (case path_file_name p of
        None \<Rightarrow> None
      | Some f \<Rightarrow> (case path_extension p of None \<Rightarrow> Some f | Some ext \<Rightarrow> Some (take (length f - length ext - 1) f)))"

definition sticker_entry :: "devices \<Rightarrow> string \<Rightarrow> (string \<times> string) option" where
  "sticker_entry dv path =
     (case path_extension path of
        None \<Rightarrow> None
      | Some ext \<Rightarrow>
          if ext \<in> {''jpg'', ''png'', ''gif'', ''webp''}
          then map_option (\<lambda>stem. (stem, show_nat (file_len dv path div 1024) @ '' KB'')) (path_stem path)
          else None)"

definition list_custom_stickers :: "client_env \<Rightarrow> devices \<Rightarrow> (string \<times> string) list" where
  "list_custom_stickers ce dv =
     sort_key fst (List.map_filter (sticker_entry dv) (list_dir dv (sticker_dir (ce_storage ce))))"

end
