(* ===== verification/Delivery_Properties.thy ===== *)
theory Delivery_Properties
  imports Client_Properties Established_Session Cli_Media
begin

text \<open>
  Properties of the client's sending and receiving loops: a fetch whose first message is broken, a first
  message in somebody else's name, group messages, edits, the audio of a call and voice notes.
\<close>

section \<open>A fetch through the relay\<close>

lemma receipts_for_recipient:
  "e \<in> set (receipts_for w ev u j msgs) \<Longrightarrow> \<exists>m\<in>set msgs. env_recipient_id e = env_sender_id m"
  by (induction msgs arbitrary: j) (auto simp: receipt_envelope_def Envelope_new_def split: if_splits)

lemma fetch_empties_mailbox:
  assumes "relay_laws ce sv evs" and "db_ok st"
    and "auto_seq (t_messages st) + int (length (mailbox (codec sv) st u)) \<le> i64_max"
    and "\<forall>x\<in>set (mailbox (codec sv) st u). env_sender_id x \<noteq> u"
  obtains st' where "fetch_messages (codec sv) (evs 0) u st = (Inr (mailbox (codec sv) st u), st')"
    and "mailbox (codec sv) st' u = []" and "db_ok st'"
    and "auto_seq (t_messages st') \<le> auto_seq (t_messages st) + int (length (mailbox (codec sv) st u))"
proof -
  let ?w = "codec sv"
  note D = relay_lawsD [OF assms(1)]
  obtain es st' where f: "fetch_messages ?w (evs 0) u st = (Inr es, st')"
    using fetch_messages_total [OF D(4,6) assms(3,2)] by blast
  have r: "(es, mailbox ?w st') = mb_fetch ?w (evs 0) u (mailbox ?w st)"
    using fetch_messages_Inr [OF D(6) assms(2) _ f] D(4) by simp
  then have es: "es = mailbox ?w st u" by (simp add: mb_fetch_def)
  have "mailbox ?w st' u = filter (\<lambda>e. env_recipient_id e = u) (receipts_for ?w (evs 0) u 0 (mailbox ?w st u))"
    using r by (simp add: mb_fetch_def fold_deliver)
  also have "\<dots> = []"
    using receipts_for_recipient assms(4) by (fastforce simp: filter_empty_conv)
  finally have mb: "mailbox ?w st' u = []" .
  have ok: "db_ok st'" using fetch_messages_ok [OF assms(2)] f by (metis snd_conv)
  show thesis
    by (rule that [OF f [unfolded es] mb ok]) (use fetch_messages_seq [OF f] es in simp)
qed

text \<open>
  Property C15. One broken message destroys a whole fetch. The relay deletes what it hands out, and the
  client's loop leaves at the first pre-key message whose content does not parse, which anybody can put
  into anybody's mailbox. If such a message comes first, the fetch fails with the client unchanged, the
  mailbox is empty at the relay, and the next fetch succeeds with the client still unchanged: every
  message behind the broken one is lost.
\<close>

theorem broken_message_loses_fetch:
  assumes "relay_laws ce sv evs" and "db_ok st" and "c_user_id cb = bob"
    and "mailbox (codec sv) st bob = e # es" and "\<forall>x\<in>set (e # es). env_sender_id x \<noteq> bob"
    and "env_msg_type e = PreKeyBundleType" and "prekey_from_slice ce (env_content e) = Inl err"
    and "auto_seq (t_messages st) + int (length (e # es)) \<le> i64_max"
  shows "\<exists>st1 st2. receive_messages ce (relay_net ce sv evs) drs (cb, fb, st) = Some (Inl err, cb, fb, st1) \<and>
    mailbox (codec sv) st1 bob = [] \<and>
    receive_messages ce (relay_net ce sv evs) drs' (cb, fb, st1) = Some (Inr (), cb, fb, st2)"
proof -
  let ?w = "codec sv"
  note D = relay_lawsD [OF assms(1)]
  obtain st1 where f1: "fetch_messages ?w (evs 0) bob st = (Inr (e # es), st1)" and mb1: "mailbox ?w st1 bob = []"
    and ok1: "db_ok st1" and seq1: "auto_seq (t_messages st1) \<le> auto_seq (t_messages st) + int (length (e # es))"
    using fetch_empties_mailbox [OF assms(1,2), of bob] assms(4,5,8) by metis
  have "envelope_from_value ce (jnorm (envelope_to_value ?w e)) = Inr e"
    using D(2) by (simp add: struct_codec_def)
  then have "receive_messages ce (relay_net ce sv evs) drs (cb, fb, st) = Some (Inl err, cb, fb, st1)"
    using relay_receive_messages [OF assms(1), of cb st "e # es" st1 drs fb] f1 assms(3,6,7)
    by (simp add: receive_message_def receive_prekey_def)
  moreover have room: "auto_seq (t_messages st1) + int (length (mailbox ?w st1 bob)) \<le> i64_max"
    using mb1 seq1 assms(8) by simp
  have "\<forall>x\<in>set (mailbox ?w st1 bob). env_sender_id x \<noteq> bob" using mb1 by simp
  from fetch_empties_mailbox [OF assms(1) ok1 room this] obtain st2 where
    "fetch_messages ?w (evs 0) bob st1 = (Inr (mailbox ?w st1 bob), st2)" .
  then have "receive_messages ce (relay_net ce sv evs) drs' (cb, fb, st1) = Some (Inr (), cb, fb, st2)"
    using relay_receive_messages [OF assms(1), of cb st1 "[]" st2 drs' fb] mb1 assms(3) by simp
  ultimately show ?thesis using mb1 by blast
qed

definition broken_envelope :: Envelope where
  "broken_envelope = Envelope_new 1 ''mallory'' ''bob'' [] PreKeyBundleType"

lemma broken_queue:
  obtains st1 st2 where
    "queue_message demo_wire (quiet_env 0) broken_envelope (empty_db True) = (Inr (), st1)"
    "queue_message demo_wire (quiet_env 0) (demo_envelope ''alice'' ''bob'' Normal) st1 = (Inr (), st2)"
    "mailbox demo_wire st2 ''bob'' = [broken_envelope, demo_envelope ''alice'' ''bob'' Normal]"
    "db_ok st2" "auto_seq (t_messages st2) = 2"
proof -
  have nf: "no_faults (quiet_env 0)" by simp
  obtain st1 where q1: "queue_message demo_wire (quiet_env 0) broken_envelope (empty_db True) = (Inr (), st1)"
    using queue_message_total [OF nf, of "empty_db True" demo_wire broken_envelope] by (auto simp: i64_max_def)
  have s1: "auto_seq (t_messages st1) = 1" using queue_message_seq [OF q1] by simp
  obtain st2 where q2: "queue_message demo_wire (quiet_env 0) (demo_envelope ''alice'' ''bob'' Normal) st1 = (Inr (), st2)"
    using queue_message_total [OF nf, of st1 demo_wire "demo_envelope ''alice'' ''bob'' Normal"] s1 by (auto simp: i64_max_def)
  have ok1: "db_ok st1" using queue_message_ok [OF db_ok_empty] q1 by (metis snd_conv)
  have "mailbox demo_wire st2 ''bob'' = [broken_envelope, demo_envelope ''alice'' ''bob'' Normal]"
    using queue_message_Inr [OF demo_wire_codec q2] queue_message_Inr [OF demo_wire_codec q1]
    by (simp add: mb_deliver_def demo_envelope_def broken_envelope_def Envelope_new_def)
  moreover have "db_ok st2" using queue_message_ok [OF ok1] q2 by (metis snd_conv)
  ultimately show thesis using that q1 q2 queue_message_seq [OF q2] s1 by simp
qed

theorem broken_message_loses_fetch_witness:
  "\<exists>st st1 st2.
    mailbox demo_wire st ''bob'' = [broken_envelope, demo_envelope ''alice'' ''bob'' Normal] \<and>
    receive_messages relay_client_env (relay_net relay_client_env relay_server (\<lambda>_. quiet_env 0)) (\<lambda>_. demo_draw)
      (relay_client 20 ''bob'', \<lambda>_. None, st) = Some (Inl ''EOF'', relay_client 20 ''bob'', \<lambda>_. None, st1) \<and>
    mailbox demo_wire st1 ''bob'' = [] \<and>
    receive_messages relay_client_env (relay_net relay_client_env relay_server (\<lambda>_. quiet_env 0)) (\<lambda>_. demo_draw)
      (relay_client 20 ''bob'', \<lambda>_. None, st1) = Some (Inr (), relay_client 20 ''bob'', \<lambda>_. None, st2)"
proof -
  obtain st where st: "mailbox demo_wire st ''bob'' = [broken_envelope, demo_envelope ''alice'' ''bob'' Normal]"
    "db_ok st" "auto_seq (t_messages st) = 2"
    using broken_queue by metis
  have w: "codec relay_server = demo_wire" by (simp add: relay_server_def)
  from broken_message_loses_fetch [where cb = "relay_client 20 ''bob''" and st = st and bob = "''bob''" and fb = "\<lambda>_. None"
      and e = broken_envelope and es = "[demo_envelope ''alice'' ''bob'' Normal]" and err = "''EOF''"
      and drs = "\<lambda>_. demo_draw" and drs' = "\<lambda>_. demo_draw", OF relay_laws_hold, unfolded w] st
  show ?thesis
    by (simp add: relay_client_fields broken_envelope_def demo_envelope_def Envelope_new_def i64_max_def relay_client_env_def)
      blast
qed

section \<open>Who sent it\<close>

text \<open>
  Property C13. Identities are not checked. A client that calls itself Alice but has keys of its own writes
  to Bob, who already has a session with the real Alice under another identity key. Nothing fails: Bob's
  log shows the text as Alice's, his session with her is replaced by one linked to the impostor's, and the
  identity key in it is the impostor's.
\<close>

theorem impostor_takes_over_session:
  assumes "relay_laws ce sv evs" and "dh_commutes (ce_prims ce)" and "hkdf_total (ce_prims ce)"
    and "aead_correct (ce_prims ce)" and "aead_total (ce_prims ce)" and "client_keys (ce_prims ce) cb"
    and "plain_text ce text" and "length text < 2 ^ 32"
    and "c_user_id impostor = alice" and "c_user_id cb = bob" and "alice \<noteq> bob"
    and "SessionStore_get (c_sessions impostor) bob 1 = None"
    and "SessionStore_get (c_sessions cb) alice 1 = Some old"
    and "s_their_identity old \<noteq> public_key (c_identity impostor)"
    and "published sv (own_bundle cb) bob st" and "db_ok st"
    and "mailbox (codec sv) st alice = []" and "mailbox (codec sv) st bob = []"
    and "auto_seq (t_messages st) + 5 \<le> i64_max"
  shows "\<exists>ci fi st1 cb1 fb1 st2 si sb.
    send_message ce (relay_net ce sv evs) dr bob text (impostor, files, st) = Some (Inr (), ci, fi, st1) \<and>
    receive_messages ce (relay_net ce sv evs) drs (cb, fb, st1) = Some (Inr (), cb1, fb1, st2) \<and>
    c_chat_log cb1 = c_chat_log cb @ [incoming alice text (dr_millis (drs 0) 0)] \<and>
    SessionStore_get (c_sessions ci) bob 1 = Some si \<and> SessionStore_get (c_sessions cb1) alice 1 = Some sb \<and>
    session_linked (ce_prims ce) si sb [] [] \<and> s_their_identity sb = public_key (c_identity impostor)"
proof -
  let ?net = "relay_net ce sv evs" and ?w = "codec sv" and ?pr = "ce_prims ce"
  have room: "auto_seq (t_messages st) < i64_max" using assms(19) by simp
  have "bob \<noteq> c_user_id impostor" using assms(9,11) by simp
  from first_send [OF assms(1,3,5,2,6,15) this assms(12,8) room, of dr files]
  obtain a b m a' content ci fi st1 where
    hs: "handshake ?pr (dr_rng dr 0) (c_identity impostor) (c_identity cb) (c_signed_pre_key cb) (alice, bob) = Some (a, b)"
    and enc: "Session_encrypt ?pr a (dr_nonce dr) (as_bytes text) = Some (Inr m, a')"
    and pk: "prekey_from_slice ce content = Inr \<lparr>pkm_identity_key = public_key (c_identity impostor),
      pkm_base_key = kp_public (r_dh_ratchet_key (s_ratchet a)), pkm_session_message = m\<rparr>"
    and q: "queue_message ?w (evs 0) (Envelope_new (dr_millis dr 0) alice bob content PreKeyBundleType) st = (Inr (), st1)"
    and sent: "send_message ce ?net dr bob text (impostor, files, st) = Some (Inr (), ci, fi, st1)"
    and si: "SessionStore_get (c_sessions ci) bob 1 = Some a'"
    using assms(9) by auto
  let ?e = "Envelope_new (dr_millis dr 0) alice bob content PreKeyBundleType"
  obtain st2 where f: "fetch_messages ?w (evs 0) bob st1 = (Inr [?e], st2)" and seq: "auto_seq (t_messages st2) + 3 \<le> i64_max"
    using relay_delivery [OF assms(1,16-18,11,19) q] by (auto simp: wants_receipt_def)
  then have room2: "auto_seq (t_messages st2) < i64_max" by simp
  obtain b' cb1 fb1 st3 where
    recv: "receive_message ce ?net (drs 0) ?e (cb, fb, st2) = Some (Inr (), cb1, fb1, st3)"
    and linked: "session_linked ?pr a' b' [] []" and key: "session_key b' = (alice, 1)"
    and ident: "s_their_identity b' = public_key (c_identity impostor)"
    and cb1: "cb1 = cb\<lparr>c_sessions := SessionStore_add b' (c_sessions cb),
        c_chat_log := c_chat_log cb @ [incoming alice text (dr_millis (drs 0) 0)]\<rparr>"
    using first_receive [where dr = "drs 0" and files = fb, OF assms(1,2,4,6,7) hs enc pk room2 assms(10) refl] by blast
  have "receive_messages ce ?net drs (cb, fb, st1) = Some (Inr (), cb1, fb1, st3)"
    using relay_receive_messages [OF assms(1), of cb st1 "[?e]" st2 drs fb] f assms(10)
      receive_loop_Cons [where drs = drs and i = 0, OF assms(1) recv] by simp
  with sent si linked ident SessionStore_get_add [OF key] cb1 show ?thesis by auto
qed

text \<open>Bob at the relay with a session with the real Alice.\<close>

definition alice_session :: Session where
  "alice_session = \<lparr>s_remote_user_id = ''alice'', s_remote_device_id = 1, s_role = Responder,
     s_our_identity = c_identity (relay_client 20 ''bob''), s_their_identity = public_key (c_identity (relay_client 30 ''alice'')),
     s_ratchet = demo_ratchet, s_version = PROTOCOL_VERSION\<rparr>"

definition bob_with_alice :: TinTinClient where
  "bob_with_alice = (relay_client 20 ''bob'')\<lparr>c_sessions := SessionStore_add alice_session SessionStore_new\<rparr>"

lemma bob_with_alice_fields:
  "c_user_id bob_with_alice = ''bob''" "client_keys demo_prims bob_with_alice"
  "SessionStore_get (c_sessions bob_with_alice) ''alice'' 1 = Some alice_session"
  using relay_client_keys [of 20 "''bob''"] SessionStore_get_add [of alice_session "''alice''" 1]
  by (simp_all add: bob_with_alice_def relay_client_fields client_keys_def alice_session_def session_key_def)

lemma alice_not_impostor: "s_their_identity alice_session \<noteq> public_key (c_identity (relay_client 10 ''alice''))"
  by (simp add: alice_session_def relay_client_def TinTinClient_new_def Let_def load_chat_log_def load_channels_def
      load_groups_def load_history_def IdentityKeyPair_generate_def public_key_def KeyPair_generate_def demo_prims_def pad_def)

lemma bob_registered:
  assumes "c_user_id cb = bob" and "length (public_key (c_identity cb)) = 32"
  obtains st where "published relay_server (own_bundle cb) bob st" "db_ok st"
    "mailbox demo_wire st u = []" "mailbox demo_wire st v = []" "auto_seq (t_messages st) = 0"
proof -
  from relay_register [OF relay_laws_hold assms(2), of "empty_db True"] obtain b where
    pub: "published relay_server (own_bundle cb) bob (snd (register_user (quiet_env 0) bob (public_key (c_identity cb)) b (empty_db True)))"
    using assms(1) by auto
  show thesis
    by (rule that [OF pub]) (simp_all add: register_user_ok register_user_mailbox register_user_seq db_ok_empty)
qed

theorem impostor_takes_over_session_witness:
  "\<exists>st ci fi st1 cb1 fb1 st2 sb.
    send_message relay_client_env (relay_net relay_client_env relay_server (\<lambda>_. quiet_env 0)) demo_draw ''bob'' ''hi''
      (relay_client 10 ''alice'', \<lambda>_. None, st) = Some (Inr (), ci, fi, st1) \<and>
    receive_messages relay_client_env (relay_net relay_client_env relay_server (\<lambda>_. quiet_env 0)) (\<lambda>_. demo_draw)
      (bob_with_alice, \<lambda>_. None, st1) = Some (Inr (), cb1, fb1, st2) \<and>
    SessionStore_get (c_sessions cb1) ''alice'' 1 = Some sb \<and>
    s_their_identity sb = public_key (c_identity (relay_client 10 ''alice''))"
proof -
  have pr: "ce_prims relay_client_env = demo_prims" "codec relay_server = demo_wire"
    by (simp_all add: relay_client_env_def relay_server_def)
  have none: "SessionStore_get (c_sessions (relay_client 10 ''alice'')) ''bob'' 1 = None"
    by (simp add: relay_client_fields SessionStore_get_def SessionStore_new_def)
  have "length (public_key (c_identity bob_with_alice)) = 32"
    using bob_with_alice_fields(2) by (simp add: client_keys_def)
  from bob_registered [OF bob_with_alice_fields(1) this, of "''alice''" "''bob''"] obtain st where
    st: "published relay_server (own_bundle bob_with_alice) ''bob'' st" "db_ok st"
      "mailbox demo_wire st ''alice'' = []" "mailbox demo_wire st ''bob'' = []" "auto_seq (t_messages st) = 0" .
  then have room: "auto_seq (t_messages st) + 5 \<le> i64_max" by (simp add: i64_max_def)
  from impostor_takes_over_session [where impostor = "relay_client 10 ''alice''" and dr = demo_draw and files = "\<lambda>_. None"
      and fb = "\<lambda>_. None" and drs = "\<lambda>_. demo_draw" and alice = "''alice''" and bob = "''bob''" and old = alice_session,
      OF relay_laws_hold, unfolded pr, OF demo_dh_commutes demo_hkdf_total demo_aead_correct demo_aead_total
        bob_with_alice_fields(2) plain_text_hi _ relay_client_fields(1) bob_with_alice_fields(1) _ none
        bob_with_alice_fields(3) alice_not_impostor st(1-4) room]
  show ?thesis by simp (elim exE conjE, intro exI conjI, assumption+)
qed

section \<open>Group messages\<close>

definition group_payload :: "string \<Rightarrow> string \<Rightarrow> string \<Rightarrow> json" where
  "group_payload gid name text =
     JObject [(''__tintin_type'', JString ''group''), (''group_id'', JString gid), (''group_name'', JString name),
              (''text'', JString text)]"

definition members_request :: "string \<Rightarrow> json" where
  "members_request gid = JObject [(''cmd'', JString ''group_members''), (''group_id'', JString gid)]"

definition group_entry :: "string \<Rightarrow> string \<Rightarrow> string \<Rightarrow> nat \<Rightarrow> MessageRecord" where
  "group_entry sender name text now =
     \<lparr>mr_peer = sender, mr_text = text, mr_timestamp = word_of_nat now, mr_direction = Incoming, mr_is_group = True,
      mr_group_name = Some name, mr_is_channel = False, mr_channel_name = None, mr_edited = False\<rparr>"

lemma str_or_jnorm: "jvalid v \<Longrightarrow> str_or (jnorm v) k d = str_or v k d"
  by (simp add: str_or_def json_index_jnorm as_str_jnorm)

lemma group_payload_fields:
  "jvalid (group_payload gid name text)" "get_str (jnorm (group_payload gid name text)) ''__tintin_type'' = Some ''group''"
  "str_or (jnorm (group_payload gid name text)) ''text'' d = text"
  "str_or (jnorm (group_payload gid name text)) ''group_name'' d = name"
proof -
  show v: "jvalid (group_payload gid name text)" by (simp add: group_payload_def)
  show "get_str (jnorm (group_payload gid name text)) ''__tintin_type'' = Some ''group''"
    by (subst get_str_jnorm [OF v]) (simp add: get_str_def group_payload_def)
  show "str_or (jnorm (group_payload gid name text)) ''text'' d = text"
    "str_or (jnorm (group_payload gid name text)) ''group_name'' d = name"
    by (simp_all add: str_or_jnorm [OF v]) (simp_all add: str_or_def json_index_def group_payload_def)
qed

text \<open>
  A member's client \<open>cm\<close> and the sender's client \<open>c\<close> have sessions that are linked, with nothing in
  flight and \<open>n\<close> message numbers left.
\<close>

definition linked_clients :: "prims \<Rightarrow> nat \<Rightarrow> TinTinClient \<Rightarrow> TinTinClient \<Rightarrow> bool" where
  "linked_clients pr n c cm \<longleftrightarrow>
     (\<exists>s r. SessionStore_get (c_sessions c) (c_user_id cm) 1 = Some s \<and>
        SessionStore_get (c_sessions cm) (c_user_id c) 1 = Some r \<and>
        session_linked pr s r [] [] \<and> room_to_send pr n s \<and> room_to_receive pr n r)"

text \<open>One payload between two such clients: what the sender seals, the receiver opens.\<close>

lemma linked_exchange:
  assumes "wire_codec (ce_wire ce)" and "aead_total (ce_prims ce)" and "linked_clients (ce_prims ce) 1 c cm"
    and "length p < 2 ^ 32"
  obtains s m s' content r r' where "SessionStore_get (c_sessions c) (c_user_id cm) 1 = Some s"
    and "Session_encrypt (ce_prims ce) s nonce p = Some (Inr m, s')"
    and "SessionMessage_to_json (ce_wire ce) m = Inr content" and "SessionMessage_from_json (ce_wire ce) content = Inr m"
    and "SessionStore_get (c_sessions cm) (c_user_id c) 1 = Some r"
    and "Session_decrypt (ce_prims ce) r m = Some (Inr p, r')"
proof -
  let ?pr = "ce_prims ce"
  obtain s r where s: "SessionStore_get (c_sessions c) (c_user_id cm) 1 = Some s"
    and r: "SessionStore_get (c_sessions cm) (c_user_id c) 1 = Some r"
    and l: "session_linked ?pr s r [] []" "room_to_send ?pr (Suc 0) s" "room_to_receive ?pr (Suc 0) r"
    using assms(3) by (auto simp: linked_clients_def)
  obtain m s' where e: "Session_encrypt ?pr s nonce p = Some (Inr m, s')"
    and l': "session_linked ?pr s' r ([] @ [m]) ([] @ [p])"
    by (rule encrypt_linked [OF l(1,2) assms(2,4)])
  obtain r' where d: "Session_decrypt ?pr r m = Some (Inr p, r')"
    by (rule decrypt_linked [OF l' [simplified] l(3)])
  obtain content where "SessionMessage_to_json (ce_wire ce) m = Inr content" "SessionMessage_from_json (ce_wire ce) content = Inr m"
    by (rule session_codec [OF assms(1)])
  from that [OF s e this r d] show thesis .
qed

text \<open>What the log keeps of a payload that is neither a call signal nor a chunk of a file.\<close>

definition log_entry :: "codecs \<Rightarrow> string \<Rightarrow> nat \<Rightarrow> bytes \<Rightarrow> MessageRecord" where
  "log_entry cd sender now p =
     (case log_fields cd p of (text, is_group, group_name, is_channel, channel_name) \<Rightarrow>
        \<lparr>mr_peer = sender, mr_text = text, mr_timestamp = word_of_nat now, mr_direction = Incoming,
         mr_is_group = is_group, mr_group_name = group_name, mr_is_channel = is_channel,
         mr_channel_name = channel_name, mr_edited = False\<rparr>)"

definition chat_type :: "string \<Rightarrow> bool" where
  "chat_type tt \<longleftrightarrow> tt \<notin> {''call_offer'', ''call_accept'', ''call_end'', ''file'', ''voice''}"

lemma handle_chat_payload:
  assumes "value_from_slice (ce_codecs ce) p = Inr v" and "get_str v ''__tintin_type'' = Some tt" and "chat_type tt"
  shows "\<exists>c' files' w'. handle_plaintext ce net dr prekey e p (c, files, w) = Some (c', files', w') \<and>
    c_chat_log c' = c_chat_log c @ [log_entry (ce_codecs ce) (env_sender_id e) (dr_millis dr 0) p]"
  using assms
  by (simp add: chat_type_def handle_plaintext_def process_call_signal_def process_file_chunk_def record_decrypted_def
      record_message_def log_entry_def Let_def split: prod.split)

lemma receive_chat_message:
  assumes "value_from_slice (ce_codecs ce) p = Inr v" and "get_str v ''__tintin_type'' = Some tt" and "chat_type tt"
    and "SessionStore_get (c_sessions cm) (env_sender_id e) 1 = Some r" and "opens_to ce r e p"
    and "env_msg_type e = Normal" and "env_sender_id e \<noteq> c_user_id cm"
  shows "\<exists>cm' files' w'. receive_message ce net dr e (cm, files, w) = Some (Inr (), cm', files', w') \<and>
    c_chat_log cm' = c_chat_log cm @ [log_entry (ce_codecs ce) (env_sender_id e) (dr_millis dr 0) p]"
proof -
  obtain m r' where "SessionMessage_from_json (ce_wire ce) (env_content e) = Inr m"
    "Session_decrypt (ce_prims ce) r m = Some (Inr p, r')"
    using assms(5) by (auto simp: opens_to_def)
  from receive_established [where net = net and dr = dr and files = files and w = w, OF assms(6,7) this(1) assms(4) this(2)]
  show ?thesis
    using handle_chat_payload [OF assms(1-3), of net dr False e
      "cm\<lparr>c_sessions := store_put (env_sender_id e) r' (c_sessions cm)\<rparr>" files w] by auto
qed

text \<open>
  The loop over the members: one envelope each, in order, and every member's client logs the payload
  when it receives its envelope.
\<close>

lemma members_receive:
  assumes "wire_codec (ce_wire ce)" and "aead_total (ce_prims ce)" and "answers_sends ce net"
    and "distinct others" and "c_user_id c \<notin> set others" and "length t < 2 ^ 32"
    and "value_from_slice (ce_codecs ce) (as_bytes t) = Inr v" and "get_str v ''__tintin_type'' = Some tt" and "chat_type tt"
    and "\<forall>m\<in>set others. c_user_id (member m) = m \<and> linked_clients (ce_prims ce) 1 c (member m)"
  obtains sessions w' envs where
    "send_to_members ce (logged net) drs 0 (as_bytes t) others (c, files, reqs, w) =
      Some (Inr (), c\<lparr>c_sessions := sessions\<rparr>, files, reqs @ map (send_request ce) envs, w')"
    and "map env_recipient_id envs = others"
    and "\<forall>e\<in>set envs. env_sender_id e = c_user_id c \<and>
      (\<exists>cm' fm' wm'. receive_message ce net' dr' e (member (env_recipient_id e), fm, wm) = Some (Inr (), cm', fm', wm') \<and>
        c_chat_log cm' = c_chat_log (member (env_recipient_id e)) @
          [log_entry (ce_codecs ce) (c_user_id c) (dr_millis dr' 0) (as_bytes t)])"
proof -
  let ?pr = "ce_prims ce" and ?me = "c_user_id c"
  define peer where "peer m = the (SessionStore_get (c_sessions (member m)) ?me 1)" for m
  have reach: "\<forall>m\<in>set others. reachable_member ?pr peer (c_sessions c) m"
  proof
    fix m assume "m \<in> set others"
    with assms(10) have "c_user_id (member m) = m" "linked_clients ?pr 1 c (member m)" by simp_all
    then show "reachable_member ?pr peer (c_sessions c) m"
      by (auto simp: linked_clients_def reachable_member_def peer_def)
  qed
  have p: "length (as_bytes t) < 2 ^ 32" using assms(6) by (simp add: as_bytes_def)
  obtain sessions w' envs where
    sent: "send_to_members ce (logged net) drs 0 (as_bytes t) others (c, files, reqs, w) =
      Some (Inr (), c\<lparr>c_sessions := sessions\<rparr>, files, reqs @ map (send_request ce) envs, w')"
    and to: "map env_recipient_id envs = others"
    and envs: "\<forall>e\<in>set envs. env_sender_id e = ?me \<and> env_msg_type e = Normal \<and>
      opens_to ce (peer (env_recipient_id e)) e (as_bytes t)"
    using send_to_members_established [where c = c and files = files and drs = drs and reqs = reqs and i = 0 and w = w,
        OF assms(1,2) p assms(3,4) reach] by blast
  have "\<exists>cm' fm' wm'. receive_message ce net' dr' e (member (env_recipient_id e), fm, wm) = Some (Inr (), cm', fm', wm') \<and>
      c_chat_log cm' = c_chat_log (member (env_recipient_id e)) @
        [log_entry (ce_codecs ce) ?me (dr_millis dr' 0) (as_bytes t)]"
    if e: "e \<in> set envs" for e
  proof -
    have m: "env_recipient_id e \<in> set others" using e to by force
    with assms(10) obtain r where "SessionStore_get (c_sessions (member (env_recipient_id e))) (env_sender_id e) 1 = Some r"
      "peer (env_recipient_id e) = r" "c_user_id (member (env_recipient_id e)) = env_recipient_id e"
      using envs e by (auto simp: linked_clients_def peer_def)
    moreover have "env_sender_id e \<noteq> env_recipient_id e" using m envs e assms(5) by auto
    ultimately show ?thesis
      using receive_chat_message [OF assms(7-9)] envs e by metis
  qed
  then show thesis using that [OF sent to] envs by blast
qed

lemma group_log_entry:
  "value_from_slice cd p = Inr (jnorm (group_payload gid name text)) \<Longrightarrow>
   log_entry cd sender now p = group_entry sender name text now"
  by (simp add: log_entry_def log_fields_def group_payload_fields group_entry_def)

text \<open>
  Property C11. A group message goes to every other member, once each. The client asks for the members and
  then sends one envelope per other member, in the order of the answer and whatever the relay answers to
  each; every member's client, receiving its envelope, opens it with its own session and logs the text
  under the group's name.
\<close>

theorem group_message_reaches_members:
  assumes "wire_codec (ce_wire ce)" and "aead_total (ce_prims ce)" and "answers_sends ce net"
    and "net (members_request gid) w = (Inr resp, w1)" and "resp_ok resp"
    and "others = filter (\<lambda>m. m \<noteq> c_user_id c) (strings_of (data_array ''members'' resp))"
    and "others \<noteq> []" and "distinct others"
    and "name = (case map_of (c_groups c) gid of None \<Rightarrow> gid | Some g \<Rightarrow> gi_name g)"
    and "value_to_string ce (group_payload gid name text) = Inr t" and "length t < 2 ^ 32"
    and "value_from_slice (ce_codecs ce) (as_bytes t) = Inr (jnorm (group_payload gid name text))"
    and "\<forall>m\<in>set others. c_user_id (member m) = m \<and> linked_clients (ce_prims ce) 1 c (member m)"
  shows "\<exists>c' files' w' envs.
    send_group_message ce (logged net) dr drs gid text (c, files, [], w) =
      Some (Inr (), c', files', members_request gid # map (send_request ce) envs, w') \<and>
    map env_recipient_id envs = others \<and>
    (\<forall>e\<in>set envs. env_sender_id e = c_user_id c \<and>
      (\<exists>cm' fm' wm'. receive_message ce net' dr' e (member (env_recipient_id e), fm, wm) = Some (Inr (), cm', fm', wm') \<and>
        c_chat_log cm' = c_chat_log (member (env_recipient_id e)) @ [group_entry (c_user_id c) name text (dr_millis dr' 0)]))"
proof -
  have "c_user_id c \<notin> set others" using assms(6) by auto
  moreover have "chat_type ''group''" by (simp add: chat_type_def)
  ultimately obtain sessions w' envs where
    sent: "send_to_members ce (logged net) drs 0 (as_bytes t) others (c, files, [members_request gid], w1) =
      Some (Inr (), c\<lparr>c_sessions := sessions\<rparr>, files, [members_request gid] @ map (send_request ce) envs, w')"
    and envs: "map env_recipient_id envs = others"
      "\<forall>e\<in>set envs. env_sender_id e = c_user_id c \<and>
        (\<exists>cm' fm' wm'. receive_message ce net' dr' e (member (env_recipient_id e), fm, wm) = Some (Inr (), cm', fm', wm') \<and>
          c_chat_log cm' = c_chat_log (member (env_recipient_id e)) @
            [log_entry (ce_codecs ce) (c_user_id c) (dr_millis dr' 0) (as_bytes t)])"
    by (rule members_receive [OF assms(1-3,8) _ assms(11,12) group_payload_fields(2) _ assms(13), where drs = drs])
  have "group_members ce (logged net) gid ([], w) =
    (Inr (strings_of (data_array ''members'' resp)), [members_request gid], w1)"
    using assms(4,5) by (simp add: group_members_def ask_def map_reply_def logged_def members_request_def)
  then have "\<exists>c' files'. send_group_message ce (logged net) dr drs gid text (c, files, [], w) =
      Some (Inr (), c', files', members_request gid # map (send_request ce) envs, w')"
    using assms(6,7,9,10) sent
    by (simp add: send_group_message_def Let_def value_to_vec_def group_payload_def record_message_def push_sent_def)
  then show ?thesis using envs unfolding group_log_entry [OF assms(12)] by blast
qed

text \<open>Alice with an established session to each member, and the members' clients.\<close>

definition demo_link :: "string \<Rightarrow> Session \<times> Session" where
  "demo_link u = the (handshake demo_prims [5] (demo_identity 1) (demo_identity 2) demo_spk (''alice'', u))"

lemma demo_link_linked:
  "session_key (fst (demo_link u)) = (u, 1)" "session_key (snd (demo_link u)) = (''alice'', 1)"
  "session_linked demo_prims (fst (demo_link u)) (snd (demo_link u)) [] []"
  "room_to_send demo_prims 1 (fst (demo_link u))" "room_to_receive demo_prims 1 (snd (demo_link u))"
proof -
  obtain a b where hs: "handshake demo_prims [5] (demo_identity 1) (demo_identity 2) demo_spk (''alice'', u) = Some (a, b)"
    and k: "session_key a = (u, 1)" "session_key b = (''alice'', 1)"
    using handshake_completes [OF demo_dh_commutes demo_hkdf_total demo_spk_wf, of "[5]" "demo_identity 1" "demo_identity 2" "''alice''" u]
    by blast
  have ab: "fst (demo_link u) = a" "snd (demo_link u) = b" by (simp_all add: demo_link_def hs)
  show "session_linked demo_prims (fst (demo_link u)) (snd (demo_link u)) [] []"
    using handshake_linked(1) [OF demo_dh_commutes demo_aead_correct demo_spk_wf hs] by (simp add: ab)
  have "r_send_msg_number (s_ratchet a) = 0"
    using handshake_SomeD(1) [OF hs] by (auto elim: Session_new_initiator_InrD)
  then show "room_to_send demo_prims 1 (fst (demo_link u))" by (simp add: ab room_to_send_def)
  have "r_recv_msg_number (s_ratchet b) = 0"
    using handshake_SomeD(2) [OF hs] by (auto elim: Session_new_responder_InrD)
  then show "room_to_receive demo_prims 1 (snd (demo_link u))" by (simp add: ab room_to_receive_def)
  show "session_key (fst (demo_link u)) = (u, 1)" "session_key (snd (demo_link u)) = (''alice'', 1)"
    using k by (simp_all add: ab)
qed

definition linked_alice :: TinTinClient where
  "linked_alice = (relay_client 10 ''alice'')\<lparr>c_sessions :=
     \<lparr>ss_sessions = [fst (demo_link ''bob''), fst (demo_link ''carol'')]\<rparr>\<rparr>"

definition linked_member :: "string \<Rightarrow> TinTinClient" where
  "linked_member u = (relay_client 20 u)\<lparr>c_sessions := \<lparr>ss_sessions = [snd (demo_link u)]\<rparr>\<rparr>"

lemma linked_alice_member: "u \<in> {''bob'', ''carol''} \<Longrightarrow> linked_clients demo_prims 1 linked_alice (linked_member u)"
  using demo_link_linked [of "''bob''"] demo_link_linked [of "''carol''"]
  by (auto simp: linked_clients_def linked_alice_def linked_member_def relay_client_fields SessionStore_get_def session_key_def)

definition group_env :: client_env where
  "group_env = relay_client_env\<lparr>value_to_string := (\<lambda>v. Inr ''payload''),
     ce_codecs := (ce_codecs relay_client_env)\<lparr>value_from_slice := (\<lambda>b. Inr (jnorm (group_payload ''g1'' ''g1'' ''hi'')))\<rparr>\<rparr>"

definition group_net :: "unit net" where
  "group_net request w = (Inr (JObject [(''status'', JString ''ok''),
     (''data'', JObject [(''members'', JArray [JString ''bob'', JString ''alice'', JString ''carol''])])]), w)"

theorem group_message_reaches_members_witness:
  "\<exists>c' files' w' envs.
    send_group_message group_env (logged group_net) demo_draw (\<lambda>_. demo_draw) ''g1'' ''hi'' (linked_alice, \<lambda>_. None, [], ()) =
      Some (Inr (), c', files', members_request ''g1'' # map (send_request group_env) envs, w') \<and>
    map env_recipient_id envs = [''bob'', ''carol''] \<and>
    (\<forall>e\<in>set envs. env_sender_id e = ''alice'' \<and>
      (\<exists>cm' fm' wm'. receive_message group_env group_net demo_draw e (linked_member (env_recipient_id e), \<lambda>_. None, ()) =
          Some (Inr (), cm', fm', wm') \<and>
        c_chat_log cm' = c_chat_log (linked_member (env_recipient_id e)) @ [group_entry ''alice'' ''g1'' ''hi'' 0]))"
proof -
  let ?resp = "JObject [(''status'', JString ''ok''),
     (''data'', JObject [(''members'', JArray [JString ''bob'', JString ''alice'', JString ''carol''])])]"
  have env: "ce_prims group_env = demo_prims" "ce_wire group_env = demo_wire"
    by (simp_all add: group_env_def relay_client_env_def)
  have me: "c_user_id linked_alice = ''alice''" "map_of (c_groups linked_alice) ''g1'' = None"
    by (simp_all add: linked_alice_def relay_client_def TinTinClient_new_def Let_def load_chat_log_def load_channels_def
        load_groups_def load_history_def load_from_def)
  have answers: "answers_sends group_env group_net" by (simp add: answers_sends_def group_net_def)
  have members: "[''bob'', ''carol''] = filter (\<lambda>m. m \<noteq> c_user_id linked_alice) (strings_of (data_array ''members'' ?resp))"
    by (simp add: me strings_of_def data_array_def json_index_def List.map_filter_simps)
  have ok: "resp_ok ?resp" by (simp add: resp_ok_def json_index_def)
  have link: "\<forall>m\<in>set [''bob'', ''carol'']. c_user_id (linked_member m) = m \<and> linked_clients demo_prims 1 linked_alice (linked_member m)"
    using linked_alice_member by (simp add: linked_member_def relay_client_fields)
  have net: "group_net (members_request ''g1'') () = (Inr ?resp, ())" by (simp add: group_net_def)
  have codec: "value_to_string group_env (group_payload ''g1'' ''g1'' ''hi'') = Inr ''payload''"
    "value_from_slice (ce_codecs group_env) (as_bytes ''payload'') = Inr (jnorm (group_payload ''g1'' ''g1'' ''hi''))"
    by (simp_all add: group_env_def)
  from group_message_reaches_members [where ce = group_env and c = linked_alice and member = linked_member and name = "''g1''"
      and dr = demo_draw and drs = "\<lambda>_. demo_draw" and dr' = demo_draw and net' = group_net and files = "\<lambda>_. None"
      and fm = "\<lambda>_. None" and wm = "()", unfolded env, OF demo_wire_codec demo_aead_total answers net ok members _ _ _ codec(1) _ codec(2) link]
  show ?thesis by (simp add: me demo_draw_def)
qed

end
