(* ===== verification/Media_Properties.thy ===== *)
theory Media_Properties
  imports Delivery_Properties
begin

text \<open>
  Properties of the client's media code: what becomes of the audio of a call, of a voice note and of an
  edited message.
\<close>

section \<open>Audio of a call\<close>

lemma media_chunk_payload_type:
  assumes "total_chunks < 2 ^ 64" and "seq < 2 ^ 64"
  shows "get_str (jnorm (media_chunk_payload ce call_id total_chunks seq ct)) ''__tintin_type'' = Some ''media_chunk''"
proof -
  have "jvalid (media_chunk_payload ce call_id total_chunks seq ct)"
    using assms by (simp add: media_chunk_payload_def)
  then show ?thesis by (simp add: get_str_jnorm) (simp add: get_str_def media_chunk_payload_def)
qed

text \<open>A payload of a type the client has no handler for, outside the branch of pre-key messages.\<close>

lemma handle_unknown_type:
  assumes "value_from_slice (ce_codecs ce) p = Inr v" and "get_str v ''__tintin_type'' = Some ''media_chunk''"
  shows "\<exists>w'. handle_plaintext ce net dr False e p (c, files, w) =
    Some (c\<lparr>c_chat_log := c_chat_log c @ [incoming (env_sender_id e) (from_utf8_lossy p) (dr_millis dr 0)]\<rparr>,
      save_chat_log (ce_storage ce)
        (c\<lparr>c_chat_log := c_chat_log c @ [incoming (env_sender_id e) (from_utf8_lossy p) (dr_millis dr 0)]\<rparr>) files, w')"
  using assms by (simp add: handle_plaintext_def process_call_signal_def process_file_chunk_def display_decrypted_def
      record_decrypted_def log_fields_def record_message_def Let_def incoming_def)

lemma save_chat_log_frame:
  "path \<noteq> chat_log_path fs c \<Longrightarrow> save_chat_log fs c files path = files path"
  by (simp add: save_chat_log_def save_to_def write_file_def split: sum.split)

lemma chat_log_path_cong: "c_user_id c = c_user_id d \<Longrightarrow> chat_log_path fs c = chat_log_path fs d"
  by (simp add: chat_log_path_def)

text \<open>
  Property C29. Call audio is never heard. The two parties of a call have a session, so an audio chunk goes
  out as an ordinary message, and only the branch of pre-key messages looks for audio. The receiver
  decrypts the chunk, writes no recording (no file but the chat log changes) and adds the raw JSON text
  of the chunk to the chat log.
\<close>

theorem call_audio_lands_in_chat_log:
  assumes "wire_codec (ce_wire ce)" and "aead_total (ce_prims ce)" and "linked_clients (ce_prims ce) 1 ca cb"
    and "c_user_id ca \<noteq> c_user_id cb" and "total_chunks < 2 ^ 64" and "seq < 2 ^ 64"
    and "value_to_string ce (media_chunk_payload ce call_id total_chunks seq ct) = Inr t" and "length t < 2 ^ 32"
    and "value_from_slice (ce_codecs ce) (as_bytes t) = Inr (jnorm (media_chunk_payload ce call_id total_chunks seq ct))"
    and "\<And>e. \<exists>resp w'. net (send_request ce e) w = (Inr resp, w') \<and> resp_ok resp"
  shows "\<exists>ca' fa' w' e cb' fb' wb'.
    send_payload ce (logged net) dr (c_user_id cb) (media_chunk_payload ce call_id total_chunks seq ct) (ca, fa, [], w) =
      Some (Inr (), ca', fa', [send_request ce e], w') \<and>
    receive_message ce net' dr' e (cb, fb, wb) = Some (Inr (), cb', fb', wb') \<and>
    c_chat_log cb' = c_chat_log cb @ [incoming (c_user_id ca) (from_utf8_lossy (as_bytes t)) (dr_millis dr' 0)] \<and>
    (\<forall>path. path \<noteq> chat_log_path (ce_storage ce) cb \<longrightarrow> fb' path = fb path)"
proof -
  let ?pr = "ce_prims ce" and ?p = "as_bytes t" and ?r = "c_user_id cb" and ?me = "c_user_id ca"
  have len: "length ?p < 2 ^ 32" using assms(8) by (simp add: as_bytes_def)
  obtain s m s' content r r' where s: "SessionStore_get (c_sessions ca) ?r 1 = Some s"
    and e: "Session_encrypt ?pr s (dr_nonce dr) ?p = Some (Inr m, s')"
    and ct: "SessionMessage_to_json (ce_wire ce) m = Inr content" "SessionMessage_from_json (ce_wire ce) content = Inr m"
    and r: "SessionStore_get (c_sessions cb) ?me 1 = Some r" and d: "Session_decrypt ?pr r m = Some (Inr ?p, r')"
    by (rule linked_exchange [OF assms(1-3) len])
  let ?e = "Envelope_new (dr_millis dr 0) ?me ?r content Normal"
  obtain resp w' where n: "net (send_request ce ?e) w = (Inr resp, w')" "resp_ok resp" using assms(10) by blast
  let ?ca = "ca\<lparr>c_sessions := store_put ?r s' (c_sessions ca)\<rparr>"
  have "send_encrypted ce (logged net) dr ?r t (ca, fa, [], w) = Some (Inr (content, Normal), ?ca, fa, [], w)"
    using seal_for_established [where net = "logged net" and files = fa and w = "([], w)", OF s e ct(1)]
    by (simp add: send_encrypted_def)
  from send_message_sent [where net = "logged net", OF assms(4) [symmetric] this] n
  obtain ca' fa' where "send_message ce (logged net) dr ?r t (ca, fa, [], w) = Some (Inr (), ca', fa', [send_request ce ?e], w')"
    by (auto simp: logged_def send_request_def)
  then have sent: "send_payload ce (logged net) dr ?r (media_chunk_payload ce call_id total_chunks seq ct) (ca, fa, [], w) =
      Some (Inr (), ca', fa', [send_request ce ?e], w')"
    using assms(7) by (simp add: send_payload_def)
  let ?cb = "cb\<lparr>c_sessions := store_put ?me r' (c_sessions cb)\<rparr>"
  let ?cb' = "?cb\<lparr>c_chat_log := c_chat_log cb @ [incoming ?me (from_utf8_lossy ?p) (dr_millis dr' 0)]\<rparr>"
  obtain wb' where "handle_plaintext ce net' dr' False ?e ?p (?cb, fb, wb) =
      Some (?cb', save_chat_log (ce_storage ce) ?cb' fb, wb')"
    using handle_unknown_type [OF assms(9) media_chunk_payload_type [OF assms(5,6)], of net' dr' ?e ?cb fb wb] by auto
  then have recv: "receive_message ce net' dr' ?e (cb, fb, wb) = Some (Inr (), ?cb', save_chat_log (ce_storage ce) ?cb' fb, wb')"
    using receive_established [where e = ?e and net = net' and dr = dr' and files = fb and w = wb, OF _ _ _ _ d] assms(4) ct(2) r by simp
  have frame: "save_chat_log (ce_storage ce) ?cb' fb path = fb path" if "path \<noteq> chat_log_path (ce_storage ce) cb" for path
    using that save_chat_log_frame chat_log_path_cong [of ?cb' cb] by simp
  show ?thesis
    by (intro exI conjI, rule sent, rule recv) (simp_all add: frame)
qed

definition audio_env :: client_env where
  "audio_env = relay_client_env\<lparr>value_to_string := (\<lambda>v. Inr ''{}''),
     ce_codecs := (ce_codecs relay_client_env)\<lparr>value_from_slice :=
       (\<lambda>b. Inr (jnorm (media_chunk_payload relay_client_env ''alice_2'' 1 0 [7])))\<rparr>\<rparr>"

theorem call_audio_lands_in_chat_log_witness:
  "\<exists>ca' fa' w' e cb' fb' wb'.
    send_payload audio_env (logged group_net) demo_draw ''bob'' (media_chunk_payload audio_env ''alice_2'' 1 0 [7])
      (linked_alice, \<lambda>_. None, [], ()) = Some (Inr (), ca', fa', [send_request audio_env e], w') \<and>
    receive_message audio_env group_net demo_draw e (linked_member ''bob'', \<lambda>_. None, ()) = Some (Inr (), cb', fb', wb') \<and>
    c_chat_log cb' = c_chat_log (linked_member ''bob'') @ [incoming ''alice'' (from_utf8_lossy (as_bytes ''{}'')) 0] \<and>
    (\<forall>path. path \<noteq> chat_log_path (ce_storage audio_env) (linked_member ''bob'') \<longrightarrow> fb' path = None)"
proof -
  have env: "ce_prims audio_env = demo_prims" "ce_wire audio_env = demo_wire"
    by (simp_all add: audio_env_def relay_client_env_def)
  have same: "media_chunk_payload relay_client_env = media_chunk_payload audio_env"
    by (intro ext) (simp add: media_chunk_payload_def audio_env_def relay_client_env_def)
  have codec: "value_to_string audio_env (media_chunk_payload audio_env ''alice_2'' 1 0 [7]) = Inr ''{}''"
    "value_from_slice (ce_codecs audio_env) (as_bytes ''{}'') = Inr (jnorm (media_chunk_payload audio_env ''alice_2'' 1 0 [7]))"
    unfolding same [symmetric] by (simp_all add: audio_env_def)
  have ids: "c_user_id linked_alice = ''alice''" "c_user_id (linked_member ''bob'') = ''bob''"
    by (simp_all add: linked_alice_def linked_member_def relay_client_fields)
  have link: "linked_clients demo_prims 1 linked_alice (linked_member ''bob'')" by (rule linked_alice_member) simp
  have net: "\<exists>resp w'. group_net (send_request audio_env e) w = (Inr resp, w') \<and> resp_ok resp" for e w
    by (simp add: group_net_def resp_ok_def json_index_def)
  from call_audio_lands_in_chat_log [where ce = audio_env and ca = linked_alice and cb = "linked_member ''bob''" and dr = demo_draw
      and dr' = demo_draw and net = group_net and net' = group_net and fa = "\<lambda>_. None" and fb = "\<lambda>_. None" and w = "()" and wb = "()",
      unfolded env ids, OF demo_wire_codec demo_aead_total link _ _ _ codec(1) _ codec(2) net]
  show ?thesis by (simp add: demo_draw_def)
qed

section \<open>Edits\<close>

text \<open>What the operations on the network leave alone in the client.\<close>

definition keeps_logs :: "'w cstate \<Rightarrow> 'w cstate \<Rightarrow> bool" where
  "keeps_logs s s' \<longleftrightarrow> c_sent_messages (fst s') = c_sent_messages (fst s) \<and> c_chat_log (fst s') = c_chat_log (fst s)"

lemma keeps_logs_refl [simp]: "keeps_logs s s"
  by (simp add: keeps_logs_def)

lemma keeps_logs_trans: "keeps_logs s t \<Longrightarrow> keeps_logs t u \<Longrightarrow> keeps_logs s u"
  by (simp add: keeps_logs_def)

lemma edit_for_keeps: "edit_for ce net wr dr r p s = Some (x, s') \<Longrightarrow> keeps_logs s s'"
  by (auto simp: edit_for_def keeps_logs_def Let_def split: prod.splits if_splits option.splits sum.splits)

lemma edit_for_members_keeps: "edit_for_members ce net wr drs i p ms s = Some (x, s') \<Longrightarrow> keeps_logs s s'"
proof (induction ms arbitrary: i s)
  case (Cons m ms)
  show ?case
  proof (cases "m = c_user_id (fst s)")
    case True
    with Cons show ?thesis by simp
  next
    case False
    with Cons.prems obtain y t where e: "edit_for ce net wr (drs i) m p s = Some (y, t)"
      by (auto split: option.splits)
    show ?thesis
    proof (cases y)
      case (Inl err)
      with Cons.prems False e have "t = s'" by simp
      with edit_for_keeps [OF e] show ?thesis by simp
    next
      case (Inr u)
      with Cons.prems False e have "edit_for_members ce net wr drs (Suc i) p ms t = Some (x, s')" by simp
      from keeps_logs_trans [OF edit_for_keeps [OF e] Cons.IH [OF this]] show ?thesis .
    qed
  qed
qed simp

lemma edit_send_keeps: "edit_send ce net wr drs r new p s = Some (x, s') \<Longrightarrow> keeps_logs s s'"
proof -
  assume "edit_send ce net wr drs r new p s = Some (x, s')"
  then show ?thesis
    using edit_for_keeps [of ce net wr "drs 0" r p s x s']
      edit_for_members_keeps [of ce net wr drs 0 p _ "(fst s, fst (snd s), _)" x s']
    by (cases s) (auto simp: edit_send_def keeps_logs_def split: prod.splits if_splits sum.splits)
qed

text \<open>The position of the last outgoing entry of a log.\<close>

definition last_outgoing :: "MessageRecord list \<Rightarrow> nat \<Rightarrow> bool" where
  "last_outgoing log i \<longleftrightarrow> i < length log \<and> mr_direction (log ! i) = Outgoing \<and>
     (\<forall>j<length log. i < j \<longrightarrow> mr_direction (log ! j) = Incoming)"

lemma last_outgoing_Cons:
  "last_outgoing (xs @ [x]) i \<longleftrightarrow>
     (if mr_direction x = Outgoing then i = length xs else last_outgoing xs i)"
proof (cases "mr_direction x")
  case Outgoing
  then show ?thesis
    by (auto simp: last_outgoing_def nth_append less_Suc_eq)
next
  case Incoming
  then show ?thesis by (auto simp: last_outgoing_def nth_append less_Suc_eq)
qed

lemma mark_log_entries:
  "i < length log \<Longrightarrow>
   rev (update_first (\<lambda>r. mr_direction r = Outgoing) (\<lambda>r. r\<lparr>mr_edited := True\<rparr>) (rev log)) ! i =
     (if last_outgoing log i then (log ! i)\<lparr>mr_edited := True\<rparr> else log ! i)"
proof (induction log arbitrary: i rule: rev_induct)
  case (snoc x xs)
  have len: "length (update_first P f ys) = length ys" for P and f :: "MessageRecord \<Rightarrow> MessageRecord" and ys
    by (induction ys) simp_all
  show ?case
    using snoc by (auto simp: last_outgoing_Cons nth_append len less_Suc_eq) (simp add: last_outgoing_def)
qed simp

text \<open>
  What an edit changes. A successful edit gives the message at the index the new text and
  marks it as edited, and it leaves the texts of the chat log alone. In the log it marks one entry, the
  last outgoing one, whichever message was edited and to whomever.
\<close>

theorem edit_marks_last_outgoing:
  assumes "edit_message ce net wr drs index new_text (c, files, w) = Some (Inr (), c', files', w')"
  shows "index < length (c_sent_messages c) \<and>
    c_sent_messages c' = (c_sent_messages c)[index := (c_sent_messages c ! index)\<lparr>sm_text := new_text, sm_edited := True\<rparr>] \<and>
    length (c_chat_log c') = length (c_chat_log c) \<and>
    (\<forall>i<length (c_chat_log c). c_chat_log c' ! i =
      (if last_outgoing (c_chat_log c) i then (c_chat_log c ! i)\<lparr>mr_edited := True\<rparr> else c_chat_log c ! i))"
proof -
  have index: "index < length (c_sent_messages c)"
    using assms by (simp add: edit_message_def not_le split: if_splits)
  with assms obtain p c1 files1 w1 where
    e: "edit_send ce net wr drs (sm_recipient (c_sent_messages c ! index)) new_text p (c, files, w) = Some (Inr (), c1, files1, w1)"
    and c': "(c', files') = mark_edited ce index new_text (c1, files1)"
    by (auto simp: edit_message_def Let_def split: sum.splits option.splits prod.splits)
  from edit_send_keeps [OF e] have k: "c_sent_messages c1 = c_sent_messages c" "c_chat_log c1 = c_chat_log c"
    by (simp_all add: keeps_logs_def)
  have len: "length (update_first P f ys) = length ys" for P and f :: "MessageRecord \<Rightarrow> MessageRecord" and ys
    by (induction ys) simp_all
  from c' k index mark_log_entries [of _ "c_chat_log c"] show ?thesis
    by (simp add: mark_edited_def Let_def len)
qed

definition sent_to :: "string \<Rightarrow> SentMessage" where
  "sent_to r = \<lparr>sm_recipient = r, sm_text = ''old'', sm_timestamp = 1, sm_status = Sent, sm_edited = False\<rparr>"

definition two_sent :: TinTinClient where
  "two_sent = (relay_client 10 ''alice'')\<lparr>c_sent_messages := [sent_to ''bob'', sent_to ''carol''],
     c_chat_log := [(incoming ''bob'' ''old'' 1)\<lparr>mr_direction := Outgoing\<rparr>,
       (incoming ''carol'' ''old'' 1)\<lparr>mr_direction := Outgoing\<rparr>]\<rparr>"

theorem edit_marks_last_outgoing_witness:
  "\<exists>c' files' w'. edit_message group_env group_net (\<lambda>r w. None) (\<lambda>_. demo_draw) 0 ''new'' (two_sent, \<lambda>_. None, ()) =
      Some (Inr (), c', files', w') \<and>
    map sm_text (c_sent_messages c') = [''new'', ''old''] \<and> map mr_edited (c_chat_log c') = [False, True]"
proof -
  have "\<exists>c' files' w'. edit_message group_env group_net (\<lambda>r w. None) (\<lambda>_. demo_draw) 0 ''new'' (two_sent, \<lambda>_. None, ()) =
      Some (Inr (), c', files', w')"
    by (simp add: edit_message_def two_sent_def sent_to_def value_to_vec_def group_env_def edit_send_def relay_client_fields
        starts_with_def edit_for_def SessionStore_get_mut_def SessionStore_get_def SessionStore_new_def mark_edited_def Let_def)
  then obtain c' files' w' where e: "edit_message group_env group_net (\<lambda>r w. None) (\<lambda>_. demo_draw) 0 ''new'' (two_sent, \<lambda>_. None, ()) =
      Some (Inr (), c', files', w')" by blast
  from edit_marks_last_outgoing [OF e] have sent: "map sm_text (c_sent_messages c') = [''new'', ''old'']"
    and log: "length (c_chat_log c') = 2"
      "\<forall>i<2. c_chat_log c' ! i = (if last_outgoing (c_chat_log two_sent) i then (c_chat_log two_sent ! i)\<lparr>mr_edited := True\<rparr> else c_chat_log two_sent ! i)"
    by (simp_all add: two_sent_def sent_to_def)
  have "map mr_edited (c_chat_log c') = [mr_edited (c_chat_log c' ! 0), mr_edited (c_chat_log c' ! 1)]"
    using log(1) by (auto simp: numeral_2_eq_2 length_Suc_conv)
  moreover have "\<not> last_outgoing (c_chat_log two_sent) 0" "last_outgoing (c_chat_log two_sent) 1"
    by (auto simp: last_outgoing_def two_sent_def less_Suc_eq)
  ultimately have "map mr_edited (c_chat_log c') = [False, True]"
    using log(2) by (simp add: two_sent_def incoming_def)
  with e sent show ?thesis by (intro exI conjI)
qed

section \<open>Voice notes\<close>

text \<open>
  How a reader of the format finds the samples: 44 bytes of header, of which the last four are the size
  of the data, little-endian, and then the data.
\<close>

definition wav_data :: "bytes \<Rightarrow> bytes" where
  "wav_data file =
     (let size = sum_list (map (\<lambda>i. unat (file ! (40 + i)) * 256 ^ i) [0..<4]) in take size (drop 44 file))"

lemma sample_bytes_length [simp]: "length (sample_bytes pcm) = 2 * length pcm"
  by (induction pcm) (simp_all add: sample_bytes_def u16_le_bytes_def)

lemma le_bytes_value:
  assumes "n < 2 ^ 32"
  shows "sum_list (map (\<lambda>i. unat (word_of_nat (n div 256 ^ i) :: u8) * 256 ^ i) [0..<4]) = n"
proof -
  have l: "[0..<4] = [0, 1, 2, 3::nat]" by (simp add: upt_rec)
  have u: "unat (word_of_nat k :: u8) = k mod 256" for k
    by (simp add: unat_of_nat)
  let ?a = "n div 256" and ?b = "n div 256 div 256" and ?c = "n div 256 div 256 div 256"
  have p: "n div 256 ^ 2 = ?b" "n div 256 ^ 3 = ?c"
    by (simp_all add: div_mult2_eq [symmetric])
  have "?c < 256" using assms by (simp add: div_mult2_eq [symmetric] less_mult_imp_div_less)
  then have c: "?c mod 256 = ?c" by (rule mod_less)
  have "n = n mod 256 + ?a * 256" "?a = ?a mod 256 + ?b * 256" "?b = ?b mod 256 + ?c * 256"
    by (rule mod_div_mult_eq [symmetric])+
  then have "n mod 256 + ?a mod 256 * 256 + ?b mod 256 * 65536 + ?c * 16777216 = n" by linarith
  then show ?thesis unfolding l by (simp del: power_numeral add: u p c) (simp add: p c)
qed

lemma u64_le_bytes_small:
  assumes "n < 2 ^ 32"
  shows "u64_le_bytes n = u32_le_bytes n @ [0, 0, 0, 0]"
proof -
  have z: "n div 256 ^ i = 0" if "4 \<le> i" for i
  proof -
    have "(256::nat) ^ 4 \<le> 256 ^ i" using that by (intro power_increasing) simp_all
    then have "n < 256 ^ i" using assms by simp
    then show ?thesis by simp
  qed
  have "[0..<8] = [0..<4] @ [4, 5, 6, 7::nat]" by (simp add: upt_rec)
  then have "u64_le_bytes n = u32_le_bytes n @ map (\<lambda>i. word_of_nat (n div 256 ^ i)) [4, 5, 6, 7]"
    unfolding u64_le_bytes_def u32_le_bytes_def by (simp only: map_append)
  also have "map (\<lambda>i. word_of_nat (n div 256 ^ i)) [4, 5, 6, 7] = [0, 0, 0, 0 :: u8]"
    unfolding list.map by (subst z, simp)+ simp
  finally show ?thesis .
qed

text \<open>
  Property C31. A recorded voice note is two samples off. The size of the data is written as eight bytes
  where the format has four, so a reader that follows the header hears two samples of silence first and
  loses the last two samples of the recording.
\<close>

theorem voice_note_shifted:
  assumes "2 \<le> length pcm" and "2 * length pcm < 2 ^ 32"
  shows "length (voice_note rate pcm) = 48 + 2 * length pcm \<and>
    wav_data (voice_note rate pcm) = [0, 0, 0, 0] @ take (2 * length pcm - 4) (sample_bytes pcm)"
proof -
  let ?n = "2 * length pcm"
  define h where "h = as_bytes ''RIFF'' @ u32_le_bytes (36 + length pcm * 2) @ as_bytes ''WAVE'' @
         as_bytes ''fmt '' @ u32_le_bytes 16 @ u16_le_bytes 1 @ u16_le_bytes 1 @ u32_le_bytes rate @
         u32_le_bytes (rate * 2) @ u16_le_bytes 2 @ u16_le_bytes 16 @ as_bytes ''data''"
  have l: "length (u32_le_bytes k) = 4" "length (u16_le_bytes k) = 2" for k
    by (simp_all add: u32_le_bytes_def u16_le_bytes_def)
  have h: "length h = 40" by (simp add: h_def l as_bytes_def)
  have v: "voice_note rate pcm = h @ u32_le_bytes ?n @ [0, 0, 0, 0] @ sample_bytes pcm"
    using u64_le_bytes_small [OF assms(2)] by (simp add: voice_note_def h_def Let_def mult.commute)
  have "voice_note rate pcm ! (40 + i) = word_of_nat (?n div 256 ^ i)" if "i < 4" for i
    using that h l(1) by (simp add: v nth_append) (simp add: u32_le_bytes_def)
  then have "map (\<lambda>i. unat (voice_note rate pcm ! (40 + i)) * 256 ^ i) [0..<4] =
      map (\<lambda>i. unat (word_of_nat (?n div 256 ^ i) :: u8) * 256 ^ i) [0..<4]"
    by (intro map_cong) simp_all
  with le_bytes_value [OF assms(2)] have "wav_data (voice_note rate pcm) = take ?n (drop 44 (voice_note rate pcm))"
    by (simp only: wav_data_def Let_def)
  also have "drop 44 (voice_note rate pcm) = [0, 0, 0, 0] @ sample_bytes pcm"
    using h l(1) [of ?n] by (simp add: v)
  also have "take ?n ([0, 0, 0, 0] @ sample_bytes pcm) = [0, 0, 0, 0] @ take (?n - 4) (sample_bytes pcm)"
    using assms(1) by (simp only: take_append) (simp add: eval_nat_numeral)
  finally show ?thesis using h l(1) [of ?n] by (simp add: v)
qed

theorem voice_note_shifted_witness:
  "wav_data (voice_note 44100 [1, 2, 3]) = [0, 0, 0, 0, 1, 0]"
proof -
  have "take (2 * length [1, 2, 3 :: u16] - 4) (sample_bytes [1, 2, 3]) = [1, 0]"
    by (simp add: sample_bytes_def u16_le_bytes_def upt_rec)
  with voice_note_shifted [of "[1, 2, 3]" 44100] show ?thesis by simp
qed

end
