(* ===== verification/Bridge_Memory.thy ===== *)
theory Bridge_Memory
  imports Cli_State
begin

text \<open>
  The memory behind the C and Java bindings (\<open>tintin-ffi/src/lib.rs\<close>, \<open>tintin-jni/src/lib.rs\<close>): handles
  are addresses of boxed objects, strings and buffers that the library has handed out, beside the global
  slot of the last error. Using an address that does not hold an object of the right kind, or freeing it
  with another layout, is undefined behaviour and a value of the model.
\<close>

section \<open>Outcomes and objects\<close>

datatype 'a outcome = Returns 'a | Aborts | Undefined

datatype heap_object =
    OIdentity IdentityKeyPair
  | OSigned SignedPreKey
  | OSession Session
  | OString string
  | OBuffer bytes nat

record bridge =
  b_heap :: "u64 \<Rightarrow> heap_object option"
  b_error :: "string option"

text \<open>
  The allocator (\<open>None\<close> is memory exhausted, which aborts) and the serializers of the types that cross
  the boundary; \<open>Inl\<close> is the text of the error.
\<close>

record bridge_env =
  be_prims :: prims
  be_wire :: wire
  be_alloc :: "(u64 \<Rightarrow> heap_object option) \<Rightarrow> heap_object \<Rightarrow> u64 option"
  identity_to_string :: "IdentityKeyPair \<Rightarrow> string + string"
  identity_from_str :: "string \<Rightarrow> string + IdentityKeyPair"
  session_to_string :: "Session \<Rightarrow> string + string"
  session_from_str :: "string \<Rightarrow> string + Session"
  chat_message_to_vec :: "ChatMessage \<Rightarrow> string + bytes"

text \<open>A new allocation has an address of its own, which is not null and not the one of an empty vector.\<close>

definition alloc_fresh :: "bridge_env \<Rightarrow> bool" where
  "alloc_fresh be \<longleftrightarrow> (\<forall>h x p. be_alloc be h x = Some p \<longrightarrow> p \<noteq> 0 \<and> p \<noteq> 1 \<and> h p = None)"

definition set_error :: "string \<Rightarrow> bridge \<Rightarrow> bridge" where
  "set_error msg b = b\<lparr>b_error := Some msg\<rparr>"

definition clear_error :: "bridge \<Rightarrow> bridge" where
  "clear_error b = b\<lparr>b_error := None\<rparr>"

text \<open>\<open>Box::into_raw(Box::new(x))\<close> and \<open>CString::into_raw\<close>.\<close>

definition into_raw :: "bridge_env \<Rightarrow> heap_object \<Rightarrow> bridge \<Rightarrow> (u64 \<times> bridge) outcome" where
  "into_raw be x b =
     (case be_alloc be (b_heap b) x of
        None \<Rightarrow> Aborts
      | Some p \<Rightarrow> Returns (p, b\<lparr>b_heap := (b_heap b)(p \<mapsto> x)\<rparr>))"

text \<open>\<open>&*ptr\<close>: the object of the expected kind at the address.\<close>

definition deref :: "(heap_object \<Rightarrow> 'a option) \<Rightarrow> bridge \<Rightarrow> u64 \<Rightarrow> 'a option" where
  "deref unwrap b p = Option.bind (b_heap b p) unwrap"

lemma deref_live: "deref unwrap b p = Some x \<Longrightarrow> b_heap b p \<noteq> None"
  by (auto simp: deref_def bind_eq_Some_conv)

lemma deref_clear [simp]: "deref unwrap (clear_error b) p = deref unwrap b p" "b_heap (clear_error b) = b_heap b"
  by (simp_all add: deref_def clear_error_def)

definition store_at :: "u64 \<Rightarrow> heap_object \<Rightarrow> bridge \<Rightarrow> bridge" where
  "store_at p x b = b\<lparr>b_heap := (b_heap b)(p \<mapsto> x)\<rparr>"

text \<open>\<open>drop(Box::from_raw(ptr))\<close> behind the null check.\<close>

definition free_box :: "(heap_object \<Rightarrow> 'a option) \<Rightarrow> u64 \<Rightarrow> bridge \<Rightarrow> (unit \<times> bridge) outcome" where
  "free_box unwrap p b =
     (if p = 0 then Returns ((), b)
      else if deref unwrap b p = None then Undefined
      else Returns ((), b\<lparr>b_heap := (b_heap b)(p := None)\<rparr>))"

fun as_identity :: "heap_object \<Rightarrow> IdentityKeyPair option" where
  "as_identity (OIdentity k) = Some k"
| "as_identity _ = None"

fun as_signed :: "heap_object \<Rightarrow> SignedPreKey option" where
  "as_signed (OSigned k) = Some k"
| "as_signed _ = None"

fun as_session :: "heap_object \<Rightarrow> Session option" where
  "as_session (OSession s) = Some s"
| "as_session _ = None"

fun as_cstring :: "heap_object \<Rightarrow> string option" where
  "as_cstring (OString s) = Some s"
| "as_cstring _ = None"

section \<open>Texts\<close>

text \<open>\<open>CString::new(s).unwrap_or_default()\<close>: a text with a NUL byte becomes the empty one.\<close>

definition cstring_or_empty :: "string \<Rightarrow> string" where
  "cstring_or_empty s = (if CHR 0x00 \<in> set s then [] else s)"

text \<open>
  \<open>str::from_utf8\<close>: where the valid part ends and how long the broken sequence is, if the text does not
  merely stop within one.
\<close>

function utf8_error :: "nat \<Rightarrow> bytes \<Rightarrow> (nat \<times> nat option) option" where
  "utf8_error i [] = None"
| "utf8_error i (b # bs) =
     (let (ok, n) = utf8_step (b # bs)
      in if ok then utf8_error (i + n) (drop n (b # bs))
         else Some (i, if n = length (b # bs) \<and> in_range 0xC2 0xF4 (unat b) then None else Some n))"
  by pat_completeness auto
termination
proof (relation "measure (length \<circ> snd)", goal_cases)
  case (2 i b bs x ok n)
  then have "0 < n" using utf8_step_pos [of "b # bs"] by (metis snd_conv)
  then show ?case by simp
qed simp

definition show_utf8_error :: "nat \<times> nat option \<Rightarrow> string" where
  "show_utf8_error e =
     (case e of
        (i, Some n) \<Rightarrow> ''invalid utf-8 sequence of '' @ show_nat n @ '' bytes from index '' @ show_nat i
      | (i, None) \<Rightarrow> ''incomplete utf-8 byte sequence from index '' @ show_nat i)"

text \<open>\<open>CStr::to_str\<close> of the bytes before the terminating NUL.\<close>

definition cstr_to_str :: "bytes \<Rightarrow> string + string" where
  "cstr_to_str bs =
     (case utf8_error 0 bs of
        None \<Rightarrow> Inr (map (\<lambda>x. char_of (unat x)) bs)
      | Some e \<Rightarrow> Inl (show_utf8_error e))"

section \<open>A kind of handle\<close>

text \<open>
  What the library promises for each kind of handle, proved once: a new handle holds its object and is
  different from every live one, other objects stay, and a freed handle holds nothing.
\<close>

locale handle_kind =
  fixes wrap :: "'a \<Rightarrow> heap_object" and unwrap :: "heap_object \<Rightarrow> 'a option"
  assumes unwrap_wrap: "unwrap (wrap x) = Some x"
    and unwrap_Some: "unwrap y = Some x \<Longrightarrow> y = wrap x"
begin

lemma deref_iff: "deref unwrap b p = Some x \<longleftrightarrow> b_heap b p = Some (wrap x)"
  using unwrap_Some by (auto simp: deref_def unwrap_wrap bind_eq_Some_conv)

lemma deref_store: "deref unwrap (store_at p (wrap x) b) q = (if q = p then Some x else deref unwrap b q)"
  by (simp add: deref_def store_at_def unwrap_wrap)

lemma into_raw_new:
  assumes "alloc_fresh be" and "into_raw be (wrap x) b = Returns (p, b')"
  shows "deref unwrap b' p = Some x" and "p \<noteq> 0" and "b_heap b p = None"
    and "q \<noteq> p \<Longrightarrow> b_heap b' q = b_heap b q" and "b_error b' = b_error b"
  using assms by (auto simp: into_raw_def alloc_fresh_def deref_def unwrap_wrap split: option.splits)

lemma free_box_live:
  assumes "deref unwrap b p = Some x" and "p \<noteq> 0"
  shows "free_box unwrap p b = Returns ((), b\<lparr>b_heap := (b_heap b)(p := None)\<rparr>)"
  using assms by (simp add: free_box_def)

lemma double_free:
  assumes "free_box unwrap p b = Returns (u, b')" and "p \<noteq> 0"
  shows "free_box unwrap p b' = Undefined"
  using assms by (auto simp: free_box_def deref_def split: if_splits)

end

interpretation identity_handle: handle_kind OIdentity as_identity
  by unfold_locales (auto elim: as_identity.elims)

interpretation signed_handle: handle_kind OSigned as_signed
  by unfold_locales (auto elim: as_signed.elims)

interpretation session_handle: handle_kind OSession as_session
  by unfold_locales (auto elim: as_session.elims)

interpretation string_handle: handle_kind OString as_cstring
  by unfold_locales (auto elim: as_cstring.elims)

end
