(* ===== verification/Ffi_Bridge.thy ===== *)
theory Ffi_Bridge
  imports Bridge_Memory
begin

text \<open>
  The C functions of \<open>tintin-ffi/src/lib.rs\<close>. A pointer into the caller's memory is \<open>None\<close> when null and
  otherwise the bytes it points at; an output pointer is only null or not, and what is written through it
  is part of the result. A panic in an \<open>extern "C"\<close> function aborts the process.
\<close>

section \<open>Strings and buffers\<close>

definition tintin_last_error :: "bridge_env \<Rightarrow> bridge \<Rightarrow> (u64 \<times> bridge) outcome" where
  "tintin_last_error be b = into_raw be (OString (cstring_or_empty (unwrap_or (b_error b) []))) b"

definition tintin_free_string :: "u64 \<Rightarrow> bridge \<Rightarrow> (unit \<times> bridge) outcome" where
  "tintin_free_string s b = free_box as_cstring s b"

text \<open>
  \<open>drop(Vec::from_raw_parts(ptr, len, len))\<close>: a vector of capacity 0 frees nothing; otherwise the
  allocation must have been made with exactly that capacity.
\<close>

definition tintin_free_buffer :: "u64 \<Rightarrow> nat \<Rightarrow> bridge \<Rightarrow> (unit \<times> bridge) outcome" where
  "tintin_free_buffer ptr len b =
     (if ptr = 0 \<or> len = 0 then Returns ((), b)
      else case b_heap b ptr of
             Some (OBuffer bs cap) \<Rightarrow>
               if cap = len then Returns ((), b\<lparr>b_heap := (b_heap b)(ptr := None)\<rparr>) else Undefined
           | _ \<Rightarrow> Undefined)"

text \<open>
  \<open>Vec::leak\<close>, which does not shrink: the allocation keeps the capacity that the vector with these bytes has.
  A vector of capacity 0 has no allocation, its address is the alignment.
\<close>

definition leak :: "bridge_env \<Rightarrow> (bytes \<Rightarrow> nat) \<Rightarrow> bytes \<Rightarrow> bridge \<Rightarrow> (u64 \<times> bridge) outcome" where
  "leak be cap bs b = (if cap bs = 0 then Returns (1, b) else into_raw be (OBuffer bs (cap bs)) b)"

text \<open>The two output pointers of a buffer, and the code 0.\<close>

definition return_buffer ::
  "bridge_env \<Rightarrow> (bytes \<Rightarrow> nat) \<Rightarrow> bytes \<Rightarrow> bridge \<Rightarrow> ((int \<times> (u64 \<times> nat) option) \<times> bridge) outcome" where
  "return_buffer be cap bs b =
     (case leak be cap bs b of
        Returns (p, b') \<Rightarrow> Returns ((0, Some (p, length bs)), b')
      | Aborts \<Rightarrow> Aborts
      | Undefined \<Rightarrow> Undefined)"

section \<open>Identity key pairs\<close>

definition tintin_identity_generate :: "bridge_env \<Rightarrow> bytes \<Rightarrow> bridge \<Rightarrow> (u64 \<times> bridge) outcome" where
  "tintin_identity_generate be rng b =
     into_raw be (OIdentity (IdentityKeyPair_generate (be_prims be) rng)) (clear_error b)"

definition tintin_identity_free :: "u64 \<Rightarrow> bridge \<Rightarrow> (unit \<times> bridge) outcome" where
  "tintin_identity_free ptr b = free_box as_identity ptr b"

definition tintin_identity_get_public ::
  "u64 \<Rightarrow> bool \<Rightarrow> bridge \<Rightarrow> ((int \<times> bytes option) \<times> bridge) outcome" where
  "tintin_identity_get_public ptr out b =
     (if ptr = 0 \<or> \<not> out then Returns ((-1, None), set_error ''null pointer'' b)
      else case deref as_identity b ptr of
             None \<Rightarrow> Undefined
           | Some identity \<Rightarrow> Returns ((0, Some (public_key identity)), b))"

text \<open>The text of a serialized object as a C string, or null.\<close>

definition return_json ::
  "bridge_env \<Rightarrow> string \<Rightarrow> string + string \<Rightarrow> bridge \<Rightarrow> (u64 \<times> bridge) outcome" where
  "return_json be what r b =
     (case r of
        Inr json \<Rightarrow> into_raw be (OString (cstring_or_empty json)) b
      | Inl e \<Rightarrow> Returns (0, set_error (what @ e) b))"

definition tintin_identity_to_json :: "bridge_env \<Rightarrow> u64 \<Rightarrow> bridge \<Rightarrow> (u64 \<times> bridge) outcome" where
  "tintin_identity_to_json be ptr b0 =
     (let b = clear_error b0
      in if ptr = 0 then Returns (0, set_error ''null ptr'' b)
         else case deref as_identity b ptr of
                None \<Rightarrow> Undefined
              | Some identity \<Rightarrow> return_json be ''serialize identity: '' (identity_to_string be identity) b)"

definition tintin_identity_from_json :: "bridge_env \<Rightarrow> bytes option \<Rightarrow> bridge \<Rightarrow> (u64 \<times> bridge) outcome" where
  "tintin_identity_from_json be json b0 =
     (let b = clear_error b0
      in case json of
           None \<Rightarrow> Returns (0, set_error ''null ptr'' b)
         | Some bs \<Rightarrow>
             (case cstr_to_str bs of
                Inl e \<Rightarrow> Returns (0, set_error (''invalid utf-8: '' @ e) b)
              | Inr s \<Rightarrow>
                  (case identity_from_str be s of
                     Inr ident \<Rightarrow> into_raw be (OIdentity ident) b
                   | Inl e \<Rightarrow> Returns (0, set_error (''deserialize identity: '' @ e) b))))"

section \<open>Signed pre-keys\<close>

definition tintin_signed_prekey_generate ::
  "bridge_env \<Rightarrow> bytes \<Rightarrow> u32 \<Rightarrow> u64 \<Rightarrow> bridge \<Rightarrow> (u64 \<times> bridge) outcome" where
  "tintin_signed_prekey_generate be rng i identity b0 =
     (let b = clear_error b0
      in if identity = 0 then Returns (0, set_error ''null identity ptr'' b)
         else case deref as_identity b identity of
                None \<Rightarrow> Undefined
              | Some ident \<Rightarrow> into_raw be (OSigned (SignedPreKey_generate (be_prims be) rng i ident)) b)"

definition tintin_signed_prekey_free :: "u64 \<Rightarrow> bridge \<Rightarrow> (unit \<times> bridge) outcome" where
  "tintin_signed_prekey_free ptr b = free_box as_signed ptr b"

definition tintin_signed_prekey_get_public ::
  "u64 \<Rightarrow> bool \<Rightarrow> bridge \<Rightarrow> ((int \<times> bytes option) \<times> bridge) outcome" where
  "tintin_signed_prekey_get_public ptr out b =
     (if ptr = 0 \<or> \<not> out then Returns ((-1, None), set_error ''null pointer'' b)
      else case deref as_signed b ptr of
             None \<Rightarrow> Undefined
           | Some spk \<Rightarrow> Returns ((0, Some (kp_public (spk_key_pair spk))), b))"

definition tintin_signed_prekey_get_id :: "u64 \<Rightarrow> bridge \<Rightarrow> (u32 \<times> bridge) outcome" where
  "tintin_signed_prekey_get_id ptr b =
     (if ptr = 0 then Returns (0, set_error ''null ptr'' b)
      else case deref as_signed b ptr of None \<Rightarrow> Undefined | Some spk \<Rightarrow> Returns (spk_id spk, b))"

section \<open>Sessions\<close>

text \<open>A new session or its error, after the constructor.\<close>

definition return_session ::
  "bridge_env \<Rightarrow> string \<Rightarrow> (TinTinError + Session) option \<Rightarrow> bridge \<Rightarrow> (u64 \<times> bridge) outcome" where
  "return_session be what r b =
     (case r of
        None \<Rightarrow> Aborts
      | Some (Inr s) \<Rightarrow> into_raw be (OSession s) b
      | Some (Inl e) \<Rightarrow> Returns (0, set_error (what @ error_message e) b))"

definition tintin_session_new_initiator ::
  "bridge_env \<Rightarrow> bytes \<Rightarrow> u64 \<Rightarrow> bytes option \<Rightarrow> u32 \<Rightarrow> bytes option \<Rightarrow> bytes option \<Rightarrow> bridge \<Rightarrow>
   (u64 \<times> bridge) outcome" where
  "tintin_session_new_initiator be rng identity remote_user_id device_id their_identity_32 signed_prekey_public_32 b0 =
     (let b = clear_error b0
      in case (remote_user_id, their_identity_32, signed_prekey_public_32) of
           (Some uid_bytes, Some their, Some spk) \<Rightarrow>
             if identity = 0 then Returns (0, set_error ''null pointer argument'' b)
             else
               (case deref as_identity b identity of
                  None \<Rightarrow> Undefined
                | Some ident \<Rightarrow>
                    (case cstr_to_str uid_bytes of
                       Inl e \<Rightarrow> Returns (0, set_error (''invalid remote_user_id utf-8: '' @ e) b)
                     | Inr uid \<Rightarrow>
                         if length their < 32 \<or> length spk < 32 then Undefined
                         else return_session be ''session initiator: ''
                                (Session_new_initiator (be_prims be) rng ident uid device_id (take 32 their) (take 32 spk)) b))
         | _ \<Rightarrow> Returns (0, set_error ''null pointer argument'' b))"

definition tintin_session_new_responder ::
  "bridge_env \<Rightarrow> u64 \<Rightarrow> bytes option \<Rightarrow> u32 \<Rightarrow> bytes option \<Rightarrow> bytes option \<Rightarrow> u64 \<Rightarrow> bridge \<Rightarrow>
   (u64 \<times> bridge) outcome" where
  "tintin_session_new_responder be identity remote_user_id device_id their_identity_32 alice_eph_32 our_signed_prekey b0 =
     (let b = clear_error b0
      in case (remote_user_id, their_identity_32, alice_eph_32) of
           (Some uid_bytes, Some their, Some eph) \<Rightarrow>
             if identity = 0 \<or> our_signed_prekey = 0 then Returns (0, set_error ''null pointer argument'' b)
             else
               (case deref as_identity b identity of
                  None \<Rightarrow> Undefined
                | Some ident \<Rightarrow>
                    (case cstr_to_str uid_bytes of
                       Inl e \<Rightarrow> Returns (0, set_error (''invalid remote_user_id utf-8: '' @ e) b)
                     | Inr uid \<Rightarrow>
                         if length their < 32 \<or> length eph < 32 then Undefined
                         else
                           (case deref as_signed b our_signed_prekey of
                              None \<Rightarrow> Undefined
                            | Some spk \<Rightarrow>
                                return_session be ''session responder: ''
                                  (Session_new_responder (be_prims be) ident uid device_id (take 32 their) (take 32 eph) spk) b)))
         | _ \<Rightarrow> Returns (0, set_error ''null pointer argument'' b))"

definition tintin_session_free :: "u64 \<Rightarrow> bridge \<Rightarrow> (unit \<times> bridge) outcome" where
  "tintin_session_free ptr b = free_box as_session ptr b"

text \<open>\<open>nonce\<close> is what the cipher draws, \<open>cap\<close> the capacity of the vector handed out.\<close>

definition tintin_session_encrypt ::
  "bridge_env \<Rightarrow> bytes \<Rightarrow> (bytes \<Rightarrow> nat) \<Rightarrow> u64 \<Rightarrow> bytes option \<Rightarrow> bool \<Rightarrow> bool \<Rightarrow> bridge \<Rightarrow>
   ((int \<times> (u64 \<times> nat) option) \<times> bridge) outcome" where
  "tintin_session_encrypt be nonce cap session plaintext out out_len b0 =
     (let b = clear_error b0
      in case plaintext of
           None \<Rightarrow> Returns ((-1, None), set_error ''null pointer'' b)
         | Some pt_slice \<Rightarrow>
             if session = 0 \<or> \<not> out \<or> \<not> out_len then Returns ((-1, None), set_error ''null pointer'' b)
             else
               (case deref as_session b session of
                  None \<Rightarrow> Undefined
                | Some s \<Rightarrow>
                    (case Session_encrypt (be_prims be) s nonce pt_slice of
                       None \<Rightarrow> Aborts
                     | Some (Inr session_msg, s') \<Rightarrow>
                         return_buffer be cap
                           (case session_message_to_vec (be_wire be) session_msg of Inl e \<Rightarrow> [] | Inr json_bytes \<Rightarrow> json_bytes)
                           (store_at session (OSession s') b)
                     | Some (Inl e, s') \<Rightarrow>
                         Returns ((-1, None), set_error (''encrypt: '' @ error_message e) (store_at session (OSession s') b)))))"

definition tintin_session_decrypt ::
  "bridge_env \<Rightarrow> (bytes \<Rightarrow> nat) \<Rightarrow> u64 \<Rightarrow> bytes option \<Rightarrow> bool \<Rightarrow> bool \<Rightarrow> bridge \<Rightarrow>
   ((int \<times> (u64 \<times> nat) option) \<times> bridge) outcome" where
  "tintin_session_decrypt be cap session data out out_len b0 =
     (let b = clear_error b0
      in case data of
           None \<Rightarrow> Returns ((-1, None), set_error ''null pointer'' b)
         | Some data_slice \<Rightarrow>
             if session = 0 \<or> \<not> out \<or> \<not> out_len then Returns ((-1, None), set_error ''null pointer'' b)
             else
               (case deref as_session b session of
                  None \<Rightarrow> Undefined
                | Some s \<Rightarrow>
                    (case session_message_from_slice (be_wire be) data_slice of
                       Inl e \<Rightarrow> Returns ((-1, None), set_error (''deserialize session message: '' @ e) b)
                     | Inr session_msg \<Rightarrow>
                         (case Session_decrypt (be_prims be) s session_msg of
                            None \<Rightarrow> Aborts
                          | Some (Inr plaintext, s') \<Rightarrow>
                              return_buffer be cap plaintext (store_at session (OSession s') b)
                          | Some (Inl e, s') \<Rightarrow>
                              Returns ((-1, None), set_error (''decrypt: '' @ error_message e)
                                (store_at session (OSession s') b))))))"

definition tintin_session_to_json :: "bridge_env \<Rightarrow> u64 \<Rightarrow> bridge \<Rightarrow> (u64 \<times> bridge) outcome" where
  "tintin_session_to_json be session b0 =
     (let b = clear_error b0
      in if session = 0 then Returns (0, set_error ''null ptr'' b)
         else case deref as_session b session of
                None \<Rightarrow> Undefined
              | Some s \<Rightarrow> return_json be ''serialize session: '' (session_to_string be s) b)"

definition tintin_session_from_json :: "bridge_env \<Rightarrow> bytes option \<Rightarrow> bridge \<Rightarrow> (u64 \<times> bridge) outcome" where
  "tintin_session_from_json be json b0 =
     (let b = clear_error b0
      in case json of
           None \<Rightarrow> Returns (0, set_error ''null ptr'' b)
         | Some bs \<Rightarrow>
             (case cstr_to_str bs of
                Inl e \<Rightarrow> Returns (0, set_error (''invalid utf-8: '' @ e) b)
              | Inr s \<Rightarrow>
                  (case session_from_str be s of
                     Inr sess \<Rightarrow> into_raw be (OSession sess) b
                   | Inl e \<Rightarrow> Returns (0, set_error (''deserialize session: '' @ e) b))))"

definition tintin_session_get_ratchet_key ::
  "u64 \<Rightarrow> bool \<Rightarrow> bridge \<Rightarrow> ((int \<times> bytes option) \<times> bridge) outcome" where
  "tintin_session_get_ratchet_key session out b =
     (if session = 0 \<or> \<not> out then Returns ((-1, None), set_error ''null pointer'' b)
      else case deref as_session b session of
             None \<Rightarrow> Undefined
           | Some s \<Rightarrow> Returns ((0, Some (kp_public (r_dh_ratchet_key (s_ratchet s)))), b))"

section \<open>Chat messages\<close>

definition tintin_chat_message_to_json ::
  "bridge_env \<Rightarrow> (bytes \<Rightarrow> nat) \<Rightarrow> bytes option \<Rightarrow> u64 \<Rightarrow> bool \<Rightarrow> bool \<Rightarrow> bridge \<Rightarrow>
   ((int \<times> (u64 \<times> nat) option) \<times> bridge) outcome" where
  "tintin_chat_message_to_json be cap txt timestamp out out_len b0 =
     (let b = clear_error b0
      in case txt of
           None \<Rightarrow> Returns ((-1, None), set_error ''null pointer'' b)
         | Some text_bytes \<Rightarrow>
             if \<not> out \<or> \<not> out_len then Returns ((-1, None), set_error ''null pointer'' b)
             else
               (case cstr_to_str text_bytes of
                  Inl e \<Rightarrow> Returns ((-1, None), set_error (''invalid utf-8: '' @ e) b)
                | Inr text_str \<Rightarrow>
                    return_buffer be cap
                      (case chat_message_to_vec be \<lparr>cm_text = text_str, cm_timestamp = timestamp\<rparr> of
                         Inl e \<Rightarrow> [] | Inr json_bytes \<Rightarrow> json_bytes) b))"

end
