(* ===== verification/Jni_Bridge.thy ===== *)
theory Jni_Bridge
  imports Bridge_Memory
begin

text \<open>
  The Java functions of \<open>tintin-jni/src/lib.rs\<close>. A handle is the address as a \<open>jlong\<close>, 0 when an operation
  fails; arrays and strings are objects of the virtual machine, \<open>None\<close> when null. A panic is caught by
  \<open>catch_unwind\<close>, so an operation that panics returns 0 or null and leaves the session as far as it got.
\<close>

section \<open>The virtual machine\<close>

text \<open>The calls of the \<open>jni\<close> crate; \<open>Inl\<close> is the text of the error.\<close>

record ('jb, 'js) jvm =
  convert_byte_array :: "'jb \<Rightarrow> string + bytes"
  byte_array_from_slice :: "bytes \<Rightarrow> string + 'jb"
  get_string :: "'js \<Rightarrow> string + string"
  new_string :: "string \<Rightarrow> string + 'js"

definition byte_array_to_vec :: "('jb, 'js) jvm \<Rightarrow> 'jb \<Rightarrow> string + bytes" where
  "byte_array_to_vec env array =
     (case convert_byte_array env array of Inl e \<Rightarrow> Inl (''JNI byte array: '' @ e) | Inr bs \<Rightarrow> Inr bs)"

definition vec_to_byte_array :: "('jb, 'js) jvm \<Rightarrow> bytes \<Rightarrow> string + 'jb" where
  "vec_to_byte_array env data =
     (case byte_array_from_slice env data of Inl e \<Rightarrow> Inl (''JNI create byte array: '' @ e) | Inr arr \<Rightarrow> Inr arr)"

definition jstring_to_string :: "('jb, 'js) jvm \<Rightarrow> 'js \<Rightarrow> string + string" where
  "jstring_to_string env s =
     (case get_string env s of Inl e \<Rightarrow> Inl (''JNI string: '' @ e) | Inr js \<Rightarrow> Inr js)"

text \<open>The result of the closures without a handler for \<open>Err\<close>: the value, or null.\<close>

definition ok_or_null :: "string + 'a \<Rightarrow> 'a option" where
  "ok_or_null r = (case r of Inl e \<Rightarrow> None | Inr x \<Rightarrow> Some x)"

text \<open>A new handle; memory exhausted aborts the process.\<close>

definition ptr_to_jlong :: "bridge_env \<Rightarrow> heap_object \<Rightarrow> bridge \<Rightarrow> (u64 \<times> bridge) outcome" where
  "ptr_to_jlong be x b = into_raw be x b"

section \<open>Identity key pairs\<close>

definition identityGenerate :: "bridge_env \<Rightarrow> bytes \<Rightarrow> bridge \<Rightarrow> (u64 \<times> bridge) outcome" where
  "identityGenerate be rng b =
     ptr_to_jlong be (OIdentity (IdentityKeyPair_generate (be_prims be) rng)) (clear_error b)"

definition identityFree :: "u64 \<Rightarrow> bridge \<Rightarrow> (unit \<times> bridge) outcome" where
  "identityFree handle b = free_box as_identity handle b"

definition identityGetPublic ::
  "('jb, 'js) jvm \<Rightarrow> u64 \<Rightarrow> bridge \<Rightarrow> ('jb option \<times> bridge) outcome" where
  "identityGetPublic env handle b0 =
     (let b = clear_error b0
      in if handle = 0 then Returns (None, set_error ''null identity handle'' b)
         else case deref as_identity b handle of
                None \<Rightarrow> Undefined
              | Some ident \<Rightarrow> Returns (ok_or_null (vec_to_byte_array env (public_key ident)), b))"

definition identityToJson ::
  "bridge_env \<Rightarrow> ('jb, 'js) jvm \<Rightarrow> u64 \<Rightarrow> bridge \<Rightarrow> ('js option \<times> bridge) outcome" where
  "identityToJson be env handle b0 =
     (let b = clear_error b0
      in if handle = 0 then Returns (None, set_error ''null identity handle'' b)
         else case deref as_identity b handle of
                None \<Rightarrow> Undefined
              | Some ident \<Rightarrow>
                  Returns (case identity_to_string be ident of
                             Inl e \<Rightarrow> None
                           | Inr json \<Rightarrow> ok_or_null (new_string env json), b))"

definition identityFromJson ::
  "bridge_env \<Rightarrow> ('jb, 'js) jvm \<Rightarrow> 'js \<Rightarrow> bridge \<Rightarrow> (u64 \<times> bridge) outcome" where
  "identityFromJson be env json b0 =
     (let b = clear_error b0
      in case jstring_to_string env json of
           Inl e \<Rightarrow> Returns (0, b)
         | Inr s \<Rightarrow>
             (case identity_from_str be s of
                Inl e \<Rightarrow> Returns (0, b)
              | Inr ident \<Rightarrow> ptr_to_jlong be (OIdentity ident) b))"

section \<open>Signed pre-keys\<close>

definition signedPrekeyGenerate ::
  "bridge_env \<Rightarrow> bytes \<Rightarrow> u32 \<Rightarrow> u64 \<Rightarrow> bridge \<Rightarrow> (u64 \<times> bridge) outcome" where
  "signedPrekeyGenerate be rng i identity_handle b0 =
     (let b = clear_error b0
      in if identity_handle = 0 then Returns (0, set_error ''null identity handle'' b)
         else case deref as_identity b identity_handle of
                None \<Rightarrow> Undefined
              | Some ident \<Rightarrow> ptr_to_jlong be (OSigned (SignedPreKey_generate (be_prims be) rng i ident)) b)"

definition signedPrekeyFree :: "u64 \<Rightarrow> bridge \<Rightarrow> (unit \<times> bridge) outcome" where
  "signedPrekeyFree handle b = free_box as_signed handle b"

definition signedPrekeyGetPublic ::
  "('jb, 'js) jvm \<Rightarrow> u64 \<Rightarrow> bridge \<Rightarrow> ('jb option \<times> bridge) outcome" where
  "signedPrekeyGetPublic env handle b0 =
     (let b = clear_error b0
      in if handle = 0 then Returns (None, set_error ''null signed pre-key handle'' b)
         else case deref as_signed b handle of
                None \<Rightarrow> Undefined
              | Some spk \<Rightarrow> Returns (ok_or_null (vec_to_byte_array env (kp_public (spk_key_pair spk))), b))"

section \<open>Sessions\<close>

text \<open>
  The end of the two constructors: the only functions that put their error into the slot. A panic of the
  constructor returns 0 and leaves the slot clear.
\<close>

definition finish_session ::
  "bridge_env \<Rightarrow> string \<Rightarrow> (TinTinError + Session) option \<Rightarrow> bridge \<Rightarrow> (u64 \<times> bridge) outcome" where
  "finish_session be what r b =
     (case r of
        None \<Rightarrow> Returns (0, b)
      | Some (Inl e) \<Rightarrow> Returns (0, set_error (what @ error_message e) b)
      | Some (Inr session) \<Rightarrow> ptr_to_jlong be (OSession session) b)"

definition sessionNewInitiator ::
  "bridge_env \<Rightarrow> ('jb, 'js) jvm \<Rightarrow> bytes \<Rightarrow> u64 \<Rightarrow> 'js \<Rightarrow> u32 \<Rightarrow> 'jb \<Rightarrow> 'jb \<Rightarrow> bridge \<Rightarrow>
   (u64 \<times> bridge) outcome" where
  "sessionNewInitiator be env rng identity_handle remote_user_id device_id their_identity signed_prekey_public b0 =
     (let b = clear_error b0
      in if identity_handle = 0 then Returns (0, set_error ''null identity'' b)
         else
           (case deref as_identity b identity_handle of
              None \<Rightarrow> Undefined
            | Some ident \<Rightarrow>
                (case jstring_to_string env remote_user_id of
                   Inl e \<Rightarrow> Returns (0, set_error e b)
                 | Inr uid \<Rightarrow>
                     (case byte_array_to_vec env their_identity of
                        Inl e \<Rightarrow> Returns (0, set_error e b)
                      | Inr their_id_bytes \<Rightarrow>
                          (case byte_array_to_vec env signed_prekey_public of
                             Inl e \<Rightarrow> Returns (0, set_error e b)
                           | Inr spk_bytes \<Rightarrow>
                               if length their_id_bytes \<noteq> 32 \<or> length spk_bytes \<noteq> 32
                               then Returns (0, set_error ''key arrays must be 32 bytes'' b)
                               else finish_session be ''new_initiator: ''
                                      (Session_new_initiator (be_prims be) rng ident uid device_id their_id_bytes spk_bytes) b)))))"

definition sessionNewResponder ::
  "bridge_env \<Rightarrow> ('jb, 'js) jvm \<Rightarrow> u64 \<Rightarrow> 'js \<Rightarrow> u32 \<Rightarrow> 'jb \<Rightarrow> 'jb \<Rightarrow> u64 \<Rightarrow> bridge \<Rightarrow>
   (u64 \<times> bridge) outcome" where
  "sessionNewResponder be env identity_handle remote_user_id device_id their_identity alice_eph signed_prekey_handle b0 =
     (let b = clear_error b0
      in if identity_handle = 0 \<or> signed_prekey_handle = 0 then Returns (0, set_error ''null handle'' b)
         else
           (case (deref as_identity b identity_handle, deref as_signed b signed_prekey_handle) of
              (Some ident, Some spk) \<Rightarrow>
                (case jstring_to_string env remote_user_id of
                   Inl e \<Rightarrow> Returns (0, set_error e b)
                 | Inr uid \<Rightarrow>
                     (case byte_array_to_vec env their_identity of
                        Inl e \<Rightarrow> Returns (0, set_error e b)
                      | Inr their_id_bytes \<Rightarrow>
                          (case byte_array_to_vec env alice_eph of
                             Inl e \<Rightarrow> Returns (0, set_error e b)
                           | Inr alice_eph_bytes \<Rightarrow>
                               if length their_id_bytes \<noteq> 32 \<or> length alice_eph_bytes \<noteq> 32
                               then Returns (0, set_error ''key arrays must be 32 bytes'' b)
                               else finish_session be ''new_responder: ''
                                      (Session_new_responder (be_prims be) ident uid device_id their_id_bytes alice_eph_bytes spk) b)))
            | _ \<Rightarrow> Undefined))"

definition sessionFree :: "u64 \<Rightarrow> bridge \<Rightarrow> (unit \<times> bridge) outcome" where
  "sessionFree handle b = free_box as_session handle b"

text \<open>
  What a caught panic leaves of a session. \<open>next_send_key\<close> and \<open>next_recv_key\<close> store the new chain key
  before the counter overflows; \<open>decrypt_message\<close> stores the ratchet key before the ratchet step.
\<close>

definition encrypt_unwound :: "prims \<Rightarrow> Session \<Rightarrow> Session" where
  "encrypt_unwound pr s =
     s\<lparr>s_ratchet := (s_ratchet s)\<lparr>r_send_chain_key := fst (ratchet_chain_key pr (r_send_chain_key (s_ratchet s)))\<rparr>\<rparr>"

definition decrypt_unwound :: "prims \<Rightarrow> Session \<Rightarrow> SessionMessage \<Rightarrow> Session" where
  "decrypt_unwound pr s message =
     (let r = s_ratchet s; turned = (sm_ratchet_key message \<noteq> r_their_ratchet_key r);
          r0 = (if turned then r\<lparr>r_their_ratchet_key := sm_ratchet_key message\<rparr> else r)
      in s\<lparr>s_ratchet :=
            (case (if turned then dh_ratchet_step pr r0 else Some r0) of
               None \<Rightarrow> r0
             | Some r1 \<Rightarrow> r1\<lparr>r_recv_chain_key := fst (ratchet_chain_key pr (r_recv_chain_key r1))\<rparr>)\<rparr>)"

definition sessionEncrypt ::
  "bridge_env \<Rightarrow> ('jb, 'js) jvm \<Rightarrow> bytes \<Rightarrow> u64 \<Rightarrow> 'jb \<Rightarrow> bridge \<Rightarrow> ('jb option \<times> bridge) outcome" where
  "sessionEncrypt be env nonce session_handle plaintext b0 =
     (let b = clear_error b0
      in if session_handle = 0 then Returns (None, b)
         else
           (case deref as_session b session_handle of
              None \<Rightarrow> Undefined
            | Some s \<Rightarrow>
                (case byte_array_to_vec env plaintext of
                   Inl e \<Rightarrow> Returns (None, b)
                 | Inr pt \<Rightarrow>
                     (case Session_encrypt (be_prims be) s nonce pt of
                        None \<Rightarrow> Returns (None, store_at session_handle (OSession (encrypt_unwound (be_prims be) s)) b)
                      | Some (Inl e, s') \<Rightarrow> Returns (None, store_at session_handle (OSession s') b)
                      | Some (Inr session_msg, s') \<Rightarrow>
                          Returns (case session_message_to_vec (be_wire be) session_msg of
                                     Inl e \<Rightarrow> None
                                   | Inr json \<Rightarrow> ok_or_null (vec_to_byte_array env json),
                                   store_at session_handle (OSession s') b)))))"

definition sessionDecrypt ::
  "bridge_env \<Rightarrow> ('jb, 'js) jvm \<Rightarrow> u64 \<Rightarrow> 'jb \<Rightarrow> bridge \<Rightarrow> ('jb option \<times> bridge) outcome" where
  "sessionDecrypt be env session_handle ciphertext b0 =
     (let b = clear_error b0
      in if session_handle = 0 then Returns (None, b)
         else
           (case deref as_session b session_handle of
              None \<Rightarrow> Undefined
            | Some s \<Rightarrow>
                (case byte_array_to_vec env ciphertext of
                   Inl e \<Rightarrow> Returns (None, b)
                 | Inr ct \<Rightarrow>
                     (case session_message_from_slice (be_wire be) ct of
                        Inl e \<Rightarrow> Returns (None, b)
                      | Inr session_msg \<Rightarrow>
                          (case Session_decrypt (be_prims be) s session_msg of
                             None \<Rightarrow>
                               Returns (None, store_at session_handle (OSession (decrypt_unwound (be_prims be) s session_msg)) b)
                           | Some (Inl e, s') \<Rightarrow> Returns (None, store_at session_handle (OSession s') b)
                           | Some (Inr plaintext, s') \<Rightarrow>
                               Returns (ok_or_null (vec_to_byte_array env plaintext),
                                 store_at session_handle (OSession s') b))))))"

definition sessionToJson ::
  "bridge_env \<Rightarrow> ('jb, 'js) jvm \<Rightarrow> u64 \<Rightarrow> bridge \<Rightarrow> ('js option \<times> bridge) outcome" where
  "sessionToJson be env handle b0 =
     (let b = clear_error b0
      in if handle = 0 then Returns (None, b)
         else case deref as_session b handle of
                None \<Rightarrow> Undefined
              | Some session \<Rightarrow>
                  Returns (case session_to_string be session of
                             Inl e \<Rightarrow> None
                           | Inr json \<Rightarrow> ok_or_null (new_string env json), b))"

definition sessionFromJson ::
  "bridge_env \<Rightarrow> ('jb, 'js) jvm \<Rightarrow> 'js \<Rightarrow> bridge \<Rightarrow> (u64 \<times> bridge) outcome" where
  "sessionFromJson be env json b0 =
     (let b = clear_error b0
      in case jstring_to_string env json of
           Inl e \<Rightarrow> Returns (0, b)
         | Inr s \<Rightarrow>
             (case session_from_str be s of
                Inl e \<Rightarrow> Returns (0, b)
              | Inr session \<Rightarrow> ptr_to_jlong be (OSession session) b))"

definition sessionGetRatchetKey ::
  "('jb, 'js) jvm \<Rightarrow> u64 \<Rightarrow> bridge \<Rightarrow> ('jb option \<times> bridge) outcome" where
  "sessionGetRatchetKey env handle b0 =
     (let b = clear_error b0
      in if handle = 0 then Returns (None, b)
         else case deref as_session b handle of
                None \<Rightarrow> Undefined
              | Some session \<Rightarrow>
                  Returns (ok_or_null (vec_to_byte_array env (kp_public (r_dh_ratchet_key (s_ratchet session)))), b))"

definition getLastError :: "('jb, 'js) jvm \<Rightarrow> bridge \<Rightarrow> 'js option" where
  "getLastError env b = ok_or_null (new_string env (unwrap_or (b_error b) []))"

end
