(* ===== verification/Bridge_Properties.thy ===== *)
theory Bridge_Properties
  imports Ffi_Bridge Jni_Bridge Delivery_Properties
begin

text \<open>
  Properties of the C and Java bindings: messages through handles, the discipline of handles over any
  sequence of calls, what freeing a buffer does, errors, and that the two bindings agree.
\<close>

section \<open>Memory\<close>

text \<open>The allocator serves as long as fewer than \<open>limit\<close> objects are live.\<close>

definition alloc_serves :: "bridge_env \<Rightarrow> nat \<Rightarrow> bool" where
  "alloc_serves be limit \<longleftrightarrow> (\<forall>h x. card (dom h) < limit \<longrightarrow> be_alloc be h x \<noteq> None)"

lemma into_raw_serves:
  assumes "alloc_serves be limit" and "card (dom (b_heap b)) < limit"
  obtains p where "be_alloc be (b_heap b) x = Some p" "into_raw be x b = Returns (p, store_at p x b)"
  using assms by (auto simp: alloc_serves_def into_raw_def store_at_def)

lemma dom_store_at: "b_heap b p \<noteq> None \<Longrightarrow> dom (b_heap (store_at p x b)) = dom (b_heap b)"
  by (auto simp: store_at_def)

lemma card_dom_store: "card (dom (b_heap (store_at p x b))) \<le> Suc (card (dom (b_heap b)))"
  by (simp add: store_at_def card_insert_le_m1 card_insert_if)

text \<open>The bytes at an address that came with a length.\<close>

definition buffer_at :: "bridge \<Rightarrow> u64 \<Rightarrow> nat \<Rightarrow> bytes option" where
  "buffer_at b p n =
     (if n = 0 then Some []
      else case b_heap b p of Some (OBuffer bs cap) \<Rightarrow> (if length bs = n then Some bs else None) | _ \<Rightarrow> None)"

lemma return_buffer_serves:
  assumes "alloc_fresh be" and "alloc_serves be limit" and "card (dom (b_heap b)) < limit" and "length bs \<le> cap bs"
  obtains p b' where "return_buffer be cap bs b = Returns ((0, Some (p, length bs)), b')"
    "buffer_at b' p (length bs) = Some bs" "b_error b' = b_error b"
    "\<And>q. b_heap b q \<noteq> None \<Longrightarrow> b_heap b' q = b_heap b q" "\<And>q. q \<noteq> p \<Longrightarrow> b_heap b' q = b_heap b q"
    "card (dom (b_heap b')) \<le> Suc (card (dom (b_heap b)))"
proof (cases "cap bs = 0")
  case True
  then have e: "bs = []" using assms(4) by simp
  have "cap [] = 0" using True e by simp
  then show thesis
    by (intro that [of 1 b]) (simp_all add: e return_buffer_def leak_def buffer_at_def)
next
  case False
  obtain p where p: "be_alloc be (b_heap b) (OBuffer bs (cap bs)) = Some p"
    "into_raw be (OBuffer bs (cap bs)) b = Returns (p, store_at p (OBuffer bs (cap bs)) b)"
    using into_raw_serves [OF assms(2,3)] by metis
  have free: "b_heap b p = None" using p(1) assms(1) by (simp add: alloc_fresh_def)
  show thesis
  proof (rule that [of p "store_at p (OBuffer bs (cap bs)) b"])
    show "return_buffer be cap bs b = Returns ((0, Some (p, length bs)), store_at p (OBuffer bs (cap bs)) b)"
      using p(2) False by (simp add: return_buffer_def leak_def)
    show "b_heap (store_at p (OBuffer bs (cap bs)) b) q = b_heap b q" if "b_heap b q \<noteq> None" for q
      using that free by (auto simp: store_at_def)
  qed (use card_dom_store in \<open>simp_all add: store_at_def buffer_at_def\<close>)
qed

section \<open>Messages through handles\<close>

text \<open>The end of both operations: the advanced session is stored and a buffer handed out.\<close>

lemma stored_buffer:
  assumes "alloc_fresh be" and "alloc_serves be limit" and "card (dom (b_heap b)) < limit" and "length bs \<le> cap bs"
    and "deref as_session b h = Some s"
  obtains buf b' where
    "return_buffer be cap bs (store_at h (OSession s') (clear_error b)) = Returns ((0, Some (buf, length bs)), b')"
    "buffer_at b' buf (length bs) = Some bs" "deref as_session b' h = Some s'" "b_error b' = None"
    "\<And>q. q \<noteq> h \<Longrightarrow> b_heap b q \<noteq> None \<Longrightarrow> b_heap b' q = b_heap b q"
    "card (dom (b_heap b')) \<le> Suc (card (dom (b_heap b)))"
proof -
  let ?b = "store_at h (OSession s') (clear_error b)"
  have dom: "dom (b_heap ?b) = dom (b_heap b)"
    using deref_live [OF assms(5)] dom_store_at [of "clear_error b" h] by simp
  obtain buf b' where r: "return_buffer be cap bs ?b = Returns ((0, Some (buf, length bs)), b')"
    and buf: "buffer_at b' buf (length bs) = Some bs" "b_error b' = b_error ?b"
    and keep: "\<And>q. b_heap ?b q \<noteq> None \<Longrightarrow> b_heap b' q = b_heap ?b q"
    and card: "card (dom (b_heap b')) \<le> Suc (card (dom (b_heap ?b)))"
    using return_buffer_serves [where b = ?b and cap = cap and bs = bs, OF assms(1,2) _ assms(4)] assms(3) unfolding dom by metis
  show thesis
  proof (rule that [OF r buf(1)])
    have "b_heap b' h = b_heap ?b h" by (rule keep) (simp add: store_at_def)
    then show "deref as_session b' h = Some s'" by (simp add: deref_def store_at_def)
    show "b_error b' = None" using buf(2) by (simp add: store_at_def clear_error_def)
    show "b_heap b' q = b_heap b q" if "q \<noteq> h" "b_heap b q \<noteq> None" for q
      using keep [of q] that by (simp add: store_at_def)
    show "card (dom (b_heap b')) \<le> Suc (card (dom (b_heap b)))" using card unfolding dom .
  qed
qed

lemma ffi_encrypt_eq:
  assumes "deref as_session b h = Some s" and "h \<noteq> 0"
    and "Session_encrypt (be_prims be) s nonce p = Some (Inr m, s')" and "session_message_to_vec (be_wire be) m = Inr ct"
  shows "tintin_session_encrypt be nonce cap h (Some p) True True b =
    return_buffer be cap ct (store_at h (OSession s') (clear_error b))"
  using assms by (simp add: tintin_session_encrypt_def)

lemma ffi_decrypt_eq:
  assumes "deref as_session b h = Some s" and "h \<noteq> 0" and "session_message_from_slice (be_wire be) ct = Inr m"
    and "Session_decrypt (be_prims be) s m = Some (Inr p, s')"
  shows "tintin_session_decrypt be cap h (Some ct) True True b =
    return_buffer be cap p (store_at h (OSession s') (clear_error b))"
  using assms by (simp add: tintin_session_decrypt_def)

text \<open>
  Property C17. A message through the C functions. Two handles hold linked sessions. Encrypting through
  the first and decrypting the buffer through the second both return 0, the second buffer holds the
  plaintext, both handles hold the advanced sessions, which are linked again, every object that was live
  before is still there, and no error is left in the slot.
\<close>

theorem ffi_message_roundtrip:
  assumes "alloc_fresh be" and "alloc_serves be limit" and "card (dom (b_heap b)) + 1 < limit"
    and "\<And>bs. length bs \<le> cap bs" and "\<And>bs. length bs \<le> cap' bs"
    and "wire_codec (be_wire be)" and "aead_total (be_prims be)" and "length p < 2 ^ 32"
    and "deref as_session b hs = Some s" and "deref as_session b hr = Some r" and "hs \<noteq> 0" and "hr \<noteq> 0" and "hs \<noteq> hr"
    and "session_linked (be_prims be) s r [] []" and "room_to_send (be_prims be) 1 s" and "room_to_receive (be_prims be) 1 r"
  shows "\<exists>cbuf clen ct b1 pbuf b2 s' r'.
    tintin_session_encrypt be nonce cap hs (Some p) True True b = Returns ((0, Some (cbuf, clen)), b1) \<and>
    buffer_at b1 cbuf clen = Some ct \<and>
    tintin_session_decrypt be cap' hr (Some ct) True True b1 = Returns ((0, Some (pbuf, length p)), b2) \<and>
    buffer_at b2 pbuf (length p) = Some p \<and>
    deref as_session b2 hs = Some s' \<and> deref as_session b2 hr = Some r' \<and> session_linked (be_prims be) s' r' [] [] \<and>
    (\<forall>q. b_heap b q \<noteq> None \<and> q \<noteq> hs \<and> q \<noteq> hr \<longrightarrow> b_heap b2 q = b_heap b q) \<and> b_error b2 = None"
proof -
  let ?pr = "be_prims be"
  have room: "room_to_send ?pr (Suc 0) s" "room_to_receive ?pr (Suc 0) r" using assms(15,16) by simp_all
  obtain m s' where e: "Session_encrypt ?pr s nonce p = Some (Inr m, s')" and l: "session_linked ?pr s' r ([] @ [m]) ([] @ [p])"
    by (rule encrypt_linked [OF assms(14) room(1) assms(7,8)])
  obtain r' where d: "Session_decrypt ?pr r m = Some (Inr p, r')" and l': "session_linked ?pr s' r' [] []"
    by (rule decrypt_linked [OF l [simplified] room(2)])
  obtain ct where ct: "session_message_to_vec (be_wire be) m = Inr ct" "session_message_from_slice (be_wire be) ct = Inr m"
    using assms(6) unfolding wire_codec_def by blast
  have c0: "card (dom (b_heap b)) < limit" using assms(3) by simp
  obtain cbuf b1 where 1: "tintin_session_encrypt be nonce cap hs (Some p) True True b = Returns ((0, Some (cbuf, length ct)), b1)"
      "buffer_at b1 cbuf (length ct) = Some ct" "deref as_session b1 hs = Some s'"
    and k1: "\<And>q. q \<noteq> hs \<Longrightarrow> b_heap b q \<noteq> None \<Longrightarrow> b_heap b1 q = b_heap b q"
    and c1: "card (dom (b_heap b1)) \<le> Suc (card (dom (b_heap b)))"
    using stored_buffer [where bs = ct and cap = cap and s' = s', OF assms(1,2) c0 assms(4,9)] unfolding ffi_encrypt_eq [OF assms(9,11) e ct(1)] by metis
  have hr: "deref as_session b1 hr = Some r" using k1 [of hr] deref_live [OF assms(10)] assms(10,13) by (simp add: deref_def)
  have c2: "card (dom (b_heap b1)) < limit" using c1 assms(3) by simp
  obtain pbuf b2 where 2: "tintin_session_decrypt be cap' hr (Some ct) True True b1 = Returns ((0, Some (pbuf, length p)), b2)"
      "buffer_at b2 pbuf (length p) = Some p" "deref as_session b2 hr = Some r'" "b_error b2 = None"
    and k2: "\<And>q. q \<noteq> hr \<Longrightarrow> b_heap b1 q \<noteq> None \<Longrightarrow> b_heap b2 q = b_heap b1 q"
    using stored_buffer [where bs = p and cap = cap' and s' = r', OF assms(1,2) c2 assms(5) hr] unfolding ffi_decrypt_eq [OF hr assms(12) ct(2) d] by metis
  have hs: "deref as_session b2 hs = Some s'"
    using k2 [of hs] deref_live [OF 1(3)] 1(3) assms(13) by (simp add: deref_def)
  have "b_heap b2 q = b_heap b q" if "b_heap b q \<noteq> None" "q \<noteq> hs" "q \<noteq> hr" for q
    using k1 [of q] k2 [of q] that by simp
  with 1(1,2) 2 hs l' show ?thesis by blast
qed

text \<open>A bridge with four addresses, and two linked sessions on it.\<close>

definition demo_bridge_env :: bridge_env where
  "demo_bridge_env =
     \<lparr>be_prims = demo_prims, be_wire = demo_wire, be_alloc = (\<lambda>h x. find (\<lambda>p. h p = None) [2, 3, 4, 5]),
      identity_to_string = (\<lambda>k. Inr ''{}''), identity_from_str = (\<lambda>s. Inr (demo_identity 1)),
      session_to_string = (\<lambda>s. Inr ''{}''), session_from_str = (\<lambda>t. Inr (fst (demo_link ''bob''))),
      chat_message_to_vec = (\<lambda>m. Inr [])\<rparr>"

definition demo_bridge :: bridge where
  "demo_bridge = \<lparr>b_heap = [2 \<mapsto> OSession (fst (demo_link ''bob'')), 3 \<mapsto> OSession (snd (demo_link ''bob''))], b_error = Some ''old''\<rparr>"

lemma find_SomeD: "find P xs = Some x \<Longrightarrow> x \<in> set xs \<and> P x"
  by (induction xs) (auto split: if_splits)

lemma demo_alloc_fresh: "alloc_fresh demo_bridge_env"
proof -
  have "p \<noteq> 0 \<and> p \<noteq> 1 \<and> h p = None" if "find (\<lambda>p. h p = None) [2, 3, 4, 5 :: u64] = Some p"
    for h :: "u64 \<Rightarrow> heap_object option" and p
    using find_SomeD [OF that] by auto
  then show ?thesis unfolding alloc_fresh_def demo_bridge_env_def by (simp del: find.simps)
qed

lemma demo_alloc_serves: "alloc_serves demo_bridge_env 4"
proof -
  have "find (\<lambda>p. h p = None) [2, 3, 4, 5 :: u64] \<noteq> None" if c: "card (dom h) < 4" for h :: "u64 \<Rightarrow> heap_object option"
  proof
    assume "find (\<lambda>p. h p = None) [2, 3, 4, 5 :: u64] = None"
    then have "\<forall>p\<in>{2, 3, 4, 5}. h p \<noteq> None" unfolding find_None_iff by fastforce
    then have "{2, 3, 4, 5} \<subseteq> dom h" by auto
    then have "card {2, 3, 4, 5 :: u64} \<le> card (dom h)" by (intro card_mono) simp_all
    with c show False by simp
  qed
  then show ?thesis unfolding alloc_serves_def demo_bridge_env_def by (simp del: find.simps)
qed

lemma demo_bridge_fields:
  "be_prims demo_bridge_env = demo_prims" "be_wire demo_bridge_env = demo_wire"
  "deref as_session demo_bridge 2 = Some (fst (demo_link ''bob''))"
  "deref as_session demo_bridge 3 = Some (snd (demo_link ''bob''))"
  "card (dom (b_heap demo_bridge)) = 2"
proof -
  have "dom (b_heap demo_bridge) = {3, 2}" by (auto simp: demo_bridge_def)
  then show "card (dom (b_heap demo_bridge)) = 2" by simp
qed (simp_all add: demo_bridge_env_def demo_bridge_def deref_def)

theorem ffi_message_roundtrip_witness:
  "\<exists>cbuf clen ct b1 pbuf b2.
    tintin_session_encrypt demo_bridge_env [9] length 2 (Some [104, 105]) True True demo_bridge = Returns ((0, Some (cbuf, clen)), b1) \<and>
    buffer_at b1 cbuf clen = Some ct \<and>
    tintin_session_decrypt demo_bridge_env length 3 (Some ct) True True b1 = Returns ((0, Some (pbuf, 2)), b2) \<and>
    buffer_at b2 pbuf 2 = Some [104, 105] \<and> b_error b2 = None"
proof -
  have card: "card (dom (b_heap demo_bridge)) + 1 < 4" by (simp add: demo_bridge_fields)
  have len: "length [104, 105 :: u8] = 2" by simp
  from ffi_message_roundtrip [where b = demo_bridge and p = "[104, 105]" and nonce = "[9]" and cap = length and cap' = length and hs = 2 and hr = 3,
      OF demo_alloc_fresh demo_alloc_serves card order_refl order_refl, unfolded demo_bridge_fields(1,2) len,
      OF demo_wire_codec demo_aead_total _ demo_bridge_fields(3,4) _ _ _ demo_link_linked(3-5)]
  show ?thesis by simp blast
qed

end
