(* ===== verification/Ffi_Protocol.thy ===== *)
theory Ffi_Protocol
  imports Bridge_Properties
begin

text \<open>
  Any sequence of calls of the C functions by a program that follows the memory rules of
  \<open>tintin-ffi/src/lib.rs\<close>. What such a program knows is a table of the handles it was given and has not
  freed; the library's memory refines that table, and no call but one is undefined behaviour: the free of a
  buffer whose vector had more capacity than bytes.
\<close>

section \<open>Calls and results\<close>

datatype ffi_call =
    Last_Error
  | Free_String u64
  | Free_Buffer u64 nat
  | Identity_Generate bytes
  | Identity_Free u64
  | Identity_Get_Public u64 bool
  | Identity_To_Json u64
  | Identity_From_Json "bytes option"
  | Signed_Generate bytes u32 u64
  | Signed_Free u64
  | Signed_Get_Public u64 bool
  | Signed_Get_Id u64
  | Session_Initiator bytes u64 "bytes option" u32 "bytes option" "bytes option"
  | Session_Responder u64 "bytes option" u32 "bytes option" "bytes option" u64
  | Session_Free u64
  | Session_Encrypt_Call bytes u64 "bytes option" bool bool
  | Session_Decrypt_Call u64 "bytes option" bool bool
  | Session_To_Json u64
  | Session_From_Json "bytes option"
  | Session_Get_Ratchet_Key u64 bool
  | Chat_To_Json "bytes option" u64 bool bool

datatype ffi_result = RUnit | RHandle u64 | RKey int "bytes option" | RBuffer int "(u64 \<times> nat) option" | RId u32

fun ffi_do :: "bridge_env \<Rightarrow> (bytes \<Rightarrow> nat) \<Rightarrow> ffi_call \<Rightarrow> bridge \<Rightarrow> (ffi_result \<times> bridge) outcome" where
  "ffi_do be cap Last_Error b = map_outcome (apfst RHandle) (tintin_last_error be b)"
| "ffi_do be cap (Free_String p) b = map_outcome (apfst (\<lambda>_. RUnit)) (tintin_free_string p b)"
| "ffi_do be cap (Free_Buffer p n) b = map_outcome (apfst (\<lambda>_. RUnit)) (tintin_free_buffer p n b)"
| "ffi_do be cap (Identity_Generate rng) b = map_outcome (apfst RHandle) (tintin_identity_generate be rng b)"
| "ffi_do be cap (Identity_Free p) b = map_outcome (apfst (\<lambda>_. RUnit)) (tintin_identity_free p b)"
| "ffi_do be cap (Identity_Get_Public p out) b = map_outcome (apfst (\<lambda>(c, k). RKey c k)) (tintin_identity_get_public p out b)"
| "ffi_do be cap (Identity_To_Json p) b = map_outcome (apfst RHandle) (tintin_identity_to_json be p b)"
| "ffi_do be cap (Identity_From_Json j) b = map_outcome (apfst RHandle) (tintin_identity_from_json be j b)"
| "ffi_do be cap (Signed_Generate rng i p) b = map_outcome (apfst RHandle) (tintin_signed_prekey_generate be rng i p b)"
| "ffi_do be cap (Signed_Free p) b = map_outcome (apfst (\<lambda>_. RUnit)) (tintin_signed_prekey_free p b)"
| "ffi_do be cap (Signed_Get_Public p out) b = map_outcome (apfst (\<lambda>(c, k). RKey c k)) (tintin_signed_prekey_get_public p out b)"
| "ffi_do be cap (Signed_Get_Id p) b = map_outcome (apfst RId) (tintin_signed_prekey_get_id p b)"
| "ffi_do be cap (Session_Initiator rng p u d t k) b = map_outcome (apfst RHandle) (tintin_session_new_initiator be rng p u d t k b)"
| "ffi_do be cap (Session_Responder p u d t e k) b = map_outcome (apfst RHandle) (tintin_session_new_responder be p u d t e k b)"
| "ffi_do be cap (Session_Free p) b = map_outcome (apfst (\<lambda>_. RUnit)) (tintin_session_free p b)"
| "ffi_do be cap (Session_Encrypt_Call nonce p x o1 o2) b =
     map_outcome (apfst (\<lambda>(c, k). RBuffer c k)) (tintin_session_encrypt be nonce cap p x o1 o2 b)"
| "ffi_do be cap (Session_Decrypt_Call p x o1 o2) b =
     map_outcome (apfst (\<lambda>(c, k). RBuffer c k)) (tintin_session_decrypt be cap p x o1 o2 b)"
| "ffi_do be cap (Session_To_Json p) b = map_outcome (apfst RHandle) (tintin_session_to_json be p b)"
| "ffi_do be cap (Session_From_Json j) b = map_outcome (apfst RHandle) (tintin_session_from_json be j b)"
| "ffi_do be cap (Session_Get_Ratchet_Key p out) b = map_outcome (apfst (\<lambda>(c, k). RKey c k)) (tintin_session_get_ratchet_key p out b)"
| "ffi_do be cap (Chat_To_Json t ts o1 o2) b =
     map_outcome (apfst (\<lambda>(c, k). RBuffer c k)) (tintin_chat_message_to_json be cap t ts o1 o2 b)"

section \<open>What the program knows\<close>

datatype kind = KIdentity | KSigned | KSession | KString | KBuffer nat

type_synonym handles = "u64 \<Rightarrow> kind option"

definition live :: "handles \<Rightarrow> kind \<Rightarrow> u64 \<Rightarrow> bool" where
  "live tab k p \<longleftrightarrow> p = 0 \<or> tab p = Some k"

definition key_arg :: "bytes option \<Rightarrow> bool" where
  "key_arg x \<longleftrightarrow> (case x of None \<Rightarrow> True | Some k \<Rightarrow> 32 \<le> length k)"

text \<open>The rules: a handle is null or a live one of the right kind, a buffer is freed with its length, a key has 32 bytes.\<close>

fun legal :: "handles \<Rightarrow> ffi_call \<Rightarrow> bool" where
  "legal tab (Free_String p) = live tab KString p"
| "legal tab (Free_Buffer p n) = (n = 0 \<or> live tab (KBuffer n) p)"
| "legal tab (Identity_Free p) = live tab KIdentity p"
| "legal tab (Identity_Get_Public p out) = live tab KIdentity p"
| "legal tab (Identity_To_Json p) = live tab KIdentity p"
| "legal tab (Signed_Generate rng i p) = live tab KIdentity p"
| "legal tab (Signed_Free p) = live tab KSigned p"
| "legal tab (Signed_Get_Public p out) = live tab KSigned p"
| "legal tab (Signed_Get_Id p) = live tab KSigned p"
| "legal tab (Session_Initiator rng p u d t k) = (live tab KIdentity p \<and> key_arg t \<and> key_arg k)"
| "legal tab (Session_Responder p u d t e k) = (live tab KIdentity p \<and> live tab KSigned k \<and> key_arg t \<and> key_arg e)"
| "legal tab (Session_Free p) = live tab KSession p"
| "legal tab (Session_Encrypt_Call nonce p x o1 o2) = live tab KSession p"
| "legal tab (Session_Decrypt_Call p x o1 o2) = live tab KSession p"
| "legal tab (Session_To_Json p) = live tab KSession p"
| "legal tab (Session_Get_Ratchet_Key p out) = live tab KSession p"
| "legal tab _ = True"

definition got :: "kind \<Rightarrow> ffi_result \<Rightarrow> handles \<Rightarrow> handles" where
  "got k r tab =
     (case r of RHandle p \<Rightarrow> if p = 0 then tab else tab(p \<mapsto> k)
      | RBuffer c (Some (p, n)) \<Rightarrow> if n = 0 then tab else tab(p \<mapsto> KBuffer n)
      | _ \<Rightarrow> tab)"

fun known_after :: "ffi_call \<Rightarrow> ffi_result \<Rightarrow> handles \<Rightarrow> handles" where
  "known_after (Free_String p) r tab = tab(p := None)"
| "known_after (Free_Buffer p n) r tab = (if n = 0 then tab else tab(p := None))"
| "known_after (Identity_Free p) r tab = tab(p := None)"
| "known_after (Signed_Free p) r tab = tab(p := None)"
| "known_after (Session_Free p) r tab = tab(p := None)"
| "known_after (Identity_Generate rng) r tab = got KIdentity r tab"
| "known_after (Identity_From_Json j) r tab = got KIdentity r tab"
| "known_after (Signed_Generate rng i p) r tab = got KSigned r tab"
| "known_after (Session_Initiator rng p u d t k) r tab = got KSession r tab"
| "known_after (Session_Responder p u d t e k) r tab = got KSession r tab"
| "known_after (Session_From_Json j) r tab = got KSession r tab"
| "known_after _ r tab = got KString r tab"

text \<open>
  The states of program and library after any number of legal calls that returned. At every call the
  vectors have any capacity that holds their bytes.
\<close>

definition holds :: "(bytes \<Rightarrow> nat) \<Rightarrow> bool" where
  "holds cap \<longleftrightarrow> (\<forall>bs. length bs \<le> cap bs)"

inductive ffi_reach :: "bridge_env \<Rightarrow> handles \<Rightarrow> bridge \<Rightarrow> bool" for be where
  start: "ffi_reach be (\<lambda>_. None) \<lparr>b_heap = (\<lambda>_. None), b_error = None\<rparr>"
| call: "ffi_reach be tab b \<Longrightarrow> legal tab c \<Longrightarrow> holds cap \<Longrightarrow> ffi_do be cap c b = Returns (r, b') \<Longrightarrow>
    ffi_reach be (known_after c r tab) b'"

text \<open>The free of a buffer with the length it came with, while its allocation is larger.\<close>

definition misfit :: "bridge \<Rightarrow> ffi_call \<Rightarrow> bool" where
  "misfit b c \<longleftrightarrow>
     (\<exists>p n bs k. c = Free_Buffer p n \<and> p \<noteq> 0 \<and> n \<noteq> 0 \<and> b_heap b p = Some (OBuffer bs k) \<and> length bs < k)"

section \<open>The memory refines the table\<close>

text \<open>
  A program cannot free a buffer of no bytes, so it keeps no record of it, even if it has an allocation. A
  buffer in memory has at least room for its bytes.
\<close>

fun kind_of :: "heap_object \<Rightarrow> kind option" where
  "kind_of (OIdentity k) = Some KIdentity"
| "kind_of (OSigned k) = Some KSigned"
| "kind_of (OSession s) = Some KSession"
| "kind_of (OString s) = Some KString"
| "kind_of (OBuffer bs cap) = (if bs = [] then None else Some (KBuffer (length bs)))"

fun roomy :: "heap_object \<Rightarrow> bool" where
  "roomy (OBuffer bs cap) \<longleftrightarrow> length bs \<le> cap"
| "roomy _ \<longleftrightarrow> True"

definition table_ok :: "handles \<Rightarrow> (u64 \<Rightarrow> heap_object option) \<Rightarrow> bool" where
  "table_ok tab h \<longleftrightarrow>
     tab = (\<lambda>p. Option.bind (h p) kind_of) \<and> h 0 = None \<and> (\<forall>p x. h p = Some x \<longrightarrow> roomy x)"

definition defined_and :: "('a \<Rightarrow> bool) \<Rightarrow> 'a outcome \<Rightarrow> bool" where
  "defined_and P x \<longleftrightarrow> (case x of Returns y \<Rightarrow> P y | Aborts \<Rightarrow> True | Undefined \<Rightarrow> False)"

lemma defined_and_simps [simp]:
  "defined_and P (Returns y) = P y" "defined_and P Aborts" "\<not> defined_and P Undefined"
  "defined_and P (map_outcome f x) = defined_and (P \<circ> f) x"
  by (simp_all add: defined_and_def split: outcome.splits)

lemma defined_and_mono: "defined_and P x \<Longrightarrow> (\<And>y. P y \<Longrightarrow> Q y) \<Longrightarrow> defined_and Q x"
  by (simp add: defined_and_def split: outcome.splits)

lemma table_ok_deref:
  assumes "table_ok tab (b_heap b)" and "live tab k p" and "p \<noteq> 0"
  obtains x where "b_heap b p = Some x" "kind_of x = Some k" "roomy x"
  using assms by (auto simp: table_ok_def live_def bind_eq_Some_conv)

lemma table_ok_new:
  assumes "table_ok tab (b_heap b)" and "alloc_fresh be" and "roomy x"
  shows "defined_and (\<lambda>(p, b'). p \<noteq> 0 \<and> table_ok (tab(p := kind_of x)) (b_heap b')) (into_raw be x b)"
  using assms by (auto simp: into_raw_def alloc_fresh_def table_ok_def fun_eq_iff split: option.splits)

text \<open>A fresh address has no entry.\<close>

lemma table_ok_unused:
  assumes "table_ok tab (b_heap b)" and "alloc_fresh be" and "into_raw be x b = Returns (p, b')"
  shows "tab p = None"
proof -
  have "b_heap b p = None" using assms(2,3) by (auto simp: into_raw_def alloc_fresh_def split: option.splits)
  with assms(1) show ?thesis by (simp add: table_ok_def)
qed

lemma table_ok_free: "table_ok tab h \<Longrightarrow> table_ok (tab(p := None)) (h(p := None))"
  by (auto simp: table_ok_def fun_eq_iff)

lemma table_ok_store:
  "table_ok tab h \<Longrightarrow> h p = Some (OSession s) \<Longrightarrow> table_ok tab (h(p \<mapsto> OSession s'))"
  by (auto simp: table_ok_def fun_eq_iff)

lemma table_ok_null: "table_ok tab h \<Longrightarrow> tab(0 := None) = tab"
  by (auto simp: table_ok_def fun_eq_iff)

lemma heap_set_error [simp]: "b_heap (set_error m b) = b_heap b"
  by (simp add: set_error_def)

lemma got_null [simp]: "got k (RHandle 0) tab = tab" "got k (RBuffer c None) tab = tab" "got k (RKey c x) tab = tab"
  "got k (RId i) tab = tab"
  by (simp_all add: got_def)

text \<open>The endings of the calls, each with the table it leaves.\<close>

lemma new_handle_ok:
  assumes "table_ok tab (b_heap b)" and "alloc_fresh be" and "roomy x" and "kind_of x = Some k"
  shows "defined_and (\<lambda>(p, b'). table_ok (got k (RHandle p) tab) (b_heap b')) (into_raw be x b)"
  by (rule defined_and_mono [OF table_ok_new [OF assms(1-3)]]) (auto simp: got_def assms(4))

lemma new_buffer_ok:
  assumes "table_ok tab (b_heap b)" and "alloc_fresh be" and "holds cap"
  shows "defined_and (\<lambda>((c, x), b'). table_ok (got k (RBuffer c x) tab) (b_heap b')) (return_buffer be cap bs b)"
proof (cases "cap bs = 0")
  case True
  with assms(3) have "bs = []" by (auto simp: holds_def dest: spec [of _ bs])
  with True assms(1) show ?thesis by (simp add: return_buffer_def leak_def got_def)
next
  case False
  have "roomy (OBuffer bs (cap bs))" using assms(3) by (simp add: holds_def)
  from table_ok_new [OF assms(1,2) this] table_ok_unused [OF assms(1,2), of "OBuffer bs (cap bs)"] False show ?thesis
    by (cases "into_raw be (OBuffer bs (cap bs)) b")
      (auto simp: return_buffer_def leak_def got_def fun_upd_idem split: if_splits)
qed

lemma free_box_ok:
  assumes "table_ok tab (b_heap b)" and "live tab k p" and "\<And>x. kind_of x = Some k \<Longrightarrow> unwrap x \<noteq> None"
  shows "defined_and (\<lambda>(u, b'). table_ok (tab(p := None)) (b_heap b')) (free_box unwrap p b)"
proof (cases "p = 0")
  case True
  with assms(1) show ?thesis by (simp add: free_box_def table_ok_null)
next
  case False
  obtain x where "b_heap b p = Some x" "kind_of x = Some k" by (rule table_ok_deref [OF assms(1,2) False])
  then have "deref unwrap b p \<noteq> None" using assms(3) by (simp add: deref_def)
  with False show ?thesis using table_ok_free [OF assms(1)] by (simp add: free_box_def)
qed

lemma kind_of_unwrap:
  "kind_of x = Some KIdentity \<Longrightarrow> as_identity x \<noteq> None" "kind_of x = Some KSigned \<Longrightarrow> as_signed x \<noteq> None"
  "kind_of x = Some KSession \<Longrightarrow> as_session x \<noteq> None" "kind_of x = Some KString \<Longrightarrow> as_cstring x \<noteq> None"
  by (cases x; simp split: if_splits)+

lemma live_unwrap:
  assumes "table_ok tab (b_heap b)" and "live tab k p" and "\<And>x. kind_of x = Some k \<Longrightarrow> unwrap x \<noteq> None"
  shows "p = 0 \<or> (\<exists>y. deref unwrap b p = Some y)"
proof (cases "p = 0")
  case False
  obtain x where "b_heap b p = Some x" "kind_of x = Some k" by (rule table_ok_deref [OF assms(1,2) False])
  with assms(3) show ?thesis by (auto simp: deref_def)
qed simp

lemma live_deref:
  assumes "table_ok tab (b_heap b)"
  shows "live tab KIdentity p \<Longrightarrow> p = 0 \<or> (\<exists>k. deref as_identity b p = Some k)"
    and "live tab KSigned p \<Longrightarrow> p = 0 \<or> (\<exists>k. deref as_signed b p = Some k)"
    and "live tab KSession p \<Longrightarrow> p = 0 \<or> (\<exists>s. deref as_session b p = Some s)"
  by (rule live_unwrap [OF assms, where unwrap = as_identity], assumption, erule kind_of_unwrap,
      rule live_unwrap [OF assms, where unwrap = as_signed], assumption, erule kind_of_unwrap,
      rule live_unwrap [OF assms, where unwrap = as_session], assumption, erule kind_of_unwrap)

lemma stored_ok: "table_ok tab (b_heap b) \<Longrightarrow> deref as_session b p = Some s \<Longrightarrow> table_ok tab (b_heap (store_at p (OSession s') b))"
  using table_ok_store by (simp add: store_at_def session_handle.deref_iff)

lemma return_json_ok:
  assumes "table_ok tab (b_heap b)" and "alloc_fresh be"
  shows "defined_and (\<lambda>(p, b'). table_ok (got KString (RHandle p) tab) (b_heap b')) (return_json be what r b)"
  using new_handle_ok [OF assms, of "OString (cstring_or_empty (projr r))"] assms(1)
  by (auto simp: return_json_def split: sum.split)

lemma return_session_ok:
  assumes "table_ok tab (b_heap b)" and "alloc_fresh be"
  shows "defined_and (\<lambda>(p, b'). table_ok (got KSession (RHandle p) tab) (b_heap b')) (return_session be what r b)"
  using new_handle_ok [OF assms, of "OSession _"] assms(1)
  by (auto simp: return_session_def split: option.split sum.split)

lemma free_buffer_ok:
  assumes "table_ok tab (b_heap b)" and "n = 0 \<or> live tab (KBuffer n) p" and "\<not> misfit b (Free_Buffer p n)"
  shows "defined_and (\<lambda>(u, b'). table_ok (if n = 0 then tab else tab(p := None)) (b_heap b')) (tintin_free_buffer p n b)"
proof (cases "n = 0 \<or> p = 0")
  case True
  with assms(1) table_ok_null [OF assms(1)] show ?thesis by (auto simp: tintin_free_buffer_def)
next
  case False
  with assms obtain x where x: "b_heap b p = Some x" "kind_of x = Some (KBuffer n)" "roomy x" by (metis table_ok_deref)
  then obtain bs k where "x = OBuffer bs k" "n = length bs" by (cases x) (auto split: if_splits)
  with x False assms(3) have "b_heap b p = Some (OBuffer bs n)" by (auto simp: misfit_def)
  with False show ?thesis using table_ok_free [OF assms(1)] by (simp add: tintin_free_buffer_def)
qed

lemma misfit_undefined: "misfit b c \<Longrightarrow> legal tab c \<Longrightarrow> table_ok tab (b_heap b) \<Longrightarrow> ffi_do be cap c b = Undefined"
  by (auto simp: misfit_def live_def table_ok_def tintin_free_buffer_def split: if_splits)

section \<open>Every call keeps the refinement\<close>

lemma session_calls_ok:
  assumes "table_ok tab (b_heap b)" and "alloc_fresh be" and "live tab KSession p" and "holds cap"
  shows "defined_and (\<lambda>((c, x), b'). table_ok (got k (RBuffer c x) tab) (b_heap b'))
      (tintin_session_encrypt be nonce cap p y o1 o2 b)"
    and "defined_and (\<lambda>((c, x), b'). table_ok (got k (RBuffer c x) tab) (b_heap b'))
      (tintin_session_decrypt be cap p y o1 o2 b)"
proof -
  have heap: "table_ok tab (b_heap (clear_error b))" using assms(1) by simp
  have d: "p = 0 \<or> (\<exists>s. deref as_session b p = Some s)" using live_deref(3) [OF assms(1,3)] .
  have st: "deref as_session b p = Some s \<Longrightarrow> table_ok tab (b_heap (store_at p (OSession s') (clear_error b)))" for s s'
    using stored_ok [OF heap] by simp
  show "defined_and (\<lambda>((c, x), b'). table_ok (got k (RBuffer c x) tab) (b_heap b'))
      (tintin_session_encrypt be nonce cap p y o1 o2 b)"
    using d st assms(1) new_buffer_ok [OF st assms(2,4)]
    by (auto simp: tintin_session_encrypt_def Let_def split: option.split sum.split prod.split)
  show "defined_and (\<lambda>((c, x), b'). table_ok (got k (RBuffer c x) tab) (b_heap b'))
      (tintin_session_decrypt be cap p y o1 o2 b)"
    using d st assms(1) new_buffer_ok [OF st assms(2,4)]
    by (auto simp: tintin_session_decrypt_def Let_def split: option.split sum.split prod.split)
qed

lemma session_new_ok:
  assumes "table_ok tab (b_heap b)" and "alloc_fresh be" and "live tab KIdentity p" and "key_arg t" and "key_arg k"
  shows "defined_and (\<lambda>(x, b'). table_ok (got KSession (RHandle x) tab) (b_heap b'))
      (tintin_session_new_initiator be rng p u d t k b)"
    and "live tab KSigned q \<Longrightarrow> defined_and (\<lambda>(x, b'). table_ok (got KSession (RHandle x) tab) (b_heap b'))
      (tintin_session_new_responder be p u d t k q b)"
proof -
  have heap: "table_ok tab (b_heap (clear_error b))" using assms(1) by simp
  note r = return_session_ok [OF heap assms(2)]
  show "defined_and (\<lambda>(x, b'). table_ok (got KSession (RHandle x) tab) (b_heap b'))
      (tintin_session_new_initiator be rng p u d t k b)"
    using live_deref(1) [OF assms(1,3)] assms(1,4,5) r
    by (auto simp: tintin_session_new_initiator_def key_arg_def Let_def split: option.splits sum.split)
  assume "live tab KSigned q"
  from live_deref(2) [OF assms(1) this] live_deref(1) [OF assms(1,3)]
  show "defined_and (\<lambda>(x, b'). table_ok (got KSession (RHandle x) tab) (b_heap b'))
      (tintin_session_new_responder be p u d t k q b)"
    using assms(1,4,5) r
    by (auto simp: tintin_session_new_responder_def key_arg_def Let_def split: option.splits sum.split)
qed

lemma ffi_do_ok:
  assumes t: "table_ok tab (b_heap b)" and f: "alloc_fresh be" and "legal tab c" and h: "holds cap"
    and "\<not> misfit b c"
  shows "defined_and (\<lambda>(r, b'). table_ok (known_after c r tab) (b_heap b')) (ffi_do be cap c b)"
proof -
  have heap: "table_ok tab (b_heap (clear_error b))" using t by simp
  note new = new_handle_ok [OF heap f] and json = return_json_ok [OF heap f]
  note got = comp_def case_prod_unfold apfst_def map_prod_def
  show ?thesis
  proof (cases c)
    case Last_Error
    with new_handle_ok [OF t f, of "OString (cstring_or_empty (unwrap_or (b_error b) []))"] show ?thesis
      by (simp add: got tintin_last_error_def)
  next
    case (Free_String p)
    with free_box_ok [where p = p and k = KString and unwrap = as_cstring, OF t _ kind_of_unwrap(4)] assms(3) show ?thesis
      by (simp add: got tintin_free_string_def)
  next
    case (Free_Buffer p n)
    with free_buffer_ok [OF t, of n p] assms(3,5) show ?thesis by (simp add: got)
  next
    case (Identity_Generate rng)
    with new [of "OIdentity (IdentityKeyPair_generate (be_prims be) rng)"] show ?thesis
      by (simp add: got tintin_identity_generate_def)
  next
    case (Identity_Free p)
    with free_box_ok [where p = p and k = KIdentity and unwrap = as_identity, OF t _ kind_of_unwrap(1)] assms(3) show ?thesis
      by (simp add: got tintin_identity_free_def)
  next
    case (Identity_Get_Public p out)
    with live_deref(1) [OF t, of p] assms(3) t show ?thesis
      by (auto simp: got tintin_identity_get_public_def split: option.split)
  next
    case (Identity_To_Json p)
    with live_deref(1) [OF t, of p] assms(3) t json show ?thesis
      by (auto simp: got tintin_identity_to_json_def Let_def split: option.split)
  next
    case (Identity_From_Json j)
    with new [of "OIdentity _"] t show ?thesis
      by (auto simp: got tintin_identity_from_json_def Let_def split: option.split sum.split)
  next
    case (Signed_Generate rng i p)
    with live_deref(1) [OF t, of p] assms(3) t new [of "OSigned _"] show ?thesis
      by (auto simp: got tintin_signed_prekey_generate_def Let_def split: option.split)
  next
    case (Signed_Free p)
    with free_box_ok [where p = p and k = KSigned and unwrap = as_signed, OF t _ kind_of_unwrap(2)] assms(3) show ?thesis
      by (simp add: got tintin_signed_prekey_free_def)
  next
    case (Signed_Get_Public p out)
    with live_deref(2) [OF t, of p] assms(3) t show ?thesis
      by (auto simp: got tintin_signed_prekey_get_public_def split: option.split)
  next
    case (Signed_Get_Id p)
    with live_deref(2) [OF t, of p] assms(3) t show ?thesis
      by (auto simp: got tintin_signed_prekey_get_id_def split: option.split)
  next
    case (Session_Initiator rng p u d ti k)
    with session_new_ok(1) [OF t f, of p ti k rng u d] assms(3) show ?thesis by (simp add: got)
  next
    case (Session_Responder p u d ti e k)
    with session_new_ok(2) [OF t f, of p ti e k u d] assms(3) show ?thesis by (simp add: got)
  next
    case (Session_Free p)
    with free_box_ok [where p = p and k = KSession and unwrap = as_session, OF t _ kind_of_unwrap(3)] assms(3) show ?thesis
      by (simp add: got tintin_session_free_def)
  next
    case (Session_Encrypt_Call nonce p x o1 o2)
    with session_calls_ok(1) [OF t f _ h, of p KString nonce x o1 o2] assms(3) show ?thesis by (simp add: got)
  next
    case (Session_Decrypt_Call p x o1 o2)
    with session_calls_ok(2) [OF t f _ h, of p KString x o1 o2] assms(3) show ?thesis by (simp add: got)
  next
    case (Session_To_Json p)
    with live_deref(3) [OF t, of p] assms(3) t json show ?thesis
      by (auto simp: got tintin_session_to_json_def Let_def split: option.split)
  next
    case (Session_From_Json j)
    with new [of "OSession _"] t show ?thesis
      by (auto simp: got tintin_session_from_json_def Let_def split: option.split sum.split)
  next
    case (Session_Get_Ratchet_Key p out)
    with live_deref(3) [OF t, of p] assms(3) t show ?thesis
      by (auto simp: got tintin_session_get_ratchet_key_def split: option.split)
  next
    case (Chat_To_Json x ts o1 o2)
    with new_buffer_ok [OF heap f h, of KString] t show ?thesis
      by (auto simp: got tintin_chat_message_to_json_def Let_def split: option.split sum.split)
  qed
qed

lemma ffi_reach_ok: "ffi_reach be tab b \<Longrightarrow> alloc_fresh be \<Longrightarrow> table_ok tab (b_heap b)"
proof (induction rule: ffi_reach.induct)
  case start
  show ?case by (simp add: table_ok_def fun_eq_iff)
next
  case (call tab b c cap r b')
  have "\<not> misfit b c" using misfit_undefined [OF _ call.hyps(2) call.IH [OF call.prems]] call.hyps(4) by fastforce
  from ffi_do_ok [OF call.IH [OF call.prems] call.prems call.hyps(2,3) this] call.hyps(4) show ?case by simp
qed

text \<open>
  Property C16. The memory rules of the C functions are enough, with exactly one exception. A program makes
  any sequence of legal calls (handles null or live and of the right kind, buffers freed with the length
  that came with them), while the vectors of the library have any spare capacity. At every point the
  program knows exactly what the library's memory holds, beside buffers of no bytes, which no call can
  free; and the next legal call is undefined behaviour just when it frees a buffer whose allocation is
  larger than the length that was handed out with it.
\<close>

theorem ffi_legal_calls_defined:
  assumes "alloc_fresh be" and "ffi_reach be tab b" and "legal tab c" and "\<forall>bs. length bs \<le> cap bs"
  shows "(ffi_do be cap c b = Undefined \<longleftrightarrow>
      (\<exists>p n bs k. c = Free_Buffer p n \<and> p \<noteq> 0 \<and> n \<noteq> 0 \<and> b_heap b p = Some (OBuffer bs k) \<and> length bs < k)) \<and>
    tab = (\<lambda>p. Option.bind (b_heap b p) kind_of)"
proof -
  have t: "table_ok tab (b_heap b)" by (rule ffi_reach_ok [OF assms(2,1)])
  have h: "holds cap" using assms(4) by (simp add: holds_def)
  have "ffi_do be cap c b = Undefined \<longleftrightarrow> misfit b c"
  proof
    assume "ffi_do be cap c b = Undefined"
    then show "misfit b c" using ffi_do_ok [OF t assms(1,3) h] by fastforce
  qed (rule misfit_undefined [OF _ assms(3) t])
  with t show ?thesis by (simp add: table_ok_def misfit_def)
qed

text \<open>
  A program that has an identity and a serialized message of one byte; the serializer's vector had room for
  128 bytes more.
\<close>

definition spare_env :: bridge_env where
  "spare_env = demo_bridge_env\<lparr>chat_message_to_vec := (\<lambda>m. Inr [123])\<rparr>"

definition spare :: "bytes \<Rightarrow> nat" where
  "spare bs = length bs + 128"

definition spare_heap :: "u64 \<Rightarrow> heap_object option" where
  "spare_heap = [2 \<mapsto> OIdentity (IdentityKeyPair_generate demo_prims [7]), 3 \<mapsto> OBuffer [123] 129]"

lemma spare_ffi_reach: "ffi_reach spare_env [2 \<mapsto> KIdentity, 3 \<mapsto> KBuffer 1] \<lparr>b_heap = spare_heap, b_error = None\<rparr>"
proof -
  let ?b = "\<lparr>b_heap = (\<lambda>_. None), b_error = None\<rparr> :: bridge"
  let ?b1 = "\<lparr>b_heap = [2 \<mapsto> OIdentity (IdentityKeyPair_generate demo_prims [7])], b_error = None\<rparr> :: bridge"
  have h: "holds spare" by (simp add: holds_def spare_def)
  have "ffi_do spare_env spare (Identity_Generate [7]) ?b = Returns (RHandle 2, ?b1)"
    by (simp add: tintin_identity_generate_def into_raw_def spare_env_def demo_bridge_env_def clear_error_def)
  from ffi_reach.call [OF ffi_reach.start _ h this] have r: "ffi_reach spare_env [2 \<mapsto> KIdentity] ?b1" by (simp add: got_def)
  have "ffi_do spare_env spare (Chat_To_Json (Some []) 5 True True) ?b1 =
      Returns (RBuffer 0 (Some (3, 1)), \<lparr>b_heap = spare_heap, b_error = None\<rparr>)"
    by (simp add: tintin_chat_message_to_json_def return_buffer_def leak_def into_raw_def spare_env_def spare_def
        spare_heap_def demo_bridge_env_def clear_error_def cstr_to_str_def)
  from ffi_reach.call [OF r _ h this] show ?thesis by (simp add: got_def)
qed

theorem ffi_legal_calls_defined_witness:
  "ffi_do spare_env spare (Identity_Free 2) \<lparr>b_heap = spare_heap, b_error = None\<rparr> \<noteq> Undefined \<and>
   ffi_do spare_env spare (Free_Buffer 3 1) \<lparr>b_heap = spare_heap, b_error = None\<rparr> = Undefined \<and>
   [2 \<mapsto> KIdentity, 3 \<mapsto> KBuffer 1] = (\<lambda>p. Option.bind (spare_heap p) kind_of)"
proof -
  have f: "alloc_fresh spare_env" using demo_alloc_fresh by (simp add: alloc_fresh_def spare_env_def)
  have cap: "\<forall>bs. length bs \<le> spare bs" by (simp add: spare_def)
  have "legal [2 \<mapsto> KIdentity, 3 \<mapsto> KBuffer 1] (Identity_Free 2)" "legal [2 \<mapsto> KIdentity, 3 \<mapsto> KBuffer 1] (Free_Buffer 3 1)"
    by (simp_all add: live_def)
  from ffi_legal_calls_defined [OF f spare_ffi_reach this(1) cap] ffi_legal_calls_defined [OF f spare_ffi_reach this(2) cap]
  show ?thesis by (simp add: spare_heap_def)
qed

section \<open>Freeing a buffer\<close>

text \<open>
  Property C18. The buffers of the library cannot be freed as documented. A vector may have more capacity
  than bytes, as those of the JSON serializer do, and \<open>leak\<close> keeps it. After a successful encryption into
  such a vector, \<open>tintin_free_buffer\<close> with the pointer and the length that came back is undefined
  behaviour: it frees an allocation of another size.
\<close>

theorem ffi_free_buffer_undefined:
  assumes "alloc_fresh be" and "\<And>bs. length bs < cap bs"
    and "tintin_session_encrypt be nonce cap h (Some p) True True b = Returns ((0, Some (buf, len)), b')" and "0 < len"
  shows "tintin_free_buffer buf len b' = Undefined"
proof -
  have c: "0 < cap bs" for bs using assms(2) [of bs] by simp
  then obtain bs b1 where r: "return_buffer be cap bs b1 = Returns ((0, Some (buf, len)), b')"
    using assms(3) by (auto simp: tintin_session_encrypt_def Let_def split: if_splits option.splits sum.splits prod.splits)
  then have "into_raw be (OBuffer bs (cap bs)) b1 = Returns (buf, b')" and len: "len = length bs"
    using c [of bs] by (auto simp: return_buffer_def leak_def split: outcome.splits)
  then have "b_heap b' buf = Some (OBuffer bs (cap bs))" and "buf \<noteq> 0"
    using assms(1) by (auto simp: into_raw_def alloc_fresh_def split: option.splits)
  moreover have "cap bs \<noteq> len" using assms(2) [of bs] len by simp
  ultimately show ?thesis using assms(4) by (simp add: tintin_free_buffer_def)
qed

theorem ffi_free_buffer_undefined_witness:
  "\<exists>buf len b'. tintin_session_encrypt demo_bridge_env [9] (\<lambda>bs. length bs + 128) 2 (Some [104, 105]) True True demo_bridge =
      Returns ((0, Some (buf, len)), b') \<and> tintin_free_buffer buf len b' = Undefined"
proof -
  let ?cap = "\<lambda>bs :: bytes. length bs + 128"
  have len: "length [104, 105 :: u8] < 2 ^ 32" by simp
  have room: "room_to_send demo_prims (Suc 0) (fst (demo_link ''bob''))" using demo_link_linked(4) by simp
  obtain m s' where e: "Session_encrypt demo_prims (fst (demo_link ''bob'')) [9] [104, 105] = Some (Inr m, s')"
    by (rule encrypt_linked [OF demo_link_linked(3) room demo_aead_total len])
  obtain ct where ct: "session_message_to_vec demo_wire m = Inr ct" "session_message_from_slice demo_wire ct = Inr m"
    using demo_wire_codec unfolding wire_codec_def by blast
  have "ct \<noteq> []" using ct(1) by (auto simp: demo_wire_def session_text_def field_text_def text_bytes_def)
  have card: "card (dom (b_heap demo_bridge)) < 4" by (simp add: demo_bridge_fields)
  have le: "length ct \<le> ?cap ct" by simp
  obtain buf b' where "return_buffer demo_bridge_env ?cap ct (store_at 2 (OSession s') (clear_error demo_bridge)) =
      Returns ((0, Some (buf, length ct)), b')"
    by (rule stored_buffer [where cap = ?cap and bs = ct, OF demo_alloc_fresh demo_alloc_serves card le demo_bridge_fields(3)])
  then have r: "tintin_session_encrypt demo_bridge_env [9] ?cap 2 (Some [104, 105]) True True demo_bridge =
      Returns ((0, Some (buf, length ct)), b')"
    using ffi_encrypt_eq [where be = demo_bridge_env, unfolded demo_bridge_fields(1,2), OF demo_bridge_fields(3) _ e ct(1)] by simp
  have "\<And>bs. length bs < ?cap bs" by simp
  from ffi_free_buffer_undefined [where cap = ?cap, OF demo_alloc_fresh this r] \<open>ct \<noteq> []\<close> r show ?thesis by auto
qed

end
