(* ===== verification/Jni_Properties.thy ===== *)
theory Jni_Properties
  imports Ffi_Protocol
begin

text \<open>
  Properties that relate the Java binding to the C one: the same effect on sessions, but not the same
  reporting of errors; and the persistence of a session through the C functions.
\<close>

section \<open>The two bindings agree\<close>

text \<open>The virtual machine makes arrays and reads them back.\<close>

definition jvm_arrays :: "('jb, 'js) jvm \<Rightarrow> bool" where
  "jvm_arrays env \<longleftrightarrow> (\<forall>bs. \<exists>arr. byte_array_from_slice env bs = Inr arr \<and> convert_byte_array env arr = Inr bs)"

text \<open>The array the Java function returns holds what the C function wrote into its buffer; both fail together.\<close>

definition same_output :: "('jb, 'js) jvm \<Rightarrow> 'jb option \<Rightarrow> int \<times> (u64 \<times> nat) option \<Rightarrow> bridge \<Rightarrow> bool" where
  "same_output env x r b =
     (case r of
        (code, None) \<Rightarrow> code = -1 \<and> x = None
      | (code, Some (p, n)) \<Rightarrow>
          code = 0 \<and> (\<exists>arr bs. x = Some arr \<and> convert_byte_array env arr = Inr bs \<and> buffer_at b p n = Some bs))"

lemma return_buffer_Returns:
  assumes "return_buffer be cap bs b = Returns (r, b')" and "alloc_fresh be" and "length bs \<le> cap bs"
    and "deref as_session b h = Some s"
  obtains p where "r = (0, Some (p, length bs))" "buffer_at b' p (length bs) = Some bs" "deref as_session b' h = Some s"
proof (cases "cap bs = 0")
  case True
  with assms that [of 1] show thesis by (auto simp: return_buffer_def leak_def buffer_at_def)
next
  case False
  with assms(1) obtain p where p: "r = (0, Some (p, length bs))" "into_raw be (OBuffer bs (cap bs)) b = Returns (p, b')"
    by (auto simp: return_buffer_def leak_def split: outcome.splits)
  then have "b_heap b p = None" "b' = b\<lparr>b_heap := (b_heap b)(p \<mapsto> OBuffer bs (cap bs))\<rparr>"
    using assms(2) by (auto simp: into_raw_def alloc_fresh_def split: option.splits)
  with p(1) deref_live [OF assms(4)] assms(4) show thesis
    by (intro that [of p]) (auto simp: buffer_at_def deref_def)
qed

lemma vec_to_array:
  assumes "jvm_arrays env"
  obtains arr where "vec_to_byte_array env bs = Inr arr" "convert_byte_array env arr = Inr bs"
  using assms by (auto simp: jvm_arrays_def vec_to_byte_array_def split: sum.splits dest!: spec [of _ bs])

lemma deref_stored [simp]: "deref as_session (store_at h (OSession s) b) h = Some s"
  by (simp add: deref_def store_at_def)

lemma deref_set_error [simp]: "deref f (set_error m b) p = deref f b p"
  by (simp add: deref_def)

lemma same_stored_output:
  assumes "jvm_arrays env" and "alloc_fresh be" and "\<And>xs. length xs \<le> cap xs"
    and "return_buffer be cap bs (store_at h (OSession s) b) = Returns (r, bf)"
  shows "same_output env (ok_or_null (vec_to_byte_array env bs)) r bf \<and> deref as_session bf h = Some s"
proof -
  obtain p where "r = (0, Some (p, length bs))" "buffer_at bf p (length bs) = Some bs" "deref as_session bf h = Some s"
    by (rule return_buffer_Returns [OF assms(4,2,3) deref_stored])
  moreover obtain arr where "vec_to_byte_array env bs = Inr arr" "convert_byte_array env arr = Inr bs"
    by (rule vec_to_array [OF assms(1)])
  ultimately show ?thesis by (simp add: same_output_def ok_or_null_def)
qed

text \<open>
  Property C19. The Java and the C functions do the same. On the same memory, with the same text or the
  same ciphertext, if the core does not panic and the C function returns, the Java function returns too:
  the array holds the bytes of the buffer, or both report failure, and the handle holds the same session
  afterwards.
\<close>

theorem bindings_agree:
  assumes "jvm_arrays env" and "wire_codec (be_wire be)" and "alloc_fresh be" and "\<And>bs. length bs \<le> cap bs"
    and "deref as_session b h = Some s" and "h \<noteq> 0" and "convert_byte_array env arr = Inr x"
  shows "(\<forall>r bf. Session_encrypt (be_prims be) s nonce x \<noteq> None \<and>
      tintin_session_encrypt be nonce cap h (Some x) True True b = Returns (r, bf) \<longrightarrow>
      (\<exists>y bj. sessionEncrypt be env nonce h arr b = Returns (y, bj) \<and> same_output env y r bf \<and>
        deref as_session bj h = deref as_session bf h)) \<and>
    (\<forall>r bf. tintin_session_decrypt be cap h (Some x) True True b = Returns (r, bf) \<longrightarrow>
      (\<exists>y bj. sessionDecrypt be env h arr b = Returns (y, bj) \<and> same_output env y r bf \<and>
        deref as_session bj h = deref as_session bf h))"
proof (intro conjI allI impI)
  fix r bf
  assume "Session_encrypt (be_prims be) s nonce x \<noteq> None \<and> tintin_session_encrypt be nonce cap h (Some x) True True b = Returns (r, bf)"
  then obtain q s' where e: "Session_encrypt (be_prims be) s nonce x = Some (q, s')"
    and f: "tintin_session_encrypt be nonce cap h (Some x) True True b = Returns (r, bf)" by auto
  note out = same_stored_output [OF assms(1,3,4)]
  show "\<exists>y bj. sessionEncrypt be env nonce h arr b = Returns (y, bj) \<and> same_output env y r bf \<and>
        deref as_session bj h = deref as_session bf h"
  proof (cases q)
    case (Inl err)
    with e f assms(5-7) show ?thesis
      by (auto simp: tintin_session_encrypt_def sessionEncrypt_def byte_array_to_vec_def same_output_def)
  next
    case (Inr m)
    obtain ct where "session_message_to_vec (be_wire be) m = Inr ct" using assms(2) unfolding wire_codec_def by blast
    with Inr e f assms(5-7) out [of ct h s' "clear_error b" r bf] show ?thesis
      by (simp add: tintin_session_encrypt_def sessionEncrypt_def byte_array_to_vec_def)
  qed
next
  fix r bf
  assume f: "tintin_session_decrypt be cap h (Some x) True True b = Returns (r, bf)"
  note out = same_stored_output [OF assms(1,3,4)]
  show "\<exists>y bj. sessionDecrypt be env h arr b = Returns (y, bj) \<and> same_output env y r bf \<and>
        deref as_session bj h = deref as_session bf h"
  proof (cases "session_message_from_slice (be_wire be) x")
    case (Inl err)
    with f assms(5-7) show ?thesis
      by (auto simp: tintin_session_decrypt_def sessionDecrypt_def byte_array_to_vec_def same_output_def)
  next
    case (Inr m)
    with f assms(5,6) obtain q s' where d: "Session_decrypt (be_prims be) s m = Some (q, s')"
      by (auto simp: tintin_session_decrypt_def Let_def split: option.splits)
    show ?thesis
    proof (cases q)
      case Inl2: (Inl err)
      with Inr d f assms(5-7) show ?thesis
        by (auto simp: tintin_session_decrypt_def sessionDecrypt_def byte_array_to_vec_def same_output_def)
    next
      case Inr2: (Inr p)
      with Inr d f assms(5-7) out [of p h s' "clear_error b" r bf] show ?thesis
        by (simp add: tintin_session_decrypt_def sessionDecrypt_def byte_array_to_vec_def)
    qed
  qed
qed

definition demo_jvm :: "(bytes, string) jvm" where
  "demo_jvm = \<lparr>convert_byte_array = Inr, byte_array_from_slice = Inr, get_string = Inr, new_string = Inr\<rparr>"

lemma demo_jvm_arrays: "jvm_arrays demo_jvm"
  by (simp add: jvm_arrays_def demo_jvm_def)

theorem bindings_agree_witness:
  "\<exists>r bf y bj. tintin_session_encrypt demo_bridge_env [9] length 2 (Some [104, 105]) True True demo_bridge = Returns (r, bf) \<and>
    sessionEncrypt demo_bridge_env demo_jvm [9] 2 [104, 105] demo_bridge = Returns (y, bj) \<and>
    same_output demo_jvm y r bf \<and> deref as_session bj 2 = deref as_session bf 2"
proof -
  have len: "length [104, 105 :: u8] < 2 ^ 32" by simp
  have room: "room_to_send demo_prims (Suc 0) (fst (demo_link ''bob''))" using demo_link_linked(4) by simp
  obtain m s' where e: "Session_encrypt demo_prims (fst (demo_link ''bob'')) [9] [104, 105] = Some (Inr m, s')"
    by (rule encrypt_linked [OF demo_link_linked(3) room demo_aead_total len])
  obtain ct where ct: "session_message_to_vec demo_wire m = Inr ct" using demo_wire_codec unfolding wire_codec_def by blast
  have card: "card (dom (b_heap demo_bridge)) < 4" by (simp add: demo_bridge_fields)
  obtain buf b' where "return_buffer demo_bridge_env length ct (store_at 2 (OSession s') (clear_error demo_bridge)) =
      Returns ((0, Some (buf, length ct)), b')"
    by (rule stored_buffer [where cap = length and bs = ct, OF demo_alloc_fresh demo_alloc_serves card order_refl demo_bridge_fields(3)])
  then have r: "tintin_session_encrypt demo_bridge_env [9] length 2 (Some [104, 105]) True True demo_bridge =
      Returns ((0, Some (buf, length ct)), b')"
    using ffi_encrypt_eq [where be = demo_bridge_env, unfolded demo_bridge_fields(1,2), OF demo_bridge_fields(3) _ e ct] by simp
  have "convert_byte_array demo_jvm [104, 105] = Inr [104, 105]" by (simp add: demo_jvm_def)
  from bindings_agree [where be = demo_bridge_env and cap = length and nonce = "[9]", unfolded demo_bridge_fields(1,2),
      OF demo_jvm_arrays demo_wire_codec demo_alloc_fresh order_refl demo_bridge_fields(3) _ this] r e
  show ?thesis by simp
qed

section \<open>Errors\<close>

text \<open>
  Property C20. The Java functions fail silently. When encrypting, decrypting, exporting or importing a
  session or importing an identity returns null or 0 through the Java binding, the slot of the last error
  is empty, so \<open>getLastError\<close> has nothing to say; the C functions for sessions never return -1 or null
  without a message.
\<close>

theorem jni_failures_silent:
  assumes "alloc_fresh be"
  shows "(sessionEncrypt be env nonce h arr b = Returns (None, b') \<longrightarrow> b_error b' = None) \<and>
   (sessionDecrypt be env h arr b = Returns (None, b') \<longrightarrow> b_error b' = None) \<and>
   (sessionToJson be env h b = Returns (None, b') \<longrightarrow> b_error b' = None) \<and>
   (sessionFromJson be env js b = Returns (0, b') \<longrightarrow> b_error b' = None) \<and>
   (identityFromJson be env js b = Returns (0, b') \<longrightarrow> b_error b' = None) \<and>
   (tintin_session_encrypt be nonce cap h x o1 o2 b = Returns ((-1, y), b') \<longrightarrow> b_error b' \<noteq> None) \<and>
   (tintin_session_decrypt be cap h x o1 o2 b = Returns ((-1, y), b') \<longrightarrow> b_error b' \<noteq> None) \<and>
   (tintin_session_to_json be h b = Returns (0, b') \<longrightarrow> b_error b' \<noteq> None) \<and>
   (tintin_session_from_json be x b = Returns (0, b') \<longrightarrow> b_error b' \<noteq> None)"
proof -
  have into: "into_raw be z c = Returns (p, c') \<Longrightarrow> p \<noteq> 0" for z c p c'
    using assms by (auto simp: into_raw_def alloc_fresh_def split: option.splits)
  have buf: "return_buffer be cap bs c \<noteq> Returns ((-1, y), c')" for bs c c'
    by (auto simp: return_buffer_def split: outcome.split)
  note err = set_error_def clear_error_def store_at_def
  have 1: "sessionEncrypt be env nonce h arr b = Returns (None, b') \<longrightarrow> b_error b' = None"
    by (auto simp: sessionEncrypt_def err Let_def split: if_splits option.splits sum.splits prod.splits)
  have 2: "sessionDecrypt be env h arr b = Returns (None, b') \<longrightarrow> b_error b' = None"
    by (auto simp: sessionDecrypt_def err Let_def split: if_splits option.splits sum.splits prod.splits)
  have 3: "sessionToJson be env h b = Returns (None, b') \<longrightarrow> b_error b' = None"
    by (auto simp: sessionToJson_def err Let_def split: if_splits option.splits)
  have 4: "sessionFromJson be env js b = Returns (0, b') \<longrightarrow> b_error b' = None"
    "identityFromJson be env js b = Returns (0, b') \<longrightarrow> b_error b' = None"
    using into [where p = 0] by (auto simp: sessionFromJson_def identityFromJson_def ptr_to_jlong_def err Let_def split: sum.splits)
  have 5: "tintin_session_encrypt be nonce cap h x o1 o2 b = Returns ((-1, y), b') \<longrightarrow> b_error b' \<noteq> None"
    using buf by (auto simp: tintin_session_encrypt_def err Let_def split: if_splits option.splits sum.splits prod.splits)
  have 6: "tintin_session_decrypt be cap h x o1 o2 b = Returns ((-1, y), b') \<longrightarrow> b_error b' \<noteq> None"
    using buf by (auto simp: tintin_session_decrypt_def err Let_def split: if_splits option.splits sum.splits prod.splits)
  have 7: "tintin_session_to_json be h b = Returns (0, b') \<longrightarrow> b_error b' \<noteq> None"
    "tintin_session_from_json be x b = Returns (0, b') \<longrightarrow> b_error b' \<noteq> None"
    using into [where p = 0]
    by (auto simp: tintin_session_to_json_def tintin_session_from_json_def return_json_def set_error_def Let_def
        split: if_splits option.splits sum.splits)
  from 1 2 3 4 5 6 7 show ?thesis by simp
qed

theorem jni_failures_silent_witness:
  "\<exists>b'. sessionEncrypt demo_bridge_env demo_jvm [9] 0 [104] demo_bridge = Returns (None, b') \<and>
     getLastError demo_jvm b' = Some [] \<and> getLastError demo_jvm demo_bridge = Some ''old''"
proof -
  obtain b' where r: "sessionEncrypt demo_bridge_env demo_jvm [9] 0 [104] demo_bridge = Returns (None, b')"
    by (simp add: sessionEncrypt_def)
  with jni_failures_silent [OF demo_alloc_fresh, where env = demo_jvm and nonce = "[9]" and h = 0 and arr = "[104]"
      and b = demo_bridge and b' = b'] have "b_error b' = None" by simp
  with r show ?thesis by (simp add: getLastError_def ok_or_null_def demo_jvm_def demo_bridge_def)
qed

section \<open>Persistence of a session\<close>

text \<open>
  A session survives being stored as JSON. If the serializer's text is read back as the
  session, has no NUL byte and is UTF-8, then exporting a session and importing the text of the returned
  C string gives a new handle, different from every live one, that holds the same session, and freeing
  the string and both handles leaves the rest of the memory as it was.
\<close>

theorem ffi_session_json_roundtrip:
  assumes "alloc_fresh be" and "alloc_serves be limit" and "card (dom (b_heap b)) + 1 < limit"
    and "deref as_session b h = Some s" and "h \<noteq> 0" and "session_to_string be s = Inr json" and "session_from_str be json = Inr s"
    and "CHR 0x00 \<notin> set json" and "utf8_error 0 (as_bytes json) = None"
  shows "\<exists>p b1 h' b2 b3 b4. tintin_session_to_json be h b = Returns (p, b1) \<and> deref as_cstring b1 p = Some json \<and>
    tintin_session_from_json be (Some (as_bytes json)) b1 = Returns (h', b2) \<and> b_heap b h' = None \<and> h' \<noteq> p \<and>
    deref as_session b2 h' = Some s \<and> deref as_session b2 h = Some s \<and>
    tintin_free_string p b2 = Returns ((), b3) \<and> tintin_session_free h' b3 = Returns ((), b4) \<and> b_heap b4 = b_heap b"
proof -
  have c1: "card (dom (b_heap (clear_error b))) < limit" using assms(3) by simp
  obtain p where p: "be_alloc be (b_heap b) (OString json) = Some p"
    "into_raw be (OString json) (clear_error b) = Returns (p, store_at p (OString json) (clear_error b))"
    using into_raw_serves [OF assms(2) c1, of "OString json"] by auto
  let ?b1 = "store_at p (OString json) (clear_error b)"
  have fp: "p \<noteq> 0" "b_heap b p = None" using p(1) assms(1) by (auto simp: alloc_fresh_def)
  have 1: "tintin_session_to_json be h b = Returns (p, ?b1)"
    using p(2) assms(4-6,8) by (simp add: tintin_session_to_json_def return_json_def cstring_or_empty_def)
  have c2: "card (dom (b_heap (clear_error ?b1))) < limit"
    using card_dom_store [of p "OString json" "clear_error b"] assms(3) by simp
  obtain h' where h': "be_alloc be (b_heap ?b1) (OSession s) = Some h'"
    "into_raw be (OSession s) (clear_error ?b1) = Returns (h', store_at h' (OSession s) (clear_error ?b1))"
    using into_raw_serves [OF assms(2) c2, of "OSession s"] by auto
  let ?b2 = "store_at h' (OSession s) (clear_error ?b1)"
  have fh: "h' \<noteq> 0" "b_heap ?b1 h' = None" using h'(1) assms(1) by (auto simp: alloc_fresh_def)
  then have hp: "h' \<noteq> p" "b_heap b h' = None" by (auto simp: store_at_def split: if_splits)
  have "map (\<lambda>x. char_of (unat x)) (as_bytes json) = json"
    by (simp add: as_bytes_def comp_def unat_of_nat)
  then have 2: "tintin_session_from_json be (Some (as_bytes json)) ?b1 = Returns (h', ?b2)"
    using h'(2) assms(7,9) by (simp add: tintin_session_from_json_def cstr_to_str_def)
  have d: "deref as_session ?b2 h = Some s"
    using assms(4) fp(2) hp(2) by (auto simp: store_at_def clear_error_def deref_def)
  let ?b3 = "?b2\<lparr>b_heap := (b_heap ?b2)(p := None)\<rparr>"
  have 3: "tintin_free_string p ?b2 = Returns ((), ?b3)"
    using fp(1) hp(1) by (simp add: tintin_free_string_def free_box_def deref_def store_at_def clear_error_def)
  let ?b4 = "?b3\<lparr>b_heap := (b_heap ?b3)(h' := None)\<rparr>"
  have 4: "tintin_session_free h' ?b3 = Returns ((), ?b4)"
    using fh(1) hp(1) by (simp add: tintin_session_free_def free_box_def deref_def store_at_def)
  have "b_heap ?b4 = b_heap b"
    using fp(2) hp by (auto simp: store_at_def clear_error_def fun_eq_iff)
  moreover have "deref as_cstring ?b1 p = Some json" "deref as_session ?b2 h' = Some s"
    by (simp_all add: deref_def store_at_def)
  ultimately show ?thesis using 1 2 3 4 d hp by blast
qed

theorem ffi_session_json_roundtrip_witness:
  "\<exists>p b1 h' b2. tintin_session_to_json demo_bridge_env 2 demo_bridge = Returns (p, b1) \<and>
    tintin_session_from_json demo_bridge_env (Some (as_bytes ''{}'')) b1 = Returns (h', b2) \<and>
    deref as_session b2 h' = Some (fst (demo_link ''bob'')) \<and> b_heap demo_bridge h' = None"
proof -
  have card: "card (dom (b_heap demo_bridge)) + 1 < 4" by (simp add: demo_bridge_fields)
  have codec: "session_to_string demo_bridge_env (fst (demo_link ''bob'')) = Inr ''{}''"
    "session_from_str demo_bridge_env ''{}'' = Inr (fst (demo_link ''bob''))"
    by (simp_all add: demo_bridge_env_def)
  have utf8: "utf8_error 0 (as_bytes ''{}'') = None" by code_simp
  from ffi_session_json_roundtrip [OF demo_alloc_fresh demo_alloc_serves card demo_bridge_fields(3) _ codec _ utf8]
  show ?thesis by simp blast
qed

end
