(* ===== verification/Cli_Commands.thy ===== *)
theory Cli_Commands
  imports Cli_Media
begin

text \<open>
  The command line of the client, the chain of conditions in the loop of \<open>main\<close>,
  \<open>tintin-cli/src/main.rs\<close>: a trimmed line becomes a command, or a usage text. The parts of a line are
  separated by single blanks, as \<open>splitn\<close> does it.
\<close>

section \<open>Texts\<close>

definition strip_prefix :: "string \<Rightarrow> string \<Rightarrow> string option" where
  "strip_prefix p s = (if starts_with p s then Some (drop (length p) s) else None)"

definition split_once :: "char \<Rightarrow> string \<Rightarrow> (string \<times> string) option" where
  "split_once sep s =
     (case dropWhile (\<lambda>c. c \<noteq> sep) s of [] \<Rightarrow> None
      | _ # rest \<Rightarrow> Some (takeWhile (\<lambda>c. c \<noteq> sep) s, rest))"

fun splitn :: "nat \<Rightarrow> char \<Rightarrow> string \<Rightarrow> string list" where
  "splitn 0 sep s = []"
| "splitn (Suc 0) sep s = [s]"
| "splitn (Suc (Suc n)) sep s =
     (case split_once sep s of None \<Rightarrow> [s] | Some (a, b) \<Rightarrow> a # splitn (Suc n) sep b)"

text \<open>\<open>parse\<close> of an integer type: a sign, then at least one digit and nothing else, within the range.\<close>

definition digit_value :: "char \<Rightarrow> nat option" where
  "digit_value c = (let n = of_char c :: nat in if in_range 48 57 n then Some (n - 48) else None)"

primrec parse_digits :: "nat \<Rightarrow> string \<Rightarrow> nat option" where
  "parse_digits acc [] = Some acc"
| "parse_digits acc (c # cs) =
     (case digit_value c of None \<Rightarrow> None | Some d \<Rightarrow> parse_digits (acc * 10 + d) cs)"

definition parse_nat :: "string \<Rightarrow> nat option" where
  "parse_nat s = (if s = [] then None else parse_digits 0 s)"

definition parse_u64 :: "string \<Rightarrow> nat option" where
  "parse_u64 s =
     (case parse_nat (if starts_with ''+'' s then drop 1 s else s) of
        None \<Rightarrow> None
      | Some n \<Rightarrow> if n < 2 ^ 64 then Some n else None)"

definition parse_i64 :: "string \<Rightarrow> i64 option" where
  "parse_i64 s =
     (if starts_with ''-'' s then
        (case parse_nat (drop 1 s) of None \<Rightarrow> None | Some n \<Rightarrow> if n \<le> 2 ^ 63 then Some (- int n) else None)
      else
        (case parse_nat (if starts_with ''+'' s then drop 1 s else s) of
           None \<Rightarrow> None | Some n \<Rightarrow> if n < 2 ^ 63 then Some (int n) else None))"

section \<open>Commands\<close>

text \<open>
  The commands, those with a subject of their own in groups. \<open>Invalid\<close> is a line answered by a usage
  text or a complaint about an argument, with no other effect.
\<close>

datatype story_command = Story string | ClearStory | Stories

datatype group_command = GroupCreate string | GroupJoin string | GroupLeave string | GroupSend string string

datatype channel_command =
  ChannelCreate string | ChannelSub i64 | ChannelUnsub i64 | ChannelSend i64 string | Channels | MyChannels

datatype poll_command = PollCreate string "string list" | PollVote i64 i64 | PollResults i64 | PollClose i64 | Polls

datatype sticker_command =
  StickerAdd string string | StickerList | StickerCustom string string | StickerSend string string i64

datatype call_command = Call string | Accept string | EndCall | CallStream nat

datatype timeline_command =
  Moment string "string option" | Timeline | Comment i64 string | PostComments i64 | DeletePost i64

datatype media_command = SendFile string string bool | Record nat | Voice string string

datatype command =
    Blank | Quit | Save | Presence string | Help | Recv | Status | UserList | Search string | MyGroups
  | Edit nat string | StoryCmd story_command | GroupCmd group_command | ChannelCmd channel_command
  | PollCmd poll_command | StickerCmd sticker_command | CallCmd call_command | TimelineCmd timeline_command
  | Qr | Scan string | MediaCmd media_command | Msg string string | Invalid

text \<open>A command whose argument has to be an \<open>i64\<close>.\<close>

definition with_i64 :: "string \<Rightarrow> (i64 \<Rightarrow> command) \<Rightarrow> command" where
  "with_i64 s f = (case parse_i64 s of None \<Rightarrow> Invalid | Some i \<Rightarrow> f i)"

definition parse_edit :: "string \<Rightarrow> command" where
  "parse_edit rest =
     (case splitn 2 (CHR '' '') rest of
        idx # new_text # _ \<Rightarrow> (case parse_u64 idx of None \<Rightarrow> Invalid | Some index \<Rightarrow> Edit index new_text)
      | _ \<Rightarrow> Invalid)"

definition parse_group :: "string \<Rightarrow> command" where
  "parse_group rest =
     (let parts = splitn 3 (CHR '' '') rest
      in if parts = [] then Invalid
         else if parts ! 0 = ''create'' then (if length parts < 2 then Invalid else GroupCmd (GroupCreate (parts ! 1)))
         else if parts ! 0 = ''join'' then (if length parts < 2 then Invalid else GroupCmd (GroupJoin (parts ! 1)))
         else if parts ! 0 = ''leave'' then (if length parts < 2 then Invalid else GroupCmd (GroupLeave (parts ! 1)))
         else if parts ! 0 = ''send'' then (if length parts < 3 then Invalid else GroupCmd (GroupSend (parts ! 1) (parts ! 2)))
         else Invalid)"

definition parse_channel :: "string \<Rightarrow> command" where
  "parse_channel rest =
     (let parts = splitn 3 (CHR '' '') rest
      in if parts = [] then Invalid
         else if parts ! 0 = ''create'' then (if length parts < 2 then Invalid else ChannelCmd (ChannelCreate (parts ! 1)))
         else if parts ! 0 \<in> {''sub'', ''subscribe''} then
           (if length parts < 2 then Invalid else with_i64 (parts ! 1) (\<lambda>cid. ChannelCmd (ChannelSub cid)))
         else if parts ! 0 \<in> {''unsub'', ''unsubscribe''} then
           (if length parts < 2 then Invalid else with_i64 (parts ! 1) (\<lambda>cid. ChannelCmd (ChannelUnsub cid)))
         else if parts ! 0 = ''send'' then
           (if length parts < 3 then Invalid else with_i64 (parts ! 1) (\<lambda>cid. ChannelCmd (ChannelSend cid (parts ! 2))))
         else Invalid)"

definition parse_poll :: "string \<Rightarrow> command" where
  "parse_poll rest =
     (let parts = splitn 4 (CHR '' '') rest
      in if parts = [] then Invalid
         else if parts ! 0 = ''create'' then
           (if length parts < 2 then Invalid
            else let args = split_on (CHR ''|'') (parts ! 1)
                 in if length args < 3 then Invalid else PollCmd (PollCreate (hd args) (tl args)))
         else if parts ! 0 = ''vote'' then
           (if length parts < 3 then Invalid
            else with_i64 (parts ! 1) (\<lambda>pid. with_i64 (parts ! 2) (\<lambda>opt. PollCmd (PollVote pid opt))))
         else if parts ! 0 = ''results'' then (if length parts < 2 then Invalid else with_i64 (parts ! 1) (\<lambda>pid. PollCmd (PollResults pid)))
         else if parts ! 0 = ''close'' then (if length parts < 2 then Invalid else with_i64 (parts ! 1) (\<lambda>pid. PollCmd (PollClose pid)))
         else Invalid)"

definition parse_sticker :: "string \<Rightarrow> command" where
  "parse_sticker rest =
     (let parts = splitn 4 (CHR '' '') rest
      in if parts = [] then Invalid
         else if parts ! 0 = ''add'' \<and> 3 \<le> length parts then StickerCmd (StickerAdd (parts ! 1) (parts ! 2))
         else if parts ! 0 = ''list'' then StickerCmd StickerList
         else if length parts < 3 then Invalid
         else if parts ! 1 = ''custom'' then StickerCmd (StickerCustom (parts ! 0) (parts ! 2))
         else with_i64 (parts ! 2) (\<lambda>sid. StickerCmd (StickerSend (parts ! 0) (parts ! 1) sid)))"

text \<open>The first of two or more words is taken for the user on whose wall the rest is posted.\<close>

definition parse_moment :: "string \<Rightarrow> command" where
  "parse_moment rest0 =
     (let rest = trim rest0
      in if rest = [] then Invalid
         else case split_once (CHR '' '') rest of
                Some (target, words) \<Rightarrow> if words \<noteq> [] then TimelineCmd (Moment words (Some target)) else TimelineCmd (Moment rest None)
              | None \<Rightarrow> TimelineCmd (Moment rest None))"

definition parse_sendfile :: "string \<Rightarrow> command" where
  "parse_sendfile rest =
     (let parts = splitn 3 (CHR '' '') rest
      in if length parts < 2 then Invalid
         else if 3 \<le> length parts \<and> parts ! 2 = ''--hd'' then MediaCmd (SendFile (parts ! 0) (parts ! 1) True)
         else MediaCmd (SendFile (parts ! 0) (parts ! 1) False))"

definition parse_two :: "string \<Rightarrow> (string \<Rightarrow> string \<Rightarrow> command) \<Rightarrow> command" where
  "parse_two rest f =
     (let parts = splitn 2 (CHR '' '') rest in if length parts < 2 then Invalid else f (parts ! 0) (parts ! 1))"

text \<open>An argument that is trimmed and must not be empty then.\<close>

definition parse_word :: "string \<Rightarrow> (string \<Rightarrow> command) \<Rightarrow> command" where
  "parse_word rest f = (if trim rest = [] then Invalid else f (trim rest))"

text \<open>
  The chain: each pair is a condition on the line with the command it gives. The first that applies
  decides; a line that none takes is an unknown command.
\<close>

definition when_line :: "bool \<Rightarrow> command \<Rightarrow> command option \<Rightarrow> command option" where
  "when_line b c r = (if b then Some c else r)"

definition when_prefix :: "string \<Rightarrow> string \<Rightarrow> (string \<Rightarrow> command) \<Rightarrow> command option \<Rightarrow> command option" where
  "when_prefix p input f r = (case strip_prefix p input of Some rest \<Rightarrow> Some (f rest) | None \<Rightarrow> r)"

definition parse_command :: "string \<Rightarrow> command" where
  "parse_command line =
     (let input = trim line
      in unwrap_or (
        when_line (input = []) Blank (
        when_line (input = ''/quit'') Quit (
        when_line (input = ''/save'') Save (
        when_line (input = ''/online'') (Presence ''online'') (
        when_line (input = ''/offline'' \<or> input = ''/away'') (Presence ''offline'') (
        when_line (input = ''/help'') Help (
        when_line (input = ''/recv'') Recv (
        when_line (input = ''/status'') Status (
        when_line (input = ''/users'') UserList (
        when_prefix ''/search '' input (\<lambda>query. parse_word query Search) (
        when_line (input = ''/mygroups'') MyGroups (
        when_prefix ''/edit '' input parse_edit (
        when_prefix ''/story '' input (\<lambda>words. StoryCmd (Story words)) (
        when_line (input = ''/clearstory'') (StoryCmd ClearStory) (
        when_line (input = ''/stories'') (StoryCmd Stories) (
        when_prefix ''/group '' input parse_group (
        when_prefix ''/channel '' input parse_channel (
        when_line (input = ''/channels'' \<or> input = ''/list_channels'') (ChannelCmd Channels) (
        when_line (input = ''/my_channels'' \<or> input = ''/mychnl'') (ChannelCmd MyChannels) (
        when_prefix ''/poll '' input parse_poll (
        when_line (input = ''/polls'') (PollCmd Polls) (
        when_prefix ''/sticker '' input parse_sticker (
        when_line (starts_with ''/sticker'' input \<and> length input \<le> 10) Invalid (
        when_prefix ''/call '' input (\<lambda>rest. parse_word rest (\<lambda>peer. CallCmd (Call peer))) (
        when_prefix ''/accept '' input (\<lambda>rest. parse_word rest (\<lambda>call_id. CallCmd (Accept call_id))) (
        when_line (input = ''/end'' \<or> input = ''/hangup'') (CallCmd EndCall) (
        when_prefix ''/callstream '' input (\<lambda>rest. CallCmd (CallStream (unwrap_or (parse_u64 (trim rest)) 5))) (
        when_line (input = ''/callstream'') (CallCmd (CallStream 5)) (
        when_prefix ''/moment '' input parse_moment (
        when_line (input = ''/timeline'' \<or> input = ''/tl'') (TimelineCmd Timeline) (
        when_prefix ''/comment '' input (\<lambda>rest. parse_two rest (\<lambda>pid words. with_i64 pid (\<lambda>i. TimelineCmd (Comment i words)))) (
        when_prefix ''/postcomments '' input (\<lambda>rest. with_i64 (trim rest) (\<lambda>i. TimelineCmd (PostComments i))) (
        when_prefix ''/deletepost '' input (\<lambda>rest. with_i64 (trim rest) (\<lambda>i. TimelineCmd (DeletePost i))) (
        when_line (input = ''/qr'' \<or> input = ''/myqr'') Qr (
        when_prefix ''/scan '' input (\<lambda>rest. Scan (trim rest)) (
        when_prefix ''/sendfile '' input parse_sendfile (
        when_prefix ''/record '' input (\<lambda>rest. MediaCmd (Record (unwrap_or (parse_u64 (trim rest)) 10))) (
        when_line (input = ''/record'') (MediaCmd (Record 10)) (
        when_prefix ''/voice '' input (\<lambda>rest. parse_two rest (\<lambda>user path. MediaCmd (Voice user path))) (
        when_prefix ''/msg '' input (\<lambda>rest. parse_two rest Msg) None
        )))))))))))))))))))))))))))))))))))))))) Invalid)"

end
