(* ===== verification/Cli_Console.thy ===== *)
theory Cli_Console
  imports Cli_Commands Cli_Requests Cli_Connection
begin

text \<open>
  The interactive loop of \<open>main\<close>, \<open>tintin-cli/src/main.rs\<close>: every line is one command, what it prints is
  a value, and an error of a command is only printed. The loop is a partial function: it need not end.
\<close>

section \<open>What a command prints\<close>

datatype shown =
    Nothing | Done | Usage | Failed string
  | ShownStatus "SentMessage list" | ShownUsers "(string \<times> string) list" | ShownFound "MessageRecord list"
  | ShownGroups "GroupInfo list" | ShownStories "(string \<times> int \<times> string) list" | ShownValues "json list"
  | ShownResults json "(string \<times> i64) list" | ShownStickers "(string \<times> string) list"
  | ShownPosts "(json \<times> string \<times> string option \<times> string \<times> i64) list" | ShownComments "(string \<times> string) list"
  | ShownContact string string | ShownQr string | ShownId string

definition show_result :: "('a \<Rightarrow> shown) \<Rightarrow> string + 'a \<Rightarrow> shown" where
  "show_result f r = (case r of Inl e \<Rightarrow> Failed e | Inr x \<Rightarrow> f x)"

text \<open>The records a search prints; \<open>lower\<close> is \<open>str::to_lowercase\<close>.\<close>

definition search_log :: "(string \<Rightarrow> string) \<Rightarrow> string \<Rightarrow> MessageRecord list \<Rightarrow> MessageRecord list" where
  "search_log lower query log = filter (\<lambda>r. contains_text (lower query) (lower (mr_text r))) log"

text \<open>
  The age of a story in hours: a subtraction in \<open>i64\<close>, a panic when it overflows and the build checks,
  and a division towards zero.
\<close>

definition hours_ago :: "bool \<Rightarrow> int \<Rightarrow> i64 \<Rightarrow> int option" where
  "hours_ago checks now ts =
     (let d = now - ts; r = signed_take_bit 63 d
      in if checks \<and> r \<noteq> d then None else Some (if r < 0 then - ((- r) div 3600) else r div 3600))"

definition story_view :: "bool \<Rightarrow> int \<Rightarrow> json \<Rightarrow> (string \<times> int \<times> string) option" where
  "story_view checks now v =
     map_option (\<lambda>h. (str_or v ''user_id'' ''?'', h, str_or v ''content'' []))
       (hours_ago checks now (unwrap_or (as_i64 (json_index v ''created_at'')) 0))"

definition poll_option_view :: "json \<Rightarrow> string \<times> i64" where
  "poll_option_view v = (str_or v ''option_text'' [], unwrap_or (as_i64 (json_index v ''votes'')) 0)"

definition results_view :: "json \<Rightarrow> shown" where
  "results_view data =
     ShownResults (json_index data ''question'')
       (map poll_option_view (unwrap_or (as_array (json_index data ''options'')) []))"

definition post_view :: "json \<Rightarrow> json \<times> string \<times> string option \<times> string \<times> i64" where
  "post_view p =
     (json_index p ''post_id'', str_or p ''user_id'' ''?'',
      (case as_str (json_index p ''target_user_id'') of Some t \<Rightarrow> if t = [] then None else Some t | None \<Rightarrow> None),
      str_or p ''content'' [], unwrap_or (as_i64 (json_index p ''comment_count'')) 0)"

definition comment_view :: "json \<Rightarrow> string \<times> string" where
  "comment_view v = (str_or v ''user_id'' ''?'', str_or v ''content'' [])"

section \<open>One command\<close>

text \<open>
  What the surroundings give the commands: the draws of piece \<open>i\<close> of command number \<open>n\<close>, the clock, the
  devices, whether the write of an unanswered request fails, \<open>to_lowercase\<close>, and the error, if any, of
  flushing the prompt of line \<open>n\<close>.
\<close>

record 'w console =
  co_env :: client_env
  co_net :: "'w net"
  co_media :: media_env
  co_devices :: devices
  co_draws :: "nat \<Rightarrow> nat \<Rightarrow> draws"
  co_end_draws :: "nat \<Rightarrow> draws"
  co_nanos :: "nat \<Rightarrow> nat"
  co_secs :: "nat \<Rightarrow> int"
  co_write_error :: "json \<Rightarrow> 'w \<Rightarrow> string option"
  co_lower :: "string \<Rightarrow> string"
  co_prompt_error :: "nat \<Rightarrow> string option"

text \<open>The three shapes of operations: on the relay, on client and files too, and those that may panic.\<close>

definition on_relay ::
  "('a \<Rightarrow> shown) \<Rightarrow> (TinTinClient \<Rightarrow> 'w \<Rightarrow> (string + 'a) \<times> 'w) \<Rightarrow> 'w cstate \<Rightarrow> (shown \<times> 'w cstate) option" where
  "on_relay f op s = (case s of (c, files, w) \<Rightarrow> (case op c w of (r, w') \<Rightarrow> Some (show_result f r, c, files, w')))"

definition on_client ::
  "('a \<Rightarrow> shown) \<Rightarrow> ('w cstate \<Rightarrow> (string + 'a) \<times> 'w cstate) \<Rightarrow> 'w cstate \<Rightarrow> (shown \<times> 'w cstate) option" where
  "on_client f op s = (case op s of (r, s') \<Rightarrow> Some (show_result f r, s'))"

definition on_session ::
  "('a \<Rightarrow> shown) \<Rightarrow> ('w cstate \<Rightarrow> ((string + 'a) \<times> 'w cstate) option) \<Rightarrow> 'w cstate \<Rightarrow> (shown \<times> 'w cstate) option" where
  "on_session f op s = (case op s of None \<Rightarrow> None | Some (r, s') \<Rightarrow> Some (show_result f r, s'))"

definition run_story :: "'w console \<Rightarrow> nat \<Rightarrow> story_command \<Rightarrow> 'w cstate \<Rightarrow> (shown \<times> 'w cstate) option" where
  "run_story co n cmd s =
     (let ce = co_env co; net = co_net co
      in case cmd of
           Story words \<Rightarrow> on_relay (\<lambda>_. Done) (set_story ce net words) s
         | ClearStory \<Rightarrow> on_relay (\<lambda>_. Done) (clear_story ce net) s
         | Stories \<Rightarrow>
             (case s of (c, files, w) \<Rightarrow>
               (case get_stories ce net w of
                  (Inl e, w') \<Rightarrow> Some (Failed e, c, files, w')
                | (Inr vs, w') \<Rightarrow>
                    (let views = map (story_view (overflow_checks (ce_prims ce)) (co_secs co n)) vs
                     in if None \<in> set views then None else Some (ShownStories (map the views), c, files, w')))))"

definition run_group :: "'w console \<Rightarrow> nat \<Rightarrow> group_command \<Rightarrow> 'w cstate \<Rightarrow> (shown \<times> 'w cstate) option" where
  "run_group co n cmd s =
     (let ce = co_env co; net = co_net co
      in case cmd of
           GroupCreate name \<Rightarrow> on_client ShownId (cli_create_group ce net name) s
         | GroupJoin gid \<Rightarrow> on_client (\<lambda>_. Done) (cli_join_group ce net gid) s
         | GroupLeave gid \<Rightarrow> on_client (\<lambda>_. Done) (cli_leave_group ce net gid) s
         | GroupSend gid words \<Rightarrow>
             on_session (\<lambda>_. Done) (send_group_message ce net (co_end_draws co n) (co_draws co n) gid words) s)"

definition run_channel :: "'w console \<Rightarrow> nat \<Rightarrow> channel_command \<Rightarrow> 'w cstate \<Rightarrow> (shown \<times> 'w cstate) option" where
  "run_channel co n cmd s =
     (let ce = co_env co; net = co_net co
      in case cmd of
           ChannelCreate name \<Rightarrow> on_client (\<lambda>i. ShownId (show_int i)) (cli_create_channel ce net name) s
         | ChannelSub cid \<Rightarrow> on_client (\<lambda>_. Done) (cli_subscribe_channel ce net cid) s
         | ChannelUnsub cid \<Rightarrow> on_client (\<lambda>_. Done) (cli_unsubscribe_channel ce net cid) s
         | ChannelSend cid words \<Rightarrow>
             on_session (\<lambda>_. Done) (send_channel_message ce net (co_end_draws co n) (co_draws co n) cid words) s
         | Channels \<Rightarrow> on_relay ShownValues (\<lambda>_. cli_list_all_channels ce net) s
         | MyChannels \<Rightarrow> on_client ShownValues (cli_list_my_channels ce net) s)"

definition run_poll :: "'w console \<Rightarrow> nat \<Rightarrow> poll_command \<Rightarrow> 'w cstate \<Rightarrow> (shown \<times> 'w cstate) option" where
  "run_poll co n cmd s =
     (let ce = co_env co; net = co_net co
      in case cmd of
           PollCreate question options \<Rightarrow>
             on_session (\<lambda>i. ShownId (show_int i)) (cli_create_poll ce net (co_draws co n 0) question options None) s
         | PollVote pid opt \<Rightarrow> on_relay (\<lambda>_. Done) (cli_vote_poll ce net pid opt) s
         | PollResults pid \<Rightarrow> on_relay results_view (\<lambda>_. cli_poll_results ce net pid) s
         | PollClose pid \<Rightarrow> on_relay (\<lambda>_. Done) (cli_close_poll ce net pid) s
         | Polls \<Rightarrow> on_relay ShownValues (\<lambda>_. cli_list_polls ce net) s)"

definition run_sticker :: "'w console \<Rightarrow> nat \<Rightarrow> sticker_command \<Rightarrow> 'w cstate \<Rightarrow> (shown \<times> 'w cstate) option" where
  "run_sticker co n cmd s =
     (let ce = co_env co; net = co_net co
      in case cmd of
           StickerAdd path name \<Rightarrow>
             (case s of (c, files, w) \<Rightarrow>
               (case add_custom_sticker ce (co_media co) (co_devices co) path name files of
                  (r, files') \<Rightarrow> Some (show_result (\<lambda>_. Done) r, c, files', w)))
         | StickerList \<Rightarrow> Some (ShownStickers (list_custom_stickers ce (co_devices co)), s)
         | StickerCustom user name \<Rightarrow>
             on_session (\<lambda>_. Done) (send_custom_sticker ce (co_media co) net (co_draws co n 0) user name) s
         | StickerSend user pack sid \<Rightarrow> on_session (\<lambda>_. Done) (send_sticker ce net (co_draws co n 0) user pack sid) s)"

definition run_call :: "'w console \<Rightarrow> nat \<Rightarrow> call_command \<Rightarrow> 'w cstate \<Rightarrow> (shown \<times> 'w cstate) option" where
  "run_call co n cmd s =
     (let ce = co_env co; net = co_net co; dr = co_draws co n 0
      in case cmd of
           Call peer \<Rightarrow> on_session (\<lambda>_. Done) (start_call ce net dr peer) s
         | Accept call_id \<Rightarrow> on_session (\<lambda>_. Done) (accept_call ce net dr call_id) s
         | EndCall \<Rightarrow> on_session (\<lambda>_. Done) (end_call ce net dr ''ended'') s
         | CallStream secs \<Rightarrow>
             on_session (\<lambda>_. Done)
               (send_call_media ce (co_media co) (co_devices co) net (co_draws co n) (co_end_draws co n) secs) s)"

definition run_timeline :: "'w console \<Rightarrow> nat \<Rightarrow> timeline_command \<Rightarrow> 'w cstate \<Rightarrow> (shown \<times> 'w cstate) option" where
  "run_timeline co n cmd s =
     (let ce = co_env co; net = co_net co
      in case cmd of
           Moment words target \<Rightarrow> on_relay (\<lambda>i. ShownId (show_int i)) (post_to_timeline ce net words target) s
         | Timeline \<Rightarrow> on_relay (\<lambda>vs. ShownPosts (map post_view vs)) (get_timeline_posts ce net) s
         | Comment pid words \<Rightarrow> on_relay (\<lambda>_. Done) (cli_add_comment ce net pid words) s
         | PostComments pid \<Rightarrow> on_relay (\<lambda>vs. ShownComments (map comment_view vs)) (\<lambda>_. get_post_comments ce net pid) s
         | DeletePost pid \<Rightarrow> on_relay (\<lambda>_. Done) (cli_delete_post ce net pid) s)"

definition run_media :: "'w console \<Rightarrow> nat \<Rightarrow> media_command \<Rightarrow> 'w cstate \<Rightarrow> (shown \<times> 'w cstate) option" where
  "run_media co n cmd s =
     (let ce = co_env co; net = co_net co; me = co_media co
      in case cmd of
           SendFile user path is_hd \<Rightarrow>
             on_session (\<lambda>_. Done)
               (send_file ce me net (co_end_draws co n) (co_draws co n) (co_nanos co n) user path is_hd) s
         | Record secs \<Rightarrow>
             (case s of (c, files, w) \<Rightarrow>
               (case record_voice ce (co_devices co) secs files of
                  None \<Rightarrow> None
                | Some (r, files') \<Rightarrow> Some (show_result (\<lambda>_. Done) r, c, files', w)))
         | Voice user path \<Rightarrow>
             on_session (\<lambda>_. Done)
               (send_voice ce me net (co_end_draws co n) (co_draws co n) (co_nanos co n) user path) s)"

text \<open>The branches of the loop; \<open>Quit\<close> saves, and the loop leaves.\<close>

definition run_command :: "'w console \<Rightarrow> nat \<Rightarrow> command \<Rightarrow> 'w cstate \<Rightarrow> (shown \<times> 'w cstate) option" where
  "run_command co n cmd s =
     (let ce = co_env co; net = co_net co
      in case cmd of
           Blank \<Rightarrow> Some (Nothing, s)
         | Quit \<Rightarrow> (case s of (c, files, w) \<Rightarrow> Some (Done, c, save_all (ce_storage ce) c files, w))
         | Save \<Rightarrow> (case s of (c, files, w) \<Rightarrow> Some (Done, c, save_all (ce_storage ce) c files, w))
         | Presence p \<Rightarrow> on_relay (\<lambda>_. Done) (set_my_presence ce net p) s
         | Help \<Rightarrow> Some (Usage, s)
         | Recv \<Rightarrow> on_session (\<lambda>_. Done) (receive_messages ce net (co_draws co n)) s
         | Status \<Rightarrow> Some (ShownStatus (c_sent_messages (fst s)), s)
         | UserList \<Rightarrow> on_relay ShownUsers (\<lambda>_. cli_list_users ce net) s
         | Search query \<Rightarrow> Some (ShownFound (search_log (co_lower co) query (c_chat_log (fst s))), s)
         | MyGroups \<Rightarrow>
             (case sync_groups ce net s of
                (r, s') \<Rightarrow> Some (show_result (\<lambda>_. ShownGroups (map snd (c_groups (fst s')))) r, s'))
         | Edit index new_text \<Rightarrow>
             on_session (\<lambda>_. Done) (edit_message ce net (co_write_error co) (co_draws co n) index new_text) s
         | StoryCmd x \<Rightarrow> run_story co n x s
         | GroupCmd x \<Rightarrow> run_group co n x s
         | ChannelCmd x \<Rightarrow> run_channel co n x s
         | PollCmd x \<Rightarrow> run_poll co n x s
         | StickerCmd x \<Rightarrow> run_sticker co n x s
         | CallCmd x \<Rightarrow> run_call co n x s
         | TimelineCmd x \<Rightarrow> run_timeline co n x s
         | Qr \<Rightarrow> Some (ShownQr (contact_uri (ce_prims ce) (fst s)), s)
         | Scan uri \<Rightarrow>
             Some (case parse_contact_uri uri of Some (uid, key) \<Rightarrow> ShownContact uid key | None \<Rightarrow> Usage, s)
         | MediaCmd x \<Rightarrow> run_media co n x s
         | Msg recipient words \<Rightarrow> on_session (\<lambda>_. Done) (send_message ce net (co_draws co n 0) recipient words) s
         | Invalid \<Rightarrow> Some (Usage, s))"

section \<open>The loop\<close>

text \<open>
  How \<open>main\<close> ends once it is connected: by \<open>/quit\<close>, by an error of writing the prompt or of reading the
  input (text that is not UTF-8, for instance), or by a panic. \<open>n\<close> counts the commands. At the end of the
  input \<open>read_line\<close> succeeds with no text.
\<close>

datatype 'w ending = Goodbye "'w cstate" | OutputError string "'w cstate" | InputError string "'w cstate" | Panicked

definition next_line :: "(string + string) list \<Rightarrow> (string + string) \<times> (string + string) list" where
  "next_line ls = (case ls of [] \<Rightarrow> (Inr [], []) | l # rest \<Rightarrow> (l, rest))"

partial_function (option) console_loop ::
  "'w console \<Rightarrow> nat \<Rightarrow> (string + string) list \<Rightarrow> 'w cstate \<Rightarrow> 'w ending option" where
  "console_loop co n ls s =
     (case co_prompt_error co n of
        Some e \<Rightarrow> Some (OutputError e s)
      | None \<Rightarrow>
          (case next_line ls of
             (Inl e, rest) \<Rightarrow> Some (InputError e s)
           | (Inr line, rest) \<Rightarrow>
               (case run_command co n (parse_command line) s of
                  None \<Rightarrow> Some Panicked
                | Some (out, s') \<Rightarrow>
                    if parse_command line = Quit then Some (Goodbye s') else console_loop co (Suc n) rest s')))"

text \<open>
  \<open>main\<close>: the first prompt is written and answered, or one of the two fails (\<open>typed\<close>); the client is made
  from the name typed, trimmed, connects and registers. An error so far ends the program before the first
  command. The commands exchange their requests over the connection.
\<close>

definition server_addr :: string where
  "server_addr = ''127.0.0.1:9666''"

definition main_program ::
  "'w console \<Rightarrow> (string \<Rightarrow> string + json) \<Rightarrow> 'w socket \<Rightarrow> bytes \<Rightarrow> bytes \<Rightarrow> files \<Rightarrow> string + string \<Rightarrow>
   (string + string) list \<Rightarrow> 'w \<Rightarrow> (string + 'w ending) option" where
  "main_program co parse sk rng_id rng_spk files typed ls w =
     (case typed of
        Inl e \<Rightarrow> Some (Inl e)
      | Inr name \<Rightarrow>
          (let ce = co_env co; c = TinTinClient_new (ce_prims ce) (ce_storage ce) rng_id rng_spk files (trim name)
           in case connect ce parse sk server_addr c w of
                (Inl e, w') \<Rightarrow> Some (Inl e)
              | (Inr _, w') \<Rightarrow>
                  map_option Inr (console_loop (co\<lparr>co_net := exchange ce parse (Some sk)\<rparr>) 0 ls (c, files, w'))))"

end
