(* ===== verification/Console_Lemmas.thy ===== *)
theory Console_Lemmas
  imports Cli_Console
begin

text \<open>
  Lemmas on the command line: which lines \<open>trim\<close> leaves alone, that the parts of a line are the words
  between single blanks, and that a printed number parses to itself.
\<close>

section \<open>Trimmed lines\<close>

lemma starts_with_append: "starts_with p (p @ s)"
  by (simp add: starts_with_def)

lemma strip_prefix_append [simp]: "strip_prefix p (p @ s) = Some s"
  by (simp add: strip_prefix_def starts_with_append)

lemma strip_one_None: "strip_one ws s = None \<longleftrightarrow> (\<forall>w\<in>set ws. \<not> starts_with w s)"
proof -
  have "strip_one ws s = None \<longleftrightarrow> filter (\<lambda>w. starts_with w s) ws = []"
    by (simp add: strip_one_def split: list.split)
  then show ?thesis by (simp add: filter_empty_conv)
qed

lemma strip_one_shorter:
  assumes "strip_one ws s = Some s'" and "[] \<notin> set ws"
  shows "length s' < length s"
proof -
  obtain w l where f: "filter (\<lambda>w. starts_with w s) ws = w # l" and d: "s' = drop (length w) s"
    using assms(1) by (auto simp: strip_one_def split: list.splits)
  have "w \<in> set (filter (\<lambda>w. starts_with w s) ws)" by (simp only: f) simp
  then have w: "w \<in> set ws" "starts_with w s" by auto
  moreover have "w \<noteq> []" using w(1) assms(2) by auto
  ultimately show ?thesis by (cases s) (auto simp: starts_with_def d)
qed

lemma strip_all_None: "strip_one ws s = None \<Longrightarrow> strip_all n ws s = s"
  by (cases n) simp_all

lemma strip_all_shorter: "[] \<notin> set ws \<Longrightarrow> length (strip_all n ws s) \<le> length s"
proof (induction n arbitrary: s)
  case (Suc n)
  show ?case
  proof (cases "strip_one ws s")
    case (Some s')
    then show ?thesis using Suc.IH [OF Suc.prems, of s'] strip_one_shorter [OF Some Suc.prems] by simp
  qed simp
qed simp

lemma strip_all_same:
  assumes "length (strip_all n ws s) = length s" and "0 < n" and "[] \<notin> set ws"
  shows "strip_one ws s = None"
proof (cases "strip_one ws s")
  case (Some s')
  moreover obtain m where "n = Suc m" using assms(2) by (cases n) auto
  ultimately have "length (strip_all n ws s) < length s"
    using strip_all_shorter [OF assms(3), of m s'] strip_one_shorter [OF Some assms(3)] by simp
  with assms(1) show ?thesis by simp
qed

lemma white_space_facts:
  "[] \<notin> set white_space" "[] \<notin> set (map rev white_space)"
  "\<forall>v\<in>set white_space. length v = 1 \<or> CHR '' '' \<notin> set v"
  by (simp_all add: white_space_def)

lemma trimmed_iff:
  assumes "s \<noteq> []"
  shows "trim s = s \<longleftrightarrow> strip_one white_space s = None \<and> strip_one (map rev white_space) (rev s) = None"
proof
  let ?front = "strip_all (length s) white_space s"
  assume t: "trim s = s"
  have "length (trim s) \<le> length ?front"
    using strip_all_shorter [OF white_space_facts(2), of "length ?front" "rev ?front"] by (simp add: trim_def Let_def)
  with t have f: "length ?front = length s"
    using strip_all_shorter [OF white_space_facts(1), of "length s" s] by simp
  have a: "strip_one white_space s = None"
    by (rule strip_all_same [OF f]) (use assms white_space_facts in auto)
  then have e: "?front = s" by (rule strip_all_None)
  with t have "length (strip_all (length s) (map rev white_space) (rev s)) = length (rev s)"
    unfolding trim_def Let_def e by (metis length_rev)
  then have "strip_one (map rev white_space) (rev s) = None"
    by (rule strip_all_same) (use assms white_space_facts in auto)
  with a show "strip_one white_space s = None \<and> strip_one (map rev white_space) (rev s) = None" by simp
next
  assume "strip_one white_space s = None \<and> strip_one (map rev white_space) (rev s) = None"
  then show "trim s = s" by (simp add: trim_def Let_def strip_all_None)
qed

lemma no_white_space_before_slash: "strip_one white_space (CHR ''/'' # s) = None"
  by (simp add: strip_one_None starts_with_def white_space_def)

lemma trim_command:
  assumes "trim rest = rest" and "rest \<noteq> []"
  shows "trim (CHR ''/'' # name @ '' '' @ rest) = CHR ''/'' # name @ '' '' @ rest"
proof -
  have "\<not> starts_with w (rev rest @ CHR '' '' # y)" if w: "w \<in> set (map rev white_space)" for w y
  proof
    assume st: "starts_with w (rev rest @ CHR '' '' # y)"
    obtain v where v: "v \<in> set white_space" "w = rev v" using w by auto
    show False
    proof (cases "length w \<le> length rest")
      case True
      then have "starts_with w (rev rest)" using st by (simp add: starts_with_def)
      with w show False using assms by (auto simp: trimmed_iff strip_one_None)
    next
      case False
      then have l: "1 < length w" using assms(2) by (cases rest) auto
      have "w = rev rest @ take (length w - length rest) (CHR '' '' # y)"
        using st False by (simp add: starts_with_def)
      moreover have "CHR '' '' \<in> set (take (length w - length rest) (CHR '' '' # y))"
        using False by (cases "length w - length rest") auto
      ultimately have "CHR '' '' \<in> set w" by (metis Un_iff set_append)
      with l v white_space_facts(3) show False by auto
    qed
  qed
  then show ?thesis
    by (subst trimmed_iff) (auto simp: no_white_space_before_slash strip_one_None)
qed

section \<open>Words\<close>

lemma split_once_append [simp]:
  "sep \<notin> set a \<Longrightarrow> split_once sep (a @ sep # b) = Some (a, b)"
proof (induction a)
  case (Cons x a)
  then show ?case by (auto simp: split_once_def dropWhile_append takeWhile_append split: list.splits)
qed (simp add: split_once_def)

lemma split_once_none [simp]: "sep \<notin> set a \<Longrightarrow> split_once sep a = None"
proof -
  assume "sep \<notin> set a"
  then have "dropWhile (\<lambda>c. c \<noteq> sep) a = []" by (simp add: dropWhile_eq_Nil_conv) blast
  then show ?thesis by (simp only: split_once_def list.case)
qed

lemma splitn_word [simp]:
  "sep \<notin> set a \<Longrightarrow> splitn (Suc (Suc n)) sep (a @ sep # b) = a # splitn (Suc n) sep b"
  "sep \<notin> set a \<Longrightarrow> splitn (Suc n) sep a = [a]"
  by simp (cases n; simp)

section \<open>Numbers\<close>

lemma digit_value_dec_digit: "n < 10 \<Longrightarrow> digit_value (dec_digit n) = Some n"
proof -
  assume "n < 10"
  then have "n \<in> set [0,1,2,3,4,5,6,7,8,9]" by auto
  then show ?thesis by (auto simp: digit_value_def dec_digit_def in_range_def)
qed

lemma parse_digits_append:
  "parse_digits acc (xs @ ys) = (case parse_digits acc xs of None \<Rightarrow> None | Some a \<Rightarrow> parse_digits a ys)"
  by (induction xs arbitrary: acc) (auto split: option.splits)

lemma parse_digits_show: "\<exists>k. parse_digits acc (show_nat n) = Some (acc * 10 ^ k + n) \<and> k = length (show_nat n)"
proof (induction n arbitrary: acc rule: show_nat.induct)
  case (1 n)
  show ?case
  proof (cases "n < 10")
    case True
    then show ?thesis by (simp add: show_nat.simps [of n] digit_value_dec_digit)
  next
    case False
    then obtain k where k: "parse_digits acc (show_nat (n div 10)) = Some (acc * 10 ^ k + n div 10)"
      "k = length (show_nat (n div 10))" using 1 by blast
    have "parse_digits acc (show_nat n) = Some ((acc * 10 ^ k + n div 10) * 10 + n mod 10)"
      using False k(1) by (simp add: show_nat.simps [of n] parse_digits_append digit_value_dec_digit)
    moreover have "(acc * 10 ^ k + n div 10) * 10 + n mod 10 = acc * 10 ^ Suc k + n" by simp
    ultimately show ?thesis using False k(2) by (simp add: show_nat.simps [of n])
  qed
qed

lemma show_nat_nonempty: "show_nat n \<noteq> []"
  by (simp add: show_nat.simps [of n])

lemma parse_nat_show [simp]: "parse_nat (show_nat n) = Some n"
  using parse_digits_show [of 0 n] by (auto simp: parse_nat_def show_nat_nonempty)

lemma set_show_nat: "set (show_nat n) \<subseteq> set ''0123456789''"
proof (induction n rule: show_nat.induct)
  case (1 n)
  have d: "dec_digit m \<in> set ''0123456789''" for m unfolding dec_digit_def by (rule nth_mem) simp
  show ?case using 1 d by (subst show_nat.simps) auto
qed

lemma show_nat_no_sign: "\<not> starts_with ''+'' (show_nat n)" "\<not> starts_with ''-'' (show_nat n)"
  using set_show_nat [of n] show_nat_nonempty [of n] by (auto simp: starts_with_def take_Suc neq_Nil_conv)

lemma parse_u64_show: "n < 2 ^ 64 \<Longrightarrow> parse_u64 (show_nat n) = Some n"
  by (simp add: parse_u64_def show_nat_no_sign)

lemma parse_i64_show:
  assumes "- (2 ^ 63) \<le> i" and "i < 2 ^ 63"
  shows "parse_i64 (show_int i) = Some i"
proof (cases "i < 0")
  case True
  moreover have "nat (- i) \<le> 2 ^ 63" using assms(1) by (simp add: nat_le_iff)
  ultimately show ?thesis by (simp add: parse_i64_def show_int_def starts_with_def)
next
  case False
  moreover have "nat i < 2 ^ 63" using assms(2) False by (simp add: nat_less_iff)
  ultimately show ?thesis by (simp add: parse_i64_def show_int_def show_nat_no_sign)
qed

lemma show_int_no_blank: "CHR '' '' \<notin> set (show_int i)"
proof -
  have "CHR '' '' \<notin> set (show_nat n)" for n using set_show_nat [of n] by auto
  then show ?thesis by (simp add: show_int_def)
qed

lemma show_nat_no_blank: "CHR '' '' \<notin> set (show_nat n)"
  using set_show_nat [of n] by auto

lemma trim_visible:
  assumes "s \<noteq> []" and "\<forall>c\<in>set s. in_range 33 126 (of_char c)"
  shows "trim s = s"
proof -
  have w: "\<forall>v\<in>set white_space. v \<noteq> [] \<and> (\<forall>c\<in>set v. \<not> in_range 33 126 (of_char c))"
    by (simp add: white_space_def in_range_def)
  have "\<not> starts_with x y" if "set y = set s" and "x \<noteq> []" "\<forall>c\<in>set x. \<not> in_range 33 126 (of_char c)" for x y
  proof
    assume "starts_with x y"
    then have "take (length x) y = x" by (simp add: starts_with_def)
    then have "hd x \<in> set s" using that(1,2) by (metis hd_in_set set_take_subset subset_iff)
    with assms(2) that show False by (metis hd_in_set)
  qed
  with w show ?thesis by (auto simp: trimmed_iff [OF assms(1)] strip_one_None)
qed

lemma show_nat_visible: "\<forall>c\<in>set (show_nat n). in_range 33 126 (of_char c)"
  using set_show_nat [of n] by (auto simp: in_range_def)

lemma trim_show_int [simp]: "trim (show_int i) = show_int i"
  by (rule trim_visible) (use show_nat_visible in \<open>auto simp: show_int_def show_nat_nonempty in_range_def\<close>)

lemma show_int_nonempty: "show_int i \<noteq> []"
  by (simp add: show_int_def show_nat_nonempty)

section \<open>The chain on a line\<close>

lemmas chain = parse_command_def when_line_def when_prefix_def strip_prefix_def starts_with_def unwrap_or_def

lemma parse_command_prefix:
  assumes "trim line = line"
  shows "line = ''/msg '' @ rest \<Longrightarrow> parse_command line = parse_two rest Msg"
    and "line = ''/edit '' @ rest \<Longrightarrow> parse_command line = parse_edit rest"
    and "line = ''/group '' @ rest \<Longrightarrow> parse_command line = parse_group rest"
    and "line = ''/channel '' @ rest \<Longrightarrow> parse_command line = parse_channel rest"
    and "line = ''/poll '' @ rest \<Longrightarrow> parse_command line = parse_poll rest"
    and "line = ''/moment '' @ rest \<Longrightarrow> parse_command line = parse_moment rest"
    and "line = ''/deletepost '' @ rest \<Longrightarrow>
         parse_command line = with_i64 (trim rest) (\<lambda>i. TimelineCmd (DeletePost i))"
    and "line = ''/comment '' @ rest \<Longrightarrow>
         parse_command line = parse_two rest (\<lambda>pid words. with_i64 pid (\<lambda>i. TimelineCmd (Comment i words)))"
  using assms by (simp_all add: chain)

end
