(* ===== verification/Console_Properties.thy ===== *)
theory Console_Properties
  imports Console_Lemmas Cli_Properties
begin

text \<open>
  Properties of the interactive loop: how it ends and what a restart finds, that typed commands mean what
  was typed, and where the words of a line are cut otherwise than the help says.
\<close>

section \<open>The chain of conditions\<close>

lemma when_line_not: "c \<noteq> Quit \<Longrightarrow> r \<noteq> Some Quit \<Longrightarrow> when_line b c r \<noteq> Some Quit"
  by (simp add: when_line_def)

lemma when_prefix_not: "(\<And>rest. f rest \<noteq> Quit) \<Longrightarrow> r \<noteq> Some Quit \<Longrightarrow> when_prefix p i f r \<noteq> Some Quit"
  by (simp add: when_prefix_def split: option.split)

lemma with_i64_not: "(\<And>i. f i \<noteq> Quit) \<Longrightarrow> with_i64 x f \<noteq> Quit"
  by (simp add: with_i64_def split: option.split)

lemma parse_word_not: "(\<And>x. f x \<noteq> Quit) \<Longrightarrow> parse_word x f \<noteq> Quit"
  by (simp add: parse_word_def)

lemma parse_two_not: "(\<And>x y. f x y \<noteq> Quit) \<Longrightarrow> parse_two x f \<noteq> Quit"
  by (simp add: parse_two_def Let_def)

lemma parts_not_Quit:
  "parse_edit x \<noteq> Quit" "parse_group x \<noteq> Quit" "parse_channel x \<noteq> Quit" "parse_poll x \<noteq> Quit"
  "parse_sticker x \<noteq> Quit" "parse_moment x \<noteq> Quit" "parse_sendfile x \<noteq> Quit"
  by (auto simp: parse_edit_def parse_group_def parse_channel_def parse_poll_def parse_sticker_def parse_moment_def
      parse_sendfile_def with_i64_def Let_def split: list.split option.split)

lemma unwrap_not_Quit: "r \<noteq> Some Quit \<Longrightarrow> unwrap_or r Invalid \<noteq> Quit"
  by (cases r) (auto simp: unwrap_or_def)

lemma parse_command_blank: "trim line = [] \<Longrightarrow> parse_command line = Blank"
  by (simp add: parse_command_def when_line_def unwrap_or_def)

lemma parse_command_quit: "parse_command line = Quit \<longleftrightarrow> trim line = ''/quit''"
proof
  assume "trim line = ''/quit''"
  then show "parse_command line = Quit" by (simp add: parse_command_def when_line_def unwrap_or_def)
next
  assume q: "parse_command line = Quit"
  show "trim line = ''/quit''"
  proof (rule ccontr)
    assume n: "trim line \<noteq> ''/quit''"
    then have h: "when_line (trim line = ''/quit'') Quit r = r" for r by (simp add: when_line_def)
    have "parse_command line \<noteq> Quit"
      unfolding parse_command_def Let_def h
      by (intro unwrap_not_Quit when_line_not when_prefix_not parse_word_not parse_two_not with_i64_not parts_not_Quit)
        simp_all
    with q show False by simp
  qed
qed

section \<open>The end of the loop\<close>

text \<open>The commands of the lines in turn, none of which leaves the loop, with what they print.\<close>

primrec run_lines ::
  "'w console \<Rightarrow> nat \<Rightarrow> string list \<Rightarrow> 'w cstate \<Rightarrow> (shown list \<times> 'w cstate) option" where
  "run_lines co n [] s = Some ([], s)"
| "run_lines co n (l # ls) s =
     (if parse_command l = Quit then None
      else case run_command co n (parse_command l) s of
             None \<Rightarrow> None
           | Some (out, s') \<Rightarrow> map_option (\<lambda>(outs, s''). (out # outs, s'')) (run_lines co (Suc n) ls s'))"

text \<open>The prompts of the lines \<open>n\<close> to \<open>n + k - 1\<close> can be written.\<close>

definition prompts :: "'w console \<Rightarrow> nat \<Rightarrow> nat \<Rightarrow> bool" where
  "prompts co n k \<longleftrightarrow> (\<forall>i<k. co_prompt_error co (n + i) = None)"

lemma prompts_Suc: "prompts co n (Suc k) \<longleftrightarrow> co_prompt_error co n = None \<and> prompts co (Suc n) k"
  by (simp add: prompts_def All_less_Suc2)

lemma prompts_add: "prompts co n (j + k) \<longleftrightarrow> prompts co n j \<and> prompts co (n + j) k"
  by (induction j arbitrary: n) (simp_all add: prompts_Suc, simp_all add: prompts_def)

lemma console_loop_lines:
  "run_lines co n ls s = Some (outs, s') \<Longrightarrow> prompts co n (length ls) \<Longrightarrow>
   console_loop co n (map Inr ls @ rest) s = console_loop co (n + length ls) rest s'"
proof (induction ls arbitrary: n s outs)
  case (Cons l ls)
  then obtain out s1 outs' where r: "parse_command l \<noteq> Quit" "run_command co n (parse_command l) s = Some (out, s1)"
    "run_lines co (Suc n) ls s1 = Some (outs', s')"
    by (auto split: if_splits option.splits)
  then have "console_loop co n (map Inr (l # ls) @ rest) s = console_loop co (Suc n) (map Inr ls @ rest) s1"
    using Cons.prems(2) by (subst console_loop.simps) (simp add: next_line_def prompts_Suc)
  with Cons.IH [OF r(3)] Cons.prems(2) show ?case by (simp add: prompts_Suc)
qed simp

lemma console_loop_quit:
  assumes "trim q = ''/quit''" and "co_prompt_error co n = None"
  shows "console_loop co n (Inr q # rest) (c, files, w) =
    Some (Goodbye (c, save_all (ce_storage (co_env co)) c files, w))"
  using assms by (subst console_loop.simps) (simp add: next_line_def parse_command_quit [symmetric] run_command_def)

text \<open>Writing the files succeeds and each text reads back as what was written.\<close>

definition reads_back :: "storage \<Rightarrow> TinTinClient \<Rightarrow> bool" where
  "reads_back fs c \<longleftrightarrow>
     (\<forall>p t old. fs_write fs p t old = Some t) \<and>
     (\<exists>h g ch l. history_to_string fs (c_sent_messages c) = Inr h \<and> history_from_str fs h = Inr (c_sent_messages c) \<and>
        groups_to_string fs (c_groups c) = Inr g \<and> groups_from_str fs g = Inr (c_groups c) \<and>
        channels_to_string fs (c_channels c) = Inr ch \<and> channels_from_str fs ch = Inr (c_channels c) \<and>
        chat_log_to_string fs (c_chat_log c) = Inr l \<and> chat_log_from_str fs l = Inr (c_chat_log c))"

lemma restart_after_save:
  assumes "reads_back fs c"
  shows "TinTinClient_new pr fs rng_id rng_spk (save_all fs c files) (c_user_id c) =
    \<lparr>c_user_id = c_user_id c, c_identity = IdentityKeyPair_generate pr rng_id,
     c_signed_pre_key = SignedPreKey_generate pr rng_spk 1 (IdentityKeyPair_generate pr rng_id),
     c_sessions = SessionStore_new, c_sent_messages = c_sent_messages c, c_groups = c_groups c,
     c_chat_log = c_chat_log c, c_pending_files = [], c_channels = c_channels c, c_active_call = None\<rparr>"
proof -
  obtain h g ch l where t: "history_to_string fs (c_sent_messages c) = Inr h" "history_from_str fs h = Inr (c_sent_messages c)"
    "groups_to_string fs (c_groups c) = Inr g" "groups_from_str fs g = Inr (c_groups c)"
    "channels_to_string fs (c_channels c) = Inr ch" "channels_from_str fs ch = Inr (c_channels c)"
    "chat_log_to_string fs (c_chat_log c) = Inr l" "chat_log_from_str fs l = Inr (c_chat_log c)"
    and w: "\<And>p t old. fs_write fs p t old = Some t" using assms by (auto simp: reads_back_def)
  have s: "save_all fs c files = files(history_path fs c \<mapsto> h, groups_path fs c \<mapsto> g, channels_path fs c \<mapsto> ch, chat_log_path fs c \<mapsto> l)"
    by (simp add: save_all_def save_history_def save_groups_def save_channels_def save_chat_log_def save_to_def write_file_def t w)
  have "save_all fs c files (history_path fs c) = Some h" "save_all fs c files (groups_path fs c) = Some g"
    "save_all fs c files (channels_path fs c) = Some ch" "save_all fs c files (chat_log_path fs c) = Some l"
    using paths_distinct [of fs c] by (simp_all add: s)
  then show ?thesis
    by (simp add: TinTinClient_new_def Let_def load_history_def load_groups_def load_channels_def load_chat_log_def
        load_from_def history_path_def groups_path_def channels_path_def chat_log_path_def t)
qed

text \<open>A client without sessions drops every ordinary message of another user.\<close>

lemma no_session_drops:
  assumes "c_sessions c = SessionStore_new" and "env_msg_type e = Normal" and "env_sender_id e \<noteq> c_user_id c"
  shows "receive_message ce net dr e (c, files, w) = Some (Inr (), c, files, w)"
proof -
  have "SessionStore_get_mut (c_sessions c) u d = None" for u d
    by (simp add: assms(1) SessionStore_new_def SessionStore_get_mut_def SessionStore_get_def)
  then show ?thesis
    using assms(2,3) by (simp add: receive_message_def receive_normal_def split: sum.split)
qed

text \<open>Property C21. A session of commands that ends with \<open>/quit\<close>, the prompts of which can all be written,
  runs every line in turn, whether or not the commands before it failed, saves, and reads nothing more.
  The next start under the same name finds the sent messages, groups, channels and chat log as they were;
  but the sessions are gone and the identity is a new one, so that every ordinary message another user
  sends, which is what a peer that still has its session encrypts, is dropped: the client neither logs it
  nor changes in any other way, whatever the message holds.\<close>

theorem quit_then_restart:
  assumes "run_lines co 0 ls s = Some (outs, c, files, w)" and "trim q = ''/quit''"
    and "reads_back (ce_storage (co_env co)) c" and "prompts co 0 (Suc (length ls))"
  shows "\<exists>saved. console_loop co 0 (map Inr ls @ Inr q # rest) s = Some (Goodbye (c, saved, w)) \<and>
    (let d = TinTinClient_new pr (ce_storage (co_env co)) rng_id rng_spk saved (c_user_id c)
     in c_sent_messages d = c_sent_messages c \<and> c_groups d = c_groups c \<and> c_channels d = c_channels c \<and>
        c_chat_log d = c_chat_log c \<and> c_sessions d = SessionStore_new \<and>
        c_identity d = IdentityKeyPair_generate pr rng_id \<and> c_active_call d = None \<and>
        (env_msg_type e = Normal \<and> env_sender_id e \<noteq> c_user_id c \<longrightarrow>
           receive_message ce net dr e (d, saved, w') = Some (Inr (), d, saved, w')))"
proof -
  let ?saved = "save_all (ce_storage (co_env co)) c files"
  have p: "prompts co 0 (length ls)" "co_prompt_error co (length ls) = None"
    using assms(4) by (simp_all add: prompts_def)
  have "console_loop co 0 (map Inr ls @ Inr q # rest) s = Some (Goodbye (c, ?saved, w))"
    using console_loop_lines [OF assms(1) p(1)] console_loop_quit [OF assms(2)] p(2) by simp
  then show ?thesis
    unfolding Let_def using restart_after_save [OF assms(3)]
    by (intro exI [of _ ?saved]) (simp add: no_session_drops)
qed

text \<open>A console whose relay says ok to everything and whose saved groups are the one group of the example.\<close>

definition tea_group :: "string \<times> GroupInfo" where
  "tea_group = ([], \<lparr>gi_group_id = [], gi_name = ''tea'', gi_creator = ''alice'', gi_role = ''admin''\<rparr>)"

definition demo_console :: "unit console" where
  "demo_console =
     \<lparr>co_env = demo_client_env\<lparr>ce_storage := demo_storage\<lparr>history_from_str := (\<lambda>_. Inr []),
        groups_from_str := (\<lambda>_. Inr [tea_group]), channels_from_str := (\<lambda>_. Inr []),
        chat_log_from_str := (\<lambda>_. Inr [])\<rparr>\<rparr>,
      co_net = demo_net ''ok'',
      co_media = \<lparr>read_file = (\<lambda>_. Inl ''no file''), recompress = (\<lambda>_. None)\<rparr>,
      co_devices = \<lparr>mic = None, note_stamp = 0, create_error = (\<lambda>_. None), write_error = (\<lambda>_. None), remove_leaves = (\<lambda>_ _. None),
        sticker_jpeg = (\<lambda>_. None), list_dir = (\<lambda>_. []), file_len = (\<lambda>_. 0)\<rparr>,
      co_draws = (\<lambda>_ _. demo_draws), co_end_draws = (\<lambda>_. demo_draws), co_nanos = (\<lambda>_. 0), co_secs = (\<lambda>_. 0),
      co_write_error = (\<lambda>_ _. None), co_lower = id, co_prompt_error = (\<lambda>_. None)\<rparr>"

lemma trim_slash_word:
  "\<forall>c\<in>set s. in_range 33 126 (of_char c) \<Longrightarrow> trim (CHR ''/'' # s) = CHR ''/'' # s"
  by (rule trim_visible) (auto simp: in_range_def)

lemma demo_client_parts:
  "c_groups (demo_client ''alice'') = []" "c_user_id (demo_client ''alice'') = ''alice''"
  "c_sent_messages (demo_client ''alice'') = []" "c_channels (demo_client ''alice'') = []"
  "c_chat_log (demo_client ''alice'') = []" "c_pending_files (demo_client ''alice'') = []"
  "c_active_call (demo_client ''alice'') = None" "c_sessions (demo_client ''alice'') = SessionStore_new"
  by (simp_all add: demo_client_defs Let_def load_from_def)

lemma demo_session:
  assumes "c_groups c = []" and "c_user_id c = ''alice''"
  obtains out files where "run_lines demo_console 0 [''/group create tea''] (c, \<lambda>_. None, ()) =
      Some (out, c\<lparr>c_groups := [tea_group]\<rparr>, files, ())"
proof -
  have "trim ''tea'' = ''tea''" by (rule trim_visible) (simp_all add: in_range_def)
  from trim_command [OF this, of "''group create''"] have g: "trim ''/group create tea'' = ''/group create tea''" by simp
  have "parse_command ''/group create tea'' = parse_group ''create tea''"
    by (rule parse_command_prefix(3) [OF g]) simp
  also have "\<dots> = GroupCmd (GroupCreate ''tea'')"
    by (simp add: parse_group_def numeral_eq_Suc split_once_def Let_def)
  finally have p: "parse_command ''/group create tea'' = GroupCmd (GroupCreate ''tea'')" .
  have "\<exists>out files. run_lines demo_console 0 [''/group create tea''] (c, \<lambda>_. None, ()) =
      Some (out, c\<lparr>c_groups := [tea_group]\<rparr>, files, ())"
    by (simp add: p run_command_def run_group_def on_client_def cli_create_group_def ask_then_def ask_def
        demo_console_def demo_net_def resp_ok_def json_index_def Let_def show_result_def assms
        insert_or_replace_def tea_group_def str_or_def unwrap_or_def)
  then show ?thesis using that by blast
qed

text \<open>An ordinary message of Bob.\<close>

definition normal_envelope :: Envelope where
  "normal_envelope = Envelope_new 5 ''bob'' ''alice'' [7] Normal"

theorem quit_then_restart_witness:
  "\<exists>c saved. console_loop demo_console 0 [Inr ''/group create tea'', Inr ''/quit'', Inr ''/save'']
     (demo_client ''alice'', \<lambda>_. None, ()) = Some (Goodbye (c, saved, ())) \<and>
   (let d = TinTinClient_new demo_prims (ce_storage (co_env demo_console)) [8] [9] saved ''alice''
    in c_groups d = [tea_group] \<and>
       receive_message demo_client_env (demo_net ''ok'') demo_draws normal_envelope (d, saved, ()) =
         Some (Inr (), d, saved, ()))"
proof -
  have t: "trim ''/quit'' = ''/quit''" by (rule trim_slash_word) (simp add: in_range_def)
  obtain out files where c: "run_lines demo_console 0 [''/group create tea''] (demo_client ''alice'', \<lambda>_. None, ()) =
      Some (out, (demo_client ''alice'')\<lparr>c_groups := [tea_group]\<rparr>, files, ())"
    by (rule demo_session [of "demo_client ''alice''"]) (simp_all add: demo_client_parts)
  have b: "reads_back (ce_storage (co_env demo_console)) ((demo_client ''alice'')\<lparr>c_groups := [tea_group]\<rparr>)"
    by (simp add: reads_back_def demo_console_def demo_storage_def demo_client_parts)
  have p: "prompts demo_console 0 (Suc (length [''/group create tea'']))"
    by (simp add: prompts_def demo_console_def)
  from quit_then_restart [OF c t b p, of "[Inr ''/save'']" demo_prims "[8]" "[9]" normal_envelope demo_client_env
      "demo_net ''ok''" demo_draws "()"]
  show ?thesis by (auto simp: demo_client_parts Let_def normal_envelope_def)
qed

text \<open>How the loop, which starts at line \<open>n\<close>, may end.\<close>

definition right_end :: "'w console \<Rightarrow> nat \<Rightarrow> (string + string) list \<Rightarrow> 'w ending \<Rightarrow> bool" where
  "right_end co n ls r \<longleftrightarrow>
     (case r of
        Goodbye s \<Rightarrow> \<exists>l. Inr l \<in> set ls \<and> trim l = ''/quit''
      | InputError e s \<Rightarrow> Inl e \<in> set ls
      | OutputError e s \<Rightarrow> \<exists>k\<ge>n. co_prompt_error co k = Some e
      | Panicked \<Rightarrow> ls \<noteq> [])"

lemma right_end_later: "right_end co (Suc n) ls r \<Longrightarrow> right_end co n (l # ls) r"
  by (cases r) (auto simp: right_end_def intro: Suc_leD)

lemma next_line_blank: "next_line [] = (Inr [], [])" "parse_command [] = Blank"
  by (simp_all add: next_line_def parse_command_blank trim_def)

lemma console_ends:
  assumes "console_loop co n ls s = Some r"
  shows "right_end co n ls r"
proof (rule console_loop.raw_induct [OF _ assms])
  fix loop and co :: "'a console" and n ls s r
  assume IH: "\<And>co n ls s y. loop co n ls s = Some y \<Longrightarrow> right_end co n ls y"
    and body: "(case co_prompt_error co n of
        Some e \<Rightarrow> Some (OutputError e s)
      | None \<Rightarrow>
          (case next_line ls of
             (Inl e, rest) \<Rightarrow> Some (InputError e s)
           | (Inr line, rest) \<Rightarrow>
               (case run_command co n (parse_command line) s of
                  None \<Rightarrow> Some Panicked
                | Some (out, s') \<Rightarrow>
                    if parse_command line = Quit then Some (Goodbye s') else loop co (Suc n) rest s'))) = Some r"
  show "right_end co n ls r"
  proof (cases "co_prompt_error co n")
    case (Some e)
    then show ?thesis using body by (auto simp: right_end_def)
  next
    case no_error: None
    show ?thesis
    proof (cases ls)
      case Nil
      have "loop co (Suc n) [] s = Some r"
        using body no_error by (simp add: Nil next_line_blank run_command_def)
      from IH [OF this] show ?thesis by (cases r) (auto simp: Nil right_end_def intro: Suc_leD)
    next
      case (Cons l rest)
      show ?thesis
      proof (cases l)
        case (Inl e)
        then show ?thesis using body no_error by (auto simp: Cons next_line_def right_end_def)
      next
        case (Inr line)
        show ?thesis
        proof (cases "run_command co n (parse_command line) s")
          case None
          then show ?thesis using body no_error by (auto simp: Cons Inr next_line_def right_end_def)
        next
          case (Some x)
          then show ?thesis
            using body no_error IH [THEN right_end_later]
            by (auto simp: Cons Inr next_line_def right_end_def parse_command_quit split: prod.splits if_splits)
        qed
      qed
    qed
  qed
qed

lemma console_forever:
  assumes "\<forall>k\<ge>n. co_prompt_error co k = None"
  shows "console_loop co n [] s = None"
proof (cases "console_loop co n [] s")
  case (Some r)
  from console_ends [OF this] assms show ?thesis by (cases r) (auto simp: right_end_def)
qed

text \<open>Property C22. The loop says goodbye, and saves, only on a line that is \<open>/quit\<close>; otherwise it ends only
  by the error of writing a prompt, by the error of reading a line, or by a panic in a command. In
  particular it does not end at the end of the input: unless a prompt cannot be written, the client
  prompts forever there, and nothing is saved.\<close>

theorem console_ends_only_by_quit:
  "(\<forall>r. console_loop co n ls s = Some r \<longrightarrow>
      (case r of
         Goodbye s' \<Rightarrow> \<exists>l. Inr l \<in> set ls \<and> trim l = ''/quit''
       | InputError e s' \<Rightarrow> Inl e \<in> set ls
       | OutputError e s' \<Rightarrow> \<exists>k\<ge>n. co_prompt_error co k = Some e
       | Panicked \<Rightarrow> ls \<noteq> [])) \<and>
   ((\<forall>k\<ge>n. co_prompt_error co k = None) \<longrightarrow> console_loop co n [] s = None)"
  using console_ends [of co n ls s] console_forever [of n co s] by (auto simp: right_end_def)

theorem console_ends_only_by_quit_witness:
  "console_loop demo_console 0 [] (demo_client ''alice'', \<lambda>_. None, ()) = None \<and>
   (\<exists>s'. console_loop demo_console 0 [Inr '' /quit ''] (demo_client ''alice'', \<lambda>_. None, ()) = Some (Goodbye s')) \<and>
   (\<exists>l. Inr l \<in> set [Inr '' /quit '' :: string + string] \<and> trim l = ''/quit'')"
proof -
  have "trim '' /quit '' = ''/quit''" by code_simp
  moreover have none: "co_prompt_error demo_console k = None" for k by (simp add: demo_console_def)
  ultimately have q: "console_loop demo_console 0 [Inr '' /quit ''] (demo_client ''alice'', \<lambda>_. None, ()) =
      Some (Goodbye (demo_client ''alice'', save_all (ce_storage (co_env demo_console)) (demo_client ''alice'') (\<lambda>_. None), ()))"
    by (rule console_loop_quit)
  note ends = console_ends_only_by_quit [of demo_console 0 "[Inr '' /quit '']" "(demo_client ''alice'', \<lambda>_. None, ())"]
  have "\<exists>l. Inr l \<in> set [Inr '' /quit '' :: string + string] \<and> trim l = ''/quit''"
    using conjunct1 [OF ends] q by fastforce
  then show ?thesis using q ends none by blast
qed

section \<open>What is typed is what is meant\<close>

lemma trim_two_words:
  "trim t = t \<Longrightarrow> t \<noteq> [] \<Longrightarrow> trim (CHR ''/'' # name @ CHR '' '' # u @ CHR '' '' # t) = CHR ''/'' # name @ CHR '' '' # u @ CHR '' '' # t"
  using trim_command [of t "name @ '' '' @ u"] by simp

text \<open>Property C23. A message, a group message, an edit, a vote, a comment, a subscription and a deletion typed
  with the name, the number and the text in the places the help shows are understood as exactly that
  name, number and text. The text may contain blanks, the name may not, and the text keeps every blank
  inside it.\<close>

theorem console_roundtrip:
  assumes "CHR '' '' \<notin> set u" and "trim t = t" and "t \<noteq> []"
    and "- (2 ^ 63) \<le> i" and "i < 2 ^ 63" and "- (2 ^ 63) \<le> j" and "j < 2 ^ 63" and "k < 2 ^ 64"
  shows "parse_command (''/msg '' @ u @ '' '' @ t) = Msg u t \<and>
    parse_command (''/group send '' @ u @ '' '' @ t) = GroupCmd (GroupSend u t) \<and>
    parse_command (''/edit '' @ show_nat k @ '' '' @ t) = Edit k t \<and>
    parse_command (''/poll vote '' @ show_int i @ '' '' @ show_int j) = PollCmd (PollVote i j) \<and>
    parse_command (''/comment '' @ show_int i @ '' '' @ t) = TimelineCmd (Comment i t) \<and>
    parse_command (''/channel sub '' @ show_int i) = ChannelCmd (ChannelSub i) \<and>
    parse_command (''/deletepost '' @ show_int i) = TimelineCmd (DeletePost i)"
proof (intro conjI)
  note two = trim_two_words [OF assms(2,3)] and number = trim_command [OF trim_show_int show_int_nonempty]
    and words = splitn_word numeral_eq_Suc
  have i: "parse_i64 (show_int i) = Some i" and j: "parse_i64 (show_int j) = Some j"
    by (rule parse_i64_show; fact)+
  show "parse_command (''/msg '' @ u @ '' '' @ t) = Msg u t"
    using two [of "''msg''" u] assms(1) by (subst parse_command_prefix(1) [OF _ refl]) (simp_all add: parse_two_def words)
  show "parse_command (''/group send '' @ u @ '' '' @ t) = GroupCmd (GroupSend u t)"
    using two [of "''group send''" u] assms(1)
      splitn_word(1) [of "CHR '' ''" "''send''" 1 "u @ CHR '' '' # t"]
    by (subst parse_command_prefix(3) [of _ "''send '' @ u @ '' '' @ t"]) (simp_all add: parse_group_def words)
  show "parse_command (''/edit '' @ show_nat k @ '' '' @ t) = Edit k t"
    using two [of "''edit''" "show_nat k"] parse_u64_show [OF assms(8)]
    by (subst parse_command_prefix(2) [OF _ refl]) (simp_all add: parse_edit_def words show_nat_no_blank)
  show "parse_command (''/poll vote '' @ show_int i @ '' '' @ show_int j) = PollCmd (PollVote i j)"
    using number [of "''poll vote '' @ show_int i" j]
      splitn_word(1) [of "CHR '' ''" "''vote''" 2 "show_int i @ CHR '' '' # show_int j"]
    by (subst parse_command_prefix(5) [of _ "''vote '' @ show_int i @ '' '' @ show_int j"])
      (simp_all add: parse_poll_def words show_int_no_blank with_i64_def i j)
  show "parse_command (''/comment '' @ show_int i @ '' '' @ t) = TimelineCmd (Comment i t)"
    using two [of "''comment''" "show_int i"]
    by (subst parse_command_prefix(8) [OF _ refl]) (simp_all add: parse_two_def words show_int_no_blank with_i64_def i)
  show "parse_command (''/channel sub '' @ show_int i) = ChannelCmd (ChannelSub i)"
    using number [of "''channel sub''" i] splitn_word(1) [of "CHR '' ''" "''sub''" 1 "show_int i"]
    by (subst parse_command_prefix(4) [of _ "''sub '' @ show_int i"])
      (simp_all add: parse_channel_def words show_int_no_blank with_i64_def i)
  show "parse_command (''/deletepost '' @ show_int i) = TimelineCmd (DeletePost i)"
    using number [of "''deletepost''" i] by (subst parse_command_prefix(7) [OF _ refl]) (simp_all add: with_i64_def i)
qed

theorem console_roundtrip_witness:
  "parse_command ''/msg bob Hello Bob!'' = Msg ''bob'' ''Hello Bob!'' \<and>
   parse_command (''/poll vote '' @ show_int 7 @ '' '' @ show_int 2) = PollCmd (PollVote 7 2)"
proof -
  have "trim ''Hello Bob!'' = ''Hello Bob!''"
    by (simp add: trimmed_iff strip_one_None starts_with_def white_space_def)
  then show ?thesis using console_roundtrip [of "''bob''" "''Hello Bob!''" 7 2 0] by simp
qed

section \<open>Where words are cut\<close>

text \<open>A moment of two or more words is never posted on one's own timeline, although the help
  shows \<open>/moment <text>\<close> for that: the first word is taken for a user, the request posts the remaining
  words on that user's wall, and the first word is lost from the text.\<close>

theorem moment_goes_to_first_word:
  assumes "CHR '' '' \<notin> set u" and "trim (u @ '' '' @ t) = u @ '' '' @ t" and "t \<noteq> []"
  shows "run_command co n (parse_command (''/moment '' @ u @ '' '' @ t)) (c, files, w) =
    (case ask (co_env co) (co_net co) ''Failed to post''
       (JObject [(''cmd'', JString ''create_post''), (''user_id'', JString (c_user_id c)), (''content'', JString t),
                 (''target_user_id'', JString u)]) w of
       (Inl e, w') \<Rightarrow> Some (Failed e, c, files, w')
     | (Inr resp, w') \<Rightarrow> Some (ShownId (show_int (data_i64 ''post_id'' resp)), c, files, w'))"
proof -
  have "trim (''/moment '' @ u @ '' '' @ t) = ''/moment '' @ u @ '' '' @ t"
    using trim_command [OF assms(2), of "''moment''"] by simp
  then have "parse_command (''/moment '' @ u @ '' '' @ t) = parse_moment (u @ '' '' @ t)"
    by (rule parse_command_prefix(6)) simp
  also have "\<dots> = TimelineCmd (Moment t (Some u))"
    using assms by (simp add: parse_moment_def)
  finally show ?thesis
    by (simp add: run_command_def run_timeline_def on_relay_def post_to_timeline_def map_reply_def show_result_def
        Let_def split: sum.split prod.split)
qed

theorem moment_goes_to_first_word_witness:
  "run_command demo_console 0 (parse_command ''/moment hello world'') (demo_client ''alice'', \<lambda>_. None, ()) =
   Some (ShownId ''0'', demo_client ''alice'', \<lambda>_. None, ())"
proof -
  have "trim (''hello'' @ '' '' @ ''world'') = ''hello'' @ '' '' @ ''world''"
    by (simp add: trimmed_iff strip_one_None starts_with_def white_space_def)
  from moment_goes_to_first_word [OF _ this, of demo_console 0 "demo_client ''alice''" "\<lambda>_. None" "()"]
  show ?thesis
    by (simp add: ask_def demo_console_def demo_net_def resp_ok_def json_index_def data_i64_def unwrap_or_def
        show_int_def show_nat.simps dec_digit_def)
qed

text \<open>The question and options of a new poll end at the first blank, although the help shows
  them as free text between bars: a question with a blank is always refused, and of options with blanks
  only the first words arrive, without any word of warning.\<close>

theorem poll_create_cut_at_blank:
  assumes "CHR '' '' \<notin> set a" and "trim b = b" and "b \<noteq> []"
  shows "run_command co n (parse_command (''/poll create '' @ a @ '' '' @ b)) s =
    (if length (split_on (CHR ''|'') a) < 3 then Some (Usage, s)
     else run_command co n (PollCmd (PollCreate (hd (split_on (CHR ''|'') a)) (tl (split_on (CHR ''|'') a)))) s)"
proof -
  have "trim (''/poll create '' @ a @ '' '' @ b) = ''/poll create '' @ a @ '' '' @ b"
    using trim_command [OF assms(2,3), of "''poll create '' @ a"] by simp
  then have "parse_command (''/poll create '' @ a @ '' '' @ b) = parse_poll (''create '' @ a @ '' '' @ b)"
    by (rule parse_command_prefix(5)) simp
  also have "\<dots> = (if length (split_on (CHR ''|'') a) < 3 then Invalid
      else PollCmd (PollCreate (hd (split_on (CHR ''|'') a)) (tl (split_on (CHR ''|'') a))))"
    using assms(1) splitn_word(1) [of "CHR '' ''" "''create''" 2 "a @ CHR '' '' # b"]
    by (simp add: parse_poll_def splitn_word numeral_eq_Suc Let_def)
  finally show ?thesis by (simp add: run_command_def)
qed

theorem poll_create_cut_at_blank_witness:
  "run_command demo_console 0 (parse_command ''/poll create Tea or coffee?|Tea|Coffee'') (demo_client ''alice'', \<lambda>_. None, ()) =
   Some (Usage, demo_client ''alice'', \<lambda>_. None, ())"
proof -
  have "trim ''or coffee?|Tea|Coffee'' = ''or coffee?|Tea|Coffee''"
    by (simp add: trimmed_iff strip_one_None starts_with_def white_space_def)
  from poll_create_cut_at_blank [OF _ this, of "''Tea''" demo_console 0 "(demo_client ''alice'', \<lambda>_. None, ())"]
  show ?thesis by simp
qed

end
