(* ===== verification/Client_Invariant.thy ===== *)
theory Client_Invariant
  imports Cli_Console
begin

text \<open>
  What the commands of the client do to its state, whatever the relay answers. The locale lists the
  primitive changes the operations are made of; a reflexive and transitive relation that contains them
  holds between the states before and after every command. The interpretations give the invariant of
  the client and what it keeps for good.
\<close>

section \<open>Primitive changes\<close>

text \<open>The secret of a call is the one of its own key pair and the key of the peer.\<close>

definition call_ok :: "prims \<Rightarrow> ActiveCall option \<Rightarrow> bool" where
  "call_ok pr a \<longleftrightarrow>
     (\<forall>call s. a = Some call \<and> ca_shared_media_secret call = Some s \<longrightarrow>
        (\<exists>pk. ca_peer_media_key call = Some pk \<and> agree_ok pr (ca_media_key_pair call) pk = Some s))"

text \<open>A file that is being received: no chunk twice, and not all chunks there.\<close>

definition pending_ok :: "PendingFile \<Rightarrow> bool" where
  "pending_ok p \<longleftrightarrow> distinct (map fst (pf_received_chunks p)) \<and> length (pf_received_chunks p) < pf_total_chunks p"

text \<open>A sent message keeps recipient and time; a log entry keeps everything but the mark.\<close>

definition same_sent :: "SentMessage \<Rightarrow> SentMessage \<Rightarrow> bool" where
  "same_sent a b \<longleftrightarrow> sm_recipient b = sm_recipient a \<and> SentMessage.sm_timestamp b = SentMessage.sm_timestamp a"

definition same_entry :: "MessageRecord \<Rightarrow> MessageRecord \<Rightarrow> bool" where
  "same_entry a b \<longleftrightarrow> b = a \<or> b = a\<lparr>mr_edited := True\<rparr>"

text \<open>Entries may change as allowed, and new ones come at the end.\<close>

definition grown :: "('a \<Rightarrow> 'a \<Rightarrow> bool) \<Rightarrow> 'a list \<Rightarrow> 'a list \<Rightarrow> bool" where
  "grown same xs ys \<longleftrightarrow> length xs \<le> length ys \<and> (\<forall>i<length xs. same (xs ! i) (ys ! i))"

lemma grown_refl: "(\<And>x. same x x) \<Longrightarrow> grown same xs xs"
  by (simp add: grown_def)

lemma grown_trans:
  "(\<And>x y z. same x y \<Longrightarrow> same y z \<Longrightarrow> same x z) \<Longrightarrow> grown same xs ys \<Longrightarrow> grown same ys zs \<Longrightarrow> grown same xs zs"
  by (force simp: grown_def)

lemma grown_append: "(\<And>x. same x x) \<Longrightarrow> grown same xs (xs @ ys)"
  by (simp add: grown_def nth_append)

lemma same_sent_refl: "same_sent x x"
  by (simp add: same_sent_def)

lemma same_entry_refl: "same_entry x x"
  by (simp add: same_entry_def)

lemma length_update_first [simp]: "length (update_first P f xs) = length xs"
  by (induction xs) auto

lemma update_first_nth: "i < length xs \<Longrightarrow> update_first P f xs ! i = xs ! i \<or> update_first P f xs ! i = f (xs ! i)"
  by (induction xs arbitrary: i) (auto simp: nth_Cons split: nat.splits)

lemma grown_update_first:
  assumes "\<And>x. same x x" and "\<And>x. same x (f x)"
  shows "grown same xs (update_first P f xs)"
  unfolding grown_def using assms update_first_nth [of _ xs P f] by (metis length_update_first order_refl)

lemma grown_rev: "length xs = length ys \<Longrightarrow> grown same (rev xs) (rev ys) \<longleftrightarrow> grown same xs ys"
proof -
  have "grown same (rev xs) (rev ys)" if "length xs = length ys" "grown same xs ys" for xs ys :: "'a list"
    using that by (auto simp: grown_def rev_nth)
  from this [of xs ys] this [of "rev xs" "rev ys"] show "length xs = length ys \<Longrightarrow> ?thesis" by auto
qed

section \<open>The interface\<close>

locale client_relation =
  fixes pr :: prims and R :: "TinTinClient \<Rightarrow> TinTinClient \<Rightarrow> bool"
  assumes R_refl: "R c c"
    and R_trans: "R a b \<Longrightarrow> R b c \<Longrightarrow> R a c"
    and session_added: "R c (c\<lparr>c_sessions := SessionStore_add s (c_sessions c)\<rparr>)"
    and session_put: "SessionStore_get_mut (c_sessions c) u d = Some (s, put) \<Longrightarrow> session_key s' = session_key s \<Longrightarrow>
      R c (c\<lparr>c_sessions := put s'\<rparr>)"
    and sent_grown: "grown same_sent (c_sent_messages c) ms \<Longrightarrow> R c (c\<lparr>c_sent_messages := ms\<rparr>)"
    and log_grown: "grown same_entry (c_chat_log c) l \<Longrightarrow> R c (c\<lparr>c_chat_log := l\<rparr>)"
    and group_put: "gi_group_id i = g \<Longrightarrow> R c (c\<lparr>c_groups := insert_or_replace fst (g, i) (c_groups c)\<rparr>)"
    and group_gone: "R c (c\<lparr>c_groups := delete_where P (c_groups c)\<rparr>)"
    and groups_synced: "R c (c\<lparr>c_groups := fold (\<lambda>i. insert_or_replace fst (gi_group_id i, i)) infos []\<rparr>)"
    and channel_put: "R c (c\<lparr>c_channels := insert_or_replace fst x (c_channels c)\<rparr>)"
    and channel_gone: "R c (c\<lparr>c_channels := delete_where Q (c_channels c)\<rparr>)"
    and file_put: "((\<And>p. map_of (c_pending_files c) f = Some p \<Longrightarrow> pending_ok p) \<Longrightarrow> pending_ok q) \<Longrightarrow>
      R c (c\<lparr>c_pending_files := insert_or_replace fst (f, q) (c_pending_files c)\<rparr>)"
    and file_gone: "R c (c\<lparr>c_pending_files := delete_where S (c_pending_files c)\<rparr>)"
    and call_set: "(call_ok pr (c_active_call c) \<Longrightarrow> call_ok pr ac) \<Longrightarrow> R c (c\<lparr>c_active_call := ac\<rparr>)"
begin

lemma after_sent: "R c d \<Longrightarrow> ms = c_sent_messages d @ [m] \<Longrightarrow> R c (d\<lparr>c_sent_messages := ms\<rparr>)"
  by (rule R_trans) (auto intro: sent_grown grown_append same_sent_refl)

lemma after_logged: "R c d \<Longrightarrow> l = c_chat_log d @ [x] \<Longrightarrow> R c (d\<lparr>c_chat_log := l\<rparr>)"
  by (rule R_trans) (auto intro: log_grown grown_append same_entry_refl)

lemma record_message_R: "record_message fs now p t out g gn ch chn (c, files) = (c', files') \<Longrightarrow> R c c'"
  by (auto simp: record_message_def Let_def intro!: after_logged R_refl)

lemma push_sent_R: "push_sent ce now r t (c, files) = (c', files') \<Longrightarrow> R c c'"
  by (auto simp: push_sent_def Let_def intro!: after_sent R_refl)

lemma encrypt_in_store_R:
  assumes "encrypt_in_store q n r p (c_sessions c) = Some (x, s, ss)"
  shows "R c (c\<lparr>c_sessions := ss\<rparr>)"
  using assms
  by (auto simp: encrypt_in_store_def split: option.splits prod.splits
      intro!: session_put elim: Session_encrypt_key)

lemma get_or_create_session_R:
  "get_or_create_session ce net dr r s = Some (x, s') \<Longrightarrow> R (fst s) (fst s')"
  by (auto simp: get_or_create_session_def split: option.splits prod.splits sum.splits
      intro: R_refl session_added)

lemma seal_for_R:
  assumes "seal_for ce net dr r p s = Some (x, s')"
  shows "R (fst s) (fst s')"
proof (cases "get_or_create_session ce net dr r s")
  case (Some y)
  then obtain q c files w where y: "get_or_create_session ce net dr r s = Some (q, c, files, w)" by (cases y) auto
  have g: "R (fst s) c" using get_or_create_session_R [OF y] by simp
  show ?thesis
  proof (cases q)
    case (Inl e)
    with assms y g show ?thesis by (auto simp: seal_for_def)
  next
    case (Inr new)
    with assms y obtain z session ss where e: "encrypt_in_store (ce_prims ce) (dr_nonce dr) r p (c_sessions c) = Some (z, session, ss)"
      by (auto simp: seal_for_def split: option.splits)
    have "fst s' = c\<lparr>c_sessions := ss\<rparr>"
      using assms y Inr e by (auto simp: seal_for_def Let_def split: sum.splits if_splits)
    with R_trans [OF g encrypt_in_store_R [OF e]] show ?thesis by simp
  qed
qed (use assms in \<open>simp add: seal_for_def\<close>)

lemma send_message_R:
  assumes "send_message ce net dr r t s = Some (x, s')"
  shows "R (fst s) (fst s')"
proof -
  let ?seal = "if r = c_user_id (fst s) then Some (Inr (as_bytes t, Normal), s) else send_encrypted ce net dr r t s"
  obtain q c files w where q: "?seal = Some (q, c, files, w)"
    using assms by (cases ?seal) (auto simp: send_message_def)
  have g: "R (fst s) c"
    using q seal_for_R [of ce net dr r "as_bytes t" s q "(c, files, w)"]
    by (auto simp: send_encrypted_def R_refl split: if_splits)
  show ?thesis
    using assms g unfolding send_message_def q
    by (auto simp: Let_def record_message_def split: sum.splits prod.splits if_splits
        intro!: after_logged after_sent)
qed

lemma send_payload_R: "send_payload ce net dr p v s = Some (x, s') \<Longrightarrow> R (fst s) (fst s')"
  by (auto simp: send_payload_def R_refl split: sum.splits dest: send_message_R)

lemma send_piece_R: "send_piece ce net dr r p s = Some (x, s') \<Longrightarrow> R (fst s) (fst s')"
  by (auto simp: send_piece_def split: option.splits sum.splits prod.splits dest: seal_for_R)

lemma send_to_members_R: "send_to_members ce net drs i p ms s = Some (x, s') \<Longrightarrow> R (fst s) (fst s')"
proof (induction ms arbitrary: i s)
  case (Cons m ms)
  then obtain y s1 where p: "send_piece ce net (drs i) m p s = Some (y, s1)" by (auto split: option.splits)
  show ?case
  proof (cases y)
    case (Inl e)
    with Cons.prems p send_piece_R [OF p] show ?thesis by simp
  next
    case (Inr u)
    with Cons.prems p have "send_to_members ce net drs (Suc i) p ms s1 = Some (x, s')" by simp
    from R_trans [OF send_piece_R [OF p] Cons.IH [OF this]] show ?thesis .
  qed
qed (auto intro: R_refl)

text \<open>What a fan-out does after its pieces are sent.\<close>

lemma fanout_R:
  assumes "send_to_members ce net drs i p ms (c, files, w) = Some (y, c1, files1, w1)"
    and "record_message fs now x t out g gn ch chn (push_sent ce now' r t' (c1, files1)) = (c3, files3)"
  shows "R c c3"
proof -
  obtain c2 files2 where p: "push_sent ce now' r t' (c1, files1) = (c2, files2)" by fastforce
  have "R c c1" using send_to_members_R [OF assms(1)] by simp
  from R_trans [OF R_trans [OF this push_sent_R [OF p]]] record_message_R [OF assms(2) [unfolded p]]
  show ?thesis .
qed

lemma send_group_message_R: "send_group_message ce net dr drs g t s = Some (x, s') \<Longrightarrow> R (fst s) (fst s')"
  by (auto simp: send_group_message_def Let_def R_refl split: option.splits sum.splits prod.splits if_splits
      dest: send_message_R send_to_members_R intro: fanout_R)

lemma send_channel_message_R: "send_channel_message ce net dr drs g t s = Some (x, s') \<Longrightarrow> R (fst s) (fst s')"
  by (auto simp: send_channel_message_def Let_def R_refl split: option.splits sum.splits prod.splits if_splits
      dest: send_to_members_R intro: fanout_R)

lemma edit_for_R: "edit_for ce net wr dr r p s = Some (x, s') \<Longrightarrow> R (fst s) (fst s')"
  by (auto simp: edit_for_def Let_def R_refl split: option.splits sum.splits prod.splits if_splits
      dest!: encrypt_in_store_R)

lemma edit_for_members_R: "edit_for_members ce net wr drs i p ms s = Some (x, s') \<Longrightarrow> R (fst s) (fst s')"
proof (induction ms arbitrary: i s)
  case (Cons m ms)
  show ?case
  proof (cases "m = c_user_id (fst s)")
    case True
    with Cons show ?thesis by simp
  next
    case False
    then obtain y s1 where p: "edit_for ce net wr (drs i) m p s = Some (y, s1)"
      using Cons.prems by (auto split: option.splits)
    show ?thesis
    proof (cases y)
      case (Inl e)
      with Cons.prems p False edit_for_R [OF p] show ?thesis by simp
    next
      case (Inr u)
      with Cons.prems p False have "edit_for_members ce net wr drs (Suc i) p ms s1 = Some (x, s')" by simp
      from R_trans [OF edit_for_R [OF p] Cons.IH [OF this]] show ?thesis .
    qed
  qed
qed (auto intro: R_refl)

lemma edit_send_R: "edit_send ce net wr drs r t p s = Some (x, s') \<Longrightarrow> R (fst s) (fst s')"
  by (auto simp: edit_send_def R_refl split: sum.splits prod.splits if_splits dest: edit_for_R edit_for_members_R)

lemma mark_edited_R:
  assumes "mark_edited ce i t (c, files) = (c', files')"
  shows "R c c'"
proof -
  let ?ms = "if i < length (c_sent_messages c)
    then (c_sent_messages c)[i := (c_sent_messages c ! i)\<lparr>sm_text := t, sm_edited := True\<rparr>] else c_sent_messages c"
  let ?l = "rev (update_first (\<lambda>r. mr_direction r = Outgoing) (\<lambda>r. r\<lparr>mr_edited := True\<rparr>) (rev (c_chat_log c)))"
  have c': "c' = c\<lparr>c_sent_messages := ?ms, c_chat_log := ?l\<rparr>"
    using assms by (simp add: mark_edited_def Let_def split: if_splits)
  have "grown same_sent (c_sent_messages c) ?ms" by (auto simp: grown_def same_sent_def nth_list_update)
  then have m: "R c (c\<lparr>c_sent_messages := ?ms\<rparr>)" by (rule sent_grown)
  have "grown same_entry (rev (c_chat_log c)) (rev ?l)"
    by (simp, rule grown_update_first) (simp_all add: same_entry_def)
  then have "grown same_entry (c_chat_log (c\<lparr>c_sent_messages := ?ms\<rparr>)) ?l"
    by (subst (asm) grown_rev) simp_all
  from R_trans [OF m log_grown [OF this]] show ?thesis by (simp add: c')
qed

lemma edit_message_R:
  assumes "edit_message ce net wr drs i t s = Some (x, s')"
  shows "R (fst s) (fst s')"
proof -
  have "R c c'" if "edit_send ce net wr drs r t p s = Some (y, c1, files1, w1)" and "mark_edited ce i t (c1, files1) = (c', files')"
    and "c = fst s" for r p y c1 files1 w1 c' files' c
    using R_trans [OF edit_send_R [OF that(1)]] mark_edited_R [OF that(2)] that(3) by simp
  with assms show ?thesis
    by (auto simp: edit_message_def Let_def R_refl split: option.splits sum.splits prod.splits if_splits
        dest: edit_send_R)
qed

lemma send_chunks_R: "send_chunks ce net drs i r vs s = Some (x, s') \<Longrightarrow> R (fst s) (fst s')"
proof (induction vs arbitrary: i s)
  case (Cons v vs)
  show ?case
  proof (cases "value_to_vec ce v")
    case (Inl e)
    with Cons.prems show ?thesis by (simp add: R_refl)
  next
    case (Inr b)
    with Cons.prems obtain y s1 where p: "send_piece ce net (drs i) r b s = Some (y, s1)" by (auto split: option.splits)
    show ?thesis
    proof (cases y)
      case (Inl e)
      with Cons.prems p Inr send_piece_R [OF p] show ?thesis by simp
    next
      fix u assume u: "y = Inr u"
      with Cons.prems p Inr have "send_chunks ce net drs (Suc i) r vs s1 = Some (x, s')" by simp
      from R_trans [OF send_piece_R [OF p] Cons.IH [OF this]] show ?thesis .
    qed
  qed
qed (auto intro: R_refl)

lemma send_file_inner_R: "send_file_inner ce me net dr drs n r f t b s = Some (x, s') \<Longrightarrow> R (fst s) (fst s')"
  by (auto simp: send_file_inner_def Let_def R_refl split: option.splits sum.splits prod.splits
      dest!: send_chunks_R intro: R_trans [OF _ push_sent_R])

lemma send_sticker_R: "send_sticker ce net dr r p i s = Some (x, s') \<Longrightarrow> R (fst s) (fst s')"
  by (auto simp: send_sticker_def split: prod.splits dest: send_payload_R)

lemma send_custom_sticker_R: "send_custom_sticker ce me net dr r n s = Some (x, s') \<Longrightarrow> R (fst s) (fst s')"
  by (auto simp: send_custom_sticker_def Let_def R_refl split: if_splits sum.splits dest: send_payload_R)

text \<open>Calls.\<close>

lemma start_call_R:
  assumes "start_call ce net dr p s = Some (x, s')"
  shows "R (fst s) (fst s')"
proof -
  obtain c files w where s: "s = (c, files, w)" by (cases s)
  show ?thesis
  proof (cases "c_active_call c = None")
    case True
    define call where "call = \<lparr>ca_peer = p, ca_call_id = c_user_id c @ ''_'' @ show_nat (dr_millis dr 2),
      ca_media_key_pair = KeyPair_generate (ce_prims ce) (dr_rng dr 1),
      ca_peer_media_key = None, ca_shared_media_secret = None, ca_state = Offering\<rparr>"
    have "R c (c\<lparr>c_active_call := Some call\<rparr>)"
      by (rule call_set) (simp add: call_ok_def call_def)
    moreover have "R (c\<lparr>c_active_call := Some call\<rparr>) (fst s')"
      using assms True by (auto simp: s start_call_def Let_def call_def dest!: send_payload_R)
    ultimately show ?thesis by (simp add: s) (rule R_trans)
  qed (use assms in \<open>auto simp: s start_call_def R_refl\<close>)
qed

lemma call_gone: "R c d \<Longrightarrow> R c (d\<lparr>c_active_call := None\<rparr>)"
  by (rule R_trans) (auto intro: call_set simp: call_ok_def)

lemma end_call_R: "end_call ce net dr y s = Some (x, s') \<Longrightarrow> R (fst s) (fst s')"
  using call_gone
  by (fastforce simp: end_call_def Let_def R_refl split: option.splits sum.splits dest!: send_payload_R)

lemma send_media_chunks_R:
  "send_media_chunks ce net drs p i k n j bs s = Some (x, s') \<Longrightarrow> R (fst s) (fst s')"
proof (induction bs arbitrary: j s)
  case (Cons b bs)
  show ?case
  proof (cases "encrypt (ce_prims ce) (dr_nonce (drs (2 * j))) b k")
    case (Inl e)
    with Cons.prems show ?thesis by (simp add: R_refl)
  next
    case (Inr d)
    with Cons.prems obtain y s1 where
      p: "send_payload ce net (drs (2 * j + 1)) p (media_chunk_payload ce i n j (fst d)) s = Some (y, s1)"
      by (cases d) (auto split: option.splits)
    show ?thesis
    proof (cases y)
      case (Inl e)
      with Cons.prems p Inr send_payload_R [OF p] show ?thesis by (cases d) simp
    next
      fix u assume u: "y = Inr u"
      with Cons.prems p Inr have "send_media_chunks ce net drs p i k n (Suc j) bs s1 = Some (x, s')" by (cases d) simp
      from R_trans [OF send_payload_R [OF p] Cons.IH [OF this]] show ?thesis .
    qed
  qed
qed (auto intro: R_refl)

lemma stream_audio_R:
  assumes "stream_audio ce dv net drs fin call k path b s = Some (x, s')"
  shows "R (fst s) (fst s')"
proof -
  have "R c c'" if "send_media_chunks ce net drs p i k n 0 bs s = Some (y, s1)"
    and "send_payload ce net fin p v s1 = Some (z, c', f, w)" and "c = fst s"
    for p i k n bs y s1 v z c' f w c
    using R_trans [OF send_media_chunks_R [OF that(1)] send_payload_R [OF that(2)]] that(3) by simp
  with assms show ?thesis
    by (auto simp: stream_audio_def Let_def split: option.splits sum.splits prod.splits dest: send_media_chunks_R)
qed

lemma send_call_media_R: "send_call_media ce me dv net drs fin n s = Some (x, s') \<Longrightarrow> R (fst s) (fst s')"
  by (auto simp: send_call_media_def R_refl split: option.splits sum.splits prod.splits if_splits dest!: stream_audio_R)

text \<open>Received messages.\<close>

lemma process_file_chunk_R:
  assumes "process_file_chunk cd fs sender p (c, files) = Some (h, c', files')"
  shows "R c c'"
proof -
  have d: "delete_where (\<lambda>x. fst x = f) (insert_or_replace fst (f, q) xs) = delete_where (\<lambda>x. fst x = f) xs"
    for f q and xs :: "(string \<times> PendingFile) list"
    by (simp add: insert_or_replace_def delete_where_def)
  have pend: "pending_ok (e\<lparr>pf_received_chunks := insert_or_replace fst ch (pf_received_chunks e)\<rparr>)"
    if "e = unwrap_or m \<lparr>pf_file_name = fn, pf_file_size = sz, pf_total_chunks = tot, pf_received_chunks = []\<rparr>"
      and "\<And>q. m = Some q \<Longrightarrow> pending_ok q"
      and "length (insert_or_replace fst ch (pf_received_chunks e)) \<noteq> pf_total_chunks e" and "pf_total_chunks e \<noteq> 0"
    for e m fn sz tot and ch :: "nat \<times> bytes"
  proof -
    have "length (insert_or_replace fst ch (pf_received_chunks e)) \<le> Suc (length (pf_received_chunks e))"
      by (simp add: insert_or_replace_def)
    moreover have "distinct (map fst (pf_received_chunks e)) \<and> length (pf_received_chunks e) < pf_total_chunks e"
      using that by (cases m) (auto simp: unwrap_or_def pending_ok_def)
    ultimately show ?thesis using that(3)
      by (auto simp: pending_ok_def intro: distinct_insert_or_replace)
  qed
  show ?thesis
    using assms
    by (auto simp: process_file_chunk_def Let_def d R_refl split: sum.splits if_splits
        intro!: file_gone file_put pend [OF refl])
qed

lemma accept_call_R:
  assumes "accept_call ce net dr i s = Some (x, s')" and "ce_prims ce = pr"
  shows "R (fst s) (fst s')"
proof -
  obtain c files w where s: "s = (c, files, w)" by (cases s)
  show ?thesis
  proof (cases "\<exists>call. c_active_call c = Some call \<and> ca_call_id call = i")
    case True
    then obtain call where call: "c_active_call c = Some call" "ca_call_id call = i" by blast
    define call1 where "call1 = call\<lparr>ca_state := Connected, ca_media_key_pair := KeyPair_generate pr (dr_rng dr 1)\<rparr>"
    define call2 where "call2 = (case ca_peer_media_key call1 of None \<Rightarrow> call1
      | Some pk \<Rightarrow> call1\<lparr>ca_shared_media_secret := agree_ok pr (KeyPair_generate pr (dr_rng dr 1)) pk\<rparr>)"
    have "call_ok pr (Some call2)" if "call_ok pr (c_active_call c)"
      using that by (auto simp: call call_ok_def call2_def call1_def split: option.splits)
    then have "R c (c\<lparr>c_active_call := Some call2\<rparr>)" by (rule call_set)
    moreover have "\<exists>v. send_payload ce net dr (ca_peer call) v (c\<lparr>c_active_call := Some call2\<rparr>, files, w) = Some (x, s')"
      using assms call unfolding s accept_call_def Let_def call2_def call1_def One_nat_def assms(2) by (intro exI) simp
    then have "R (c\<lparr>c_active_call := Some call2\<rparr>) (fst s')" by (auto dest: send_payload_R)
    ultimately show ?thesis by (simp add: s) (rule R_trans)
  next
    case False
    with assms show ?thesis by (auto simp: s accept_call_def R_refl split: option.splits)
  qed
qed

lemma process_call_signal_R: "process_call_signal pr cd rng sender p c = (h, c') \<Longrightarrow> R c c'"
  by (auto simp: process_call_signal_def call_ok_def R_refl split: sum.splits option.splits if_splits
      intro!: call_set)

lemma record_decrypted_R: "record_decrypted cd fs now sender p (c, files) = (c', files') \<Longrightarrow> R c c'"
  by (auto simp: record_decrypted_def Let_def split: prod.splits dest: record_message_R)

lemma apply_receipt_R: "apply_receipt ce sender rc (c, files) = (c', files') \<Longrightarrow> R c c'"
  by (auto simp: apply_receipt_def Let_def intro!: sent_grown grown_update_first simp: same_sent_def)

lemma handle_plaintext_R:
  assumes "handle_plaintext ce net dr pk env p (c, files, w) = Some s'" and "ce_prims ce = pr"
  shows "R c (fst s')"
proof -
  obtain h c1 where h: "process_call_signal pr (ce_codecs ce) (dr_rng dr 0) (env_sender_id env) p c = (h, c1)" by fastforce
  note r1 = process_call_signal_R [OF h]
  show ?thesis
  proof (cases h)
    case True
    with assms h r1 show ?thesis by (auto simp: handle_plaintext_def Let_def)
  next
    case False
    then obtain files1 hd' c2 files2 where
      f: "process_file_chunk (ce_codecs ce) (ce_storage ce) (env_sender_id env) p (c1, files1) = Some (hd', c2, files2)"
      and s': "fst s' = (if hd' then c2 else fst (record_decrypted (ce_codecs ce) (ce_storage ce) (dr_millis dr 0)
        (env_sender_id env) p (c2, display_decrypted ce (dr_millis dr 2 div 1000) p files2)))"
      using assms h by (auto simp: handle_plaintext_def Let_def split: option.splits prod.splits if_splits)
    note r2 = R_trans [OF r1 process_file_chunk_R [OF f]]
    obtain c3 files3 where "record_decrypted (ce_codecs ce) (ce_storage ce) (dr_millis dr 0) (env_sender_id env) p
        (c2, display_decrypted ce (dr_millis dr 2 div 1000) p files2) = (c3, files3)" by fastforce
    with r2 R_trans [OF r2 record_decrypted_R [OF this]] s' show ?thesis by simp
  qed
qed

lemma Session_decrypt_key: "Session_decrypt q s m = Some (x, s') \<Longrightarrow> session_key s' = session_key s"
  by (auto simp: Session_decrypt_def bind_eq_Some_conv session_key_def)

lemma receive_prekey_R:
  assumes "receive_prekey ce net dr env s = Some (x, s')" and "ce_prims ce = pr"
  shows "R (fst s) (fst s')"
proof -
  obtain c files w where s: "s = (c, files, w)" by (cases s)
  have "R c (fst s1)" if "handle_plaintext ce net dr True env p (c\<lparr>c_sessions := SessionStore_add y (c_sessions c)\<rparr>, files, w) = Some s1"
    for p y s1
    using R_trans [OF session_added handle_plaintext_R [OF that assms(2)]] .
  with assms(1) show ?thesis
    by (auto simp: s receive_prekey_def R_refl split: sum.splits option.splits prod.splits)
qed

lemma receive_normal_R:
  assumes "receive_normal ce net dr env s = Some (x, s')" and "ce_prims ce = pr"
  shows "R (fst s) (fst s')"
proof -
  obtain c files w where s: "s = (c, files, w)" by (cases s)
  have put: "R c (c\<lparr>c_sessions := put y'\<rparr>)"
    if "SessionStore_get_mut (c_sessions c) u d = Some (y, put)" and "Session_decrypt q y m = Some (r, y')" for u d y put q m r y'
    by (rule session_put [OF that(1) Session_decrypt_key [OF that(2)]])
  have "R c (fst s1)" if "handle_plaintext ce net dr False env p (c\<lparr>c_sessions := put y'\<rparr>, files, w) = Some s1"
    and "SessionStore_get_mut (c_sessions c) u d = Some (y, put)" and "Session_decrypt q y m = Some (r, y')"
    for p put y' s1 u d y q m r
    using R_trans [OF put [OF that(2,3)] handle_plaintext_R [OF that(1) assms(2)]] .
  with assms(1) put show ?thesis
    by (auto simp: s receive_normal_def Let_def R_refl split: sum.splits option.splits prod.splits if_splits
        dest: record_message_R)
qed

lemma receive_message_R:
  "receive_message ce net dr env s = Some (x, s') \<Longrightarrow> ce_prims ce = pr \<Longrightarrow> R (fst s) (fst s')"
  by (auto simp: receive_message_def Let_def R_refl split: MessageType.splits sum.splits prod.splits
      dest: receive_prekey_R receive_normal_R apply_receipt_R)

lemma receive_loop_R:
  "receive_loop ce net drs i vs s = Some (x, s') \<Longrightarrow> ce_prims ce = pr \<Longrightarrow> R (fst s) (fst s')"
proof (induction vs arbitrary: i s)
  case (Cons v vs)
  show ?case
  proof (cases "envelope_from_value ce v")
    case (Inl e)
    with Cons.prems show ?thesis by (simp add: R_refl)
  next
    case (Inr env)
    with Cons.prems obtain y s1 where p: "receive_message ce net (drs i) env s = Some (y, s1)" by (auto split: option.splits)
    note r = receive_message_R [OF p Cons.prems(2)]
    show ?thesis
    proof (cases y)
      case (Inl e)
      with Cons.prems p Inr r show ?thesis by simp
    next
      fix u assume u: "y = Inr u"
      with Cons.prems p Inr have "receive_loop ce net drs (Suc i) vs s1 = Some (x, s')" by simp
      from R_trans [OF r Cons.IH [OF this Cons.prems(2)]] show ?thesis .
    qed
  qed
qed (auto intro: R_refl)

lemma receive_messages_R:
  "receive_messages ce net drs s = Some (x, s') \<Longrightarrow> ce_prims ce = pr \<Longrightarrow> R (fst s) (fst s')"
  by (auto simp: receive_messages_def Let_def R_refl split: sum.splits prod.splits if_splits dest: receive_loop_R)

end

end
