(* ===== verification/Client_Commands.thy ===== *)
theory Client_Commands
  imports Client_Invariant Console_Properties
begin

text \<open>
  The rest of the commands in the interface of \<open>Client_Invariant\<close>, up to whole sessions of typed lines
  and to the end of the loop, and the three interpretations: the invariant of the client, what it keeps, and its sessions.
\<close>

context client_relation
begin

section \<open>Requests\<close>

lemma ask_then_R:
  assumes "ask_then ce net failed request f save s = (x, s')" and "\<And>resp c. R c (snd (f resp c))"
  shows "R (fst s) (fst s')"
proof -
  obtain c files w where s: "s = (c, files, w)" by (cases s) auto
  obtain q w' where q: "ask ce net failed request w = (q, w')" by (cases "ask ce net failed request w")
  have "fst s' = c \<or> (\<exists>resp y. f resp c = (y, fst s'))"
    using assms(1) by (cases q) (auto simp: ask_then_def s q Let_def split: prod.splits)
  with assms(2) [where c = c] show ?thesis by (auto simp: s R_refl) (metis snd_conv)
qed

lemma cli_create_group_R: "cli_create_group ce net name s = (x, s') \<Longrightarrow> R (fst s) (fst s')"
  unfolding cli_create_group_def by (erule ask_then_R) (simp add: Let_def group_put)

lemma sync_groups_R: "sync_groups ce net s = (x, s') \<Longrightarrow> R (fst s) (fst s')"
  unfolding sync_groups_def by (erule ask_then_R) (simp add: synced_groups_def groups_synced)

lemma cli_join_group_R: "cli_join_group ce net g s = (x, s') \<Longrightarrow> R (fst s) (fst s')"
  unfolding cli_join_group_def
  by (auto split: prod.splits sum.splits intro: R_refl dest!: sync_groups_R)

lemma cli_leave_group_R: "cli_leave_group ce net g s = (x, s') \<Longrightarrow> R (fst s) (fst s')"
  unfolding cli_leave_group_def by (erule ask_then_R) (simp add: group_gone)

lemma cli_create_channel_R: "cli_create_channel ce net name s = (x, s') \<Longrightarrow> R (fst s) (fst s')"
  unfolding cli_create_channel_def by (erule ask_then_R) (simp add: Let_def channel_put)

lemma cli_subscribe_channel_R: "cli_subscribe_channel ce net i s = (x, s') \<Longrightarrow> R (fst s) (fst s')"
  unfolding cli_subscribe_channel_def by (erule ask_then_R) (simp add: channel_put)

lemma cli_unsubscribe_channel_R: "cli_unsubscribe_channel ce net i s = (x, s') \<Longrightarrow> R (fst s) (fst s')"
  unfolding cli_unsubscribe_channel_def by (erule ask_then_R) (simp add: channel_gone)

lemma channels_put: "R c (c\<lparr>c_channels := fold (insert_or_replace fst) xs (c_channels c)\<rparr>)"
proof (induction xs arbitrary: c)
  case (Cons x xs)
  have "R c (c\<lparr>c_channels := insert_or_replace fst x (c_channels c)\<rparr>)" by (rule channel_put)
  from R_trans [OF this Cons.IH] show ?case by simp
qed (simp add: R_refl)

lemma cli_list_my_channels_R: "cli_list_my_channels ce net s = (x, s') \<Longrightarrow> R (fst s) (fst s')"
  unfolding cli_list_my_channels_def by (erule ask_then_R) (simp add: channels_put)

lemma cli_create_poll_R: "cli_create_poll ce net dr q os r s = Some (x, s') \<Longrightarrow> R (fst s) (fst s')"
  unfolding cli_create_poll_def Let_def
  by (auto split: prod.splits sum.splits option.splits intro: R_refl dest!: send_payload_R)

section \<open>The branches of the loop\<close>

lemma on_relay_R: "on_relay f op s = Some (x, s') \<Longrightarrow> R (fst s) (fst s')"
  by (auto simp: on_relay_def R_refl split: prod.splits)

lemma on_client_R:
  "on_client f op s = Some (x, s') \<Longrightarrow> (\<And>y t. op s = (y, t) \<Longrightarrow> R (fst s) (fst t)) \<Longrightarrow> R (fst s) (fst s')"
  by (auto simp: on_client_def split: prod.splits)

lemma on_session_R:
  "on_session f op s = Some (x, s') \<Longrightarrow> (\<And>y t. op s = Some (y, t) \<Longrightarrow> R (fst s) (fst t)) \<Longrightarrow> R (fst s) (fst s')"
  by (auto simp: on_session_def split: option.splits prod.splits)

lemmas run_R = on_relay_R on_client_R on_session_R

lemma run_story_R: "run_story co n cmd s = Some (x, s') \<Longrightarrow> R (fst s) (fst s')"
  by (auto simp: run_story_def Let_def R_refl elim: on_relay_R
      split: story_command.splits prod.splits sum.splits if_splits)

lemma run_group_R: "run_group co n cmd s = Some (x, s') \<Longrightarrow> R (fst s) (fst s')"
  by (cases cmd) (auto simp: run_group_def Let_def
      elim: run_R cli_create_group_R cli_join_group_R cli_leave_group_R send_group_message_R)

lemma run_channel_R: "run_channel co n cmd s = Some (x, s') \<Longrightarrow> R (fst s) (fst s')"
  by (cases cmd) (auto simp: run_channel_def Let_def
      elim: run_R cli_create_channel_R cli_subscribe_channel_R cli_unsubscribe_channel_R
        send_channel_message_R cli_list_my_channels_R)

lemma run_poll_R: "run_poll co n cmd s = Some (x, s') \<Longrightarrow> R (fst s) (fst s')"
  by (cases cmd) (auto simp: run_poll_def Let_def elim: run_R cli_create_poll_R)

lemma run_sticker_R: "run_sticker co n cmd s = Some (x, s') \<Longrightarrow> R (fst s) (fst s')"
  by (cases cmd) (auto simp: run_sticker_def Let_def R_refl split: prod.splits
      elim: run_R send_custom_sticker_R send_sticker_R)

lemma run_call_R:
  "run_call co n cmd s = Some (x, s') \<Longrightarrow> ce_prims (co_env co) = pr \<Longrightarrow> R (fst s) (fst s')"
  by (cases cmd) (auto simp: run_call_def Let_def
      elim: run_R start_call_R accept_call_R end_call_R send_call_media_R)

lemma run_timeline_R: "run_timeline co n cmd s = Some (x, s') \<Longrightarrow> R (fst s) (fst s')"
  by (cases cmd) (auto simp: run_timeline_def Let_def elim: on_relay_R)

lemma send_file_R: "send_file ce me net dr drs n r p h s = Some (x, s') \<Longrightarrow> R (fst s) (fst s')"
  by (auto simp: send_file_def Let_def R_refl split: sum.splits prod.splits option.splits if_splits
      elim: send_file_inner_R)

lemma send_voice_R: "send_voice ce me net dr drs n r p s = Some (x, s') \<Longrightarrow> R (fst s) (fst s')"
  by (auto simp: send_voice_def Let_def R_refl split: sum.splits prod.splits option.splits if_splits
      elim: send_file_inner_R)

lemma run_media_R: "run_media co n cmd s = Some (x, s') \<Longrightarrow> R (fst s) (fst s')"
  by (cases cmd) (auto simp: run_media_def Let_def R_refl split: prod.splits option.splits
      elim: run_R send_file_R send_voice_R)

lemma run_command_R:
  assumes "run_command co n cmd s = Some (x, s')" and "ce_prims (co_env co) = pr"
  shows "R (fst s) (fst s')"
  using assms
  by (cases cmd) (auto simp: run_command_def Let_def R_refl split: prod.splits
      elim: run_R receive_messages_R sync_groups_R edit_message_R run_story_R run_group_R run_channel_R run_poll_R
        run_sticker_R run_call_R run_timeline_R run_media_R send_message_R)

lemma run_lines_R:
  "run_lines co n ls s = Some (outs, s') \<Longrightarrow> ce_prims (co_env co) = pr \<Longrightarrow> R (fst s) (fst s')"
proof (induction ls arbitrary: n s outs)
  case (Cons l ls)
  then obtain out s1 outs' where r: "run_command co n (parse_command l) s = Some (out, s1)"
    "run_lines co (Suc n) ls s1 = Some (outs', s')"
    by (auto split: if_splits option.splits)
  show ?case by (rule R_trans [OF run_command_R [OF r(1) Cons.prems(2)] Cons.IH [OF r(2) Cons.prems(2)]])
qed (simp add: R_refl)

text \<open>However the loop ends, and at any round of a loop that does not.\<close>

definition ends_in :: "TinTinClient \<Rightarrow> 'w ending \<Rightarrow> bool" where
  "ends_in c r \<longleftrightarrow> (case r of Goodbye s \<Rightarrow> R c (fst s) | OutputError e s \<Rightarrow> R c (fst s)
     | InputError e s \<Rightarrow> R c (fst s) | Panicked \<Rightarrow> True)"

lemma console_loop_R:
  assumes "console_loop co n ls s = Some r"
  shows "ce_prims (co_env co) = pr \<longrightarrow> ends_in (fst s) r"
proof (rule console_loop.raw_induct [OF _ assms], rule impI)
  fix loop and co :: "'a console" and n ls s r
  assume IH: "\<And>co n ls s y. loop co n ls s = Some y \<Longrightarrow> ce_prims (co_env co) = pr \<longrightarrow> ends_in (fst s) y"
    and body: "(case co_prompt_error co n of
        Some e \<Rightarrow> Some (OutputError e s)
      | None \<Rightarrow>
          (case next_line ls of
             (Inl e, rest) \<Rightarrow> Some (InputError e s)
           | (Inr line, rest) \<Rightarrow>
               (case run_command co n (parse_command line) s of
                  None \<Rightarrow> Some Panicked
                | Some (out, s') \<Rightarrow>
                    if parse_command line = Quit then Some (Goodbye s') else loop co (Suc n) rest s'))) = Some r"
    and p: "ce_prims (co_env co) = pr"
  have step: "ends_in (fst s) y" if "run_command co n cmd s = Some (out, s')" "ends_in (fst s') y" for cmd out s' y
    using that(2) run_command_R [OF that(1) p] by (auto simp: ends_in_def intro: R_trans split: ending.splits)
  consider e where "r = OutputError e s \<or> r = InputError e s" | "r = Panicked"
    | cmd out s' rest where "run_command co n cmd s = Some (out, s')"
        "r = Goodbye s' \<or> loop co (Suc n) rest s' = Some r"
    using body by (auto split: option.splits prod.splits sum.splits if_splits) blast
  then show "ends_in (fst s) r"
  proof cases
    case 3
    have "ends_in (fst s') (Goodbye s')" by (simp add: ends_in_def R_refl)
    with 3(2) IH p have "ends_in (fst s') r" by blast
    then show ?thesis by (rule step [OF 3(1)])
  qed (auto simp: ends_in_def R_refl)
qed

end

section \<open>The invariant of the client\<close>

text \<open>
  One session per user and device, maps with one entry per key and each group under its own id; a file is
  pending only while a chunk is missing; the secret of a call is the one of its own keys.
\<close>

definition client_ok :: "prims \<Rightarrow> TinTinClient \<Rightarrow> bool" where
  "client_ok pr c \<longleftrightarrow>
     store_ok (c_sessions c) \<and>
     distinct (map fst (c_groups c)) \<and> (\<forall>x\<in>set (c_groups c). gi_group_id (snd x) = fst x) \<and>
     distinct (map fst (c_channels c)) \<and>
     distinct (map fst (c_pending_files c)) \<and> (\<forall>x\<in>set (c_pending_files c). pending_ok (snd x)) \<and>
     call_ok pr (c_active_call c)"

lemma put_keys:
  assumes "SessionStore_get_mut st u d = Some (s, put)" and "session_key s' = session_key s"
  shows "map session_key (ss_sessions (put s')) = map session_key (ss_sessions st)"
  using assms by (auto simp: SessionStore_get_mut_def SessionStore_get_def split: option.splits
      intro!: replace_first_key)

lemma store_ok_put:
  "SessionStore_get_mut st u d = Some (s, put) \<Longrightarrow> session_key s' = session_key s \<Longrightarrow> store_ok (put s') = store_ok st"
  by (simp add: store_ok_def put_keys)

lemma synced_distinct: "distinct (map fst t) \<Longrightarrow> distinct (map fst (fold (\<lambda>i. insert_or_replace fst (gi_group_id i, i)) infos t))"
  by (induction infos arbitrary: t) (simp_all add: distinct_insert_or_replace)

lemma synced_keyed:
  "\<forall>x\<in>set t. gi_group_id (snd x) = fst x \<Longrightarrow>
   \<forall>x\<in>set (fold (\<lambda>i. insert_or_replace fst (gi_group_id i, i)) infos t). gi_group_id (snd x) = fst x"
proof (induction infos arbitrary: t)
  case (Cons a infos)
  then have "\<forall>x\<in>set (insert_or_replace fst (gi_group_id a, a) t). gi_group_id (snd x) = fst x"
    by (auto simp: set_insert_or_replace)
  from Cons.IH [OF this] show ?case by simp
qed simp

interpretation client_ok: client_relation pr "\<lambda>c c'. client_ok pr c \<longrightarrow> client_ok pr c'"
  for pr
proof (unfold_locales, goal_cases)
  case (2 a b c)
  then show ?case by blast
next
  case (3 c s)
  then show ?case by (simp add: client_ok_def session_store.invar_add)
next
  case (4 c u d s put s')
  then show ?case by (simp add: client_ok_def store_ok_put)
next
  case (7 i g c)
  then show ?case by (auto simp: client_ok_def set_insert_or_replace distinct_insert_or_replace)
next
  case (9 c infos)
  then show ?case using synced_keyed [of "[]" infos] by (simp add: client_ok_def synced_distinct)
next
  case (12 c f q)
  show ?case
  proof
    assume ok: "client_ok pr c"
    have "pending_ok q" by (rule 12) (use ok in \<open>auto simp: client_ok_def dest!: map_of_SomeD\<close>)
    with ok show "client_ok pr (c\<lparr>c_pending_files := insert_or_replace fst (f, q) (c_pending_files c)\<rparr>)"
      by (auto simp: client_ok_def set_insert_or_replace distinct_insert_or_replace)
  qed
next
  case (14 c ac)
  then show ?case by (simp add: client_ok_def)
qed (simp_all add: client_ok_def distinct_insert_or_replace distinct_delete_where)

section \<open>What the client keeps\<close>

text \<open>
  Name and keys; the history and the chat log only grow at the end, apart from edits, states and marks.
\<close>

definition client_keeps :: "TinTinClient \<Rightarrow> TinTinClient \<Rightarrow> bool" where
  "client_keeps c c' \<longleftrightarrow>
     c_user_id c' = c_user_id c \<and> c_identity c' = c_identity c \<and> c_signed_pre_key c' = c_signed_pre_key c \<and>
     grown same_sent (c_sent_messages c) (c_sent_messages c') \<and>
     grown same_entry (c_chat_log c) (c_chat_log c')"

lemma same_sent_trans: "same_sent a b \<Longrightarrow> same_sent b c \<Longrightarrow> same_sent a c"
  by (simp add: same_sent_def)

lemma same_entry_trans: "same_entry a b \<Longrightarrow> same_entry b c \<Longrightarrow> same_entry a c"
  by (auto simp: same_entry_def)

lemmas grown_same_refl [simp] = 
  grown_refl [where same = same_sent, OF same_sent_refl] grown_refl [where same = same_entry, OF same_entry_refl]

lemma client_keeps_trans: "client_keeps a b \<Longrightarrow> client_keeps b c \<Longrightarrow> client_keeps a c"
  by (auto simp: client_keeps_def intro: grown_trans [OF same_sent_trans] grown_trans [OF same_entry_trans])

interpretation client_keeps: client_relation pr client_keeps
  for pr
proof (unfold_locales, goal_cases)
  case (2 a b c)
  then show ?case by (rule client_keeps_trans)
qed (simp_all add: client_keeps_def)

section \<open>Sessions stay\<close>

text \<open>No command removes a session: a user the client has a session with keeps one until the program ends.\<close>

definition sessions_stay :: "TinTinClient \<Rightarrow> TinTinClient \<Rightarrow> bool" where
  "sessions_stay c c' \<longleftrightarrow>
     session_key ` set (ss_sessions (c_sessions c)) \<subseteq> session_key ` set (ss_sessions (c_sessions c'))"

lemma SessionStore_get_key:
  "SessionStore_get st u d \<noteq> None \<longleftrightarrow> (u, d) \<in> session_key ` set (ss_sessions st)"
  by (auto simp: SessionStore_get_def find_None_iff session_key_def image_iff)

lemma keys_add: "session_key ` set (ss_sessions st) \<subseteq> session_key ` set (ss_sessions (SessionStore_add s st))"
  by (force simp: SessionStore_add_def session_key_def image_iff)

lemma keys_put:
  "SessionStore_get_mut st u d = Some (s, put) \<Longrightarrow> session_key s' = session_key s \<Longrightarrow>
   session_key ` set (ss_sessions (put s')) = session_key ` set (ss_sessions st)"
  by (metis put_keys set_map)

interpretation sessions_stay: client_relation pr sessions_stay
  for pr
proof (unfold_locales, goal_cases)
  case (3 c s)
  then show ?case using keys_add by (simp add: sessions_stay_def)
next
  case (4 c u d s put s')
  then show ?case using keys_put by (simp add: sessions_stay_def)
qed (auto simp: sessions_stay_def)

section \<open>Sessions of typed lines\<close>

text \<open>A client that starts without saved files satisfies the invariant.\<close>

lemma client_ok_new: "client_ok pr (TinTinClient_new q fs rng_id rng_spk (\<lambda>_. None) u)"
  by (simp add: client_ok_def TinTinClient_new_def Let_def load_history_def load_groups_def load_channels_def
      load_chat_log_def load_from_def store_ok_new call_ok_def)

text \<open>The whole program, from a start without saved files to \<open>/quit\<close>.\<close>

lemma main_program_ok:
  assumes "main_program co parse sk rng_id rng_spk (\<lambda>_. None) (Inr name) ls w = Some (Inr (Goodbye (c, files, w')))"
  shows "client_ok (ce_prims (co_env co)) c" and "c_user_id c = trim name"
    and "c_identity c = IdentityKeyPair_generate (ce_prims (co_env co)) rng_id"
proof -
  let ?c = "TinTinClient_new (ce_prims (co_env co)) (ce_storage (co_env co)) rng_id rng_spk (\<lambda>_. None) (trim name)"
  obtain w1 where l: "console_loop (co\<lparr>co_net := exchange (co_env co) parse (Some sk)\<rparr>) 0 ls (?c, \<lambda>_. None, w1) =
      Some (Goodbye (c, files, w'))"
    using assms unfolding main_program_def Let_def by (auto split: prod.splits sum.splits)
  show "client_ok (ce_prims (co_env co)) c"
    using client_ok.console_loop_R [OF l] client_ok_new by (simp add: client_ok.ends_in_def)
  have k: "client_keeps ?c c"
    using client_keeps.console_loop_R [OF l, where pr = "ce_prims (co_env co)"] by (simp add: client_keeps.ends_in_def)
  have "c_user_id ?c = trim name" "c_identity ?c = IdentityKeyPair_generate (ce_prims (co_env co)) rng_id"
    by (simp_all add: TinTinClient_new_def Let_def load_history_def load_groups_def load_channels_def load_chat_log_def load_from_def)
  with k show "c_user_id c = trim name" "c_identity c = IdentityKeyPair_generate (ce_prims (co_env co)) rng_id"
    by (simp_all add: client_keeps_def)
qed

text \<open>Property C7. Whatever the user types and whatever the relay answers or peers send through it, the
  client stays well formed: one session per user and device, one entry per group, channel and file, each
  group under its own id, a file is pending only while a chunk is missing, and the media secret of a call
  is the one of its own key pair with the key of the peer.\<close>

theorem client_invariant_any_relay:
  assumes "client_ok (ce_prims (co_env co)) c"
    and "run_lines co n ls (c, files, w) = Some (outs, c', files', w')"
  shows "client_ok (ce_prims (co_env co)) c'"
  using client_ok.run_lines_R [OF assms(2) refl] assms(1) by simp

theorem client_invariant_any_relay_witness:
  "client_ok (ce_prims (co_env demo_console)) ((demo_client ''alice'')\<lparr>c_groups := [tea_group]\<rparr>) \<and>
   (\<exists>outs files. run_lines demo_console 0 [''/group create tea''] (demo_client ''alice'', \<lambda>_. None, ()) =
      Some (outs, (demo_client ''alice'')\<lparr>c_groups := [tea_group]\<rparr>, files, ()))"
proof -
  have ok: "client_ok (ce_prims (co_env demo_console)) (demo_client ''alice'')"
    by (simp add: client_ok_def demo_client_parts store_ok_new call_ok_def)
  obtain out files where r: "run_lines demo_console 0 [''/group create tea''] (demo_client ''alice'', \<lambda>_. None, ()) =
      Some (out, (demo_client ''alice'')\<lparr>c_groups := [tea_group]\<rparr>, files, ())"
    by (rule demo_session [of "demo_client ''alice''"]) (simp_all add: demo_client_parts)
  from client_invariant_any_relay [OF ok r] r show ?thesis by blast
qed

text \<open>Property C8. Nothing typed and nothing received takes away or reorders what the client has: its
  name and its keys stay; entry \<open>i\<close> of the history stays the message to the same recipient at the
  same time, so that the number \<open>/status\<close> shows names it for good and an edit or a receipt changes only
  its text and its state; and the chat log keeps every entry, at most marked as edited.\<close>

theorem history_append_only:
  assumes "run_lines co n ls (c, files, w) = Some (outs, c', files', w')"
  shows "c_user_id c' = c_user_id c \<and> c_identity c' = c_identity c \<and> c_signed_pre_key c' = c_signed_pre_key c \<and>
    (i < length (c_sent_messages c) \<longrightarrow> i < length (c_sent_messages c') \<and>
       same_sent (c_sent_messages c ! i) (c_sent_messages c' ! i)) \<and>
    (i < length (c_chat_log c) \<longrightarrow> i < length (c_chat_log c') \<and>
       c_chat_log c' ! i \<in> {c_chat_log c ! i, (c_chat_log c ! i)\<lparr>mr_edited := True\<rparr>})"
  using client_keeps.run_lines_R [OF assms refl] by (auto simp: client_keeps_def grown_def same_entry_def)

definition demo_sent :: SentMessage where
  "demo_sent = \<lparr>sm_recipient = ''bob'', sm_text = ''hi'', sm_timestamp = 7, sm_status = Delivered, sm_edited = False\<rparr>"

theorem history_append_only_witness:
  "\<exists>outs files. run_lines demo_console 0 [''/group create tea'']
     ((demo_client ''alice'')\<lparr>c_sent_messages := [demo_sent]\<rparr>, \<lambda>_. None, ()) = Some (outs,
        (demo_client ''alice'')\<lparr>c_sent_messages := [demo_sent], c_groups := [tea_group]\<rparr>, files, ()) \<and>
   same_sent demo_sent (c_sent_messages ((demo_client ''alice'')\<lparr>c_sent_messages := [demo_sent], c_groups := [tea_group]\<rparr>) ! 0)"
proof -
  let ?c = "(demo_client ''alice'')\<lparr>c_sent_messages := [demo_sent]\<rparr>"
  obtain out files where r: "run_lines demo_console 0 [''/group create tea''] (?c, \<lambda>_. None, ()) =
      Some (out, ?c\<lparr>c_groups := [tea_group]\<rparr>, files, ())"
    by (rule demo_session [of ?c]) (simp_all add: demo_client_parts)
  from history_append_only [OF r, of 0]
  have "same_sent demo_sent (c_sent_messages (?c\<lparr>c_groups := [tea_group]\<rparr>) ! 0)" by simp
  with r show ?thesis by blast
qed

section \<open>A first message that fails\<close>

text \<open>Property C37. A first message that could not be delivered spoils the session: the new session stays in
  the store although its pre-key message was not accepted. Whatever lines are typed after that, until the
  program ends (a restart forgets all sessions), and whatever the relay answers: what the client seals for
  that user is an ordinary message, never again the pre-key message which the user needs to build a session
  of its own.\<close>

theorem failed_first_send_spoils_session:
  assumes "get_or_create_session (co_env co) net dr r s = Some (Inr True, s0)" and "r \<noteq> c_user_id (fst s)"
    and "send_message (co_env co) net dr r p s = Some (Inl e, s1)"
    and "run_lines co n ls s1 = Some (outs, s2)"
  shows "SessionStore_get (c_sessions (fst s2)) r 1 \<noteq> None \<and>
    (\<forall>net' dr' payload content ty s3.
       seal_for (co_env co) net' dr' r payload s2 = Some (Inr (content, ty), s3) \<longrightarrow> ty = Normal)"
proof -
  have "SessionStore_get (c_sessions (fst s1)) r 1 \<noteq> None" by (rule failed_first_send_keeps [OF assms(1-3)])
  moreover have "sessions_stay (fst s1) (fst s2)" by (rule sessions_stay.run_lines_R [OF assms(4) refl])
  ultimately have "SessionStore_get (c_sessions (fst s2)) r 1 \<noteq> None"
    by (auto simp: SessionStore_get_key sessions_stay_def simp del: not_None_eq)
  then show ?thesis using seal_for_Normal by blast
qed

definition refusing_console :: "unit console" where
  "refusing_console = demo_console\<lparr>co_env := demo_client_env, co_net := demo_refusing_net\<rparr>"

theorem failed_first_send_spoils_session_witness:
  "\<exists>e s1 outs s2. send_message demo_client_env demo_refusing_net demo_draws ''bob'' ''hi'' (demo_client ''alice'', \<lambda>_. None, ()) =
       Some (Inl e, s1) \<and>
     run_lines refusing_console 0 [''/status''] s1 = Some (outs, s2) \<and>
     (\<forall>net' dr' payload content ty s3.
        seal_for demo_client_env (net' :: unit net) dr' ''bob'' payload s2 = Some (Inr (content, ty), s3) \<longrightarrow> ty = Normal)"
proof -
  obtain s0 e s1 where g: "get_or_create_session demo_client_env demo_refusing_net demo_draws ''bob'' (demo_client ''alice'', \<lambda>_. None, ())
       = Some (Inr True, s0)"
    and sent: "send_message demo_client_env demo_refusing_net demo_draws ''bob'' ''hi'' (demo_client ''alice'', \<lambda>_. None, ()) =
       Some (Inl e, s1)"
    using demo_first_send_fails by blast
  have env: "co_env refusing_console = demo_client_env" by (simp add: refusing_console_def)
  have "parse_command ''/status'' = Status" by code_simp
  then have "\<exists>outs s2. run_lines refusing_console 0 [''/status''] s1 = Some (outs, s2)"
    by (cases s1) (simp add: run_command_def)
  then obtain outs s2 where r: "run_lines refusing_console 0 [''/status''] s1 = Some (outs, s2)" by blast
  have "''bob'' \<noteq> c_user_id (fst (demo_client ''alice'', \<lambda>_. None, ()))" by (simp add: demo_client_parts)
  from failed_first_send_spoils_session [of refusing_console, unfolded env, OF g this sent r] sent r show ?thesis by blast
qed

end
