(* ===== verification/File_Delivery.thy ===== *)
theory File_Delivery
  imports Delivery_Properties Cli_Properties
begin

text \<open>
  A file from the sender's disk through the relay to the receiver's disk: the sending loop over an
  established session, the queue of the relay and the receiving loop together.
\<close>

section \<open>Sending the chunks\<close>

text \<open>An envelope in the mailbox and the session message in it.\<close>

definition carries :: "wire \<Rightarrow> string \<Rightarrow> Envelope \<Rightarrow> SessionMessage \<Rightarrow> bool" where
  "carries w sender e m \<longleftrightarrow>
     env_msg_type e = Normal \<and> env_sender_id e = sender \<and> SessionMessage_from_json w (env_content e) = Inr m"

lemma relay_piece:
  assumes laws: "relay_laws ce sv evs" and "aead_total (ce_prims ce)" and "length p < 2 ^ 32"
    and "SessionStore_get (c_sessions c) bob 1 = Some s" and "session_linked (ce_prims ce) s r ms ps"
    and "room_to_send (ce_prims ce) (Suc n) s" and "auto_seq (t_messages st) < i64_max" and "db_ok st"
  obtains m s' e st' where
    "send_piece ce (relay_net ce sv evs) dr bob p (c, files, st) =
       Some (Inr (), c\<lparr>c_sessions := store_put bob s' (c_sessions c)\<rparr>, files, st')"
    and "session_linked (ce_prims ce) s' r (ms @ [m]) (ps @ [p])" and "session_key s' = session_key s"
    and "room_to_send (ce_prims ce) n s'" and "carries (codec sv) (c_user_id c) e m"
    and "mailbox (codec sv) st' = (mailbox (codec sv) st)(bob := mailbox (codec sv) st bob @ [e])" and "db_ok st'"
    and "auto_seq (t_messages st') = auto_seq (t_messages st) + 1"
proof -
  let ?pr = "ce_prims ce" and ?w = "codec sv"
  note D = relay_lawsD [OF laws]
  obtain m s' where enc: "Session_encrypt ?pr s (dr_nonce dr) p = Some (Inr m, s')"
    and s': "session_linked ?pr s' r (ms @ [m]) (ps @ [p])" "session_key s' = session_key s" "room_to_send ?pr n s'"
    using encrypt_linked [OF assms(5,6,2,3)] by metis
  obtain content where ct: "SessionMessage_to_json ?w m = Inr content" "SessionMessage_from_json ?w content = Inr m"
    using session_codec [OF D(6)] by metis
  let ?e = "Envelope_new (dr_millis dr 0) (c_user_id c) bob content Normal"
  obtain st' where q: "queue_message ?w (evs 0) ?e st = (Inr (), st')"
    using queue_message_total [OF D(4) assms(7)] by blast
  obtain resp where "relay_net ce sv evs (send_request ce ?e) st = (Inr resp, st')"
    using relay_send [OF laws q] by (auto simp: send_request_def D(5))
  from send_piece_established [where net = "relay_net ce sv evs", OF assms(4) enc _ this] ct
  have "send_piece ce (relay_net ce sv evs) dr bob p (c, files, st) =
     Some (Inr (), c\<lparr>c_sessions := store_put bob s' (c_sessions c)\<rparr>, files, st')" by (simp add: D(5))
  moreover have "mailbox ?w st' = (mailbox ?w st)(bob := mailbox ?w st bob @ [?e])"
    using queue_message_Inr [OF D(6) q] by (simp add: mb_deliver_def Envelope_new_def)
  moreover have "db_ok st'" using queue_message_ok [OF assms(8)] q by (metis snd_conv)
  moreover have "carries ?w (c_user_id c) ?e m" using ct(2) by (simp add: carries_def Envelope_new_def)
  ultimately show thesis using that s' queue_message_seq [OF q] by blast
qed

text \<open>The texts of the payloads.\<close>

definition texts :: "client_env \<Rightarrow> json list \<Rightarrow> bytes list \<Rightarrow> bool" where
  "texts ce vs ps \<longleftrightarrow> list_all2 (\<lambda>v p. value_to_vec ce v = Inr p \<and> length p < 2 ^ 32) vs ps"

lemma relay_send_chunks:
  assumes laws: "relay_laws ce sv evs" and "aead_total (ce_prims ce)"
  shows "texts ce vs qs \<Longrightarrow> SessionStore_get (c_sessions c) bob 1 = Some s \<Longrightarrow> session_linked (ce_prims ce) s r ms ps \<Longrightarrow>
    room_to_send (ce_prims ce) (length vs) s \<Longrightarrow> auto_seq (t_messages st) + int (length vs) \<le> i64_max \<Longrightarrow> db_ok st \<Longrightarrow>
    \<exists>sessions s' es ns st'. send_chunks ce (relay_net ce sv evs) drs i bob vs (c, files, st) =
        Some (Inr (), c\<lparr>c_sessions := sessions\<rparr>, files, st') \<and>
      session_linked (ce_prims ce) s' r (ms @ ns) (ps @ qs) \<and>
      list_all2 (carries (codec sv) (c_user_id c)) es ns \<and>
      mailbox (codec sv) st' = (mailbox (codec sv) st)(bob := mailbox (codec sv) st bob @ es) \<and> db_ok st' \<and>
      auto_seq (t_messages st') = auto_seq (t_messages st) + int (length vs)"
proof (induction vs arbitrary: qs c s ms ps st i)
  case Nil
  then have "send_chunks ce (relay_net ce sv evs) drs i bob [] (c, files, st) =
      Some (Inr (), c\<lparr>c_sessions := c_sessions c\<rparr>, files, st)" "qs = []" by (simp_all add: texts_def)
  with Nil show ?case
    by (intro exI [of _ "c_sessions c"] exI [of _ s] exI [of _ "[]"] exI [of _ st]) simp
next
  case (Cons v vs)
  from Cons.prems(1) obtain q qs' where qs: "qs = q # qs'" "value_to_vec ce v = Inr q" "length q < 2 ^ 32" "texts ce vs qs'"
    by (auto simp: texts_def list_all2_Cons1)
  have room: "auto_seq (t_messages st) < i64_max" using Cons.prems(5) by simp
  obtain m s' e st1 where
    p: "send_piece ce (relay_net ce sv evs) (drs i) bob q (c, files, st) =
       Some (Inr (), c\<lparr>c_sessions := store_put bob s' (c_sessions c)\<rparr>, files, st1)"
    and s': "session_linked (ce_prims ce) s' r (ms @ [m]) (ps @ [q])" "session_key s' = session_key s"
      "room_to_send (ce_prims ce) (length vs) s'"
    and e: "carries (codec sv) (c_user_id c) e m"
    and st1: "mailbox (codec sv) st1 = (mailbox (codec sv) st)(bob := mailbox (codec sv) st bob @ [e])" "db_ok st1"
      "auto_seq (t_messages st1) = auto_seq (t_messages st) + 1"
    using relay_piece [OF laws assms(2) qs(3) Cons.prems(2,3) _ room Cons.prems(6), of "length vs" "drs i" files]
      Cons.prems(4) by (metis list.size(4) add_Suc_right Nat.add_0_right)
  let ?c = "c\<lparr>c_sessions := store_put bob s' (c_sessions c)\<rparr>"
  have "SessionStore_get (c_sessions ?c) bob 1 = Some s'"
    using store_put_get [OF Cons.prems(2) s'(2)] by simp
  moreover have "auto_seq (t_messages st1) + int (length vs) \<le> i64_max" using Cons.prems(5) st1(3) by simp
  ultimately obtain sessions t es ns st' where
    "send_chunks ce (relay_net ce sv evs) drs (Suc i) bob vs (?c, files, st1) = Some (Inr (), ?c\<lparr>c_sessions := sessions\<rparr>, files, st')"
    "session_linked (ce_prims ce) t r ((ms @ [m]) @ ns) ((ps @ [q]) @ qs')"
    "list_all2 (carries (codec sv) (c_user_id ?c)) es ns"
    "mailbox (codec sv) st' = (mailbox (codec sv) st1)(bob := mailbox (codec sv) st1 bob @ es)" "db_ok st'"
    "auto_seq (t_messages st') = auto_seq (t_messages st1) + int (length vs)"
    using Cons.IH [OF qs(4) _ s'(1,3) _ st1(2), of ?c "Suc i"] by blast
  with p qs e st1 show ?case
    by (intro exI [of _ sessions] exI [of _ t] exI [of _ "e # es"] exI [of _ "m # ns"] exI [of _ st']) simp
qed

section \<open>Receiving them\<close>

lemma chunk_is_no_signal:
  assumes "process_file_chunk cd fs sender p (c, files) = Some (True, cf')"
  shows "process_call_signal pr cd rng u p d = (False, d)"
proof (cases "value_from_slice cd p")
  case (Inr v)
  have "get_str v ''__tintin_type'' = Some ''file'' \<or> get_str v ''__tintin_type'' = Some ''voice''"
  proof (rule ccontr)
    assume "\<not> ?thesis"
    then have "process_file_chunk cd fs sender p (c, files) = Some (False, c, files)"
      by (simp add: process_file_chunk_def Inr)
    with assms show False by simp
  qed
  then show ?thesis by (auto simp: process_call_signal_def Inr)
qed (simp add: process_call_signal_def)

lemma chunk_frame:
  "process_file_chunk cd fs sender p (c\<lparr>c_sessions := x\<rparr>, files) =
   map_option (\<lambda>(h, c', files'). (h, c'\<lparr>c_sessions := x\<rparr>, files')) (process_file_chunk cd fs sender p (c, files))"
  by (cases c) (simp add: process_file_chunk_def Let_def split: sum.split)

lemma chunk_keeps:
  "case process_file_chunk cd fs sender p (c, files) of None \<Rightarrow> True
   | Some (h, c', files') \<Rightarrow> c_user_id c' = c_user_id c \<and> c_sessions c' = c_sessions c"
  by (simp add: process_file_chunk_def Let_def split: sum.split)

lemma chunks_frame:
  "process_chunks cd fs sender ps (c, files) = Some (c', files') \<Longrightarrow>
   process_chunks cd fs sender ps (c\<lparr>c_sessions := x\<rparr>, files) = Some (c'\<lparr>c_sessions := x\<rparr>, files')"
proof (induction ps arbitrary: c files)
  case (Cons p ps)
  then obtain c1 files1 where "process_file_chunk cd fs sender p (c, files) = Some (True, c1, files1)"
    "process_chunks cd fs sender ps (c1, files1) = Some (c', files')"
    by (auto split: option.splits prod.splits bool.splits)
  with Cons.IH [of c1 files1] show ?case by (simp add: chunk_frame)
qed simp

lemma handle_chunk:
  assumes "process_file_chunk (ce_codecs ce) (ce_storage ce) (env_sender_id e) p (c, files) = Some (True, c', files')"
  shows "handle_plaintext ce net dr False e p (c\<lparr>c_sessions := x\<rparr>, files, w) =
    Some (c'\<lparr>c_sessions := x\<rparr>, files', snd (send_receipt ce net (dr_millis dr 1) (env_sender_id e) (env_sender_id e)
      (env_timestamp e) Read (c'\<lparr>c_sessions := x\<rparr>) w))"
  unfolding handle_plaintext_def Let_def using chunk_is_no_signal [OF assms] assms by (simp add: chunk_frame)

lemma relay_receive_chunks:
  assumes laws: "relay_laws ce sv evs"
  shows "process_chunks (ce_codecs ce) (ce_storage ce) alice ps (c, files) = Some (c1, files1) \<Longrightarrow>
    SessionStore_get (c_sessions c) alice 1 = Some r \<Longrightarrow> session_linked (ce_prims ce) s r ms ps \<Longrightarrow>
    room_to_receive (ce_prims ce) (length ps) r \<Longrightarrow> list_all2 (carries (codec sv) alice) es ms \<Longrightarrow> alice \<noteq> c_user_id c \<Longrightarrow>
    auto_seq (t_messages st) + int (length ps) \<le> i64_max \<Longrightarrow>
    \<exists>sessions st'. receive_loop ce (relay_net ce sv evs) drs i (map (\<lambda>e. jnorm (envelope_to_value (codec sv) e)) es)
      (c, files, st) = Some (Inr (), c1\<lparr>c_sessions := sessions\<rparr>, files1, st')"
proof (induction ps arbitrary: c c1 files r ms es st i)
  case Nil
  then have "es = []" using session.linked_length [OF Nil.prems(3)] by auto
  with Nil.prems(1) show ?case by (intro exI [of _ "c_sessions c"] exI [of _ st]) simp
next
  case (Cons p ps)
  let ?pr = "ce_prims ce" and ?net = "relay_net ce sv evs"
  note D = relay_lawsD [OF laws]
  obtain m ms' where ms: "ms = m # ms'" using session.linked_length [OF Cons.prems(3)] by (cases ms) auto
  obtain e es' where "es = e # es'" "carries (codec sv) alice e m" "list_all2 (carries (codec sv) alice) es' ms'"
    using Cons.prems(5) unfolding ms by (auto simp: list_all2_Cons2)
  then have es: "es = e # es'" "env_msg_type e = Normal" "env_sender_id e = alice"
    "SessionMessage_from_json (codec sv) (env_content e) = Inr m" "list_all2 (carries (codec sv) alice) es' ms'"
    by (simp_all add: carries_def)
  obtain c2 files2 where f: "process_file_chunk (ce_codecs ce) (ce_storage ce) alice p (c, files) = Some (True, c2, files2)"
    and rest: "process_chunks (ce_codecs ce) (ce_storage ce) alice ps (c2, files2) = Some (c1, files1)"
    using Cons.prems(1) by (auto split: option.splits prod.splits bool.splits)
  obtain r' where d: "Session_decrypt ?pr r m = Some (Inr p, r')" "session_linked ?pr s r' ms' ps"
    "session_key r' = session_key r" "room_to_receive ?pr (length ps) r'"
    using decrypt_linked [of ?pr s r m ms' p ps "length ps"] Cons.prems(3,4) ms by auto
  let ?x = "store_put alice r' (c_sessions c)"
  let ?c = "c2\<lparr>c_sessions := ?x\<rparr>"
  have "auto_seq (t_messages st) < i64_max" using Cons.prems(7) by simp
  from relay_receipt [OF laws this, of Read alice "env_timestamp e" "dr_millis (drs i) 1" alice ?c]
  obtain st1 b where rc: "send_receipt ce ?net (dr_millis (drs i) 1) alice alice (env_timestamp e) Read ?c st = (Inr (), st1)"
    and q: "queue_message (codec sv) (evs 0) (Envelope_new (dr_millis (drs i) 1) (c_user_id ?c) alice b Receipt) st = (Inr (), st1)"
    by blast
  have "receive_message ce ?net (drs i) e (c, files, st) = Some (Inr (), ?c, files2, st1)"
    using receive_established [where net = ?net and dr = "drs i" and files = files and w = st, OF es(2) _ _ _ d(1), of c]
      handle_chunk [of ce e p c files c2 files2 ?net "drs i" ?x st] es(3,4) f rc Cons.prems(2,6) D(5) by simp
  from receive_loop_Cons [where drs = drs and i = i, OF laws this]
  have step: "receive_loop ce ?net drs i (map (\<lambda>e. jnorm (envelope_to_value (codec sv) e)) es) (c, files, st) =
      receive_loop ce ?net drs (Suc i) (map (\<lambda>e. jnorm (envelope_to_value (codec sv) e)) es') (?c, files2, st1)"
    by (simp add: es(1))
  have k: "c_user_id ?c = c_user_id c"
    using chunk_keeps [where cd = "ce_codecs ce" and fs = "ce_storage ce" and sender = alice and p = p and c = c and files = files] f by simp
  have g: "SessionStore_get (c_sessions ?c) alice 1 = Some r'" using store_put_get [OF Cons.prems(2) d(3)] by simp
  have a: "alice \<noteq> c_user_id ?c" using Cons.prems(6) k by simp
  have "auto_seq (t_messages st1) + int (length ps) \<le> i64_max" using Cons.prems(7) queue_message_seq [OF q] by simp
  from Cons.IH [OF chunks_frame [OF rest] g d(2,4) es(5) a this, of "Suc i"] show ?case by (simp add: step)
qed

section \<open>The whole way\<close>

text \<open>\<open>serde_json\<close> again: what the client prints, the other client parses to the same value.\<close>

definition slice_codec :: "client_env \<Rightarrow> bool" where
  "slice_codec ce \<longleftrightarrow>
     (\<forall>v t. jvalid v \<and> value_to_string ce v = Inr t \<longrightarrow> value_from_slice (ce_codecs ce) (as_bytes t) = Inr (jnorm v))"

lemma as_u64_jnorm: "as_u64 (jnorm v) = as_u64 v"
  by (cases v) simp_all

lemma u64_or_0_jnorm: "jvalid v \<Longrightarrow> u64_or_0 (jnorm v) k = u64_or_0 v k"
  by (simp add: u64_or_0_def json_index_jnorm as_u64_jnorm)

lemma jvalid_chunk:
  "length d < 2 ^ 64 \<Longrightarrow> total_chunks_of d < 2 ^ 64 \<Longrightarrow> i < 2 ^ 64 \<Longrightarrow> jvalid (chunk_payload cd m fid nm d im th i ch)"
  by (simp add: chunk_payload_def)

lemma printed_chunk:
  assumes "relay_laws ce sv evs" and "slice_codec ce" and "m = ''file'' \<or> m = ''voice''"
    and "\<forall>b. base64_decode (ce_codecs ce) (base64_encode (ce_codecs ce) b) = Inr b"
    and "length d < 2 ^ 63" and "i < length (chunks CHUNK_SIZE d)"
  obtains t where "value_to_string ce (chunk_payload (ce_codecs ce) m fid nm d im th i (chunks CHUNK_SIZE d ! i)) = Inr t"
    and "reads_chunk (ce_codecs ce) m fid nm d i (as_bytes t)"
proof -
  let ?v = "chunk_payload (ce_codecs ce) m fid nm d im th i (chunks CHUNK_SIZE d ! i)"
  note small = chunk_sizes [OF assms(5,6)]
  have v: "jvalid ?v" using small by (intro jvalid_chunk)
  obtain t where t: "value_to_string ce ?v = Inr t"
    using relay_lawsD(1) [OF assms(1)] v by (auto simp: json_codec_def)
  have "value_from_slice (ce_codecs ce) (as_bytes t) = Inr (jnorm ?v)" using assms(2) v t by (simp add: slice_codec_def)
  then have "reads_chunk (ce_codecs ce) m fid nm d i (as_bytes t)"
    unfolding reads_chunk_def
    by (intro exI [of _ "jnorm ?v"])
      (simp add: get_str_jnorm [OF v] str_or_jnorm [OF v] u64_or_0_jnorm [OF v] chunk_payload_fields(1-3,7) [OF assms(3)]
        chunk_payload_fields(4) [OF assms(3) small(3)] chunk_payload_fields(5) [OF assms(3) small(2)]
        chunk_payload_fields(6) [OF assms(3) small(4)] assms(4))
  with t that show thesis by blast
qed

text \<open>What the sender prints of a file, and that the receiver makes the file of it.\<close>

lemma file_texts:
  assumes "relay_laws ce sv evs" and "slice_codec ce"
    and "\<forall>b. base64_decode (ce_codecs ce) (base64_encode (ce_codecs ce) b) = Inr b"
    and "d \<noteq> []" and "with_capacity_ok (ce_storage ce) (length d)" and m: "m = ''file'' \<or> m = ''voice''"
    and vs_def: "vs = file_payloads (ce_codecs ce) m fid nm d im th"
    and "\<forall>v\<in>set vs. \<forall>t. value_to_string ce v = Inr t \<longrightarrow> length t < 2 ^ 32"
    and "map_of (c_pending_files cb) fid = None"
  obtains ps cb1 where "texts ce vs ps" and "length ps = length (chunks CHUNK_SIZE d)"
    and "process_chunks (ce_codecs ce) (ce_storage ce) alice ps (cb, fb) = Some (cb1, write_file (ce_storage ce)
      (path_join (downloads_dir (ce_storage ce)) nm) (map (\<lambda>x. char_of (unat x)) d) fb)"
    and "map_of (c_pending_files cb1) fid = None"
proof -
  let ?cd = "ce_codecs ce" and ?n = "length (chunks CHUNK_SIZE d)"
  let ?v = "\<lambda>i. chunk_payload ?cd m fid nm d im th i (chunks CHUNK_SIZE d ! i)"
  have vs: "vs = map ?v [0..<?n]" by (simp add: vs_def file_payloads_def Let_def)
  have "\<forall>i<?n. \<exists>t. value_to_string ce (?v i) = Inr t \<and> reads_chunk ?cd m fid nm d i (as_bytes t)"
    using printed_chunk [OF assms(1,2) m assms(3) with_capacity_less [OF assms(5)]] by metis
  then obtain t where t: "\<forall>i<?n. value_to_string ce (?v i) = Inr (t i) \<and> reads_chunk ?cd m fid nm d i (as_bytes (t i))"
    by metis
  let ?ps = "map (\<lambda>i. as_bytes (t i)) [0..<?n]"
  have "\<forall>i<?n. length (t i) < 2 ^ 32" using t assms(8) unfolding vs by auto
  then have texts: "texts ce vs ?ps"
    using t unfolding vs texts_def by (simp add: list_all2_conv_all_nth value_to_vec_def as_bytes_def)
  have "0 < ?n" using assms(4) by (subst chunks.simps) (simp add: CHUNK_SIZE_def)
  then show thesis
    using that [OF texts] process_chunks_rest [OF refl assms(5) m, of ?cd fid nm "\<lambda>i. as_bytes (t i)" "[0..<?n]" "[]" cb alice fb] t assms(9) by auto
qed

lemma send_file_sent:
  assumes "prepare_file ce me path ''file'' is_hd = Some (Inr (d, th))"
    and "send_chunks ce net drs 0 u (file_payloads (ce_codecs ce) ''file'' (lower_hex nanos)
      (unwrap_or (path_file_name path) ''unknown'') d (is_image_name path) th) s = Some (Inr (), c, files, w)"
  obtains c' files' where "send_file ce me net dr drs nanos u path is_hd s = Some (Inr (), c', files', w)"
proof -
  obtain c' files' where "push_sent ce (dr_millis dr 0) u (file_label ''file'' (unwrap_or (path_file_name path) ''unknown'')
      (is_image_name path) th (length d)) (c, files) = (c', files')"
    by fastforce
  with assms show thesis by (intro that) (simp add: send_file_def send_file_inner_def)
qed

text \<open>
  Property C4. A file arrives. Alice and Bob have a session; Alice sends a file that is not empty, and
  Bob's next fetch writes it. Her client cuts it into chunks, seals every chunk, the relay queues them
  all, hands them out in order, and Bob's loop opens each and puts the file together: his download
  directory has the bytes her client read (or recompressed) under the name of her file, his client has no
  chunk left over, and no other file of his is touched.
\<close>

theorem file_arrives:
  assumes "relay_laws ce sv evs" and "aead_total (ce_prims ce)" and "slice_codec ce"
    and "\<forall>b. base64_decode (ce_codecs ce) (base64_encode (ce_codecs ce) b) = Inr b"
    and "prepare_file ce me path ''file'' is_hd = Some (Inr (d, th))" and "d \<noteq> []"
    and "with_capacity_ok (ce_storage ce) (length d)"
    and "n = length (chunks CHUNK_SIZE d)" and "linked_clients (ce_prims ce) n ca cb" and "c_user_id ca \<noteq> c_user_id cb"
    and "\<forall>v\<in>set (file_payloads (ce_codecs ce) ''file'' (lower_hex nanos) (unwrap_or (path_file_name path) ''unknown'') d
           (is_image_name path) th). \<forall>t. value_to_string ce v = Inr t \<longrightarrow> length t < 2 ^ 32"
    and "map_of (c_pending_files cb) (lower_hex nanos) = None"
    and "db_ok st" and "mailbox (codec sv) st (c_user_id cb) = []" and "auto_seq (t_messages st) + 3 * int n \<le> i64_max"
  shows "\<exists>ca' fa' st1 cb' st2.
    send_file ce me (relay_net ce sv evs) dr drs nanos (c_user_id cb) path is_hd (ca, fa, st) = Some (Inr (), ca', fa', st1) \<and>
    receive_messages ce (relay_net ce sv evs) drs' (cb, fb, st1) = Some (Inr (), cb',
      write_file (ce_storage ce) (path_join (downloads_dir (ce_storage ce)) (unwrap_or (path_file_name path) ''unknown''))
        (map (\<lambda>x. char_of (unat x)) d) fb, st2) \<and>
    map_of (c_pending_files cb') (lower_hex nanos) = None"
proof -
  let ?pr = "ce_prims ce" and ?w = "codec sv" and ?bob = "c_user_id cb" and ?alice = "c_user_id ca"
  let ?fid = "lower_hex nanos" and ?nm = "unwrap_or (path_file_name path) ''unknown''"
  let ?vs = "file_payloads (ce_codecs ce) ''file'' ?fid ?nm d (is_image_name path) th"
  let ?fb = "write_file (ce_storage ce) (path_join (downloads_dir (ce_storage ce)) ?nm) (map (\<lambda>x. char_of (unat x)) d) fb"
  obtain ps cb1 where texts: "texts ce ?vs ps" and np: "length ps = n"
    and p: "process_chunks (ce_codecs ce) (ce_storage ce) ?alice ps (cb, fb) = Some (cb1, ?fb)"
    and none: "map_of (c_pending_files cb1) ?fid = None"
    using file_texts [OF assms(1,3,4,6,7) _ refl assms(11,12)] assms(8) by blast
  obtain s r where s: "SessionStore_get (c_sessions ca) ?bob 1 = Some s" and r: "SessionStore_get (c_sessions cb) ?alice 1 = Some r"
    and link: "session_linked ?pr s r [] []" "room_to_send ?pr n s" "room_to_receive ?pr n r"
    using assms(9) by (auto simp: linked_clients_def)
  have len: "length ?vs = n" using texts np by (simp add: texts_def list_all2_lengthD)
  have room: "auto_seq (t_messages st) + int (length ?vs) \<le> i64_max" using assms(15) len by simp
  from relay_send_chunks [OF assms(1,2) texts s link(1) link(2) [folded len] room assms(13), of drs 0 fa]
  obtain sessions s' es ms st1 where
    sent: "send_chunks ce (relay_net ce sv evs) drs 0 ?bob ?vs (ca, fa, st) = Some (Inr (), ca\<lparr>c_sessions := sessions\<rparr>, fa, st1)"
    and fly: "session_linked ?pr s' r ms ps" and es: "list_all2 (carries ?w ?alice) es ms"
    and mb: "mailbox ?w st1 ?bob = es" and ok: "db_ok st1" and seq: "auto_seq (t_messages st1) = auto_seq (t_messages st) + int n"
    using assms(14) len by auto
  obtain ca' fa' where send: "send_file ce me (relay_net ce sv evs) dr drs nanos ?bob path is_hd (ca, fa, st) = Some (Inr (), ca', fa', st1)"
    using send_file_sent [OF assms(5) sent] .
  have n: "length es = n" using list_all2_lengthD [OF es] session.linked_length [OF fly] np by simp
  have "\<forall>e\<in>set es. env_sender_id e = ?alice"
    using es by (auto simp: list_all2_conv_all_nth in_set_conv_nth carries_def)
  then have from_alice: "\<forall>x\<in>set (mailbox ?w st1 ?bob). env_sender_id x \<noteq> ?bob" using assms(10) mb by auto
  have room1: "auto_seq (t_messages st1) + int (length (mailbox ?w st1 ?bob)) \<le> i64_max"
    using assms(15) seq mb n by simp
  obtain st2 where f: "fetch_messages ?w (evs 0) ?bob st1 = (Inr es, st2)"
    and seq2: "auto_seq (t_messages st2) \<le> auto_seq (t_messages st1) + int n"
    using fetch_empties_mailbox [OF assms(1) ok room1 from_alice] mb n by metis
  have room2: "auto_seq (t_messages st2) + int (length ps) \<le> i64_max" using assms(15) seq seq2 np by simp
  from relay_receive_chunks [OF assms(1) p r fly link(3) [folded np] es assms(10) room2, of drs' 0] obtain sessions' st3 where
    "receive_loop ce (relay_net ce sv evs) drs' 0 (map (\<lambda>e. jnorm (envelope_to_value ?w e)) es) (cb, fb, st2) =
      Some (Inr (), cb1\<lparr>c_sessions := sessions'\<rparr>, ?fb, st3)"
    by blast
  with relay_receive_messages [OF assms(1) f, of drs' fb] send none show ?thesis
    by (intro exI [of _ ca'] exI [of _ fa'] exI [of _ st1] exI [of _ "cb1\<lparr>c_sessions := sessions'\<rparr>"] exI [of _ st3]) simp
qed

text \<open>
  The instance of \<open>Relay_Instance\<close> with a short text for the one chunk of a small file, so that its length
  is known, and with a parser of such texts.
\<close>

definition demo_base64 :: codecs where
  "demo_base64 = \<lparr>value_from_slice = (\<lambda>b. Inl []), hex_decode_vec = (\<lambda>s. Inr (as_bytes s)),
     base64_encode = map (\<lambda>x. char_of (unat x)), base64_decode = (\<lambda>s. Inr (as_bytes s))\<rparr>"

definition demo_chunk :: json where
  "demo_chunk = chunk_payload demo_base64 ''file'' (lower_hex 5) ''a.txt'' [104, 105] False [] 0 [104, 105]"

definition short_text :: "json \<Rightarrow> string" where
  "short_text v = (if jnorm v = jnorm demo_chunk then ''0'' else value_text v)"

definition read_short :: "string \<Rightarrow> json" where
  "read_short s = (if length s = 1 \<and> s \<noteq> ''1'' then jnorm demo_chunk else text_value s)"

lemma read_short_text: "read_short (short_text v) = jnorm v" "read_short (value_text v) = jnorm v"
  using text_value_text [of v] by (auto simp: read_short_def short_text_def value_text_def)

lemma one_line_short_text: "one_line (short_text v)"
proof -
  have "trim (''0'' @ [CHR 0x0A]) = ''0''" by code_simp
  then show ?thesis using one_line_value_text [of v] by (simp add: short_text_def one_line_def)
qed

definition file_env :: client_env where
  "file_env = relay_client_env\<lparr>value_to_string := (\<lambda>v. Inr (short_text v)),
     ce_codecs := demo_base64\<lparr>value_from_slice := (\<lambda>b. Inr (read_short (map (\<lambda>x. char_of (unat x)) b)))\<rparr>\<rparr>"

definition file_server :: server where
  "file_server = relay_server\<lparr>value_from_str := (\<lambda>s. Inr (read_short s)),
     response_to_string := (\<lambda>r. Inr (short_text (response_value r)))\<rparr>"

lemma file_laws: "relay_laws file_env file_server (\<lambda>_. quiet_env 0)"
proof -
  have "json_codec file_env file_server"
    by (simp add: json_codec_def file_env_def file_server_def read_short_text one_line_short_text)
  moreover have "struct_codec file_env file_server"
    using relay_server_struct_codec
    by (simp add: struct_codec_def file_env_def file_server_def relay_server_def read_short_text)
  moreover have "command_codec file_env file_server"
    using relay_server_command_codec by (simp add: command_codec_def file_env_def file_server_def)
  ultimately show ?thesis by (simp add: relay_laws_def)
qed

lemma file_env_fields:
  "ce_prims file_env = demo_prims" "ce_storage file_env = ce_storage relay_client_env" "codec file_server = demo_wire"
  by (simp_all add: file_env_def file_server_def relay_client_env_def relay_server_def)

lemma file_slice_codec: "slice_codec file_env"
proof -
  have "(char_of (unat (word_of_nat (of_char c) :: u8)) :: char) = c" for c :: char
    by (simp add: unsigned_of_nat take_bit_nat_eq_self)
  then have "map (\<lambda>x. char_of (unat x)) (as_bytes s) = s" for s by (simp add: as_bytes_def comp_def)
  then show ?thesis by (auto simp: slice_codec_def file_env_def read_short_text)
qed

definition demo_media :: media_env where
  "demo_media = \<lparr>read_file = (\<lambda>p. Inr [104, 105]), recompress = (\<lambda>d. None)\<rparr>"

theorem file_arrives_witness:
  "\<exists>ca' fa' st1 cb' st2.
    send_file file_env demo_media (relay_net file_env file_server (\<lambda>_. quiet_env 0)) demo_draw (\<lambda>_. demo_draw) 5 ''bob'' ''a.txt'' True
      (linked_alice, \<lambda>_. None, empty_db True) = Some (Inr (), ca', fa', st1) \<and>
    receive_messages file_env (relay_net file_env file_server (\<lambda>_. quiet_env 0)) (\<lambda>_. demo_draw) (linked_member ''bob'', \<lambda>_. None, st1) =
      Some (Inr (), cb', (\<lambda>_. None)(''/home/u/.tintin/downloads/a.txt'' \<mapsto> ''hi''), st2)"
proof -
  let ?p = "file_payloads (ce_codecs file_env) ''file'' (lower_hex 5) ''a.txt'' [104, 105] (is_image_name ''a.txt'') []"
  have cs: "chunks CHUNK_SIZE [104, 105 :: u8] = [[104, 105]]"
    by (subst chunks.simps, subst chunks.simps) (simp add: CHUNK_SIZE_def)
  have nm: "unwrap_or (path_file_name ''a.txt'') ''unknown'' = ''a.txt''" by code_simp
  have p: "?p = [demo_chunk]"
    by (simp add: file_payloads_def cs demo_chunk_def chunk_payload_def file_env_def demo_base64_def)
  have short: "\<forall>v\<in>set ?p. \<forall>t. value_to_string file_env v = Inr t \<longrightarrow> length t < 2 ^ 32"
    unfolding p by (simp add: file_env_def short_text_def)
  have b: "\<forall>b. base64_decode (ce_codecs file_env) (base64_encode (ce_codecs file_env) b) = Inr b"
    by (simp add: file_env_def demo_base64_def)
  have prep: "prepare_file file_env demo_media ''a.txt'' ''file'' True = Some (Inr ([104, 105], []))"
    by (simp add: prepare_file_def demo_media_def)
  have link: "linked_clients demo_prims 1 linked_alice (linked_member ''bob'')" by (rule linked_alice_member) simp
  have users: "c_user_id linked_alice = ''alice''" "c_user_id (linked_member ''bob'') = ''bob''"
    by (simp_all add: linked_alice_def linked_member_def relay_client_fields)
  have none: "map_of (c_pending_files (linked_member ''bob'')) (lower_hex 5) = None"
    by (simp add: linked_member_def relay_client_def TinTinClient_new_def Let_def load_chat_log_def load_channels_def
        load_groups_def load_history_def)
  have path: "path_join (downloads_dir (ce_storage relay_client_env)) ''a.txt'' = ''/home/u/.tintin/downloads/a.txt''"
    by (simp add: downloads_dir_def tintin_dir_def path_join_def starts_with_def relay_client_env_def)
  have "map (\<lambda>x. char_of (unat x)) [104, 105 :: u8] = ''hi''" by code_simp
  then have w: "write_file (ce_storage relay_client_env) ''/home/u/.tintin/downloads/a.txt'' (map (\<lambda>x. char_of (unat x)) [104, 105 :: u8])
      (\<lambda>_. None) = (\<lambda>_. None)(''/home/u/.tintin/downloads/a.txt'' \<mapsto> ''hi'')"
    by (simp add: write_file_def relay_client_env_def)
  from file_arrives [where dr = demo_draw and drs = "\<lambda>_. demo_draw" and drs' = "\<lambda>_. demo_draw" and fa = "\<lambda>_. None" and fb = "\<lambda>_. None"
      and ca = linked_alice and cb = "linked_member ''bob''" and n = 1 and nanos = 5 and st = "empty_db True",
      OF file_laws _ file_slice_codec b prep, unfolded nm file_env_fields path w users, OF demo_aead_total _ _ _ link _ short none db_ok_empty]
  show ?thesis by (simp add: cs i64_max_def with_capacity_ok_def relay_client_env_def) blast
qed

end
