(* ===== verification/Call_Properties.thy ===== *)
theory Call_Properties
  imports Cli_Properties
begin

text \<open>
  Who controls a call: the signals of a call are not compared with its peer or its id, so every user with
  a session does.
\<close>

section \<open>Signals of anybody\<close>

text \<open>The payload of a signal and the media key in it.\<close>

definition signals :: "codecs \<Rightarrow> bytes \<Rightarrow> string \<Rightarrow> bytes option \<Rightarrow> bool" where
  "signals cd plaintext tt key \<longleftrightarrow>
     (\<exists>v. value_from_slice cd plaintext = Inr v \<and> get_str v ''__tintin_type'' = Some tt \<and> media_key_of cd v = key)"

lemma signal_accept:
  assumes "signals cd p ''call_accept'' (Some k)" and "c_active_call c = Some call" and "ca_state call \<noteq> Connected"
  shows "process_call_signal pr cd rng sender p c = (True, c\<lparr>c_active_call := Some (call\<lparr>ca_peer_media_key := Some k,
    ca_shared_media_secret := agree_ok pr (ca_media_key_pair call) k, ca_state := Connected\<rparr>)\<rparr>)"
  using assms by (cases "ca_state call") (auto simp: signals_def process_call_signal_def)

lemma signal_accept_late:
  assumes "signals cd p ''call_accept'' k" and "c_active_call c = Some call" and "ca_state call = Connected"
  shows "process_call_signal pr cd rng sender p c = (True, c)"
  using assms by (auto simp: signals_def process_call_signal_def)

lemma signal_offer:
  assumes "signals cd p ''call_offer'' k"
  obtains i where "process_call_signal pr cd rng sender p c = (True, c\<lparr>c_active_call := Some
    \<lparr>ca_peer = sender, ca_call_id = i, ca_media_key_pair = KeyPair_generate pr rng, ca_peer_media_key = k,
     ca_shared_media_secret = None, ca_state = Ringing\<rparr>\<rparr>)"
  using assms by (auto simp: signals_def process_call_signal_def)

lemma signal_end: "signals cd p ''call_end'' k \<Longrightarrow> process_call_signal pr cd rng sender p c = (True, c\<lparr>c_active_call := None\<rparr>)"
  by (auto simp: signals_def process_call_signal_def)

text \<open>Property C14. A call is not tied to its peer. While Alice calls Bob, an answer from Mallory connects
  the call: it still names Bob, but its media secret is the one Mallory computes from the offered key and
  her own, and Bob's answer, which comes later, is ignored. A call that is connected is replaced by an
  offer of Mallory, and ended by her, whatever call id she gives.\<close>

theorem call_answered_by_stranger:
  assumes "dh_commutes pr" and "kp_public mal = x25519_public pr (kp_secret mal)"
    and "c_active_call c = Some call" and "ca_state call = Offering"
    and "kp_public (ca_media_key_pair call) = x25519_public pr (kp_secret (ca_media_key_pair call))"
    and "signals cd forged ''call_accept'' (Some (kp_public mal))" and "signals cd answer ''call_accept'' (Some k)"
    and "signals cd offer ''call_offer'' k'" and "signals cd bye ''call_end'' k''"
  shows "\<exists>taken c'. process_call_signal pr cd rng mallory forged c = (True, c') \<and> c_active_call c' = Some taken \<and>
      ca_peer taken = ca_peer call \<and> ca_state taken = Connected \<and>
      ca_shared_media_secret taken = agree_ok pr mal (kp_public (ca_media_key_pair call)) \<and>
      process_call_signal pr cd rng (ca_peer call) answer c' = (True, c') \<and>
      map_option ca_peer (c_active_call (snd (process_call_signal pr cd rng mallory offer c'))) = Some mallory \<and>
      c_active_call (snd (process_call_signal pr cd rng mallory bye c')) = None"
proof -
  let ?kp = "ca_media_key_pair call"
  let ?taken = "call\<lparr>ca_peer_media_key := Some (kp_public mal),
    ca_shared_media_secret := agree_ok pr ?kp (kp_public mal), ca_state := Connected\<rparr>"
  let ?c = "c\<lparr>c_active_call := Some ?taken\<rparr>"
  have taken: "process_call_signal pr cd rng mallory forged c = (True, ?c)"
    using signal_accept [OF assms(6,3)] assms(4) by simp
  have shared: "agree_ok pr ?kp (kp_public mal) = agree_ok pr mal (kp_public ?kp)"
    using assms(1,2,5) by (simp add: agree_ok_def agree_def dh_commutes_def)
  have late: "process_call_signal pr cd rng (ca_peer call) answer ?c = (True, ?c)"
    using signal_accept_late [OF assms(7), of ?c ?taken] by simp
  obtain i where replaced: "process_call_signal pr cd rng mallory offer ?c = (True, ?c\<lparr>c_active_call := Some
    \<lparr>ca_peer = mallory, ca_call_id = i, ca_media_key_pair = KeyPair_generate pr rng, ca_peer_media_key = k',
     ca_shared_media_secret = None, ca_state = Ringing\<rparr>\<rparr>)"
    using signal_offer [OF assms(8)] by metis
  show ?thesis
    by (intro exI [of _ ?taken] exI [of _ ?c])
      (simp add: taken late replaced signal_end [OF assms(9)], simp add: shared)
qed

text \<open>The codecs of the example give the tag its text and the key the rest.\<close>

definition demo_signal_codecs :: codecs where
  "demo_signal_codecs =
     \<lparr>value_from_slice = (\<lambda>b. Inr (call_payload
        (if hd b = 0 then ''call_offer'' else if hd b = 1 then ''call_accept'' else ''call_end'') ''x''
        (''media_key_pub'', hex_encode demo_prims (tl b)))),
      hex_decode_vec = (\<lambda>s. Inr (as_bytes s)), base64_encode = (\<lambda>b. []), base64_decode = (\<lambda>s. Inr [])\<rparr>"

theorem call_answered_by_stranger_witness:
  "\<exists>call taken c'. c_active_call (fst call) = Some (snd call) \<and> ca_peer (snd call) = ''bob'' \<and>
     process_call_signal demo_prims demo_signal_codecs [7] ''mallory'' (1 # x25519_public demo_prims [3]) (fst call) = (True, c') \<and>
     c_active_call c' = Some taken \<and> ca_peer taken = ''bob'' \<and>
     ca_shared_media_secret taken =
       agree_ok demo_prims (KeyPair_generate demo_prims [3]) (kp_public (KeyPair_generate demo_prims [5]))"
proof -
  let ?call = "\<lparr>ca_peer = ''bob'', ca_call_id = ''y'', ca_media_key_pair = KeyPair_generate demo_prims [5],
    ca_peer_media_key = None, ca_shared_media_secret = None, ca_state = Offering\<rparr>"
  let ?c = "(demo_client ''alice'')\<lparr>c_active_call := Some ?call\<rparr>"
  have k: "hex_decode_vec demo_signal_codecs (hex_encode demo_prims b) = Inr b" for b
    by (simp add: demo_signal_codecs_def) (simp add: demo_prims_def)
  have s: "signals demo_signal_codecs (t # x25519_public demo_prims i) tt (Some (x25519_public demo_prims i))"
    if "tt = (if t = 0 then ''call_offer'' else if t = 1 then ''call_accept'' else ''call_end'')" for t i tt
  proof -
    have "value_from_slice demo_signal_codecs (t # x25519_public demo_prims i) =
        Inr (call_payload tt ''x'' (''media_key_pub'', hex_encode demo_prims (x25519_public demo_prims i)))"
      by (simp add: demo_signal_codecs_def that)
    moreover have "media_key_of demo_signal_codecs
        (call_payload tt ''x'' (''media_key_pub'', hex_encode demo_prims (x25519_public demo_prims i))) = Some (x25519_public demo_prims i)"
      using demo_prims_sized by (simp add: media_key_of_def call_payload_def str_or_def json_index_def k prims_sized_def)
    ultimately show ?thesis by (simp add: signals_def call_payload_def get_str_def)
  qed
  have "kp_public (KeyPair_generate demo_prims i) = x25519_public demo_prims (kp_secret (KeyPair_generate demo_prims i))" for i
    by simp
  from call_answered_by_stranger [of demo_prims "KeyPair_generate demo_prims [3]" ?c ?call demo_signal_codecs
      "1 # x25519_public demo_prims [3]" "1 # x25519_public demo_prims [4]" "x25519_public demo_prims [4]"
      "0 # x25519_public demo_prims [4]" "Some (x25519_public demo_prims [4])"
      "2 # x25519_public demo_prims [4]" "Some (x25519_public demo_prims [4])" "[7]" "''mallory''"]
  obtain taken c' where "process_call_signal demo_prims demo_signal_codecs [7] ''mallory'' (1 # x25519_public demo_prims [3]) ?c = (True, c')"
    "c_active_call c' = Some taken" "ca_peer taken = ''bob''"
    "ca_shared_media_secret taken = agree_ok demo_prims (KeyPair_generate demo_prims [3]) (kp_public (KeyPair_generate demo_prims [5]))"
    by (auto simp: s demo_dh_commutes)
  then show ?thesis by (intro exI [of _ "(?c, ?call)"] exI [of _ taken] exI [of _ c']) simp
qed

end
