(* ===== verification/Call_Delivery.thy ===== *)
theory Call_Delivery
  imports Delivery_Properties Call_Properties
begin

text \<open>
  A call from end to end: the offer that \<open>start_call\<close> sends, the ring it causes at the other client, the
  answer that \<open>accept_call\<close> sends, and the connection it makes. Each message is the envelope that the
  sending function really handed to the network.
\<close>

section \<open>Payloads of calls\<close>

definition key_payload :: "prims \<Rightarrow> string \<Rightarrow> string \<Rightarrow> bytes \<Rightarrow> json" where
  "key_payload pr tt i k = call_payload tt i (''media_key_pub'', hex_encode pr k)"

text \<open>\<open>serde_json\<close> prints the two payloads of a call, whatever keys they carry, and reads them back.\<close>

definition call_texts :: "client_env \<Rightarrow> string \<Rightarrow> bool" where
  "call_texts ce i \<longleftrightarrow>
     (\<forall>tt k. tt \<in> {''call_offer'', ''call_accept''} \<and> length k = 32 \<longrightarrow>
        (\<exists>t. value_to_string ce (key_payload (ce_prims ce) tt i k) = Inr t \<and> length t < 2 ^ 32 \<and>
           value_from_slice (ce_codecs ce) (as_bytes t) = Inr (jnorm (key_payload (ce_prims ce) tt i k))))"

lemma key_payload_fields:
  "get_str (jnorm (key_payload pr tt i k)) ''__tintin_type'' = Some tt"
  "str_or (jnorm (key_payload pr tt i k)) ''call_id'' d = i"
  "hex_decode_vec cd (hex_encode pr k) = Inr k \<Longrightarrow> length k = 32 \<Longrightarrow> media_key_of cd (jnorm (key_payload pr tt i k)) = Some k"
proof -
  have v: "jvalid (key_payload pr tt i k)" by (simp add: key_payload_def call_payload_def)
  show "get_str (jnorm (key_payload pr tt i k)) ''__tintin_type'' = Some tt"
    by (subst get_str_jnorm [OF v]) (simp add: get_str_def key_payload_def call_payload_def)
  show "str_or (jnorm (key_payload pr tt i k)) ''call_id'' d = i"
    by (subst str_or_jnorm [OF v]) (simp add: str_or_def json_index_def key_payload_def call_payload_def)
  have "str_or (jnorm (key_payload pr tt i k)) ''media_key_pub'' [] = hex_encode pr k"
    by (subst str_or_jnorm [OF v]) (simp add: str_or_def json_index_def key_payload_def call_payload_def)
  then show "hex_decode_vec cd (hex_encode pr k) = Inr k \<Longrightarrow> length k = 32 \<Longrightarrow>
      media_key_of cd (jnorm (key_payload pr tt i k)) = Some k"
    by (simp add: media_key_of_def)
qed

section \<open>One message between two linked clients\<close>

text \<open>Every send is answered with \<open>ok\<close>.\<close>

definition takes_sends :: "client_env \<Rightarrow> 'w net \<Rightarrow> bool" where
  "takes_sends ce net \<longleftrightarrow> (\<forall>e w. \<exists>resp w'. net (send_request ce e) w = (Inr resp, w') \<and> resp_ok resp)"

lemma send_message_linked:
  assumes "SessionStore_get (c_sessions c) r 1 = Some s" and "r \<noteq> c_user_id c"
    and "Session_encrypt (ce_prims ce) s (dr_nonce dr) (as_bytes t) = Some (Inr m, s')"
    and "SessionMessage_to_json (ce_wire ce) m = Inr content" and "takes_sends ce net"
  shows "\<exists>c' files' w'. send_message ce (logged net) dr r t (c, files, reqs, w) =
      Some (Inr (), c', files', reqs @ [send_request ce (Envelope_new (dr_millis dr 0) (c_user_id c) r content Normal)], w') \<and>
    c_user_id c' = c_user_id c \<and> c_sessions c' = store_put r s' (c_sessions c) \<and> c_active_call c' = c_active_call c"
proof -
  let ?e = "Envelope_new (dr_millis dr 0) (c_user_id c) r content Normal"
  obtain resp w' where net: "net (send_request ce ?e) w = (Inr resp, w')" "resp_ok resp"
    using assms(5) unfolding takes_sends_def by blast
  have "send_encrypted ce (logged net) dr r t (c, files, reqs, w) =
      Some (Inr (content, Normal), c\<lparr>c_sessions := store_put r s' (c_sessions c)\<rparr>, files, reqs, w)"
    using seal_for_established [OF assms(1,3,4)] by (simp add: send_encrypted_def)
  moreover have "logged net (send_request ce ?e) (reqs, w) = (Inr resp, reqs @ [send_request ce ?e], w')"
    by (simp add: logged_def net)
  ultimately have "\<exists>c' files'. send_message ce (logged net) dr r t (c, files, reqs, w) =
      Some (Inr (), c', files', reqs @ [send_request ce ?e], w') \<and>
      c_user_id c' = c_user_id c \<and> c_sessions c' = store_put r s' (c_sessions c)"
    using send_message_sent [where net = "logged net", OF assms(2)] net(2) by (fastforce simp: send_request_def)
  then show ?thesis using send_message_keeps_call by (fastforce simp: keeps_call_def)
qed

text \<open>A signal in an ordinary message of a linked session.\<close>

lemma receive_signal:
  assumes "env_msg_type e = Normal" and "env_sender_id e \<noteq> c_user_id c"
    and "SessionMessage_from_json (ce_wire ce) (env_content e) = Inr m"
    and "SessionStore_get (c_sessions c) (env_sender_id e) 1 = Some r"
    and "Session_decrypt (ce_prims ce) r m = Some (Inr p, r')"
    and "process_call_signal (ce_prims ce) (ce_codecs ce) (dr_rng dr 0) (env_sender_id e) p
      (c\<lparr>c_sessions := store_put (env_sender_id e) r' (c_sessions c)\<rparr>) = (True, c1)"
  shows "\<exists>w'. receive_message ce net dr e (c, files, w) = Some (Inr (), c1, files, w')"
  by (simp add: receive_established [OF assms(1-5)] handle_plaintext_def Let_def assms(6))

text \<open>Two clients with a session in both directions: what is sent from one to the other can be opened there.\<close>

definition two_way :: "prims \<Rightarrow> nat \<Rightarrow> nat \<Rightarrow> TinTinClient \<Rightarrow> TinTinClient \<Rightarrow> bool" where
  "two_way pr n k c d \<longleftrightarrow>
     (\<exists>s r. SessionStore_get (c_sessions c) (c_user_id d) 1 = Some s \<and> SessionStore_get (c_sessions d) (c_user_id c) 1 = Some r \<and>
        session_linked pr s r [] [] \<and> session_linked pr r s [] [] \<and>
        room_to_send pr n s \<and> room_to_receive pr n r \<and> room_to_send pr k r \<and> room_to_receive pr k s)"

lemma two_way_linked:
  assumes "linked_clients pr n c d" and "linked_clients pr k d c"
  shows "two_way pr n k c d"
proof -
  obtain s r where "SessionStore_get (c_sessions c) (c_user_id d) 1 = Some s" "SessionStore_get (c_sessions d) (c_user_id c) 1 = Some r"
    "session_linked pr s r [] []" "room_to_send pr n s" "room_to_receive pr n r"
    using assms(1) unfolding linked_clients_def by blast
  moreover obtain r' s' where "SessionStore_get (c_sessions d) (c_user_id c) 1 = Some r'" "SessionStore_get (c_sessions c) (c_user_id d) 1 = Some s'"
    "session_linked pr r' s' [] []" "room_to_send pr k r'" "room_to_receive pr k s'"
    using assms(2) unfolding linked_clients_def by blast
  ultimately show ?thesis unfolding two_way_def by (metis option.inject)
qed

lemma two_way_cong:
  "c_user_id c' = c_user_id c \<Longrightarrow> c_sessions c' = c_sessions c \<Longrightarrow> two_way pr n k c' d = two_way pr n k c d"
  by (simp add: two_way_def)

lemma signal_exchange:
  fixes net net2 :: "'w net"
  assumes "aead_total (ce_prims ce)" and "wire_codec (ce_wire ce)" and "two_way (ce_prims ce) (Suc n) k c d"
    and "c_user_id c \<noteq> c_user_id d" and "length t < 2 ^ 32" and "takes_sends ce net"
  obtains c' files' w' e r' where
    "send_message ce (logged net) dr (c_user_id d) t (c, files, [], w) = Some (Inr (), c', files', [send_request ce e], w')"
    "c_user_id c' = c_user_id c" "c_active_call c' = c_active_call c"
    "\<And>dr2 d1 files2 w2. process_call_signal (ce_prims ce) (ce_codecs ce) (dr_rng dr2 0) (c_user_id c) (as_bytes t)
        (d\<lparr>c_sessions := store_put (c_user_id c) r' (c_sessions d)\<rparr>) = (True, d1) \<Longrightarrow>
      \<exists>w'. receive_message ce net2 dr2 e (d, files2, w2) = Some (Inr (), d1, files2, w')"
    "two_way (ce_prims ce) k n (d\<lparr>c_sessions := store_put (c_user_id c) r' (c_sessions d)\<rparr>) c'"
proof -
  let ?pr = "ce_prims ce" and ?u = "c_user_id c" and ?v = "c_user_id d"
  obtain s r where s: "SessionStore_get (c_sessions c) ?v 1 = Some s" and r: "SessionStore_get (c_sessions d) ?u 1 = Some r"
    and l: "session_linked ?pr s r [] []" "session_linked ?pr r s [] []"
    and room: "room_to_send ?pr (Suc n) s" "room_to_receive ?pr (Suc n) r" "room_to_send ?pr k r" "room_to_receive ?pr k s"
    using assms(3) unfolding two_way_def by blast
  have len: "length (as_bytes t) < 2 ^ 32" using assms(5) by (simp add: as_bytes_def)
  obtain m s1 r1 where e: "Session_encrypt ?pr s (dr_nonce dr) (as_bytes t) = Some (Inr m, s1)"
    and d: "Session_decrypt ?pr r m = Some (Inr (as_bytes t), r1)" and k: "session_key s1 = session_key s" "session_key r1 = session_key r"
    and l1: "session_linked ?pr s1 r1 [] []" "session_linked ?pr r1 s1 [] []"
    and room1: "room_to_send ?pr n s1" "room_to_receive ?pr n r1" "room_to_send ?pr k r1" "room_to_receive ?pr k s1"
    by (rule exchange_linked [OF assms(1) l room len, of "dr_nonce dr"])
  obtain ct where ct: "SessionMessage_to_json (ce_wire ce) m = Inr ct" "SessionMessage_from_json (ce_wire ce) ct = Inr m"
    by (rule session_codec [OF assms(2)])
  let ?e = "Envelope_new (dr_millis dr 0) ?u ?v ct Normal"
  have v: "?v \<noteq> ?u" using assms(4) by simp
  obtain c' files' w' where sent: "send_message ce (logged net) dr ?v t (c, files, [], w) = Some (Inr (), c', files', [send_request ce ?e], w')"
    and c': "c_user_id c' = ?u" "c_sessions c' = store_put ?v s1 (c_sessions c)" "c_active_call c' = c_active_call c"
    using send_message_linked [where reqs = "[]" and files = files and w = w, OF s v e ct(1) assms(6)] by auto
  have "two_way ?pr k n (d\<lparr>c_sessions := store_put ?u r1 (c_sessions d)\<rparr>) c'"
    unfolding two_way_def using l1 room1 by (simp add: c' store_put_get [OF s k(1)] store_put_get [OF r k(2)])
  moreover have "\<exists>w'. receive_message ce net2 dr2 ?e (d, files2, w2) = Some (Inr (), d1, files2, w')"
    if "process_call_signal ?pr (ce_codecs ce) (dr_rng dr2 0) ?u (as_bytes t)
        (d\<lparr>c_sessions := store_put ?u r1 (c_sessions d)\<rparr>) = (True, d1)" for dr2 d1 files2 w2
  proof -
    have "env_msg_type ?e = Normal" "env_sender_id ?e = ?u" "env_content ?e = ct" by (simp_all add: Envelope_new_def)
    then show ?thesis using receive_signal [where e = ?e and c = d and r' = r1, OF _ _ _ _ d] that assms(4) ct(2) r by simp
  qed
  ultimately show thesis using that [OF sent c'(1,3)] by blast
qed

section \<open>The call\<close>

text \<open>The call of the two clients before and after it connects.\<close>

definition offered :: "prims \<Rightarrow> string \<Rightarrow> string \<Rightarrow> bytes \<Rightarrow> ActiveCall" where
  "offered pr bob i rng =
     \<lparr>ca_peer = bob, ca_call_id = i, ca_media_key_pair = KeyPair_generate pr rng, ca_peer_media_key = None,
      ca_shared_media_secret = None, ca_state = Offering\<rparr>"

definition ringing :: "prims \<Rightarrow> string \<Rightarrow> string \<Rightarrow> bytes \<Rightarrow> bytes \<Rightarrow> ActiveCall" where
  "ringing pr alice i rng k =
     \<lparr>ca_peer = alice, ca_call_id = i, ca_media_key_pair = KeyPair_generate pr rng, ca_peer_media_key = Some k,
      ca_shared_media_secret = None, ca_state = Ringing\<rparr>"

lemma signal_ring:
  assumes "value_from_slice cd p = Inr (jnorm (key_payload pr ''call_offer'' i k))"
    and "hex_decode_vec cd (hex_encode pr k) = Inr k" and "length k = 32"
  shows "process_call_signal pr cd rng sender p c = (True, c\<lparr>c_active_call := Some (ringing pr sender i rng k)\<rparr>)"
  using key_payload_fields(3) [OF assms(2,3)]
  by (simp add: process_call_signal_def assms(1) key_payload_fields(1,2) ringing_def)

lemma signal_answer:
  assumes "value_from_slice cd p = Inr (jnorm (key_payload pr ''call_accept'' i k))"
    and "hex_decode_vec cd (hex_encode pr k) = Inr k" and "length k = 32" and "c_active_call c = Some (offered pr bob j rng0)"
  shows "process_call_signal pr cd rng sender p c = (True, c\<lparr>c_active_call := Some ((offered pr bob j rng0)
    \<lparr>ca_peer_media_key := Some k, ca_shared_media_secret := agree_ok pr (KeyPair_generate pr rng0) k,
     ca_state := Connected\<rparr>)\<rparr>)"
  using key_payload_fields(3) [OF assms(2,3)]
  by (simp add: process_call_signal_def assms(1,4) key_payload_fields(1) offered_def)

text \<open>What starting and accepting a call send.\<close>

lemma start_call_payload:
  assumes "c_active_call c = None" and "i = c_user_id c @ ''_'' @ show_nat (dr_millis dr 2)"
    and "value_to_string ce (key_payload (ce_prims ce) ''call_offer'' i (x25519_public (ce_prims ce) (dr_rng dr 1))) = Inr t"
  shows "start_call ce net dr bob (c, files, w) =
    send_message ce net dr bob t (c\<lparr>c_active_call := Some (offered (ce_prims ce) bob i (dr_rng dr 1))\<rparr>, files, w)"
  using assms by (simp add: start_call_def Let_def send_payload_def key_payload_def offered_def)

lemma accept_call_payload:
  assumes "c_active_call c = Some (ringing (ce_prims ce) alice i rng k)"
    and "value_to_string ce (key_payload (ce_prims ce) ''call_accept'' i (x25519_public (ce_prims ce) (dr_rng dr 1))) = Inr t"
  shows "accept_call ce net dr i (c, files, w) =
    send_message ce net dr alice t (c\<lparr>c_active_call := Some ((ringing (ce_prims ce) alice i rng k)\<lparr>ca_state := Connected,
      ca_media_key_pair := KeyPair_generate (ce_prims ce) (dr_rng dr 1),
      ca_shared_media_secret := agree_ok (ce_prims ce) (KeyPair_generate (ce_prims ce) (dr_rng dr 1)) k\<rparr>)\<rparr>, files, w)"
  using assms by (simp add: accept_call_def Let_def send_payload_def key_payload_def ringing_def)

text \<open>
  Property C28. A call connects with one secret. Alice and Bob have a session and Alice is in no call. The
  one message her client sends when she calls him makes his client ring; the one message his client sends
  when he accepts the id that rings makes hers connect, whatever the networks do beside taking the two
  messages. Then both are connected under the same call id, each names the other, and both have the same
  media secret, the one of the key pair she offered and of the new key pair he made when he accepted.
\<close>

theorem call_keys_agree:
  fixes neta netb :: "'w net"
  assumes "dh_commutes (ce_prims ce)" and "prims_sized (ce_prims ce)" and "aead_total (ce_prims ce)"
    and "wire_codec (ce_wire ce)" and "\<forall>b. hex_decode_vec (ce_codecs ce) (hex_encode (ce_prims ce) b) = Inr b"
    and "i = c_user_id ca @ ''_'' @ show_nat (dr_millis dra 2)" and "call_texts ce i"
    and "linked_clients (ce_prims ce) 1 ca cb" and "linked_clients (ce_prims ce) 1 cb ca" and "c_user_id ca \<noteq> c_user_id cb"
    and "c_active_call ca = None" and "takes_sends ce neta" and "takes_sends ce netb"
  shows "\<exists>ca1 fa1 wa1 offer cb1 fb1 wb1 cb2 fb2 wb2 answer ca2 wa2 call_a call_b.
    start_call ce (logged neta) dra (c_user_id cb) (ca, fa, [], wa) = Some (Inr (), ca1, fa1, [send_request ce offer], wa1) \<and>
    receive_message ce netb drb offer (cb, fb, wb) = Some (Inr (), cb1, fb1, wb1) \<and>
    accept_call ce (logged netb) drb' i (cb1, fb1, [], wb1) = Some (Inr (), cb2, fb2, [send_request ce answer], wb2) \<and>
    receive_message ce neta dra' answer (ca1, fa1, wa1) = Some (Inr (), ca2, fa1, wa2) \<and>
    c_active_call ca2 = Some call_a \<and> c_active_call cb2 = Some call_b \<and>
    ca_state call_a = Connected \<and> ca_state call_b = Connected \<and> ca_call_id call_a = i \<and> ca_call_id call_b = i \<and>
    ca_peer call_a = c_user_id cb \<and> ca_peer call_b = c_user_id ca \<and>
    ca_shared_media_secret call_a = Some (x25519_dh (ce_prims ce) (dr_rng dra 1) (x25519_public (ce_prims ce) (dr_rng drb' 1))) \<and>
    ca_shared_media_secret call_b = ca_shared_media_secret call_a"
proof -
  let ?pr = "ce_prims ce" and ?alice = "c_user_id ca" and ?bob = "c_user_id cb"
  let ?ka = "x25519_public ?pr (dr_rng dra 1)" and ?kb = "x25519_public ?pr (dr_rng drb' 1)"
  have len: "length ?ka = 32" "length ?kb = 32" using assms(2) by (simp_all add: prims_sized_def)
  have hex: "hex_decode_vec (ce_codecs ce) (hex_encode ?pr k) = Inr k" for k using assms(5) by blast
  obtain ta where ta: "value_to_string ce (key_payload ?pr ''call_offer'' i ?ka) = Inr ta" "length ta < 2 ^ 32"
      "value_from_slice (ce_codecs ce) (as_bytes ta) = Inr (jnorm (key_payload ?pr ''call_offer'' i ?ka))"
    using assms(7) len(1) unfolding call_texts_def by blast
  obtain tb where tb: "value_to_string ce (key_payload ?pr ''call_accept'' i ?kb) = Inr tb" "length tb < 2 ^ 32"
      "value_from_slice (ce_codecs ce) (as_bytes tb) = Inr (jnorm (key_payload ?pr ''call_accept'' i ?kb))"
    using assms(7) len(2) unfolding call_texts_def by blast
  let ?call_a = "offered ?pr ?bob i (dr_rng dra 1)" and ?ring = "ringing ?pr ?alice i (dr_rng drb 0) ?ka"
  let ?kp = "KeyPair_generate ?pr (dr_rng drb' 1)"
  let ?call_b = "?ring\<lparr>ca_state := Connected, ca_media_key_pair := ?kp, ca_shared_media_secret := agree_ok ?pr ?kp ?ka\<rparr>"
  let ?c = "ca\<lparr>c_active_call := Some ?call_a\<rparr>"
  have way: "two_way ?pr (Suc 0) (Suc 0) ?c cb"
    using two_way_linked [OF assms(8,9)] two_way_cong [of ?c ca] by simp
  have ids: "c_user_id ?c \<noteq> ?bob" using assms(10) by simp
  obtain ca1 fa1 wa1 offer r1 where
    start: "send_message ce (logged neta) dra ?bob ta (?c, fa, [], wa) = Some (Inr (), ca1, fa1, [send_request ce offer], wa1)"
    and ca1: "c_user_id ca1 = c_user_id ?c" "c_active_call ca1 = c_active_call ?c"
    and ring: "\<And>dr2 d1 files2 w2. process_call_signal ?pr (ce_codecs ce) (dr_rng dr2 0) (c_user_id ?c) (as_bytes ta)
        (cb\<lparr>c_sessions := store_put (c_user_id ?c) r1 (c_sessions cb)\<rparr>) = (True, d1) \<Longrightarrow>
      \<exists>w'. receive_message ce netb dr2 offer (cb, files2, w2) = Some (Inr (), d1, files2, w')"
    and way1: "two_way ?pr (Suc 0) 0 (cb\<lparr>c_sessions := store_put (c_user_id ?c) r1 (c_sessions cb)\<rparr>) ca1"
    using signal_exchange [where dr = dra and files = fa and w = wa and ?net2.0 = netb, OF assms(3,4) way ids ta(2) assms(12)] by metis
  let ?cb1 = "cb\<lparr>c_sessions := store_put ?alice r1 (c_sessions cb), c_active_call := Some ?ring\<rparr>"
  obtain wb1 where rings: "receive_message ce netb drb offer (cb, fb, wb) = Some (Inr (), ?cb1, fb, wb1)"
    using ring [where ?dr2.0 = drb, OF signal_ring [OF ta(3) hex len(1)]] by auto
  let ?d = "?cb1\<lparr>c_active_call := Some ?call_b\<rparr>"
  have way2: "two_way ?pr (Suc 0) 0 ?d ca1" using way1 by (simp add: two_way_def)
  have ids2: "c_user_id ?d \<noteq> c_user_id ca1" using assms(10) ca1(1) by simp
  obtain cb2 fb2 wb2 answer s2 where
    accept: "send_message ce (logged netb) drb' (c_user_id ca1) tb (?d, fb, [], wb1) = Some (Inr (), cb2, fb2, [send_request ce answer], wb2)"
    and cb2: "c_active_call cb2 = c_active_call ?d"
    and connect: "\<And>dr2 d1 files2 w2. process_call_signal ?pr (ce_codecs ce) (dr_rng dr2 0) (c_user_id ?d) (as_bytes tb)
        (ca1\<lparr>c_sessions := store_put (c_user_id ?d) s2 (c_sessions ca1)\<rparr>) = (True, d1) \<Longrightarrow>
      \<exists>w'. receive_message ce neta dr2 answer (ca1, files2, w2) = Some (Inr (), d1, files2, w')"
    using signal_exchange [where dr = drb' and files = fb and w = wb1 and ?net2.0 = neta, OF assms(3,4) way2 ids2 tb(2) assms(13)] by metis
  let ?call_a2 = "?call_a\<lparr>ca_peer_media_key := Some ?kb,
    ca_shared_media_secret := agree_ok ?pr (KeyPair_generate ?pr (dr_rng dra 1)) ?kb, ca_state := Connected\<rparr>"
  let ?ca2 = "ca1\<lparr>c_sessions := store_put ?bob s2 (c_sessions ca1), c_active_call := Some ?call_a2\<rparr>"
  have "c_active_call (ca1\<lparr>c_sessions := store_put (c_user_id ?d) s2 (c_sessions ca1)\<rparr>) = Some ?call_a" using ca1(2) by simp
  from connect [where ?dr2.0 = dra', OF signal_answer [OF tb(3) hex len(2) this]]
  obtain wa2 where connects: "receive_message ce neta dra' answer (ca1, fa1, wa1) = Some (Inr (), ?ca2, fa1, wa2)" by auto
  have starts: "start_call ce (logged neta) dra ?bob (ca, fa, [], wa) = Some (Inr (), ca1, fa1, [send_request ce offer], wa1)"
    using start unfolding start_call_payload [OF assms(11,6) ta(1)] .
  have accepts: "accept_call ce (logged netb) drb' i (?cb1, fb, [], wb1) = Some (Inr (), cb2, fb2, [send_request ce answer], wb2)"
    using accept_call_payload [where net = "logged netb" and c = ?cb1 and alice = ?alice and rng = "dr_rng drb 0" and k = ?ka, OF _ tb(1)] accept ca1(1)
    by simp
  have "x25519_dh ?pr (dr_rng drb' 1) ?ka = x25519_dh ?pr (dr_rng dra 1) ?kb" using assms(1) by (simp add: dh_commutes_def)
  then have secrets: "ca_shared_media_secret ?call_b = ca_shared_media_secret ?call_a2"
    "ca_shared_media_secret ?call_a2 = Some (x25519_dh ?pr (dr_rng dra 1) ?kb)" by (simp_all add: agree_ok_def agree_def)
  have ends: "c_active_call ?ca2 = Some ?call_a2" "c_active_call cb2 = Some ?call_b" using cb2 by simp_all
  have "ca_state ?call_a2 = Connected" "ca_state ?call_b = Connected" "ca_call_id ?call_a2 = i" "ca_call_id ?call_b = i"
    "ca_peer ?call_a2 = ?bob" "ca_peer ?call_b = ?alice" by (simp_all add: offered_def ringing_def)
  note fields = starts rings accepts connects ends this secrets(2,1)
  show ?thesis by (intro exI conjI) (rule fields)+
qed

text \<open>
  The two linked clients of the group example, with a codec for the payloads of calls: the text is a digit
  for the kind and the key.
\<close>

definition call_env :: client_env where
  "call_env = relay_client_env\<lparr>
     value_to_string := (\<lambda>v. Inr ((if get_str v ''__tintin_type'' = Some ''call_offer'' then ''0'' else ''1'') @ str_or v ''media_key_pub'' [])),
     ce_codecs := (ce_codecs relay_client_env)\<lparr>value_from_slice := (\<lambda>b. Inr (jnorm (key_payload demo_prims
       (if b ! 0 = 48 then ''call_offer'' else ''call_accept'') ''alice_2'' (tl b))))\<rparr>\<rparr>"

definition call_net :: "unit net" where
  "call_net request w = (Inr (JObject [(''status'', JString ''ok'')]), w)"

lemma demo_hex: "hex_encode demo_prims k = map (\<lambda>x. char_of (unat x)) k"
  by (simp add: demo_prims_def)

lemma call_env_texts: "call_texts call_env ''alice_2''"
proof -
  have "as_bytes (x # map (\<lambda>x. char_of (unat x)) k) = word_of_nat (of_char x) # k" for x and k :: bytes
    using as_bytes_chars [of k] by (simp add: as_bytes_def)
  then show ?thesis
    by (auto simp: call_texts_def call_env_def relay_client_env_def key_payload_def call_payload_def get_str_def str_or_def
        json_index_def demo_hex)
qed

lemma demo_link_back:
  "session_linked demo_prims (snd (demo_link u)) (fst (demo_link u)) [] []"
  "room_to_send demo_prims 1 (snd (demo_link u))" "room_to_receive demo_prims 1 (fst (demo_link u))"
proof -
  obtain a b where hs: "handshake demo_prims [5] (demo_identity 1) (demo_identity 2) demo_spk (''alice'', u) = Some (a, b)"
    using handshake_completes [OF demo_dh_commutes demo_hkdf_total demo_spk_wf, of "[5]" "demo_identity 1" "demo_identity 2" "''alice''" u]
    by blast
  have ab: "fst (demo_link u) = a" "snd (demo_link u) = b" by (simp_all add: demo_link_def hs)
  show "session_linked demo_prims (snd (demo_link u)) (fst (demo_link u)) [] []"
    using handshake_linked(2) [OF demo_dh_commutes demo_aead_correct demo_spk_wf hs] by (simp add: ab)
  have "r_recv_msg_number (s_ratchet a) = 0" "r_send_msg_number (s_ratchet b) = 0"
    using handshake_SomeD [OF hs] by (auto simp: Session_new_initiator_def Session_new_responder_def Ratchet_new_initiator_def
        Ratchet_new_responder_def bind_eq_Some_conv agree_def Let_def split: sum.splits prod.splits)
  then show "room_to_send demo_prims 1 (snd (demo_link u))" "room_to_receive demo_prims 1 (fst (demo_link u))"
    by (simp_all add: ab room_to_send_def room_to_receive_def)
qed

lemma linked_member_alice: "u \<in> {''bob'', ''carol''} \<Longrightarrow> linked_clients demo_prims 1 (linked_member u) linked_alice"
  using demo_link_linked [of "''bob''"] demo_link_linked [of "''carol''"] demo_link_back [of "''bob''"] demo_link_back [of "''carol''"]
  by (auto simp: linked_clients_def linked_alice_def linked_member_def relay_client_fields SessionStore_get_def session_key_def)

theorem call_keys_agree_witness:
  "\<exists>ca1 fa1 wa1 offer cb1 fb1 wb1 cb2 fb2 wb2 answer ca2 wa2 call_a call_b secret.
    start_call call_env (logged call_net) demo_draw ''bob'' (linked_alice, \<lambda>_. None, [], ()) =
      Some (Inr (), ca1, fa1, [send_request call_env offer], wa1) \<and>
    receive_message call_env call_net demo_draw offer (linked_member ''bob'', \<lambda>_. None, ()) = Some (Inr (), cb1, fb1, wb1) \<and>
    accept_call call_env (logged call_net) (demo_draw\<lparr>dr_rng := (\<lambda>_. [9])\<rparr>) ''alice_2'' (cb1, fb1, [], wb1) =
      Some (Inr (), cb2, fb2, [send_request call_env answer], wb2) \<and>
    receive_message call_env call_net demo_draw answer (ca1, fa1, wa1) = Some (Inr (), ca2, fa1, wa2) \<and>
    c_active_call ca2 = Some call_a \<and> c_active_call cb2 = Some call_b \<and>
    ca_shared_media_secret call_a = Some secret \<and> ca_shared_media_secret call_b = Some secret"
proof -
  have env: "ce_prims call_env = demo_prims" "ce_wire call_env = demo_wire"
    by (simp_all add: call_env_def relay_client_env_def)
  have hex: "\<forall>b. hex_decode_vec (ce_codecs call_env) (hex_encode demo_prims b) = Inr b"
    by (simp add: call_env_def relay_client_env_def demo_hex)
  have me: "c_user_id linked_alice = ''alice''" "c_user_id (linked_member ''bob'') = ''bob''" "c_active_call linked_alice = None"
    by (simp_all add: linked_alice_def linked_member_def relay_client_def TinTinClient_new_def Let_def load_chat_log_def
        load_channels_def load_groups_def load_history_def load_from_def)
  have id: "''alice_2'' = c_user_id linked_alice @ ''_'' @ show_nat (dr_millis demo_draw 2)"
    by (simp add: me demo_draw_def) (simp add: show_nat.simps dec_digit_def)
  have net: "takes_sends call_env call_net" by (simp add: takes_sends_def call_net_def resp_ok_def json_index_def)
  have ids: "c_user_id linked_alice \<noteq> c_user_id (linked_member ''bob'')" by (simp add: me)
  note links = linked_alice_member [of "''bob''", simplified] linked_member_alice [of "''bob''", simplified]
  from call_keys_agree [where ce = call_env and ca = linked_alice and cb = "linked_member ''bob''" and dra = demo_draw
      and i = "''alice_2''" and neta = call_net and netb = call_net and fa = "\<lambda>_. None" and fb = "\<lambda>_. None" and wa = "()" and wb = "()"
      and drb = demo_draw and drb' = "demo_draw\<lparr>dr_rng := (\<lambda>_. [9])\<rparr>" and dra' = demo_draw, unfolded env One_nat_def,
      OF demo_dh_commutes demo_prims_sized demo_aead_total demo_wire_codec hex id call_env_texts links ids me(3) net net]
  show ?thesis unfolding me(2) by - (elim exE conjE, intro exI conjI, assumption+, simp)
qed

end
