(* ===== verification/Voice_Properties.thy ===== *)
theory Voice_Properties
  imports Cli_Voice
begin

text \<open>
  Properties of the voice recorder: what the loop captures, and how close the samples of the file are to
  the samples of the microphone.
\<close>

section \<open>The loop\<close>

text \<open>A round that delivers samples in time.\<close>

fun delivered :: "nat \<times> received \<Rightarrow> f32 list" where
  "delivered (elapsed, Chunk chunk now) = chunk"
| "delivered _ = []"

definition goes_on :: "nat \<Rightarrow> nat \<times> received \<Rightarrow> bool" where
  "goes_on duration_secs round \<longleftrightarrow> fst round < duration_secs * 10 ^ 9 \<and> snd round \<noteq> Disconnected"

lemma first_error_None: "first_error es = None \<longleftrightarrow> set es \<subseteq> {None}"
  by (induction es) (auto split: option.split)

lemma capture_takeWhile:
  "capture secs tick_error rounds ticks acc = Inr samples \<Longrightarrow>
   samples = acc @ concat (map delivered (takeWhile (goes_on secs) rounds))"
proof (induction secs tick_error rounds ticks acc rule: capture.induct)
  case (2 secs tick_error elapsed r rounds ticks acc)
  then show ?case by (cases r) (auto simp: goes_on_def Let_def split: if_splits option.splits)
qed simp

text \<open>When the bar can be written the loop always ends with the samples.\<close>

lemma capture_quiet:
  "(\<And>i. tick_error i = None) \<Longrightarrow>
   capture secs tick_error rounds ticks acc = Inr (acc @ concat (map delivered (takeWhile (goes_on secs) rounds)))"
proof (induction secs tick_error rounds ticks acc rule: capture.induct)
  case (2 secs tick_error elapsed r rounds ticks acc)
  have "tick_error = (\<lambda>_. None)" using 2(3) by blast
  moreover have "first_error (map (\<lambda>_. None) ks) = None" for ks :: "nat list" by (auto simp: first_error_None)
  ultimately show ?case using 2 by (cases r) (auto simp: goes_on_def Let_def)
qed simp

section \<open>Samples\<close>

text \<open>The numbers that are values of \<open>f32\<close>.\<close>

definition is_f32 :: "int \<Rightarrow> bool" where
  "is_f32 n \<longleftrightarrow> round_f32 n 1 = Fin n"

lemma trunc_units_error: "\<bar>trunc_units a * 2 ^ 149 - a\<bar> < 2 ^ 149"
proof -
  have m: "0 \<le> \<bar>a\<bar> mod 2 ^ 149" "\<bar>a\<bar> mod 2 ^ 149 < 2 ^ 149" by simp_all
  have "\<bar>a\<bar> = \<bar>a\<bar> div 2 ^ 149 * 2 ^ 149 + \<bar>a\<bar> mod 2 ^ 149" by (simp only: div_mult_mod_eq)
  moreover have "sgn a * x * y = sgn a * (x * y)" for x y :: int by simp
  ultimately show ?thesis
    using m by (cases a "0::int" rule: linorder_cases) (auto simp: trunc_units_def)
qed

lemma scaled_level:
  assumes "\<bar>n\<bar> \<le> 2 ^ 149"
  obtains m where "round_f32 (n * 32767) 1 = Fin m" and "\<bar>m - 32767 * n\<bar> \<le> 2 ^ 139"
proof -
  have "ulp (n * 32767) 1 \<le> 2 ^ (164 - 24)"
    by (rule ulp_le) (use assms in \<open>simp_all add: abs_mult\<close>)
  with round_units_error [of 1 "n * 32767"]
  have e: "\<bar>round_units (n * 32767) 1 - 32767 * n\<bar> \<le> 2 ^ 139" by (simp add: mult.commute)
  moreover have "\<bar>round_units (n * 32767) 1\<bar> < 2 ^ 277" using e assms by (simp add: abs_le_iff) linarith
  then have "\<not> 2 ^ 277 \<le> round_units (n * 32767) 1" "\<not> round_units (n * 32767) 1 \<le> - (2 ^ 277)"
    by linarith+
  then have "round_f32 (n * 32767) 1 = Fin (round_units (n * 32767) 1)"
    unfolding round_f32_def Let_def by (simp only: if_False)
  ultimately show thesis using that by blast
qed

text \<open>Property C32. The voice recorder is accurate on a microphone with one channel: a sample between -1
  and 1 becomes a 16-bit sample that differs from 32767 times its value by less than 1 + 1/1024 and never
  clips at -32768; what is not a number becomes silence and the infinities the largest and the smallest
  sample. The number of samples in the file is that of the full frames.\<close>

theorem voice_level_accuracy:
  assumes "i < length xs"
  shows "(\<forall>n. xs ! i = Fin n \<and> is_f32 n \<and> \<bar>n\<bar> \<le> 2 ^ 149 \<longrightarrow>
      \<bar>frame_level 1 xs i * 2 ^ 149 - 32767 * n\<bar> < 2 ^ 149 + 2 ^ 139 \<and> \<bar>frame_level 1 xs i\<bar> \<le> 32767) \<and>
    (xs ! i = NaN \<longrightarrow> frame_level 1 xs i = 0) \<and>
    (xs ! i = PosInf \<longrightarrow> frame_level 1 xs i = 32767) \<and> (xs ! i = NegInf \<longrightarrow> frame_level 1 xs i = - 32768) \<and>
    length (mono_pcm channels xs) = length xs div channels"
proof -
  have s: "frame_sum 1 xs i = f32_add (Fin 0) (xs ! i)"
    using assms by (simp add: frame_sum_def f32_of_int_def)
  have "\<bar>frame_level 1 xs i * 2 ^ 149 - 32767 * n\<bar> < 2 ^ 149 + 2 ^ 139 \<and> \<bar>frame_level 1 xs i\<bar> \<le> 32767"
    if x: "xs ! i = Fin n" "is_f32 n" "\<bar>n\<bar> \<le> 2 ^ 149" for n
  proof -
    obtain m where m: "round_f32 (n * 32767) 1 = Fin m" "\<bar>m - 32767 * n\<bar> \<le> 2 ^ 139"
      using scaled_level [OF x(3)] .
    define c where "c = max (- 32768 * 2 ^ 149) (min (32767 * 2 ^ 149) m)"
    have "f32_clamp (Fin m) (- 32768) 32767 = Fin c" by (auto simp: c_def f32_of_int_def)
    moreover have "f32_mul_int (f32_div_int (frame_sum 1 xs i) (int 1)) 32767 = Fin m"
      using x m(1) unfolding s by (simp add: is_f32_def)
    ultimately have l: "frame_level 1 xs i = max (- 32768) (min 32767 (trunc_units c))"
      unfolding frame_level_def Let_def by (simp only: f32_as_i16.simps)
    have c: "\<bar>c - 32767 * n\<bar> \<le> 2 ^ 139" "\<bar>c\<bar> < 32768 * 2 ^ 149" "c \<le> 32767 * 2 ^ 149"
      using m(2) x(3) by (auto simp: c_def)
    have t: "\<bar>trunc_units c\<bar> \<le> 32767"
    proof -
      have "\<bar>c\<bar> div 2 ^ 149 < 32768" using c(2) by simp
      moreover have "\<bar>trunc_units c\<bar> \<le> \<bar>c\<bar> div 2 ^ 149" by (simp add: trunc_units_def abs_mult sgn_if)
      ultimately show ?thesis by linarith
    qed
    then have "frame_level 1 xs i = trunc_units c" unfolding l by simp
    with t c(1) trunc_units_error [of c] show ?thesis by (simp del: One_nat_def)
  qed
  moreover have "frame_level 1 xs i = f32_as_i16 (f32_clamp (xs ! i) (- 32768) 32767)"
    if "xs ! i \<in> {NaN, PosInf, NegInf}"
    using that unfolding frame_level_def Let_def s by auto
  ultimately show ?thesis
    by (simp add: mono_pcm_def f32_of_int_def trunc_units_def del: One_nat_def)
qed

theorem voice_level_accuracy_witness:
  "\<bar>frame_level 1 [Fin (2 ^ 148)] 0 * 2 ^ 149 - 32767 * 2 ^ 148\<bar> < 2 ^ 149 + 2 ^ 139"
proof -
  have "is_f32 (2 ^ 148)" by (simp add: is_f32_def round_f32_def round_units_def ulp_def bit_len.simps round_div_def)
  with voice_level_accuracy [of 0 "[Fin (2 ^ 148)]" 1] show ?thesis by simp
qed

end
