(* ===== verification/Repository_Tests.thy ===== *)
theory Repository_Tests
  imports Established_Session Sdk_Manifest
begin

text \<open>
  The unit tests of \<open>tintin-core\<close> and of \<open>tintin-sdk\<close> that speak about their own code, run on the model: a
  test is the value of its assertions, or \<open>None\<close> when it panics. What it draws at random is an argument,
  so that a test that passes here passes for every draw. Tests of randomness itself, such as that a key
  is not zero, and tests of the JSON parser are left out.
\<close>

section \<open>Tests of the core\<close>

text \<open>\<open>unwrap\<close> and \<open>expect\<close>, of a result and of a result with a new state.\<close>

definition ok :: "('e + 'a) option \<Rightarrow> 'a option" where
  "ok r = (case r of Some (Inr x) \<Rightarrow> Some x | _ \<Rightarrow> None)"

definition ok_with :: "(('e + 'a) \<times> 's) option \<Rightarrow> ('a \<times> 's) option" where
  "ok_with r = (case r of Some (Inr x, s) \<Rightarrow> Some (x, s) | _ \<Rightarrow> None)"

definition test_encrypt_decrypt :: "prims \<Rightarrow> bytes \<Rightarrow> bool option" where
  "test_encrypt_decrypt pr rnd =
     (let key = replicate 32 0x42; plaintext = ascii_bytes ''Hello, TinTin! This is a secret message.''
      in do {
        (ct, nonce) \<leftarrow> ok (Some (encrypt pr rnd plaintext key));
        pt \<leftarrow> ok (Some (decrypt pr ct key nonce));
        Some (pt = plaintext)
      })"

definition test_key_agreement :: "prims \<Rightarrow> bytes \<Rightarrow> bytes \<Rightarrow> bool option" where
  "test_key_agreement pr rnd1 rnd2 =
     (let alice = KeyPair_generate pr rnd1; bob = KeyPair_generate pr rnd2
      in do {
        shared_a \<leftarrow> ok (Some (agree pr alice (kp_public bob)));
        shared_b \<leftarrow> ok (Some (agree pr bob (kp_public alice)));
        Some (shared_a = shared_b)
      })"

definition test_identity_signing :: "prims \<Rightarrow> bytes \<Rightarrow> bytes \<Rightarrow> bool" where
  "test_identity_signing pr rnd1 rnd2 \<longleftrightarrow>
     (let identity = IdentityKeyPair_generate pr rnd1; signed_pre_key = SignedPreKey_generate pr rnd2 1 identity
      in spk_signature signed_pre_key \<noteq> [] \<and> SignedPreKey_verify signed_pre_key (public_key identity))"

definition test_session_message_roundtrip :: "wire \<Rightarrow> bool option" where
  "test_session_message_roundtrip w =
     (let msg = \<lparr>sm_version = 1, sm_ciphertext = [1, 2, 3, 4], sm_nonce = replicate 12 0,
                 sm_ratchet_key = replicate 32 0xAB, sm_message_number = 0\<rparr>
      in do {
        json \<leftarrow> ok (Some (SessionMessage_to_json w msg));
        deserialized \<leftarrow> ok (Some (SessionMessage_from_json w json));
        Some (sm_version deserialized = sm_version msg \<and> sm_ciphertext deserialized = sm_ciphertext msg \<and>
              sm_nonce deserialized = sm_nonce msg \<and> sm_message_number deserialized = sm_message_number msg)
      })"

definition test_envelope_roundtrip :: "wire \<Rightarrow> nat \<Rightarrow> bool option" where
  "test_envelope_roundtrip w now =
     (let env = Envelope_new now ''alice'' ''bob'' [1, 2, 3] Normal
      in do {
        json \<leftarrow> ok (Some (Envelope_to_json w env));
        deserialized \<leftarrow> ok (Some (Envelope_from_json w json));
        Some (env_sender_id deserialized = ''alice'' \<and> env_recipient_id deserialized = ''bob'' \<and>
              env_msg_type deserialized = Normal)
      })"

definition test_ratchet_encrypt_decrypt_alice_bob ::
  "prims \<Rightarrow> bytes \<Rightarrow> bytes \<Rightarrow> bytes \<Rightarrow> bytes \<Rightarrow> bool option" where
  "test_ratchet_encrypt_decrypt_alice_bob pr rnd1 rnd2 nonce1 nonce2 =
     (let bob_dh = KeyPair_generate pr rnd1; alice_eph = KeyPair_generate pr rnd2;
          plaintext = ascii_bytes ''Hello Bob! This is a secret message from Alice.'';
          reply = ascii_bytes ''Hey Alice! Got your message.''
      in do {
        shared \<leftarrow> ok (Some (agree pr alice_eph (kp_public bob_dh)));
        alice \<leftarrow> Ratchet_new_initiator pr shared alice_eph (kp_public bob_dh);
        shared_bob \<leftarrow> ok (Some (agree pr bob_dh (kp_public (r_dh_ratchet_key alice))));
        bob \<leftarrow> Ratchet_new_responder pr shared_bob (kp_public (r_dh_ratchet_key alice)) bob_dh;
        (msg, alice1) \<leftarrow> ok_with (encrypt_message pr alice nonce1 plaintext);
        (decrypted, bob1) \<leftarrow> ok_with (decrypt_message pr bob msg);
        (msg2, bob2) \<leftarrow> ok_with (encrypt_message pr bob1 nonce2 reply);
        (decrypted2, alice2) \<leftarrow> ok_with (decrypt_message pr alice1 msg2);
        Some (shared = shared_bob \<and> decrypted = plaintext \<and> decrypted2 = reply)
      })"

definition test_session_encrypt_decrypt ::
  "prims \<Rightarrow> bytes \<Rightarrow> bytes \<Rightarrow> bytes \<Rightarrow> bytes \<Rightarrow> bytes \<Rightarrow> bytes \<Rightarrow> bool option" where
  "test_session_encrypt_decrypt pr rnd1 rnd2 rnd3 rnd4 nonce1 nonce2 =
     (let bob_identity = IdentityKeyPair_generate pr rnd1; bob_signed = SignedPreKey_generate pr rnd2 1 bob_identity;
          alice_identity = IdentityKeyPair_generate pr rnd3;
          msg = ascii_bytes ''Hey Bob!''; reply = ascii_bytes ''Hey Alice!''
      in do {
        alice \<leftarrow> ok (Session_new_initiator pr rnd4 alice_identity ''bob'' 1 (public_key bob_identity)
                        (kp_public (spk_key_pair bob_signed)));
        bob \<leftarrow> ok (Session_new_responder pr bob_identity ''alice'' 1 (public_key (s_our_identity alice))
                      (kp_public (r_dh_ratchet_key (s_ratchet alice))) bob_signed);
        (encrypted, alice1) \<leftarrow> ok_with (Session_encrypt pr alice nonce1 msg);
        (decrypted, bob1) \<leftarrow> ok_with (Session_decrypt pr bob encrypted);
        (encrypted2, bob2) \<leftarrow> ok_with (Session_encrypt pr bob1 nonce2 reply);
        (decrypted2, alice2) \<leftarrow> ok_with (Session_decrypt pr alice1 encrypted2);
        Some (decrypted = msg \<and> decrypted2 = reply)
      })"

definition test_session_store :: "prims \<Rightarrow> bytes \<Rightarrow> bytes \<Rightarrow> bytes \<Rightarrow> bytes \<Rightarrow> bool option" where
  "test_session_store pr rnd1 rnd2 rnd3 rnd4 =
     (let store = SessionStore_new; alice_identity = IdentityKeyPair_generate pr rnd1;
          bob_identity = IdentityKeyPair_generate pr rnd2; bob_signed = SignedPreKey_generate pr rnd3 1 bob_identity
      in do {
        session \<leftarrow> ok (Session_new_initiator pr rnd4 alice_identity ''bob'' 1 (public_key bob_identity)
                          (kp_public (spk_key_pair bob_signed)));
        (let store1 = SessionStore_add session store
         in Some (SessionStore_len store = 0 \<and> SessionStore_len store1 = 1 \<and> SessionStore_get store1 ''bob'' 1 \<noteq> None \<and>
                  SessionStore_get store1 ''alice'' 1 = None))
      })"

section \<open>Tests of the SDK\<close>

definition test_manifest :: "string \<Rightarrow> string \<Rightarrow> string list \<Rightarrow> u64 \<Rightarrow> MiniAppManifest" where
  "test_manifest i name permissions bytes_declared =
     \<lparr>app_id = i, mf_name = name, mf_version = ''0.1.0'', description = [], icon = ''icon.png'',
      entry = ''index.html'', mf_permissions = permissions, size_bytes = bytes_declared, developer = None\<rparr>"

definition test_validate_good_manifest :: bool where
  "test_validate_good_manifest \<longleftrightarrow>
     \<not> isl (validate_manifest (test_manifest ''com.example.good'' ''Good'' [''user.profile.read''] 100000))"

definition test_validate_bad_permission :: bool where
  "test_validate_bad_permission \<longleftrightarrow>
     isl (validate_manifest (test_manifest ''com.example.bad'' ''Bad'' [''user.secret''] 100000))"

definition test_validate_too_large :: bool where
  "test_validate_too_large \<longleftrightarrow>
     isl (validate_manifest (test_manifest ''com.example.large'' ''Large'' [] 10000000))"

definition test_permission_set :: bool where
  "test_permission_set \<longleftrightarrow>
     (let ps = PermissionSet_new; ps1 = grant ''user.profile.read'' ps
      in \<not> check ps ''user.profile.read'' \<and> check ps1 ''user.profile.read'' \<and>
         PermissionSet_list ps1 = [''user.profile.read''])"

definition test_sandbox_config_from_manifest :: bool where
  "test_sandbox_config_from_manifest \<longleftrightarrow>
     (let config = from_manifest (test_manifest ''com.example.sbox'' ''Sandbox'' [''user.profile.read'', ''media.camera''] 50000)
                     ''/apps/sbox''
      in app_dir config = ''/apps/sbox'' \<and> check (sc_permissions config) ''user.profile.read'' \<and>
         check (sc_permissions config) ''media.camera'' \<and> \<not> check (sc_permissions config) ''message.send'')"

section \<open>The tests pass\<close>

lemma ok_simps [simp]:
  "ok (Some (Inr x)) = Some x" "ok_with (Some (Inr x, s)) = Some (x, s)"
  by (simp_all add: ok_def ok_with_def)

lemma sdk_tests:
  "test_validate_good_manifest" "test_validate_bad_permission" "test_validate_too_large" "test_permission_set"
  "test_sandbox_config_from_manifest"
  by (simp_all add: test_validate_good_manifest_def test_validate_bad_permission_def test_validate_too_large_def
      test_permission_set_def test_sandbox_config_from_manifest_def test_manifest_def validate_manifest_def
      known_permissions_def permission_names check_def grant_def PermissionSet_new_def PermissionSet_list_def
      from_manifest_def SandboxConfig_default_def Let_def)

lemma codec_tests:
  assumes "wire_codec w"
  shows "test_session_message_roundtrip w = Some True" "test_envelope_roundtrip w now = Some True"
proof -
  obtain f g where "\<And>m. session_message_to_vec w m = Inr (f m) \<and> session_message_from_slice w (f m) = Inr m"
    "\<And>e. envelope_to_vec w e = Inr (g e) \<and> envelope_from_slice w (g e) = Inr e"
    using assms unfolding wire_codec_def by metis
  then show "test_session_message_roundtrip w = Some True" "test_envelope_roundtrip w now = Some True"
    by (simp_all add: test_session_message_roundtrip_def test_envelope_roundtrip_def SessionMessage_to_json_def
        SessionMessage_from_json_def Envelope_to_json_def Envelope_from_json_def)
qed

lemma key_tests:
  assumes "dh_commutes pr" and "prims_sized pr"
  shows "test_key_agreement pr rnd1 rnd2 = Some True" "test_identity_signing pr rnd1 rnd2"
proof -
  have "length (sha512 pr m) = 64" for m using assms(2) by (simp add: prims_sized_def)
  then have s: "sha512 pr m \<noteq> []" "length (sha512 pr m) = 64" for m by (metis list.size(3) zero_neq_numeral, simp)
  show "test_key_agreement pr rnd1 rnd2 = Some True"
    using assms(1) by (simp add: test_key_agreement_def agree_def KeyPair_generate_def dh_commutes_def)
  show "test_identity_signing pr rnd1 rnd2"
    by (simp add: test_identity_signing_def SignedPreKey_generate_def SignedPreKey_verify_def verify_signature_def
        sign_identity_def s Let_def)
qed

lemma cipher_test:
  assumes "aead_correct pr" and "aead_total pr"
  shows "test_encrypt_decrypt pr rnd = Some True"
proof -
  let ?k = "replicate 32 (0x42 :: u8)" and ?p = "ascii_bytes ''Hello, TinTin! This is a secret message.''"
  have "length ?p < 2 ^ 32" by (simp add: ascii_bytes_def)
  then obtain c where c: "chacha_encrypt pr ?k rnd ?p = Inr c" using assms(2) unfolding aead_total_def by blast
  then have "chacha_decrypt pr ?k rnd c = Inr ?p" using assms(1) by (simp add: aead_correct_def)
  with c show ?thesis by (simp add: test_encrypt_decrypt_def encrypt_def decrypt_def)
qed

text \<open>One message each way between two fresh, linked ratchets.\<close>

lemma ratchet_two_ways:
  assumes "aead_total pr" and "ratchet_linked pr a b [] []" and "ratchet_linked pr b a [] []"
    and "r_send_msg_number a = 0" and "r_recv_msg_number a = 0" and "r_send_msg_number b = 0" and "r_recv_msg_number b = 0"
    and "length p < 2 ^ 32" and "length q < 2 ^ 32"
  obtains m a1 b1 m2 b2 a2 where "encrypt_message pr a n p = Some (Inr m, a1)" "decrypt_message pr b m = Some (Inr p, b1)"
    "encrypt_message pr b1 n2 q = Some (Inr m2, b2)" "decrypt_message pr a1 m2 = Some (Inr q, a2)"
proof -
  have one: "add_u32 (overflow_checks pr) 0 1 = Some 1" by (simp add: add_u32_def)
  obtain c where c: "chacha_encrypt pr (message_key pr (r_send_chain_key a)) n p = Inr c"
    using assms(1,8) unfolding aead_total_def by blast
  obtain c2 where c2: "chacha_encrypt pr (message_key pr (r_send_chain_key b)) n2 q = Inr c2"
    using assms(1,9) unfolding aead_total_def by blast
  have k: "r_recv_chain_key b = r_send_chain_key a" "r_recv_chain_key a = r_send_chain_key b"
    "r_their_ratchet_key b = kp_public (r_dh_ratchet_key a)" "r_their_ratchet_key a = kp_public (r_dh_ratchet_key b)"
    using assms(2,3) by (simp_all add: ratchet_linked_def)
  have d: "chacha_decrypt pr (message_key pr (r_send_chain_key a)) n c = Inr p"
    "chacha_decrypt pr (message_key pr (r_send_chain_key b)) n2 c2 = Inr q"
    using assms(2) c c2 by (auto simp: ratchet_linked_def aead_correct_def)
  define m where "m = \<lparr>rm_ratchet_key = kp_public (r_dh_ratchet_key a), rm_ciphertext = c, rm_nonce = n, rm_message_number = 0,
    rm_previous_count = r_prev_send_count a\<rparr>"
  define m2 where "m2 = \<lparr>rm_ratchet_key = kp_public (r_dh_ratchet_key b), rm_ciphertext = c2, rm_nonce = n2, rm_message_number = 0,
    rm_previous_count = r_prev_send_count b\<rparr>"
  define a1 where "a1 = a\<lparr>r_send_chain_key := next_chain_key pr (r_send_chain_key a), r_send_msg_number := 1\<rparr>"
  define b1 where "b1 = b\<lparr>r_recv_chain_key := next_chain_key pr (r_recv_chain_key b), r_recv_msg_number := 1\<rparr>"
  note s = encrypt_message_eq decrypt_message_def next_recv_key_eq encrypt_def decrypt_def assms(4-7) one c c2 d k
    m_def m2_def a1_def b1_def
  have "encrypt_message pr a n p = Some (Inr m, a1)" "decrypt_message pr b m = Some (Inr p, b1)" by (simp_all add: s)
  moreover obtain b2 where "encrypt_message pr b1 n2 q = Some (Inr m2, b2)" by (simp add: s)
  moreover obtain a2 where "decrypt_message pr a1 m2 = Some (Inr q, a2)" by (simp add: s)
  ultimately show thesis using that by blast
qed

lemma session_two_ways:
  assumes "aead_total pr" and ab: "session_linked pr a b [] []" and ba: "session_linked pr b a [] []"
    and "r_send_msg_number (s_ratchet a) = 0" and "r_recv_msg_number (s_ratchet a) = 0"
    and "r_send_msg_number (s_ratchet b) = 0" and "r_recv_msg_number (s_ratchet b) = 0"
    and "length p < 2 ^ 32" and "length q < 2 ^ 32"
  obtains m a1 b1 m2 b2 a2 where "Session_encrypt pr a n p = Some (Inr m, a1)" "Session_decrypt pr b m = Some (Inr p, b1)"
    "Session_encrypt pr b1 n2 q = Some (Inr m2, b2)" "Session_decrypt pr a1 m2 = Some (Inr q, a2)"
proof -
  have room: "room_to_send pr (Suc 0) a" "room_to_receive pr (Suc 0) b" "room_to_send pr (Suc 0) b" "room_to_receive pr (Suc 0) a"
    using assms(4-7) by (simp_all add: room_to_send_def room_to_receive_def)
  from exchange_linked [OF assms(1) ab ba room assms(8)] obtain m a1 b1 where
    first: "Session_encrypt pr a n p = Some (Inr m, a1)" "Session_decrypt pr b m = Some (Inr p, b1)"
    and l: "session_linked pr a1 b1 [] []" "session_linked pr b1 a1 [] []"
    and r: "room_to_send pr 0 a1" "room_to_receive pr 0 b1" "room_to_send pr (Suc 0) b1" "room_to_receive pr (Suc 0) a1"
    by metis
  from exchange_linked [OF assms(1) l(2,1) r(3,4,1,2) assms(9)] obtain m2 b2 a2 where
    "Session_encrypt pr b1 n2 q = Some (Inr m2, b2)" "Session_decrypt pr a1 m2 = Some (Inr q, a2)"
    by metis
  with first that show thesis by blast
qed

lemma ratchet_test:
  assumes "dh_commutes pr" and "hkdf_total pr" and "aead_correct pr" and "aead_total pr"
  shows "test_ratchet_encrypt_decrypt_alice_bob pr rnd1 rnd2 nonce1 nonce2 = Some True"
proof -
  let ?bob = "KeyPair_generate pr rnd1" and ?eph = "KeyPair_generate pr rnd2"
  let ?shared = "x25519_dh pr rnd2 (x25519_public pr rnd1)"
  have same: "x25519_dh pr rnd1 (x25519_public pr rnd2) = ?shared" using assms(1) by (simp add: dh_commutes_def)
  obtain root chain where dk: "derive_chain_keys pr ?shared (x25519_public pr rnd2) = Some (root, chain)"
    using assms(2) by (auto simp: derive_chain_keys_def hkdf_total_def bind_eq_Some_conv) (metis option.exhaust)
  obtain a where a: "Ratchet_new_initiator pr ?shared ?eph (kp_public ?bob) = Some a"
    and fa: "r_dh_ratchet_key a = ?eph" "r_their_ratchet_key a = kp_public ?bob" "r_send_chain_key a = chain"
      "r_recv_chain_key a = replicate 32 0" "r_send_msg_number a = 0" "r_recv_msg_number a = 0"
    by (simp add: Ratchet_new_initiator_def dk)
  obtain b where b: "Ratchet_new_responder pr ?shared (kp_public ?eph) ?bob = Some b"
    and fb: "r_dh_ratchet_key b = ?bob" "r_their_ratchet_key b = kp_public ?eph" "r_send_chain_key b = replicate 32 0"
      "r_recv_chain_key b = chain" "r_send_msg_number b = 0" "r_recv_msg_number b = 0"
    by (simp add: Ratchet_new_responder_def dk)
  have "ratchet_linked pr a b [] []" "ratchet_linked pr b a [] []" using assms(3) fa fb by (simp_all add: ratchet_linked_def)
  note linked = this
  have short: "length (ascii_bytes ''Hello Bob! This is a secret message from Alice.'') < 2 ^ 32"
    "length (ascii_bytes ''Hey Alice! Got your message.'') < 2 ^ 32" by (simp_all add: ascii_bytes_def)
  from ratchet_two_ways [where n = nonce1 and ?n2.0 = nonce2,
      OF assms(4) linked fa(5,6) fb(5,6) short]
  obtain m a1 b1 m2 b2 a2 where
    "encrypt_message pr a nonce1 (ascii_bytes ''Hello Bob! This is a secret message from Alice.'') = Some (Inr m, a1)"
    "decrypt_message pr b m = Some (Inr (ascii_bytes ''Hello Bob! This is a secret message from Alice.''), b1)"
    "encrypt_message pr b1 nonce2 (ascii_bytes ''Hey Alice! Got your message.'') = Some (Inr m2, b2)"
    "decrypt_message pr a1 m2 = Some (Inr (ascii_bytes ''Hey Alice! Got your message.''), a2)"
    by metis
  with a b fa(1) same show ?thesis
    by (simp add: test_ratchet_encrypt_decrypt_alice_bob_def agree_def)
qed

lemma session_tests:
  assumes "dh_commutes pr" and "hkdf_total pr" and "aead_correct pr" and "aead_total pr"
  shows "test_session_encrypt_decrypt pr rnd1 rnd2 rnd3 rnd4 nonce1 nonce2 = Some True"
    and "test_session_store pr rnd1 rnd2 rnd3 rnd4 = Some True"
proof -
  let ?bob = "\<lambda>r. IdentityKeyPair_generate pr r" and ?spk = "\<lambda>r i. SignedPreKey_generate pr r 1 i"
  have spk: "kp_public (spk_key_pair (?spk r i)) = x25519_public pr (kp_secret (spk_key_pair (?spk r i)))" for r i
    by (simp add: SignedPreKey_generate_def Let_def KeyPair_generate_def)
  obtain a b where hs: "handshake pr rnd4 (?bob rnd3) (?bob rnd1) (?spk rnd2 (?bob rnd1)) (''alice'', ''bob'') = Some (a, b)"
    using handshake_completes [OF assms(1,2) spk] by metis
  note h = handshake_SomeD [OF hs, simplified]
  have n: "r_send_msg_number (s_ratchet a) = 0" "r_recv_msg_number (s_ratchet a) = 0" "s_our_identity a = ?bob rnd3"
    "r_send_msg_number (s_ratchet b) = 0" "r_recv_msg_number (s_ratchet b) = 0"
    using h by (auto simp: Session_new_initiator_def Session_new_responder_def Ratchet_new_initiator_def Ratchet_new_responder_def
        bind_eq_Some_conv agree_def Let_def split: sum.splits prod.splits)
  have short: "length (ascii_bytes ''Hey Bob!'') < 2 ^ 32" "length (ascii_bytes ''Hey Alice!'') < 2 ^ 32"
    by (simp_all add: ascii_bytes_def)
  from session_two_ways [where n = nonce1 and ?n2.0 = nonce2,
      OF assms(4) handshake_linked [OF assms(1,3) spk hs] n(1,2,4,5) short]
  obtain m a1 b1 m2 b2 a2 where "Session_encrypt pr a nonce1 (ascii_bytes ''Hey Bob!'') = Some (Inr m, a1)"
    "Session_decrypt pr b m = Some (Inr (ascii_bytes ''Hey Bob!''), b1)"
    "Session_encrypt pr b1 nonce2 (ascii_bytes ''Hey Alice!'') = Some (Inr m2, b2)"
    "Session_decrypt pr a1 m2 = Some (Inr (ascii_bytes ''Hey Alice!''), a2)"
    by metis
  with h n(3) show "test_session_encrypt_decrypt pr rnd1 rnd2 rnd3 rnd4 nonce1 nonce2 = Some True"
    by (simp add: test_session_encrypt_decrypt_def Let_def)
  obtain a' b' where hs': "handshake pr rnd4 (?bob rnd1) (?bob rnd2) (?spk rnd3 (?bob rnd2)) (''alice'', ''bob'') = Some (a', b')"
    and k: "session_key a' = (''bob'', 1)"
    using handshake_completes [OF assms(1,2) spk] by metis
  from handshake_SomeD(1) [OF hs', simplified] k show "test_session_store pr rnd1 rnd2 rnd3 rnd4 = Some True"
    by (simp add: test_session_store_def SessionStore_new_def SessionStore_add_def SessionStore_len_def SessionStore_get_def
        session_key_def Let_def)
qed

text \<open>The repository's own tests hold of the model: every unit test of the core library and of
  the SDK that is about their own code passes for all random keys and nonces, given the documented
  behaviour of the primitives and of the JSON codec.\<close>

theorem repository_tests_pass:
  assumes "dh_commutes pr" and "hkdf_total pr" and "aead_correct pr" and "aead_total pr" and "prims_sized pr"
    and "wire_codec w"
  shows "test_encrypt_decrypt pr nonce1 = Some True \<and> test_key_agreement pr rnd1 rnd2 = Some True \<and>
    test_identity_signing pr rnd1 rnd2 \<and>
    test_session_message_roundtrip w = Some True \<and> test_envelope_roundtrip w now = Some True \<and>
    test_ratchet_encrypt_decrypt_alice_bob pr rnd1 rnd2 nonce1 nonce2 = Some True \<and>
    test_session_encrypt_decrypt pr rnd1 rnd2 rnd3 rnd4 nonce1 nonce2 = Some True \<and>
    test_session_store pr rnd1 rnd2 rnd3 rnd4 = Some True \<and>
    test_validate_good_manifest \<and> test_validate_bad_permission \<and> test_validate_too_large \<and>
    test_permission_set \<and> test_sandbox_config_from_manifest"
  by (intro conjI cipher_test [OF assms(3,4)] key_tests [OF assms(1,5)] codec_tests [OF assms(6)]
      ratchet_test [OF assms(1-4)] session_tests [OF assms(1-4)] sdk_tests)

theorem repository_tests_pass_witness:
  "test_session_encrypt_decrypt demo_prims [1] [2] [3] [4] [5] [6] = Some True \<and>
   test_session_message_roundtrip demo_wire = Some True"
proof -
  have "aead_total demo_prims" by (simp add: aead_total_def demo_prims_def)
  from repository_tests_pass [OF demo_dh_commutes demo_hkdf_total demo_aead_correct this demo_prims_sized demo_wire_codec,
      of "[5]" "[1]" "[2]" 0 "[6]" "[3]" "[4]"]
  show ?thesis by blast
qed

end
