(* ===== verification/Server_Tests.thy ===== *)
theory Server_Tests
  imports Relay_Instance
begin

text \<open>
  The unit tests of \<open>tintin-server/src/main.rs\<close>, run on the model: a test is a sequence of commands
  given to \<open>handle_command\<close>, \<open>Some ()\<close> when every assertion holds and \<open>None\<close> when the test panics. The
  texts of the requests are made by \<open>Value::to_string\<close>, the parameter \<open>tx\<close>; \<open>evs n\<close> are the
  environments of the \<open>n\<close>-th command.
\<close>

section \<open>Requests\<close>

definition register_request :: "string \<Rightarrow> bytes \<Rightarrow> bytes \<Rightarrow> bytes \<Rightarrow> json" where
  "register_request u identity_key spk_pub spk_sig =
     JObject [(''cmd'', JString ''register''), (''user_id'', JString u), (''identity_key'', bytes_json identity_key),
       (''signed_pre_key'', JObject [
          (''identity_key'', bytes_json identity_key), (''device_id'', JNumber 1), (''signed_pre_key_id'', JNumber 1),
          (''signed_pre_key'', bytes_json spk_pub), (''signed_pre_key_signature'', bytes_json spk_sig),
          (''one_time_pre_key_id'', JNull), (''one_time_pre_key'', JNull)])]"

definition user_request :: "string \<Rightarrow> string \<Rightarrow> json" where
  "user_request c u = JObject [(''cmd'', JString c), (''user_id'', JString u)]"

definition bare_request :: "string \<Rightarrow> json" where
  "bare_request c = JObject [(''cmd'', JString c)]"

definition send_test_request :: "wire \<Rightarrow> Envelope \<Rightarrow> json" where
  "send_test_request w e = JObject [(''cmd'', JString ''send''), (''envelope'', envelope_to_value w e)]"

definition create_channel_request :: "string \<Rightarrow> string \<Rightarrow> json" where
  "create_channel_request name owner =
     JObject [(''cmd'', JString ''create_channel''), (''name'', JString name), (''owner_id'', JString owner)]"

definition channel_user_request :: "string \<Rightarrow> i64 \<Rightarrow> string \<Rightarrow> json" where
  "channel_user_request c i u = JObject [(''cmd'', JString c), (''channel_id'', JNumber i), (''user_id'', JString u)]"

definition channel_members_request :: "i64 \<Rightarrow> json" where
  "channel_members_request i = JObject [(''cmd'', JString ''channel_members''), (''channel_id'', JNumber i)]"

definition create_poll_request :: "string \<Rightarrow> string \<Rightarrow> string list \<Rightarrow> json" where
  "create_poll_request creator question options =
     JObject [(''cmd'', JString ''create_poll''), (''creator'', JString creator), (''question'', JString question),
              (''options'', JArray (map JString options))]"

definition vote_request :: "i64 \<Rightarrow> string \<Rightarrow> i64 \<Rightarrow> json" where
  "vote_request p u i = JObject [(''cmd'', JString ''vote_poll''), (''poll_id'', JNumber p), (''user_id'', JString u),
                                 (''option_id'', JNumber i)]"

definition poll_results_request :: "i64 \<Rightarrow> json" where
  "poll_results_request p = JObject [(''cmd'', JString ''poll_results''), (''poll_id'', JNumber p)]"

definition close_poll_request :: "i64 \<Rightarrow> string \<Rightarrow> json" where
  "close_poll_request p u = JObject [(''cmd'', JString ''close_poll''), (''poll_id'', JNumber p), (''user_id'', JString u)]"

definition create_post_request :: "string \<Rightarrow> string \<Rightarrow> string option \<Rightarrow> json" where
  "create_post_request u content target =
     JObject ([(''cmd'', JString ''create_post''), (''user_id'', JString u), (''content'', JString content)] @
              (case target of None \<Rightarrow> [] | Some t \<Rightarrow> [(''target_user_id'', JString t)]))"

definition add_comment_request :: "i64 \<Rightarrow> string \<Rightarrow> string \<Rightarrow> json" where
  "add_comment_request p u content =
     JObject [(''cmd'', JString ''add_comment''), (''post_id'', JNumber p), (''user_id'', JString u),
              (''content'', JString content)]"

definition get_comments_request :: "i64 \<Rightarrow> json" where
  "get_comments_request p = JObject [(''cmd'', JString ''get_comments''), (''post_id'', JNumber p)]"

definition delete_post_request :: "i64 \<Rightarrow> string \<Rightarrow> json" where
  "delete_post_request p u = JObject [(''cmd'', JString ''delete_post''), (''post_id'', JNumber p), (''user_id'', JString u)]"

section \<open>Assertions\<close>

definition assert_that :: "bool \<Rightarrow> unit option" where
  "assert_that b = (if b then Some () else None)"

definition assert_status :: "ServerResponse \<Rightarrow> string \<Rightarrow> unit option" where
  "assert_status resp s = assert_that (sr_status resp = s)"

text \<open>\<open>resp.data.unwrap()[k].as_array().unwrap()\<close> and the like.\<close>

definition data_array :: "ServerResponse \<Rightarrow> string \<Rightarrow> json list option" where
  "data_array resp k = Option.bind (sr_data resp) (\<lambda>d. as_array (json_index d k))"

definition data_i64 :: "ServerResponse \<Rightarrow> string \<Rightarrow> i64 option" where
  "data_i64 resp k = Option.bind (sr_data resp) (\<lambda>d. as_i64 (json_index d k))"

text \<open>\<open>vs[i][k].as_str().unwrap()\<close> and \<open>as_i64\<close>: the index panics out of range.\<close>

definition element :: "json list \<Rightarrow> nat \<Rightarrow> json option" where
  "element vs i = (if i < length vs then Some (vs ! i) else None)"

definition str_at :: "json list \<Rightarrow> nat \<Rightarrow> string \<Rightarrow> string option" where
  "str_at vs i k = Option.bind (element vs i) (\<lambda>v. as_str (json_index v k))"

definition i64_at :: "json list \<Rightarrow> nat \<Rightarrow> string \<Rightarrow> i64 option" where
  "i64_at vs i k = Option.bind (element vs i) (\<lambda>v. as_i64 (json_index v k))"

section \<open>The tests\<close>

text \<open>A store on a new file.\<close>

definition test_state :: "env \<Rightarrow> bool \<Rightarrow> db option" where
  "test_state ev fk = (case Store_open ev fk None of Inl e \<Rightarrow> None | Inr st \<Rightarrow> Some st)"

definition register_alice :: json where
  "register_alice = register_request ''alice'' (replicate 32 0) (replicate 32 1) (replicate 64 2)"

definition test_register_and_fetch ::
  "server \<Rightarrow> (json \<Rightarrow> string) \<Rightarrow> env \<Rightarrow> bool \<Rightarrow> (nat \<Rightarrow> nat \<Rightarrow> env) \<Rightarrow> unit option" where
  "test_register_and_fetch sv tx ev fk evs = do {
     st \<leftarrow> test_state ev fk;
     (resp, st) \<leftarrow> handle_command sv (evs 0) (tx register_alice) st;
     assert_status resp ''ok'';
     (resp, st) \<leftarrow> handle_command sv (evs 1) (tx (user_request ''fetch_keys'' ''alice'')) st;
     assert_status resp ''ok'';
     assert_that (sr_data resp \<noteq> None)
   }"

definition test_send_receive ::
  "server \<Rightarrow> (json \<Rightarrow> string) \<Rightarrow> env \<Rightarrow> bool \<Rightarrow> (nat \<Rightarrow> nat \<Rightarrow> env) \<Rightarrow> nat \<Rightarrow> unit option" where
  "test_send_receive sv tx ev fk evs now = do {
     st \<leftarrow> test_state ev fk;
     (let envelope = Envelope_new now ''alice'' ''bob'' [1, 2, 3] Normal in do {
       (resp, st) \<leftarrow> handle_command sv (evs 0) (tx (send_test_request (codec sv) envelope)) st;
       assert_status resp ''ok'';
       (resp, st) \<leftarrow> handle_command sv (evs 1) (tx (user_request ''receive'' ''bob'')) st;
       assert_status resp ''ok'';
       msgs \<leftarrow> data_array resp ''messages'';
       assert_that (length msgs = 1)
     })
   }"

text \<open>The second session opens the file the first one left.\<close>

definition test_persistence_across_reconnect ::
  "server \<Rightarrow> (json \<Rightarrow> string) \<Rightarrow> env \<Rightarrow> env \<Rightarrow> bool \<Rightarrow> (nat \<Rightarrow> nat \<Rightarrow> env) \<Rightarrow> nat \<Rightarrow> unit option" where
  "test_persistence_across_reconnect sv tx ev ev' fk evs now = do {
     st \<leftarrow> test_state ev fk;
     (resp, st) \<leftarrow> handle_command sv (evs 0) (tx register_alice) st;
     assert_status resp ''ok'';
     (let env = Envelope_new now ''alice'' ''bob'' [10, 20, 30] Normal in do {
       (resp, st) \<leftarrow> handle_command sv (evs 1) (tx (send_test_request (codec sv) env)) st;
       assert_status resp ''ok'';
       st \<leftarrow> (case Store_open ev' fk (Some st) of Inl e \<Rightarrow> None | Inr st' \<Rightarrow> Some st');
       (resp, st) \<leftarrow> handle_command sv (evs 2) (tx (user_request ''fetch_keys'' ''alice'')) st;
       assert_status resp ''ok'';
       assert_that (sr_data resp \<noteq> None);
       (resp, st) \<leftarrow> handle_command sv (evs 3) (tx (user_request ''receive'' ''bob'')) st;
       assert_status resp ''ok'';
       msgs \<leftarrow> data_array resp ''messages'';
       assert_that (length msgs = 1);
       sender \<leftarrow> str_at msgs 0 ''sender_id'';
       assert_that (sender = ''alice'')
     })
   }"

definition test_list_users ::
  "server \<Rightarrow> (json \<Rightarrow> string) \<Rightarrow> env \<Rightarrow> bool \<Rightarrow> (nat \<Rightarrow> nat \<Rightarrow> env) \<Rightarrow> unit option" where
  "test_list_users sv tx ev fk evs = do {
     st \<leftarrow> test_state ev fk;
     (resp, st) \<leftarrow> handle_command sv (evs 0) (tx (bare_request ''list_users'')) st;
     assert_status resp ''ok'';
     users \<leftarrow> data_array resp ''users'';
     assert_that (users = []);
     (resp, st) \<leftarrow> handle_command sv (evs 1) (tx register_alice) st;
     assert_status resp ''ok'';
     (resp, st) \<leftarrow> handle_command sv (evs 2) (tx (bare_request ''list_users'')) st;
     assert_status resp ''ok'';
     users \<leftarrow> data_array resp ''users'';
     assert_that (length users = 1);
     user_id \<leftarrow> str_at users 0 ''user_id'';
     assert_that (user_id = ''alice'');
     presence \<leftarrow> str_at users 0 ''presence'';
     assert_that (presence = ''offline'')
   }"

definition test_channel_create_subscribe_list ::
  "server \<Rightarrow> (json \<Rightarrow> string) \<Rightarrow> env \<Rightarrow> bool \<Rightarrow> (nat \<Rightarrow> nat \<Rightarrow> env) \<Rightarrow> unit option" where
  "test_channel_create_subscribe_list sv tx ev fk evs = do {
     st \<leftarrow> test_state ev fk;
     (resp, st) \<leftarrow> handle_command sv (evs 0) (tx (create_channel_request ''test-channel'' ''alice'')) st;
     assert_status resp ''ok'';
     channel_id \<leftarrow> data_i64 resp ''channel_id'';
     (resp, st) \<leftarrow> handle_command sv (evs 1) (tx (bare_request ''list_channels'')) st;
     assert_status resp ''ok'';
     channels \<leftarrow> data_array resp ''channels'';
     assert_that (length channels = 1);
     name \<leftarrow> str_at channels 0 ''name'';
     assert_that (name = ''test-channel'');
     (resp, st) \<leftarrow> handle_command sv (evs 2) (tx (channel_user_request ''subscribe_channel'' channel_id ''bob'')) st;
     assert_status resp ''ok'';
     (resp, st) \<leftarrow> handle_command sv (evs 3) (tx (channel_user_request ''my_channels'' channel_id ''bob'')) st;
     assert_status resp ''ok'';
     bob_channels \<leftarrow> data_array resp ''channels'';
     assert_that (length bob_channels = 1);
     (resp, st) \<leftarrow> handle_command sv (evs 4) (tx (channel_members_request channel_id)) st;
     assert_status resp ''ok'';
     member_list \<leftarrow> data_array resp ''members'';
     assert_that (length member_list = 2);
     assert_that (None \<notin> set (map as_str member_list));
     assert_that (Some ''alice'' \<in> set (map as_str member_list));
     assert_that (Some ''bob'' \<in> set (map as_str member_list));
     (resp, st) \<leftarrow> handle_command sv (evs 5) (tx (channel_user_request ''unsubscribe_channel'' channel_id ''bob'')) st;
     assert_status resp ''ok'';
     (resp, st) \<leftarrow> handle_command sv (evs 6) (tx (channel_user_request ''my_channels'' channel_id ''bob'')) st;
     assert_status resp ''ok'';
     bob_channels \<leftarrow> data_array resp ''channels'';
     assert_that (length bob_channels = 0)
   }"

definition test_channel_subscribe_nonexistent ::
  "server \<Rightarrow> (json \<Rightarrow> string) \<Rightarrow> env \<Rightarrow> bool \<Rightarrow> (nat \<Rightarrow> nat \<Rightarrow> env) \<Rightarrow> unit option" where
  "test_channel_subscribe_nonexistent sv tx ev fk evs = do {
     st \<leftarrow> test_state ev fk;
     (resp, st) \<leftarrow> handle_command sv (evs 0) (tx (channel_user_request ''subscribe_channel'' 999 ''alice'')) st;
     assert_status resp ''error'';
     error \<leftarrow> sr_error resp;
     assert_that (contains_text ''not found'' error)
   }"

text \<open>\<open>opts.iter().find(..).unwrap()["votes"].as_i64().unwrap()\<close>.\<close>

definition votes_of :: "json list \<Rightarrow> string \<Rightarrow> i64 option" where
  "votes_of opts t =
     Option.bind (find (\<lambda>o'. as_str (json_index o' ''option_text'') = Some t) opts) (\<lambda>o'. as_i64 (json_index o' ''votes''))"

definition data_bool :: "ServerResponse \<Rightarrow> string \<Rightarrow> bool option" where
  "data_bool resp k = Option.bind (sr_data resp) (\<lambda>d. as_bool (json_index d k))"

definition data_str :: "ServerResponse \<Rightarrow> string \<Rightarrow> string option" where
  "data_str resp k = Option.bind (sr_data resp) (\<lambda>d. as_str (json_index d k))"

definition test_poll_create_vote_results_close ::
  "server \<Rightarrow> (json \<Rightarrow> string) \<Rightarrow> env \<Rightarrow> bool \<Rightarrow> (nat \<Rightarrow> nat \<Rightarrow> env) \<Rightarrow> unit option" where
  "test_poll_create_vote_results_close sv tx ev fk evs = do {
     st \<leftarrow> test_state ev fk;
     (resp, st) \<leftarrow> handle_command sv (evs 0)
        (tx (create_poll_request ''alice'' ''Best color?'' [''Red'', ''Blue'', ''Green''])) st;
     assert_status resp ''ok'';
     poll_id \<leftarrow> data_i64 resp ''poll_id'';
     (resp, st) \<leftarrow> handle_command sv (evs 1) (tx (bare_request ''list_polls'')) st;
     assert_status resp ''ok'';
     polls \<leftarrow> data_array resp ''polls'';
     assert_that (length polls = 1);
     question \<leftarrow> str_at polls 0 ''question'';
     assert_that (question = ''Best color?'');
     (resp, st) \<leftarrow> handle_command sv (evs 2) (tx (vote_request poll_id ''alice'' 1)) st;
     assert_status resp ''ok'';
     (resp, st) \<leftarrow> handle_command sv (evs 3) (tx (vote_request poll_id ''bob'' 2)) st;
     assert_status resp ''ok'';
     (resp, st) \<leftarrow> handle_command sv (evs 4) (tx (poll_results_request poll_id)) st;
     assert_status resp ''ok'';
     question \<leftarrow> data_str resp ''question'';
     assert_that (question = ''Best color?'');
     active \<leftarrow> data_bool resp ''active'';
     assert_that active;
     opts \<leftarrow> data_array resp ''options'';
     red \<leftarrow> votes_of opts ''Red'';
     assert_that (red = 1);
     blue \<leftarrow> votes_of opts ''Blue'';
     assert_that (blue = 1);
     green \<leftarrow> votes_of opts ''Green'';
     assert_that (green = 0);
     (resp, st) \<leftarrow> handle_command sv (evs 5) (tx (vote_request poll_id ''alice'' 1)) st;
     assert_status resp ''ok'';
     (resp, st) \<leftarrow> handle_command sv (evs 6) (tx (close_poll_request poll_id ''alice'')) st;
     assert_status resp ''ok'';
     (resp, st) \<leftarrow> handle_command sv (evs 7) (tx (poll_results_request poll_id)) st;
     assert_status resp ''ok'';
     active \<leftarrow> data_bool resp ''active'';
     assert_that (\<not> active);
     (resp, st) \<leftarrow> handle_command sv (evs 8) (tx (vote_request poll_id ''bob'' 2)) st;
     assert_status resp ''error''
   }"

definition test_poll_too_few_options ::
  "server \<Rightarrow> (json \<Rightarrow> string) \<Rightarrow> env \<Rightarrow> bool \<Rightarrow> (nat \<Rightarrow> nat \<Rightarrow> env) \<Rightarrow> unit option" where
  "test_poll_too_few_options sv tx ev fk evs = do {
     st \<leftarrow> test_state ev fk;
     (resp, st) \<leftarrow> handle_command sv (evs 0) (tx (create_poll_request ''alice'' ''Yes or no?'' [''Yes''])) st;
     assert_status resp ''error''
   }"

definition test_timeline_post_comment_delete ::
  "server \<Rightarrow> (json \<Rightarrow> string) \<Rightarrow> env \<Rightarrow> bool \<Rightarrow> (nat \<Rightarrow> nat \<Rightarrow> env) \<Rightarrow> unit option" where
  "test_timeline_post_comment_delete sv tx ev fk evs = do {
     st \<leftarrow> test_state ev fk;
     (resp, st) \<leftarrow> handle_command sv (evs 0) (tx (create_post_request ''alice'' ''Hello from alice!'' None)) st;
     assert_status resp ''ok'';
     post_id \<leftarrow> data_i64 resp ''post_id'';
     (resp, st) \<leftarrow> handle_command sv (evs 1) (tx (user_request ''get_timeline'' ''alice'')) st;
     assert_status resp ''ok'';
     posts \<leftarrow> data_array resp ''posts'';
     assert_that (length posts = 1);
     user_id \<leftarrow> str_at posts 0 ''user_id'';
     assert_that (user_id = ''alice'');
     content \<leftarrow> str_at posts 0 ''content'';
     assert_that (content = ''Hello from alice!'');
     count \<leftarrow> i64_at posts 0 ''comment_count'';
     assert_that (count = 0);
     (resp, st) \<leftarrow> handle_command sv (evs 2) (tx (add_comment_request post_id ''bob'' ''Hi alice!'')) st;
     assert_status resp ''ok'';
     (resp, st) \<leftarrow> handle_command sv (evs 3) (tx (get_comments_request post_id)) st;
     assert_status resp ''ok'';
     cmts \<leftarrow> data_array resp ''comments'';
     assert_that (length cmts = 1);
     user_id \<leftarrow> str_at cmts 0 ''user_id'';
     assert_that (user_id = ''bob'');
     content \<leftarrow> str_at cmts 0 ''content'';
     assert_that (content = ''Hi alice!'');
     (resp, st) \<leftarrow> handle_command sv (evs 4) (tx (user_request ''get_timeline'' ''alice'')) st;
     assert_status resp ''ok'';
     posts \<leftarrow> data_array resp ''posts'';
     count \<leftarrow> i64_at posts 0 ''comment_count'';
     assert_that (count = 1);
     (resp, st) \<leftarrow> handle_command sv (evs 5) (tx (delete_post_request post_id ''alice'')) st;
     assert_status resp ''ok'';
     (resp, st) \<leftarrow> handle_command sv (evs 6) (tx (user_request ''get_timeline'' ''alice'')) st;
     assert_status resp ''ok'';
     posts \<leftarrow> data_array resp ''posts'';
     assert_that (length posts = 0);
     (resp, st) \<leftarrow> handle_command sv (evs 7) (tx (get_comments_request post_id)) st;
     assert_status resp ''ok'';
     cmts \<leftarrow> data_array resp ''comments'';
     assert_that (length cmts = 0)
   }"

definition test_timeline_wall_post ::
  "server \<Rightarrow> (json \<Rightarrow> string) \<Rightarrow> env \<Rightarrow> bool \<Rightarrow> (nat \<Rightarrow> nat \<Rightarrow> env) \<Rightarrow> unit option" where
  "test_timeline_wall_post sv tx ev fk evs = do {
     st \<leftarrow> test_state ev fk;
     (resp, st) \<leftarrow> handle_command sv (evs 0) (tx (create_post_request ''bob'' ''Hey alice!'' (Some ''alice''))) st;
     assert_status resp ''ok'';
     post_id \<leftarrow> data_i64 resp ''post_id'';
     (resp, st) \<leftarrow> handle_command sv (evs 1) (tx (user_request ''get_timeline'' ''alice'')) st;
     assert_status resp ''ok'';
     posts \<leftarrow> data_array resp ''posts'';
     assert_that (length posts = 1);
     user_id \<leftarrow> str_at posts 0 ''user_id'';
     assert_that (user_id = ''bob'');
     target \<leftarrow> str_at posts 0 ''target_user_id'';
     assert_that (target = ''alice'');
     (resp, st) \<leftarrow> handle_command sv (evs 2) (tx (delete_post_request post_id ''charlie'')) st;
     assert_status resp ''error''
   }"

definition test_timeline_own_post_on_contact_timeline ::
  "server \<Rightarrow> (json \<Rightarrow> string) \<Rightarrow> env \<Rightarrow> bool \<Rightarrow> (nat \<Rightarrow> nat \<Rightarrow> env) \<Rightarrow> unit option" where
  "test_timeline_own_post_on_contact_timeline sv tx ev fk evs = do {
     st \<leftarrow> test_state ev fk;
     (resp, st) \<leftarrow> handle_command sv (evs 0) (tx (create_post_request ''alice'' ''My own moment'' None)) st;
     assert_status resp ''ok'';
     (resp, st) \<leftarrow> handle_command sv (evs 1) (tx (user_request ''get_timeline'' ''alice'')) st;
     assert_status resp ''ok'';
     posts \<leftarrow> data_array resp ''posts'';
     assert_that (length posts = 1);
     content \<leftarrow> str_at posts 0 ''content'';
     assert_that (content = ''My own moment'');
     post \<leftarrow> element posts 0;
     assert_that (json_index post ''target_user_id'' = JNull)
   }"

section \<open>What the tests rely on\<close>

text \<open>
  The text of a value parses to the value, and a command struct is read from the object with its fields;
  a field of an optional type may be missing.
\<close>

definition reads_requests :: "server \<Rightarrow> bool" where
  "reads_requests sv \<longleftrightarrow>
     (\<forall>u k p s. length k = 32 \<longrightarrow> length p = 32 \<longrightarrow>
        RegisterCmd_from_value (dec sv) (jnorm (register_request u k p s)) =
        Inr \<lparr>rg_cmd = ''register'', rg_user_id = u, rg_identity_key = k, rg_signed_pre_key =
          \<lparr>pkb_identity_key = k, pkb_device_id = 1, pkb_signed_pre_key_id = 1, pkb_signed_pre_key = p,
           pkb_signed_pre_key_signature = s, pkb_one_time_pre_key_id = None, pkb_one_time_pre_key = None\<rparr>\<rparr>) \<and>
     (\<forall>c u. FetchKeysCmd_from_value (dec sv) (jnorm (user_request c u)) = Inr \<lparr>fk_cmd = c, fk_user_id = u\<rparr>) \<and>
     (\<forall>c u. ReceiveCmd_from_value (dec sv) (jnorm (user_request c u)) = Inr \<lparr>rv_cmd = c, rv_user_id = u\<rparr>) \<and>
     (\<forall>c u. TimelineCmd_from_value (dec sv) (jnorm (user_request c u)) = Inr \<lparr>tl_cmd = c, tl_user_id = u\<rparr>) \<and>
     (\<forall>e. SendCmd_from_value (dec sv) (jnorm (send_test_request (codec sv) e)) = Inr \<lparr>sn_cmd = ''send'', sn_envelope = e\<rparr>) \<and>
     (\<forall>c. ListUsersCmd_from_value (dec sv) (jnorm (bare_request c)) = Inr \<lparr>lu_cmd = c, lu_query = None\<rparr>)"

definition reads_channel_requests :: "server \<Rightarrow> bool" where
  "reads_channel_requests sv \<longleftrightarrow>
     (\<forall>n u. CreateChannelCmd_from_value (dec sv) (jnorm (create_channel_request n u)) =
        Inr \<lparr>cc_cmd = ''create_channel'', cc_name = n, cc_owner_id = u\<rparr>) \<and>
     (\<forall>c i u. - (2 ^ 63) \<le> i \<longrightarrow> i \<le> i64_max \<longrightarrow>
        SubscribeChannelCmd_from_value (dec sv) (jnorm (channel_user_request c i u)) =
          Inr \<lparr>sc_cmd = c, sc_channel_id = i, sc_user_id = u\<rparr> \<and>
        UnsubscribeChannelCmd_from_value (dec sv) (jnorm (channel_user_request c i u)) =
          Inr \<lparr>uc_cmd = c, uc_channel_id = i, uc_user_id = u\<rparr>) \<and>
     (\<forall>i. - (2 ^ 63) \<le> i \<longrightarrow> i \<le> i64_max \<longrightarrow>
        ChannelMembersCmd_from_value (dec sv) (jnorm (channel_members_request i)) =
          Inr \<lparr>chm_cmd = ''channel_members'', chm_channel_id = i\<rparr>)"

definition reads_poll_requests :: "server \<Rightarrow> bool" where
  "reads_poll_requests sv \<longleftrightarrow>
     (\<forall>c q os. CreatePollCmd_from_value (dec sv) (jnorm (create_poll_request c q os)) =
        Inr \<lparr>cp_cmd = ''create_poll'', cp_creator = c, cp_question = q, cp_options = os\<rparr>) \<and>
     (\<forall>p u i. - (2 ^ 63) \<le> p \<longrightarrow> p \<le> i64_max \<longrightarrow> - (2 ^ 63) \<le> i \<longrightarrow> i \<le> i64_max \<longrightarrow>
        VotePollCmd_from_value (dec sv) (jnorm (vote_request p u i)) =
          Inr \<lparr>vp_cmd = ''vote_poll'', vp_poll_id = p, vp_user_id = u, vp_option_id = i\<rparr>) \<and>
     (\<forall>p u. - (2 ^ 63) \<le> p \<longrightarrow> p \<le> i64_max \<longrightarrow>
        PollByIdCmd_from_value (dec sv) (jnorm (poll_results_request p)) = Inr \<lparr>pb_cmd = ''poll_results'', pb_poll_id = p\<rparr> \<and>
        ClosePollCmd_from_value (dec sv) (jnorm (close_poll_request p u)) =
          Inr \<lparr>clp_cmd = ''close_poll'', clp_poll_id = p, clp_user_id = u\<rparr>)"

definition reads_timeline_requests :: "server \<Rightarrow> bool" where
  "reads_timeline_requests sv \<longleftrightarrow>
     (\<forall>u c t. CreatePostCmd_from_value (dec sv) (jnorm (create_post_request u c t)) =
        Inr \<lparr>cpo_cmd = ''create_post'', cpo_user_id = u, cpo_content = c, cpo_target_user_id = t\<rparr>) \<and>
     (\<forall>p u c. - (2 ^ 63) \<le> p \<longrightarrow> p \<le> i64_max \<longrightarrow>
        AddCommentCmd_from_value (dec sv) (jnorm (add_comment_request p u c)) =
          Inr \<lparr>ac_cmd = ''add_comment'', ac_post_id = p, ac_user_id = u, ac_content = c\<rparr> \<and>
        PostIdCmd_from_value (dec sv) (jnorm (get_comments_request p)) = Inr \<lparr>pi_cmd = ''get_comments'', pi_post_id = p\<rparr> \<and>
        DeletePostCmd_from_value (dec sv) (jnorm (delete_post_request p u)) =
          Inr \<lparr>dp_cmd = ''delete_post'', dp_post_id = p, dp_user_id = u\<rparr>)"

definition server_test_laws :: "server \<Rightarrow> (json \<Rightarrow> string) \<Rightarrow> bool" where
  "server_test_laws sv tx \<longleftrightarrow>
     (\<forall>v. jvalid v \<longrightarrow> value_from_str sv (tx v) = Inr (jnorm v)) \<and> wire_codec (codec sv) \<and>
     (\<forall>e. jvalid (envelope_to_value (codec sv) e) \<and>
          json_get (envelope_to_value (codec sv) e) ''sender_id'' = Some (JString (env_sender_id e))) \<and>
     reads_requests sv \<and> reads_channel_requests sv \<and> reads_poll_requests sv \<and> reads_timeline_requests sv"

end
