(* ===== verification/Server_Test_Results.thy ===== *)
theory Server_Test_Results
  imports Server_Tests
begin

text \<open>
  The server's unit tests pass on the model, for every environment without database faults and either
  setting of the foreign keys.
\<close>

section \<open>One command\<close>

lemma test_lawsD:
  assumes "server_test_laws sv tx"
  shows "jvalid v \<Longrightarrow> value_from_str sv (tx v) = Inr (jnorm v)" "wire_codec (codec sv)"
    "jvalid (envelope_to_value (codec sv) e)"
    "json_get (envelope_to_value (codec sv) e) ''sender_id'' = Some (JString (env_sender_id e))"
    "reads_requests sv" "reads_channel_requests sv" "reads_poll_requests sv" "reads_timeline_requests sv"
  using assms by (simp_all add: server_test_laws_def)

lemma test_command:
  assumes "server_test_laws sv tx" and "jvalid v" and "get_str v ''cmd'' = Some c"
  shows "handle_command sv evs (tx v) st = dispatch sv evs c (jnorm v) st"
  using test_lawsD(1) [OF assms(1,2)] assms(3) by (simp add: handle_command_def get_str_jnorm [OF assms(2)])

lemma request_command [simp]:
  "get_str (register_request u k p s) ''cmd'' = Some ''register''" "get_str (user_request c u) ''cmd'' = Some c"
  "get_str (bare_request c) ''cmd'' = Some c" "get_str (send_test_request w e) ''cmd'' = Some ''send''"
  "get_str (create_channel_request n u) ''cmd'' = Some ''create_channel''"
  "get_str (channel_user_request c i u) ''cmd'' = Some c"
  "get_str (channel_members_request i) ''cmd'' = Some ''channel_members''"
  "get_str (create_poll_request u q os) ''cmd'' = Some ''create_poll''"
  "get_str (vote_request i u j) ''cmd'' = Some ''vote_poll''"
  "get_str (poll_results_request i) ''cmd'' = Some ''poll_results''"
  "get_str (close_poll_request i u) ''cmd'' = Some ''close_poll''"
  "get_str (create_post_request u x t) ''cmd'' = Some ''create_post''"
  "get_str (add_comment_request i u x) ''cmd'' = Some ''add_comment''"
  "get_str (get_comments_request i) ''cmd'' = Some ''get_comments''"
  "get_str (delete_post_request i u) ''cmd'' = Some ''delete_post''"
  by (simp_all add: get_str_def register_request_def user_request_def bare_request_def send_test_request_def
      create_channel_request_def channel_user_request_def channel_members_request_def create_poll_request_def
      vote_request_def poll_results_request_def close_poll_request_def create_post_request_def
      add_comment_request_def get_comments_request_def delete_post_request_def)

lemma request_valid [simp]:
  "jvalid (register_request u k p s)" "jvalid (user_request c u)" "jvalid (bare_request c)"
  "jvalid (envelope_to_value w e) \<Longrightarrow> jvalid (send_test_request w e)" "jvalid (create_channel_request n u)"
  "- (2 ^ 63) \<le> i \<Longrightarrow> i \<le> i64_max \<Longrightarrow> jvalid (channel_user_request c i u)"
  "- (2 ^ 63) \<le> i \<Longrightarrow> i \<le> i64_max \<Longrightarrow> jvalid (channel_members_request i)"
  "jvalid (create_poll_request u q os)"
  "- (2 ^ 63) \<le> i \<Longrightarrow> i \<le> i64_max \<Longrightarrow> - (2 ^ 63) \<le> j \<Longrightarrow> j \<le> i64_max \<Longrightarrow> jvalid (vote_request i u j)"
  "- (2 ^ 63) \<le> i \<Longrightarrow> i \<le> i64_max \<Longrightarrow> jvalid (poll_results_request i)"
  "- (2 ^ 63) \<le> i \<Longrightarrow> i \<le> i64_max \<Longrightarrow> jvalid (close_poll_request i u)"
  "jvalid (create_post_request u x t)"
  "- (2 ^ 63) \<le> i \<Longrightarrow> i \<le> i64_max \<Longrightarrow> jvalid (add_comment_request i u x)"
  "- (2 ^ 63) \<le> i \<Longrightarrow> i \<le> i64_max \<Longrightarrow> jvalid (get_comments_request i)"
  "- (2 ^ 63) \<le> i \<Longrightarrow> i \<le> i64_max \<Longrightarrow> jvalid (delete_post_request i u)"
  by (auto simp: register_request_def user_request_def bare_request_def send_test_request_def i64_max_def
      create_channel_request_def channel_user_request_def channel_members_request_def create_poll_request_def
      vote_request_def poll_results_request_def close_poll_request_def create_post_request_def jvalid_bytes_json
      add_comment_request_def get_comments_request_def delete_post_request_def split: option.split)

text \<open>What each command of the tests is to the store.\<close>

lemma run_user_commands:
  assumes "server_test_laws sv tx"
  shows "handle_command sv evs (tx (user_request ''fetch_keys'' u)) st =
      Some (respond sv ''Database error'' (get_key_bundle (value_from_str sv) (evs 0) u st)
        (\<lambda>r. case r of Some bundle \<Rightarrow> ok_response (Some bundle)
           | None \<Rightarrow> error_response (''User '' @ CHR 0x27 # u @ CHR 0x27 # '' not found'')))"
    and "handle_command sv evs (tx (user_request ''receive'' u)) st =
      Some (respond sv ''Database error'' (fetch_messages (codec sv) (evs 0) u st)
        (\<lambda>messages. ok_response (Some (JObject [(''messages'', JArray (map (envelope_to_value (codec sv)) messages))]))))"
    and "handle_command sv evs (tx (user_request ''get_timeline'' u)) st =
      Some (respond sv ''Database error'' (get_timeline (evs 0) u st)
        (\<lambda>posts. ok_response (Some (JObject [(''posts'', JArray posts)]))))"
    and "handle_command sv evs (tx (send_test_request (codec sv) e)) st =
      Some (respond sv ''Database error'' (queue_message (codec sv) (evs 0) e st)
        (\<lambda>_. ok_response (Some (JObject [(''queued_for'', JString (env_recipient_id e))]))))"
    and "handle_command sv evs (tx (bare_request ''list_users'')) st =
      Some (respond sv ''Database error'' (list_users (evs 0) None st)
        (\<lambda>users. ok_response (Some (JObject [(''users'', JArray (map user_json users))]))))"
    and "handle_command sv evs (tx (bare_request ''list_channels'')) st = Some (handle_list_channels sv (evs 0) (jnorm (bare_request ''list_channels'')) st)"
    and "handle_command sv evs (tx (bare_request ''list_polls'')) st = Some (handle_list_polls sv (evs 0) (jnorm (bare_request ''list_polls'')) st)"
  using test_lawsD(5) [OF assms]
  by (simp_all add: test_command [OF assms] test_lawsD(3) [OF assms] dispatch_def reads_requests_def handle_fetch_keys_def
      handle_receive_def handle_get_timeline_def handle_send_def handle_list_users_def del: append_Cons)

definition alice_bundle :: PreKeyBundle where
  "alice_bundle = \<lparr>pkb_identity_key = replicate 32 0, pkb_device_id = 1, pkb_signed_pre_key_id = 1,
     pkb_signed_pre_key = replicate 32 1, pkb_signed_pre_key_signature = replicate 64 2,
     pkb_one_time_pre_key_id = None, pkb_one_time_pre_key = None\<rparr>"

lemma run_register:
  assumes "server_test_laws sv tx"
  shows "handle_command sv evs (tx register_alice) st =
      Some (respond sv ''Database error''
        (register_user (evs 0) ''alice'' (replicate 32 0) (unwrap_or_default (bundle_to_string sv alice_bundle)) st)
        (\<lambda>_. ok_response (Some (JObject [(''user_id'', JString ''alice'')]))))"
  using test_lawsD(5) [OF assms]
  by (simp add: register_alice_def test_command [OF assms] dispatch_def reads_requests_def handle_register_def Let_def
      alice_bundle_def)

lemma run_channel_commands:
  assumes "server_test_laws sv tx"
  shows "handle_command sv evs (tx (create_channel_request n u)) st =
      Some (case create_channel_begin sv (evs 0) \<lparr>cc_cmd = ''create_channel'', cc_name = n, cc_owner_id = u\<rparr> st of
          (Inl r, st') \<Rightarrow> (r, st')
        | (Inr i, st') \<Rightarrow> create_channel_commit (evs 1) \<lparr>cc_cmd = ''create_channel'', cc_name = n, cc_owner_id = u\<rparr> i st')"
    and "- (2 ^ 63) \<le> i \<Longrightarrow> i \<le> i64_max \<Longrightarrow>
      handle_command sv evs (tx (channel_user_request ''subscribe_channel'' i u)) st =
      (let cmd = \<lparr>sc_cmd = ''subscribe_channel'', sc_channel_id = i, sc_user_id = u\<rparr>
       in Some (if \<not> subscribe_channel_check (evs 0) cmd st then (channel_not_found i, st)
         else subscribe_channel_commit sv (evs 1) cmd st))"
    and "- (2 ^ 63) \<le> i \<Longrightarrow> i \<le> i64_max \<Longrightarrow>
      handle_command sv evs (tx (channel_user_request ''unsubscribe_channel'' i u)) st =
      Some (respond sv ''Database error'' (unsubscribe_channel (evs 0) i u st) (\<lambda>_. ok_response None))"
    and "- (2 ^ 63) \<le> i \<Longrightarrow> i \<le> i64_max \<Longrightarrow>
      handle_command sv evs (tx (channel_user_request ''my_channels'' i u)) st =
      Some (respond sv ''Database error'' (list_my_channels (evs 0) u st)
        (\<lambda>channels. ok_response (Some (JObject [(''channels'', JArray channels)]))))"
    and "- (2 ^ 63) \<le> i \<Longrightarrow> i \<le> i64_max \<Longrightarrow>
      handle_command sv evs (tx (channel_members_request i)) st =
      Some (respond sv ''Database error'' (list_channel_subscribers (evs 0) i st)
        (\<lambda>members. ok_response (Some (JObject [(''members'', JArray (map JString members))]))))"
  using test_lawsD(6) [OF assms]
  by (simp_all add: test_command [OF assms] dispatch_def reads_channel_requests_def handle_create_channel_def
      handle_subscribe_channel_def handle_unsubscribe_channel_def handle_my_channels_def handle_channel_members_def Let_def)

lemma run_poll_commands:
  assumes "server_test_laws sv tx"
  shows "handle_command sv evs (tx (create_poll_request u q os)) st =
      Some (if length os < 2 then (error_response ''Poll must have at least 2 options'', st)
        else respond sv ''Database error'' (create_poll (evs 0) u q os st)
          (\<lambda>poll_id. ok_response (Some (JObject [(''poll_id'', JNumber poll_id)]))))"
    and "- (2 ^ 63) \<le> i \<Longrightarrow> i \<le> i64_max \<Longrightarrow> - (2 ^ 63) \<le> j \<Longrightarrow> j \<le> i64_max \<Longrightarrow>
      handle_command sv evs (tx (vote_request i u j)) st =
      Some (respond sv ''Vote error'' (vote_poll (evs 0) i u j st) (\<lambda>_. ok_response None))"
    and "- (2 ^ 63) \<le> i \<Longrightarrow> i \<le> i64_max \<Longrightarrow> handle_command sv evs (tx (poll_results_request i)) st =
      Some (respond sv ''Database error'' (poll_results (evs 0) i st)
         (\<lambda>r. case r of Some results \<Rightarrow> ok_response (Some results)
            | None \<Rightarrow> error_response (''Poll '' @ CHR 0x27 # show_int i @ CHR 0x27 # '' not found'')))"
    and "- (2 ^ 63) \<le> i \<Longrightarrow> i \<le> i64_max \<Longrightarrow> handle_command sv evs (tx (close_poll_request i u)) st =
      Some (respond sv ''Database error'' (close_poll (evs 0) i u st)
         (\<lambda>closed. if closed then ok_response None else error_response ''Poll not found or you are not the creator''))"
  using test_lawsD(7) [OF assms]
  by (simp_all add: test_command [OF assms] dispatch_def reads_poll_requests_def handle_create_poll_def
      handle_vote_poll_def handle_poll_results_def handle_close_poll_def del: append_Cons)

lemma run_timeline_commands:
  assumes "server_test_laws sv tx"
  shows "handle_command sv evs (tx (create_post_request u x t)) st =
      Some (respond sv ''Database error'' (create_post (evs 0) u x t st)
        (\<lambda>post_id. ok_response (Some (JObject [(''post_id'', JNumber post_id)]))))"
    and "- (2 ^ 63) \<le> i \<Longrightarrow> i \<le> i64_max \<Longrightarrow> handle_command sv evs (tx (add_comment_request i u x)) st =
      Some (respond sv ''Database error'' (add_comment (evs 0) i u x st)
        (\<lambda>comment_id. ok_response (Some (JObject [(''comment_id'', JNumber comment_id)]))))"
    and "- (2 ^ 63) \<le> i \<Longrightarrow> i \<le> i64_max \<Longrightarrow> handle_command sv evs (tx (get_comments_request i)) st =
      Some (respond sv ''Database error'' (get_comments (evs 0) i st)
        (\<lambda>comments. ok_response (Some (JObject [(''comments'', JArray comments)]))))"
    and "- (2 ^ 63) \<le> i \<Longrightarrow> i \<le> i64_max \<Longrightarrow> handle_command sv evs (tx (delete_post_request i u)) st =
      Some (respond sv ''Database error'' (delete_post (evs 0) i u st)
        (\<lambda>deleted. if deleted then ok_response None else error_response ''Post not found or not yours''))"
  using test_lawsD(8) [OF assms]
  by (simp_all add: test_command [OF assms] dispatch_def reads_timeline_requests_def handle_create_post_def
      handle_add_comment_def handle_get_comments_def handle_delete_post_def)

section \<open>The tests pass\<close>

lemmas test_steps = Let_def empty_db_def auto_empty_def assert_that_def assert_status_def data_array_def data_i64_def data_bool_def data_str_def
  element_def str_at_def i64_at_def json_index_def ok_response_def error_response_def

text \<open>A test is evaluated from its first command on: the rest waits until the command has its result.\<close>

lemma bind_weak_cong: "x = y \<Longrightarrow> Option.bind x f = Option.bind y f"
  by simp

lemmas test_cong = bind_weak_cong prod.case_cong_weak

lemma test_state_new: "no_faults ev \<Longrightarrow> test_state ev fk = Some (empty_db fk)"
  by (simp add: test_state_def Store_open_def)

lemma order_by_small [simp]:
  "order_by f [] = []" "order_by f [x] = [x]" "order_by_desc f [] = []" "order_by_desc f [x] = [x]"
  by (simp_all add: order_by_def order_by_desc_def)

lemma contains_textI: "s = a @ p @ b \<Longrightarrow> contains_text p s"
  by (auto simp: contains_text_def list_ex_iff starts_with_def intro!: bexI [where x = "length a"])

lemma insert_auto_eq:
  "auto_seq t < i64_max \<Longrightarrow> insert_auto mk t = Some (auto_seq t + 1, \<lparr>auto_rows = auto_rows t @ [mk (auto_seq t + 1)], auto_seq = auto_seq t + 1\<rparr>)"
  by (simp add: insert_auto_def)

lemma users_tests:
  assumes "server_test_laws sv tx" and "no_faults ev" and "\<And>n k. no_faults (evs n k)"
  shows "test_register_and_fetch sv tx ev fk evs = Some ()" and "test_list_users sv tx ev fk evs = Some ()"
  by (simp_all add: test_register_and_fetch_def test_list_users_def test_state_new assms(2,3) run_register [OF assms(1)]
      run_user_commands [OF assms(1)] register_user_def get_key_bundle_def list_users_def insert_or_replace_def
      lookup_key_def user_json_def test_steps cong: test_cong)

lemma channel_tests:
  assumes "server_test_laws sv tx" and "no_faults ev" and "\<And>n k. no_faults (evs n k)"
  shows "test_channel_create_subscribe_list sv tx ev fk evs = Some ()"
    and "test_channel_subscribe_nonexistent sv tx ev fk evs = Some ()"
proof -
  note run = test_state_new assms(2,3) run_user_commands [OF assms(1)] run_channel_commands [OF assms(1)] create_channel_begin_def create_channel_commit_def subscribe_channel_check_def
      subscribe_channel_commit_def create_channel_def subscribe_channel_def unsubscribe_channel_def get_channel_owner_def
      list_channel_subscribers_def list_my_channels_def list_all_channels_def handle_list_channels_def channels_join_def
      channel_json_def channel_row_of_def subscriber_row_of_def subscriber_key_def insert_or_ignore_def delete_where_def lookup_key_def
      channel_ids_def insert_auto_eq channel_not_found_def test_steps
  show "test_channel_create_subscribe_list sv tx ev fk evs = Some ()"
    by (simp add: test_channel_create_subscribe_list_def run i64_max_def cong: test_cong) auto
  show "test_channel_subscribe_nonexistent sv tx ev fk evs = Some ()"
    by (simp add: test_channel_subscribe_nonexistent_def run i64_max_def cong: test_cong)
      (rule contains_textI [where a = "''Channel '' @ CHR 0x27 # show_int 999 @ CHR 0x27 # '' ''" and b = "[]"], simp)
qed

lemma poll_tests:
  assumes "server_test_laws sv tx" and "no_faults ev" and "\<And>n k. no_faults (evs n k)"
  shows "test_poll_create_vote_results_close sv tx ev fk evs = Some ()" and "test_poll_too_few_options sv tx ev fk evs = Some ()"
proof -
  note run = test_state_new assms(2,3) run_user_commands [OF assms(1)] run_poll_commands [OF assms(1)] create_poll_def
      vote_poll_def poll_results_def close_poll_def handle_list_polls_def list_active_polls_def find_poll_def query_row_ok_def
      options_of_def option_json_def poll_json_def vote_count_def deactivate_def poll_row_of_def option_row_of_def votes_of_def
      insert_or_replace_def vote_key_def lookup_key_def order_by_def insert_auto_eq test_steps
  show "test_poll_create_vote_results_close sv tx ev fk evs = Some ()"
    by (simp add: test_poll_create_vote_results_close_def run i64_max_def cong: test_cong)
  show "test_poll_too_few_options sv tx ev fk evs = Some ()"
    by (simp add: test_poll_too_few_options_def run i64_max_def cong: test_cong)
qed

lemma timeline_tests:
  assumes "server_test_laws sv tx" and "no_faults ev" and "\<And>n k. no_faults (evs n k)"
  shows "test_timeline_post_comment_delete sv tx ev fk evs = Some ()" and "test_timeline_wall_post sv tx ev fk evs = Some ()"
    and "test_timeline_own_post_on_contact_timeline sv tx ev fk evs = Some ()"
proof -
  note run = test_state_new assms(2,3) run_user_commands [OF assms(1)] run_timeline_commands [OF assms(1)] create_post_def
      get_timeline_def timeline_posts_def timeline_visible_def timeline_contacts_def post_json_def comment_count_def
      add_comment_def get_comments_def comment_json_def delete_post_def delete_comments_def auto_delete_where_def delete_where_def
      post_row_of_def comment_row_of_def post_ids_def insert_auto_eq opt_string_json_def test_steps
  show "test_timeline_post_comment_delete sv tx ev fk evs = Some ()"
    by (simp add: test_timeline_post_comment_delete_def run i64_max_def cong: test_cong)
  show "test_timeline_wall_post sv tx ev fk evs = Some ()"
    by (simp add: test_timeline_wall_post_def run i64_max_def cong: test_cong)
  show "test_timeline_own_post_on_contact_timeline sv tx ev fk evs = Some ()"
    by (simp add: test_timeline_own_post_on_contact_timeline_def run i64_max_def cong: test_cong)
qed

lemma message_tests:
  assumes "server_test_laws sv tx" and "no_faults ev" and "no_faults ev'" and "\<And>n k. no_faults (evs n k)"
  shows "test_send_receive sv tx ev fk evs now = Some ()"
    and "test_persistence_across_reconnect sv tx ev ev' fk evs now = Some ()"
proof -
  have enc: "envelope_from_str (codec sv) (unwrap_or_default (envelope_to_string (codec sv) e)) = Inr e" for e
    using test_lawsD(2) [OF assms(1)] unfolding wire_codec_def by (metis sum.simps(6) unwrap_or_default_def)
  note run = test_state_new Store_open_def assms(2-4) run_user_commands [OF assms(1)] run_register [OF assms(1)] register_user_def
      get_key_bundle_def lookup_key_def insert_or_replace_def queue_message_def insert_message_def message_row_of_def
      fetch_messages_def rows_for_def delete_rows_for_def auto_delete_where_def delete_where_def decode_envelopes_def enc
      wants_receipt_def insert_auto_eq test_lawsD(4) [OF assms(1)] test_steps
  show "test_send_receive sv tx ev fk evs now = Some ()"
    by (simp add: test_send_receive_def run i64_max_def cong: test_cong)
  show "test_persistence_across_reconnect sv tx ev ev' fk evs now = Some ()"
    by (simp add: test_persistence_across_reconnect_def run i64_max_def cong: test_cong)
qed

text \<open>
  The server's own tests hold of the model: each of the eleven unit tests passes, whatever the clock says
  and whether or not the engine enforces foreign keys, given that the database does not fail and that
  the JSON library reads back what it writes.
\<close>

theorem server_tests_pass:
  assumes "server_test_laws sv tx" and "no_faults ev" and "no_faults ev'" and "\<And>n k. no_faults (evs n k)"
  shows "test_register_and_fetch sv tx ev fk evs = Some () \<and> test_send_receive sv tx ev fk evs now = Some () \<and>
    test_persistence_across_reconnect sv tx ev ev' fk evs now = Some () \<and> test_list_users sv tx ev fk evs = Some () \<and>
    test_channel_create_subscribe_list sv tx ev fk evs = Some () \<and>
    test_channel_subscribe_nonexistent sv tx ev fk evs = Some () \<and>
    test_poll_create_vote_results_close sv tx ev fk evs = Some () \<and> test_poll_too_few_options sv tx ev fk evs = Some () \<and>
    test_timeline_post_comment_delete sv tx ev fk evs = Some () \<and> test_timeline_wall_post sv tx ev fk evs = Some () \<and>
    test_timeline_own_post_on_contact_timeline sv tx ev fk evs = Some ()"
  by (intro conjI users_tests [OF assms(1,2,4)] channel_tests [OF assms(1,2,4)] poll_tests [OF assms(1,2,4)]
      timeline_tests [OF assms(1,2,4)] message_tests [OF assms])

section \<open>A server that satisfies the laws\<close>

definition tested_wire :: wire where
  "tested_wire = demo_wire\<lparr>envelope_to_value :=
     (\<lambda>e. JObject [(''sender_id'', JString (env_sender_id e)), (''text'', JString (envelope_text e))])\<rparr>"

definition read_bundle :: "json \<Rightarrow> PreKeyBundle" where
  "read_bundle v =
     \<lparr>pkb_identity_key = json_bytes (json_index v ''identity_key''), pkb_device_id = word_of_int (demo_int v ''device_id''),
      pkb_signed_pre_key_id = word_of_int (demo_int v ''signed_pre_key_id''),
      pkb_signed_pre_key = json_bytes (json_index v ''signed_pre_key''),
      pkb_signed_pre_key_signature = json_bytes (json_index v ''signed_pre_key_signature''),
      pkb_one_time_pre_key_id = None, pkb_one_time_pre_key = None\<rparr>"

definition tested_decoders :: decoders where
  "tested_decoders = demo_decoders\<lparr>
     RegisterCmd_from_value := (\<lambda>v. Inr \<lparr>rg_cmd = demo_str v ''cmd'', rg_user_id = demo_str v ''user_id'',
       rg_identity_key = json_bytes (json_index v ''identity_key''),
       rg_signed_pre_key = read_bundle (json_index v ''signed_pre_key'')\<rparr>),
     SendCmd_from_value := (\<lambda>v. Inr \<lparr>sn_cmd = demo_str v ''cmd'',
       sn_envelope = text_envelope (demo_str (json_index v ''envelope'') ''text'')\<rparr>),
     CreatePollCmd_from_value := (\<lambda>v. Inr \<lparr>cp_cmd = demo_str v ''cmd'', cp_creator = demo_str v ''creator'',
       cp_question = demo_str v ''question'',
       cp_options = map (\<lambda>x. unwrap_or (as_str x) []) (unwrap_or (as_array (json_index v ''options'')) [])\<rparr>)\<rparr>"

definition tested_server :: server where
  "tested_server = relay_server\<lparr>dec := tested_decoders, codec := tested_wire\<rparr>"

lemma as_i64_jnorm: "as_i64 (jnorm v) = as_i64 v"
  by (cases v) simp_all

lemma demo_int_jnorm: "jvalid v \<Longrightarrow> demo_int (jnorm v) k = demo_int v k"
  by (simp add: demo_int_def json_index_jnorm as_i64_jnorm)

lemma tested_codec: "codec tested_server = tested_wire" "dec tested_server = tested_decoders"
  by (simp_all add: tested_server_def)

lemma tested_envelopes:
  "jvalid (envelope_to_value tested_wire e)" "json_get (envelope_to_value tested_wire e) ''sender_id'' = Some (JString (env_sender_id e))"
  "demo_str (envelope_to_value tested_wire e) ''text'' = envelope_text e"
  by (simp_all add: tested_wire_def demo_str_def get_str_def)

lemmas read_back = demo_str_jnorm demo_int_jnorm json_index_jnorm json_get_jnorm get_str_jnorm

lemmas requests = register_request_def user_request_def bare_request_def send_test_request_def
  create_channel_request_def channel_user_request_def channel_members_request_def create_poll_request_def
  vote_request_def poll_results_request_def close_poll_request_def create_post_request_def
  add_comment_request_def get_comments_request_def delete_post_request_def

lemma read_back_bundle:
  "jvalid v \<Longrightarrow> read_bundle (jnorm v) =
     (read_bundle v)\<lparr>pkb_identity_key := json_bytes (jnorm (json_index v ''identity_key'')),
        pkb_signed_pre_key := json_bytes (jnorm (json_index v ''signed_pre_key'')),
        pkb_signed_pre_key_signature := json_bytes (jnorm (json_index v ''signed_pre_key_signature''))\<rparr>"
  by (simp add: read_bundle_def read_back)

lemma request_fields:
  "demo_str (register_request u k p s) ''cmd'' = ''register''" "demo_str (register_request u k p s) ''user_id'' = u"
  "json_index (register_request u k p s) ''identity_key'' = bytes_json k"
  "read_bundle (jnorm (json_index (register_request u k p s) ''signed_pre_key'')) =
     \<lparr>pkb_identity_key = k, pkb_device_id = 1, pkb_signed_pre_key_id = 1, pkb_signed_pre_key = p,
      pkb_signed_pre_key_signature = s, pkb_one_time_pre_key_id = None, pkb_one_time_pre_key = None\<rparr>"
proof -
  have "jvalid (json_index (register_request u k p s) ''signed_pre_key'')" by (rule jvalid_index) simp
  then show "read_bundle (jnorm (json_index (register_request u k p s) ''signed_pre_key'')) =
     \<lparr>pkb_identity_key = k, pkb_device_id = 1, pkb_signed_pre_key_id = 1, pkb_signed_pre_key = p,
      pkb_signed_pre_key_signature = s, pkb_one_time_pre_key_id = None, pkb_one_time_pre_key = None\<rparr>"
    by (simp add: read_back_bundle del: jnorm.simps)
      (simp add: read_bundle_def register_request_def json_index_def demo_int_def i64_max_def del: jnorm.simps)
qed (simp_all add: register_request_def demo_str_def get_str_def json_index_def)

lemma sent_envelope:
  "demo_str (send_test_request w e) ''cmd'' = ''send''" "json_index (send_test_request w e) ''envelope'' = envelope_to_value w e"
  by (simp_all add: send_test_request_def demo_str_def get_str_def json_index_def)

lemma tested_requests: "reads_requests tested_server"
  unfolding reads_requests_def tested_codec
  by (simp add: tested_decoders_def demo_decoders_def read_back tested_envelopes request_fields sent_envelope)
    (simp add: requests demo_str_def get_str_def json_index_def)

lemma tested_channel_requests: "reads_channel_requests tested_server"
  unfolding reads_channel_requests_def tested_codec
  by (simp add: tested_decoders_def demo_decoders_def read_back)
    (simp add: requests demo_str_def demo_int_def get_str_def json_index_def)

lemma tested_poll_requests: "reads_poll_requests tested_server"
  unfolding reads_poll_requests_def tested_codec
  by (simp add: tested_decoders_def demo_decoders_def read_back)
    (simp add: requests demo_str_def demo_int_def get_str_def json_index_def comp_def)

lemma tested_timeline_requests: "reads_timeline_requests tested_server"
  unfolding reads_timeline_requests_def tested_codec
  by (simp add: tested_decoders_def demo_decoders_def read_back)
    (simp add: requests demo_str_def demo_int_def get_str_def json_index_def split: option.split)

lemma tested_laws: "server_test_laws tested_server value_text"
proof -
  have "wire_codec tested_wire" using demo_wire_codec by (simp add: wire_codec_def tested_wire_def)
  then show ?thesis
    by (simp add: server_test_laws_def tested_codec tested_envelopes tested_requests tested_channel_requests
        tested_poll_requests tested_timeline_requests) (simp add: tested_server_def relay_server_def)
qed

theorem server_tests_pass_witness:
  "test_poll_create_vote_results_close tested_server value_text (quiet_env 0) True (\<lambda>n k. quiet_env n) = Some () \<and>
   test_persistence_across_reconnect tested_server value_text (quiet_env 0) (quiet_env 9) True (\<lambda>n k. quiet_env n) 7 = Some ()"
  using server_tests_pass [OF tested_laws, of "quiet_env 0" "quiet_env 9" "\<lambda>n k. quiet_env n" True 7] by simp

end
