(* ===== verification/Bridge_Tests.thy ===== *)
theory Bridge_Tests
  imports Ffi_Protocol Repository_Tests
begin

text \<open>
  The unit tests of \<open>tintin-ffi/src/lib.rs\<close> and \<open>tintin-jni/src/lib.rs\<close>, run on the model. A test of the C
  functions works on the library's memory: it returns the memory it leaves, aborts when an assertion
  fails, or is undefined behaviour. The tests of the JNI crate call the core library only.
\<close>

section \<open>Tests of the C functions\<close>

definition then_do :: "'a outcome \<Rightarrow> ('a \<Rightarrow> 'b outcome) \<Rightarrow> 'b outcome" where
  "then_do r f = (case r of Returns x \<Rightarrow> f x | Aborts \<Rightarrow> Aborts | Undefined \<Rightarrow> Undefined)"

definition expect_that :: "bool \<Rightarrow> 'a outcome \<Rightarrow> 'a outcome" where
  "expect_that c rest = (if c then rest else Aborts)"

text \<open>The bytes of a C string, and a slice made of a buffer and its length.\<close>

definition cstring_at :: "u64 \<Rightarrow> bridge \<Rightarrow> bytes outcome" where
  "cstring_at p b = (case deref as_cstring b p of None \<Rightarrow> Undefined | Some s \<Rightarrow> Returns (as_bytes s))"

definition from_raw_parts :: "u64 \<Rightarrow> nat \<Rightarrow> bridge \<Rightarrow> bytes outcome" where
  "from_raw_parts p n b = (case buffer_at b p n of None \<Rightarrow> Undefined | Some bs \<Rightarrow> Returns bs)"

definition test_ffi_identity_json_roundtrip :: "bridge_env \<Rightarrow> bytes \<Rightarrow> bridge \<Rightarrow> bridge outcome" where
  "test_ffi_identity_json_roundtrip be rng b0 =
     then_do (tintin_identity_generate be rng b0) (\<lambda>(id1, b1). expect_that (id1 \<noteq> 0) (
     then_do (tintin_identity_to_json be id1 b1) (\<lambda>(json, b2). expect_that (json \<noteq> 0) (
     then_do (cstring_at json b2) (\<lambda>bs.
     then_do (tintin_identity_from_json be (Some bs) b2) (\<lambda>(id2, b3). expect_that (id2 \<noteq> 0) (
     then_do (tintin_identity_get_public id1 True b3) (\<lambda>((c1, pub1), b4). expect_that (c1 = 0) (
     then_do (tintin_identity_get_public id2 True b4) (\<lambda>((c2, pub2), b5). expect_that (c2 = 0 \<and> pub1 = pub2) (
     then_do (tintin_identity_free id1 b5) (\<lambda>(_, b6).
     then_do (tintin_identity_free id2 b6) (\<lambda>(_, b7).
     then_do (tintin_free_string json b7) (\<lambda>(_, b8). Returns b8))))))))))))))"

text \<open>
  The random draws of the three key pairs, of the session and of the cipher, and the capacities of the
  two vectors handed out, are arguments.
\<close>

definition ffi_message_and_cleanup ::
  "bridge_env \<Rightarrow> bytes \<Rightarrow> (bytes \<Rightarrow> nat) \<Rightarrow> (bytes \<Rightarrow> nat) \<Rightarrow> u64 \<Rightarrow> u64 \<Rightarrow> u64 \<Rightarrow> u64 \<Rightarrow> u64 \<Rightarrow> bridge \<Rightarrow> bridge outcome" where
  "ffi_message_and_cleanup be nonce cap cap' alice_handle bob_handle alice_identity bob_identity bob_spk b9 =
     (let msg = ascii_bytes ''Hello from Alice via FFI!'' in
     then_do (tintin_session_encrypt be nonce cap alice_handle (Some msg) True True b9) (\<lambda>((ret, out), b10).
     (case out of None \<Rightarrow> Aborts | Some (cipher_buf, cipher_len) \<Rightarrow> expect_that (ret = 0 \<and> 0 < cipher_len) (
     then_do (from_raw_parts cipher_buf cipher_len b10) (\<lambda>cipher.
     then_do (tintin_session_decrypt be cap' bob_handle (Some cipher) True True b10) (\<lambda>((ret2, out2), b11).
     (case out2 of None \<Rightarrow> Aborts | Some (plain_buf, plain_len) \<Rightarrow> expect_that (ret2 = 0 \<and> plain_len = length msg) (
     then_do (from_raw_parts plain_buf plain_len b11) (\<lambda>decrypted. expect_that (decrypted = msg) (
     then_do (tintin_session_free alice_handle b11) (\<lambda>(_, b12).
     then_do (tintin_session_free bob_handle b12) (\<lambda>(_, b13).
     then_do (tintin_identity_free alice_identity b13) (\<lambda>(_, b14).
     then_do (tintin_identity_free bob_identity b14) (\<lambda>(_, b15).
     then_do (tintin_signed_prekey_free bob_spk b15) (\<lambda>(_, b16).
     then_do (tintin_free_buffer cipher_buf cipher_len b16) (\<lambda>(_, b17).
     then_do (tintin_free_buffer plain_buf plain_len b17) (\<lambda>(_, b18). Returns b18)))))))))))))))))"

definition test_session_ffi_encrypt_decrypt ::
  "bridge_env \<Rightarrow> (nat \<Rightarrow> bytes) \<Rightarrow> bytes \<Rightarrow> (bytes \<Rightarrow> nat) \<Rightarrow> (bytes \<Rightarrow> nat) \<Rightarrow> bridge \<Rightarrow> bridge outcome" where
  "test_session_ffi_encrypt_decrypt be rng nonce cap cap' b0 =
     then_do (tintin_identity_generate be (rng 0) b0) (\<lambda>(bob_identity, b1).
     then_do (tintin_signed_prekey_generate be (rng 1) 1 bob_identity b1) (\<lambda>(bob_spk, b2).
     then_do (tintin_signed_prekey_get_public bob_spk True b2) (\<lambda>((c, bob_spk_pub), b3). expect_that (c = 0) (
     then_do (tintin_identity_generate be (rng 2) b3) (\<lambda>(alice_identity, b4).
     then_do (tintin_identity_get_public alice_identity True b4) (\<lambda>((_, alice_id_pub), b5).
     then_do (tintin_identity_get_public bob_identity True b5) (\<lambda>((_, bob_id_pub), b6).
     then_do (tintin_session_new_initiator be (rng 3) alice_identity (Some (as_bytes ''bob'')) 1 bob_id_pub bob_spk_pub b6)
       (\<lambda>(alice_session, b7). expect_that (alice_session \<noteq> 0) (
     then_do (tintin_session_get_ratchet_key alice_session True b7) (\<lambda>((_, alice_eph), b8).
     then_do (tintin_session_new_responder be bob_identity (Some (as_bytes ''alice'')) 1 alice_id_pub alice_eph bob_spk b8)
       (\<lambda>(bob_session, b9). expect_that (bob_session \<noteq> 0) (
     ffi_message_and_cleanup be nonce cap cap' alice_session bob_session alice_identity bob_identity bob_spk b9))))))))))))"

section \<open>Tests of the JNI crate\<close>

definition test_jni_identity_json_roundtrip :: "bridge_env \<Rightarrow> bytes \<Rightarrow> bool option" where
  "test_jni_identity_json_roundtrip be rnd =
     (let ident = IdentityKeyPair_generate (be_prims be) rnd
      in do {
        json \<leftarrow> ok (Some (identity_to_string be ident));
        ident2 \<leftarrow> ok (Some (identity_from_str be json));
        Some (public_key ident = public_key ident2)
      })"

definition test_jni_session_encrypt_decrypt ::
  "bridge_env \<Rightarrow> bytes \<Rightarrow> bytes \<Rightarrow> bytes \<Rightarrow> bytes \<Rightarrow> bytes \<Rightarrow> bool option" where
  "test_jni_session_encrypt_decrypt be rnd1 rnd2 rnd3 rnd4 nonce =
     (let pr = be_prims be; bob_identity = IdentityKeyPair_generate pr rnd1;
          bob_spk = SignedPreKey_generate pr rnd2 1 bob_identity;
          alice_identity = IdentityKeyPair_generate pr rnd3; msg = ascii_bytes ''Hello from JNI!''
      in do {
        alice_session \<leftarrow> ok (Session_new_initiator pr rnd4 alice_identity ''bob'' 1 (public_key bob_identity)
                                (kp_public (spk_key_pair bob_spk)));
        bob_session \<leftarrow> ok (Session_new_responder pr bob_identity ''alice'' 1 (public_key (s_our_identity alice_session))
                              (kp_public (r_dh_ratchet_key (s_ratchet alice_session))) bob_spk);
        (encrypted, alice') \<leftarrow> ok_with (Session_encrypt pr alice_session nonce msg);
        json \<leftarrow> ok (Some (session_message_to_vec (be_wire be) encrypted));
        decrypted_msg \<leftarrow> ok (Some (session_message_from_slice (be_wire be) json));
        (decrypted, bob') \<leftarrow> ok_with (Session_decrypt pr bob_session decrypted_msg);
        Some (decrypted = msg)
      })"

section \<open>The identity test\<close>

lemma then_do_simps [simp]:
  "then_do (Returns x) f = f x" "expect_that True r = r"
  by (simp_all add: then_do_def expect_that_def)

text \<open>A test is evaluated call by call: the rest waits until the call has its result.\<close>

lemma then_do_cong: "r = r' \<Longrightarrow> then_do r f = then_do r' f"
  by simp

lemma expect_that_cong: "c = c' \<Longrightarrow> expect_that c r = expect_that c' r"
  by simp

lemmas call_cong = then_do_cong expect_that_cong prod.case_cong_weak

text \<open>The next allocation, with one object more in memory.\<close>

lemma next_address:
  assumes "alloc_fresh be" and "alloc_serves be limit" and "card (dom h) < limit"
  obtains p where "be_alloc be h x = Some p" "p \<noteq> 0" "h p = None" "card (dom (h(p \<mapsto> x))) \<le> Suc (card (dom h))"
proof -
  obtain p where "be_alloc be h x = Some p" using assms(2,3) unfolding alloc_serves_def by blast
  moreover from this assms(1) have "p \<noteq> 0" "h p = None" by (simp_all add: alloc_fresh_def)
  ultimately show thesis using that by (simp add: card_insert_if)
qed

lemmas memory_steps = into_raw_def clear_error_def deref_def store_at_def free_box_def Let_def

text \<open>The serialized identity is a C string: valid UTF-8 without NUL, and it is read back.\<close>

definition identity_codec :: "bridge_env \<Rightarrow> bool" where
  "identity_codec be \<longleftrightarrow>
     (\<forall>k. \<exists>t. identity_to_string be k = Inr t \<and> CHR 0x00 \<notin> set t \<and> utf8_error 0 (as_bytes t) = None \<and>
        identity_from_str be t = Inr k)"

lemma chars_of_bytes: "map (\<lambda>x. char_of (unat x)) (as_bytes s) = s"
proof -
  have "unat (word_of_nat (of_char c) :: u8) = of_char c" for c
    using of_char_mod_256 [of c, where 'a = nat] by (simp add: unat_of_nat)
  then show ?thesis by (simp add: as_bytes_def comp_def)
qed

lemma identity_test_ffi:
  assumes "alloc_fresh be" and "alloc_serves be limit" and "card (dom (b_heap b)) + 2 < limit" and "identity_codec be"
  shows "\<exists>b'. test_ffi_identity_json_roundtrip be rng b = Returns b' \<and> b_heap b' = b_heap b"
proof -
  let ?k = "IdentityKeyPair_generate (be_prims be) rng"
  obtain t where t: "identity_to_string be ?k = Inr t" "CHR 0x00 \<notin> set t" "utf8_error 0 (as_bytes t) = None"
    "identity_from_str be t = Inr ?k"
    using assms(4) unfolding identity_codec_def by metis
  obtain h e where b: "b = \<lparr>b_heap = h, b_error = e\<rparr>" by (cases b)
  have c: "card (dom h) + 2 < limit" using assms(3) by (simp add: b)
  note fresh = next_address [OF assms(1,2)]
  obtain p1 where 1: "be_alloc be h (OIdentity ?k) = Some p1" "p1 \<noteq> 0" "h p1 = None"
    "card (dom (h(p1 \<mapsto> OIdentity ?k))) \<le> Suc (card (dom h))"
    by (rule fresh [of h]) (use c in simp_all)
  let ?h1 = "h(p1 \<mapsto> OIdentity ?k)"
  obtain p2 where 2: "be_alloc be ?h1 (OString t) = Some p2" "p2 \<noteq> 0" "?h1 p2 = None"
    "card (dom (?h1(p2 \<mapsto> OString t))) \<le> Suc (card (dom ?h1))"
    by (rule fresh [of ?h1]) (use c 1(4) in simp_all)
  let ?h2 = "?h1(p2 \<mapsto> OString t)"
  obtain p3 where 3: "be_alloc be ?h2 (OIdentity ?k) = Some p3" "p3 \<noteq> 0" "?h2 p3 = None"
    by (rule fresh [of ?h2]) (use c 1(4) 2(4) in simp_all)
  have d: "p2 \<noteq> p1" "p3 \<noteq> p1" "p3 \<noteq> p2" "h p2 = None" "h p3 = None"
    using 1(3) 2(3) 3(3) by (auto split: if_splits)
  have "test_ffi_identity_json_roundtrip be rng b = Returns \<lparr>b_heap = ?h2(p3 \<mapsto> OIdentity ?k, p1 := None, p3 := None, p2 := None), b_error = None\<rparr>"
    using 1(1-3) 2(1,2) 3(1,2) d t
    by (simp add: b test_ffi_identity_json_roundtrip_def tintin_identity_generate_def tintin_identity_to_json_def
        tintin_identity_from_json_def tintin_identity_get_public_def tintin_identity_free_def tintin_free_string_def
        return_json_def cstring_at_def cstring_or_empty_def cstr_to_str_def chars_of_bytes memory_steps)
  moreover have "?h2(p3 \<mapsto> OIdentity ?k, p1 := None, p3 := None, p2 := None) = h"
    using 1(3) d by (auto simp: fun_eq_iff)
  ultimately show ?thesis by (simp add: b)
qed

section \<open>The session test\<close>

text \<open>Two sessions made by the handshake, and one message from the first to the second.\<close>

lemma handshake_message:
  assumes "dh_commutes pr" and "hkdf_total pr" and "aead_correct pr" and "aead_total pr" and "length p < 2 ^ 32"
  obtains a b m a' b' where
    "Session_new_initiator pr rnd4 (IdentityKeyPair_generate pr rnd3) ''bob'' 1 (public_key (IdentityKeyPair_generate pr rnd1))
       (kp_public (spk_key_pair (SignedPreKey_generate pr rnd2 1 (IdentityKeyPair_generate pr rnd1)))) = Some (Inr a)"
    "s_our_identity a = IdentityKeyPair_generate pr rnd3"
    "Session_new_responder pr (IdentityKeyPair_generate pr rnd1) ''alice'' 1 (public_key (IdentityKeyPair_generate pr rnd3))
       (kp_public (r_dh_ratchet_key (s_ratchet a))) (SignedPreKey_generate pr rnd2 1 (IdentityKeyPair_generate pr rnd1)) = Some (Inr b)"
    "Session_encrypt pr a nonce p = Some (Inr m, a')" "Session_decrypt pr b m = Some (Inr p, b')"
    "kp_public (r_dh_ratchet_key (s_ratchet a)) = x25519_public pr rnd4"
proof -
  let ?id = "IdentityKeyPair_generate pr" and ?spk = "SignedPreKey_generate pr rnd2 1 (IdentityKeyPair_generate pr rnd1)"
  have spk: "kp_public (spk_key_pair ?spk) = x25519_public pr (kp_secret (spk_key_pair ?spk))"
    by (simp add: SignedPreKey_generate_def Let_def KeyPair_generate_def)
  obtain a b where hs: "handshake pr rnd4 (?id rnd3) (?id rnd1) ?spk (''alice'', ''bob'') = Some (a, b)"
    using handshake_completes [OF assms(1,2) spk] by metis
  note h = handshake_SomeD [OF hs, unfolded fst_conv snd_conv]
  have n: "r_send_msg_number (s_ratchet a) = 0" "s_our_identity a = ?id rnd3" "r_recv_msg_number (s_ratchet b) = 0"
    "kp_public (r_dh_ratchet_key (s_ratchet a)) = x25519_public pr rnd4"
    using h by (auto simp: Session_new_initiator_def Session_new_responder_def Ratchet_new_initiator_def Ratchet_new_responder_def
        bind_eq_Some_conv agree_def Let_def KeyPair_generate_def split: sum.splits prod.splits)
  have room: "room_to_send pr (Suc 0) a" "room_to_receive pr (Suc 0) b"
    using n(1,3) by (simp_all add: room_to_send_def room_to_receive_def)
  note l = handshake_linked(1) [OF assms(1,3) spk hs]
  obtain m a' where e: "Session_encrypt pr a nonce p = Some (Inr m, a')" and "session_linked pr a' b ([] @ [m]) ([] @ [p])"
    by (rule encrypt_linked [OF l room(1) assms(4,5)])
  then have "session_linked pr a' b [m] [p]" by simp
  then obtain b' where "Session_decrypt pr b m = Some (Inr p, b')" by (rule decrypt_linked [OF _ room(2)])
  with h n e show thesis using that by blast
qed

text \<open>The calls of the test, on a memory and the error slot.\<close>

lemma run_keys:
  "be_alloc be h (OIdentity (IdentityKeyPair_generate (be_prims be) k)) = Some p \<Longrightarrow>
   tintin_identity_generate be k \<lparr>b_heap = h, b_error = e\<rparr> =
     Returns (p, \<lparr>b_heap = h(p \<mapsto> OIdentity (IdentityKeyPair_generate (be_prims be) k)), b_error = None\<rparr>)"
  "h q = Some (OIdentity i) \<Longrightarrow> q \<noteq> 0 \<Longrightarrow> be_alloc be h (OSigned (SignedPreKey_generate (be_prims be) k 1 i)) = Some p \<Longrightarrow>
   tintin_signed_prekey_generate be k 1 q \<lparr>b_heap = h, b_error = e\<rparr> =
     Returns (p, \<lparr>b_heap = h(p \<mapsto> OSigned (SignedPreKey_generate (be_prims be) k 1 i)), b_error = None\<rparr>)"
  "h q = Some (OIdentity i) \<Longrightarrow> q \<noteq> 0 \<Longrightarrow>
   tintin_identity_get_public q True \<lparr>b_heap = h, b_error = e\<rparr> = Returns ((0, Some (public_key i)), \<lparr>b_heap = h, b_error = e\<rparr>)"
  "h q = Some (OSigned y) \<Longrightarrow> q \<noteq> 0 \<Longrightarrow>
   tintin_signed_prekey_get_public q True \<lparr>b_heap = h, b_error = e\<rparr> =
     Returns ((0, Some (kp_public (spk_key_pair y))), \<lparr>b_heap = h, b_error = e\<rparr>)"
  "h q = Some (OSession s) \<Longrightarrow> q \<noteq> 0 \<Longrightarrow>
   tintin_session_get_ratchet_key q True \<lparr>b_heap = h, b_error = e\<rparr> =
     Returns ((0, Some (kp_public (r_dh_ratchet_key (s_ratchet s)))), \<lparr>b_heap = h, b_error = e\<rparr>)"
  by (simp_all add: tintin_identity_generate_def tintin_signed_prekey_generate_def tintin_identity_get_public_def
      tintin_signed_prekey_get_public_def tintin_session_get_ratchet_key_def memory_steps)

lemma run_sessions:
  "h q = Some (OIdentity i) \<Longrightarrow> q \<noteq> 0 \<Longrightarrow> cstr_to_str u = Inr n \<Longrightarrow> length t = 32 \<Longrightarrow> length k = 32 \<Longrightarrow>
   Session_new_initiator (be_prims be) g i n 1 t k = Some (Inr s) \<Longrightarrow> be_alloc be h (OSession s) = Some p \<Longrightarrow>
   tintin_session_new_initiator be g q (Some u) 1 (Some t) (Some k) \<lparr>b_heap = h, b_error = e\<rparr> =
     Returns (p, \<lparr>b_heap = h(p \<mapsto> OSession s), b_error = None\<rparr>)"
  "h q = Some (OIdentity i) \<Longrightarrow> q \<noteq> 0 \<Longrightarrow> h x = Some (OSigned y) \<Longrightarrow> x \<noteq> 0 \<Longrightarrow> cstr_to_str u = Inr n \<Longrightarrow> length t = 32 \<Longrightarrow> length k = 32 \<Longrightarrow>
   Session_new_responder (be_prims be) i n 1 t k y = Some (Inr s) \<Longrightarrow> be_alloc be h (OSession s) = Some p \<Longrightarrow>
   tintin_session_new_responder be q (Some u) 1 (Some t) (Some k) x \<lparr>b_heap = h, b_error = e\<rparr> =
     Returns (p, \<lparr>b_heap = h(p \<mapsto> OSession s), b_error = None\<rparr>)"
  "h q = Some (OSession s) \<Longrightarrow> q \<noteq> 0 \<Longrightarrow> Session_encrypt (be_prims be) s g a = Some (Inr m, s') \<Longrightarrow>
   session_message_to_vec (be_wire be) m = Inr c \<Longrightarrow> 0 < cap c \<Longrightarrow>
   be_alloc be (h(q \<mapsto> OSession s')) (OBuffer c (cap c)) = Some p \<Longrightarrow>
   tintin_session_encrypt be g cap q (Some a) True True \<lparr>b_heap = h, b_error = e\<rparr> =
     Returns ((0, Some (p, length c)), \<lparr>b_heap = h(q \<mapsto> OSession s', p \<mapsto> OBuffer c (cap c)), b_error = None\<rparr>)"
  "h q = Some (OSession s) \<Longrightarrow> q \<noteq> 0 \<Longrightarrow> session_message_from_slice (be_wire be) c = Inr m \<Longrightarrow>
   Session_decrypt (be_prims be) s m = Some (Inr a, s') \<Longrightarrow> 0 < cap a \<Longrightarrow>
   be_alloc be (h(q \<mapsto> OSession s')) (OBuffer a (cap a)) = Some p \<Longrightarrow>
   tintin_session_decrypt be cap q (Some c) True True \<lparr>b_heap = h, b_error = e\<rparr> =
     Returns ((0, Some (p, length a)), \<lparr>b_heap = h(q \<mapsto> OSession s', p \<mapsto> OBuffer a (cap a)), b_error = None\<rparr>)"
  by (simp_all add: tintin_session_new_initiator_def tintin_session_new_responder_def tintin_session_encrypt_def
      tintin_session_decrypt_def return_session_def return_buffer_def leak_def memory_steps)

lemma run_frees:
  "h q = Some (OIdentity i) \<Longrightarrow> q \<noteq> 0 \<Longrightarrow>
   tintin_identity_free q \<lparr>b_heap = h, b_error = e\<rparr> = Returns ((), \<lparr>b_heap = h(q := None), b_error = e\<rparr>)"
  "h q = Some (OSigned y) \<Longrightarrow> q \<noteq> 0 \<Longrightarrow>
   tintin_signed_prekey_free q \<lparr>b_heap = h, b_error = e\<rparr> = Returns ((), \<lparr>b_heap = h(q := None), b_error = e\<rparr>)"
  "h q = Some (OSession s) \<Longrightarrow> q \<noteq> 0 \<Longrightarrow>
   tintin_session_free q \<lparr>b_heap = h, b_error = e\<rparr> = Returns ((), \<lparr>b_heap = h(q := None), b_error = e\<rparr>)"
  "h q = Some (OBuffer c n) \<Longrightarrow> q \<noteq> 0 \<Longrightarrow> 0 < m \<Longrightarrow>
   tintin_free_buffer q m \<lparr>b_heap = h, b_error = e\<rparr> =
     (if n = m then Returns ((), \<lparr>b_heap = h(q := None), b_error = e\<rparr>) else Undefined)"
  "h q = Some (OBuffer c n) \<Longrightarrow> c \<noteq> [] \<Longrightarrow> from_raw_parts q (length c) \<lparr>b_heap = h, b_error = e\<rparr> = Returns c"
  by (simp_all add: tintin_identity_free_def tintin_signed_prekey_free_def tintin_session_free_def tintin_free_buffer_def
      from_raw_parts_def buffer_at_def memory_steps)

lemma five_addresses:
  assumes "alloc_fresh be" and "alloc_serves be limit" and "card (dom h) + 4 < limit"
  obtains p1 p2 p3 p4 p5 where "be_alloc be h x1 = Some p1" "be_alloc be (h(p1 \<mapsto> x1)) x2 = Some p2"
    "be_alloc be (h(p1 \<mapsto> x1, p2 \<mapsto> x2)) x3 = Some p3" "be_alloc be (h(p1 \<mapsto> x1, p2 \<mapsto> x2, p3 \<mapsto> x3)) x4 = Some p4"
    "be_alloc be (h(p1 \<mapsto> x1, p2 \<mapsto> x2, p3 \<mapsto> x3, p4 \<mapsto> x4)) x5 = Some p5"
    "distinct [0, p1, p2, p3, p4, p5]" "\<forall>p\<in>{p1, p2, p3, p4, p5}. h p = None"
    "card (dom (h(p1 \<mapsto> x1, p2 \<mapsto> x2, p3 \<mapsto> x3, p4 \<mapsto> x4, p5 \<mapsto> x5))) \<le> card (dom h) + 5"
proof -
  note fresh = next_address [OF assms(1,2)]
  obtain p1 where 1: "be_alloc be h x1 = Some p1" "p1 \<noteq> 0" "h p1 = None" "card (dom (h(p1 \<mapsto> x1))) \<le> Suc (card (dom h))"
    by (rule fresh [of h x1]) (use assms(3) in simp_all)
  obtain p2 where 2: "be_alloc be (h(p1 \<mapsto> x1)) x2 = Some p2" "p2 \<noteq> 0" "(h(p1 \<mapsto> x1)) p2 = None"
    "card (dom (h(p1 \<mapsto> x1, p2 \<mapsto> x2))) \<le> Suc (card (dom (h(p1 \<mapsto> x1))))"
    by (rule fresh [of "h(p1 \<mapsto> x1)" x2]) (use assms(3) 1(4) in simp_all)
  obtain p3 where 3: "be_alloc be (h(p1 \<mapsto> x1, p2 \<mapsto> x2)) x3 = Some p3" "p3 \<noteq> 0" "(h(p1 \<mapsto> x1, p2 \<mapsto> x2)) p3 = None"
    "card (dom (h(p1 \<mapsto> x1, p2 \<mapsto> x2, p3 \<mapsto> x3))) \<le> Suc (card (dom (h(p1 \<mapsto> x1, p2 \<mapsto> x2))))"
    by (rule fresh [of "h(p1 \<mapsto> x1, p2 \<mapsto> x2)" x3]) (use assms(3) 1(4) 2(4) in linarith, blast)
  obtain p4 where 4: "be_alloc be (h(p1 \<mapsto> x1, p2 \<mapsto> x2, p3 \<mapsto> x3)) x4 = Some p4" "p4 \<noteq> 0"
    "(h(p1 \<mapsto> x1, p2 \<mapsto> x2, p3 \<mapsto> x3)) p4 = None"
    "card (dom (h(p1 \<mapsto> x1, p2 \<mapsto> x2, p3 \<mapsto> x3, p4 \<mapsto> x4))) \<le> Suc (card (dom (h(p1 \<mapsto> x1, p2 \<mapsto> x2, p3 \<mapsto> x3))))"
    by (rule fresh [of "h(p1 \<mapsto> x1, p2 \<mapsto> x2, p3 \<mapsto> x3)" x4]) (use assms(3) 1(4) 2(4) 3(4) in linarith, blast)
  obtain p5 where 5: "be_alloc be (h(p1 \<mapsto> x1, p2 \<mapsto> x2, p3 \<mapsto> x3, p4 \<mapsto> x4)) x5 = Some p5" "p5 \<noteq> 0"
    "(h(p1 \<mapsto> x1, p2 \<mapsto> x2, p3 \<mapsto> x3, p4 \<mapsto> x4)) p5 = None"
    "card (dom (h(p1 \<mapsto> x1, p2 \<mapsto> x2, p3 \<mapsto> x3, p4 \<mapsto> x4, p5 \<mapsto> x5)))
      \<le> Suc (card (dom (h(p1 \<mapsto> x1, p2 \<mapsto> x2, p3 \<mapsto> x3, p4 \<mapsto> x4))))"
    by (rule fresh [of "h(p1 \<mapsto> x1, p2 \<mapsto> x2, p3 \<mapsto> x3, p4 \<mapsto> x4)" x5]) (use assms(3) 1(4) 2(4) 3(4) 4(4) in linarith, blast)
  have "distinct [0, p1, p2, p3, p4, p5]" "\<forall>p\<in>{p1, p2, p3, p4, p5}. h p = None"
    using 1(2,3) 2(2,3) 3(2,3) 4(2,3) 5(2,3) by (auto split: if_splits)
  moreover have "card (dom (h(p1 \<mapsto> x1, p2 \<mapsto> x2, p3 \<mapsto> x3, p4 \<mapsto> x4, p5 \<mapsto> x5))) \<le> card (dom h) + 5"
    using 1(4) 2(4) 3(4) 4(4) 5(4) by linarith
  ultimately show thesis using that 1(1) 2(1) 3(1) 4(1) 5(1) by blast
qed

lemma name_bytes: "cstr_to_str (as_bytes ''bob'') = Inr ''bob''" "cstr_to_str (as_bytes ''alice'') = Inr ''alice''"
  by code_simp+

lemma message_and_cleanup:
  assumes "alloc_fresh be" and "alloc_serves be limit" and "card (dom h) + 1 < limit"
    and H: "h p1 = Some (OIdentity i)" "h p2 = Some (OSigned y)" "h p3 = Some (OIdentity i')" "h p4 = Some (OSession s)"
      "h p5 = Some (OSession r)"
    and p: "distinct [0, p1, p2, p3, p4, p5]"
    and "Session_encrypt (be_prims be) s nonce (ascii_bytes ''Hello from Alice via FFI!'') = Some (Inr m, s')"
      "Session_decrypt (be_prims be) r m = Some (Inr (ascii_bytes ''Hello from Alice via FFI!''), r')"
    and ct: "session_message_to_vec (be_wire be) m = Inr ct" "session_message_from_slice (be_wire be) ct = Inr m" "ct \<noteq> []"
    and "length ct \<le> cap ct" and "25 \<le> cap' (ascii_bytes ''Hello from Alice via FFI!'')"
  shows "\<exists>e. ffi_message_and_cleanup be nonce cap cap' p4 p5 p3 p1 p2 \<lparr>b_heap = h, b_error = e0\<rparr> =
    (if cap ct = length ct \<and> cap' (ascii_bytes ''Hello from Alice via FFI!'') = 25
     then Returns \<lparr>b_heap = h(p4 := None, p5 := None, p3 := None, p1 := None, p2 := None), b_error = e\<rparr> else Undefined)"
proof -
  define msg where "msg = ascii_bytes ''Hello from Alice via FFI!''"
  have msg: "length msg = 25" by (simp add: msg_def ascii_bytes_def)
  note run = assms(10,11) [folded msg_def] ct
  have caps: "0 < cap ct" "0 < cap' msg" using assms(15,16) ct(3) by (auto simp: msg_def intro: gr0I)
  let ?h6 = "h(p4 \<mapsto> OSession s')"
  have d6: "dom ?h6 = dom h" using H by auto
  obtain p6 where 6: "be_alloc be ?h6 (OBuffer ct (cap ct)) = Some p6" "p6 \<noteq> 0" "?h6 p6 = None"
    "card (dom (?h6(p6 \<mapsto> OBuffer ct (cap ct)))) \<le> Suc (card (dom ?h6))"
    by (rule next_address [OF assms(1,2), of ?h6]) (use assms(3) d6 in simp_all)
  let ?h7 = "?h6(p6 \<mapsto> OBuffer ct (cap ct), p5 \<mapsto> OSession r')"
  have d7: "dom ?h7 = dom (?h6(p6 \<mapsto> OBuffer ct (cap ct)))" using H by auto
  obtain p7 where 7: "be_alloc be ?h7 (OBuffer msg (cap' msg)) = Some p7" "p7 \<noteq> 0" "?h7 p7 = None"
    by (rule next_address [OF assms(1,2), of ?h7]) (use assms(3) d6 d7 6(4) in simp_all)
  have d: "distinct [0, p1, p2, p3, p4, p5, p6, p7]" "distinct [p7, p6, p5, p4, p3, p2, p1]" "h p6 = None" "h p7 = None"
    using H p 6(2,3) 7(2,3) by (auto split: if_splits)
  let ?h8 = "?h7(p7 \<mapsto> OBuffer msg (cap' msg), p4 := None, p5 := None, p3 := None, p1 := None, p2 := None)"
  let ?rest = "then_do (tintin_free_buffer p6 (length ct) \<lparr>b_heap = ?h8, b_error = None\<rparr>) (\<lambda>(_, b17).
      then_do (tintin_free_buffer p7 25 b17) (\<lambda>(_, b18). Returns b18))"
  have calls: "ffi_message_and_cleanup be nonce cap cap' p4 p5 p3 p1 p2 \<lparr>b_heap = h, b_error = e0\<rparr> = ?rest"
    unfolding ffi_message_and_cleanup_def msg_def [symmetric] Let_def using d(1,2) H msg
    by (simp add: run_sessions(3,4) run_frees(1-3) 6(1) 7(1) run caps from_raw_parts_def buffer_at_def cong: call_cong)
  have "?rest = (if cap ct = length ct \<and> cap' msg = 25
      then Returns \<lparr>b_heap = h(p4 := None, p5 := None, p3 := None, p1 := None, p2 := None, p6 := None, p7 := None), b_error = None\<rparr>
      else Undefined)"
    using d(1,2) ct(3) by (simp add: run_frees(4) then_do_def)
  moreover have "h(p4 := None, p5 := None, p3 := None, p1 := None, p2 := None, p6 := None, p7 := None) =
      h(p4 := None, p5 := None, p3 := None, p1 := None, p2 := None)"
    using d by (simp add: fun_upd_idem)
  ultimately show ?thesis unfolding calls msg_def [symmetric] by auto
qed

lemma session_test_ffi:
  assumes "alloc_fresh be" and "alloc_serves be limit" and "card (dom (b_heap b)) + 6 < limit" and "wire_codec (be_wire be)"
    and "dh_commutes (be_prims be)" and "hkdf_total (be_prims be)" and "aead_correct (be_prims be)" and "aead_total (be_prims be)"
    and "prims_sized (be_prims be)" and "\<forall>m. session_message_to_vec (be_wire be) m \<noteq> Inr []"
    and "\<And>bs. length bs \<le> cap bs" and "\<And>bs. length bs \<le> cap' bs"
  shows "\<exists>ct b'. b_heap b' = b_heap b \<and> test_session_ffi_encrypt_decrypt be rng nonce cap cap' b =
    (if cap ct = length ct \<and> cap' (ascii_bytes ''Hello from Alice via FFI!'') = 25 then Returns b' else Undefined)"
proof -
  let ?pr = "be_prims be" and ?msg = "ascii_bytes ''Hello from Alice via FFI!''"
  let ?bob = "IdentityKeyPair_generate ?pr (rng 0)" and ?alice = "IdentityKeyPair_generate ?pr (rng 2)"
  let ?spk = "SignedPreKey_generate ?pr (rng 1) 1 ?bob"
  have short: "length ?msg < 2 ^ 32" and msg: "length ?msg = 25" by (simp_all add: ascii_bytes_def)
  obtain s r m s' r' where hs:
    "Session_new_initiator ?pr (rng 3) ?alice ''bob'' 1 (public_key ?bob) (kp_public (spk_key_pair ?spk)) = Some (Inr s)"
    "Session_new_responder ?pr ?bob ''alice'' 1 (public_key ?alice) (kp_public (r_dh_ratchet_key (s_ratchet s))) ?spk = Some (Inr r)"
    and run: "Session_encrypt ?pr s nonce ?msg = Some (Inr m, s')" "Session_decrypt ?pr r m = Some (Inr ?msg, r')"
    and eph: "kp_public (r_dh_ratchet_key (s_ratchet s)) = x25519_public ?pr (rng 3)"
    by (rule handshake_message [OF assms(5-8) short])
  have sized: "length (x25519_public ?pr k) = 32" for k using assms(9) by (simp add: prims_sized_def)
  then have keys: "length (public_key ?bob) = 32" "length (public_key ?alice) = 32" "length (kp_public (spk_key_pair ?spk)) = 32"
    "length (kp_public (r_dh_ratchet_key (s_ratchet s))) = 32"
    by (simp_all add: eph public_key_def IdentityKeyPair_generate_def SignedPreKey_generate_def KeyPair_generate_def Let_def)
  obtain ct where ct: "session_message_to_vec (be_wire be) m = Inr ct" "session_message_from_slice (be_wire be) ct = Inr m"
    using assms(4) unfolding wire_codec_def by blast
  have ne: "ct \<noteq> []" using assms(10) ct(1) by auto
  obtain h e where b: "b = \<lparr>b_heap = h, b_error = e\<rparr>" by (cases b)
  have c: "card (dom h) + 4 < limit" "card (dom h) + 6 < limit" using assms(3) by (simp_all add: b)
  obtain p1 p2 p3 p4 p5 where
    a: "be_alloc be h (OIdentity ?bob) = Some p1" "be_alloc be (h(p1 \<mapsto> OIdentity ?bob)) (OSigned ?spk) = Some p2"
      "be_alloc be (h(p1 \<mapsto> OIdentity ?bob, p2 \<mapsto> OSigned ?spk)) (OIdentity ?alice) = Some p3"
      "be_alloc be (h(p1 \<mapsto> OIdentity ?bob, p2 \<mapsto> OSigned ?spk, p3 \<mapsto> OIdentity ?alice)) (OSession s) = Some p4"
      "be_alloc be (h(p1 \<mapsto> OIdentity ?bob, p2 \<mapsto> OSigned ?spk, p3 \<mapsto> OIdentity ?alice, p4 \<mapsto> OSession s)) (OSession r) = Some p5"
    and z: "distinct [0, p1, p2, p3, p4, p5]" "\<forall>p\<in>{p1, p2, p3, p4, p5}. h p = None"
    and c5: "card (dom (h(p1 \<mapsto> OIdentity ?bob, p2 \<mapsto> OSigned ?spk, p3 \<mapsto> OIdentity ?alice, p4 \<mapsto> OSession s, p5 \<mapsto> OSession r)))
      \<le> card (dom h) + 5"
    by (rule five_addresses [OF assms(1,2) c(1)])
  let ?h5 = "h(p1 \<mapsto> OIdentity ?bob, p2 \<mapsto> OSigned ?spk, p3 \<mapsto> OIdentity ?alice, p4 \<mapsto> OSession s, p5 \<mapsto> OSession r)"
  have made: "test_session_ffi_encrypt_decrypt be rng nonce cap cap' b =
      ffi_message_and_cleanup be nonce cap cap' p4 p5 p3 p1 p2 \<lparr>b_heap = ?h5, b_error = None\<rparr>"
    using z(1)
    by (simp add: b test_session_ffi_encrypt_decrypt_def run_keys run_sessions(1,2) a [simplified] hs [simplified] keys [simplified]
        name_bytes cong: call_cong)
  have H: "?h5 p1 = Some (OIdentity ?bob)" "?h5 p2 = Some (OSigned ?spk)" "?h5 p3 = Some (OIdentity ?alice)"
    "?h5 p4 = Some (OSession s)" "?h5 p5 = Some (OSession r)" and room: "card (dom ?h5) + 1 < limit"
    using z(1) c5 c(2) by auto
  have caps: "length ct \<le> cap ct" "25 \<le> cap' ?msg" using assms(11) assms(12) [of ?msg] msg by simp_all
  obtain e' where "test_session_ffi_encrypt_decrypt be rng nonce cap cap' b =
    (if cap ct = length ct \<and> cap' ?msg = 25
     then Returns \<lparr>b_heap = ?h5(p4 := None, p5 := None, p3 := None, p1 := None, p2 := None), b_error = e'\<rparr> else Undefined)"
    using message_and_cleanup [where h = ?h5 and cap = cap and cap' = cap' and ?e0.0 = None, OF assms(1,2) room H z(1) run ct ne caps] unfolding made by blast
  moreover have "h(p := None) = h" if "p \<in> {p1, p2, p3, p4, p5}" for p using that z(2) by (intro fun_upd_idem) (rule bspec)
  then have "?h5(p4 := None, p5 := None, p3 := None, p1 := None, p2 := None) = b_heap b" by (simp add: b)
  ultimately show ?thesis by (intro exI [of _ ct] exI [of _ "\<lparr>b_heap = b_heap b, b_error = e'\<rparr>"] conjI) simp_all
qed

section \<open>The tests of the bindings\<close>

lemma jni_tests:
  assumes "dh_commutes (be_prims be)" and "hkdf_total (be_prims be)" and "aead_correct (be_prims be)" and "aead_total (be_prims be)"
    and "wire_codec (be_wire be)" and "identity_codec be"
  shows "test_jni_session_encrypt_decrypt be rnd1 rnd2 rnd3 rnd4 nonce = Some True"
    and "test_jni_identity_json_roundtrip be rnd1 = Some True"
proof -
  let ?pr = "be_prims be" and ?msg = "ascii_bytes ''Hello from JNI!''"
  let ?bob = "IdentityKeyPair_generate ?pr rnd1" and ?alice = "IdentityKeyPair_generate ?pr rnd3"
  let ?spk = "SignedPreKey_generate ?pr rnd2 1 ?bob"
  have short: "length ?msg < 2 ^ 32" by (simp add: ascii_bytes_def)
  obtain s r m s' r' where hs:
    "Session_new_initiator ?pr rnd4 ?alice ''bob'' 1 (public_key ?bob) (kp_public (spk_key_pair ?spk)) = Some (Inr s)"
    "s_our_identity s = ?alice"
    "Session_new_responder ?pr ?bob ''alice'' 1 (public_key ?alice) (kp_public (r_dh_ratchet_key (s_ratchet s))) ?spk = Some (Inr r)"
    "Session_encrypt ?pr s nonce ?msg = Some (Inr m, s')" "Session_decrypt ?pr r m = Some (Inr ?msg, r')"
    by (rule handshake_message [OF assms(1-4) short])
  obtain c where "session_message_to_vec (be_wire be) m = Inr c" "session_message_from_slice (be_wire be) c = Inr m"
    using assms(5) unfolding wire_codec_def by blast
  with hs [simplified] show "test_jni_session_encrypt_decrypt be rnd1 rnd2 rnd3 rnd4 nonce = Some True"
    by (simp add: test_jni_session_encrypt_decrypt_def Let_def)
  show "test_jni_identity_json_roundtrip be rnd1 = Some True"
  proof -
    obtain t where "identity_to_string be ?bob = Inr t" "identity_from_str be t = Inr ?bob"
      using assms(6) unfolding identity_codec_def by metis
    then show ?thesis by (simp add: test_jni_identity_json_roundtrip_def)
  qed
qed

text \<open>
  The tests of the bindings. The JNI tests and the identity test of the C functions pass. The session test
  of the C functions passes and leaves the memory as it found it if vectors are handed out without
  spare capacity. If the serializer's vectors have spare capacity, as those of \<open>serde_json\<close> do, the test
  itself is undefined behaviour, at its call of \<open>tintin_free_buffer\<close>.
\<close>

theorem bridge_tests_outcome:
  assumes "alloc_fresh be" and "alloc_serves be limit" and "card (dom (b_heap b)) + 6 < limit" and "wire_codec (be_wire be)"
    and "dh_commutes (be_prims be)" and "hkdf_total (be_prims be)" and "aead_correct (be_prims be)" and "aead_total (be_prims be)"
    and "prims_sized (be_prims be)" and "\<forall>m. session_message_to_vec (be_wire be) m \<noteq> Inr []"
    and "identity_codec be" and "\<And>bs. length bs < cap bs"
  shows "test_jni_session_encrypt_decrypt be rnd1 rnd2 rnd3 rnd4 nonce = Some True \<and>
    test_jni_identity_json_roundtrip be rnd1 = Some True \<and>
    (\<exists>b'. test_ffi_identity_json_roundtrip be rnd1 b = Returns b' \<and> b_heap b' = b_heap b) \<and>
    (\<exists>b'. test_session_ffi_encrypt_decrypt be rng nonce length length b = Returns b' \<and> b_heap b' = b_heap b) \<and>
    test_session_ffi_encrypt_decrypt be rng nonce cap length b = Undefined"
proof -
  have "card (dom (b_heap b)) + 2 < limit" using assms(3) by simp
  note ident = identity_test_ffi [OF assms(1,2) this assms(11), of rnd1]
  have msg: "length (ascii_bytes ''Hello from Alice via FFI!'') = 25" by (simp add: ascii_bytes_def)
  note run = session_test_ffi [where rng = rng and nonce = nonce, OF assms(1-10)]
  have le: "length bs \<le> cap bs" for bs using assms(12) [of bs] by simp
  have "\<exists>b'. test_session_ffi_encrypt_decrypt be rng nonce length length b = Returns b' \<and> b_heap b' = b_heap b"
    using run [where cap = length and cap' = length] msg by auto
  moreover have "test_session_ffi_encrypt_decrypt be rng nonce cap length b = Undefined"
    using run [where cap = cap and cap' = length, OF le order_refl] assms(12) by (metis less_irrefl)
  ultimately show ?thesis using jni_tests [OF assms(5-8,4,11)] ident by blast
qed

text \<open>Nine addresses, and identities as texts of digits.\<close>

definition identity_text :: "IdentityKeyPair \<Rightarrow> string" where
  "identity_text k = value_text (JArray [bytes_json (kp_secret (ik_key_pair k)), bytes_json (kp_public (ik_key_pair k))])"

definition text_identity :: "string \<Rightarrow> IdentityKeyPair" where
  "text_identity t =
     (case text_value t of JArray [s, p] \<Rightarrow> \<lparr>ik_key_pair = \<lparr>kp_secret = json_bytes s, kp_public = json_bytes p\<rparr>\<rparr>)"

lemma text_identity_text: "text_identity (identity_text k) = k"
  by (simp add: text_identity_def identity_text_def)

definition tested_bridge :: bridge_env where
  "tested_bridge = demo_bridge_env\<lparr>be_alloc := (\<lambda>h x. find (\<lambda>p. h p = None) [2, 3, 4, 5, 6, 7, 8, 9, 10]),
     identity_to_string := (\<lambda>k. Inr (identity_text k)), identity_from_str := (\<lambda>t. Inr (text_identity t))\<rparr>"

lemma digits_utf8: "utf8_error i (replicate n 49) = None"
  by (induction n arbitrary: i) (simp_all add: utf8_step_def byte_at_def Let_def)

lemma tested_bridge_codec: "identity_codec tested_bridge"
proof -
  have "CHR 0x00 \<notin> set (identity_text k)" "utf8_error 0 (as_bytes (identity_text k)) = None" for k
    using digits_utf8 [where n = "Suc _"] by (auto simp: identity_text_def value_text_def as_bytes_def simp del: utf8_error.simps)
  then show ?thesis by (simp add: identity_codec_def tested_bridge_def text_identity_text)
qed

lemma tested_alloc: "alloc_fresh tested_bridge" "alloc_serves tested_bridge 9"
proof -
  let ?ps = "[2, 3, 4, 5, 6, 7, 8, 9, 10 :: u64]"
  have "p \<noteq> 0 \<and> p \<noteq> 1 \<and> h p = None" if "find (\<lambda>p. h p = None) ?ps = Some p" for h :: "u64 \<Rightarrow> heap_object option" and p
    using find_SomeD [OF that] by auto
  then show "alloc_fresh tested_bridge" unfolding alloc_fresh_def tested_bridge_def by (simp del: find.simps)
  have "find (\<lambda>p. h p = None) ?ps \<noteq> None" if c: "card (dom h) < 9" for h :: "u64 \<Rightarrow> heap_object option"
  proof
    assume "find (\<lambda>p. h p = None) ?ps = None"
    then have "set ?ps \<subseteq> dom h" unfolding find_None_iff by (meson domIff subsetI)
    then have "card (set ?ps) \<le> card (dom h)" by (intro card_mono) simp_all
    with c show False by simp
  qed
  then show "alloc_serves tested_bridge 9" unfolding alloc_serves_def tested_bridge_def by (simp del: find.simps)
qed

theorem bridge_tests_outcome_witness:
  "let b = \<lparr>b_heap = (\<lambda>_. None), b_error = None\<rparr> in
   (\<exists>b'. test_session_ffi_encrypt_decrypt tested_bridge (\<lambda>i. [word_of_nat i]) [9] length length b = Returns b' \<and> b_heap b' = b_heap b) \<and>
   test_session_ffi_encrypt_decrypt tested_bridge (\<lambda>i. [word_of_nat i]) [9] (\<lambda>bs. length bs + 1) length b = Undefined"
proof -
  let ?b = "\<lparr>b_heap = (\<lambda>_. None), b_error = None\<rparr> :: bridge"
  have env: "be_prims tested_bridge = demo_prims" "be_wire tested_bridge = demo_wire"
    by (simp_all add: tested_bridge_def demo_bridge_fields)
  have vecs: "\<forall>m. session_message_to_vec demo_wire m \<noteq> Inr []"
    by (simp add: demo_wire_def session_text_def field_text_def text_bytes_def)
  show ?thesis
    using bridge_tests_outcome [where b = ?b and cap = "\<lambda>bs. length bs + 1" and rng = "\<lambda>i. [word_of_nat i]" and nonce = "[9]",
        OF tested_alloc _ _ _ _ _ _ _ _ tested_bridge_codec, unfolded env,
        OF _ demo_wire_codec demo_dh_commutes demo_hkdf_total demo_aead_correct demo_aead_total demo_prims_sized vecs]
    by simp
qed

end
