(* ===== verification/Client_Panics.thy ===== *)
theory Client_Panics
  imports Console_Properties Client_Relay
begin

text \<open>
  Which commands of the client can panic. With a key derivation that does not fail and a build without
  overflow checks (\<open>cargo build --release\<close>), none but three: receiving, recording and streaming. For each
  operation one lemma says that it gives a result; they are collected under \<open>no_panic\<close>.
\<close>

named_theorems no_panic

definition release_build :: "prims \<Rightarrow> bool" where
  "release_build pr \<longleftrightarrow> hkdf_total pr \<and> \<not> overflow_checks pr"

section \<open>Sessions\<close>

lemma derive_chain_keys_some: "hkdf_total pr \<Longrightarrow> derive_chain_keys pr rk dh \<noteq> None"
  using derive_chain_keys_total [of pr rk dh] by auto

lemma Session_new_initiator_some [no_panic]:
  "release_build pr \<Longrightarrow> Session_new_initiator pr rng ik u d their spk \<noteq> None"
  by (rule notI) (auto simp: release_build_def Session_new_initiator_def Ratchet_new_initiator_def Let_def
      bind_eq_None_conv derive_chain_keys_some split: sum.splits prod.splits)

lemma Session_new_responder_some [no_panic]:
  "release_build pr \<Longrightarrow> Session_new_responder pr ik u d their eph spk \<noteq> None"
  by (rule notI) (auto simp: release_build_def Session_new_responder_def Ratchet_new_responder_def
      bind_eq_None_conv derive_chain_keys_some split: sum.splits prod.splits)

lemma Session_encrypt_some [no_panic]: "release_build pr \<Longrightarrow> Session_encrypt pr s n p \<noteq> None"
  by (rule notI) (auto simp: release_build_def Session_encrypt_def encrypt_message_eq Let_def bind_eq_None_conv
      split: sum.splits)

lemma Session_decrypt_some [no_panic]: "release_build pr \<Longrightarrow> Session_decrypt pr s m \<noteq> None"
  by (rule notI) (auto simp: release_build_def Session_decrypt_def decrypt_message_def dh_ratchet_step_def
      next_recv_key_eq agree_def Let_def bind_eq_None_conv derive_chain_keys_some split: if_splits prod.splits)

section \<open>Sending\<close>

text \<open>\<open>get_mut(..).unwrap()\<close> finds the session that is there or has just been added.\<close>

lemma encrypt_in_store_some [no_panic]:
  "release_build pr \<Longrightarrow> SessionStore_get st u 1 = Some x \<Longrightarrow> encrypt_in_store pr n u p st \<noteq> None"
  by (rule notI) (auto simp: encrypt_in_store_def SessionStore_get_mut_def no_panic)

lemma get_or_create_session_some [no_panic]:
  "release_build (ce_prims ce) \<Longrightarrow> get_or_create_session ce net dr u s \<noteq> None"
  by (rule notI) (auto simp: get_or_create_session_def no_panic split: prod.splits option.splits sum.splits)

lemma Session_new_initiator_key:
  "Session_new_initiator pr rng ik u d their spk = Some (Inr s) \<Longrightarrow> session_key s = (u, d)"
  by (auto simp: Session_new_initiator_def Let_def bind_eq_Some_conv session_key_def split: sum.splits)

lemma get_or_create_session_found:
  "get_or_create_session ce net dr u s = Some (Inr b, c, files, w) \<Longrightarrow> \<exists>x. SessionStore_get (c_sessions c) u 1 = Some x"
  by (auto simp: get_or_create_session_def SessionStore_get_mut_def
      dest!: Session_new_initiator_key SessionStore_get_add split: prod.splits option.splits sum.splits)

lemma seal_for_some [no_panic]: "release_build (ce_prims ce) \<Longrightarrow> seal_for ce net dr u p s \<noteq> None"
proof
  assume r: "release_build (ce_prims ce)" and "seal_for ce net dr u p s = None"
  then obtain b c files w where g: "get_or_create_session ce net dr u s = Some (Inr b, c, files, w)"
    and e: "encrypt_in_store (ce_prims ce) (dr_nonce dr) u p (c_sessions c) = None"
    by (auto simp: seal_for_def Let_def no_panic split: option.splits sum.splits if_splits)
  from get_or_create_session_found [OF g] e r show False by (auto simp: no_panic)
qed

lemmas result_splits = prod.splits option.splits sum.splits if_splits

lemma send_message_some [no_panic]: "release_build (ce_prims ce) \<Longrightarrow> send_message ce net dr u t s \<noteq> None"
  by (rule notI) (auto simp: send_message_def send_encrypted_def Let_def no_panic split: result_splits)

lemma send_payload_some [no_panic]: "release_build (ce_prims ce) \<Longrightarrow> send_payload ce net dr u v s \<noteq> None"
  by (rule notI) (auto simp: send_payload_def no_panic split: result_splits)

lemma send_piece_some [no_panic]: "release_build (ce_prims ce) \<Longrightarrow> send_piece ce net dr u p s \<noteq> None"
  by (rule notI) (auto simp: send_piece_def no_panic split: result_splits)

lemma send_to_members_some [no_panic]:
  "release_build (ce_prims ce) \<Longrightarrow> send_to_members ce net drs i p us s \<noteq> None"
  by (induction us arbitrary: i s) (auto simp: no_panic simp del: not_None_eq split: option.splits sum.splits)

lemma send_group_message_some [no_panic]:
  "release_build (ce_prims ce) \<Longrightarrow> send_group_message ce net dr drs g t s \<noteq> None"
  by (rule notI) (auto simp: send_group_message_def Let_def no_panic split: result_splits)

lemma send_channel_message_some [no_panic]:
  "release_build (ce_prims ce) \<Longrightarrow> send_channel_message ce net dr drs i t s \<noteq> None"
  by (rule notI) (auto simp: send_channel_message_def Let_def no_panic split: result_splits)

lemma edit_for_some [no_panic]: "release_build (ce_prims ce) \<Longrightarrow> edit_for ce net wr dr u p s \<noteq> None"
  by (rule notI) (auto simp: edit_for_def SessionStore_get_mut_def Let_def no_panic split: result_splits)

lemma edit_for_members_some [no_panic]:
  "release_build (ce_prims ce) \<Longrightarrow> edit_for_members ce net wr drs i p us s \<noteq> None"
  by (induction us arbitrary: i s) (auto simp: no_panic simp del: not_None_eq split: option.splits sum.splits)

lemma edit_message_some [no_panic]:
  "release_build (ce_prims ce) \<Longrightarrow> edit_message ce net wr drs i t s \<noteq> None"
  by (rule notI) (auto simp: edit_message_def edit_send_def Let_def no_panic split: result_splits)

lemma start_call_some [no_panic]: "release_build (ce_prims ce) \<Longrightarrow> start_call ce net dr u s \<noteq> None"
  by (rule notI) (auto simp: start_call_def Let_def no_panic split: result_splits)

lemma accept_call_some [no_panic]: "release_build (ce_prims ce) \<Longrightarrow> accept_call ce net dr i s \<noteq> None"
  by (rule notI) (auto simp: accept_call_def Let_def no_panic split: result_splits)

lemma end_call_some [no_panic]: "release_build (ce_prims ce) \<Longrightarrow> end_call ce net dr y s \<noteq> None"
  by (rule notI) (auto simp: end_call_def Let_def no_panic split: result_splits)

lemma cli_create_poll_some [no_panic]:
  "release_build (ce_prims ce) \<Longrightarrow> cli_create_poll ce net dr q os r s \<noteq> None"
  by (rule notI) (auto simp: cli_create_poll_def Let_def no_panic split: result_splits)

lemma send_chunks_some [no_panic]: "release_build (ce_prims ce) \<Longrightarrow> send_chunks ce net drs i u vs s \<noteq> None"
  by (induction vs arbitrary: i s) (auto simp: no_panic simp del: not_None_eq split: option.splits sum.splits)

lemma prepare_file_some [no_panic]: "release_build (ce_prims ce) \<Longrightarrow> prepare_file ce me f t h \<noteq> None"
  by (rule notI) (auto simp: prepare_file_def release_build_def split: result_splits)

lemma send_file_inner_some [no_panic]:
  "release_build (ce_prims ce) \<Longrightarrow> send_file_inner ce me net dr drs n u f t h s \<noteq> None"
  by (rule notI) (auto simp: send_file_inner_def Let_def no_panic split: result_splits)

lemma send_sticker_some [no_panic]: "release_build (ce_prims ce) \<Longrightarrow> send_sticker ce net dr u p i s \<noteq> None"
  by (rule notI) (auto simp: send_sticker_def no_panic split: result_splits)

lemma send_custom_sticker_some [no_panic]:
  "release_build (ce_prims ce) \<Longrightarrow> send_custom_sticker ce me net dr u n s \<noteq> None"
  by (rule notI) (auto simp: send_custom_sticker_def Let_def no_panic split: result_splits)

lemma send_media_chunks_some [no_panic]:
  "release_build (ce_prims ce) \<Longrightarrow> send_media_chunks ce net drs u i k t n cs s \<noteq> None"
  by (induction cs arbitrary: n s) (auto simp: no_panic simp del: not_None_eq split: option.splits sum.splits)

lemma stream_audio_some [no_panic]:
  "release_build (ce_prims ce) \<Longrightarrow> stream_audio ce dv net drs fin call k path audio s \<noteq> None"
  by (rule notI) (auto simp: stream_audio_def Let_def no_panic split: result_splits)

section \<open>Receiving\<close>

text \<open>
  A payload that ends the client, given the files it is waiting for: a chunk of a file that was
  announced with no chunks, or the last chunk of one announced larger than the allocator grants or
  than \<open>isize::MAX\<close>.
\<close>

definition fatal_chunk :: "codecs \<Rightarrow> storage \<Rightarrow> (string \<times> PendingFile) list \<Rightarrow> bytes \<Rightarrow> bool" where
  "fatal_chunk cd fs pending plaintext \<longleftrightarrow>
     (case value_from_slice cd plaintext of
        Inl e \<Rightarrow> False
      | Inr v \<Rightarrow>
          get_str v ''__tintin_type'' \<in> {Some ''file'', Some ''voice''} \<and>
          (case base64_decode cd (str_or v ''data'' []) of
             Inl e \<Rightarrow> False
           | Inr data \<Rightarrow>
               (case map_of pending (str_or v ''file_id'' []) of
                  None \<Rightarrow>
                    u64_or_0 v ''total_chunks'' = 0 \<or>
                    u64_or_0 v ''total_chunks'' = 1 \<and> \<not> with_capacity_ok fs (u64_or_0 v ''file_size'')
                | Some pf \<Rightarrow>
                    pf_total_chunks pf = 0 \<or> \<not> with_capacity_ok fs (pf_file_size pf) \<and>
                    length (insert_or_replace fst (u64_or_0 v ''chunk_index'', data) (pf_received_chunks pf)) =
                      pf_total_chunks pf)))"

lemma insert_or_replace_nonempty [simp]: "insert_or_replace f x xs \<noteq> []"
  by (simp add: insert_or_replace_def)

lemma insert_or_replace_Nil [simp]: "insert_or_replace f x [] = [x]"
  by (simp add: insert_or_replace_def)

lemma process_file_chunk_None:
  "process_file_chunk cd fs sender p (c, files) = None \<longleftrightarrow> fatal_chunk cd fs (c_pending_files c) p"
  by (auto simp: process_file_chunk_def fatal_chunk_def Let_def unwrap_or_def split: sum.splits option.splits)

lemma process_file_chunk_Some:
  "process_file_chunk cd fs sender p (c, files) = Some r \<Longrightarrow> \<not> fatal_chunk cd fs (c_pending_files c) p"
  by (simp flip: process_file_chunk_None [of cd fs sender p c files])

lemma fatal_chunk_no_signal:
  "fatal_chunk cd fs pending p \<Longrightarrow> process_call_signal pr cd rng sender p c = (False, c)"
  by (auto simp: fatal_chunk_def process_call_signal_def split: sum.splits)

lemma no_signal_same: "process_call_signal pr cd rng sender p c = (False, c1) \<Longrightarrow> c1 = c"
  by (auto simp: process_call_signal_def split: sum.splits option.splits if_splits)

lemma handle_plaintext_None:
  "handle_plaintext ce net dr k e p (c, files, w) = None \<longleftrightarrow> fatal_chunk (ce_codecs ce) (ce_storage ce) (c_pending_files c) p"
proof (cases "process_call_signal (ce_prims ce) (ce_codecs ce) (dr_rng dr 0) (env_sender_id e) p c")
  case (Pair h c1)
  show ?thesis
  proof (cases h)
    case True
    with Pair fatal_chunk_no_signal [of "ce_codecs ce" "ce_storage ce" "c_pending_files c" p] show ?thesis
      by (auto simp: handle_plaintext_def Let_def)
  next
    case False
    with Pair have "c1 = c" by (auto dest: no_signal_same)
    with Pair False show ?thesis
      by (auto simp: handle_plaintext_def Let_def process_file_chunk_None dest: process_file_chunk_Some
          split: option.splits prod.splits)
  qed
qed

text \<open>What an envelope decrypts to at a client, if it does.\<close>

definition opened :: "client_env \<Rightarrow> TinTinClient \<Rightarrow> Envelope \<Rightarrow> bytes option" where
  "opened ce c e =
     (case env_msg_type e of
        PreKeyBundleType \<Rightarrow>
          (case prekey_from_slice ce (env_content e) of
             Inl _ \<Rightarrow> None
           | Inr k \<Rightarrow>
               (case Session_new_responder (ce_prims ce) (c_identity c) (env_sender_id e) (env_sender_device_id e)
                       (pkm_identity_key k) (pkm_base_key k) (c_signed_pre_key c) of
                  Some (Inr session) \<Rightarrow>
                    (case Session_decrypt (ce_prims ce) session (pkm_session_message k) of
                       Some (Inr p, _) \<Rightarrow> Some p
                     | _ \<Rightarrow> None)
                | _ \<Rightarrow> None))
      | Normal \<Rightarrow>
          if env_sender_id e = c_user_id c then None
          else
            (case SessionMessage_from_json (ce_wire ce) (env_content e) of
               Inl _ \<Rightarrow> None
             | Inr m \<Rightarrow>
                 (case SessionStore_get (c_sessions c) (env_sender_id e) 1 of
                    None \<Rightarrow> None
                  | Some session \<Rightarrow>
                      (case Session_decrypt (ce_prims ce) session m of Some (Inr p, _) \<Rightarrow> Some p | _ \<Rightarrow> None)))
      | _ \<Rightarrow> None)"

definition fatal_envelope :: "client_env \<Rightarrow> TinTinClient \<Rightarrow> Envelope \<Rightarrow> bool" where
  "fatal_envelope ce c e \<longleftrightarrow>
     (case opened ce c e of None \<Rightarrow> False | Some p \<Rightarrow> fatal_chunk (ce_codecs ce) (ce_storage ce) (c_pending_files c) p)"

lemma receive_message_None:
  assumes "release_build (ce_prims ce)"
  shows "receive_message ce net dr e (c, files, w) = None \<longleftrightarrow> fatal_envelope ce c e"
  using assms
  by (auto simp: receive_message_def receive_prekey_def receive_normal_def SessionStore_get_mut_def fatal_envelope_def
      opened_def Let_def handle_plaintext_None no_panic split: MessageType.splits sum.splits option.splits prod.splits)

text \<open>The loop panics at the first fatal envelope, if it gets there.\<close>

definition fatal_at ::
  "client_env \<Rightarrow> 'w net \<Rightarrow> (nat \<Rightarrow> draws) \<Rightarrow> nat \<Rightarrow> json list \<Rightarrow> 'w cstate \<Rightarrow> bool" where
  "fatal_at ce net drs i vs s \<longleftrightarrow>
     (\<exists>us v rest s' e. vs = us @ v # rest \<and> receive_loop ce net drs i us s = Some (Inr (), s') \<and>
        envelope_from_value ce v = Inr e \<and> fatal_envelope ce (fst s') e)"

lemma fatal_at_Nil [simp]: "\<not> fatal_at ce net drs i [] s"
  by (simp add: fatal_at_def)

lemma receive_loop_Cons_ok:
  "receive_loop ce net drs i (v # vs) s = Some (Inr (), s') \<longleftrightarrow>
   (\<exists>e s1. envelope_from_value ce v = Inr e \<and> receive_message ce net (drs i) e s = Some (Inr (), s1) \<and>
      receive_loop ce net drs (Suc i) vs s1 = Some (Inr (), s'))"
  by (auto split: sum.splits option.splits)

lemma ex_split_Cons:
  "(\<exists>us x rest. v # vs = us @ x # rest \<and> P us x) \<longleftrightarrow>
   P [] v \<or> (\<exists>us x rest. vs = us @ x # rest \<and> P (v # us) x)"
  unfolding Cons_eq_append_conv by blast

lemma fatal_at_Cons:
  "fatal_at ce net drs i (v # vs) s \<longleftrightarrow>
   (\<exists>e. envelope_from_value ce v = Inr e \<and>
     (fatal_envelope ce (fst s) e \<or>
      (\<exists>s1. receive_message ce net (drs i) e s = Some (Inr (), s1) \<and> fatal_at ce net drs (Suc i) vs s1)))"
proof -
  have "fatal_at ce net drs i (v # vs) s \<longleftrightarrow>
    (\<exists>us x rest. v # vs = us @ x # rest \<and> (\<exists>s' e. receive_loop ce net drs i us s = Some (Inr (), s') \<and>
       envelope_from_value ce x = Inr e \<and> fatal_envelope ce (fst s') e))"
    unfolding fatal_at_def by blast
  also have "\<dots> \<longleftrightarrow> (\<exists>e. envelope_from_value ce v = Inr e \<and> fatal_envelope ce (fst s) e) \<or>
    (\<exists>us x rest. vs = us @ x # rest \<and> (\<exists>s' e. receive_loop ce net drs i (v # us) s = Some (Inr (), s') \<and>
       envelope_from_value ce x = Inr e \<and> fatal_envelope ce (fst s') e))"
    unfolding ex_split_Cons by simp
  finally show ?thesis unfolding receive_loop_Cons_ok fatal_at_def by blast
qed

lemma receive_loop_None:
  assumes "release_build (ce_prims ce)"
  shows "receive_loop ce net drs i vs s = None \<longleftrightarrow> fatal_at ce net drs i vs s"
proof (induction vs arbitrary: i s)
  case (Cons v vs)
  obtain c files w where s: "s = (c, files, w)" by (cases s) auto
  show ?case
  proof (cases "envelope_from_value ce v")
    case (Inr e)
    note rm = receive_message_None [OF assms, of net "drs i" e c files w]
    show ?thesis
    proof (cases "receive_message ce net (drs i) e s")
      case None
      with rm Inr s show ?thesis by (simp add: fatal_at_Cons)
    next
      case (Some r)
      with rm s have "\<not> fatal_envelope ce (fst s) e" by auto
      with Some Inr Cons.IH show ?thesis
        by (cases r; cases "fst r") (auto simp: fatal_at_Cons)
    qed
  qed (simp add: fatal_at_Cons)
qed simp

text \<open>The messages of an answer to a fetch.\<close>

definition fetched :: "json \<Rightarrow> json list" where
  "fetched resp = unwrap_or (as_array (json_index (json_index resp ''data'') ''messages'')) []"

definition receive_request :: "TinTinClient \<Rightarrow> json" where
  "receive_request c = JObject [(''cmd'', JString ''receive''), (''user_id'', JString (c_user_id c))]"

lemma receive_messages_None:
  assumes "release_build (ce_prims ce)"
  shows "receive_messages ce net drs (c, files, w) = None \<longleftrightarrow>
    (\<exists>resp w'. net (receive_request c) w = (Inr resp, w') \<and> resp_ok resp \<and>
       fatal_at ce net drs 0 (fetched resp) (c, files, w'))"
  by (auto simp: receive_loop_None [OF assms] receive_messages_def receive_request_def fetched_def Let_def split: prod.splits sum.splits)

section \<open>Recording\<close>

text \<open>A microphone that delivers sound over no channels: the number of frames is a division by zero.\<close>

definition no_channels :: "devices \<Rightarrow> nat \<Rightarrow> bool" where
  "no_channels dv secs \<longleftrightarrow>
     (case mic dv of
        None \<Rightarrow> False
      | Some m \<Rightarrow>
          (\<exists>rate. mi_config m = Inr (0, rate)) \<and>
          mi_name_error m = None \<and> mi_flush_error m = None \<and> mi_build_error m = None \<and> mi_play_error m = None \<and> mi_pause_error m = None \<and>
          (\<exists>samples. capture secs (mi_tick_error m) (mi_rounds m secs) 0 [] = Inr samples \<and> samples \<noteq> []))"

lemma write_note_some: "release_build (ce_prims ce) \<Longrightarrow> write_note ce dv rate pcm files \<noteq> None"
  by (rule notI) (auto simp: write_note_def release_build_def Let_def split: option.splits if_splits)

lemma record_voice_None:
  "release_build (ce_prims ce) \<Longrightarrow> record_voice ce dv secs files = None \<longleftrightarrow> no_channels dv secs"
  by (auto simp: record_voice_def no_channels_def write_note_some Let_def
      simp del: not_None_eq split: option.splits sum.splits prod.splits if_splits)

text \<open>Streaming records first; besides, a recording that reads back empty gives chunks of no bytes.\<close>

definition stream_ready :: "TinTinClient \<Rightarrow> bool" where
  "stream_ready c \<longleftrightarrow>
     (case c_active_call c of
        None \<Rightarrow> False
      | Some call \<Rightarrow> ca_state call = Connected \<and> ca_shared_media_secret call \<noteq> None)"

lemma send_call_media_None:
  assumes "release_build (ce_prims ce)"
  shows "send_call_media ce me dv net drs fin secs (c, files, w) = None \<longleftrightarrow>
    stream_ready c \<and>
    (no_channels dv secs \<or>
     (\<exists>path files'. record_voice ce dv secs files = Some (Inr path, files') \<and> read_file me path = Inr []))"
  using assms record_voice_None [OF assms, of dv secs files]
  by (auto simp: send_call_media_def stream_ready_def no_panic split: option.splits sum.splits)

section \<open>Commands\<close>

lemma hours_ago_some: "hours_ago False now ts \<noteq> None"
  by (simp add: hours_ago_def Let_def)

lemma run_story_some: "release_build (ce_prims (co_env co)) \<Longrightarrow> run_story co n cmd s \<noteq> None"
  by (rule notI) (cases cmd; auto simp: run_story_def on_relay_def story_view_def hours_ago_some release_build_def Let_def
      split: result_splits)

lemma on_relay_some: "on_relay f op s \<noteq> None"
  by (simp add: on_relay_def split: prod.splits)

lemma on_client_some: "on_client f op s \<noteq> None"
  by (simp add: on_client_def split: prod.splits)

lemma on_session_None: "on_session f op s = None \<longleftrightarrow> op s = None"
  by (auto simp: on_session_def split: option.splits)

lemmas run_results = on_relay_some on_client_some on_session_None no_panic Let_def

lemma run_group_some: "release_build (ce_prims (co_env co)) \<Longrightarrow> run_group co n cmd s \<noteq> None"
  by (rule notI) (cases cmd; simp add: run_group_def run_results)

lemma run_channel_some: "release_build (ce_prims (co_env co)) \<Longrightarrow> run_channel co n cmd s \<noteq> None"
  by (rule notI) (cases cmd; simp add: run_channel_def run_results)

lemma run_poll_some: "release_build (ce_prims (co_env co)) \<Longrightarrow> run_poll co n cmd s \<noteq> None"
  by (rule notI) (cases cmd; simp add: run_poll_def run_results)

lemma run_sticker_some: "release_build (ce_prims (co_env co)) \<Longrightarrow> run_sticker co n cmd s \<noteq> None"
  by (rule notI) (cases cmd; auto simp: run_sticker_def run_results split: prod.splits)

lemma run_timeline_some: "run_timeline co n cmd s \<noteq> None"
  by (rule notI) (cases cmd; simp add: run_timeline_def run_results)

lemma run_call_None:
  assumes "release_build (ce_prims (co_env co))"
  shows "run_call co n cmd s = None \<longleftrightarrow>
    (\<exists>secs. cmd = CallStream secs \<and> send_call_media (co_env co) (co_media co) (co_devices co) (co_net co) (co_draws co n)
       (co_end_draws co n) secs s = None)"
  using assms by (cases cmd) (auto simp: run_call_def run_results simp del: not_None_eq)

lemma run_media_None:
  assumes "release_build (ce_prims (co_env co))"
  shows "run_media co n cmd s = None \<longleftrightarrow> (\<exists>secs. cmd = Record secs \<and> no_channels (co_devices co) secs)"
  using assms record_voice_None [OF assms, of "co_devices co" _ "fst (snd s)", symmetric]
  by (cases s; cases cmd) (auto simp: run_media_def run_results send_file_def send_voice_def simp del: not_None_eq
      split: option.splits)

lemmas run_some = run_story_some run_group_some run_channel_some run_poll_some run_sticker_some run_timeline_some

text \<open>
  Property C9. When a command kills the client. In a build without overflow checks a typed command ends the
  program, by a panic or an abort, in exactly three situations: a fetch hands out a message that decrypts to a
  chunk of a file announced with no chunks, or to the last chunk of a file announced with a size for which
  no memory can be reserved (more than half of the address space, or more than the allocator gives), and no
  message before it ends the fetch; a recording is made with a microphone that delivers sound over no
  channels; or, while a call is connected, such a recording is made for it or its recording reads back
  empty. Every other command gives a result, an error of a device, of the relay or of a flush included,
  whatever the relay answers and whatever the client holds. A \<open>println!\<close> to an output that is closed, which
  panics too, is not counted.
\<close>

theorem client_panics_exactly:
  assumes "release_build (ce_prims (co_env co))"
  shows "run_command co n cmd (c, files, w) = None \<longleftrightarrow>
    cmd = Recv \<and>
      (\<exists>resp w'. co_net co (receive_request c) w = (Inr resp, w') \<and> resp_ok resp \<and>
         fatal_at (co_env co) (co_net co) (co_draws co n) 0 (fetched resp) (c, files, w')) \<or>
    (\<exists>secs. cmd = MediaCmd (Record secs) \<and> no_channels (co_devices co) secs) \<or>
    (\<exists>secs. cmd = CallCmd (CallStream secs) \<and> stream_ready c \<and>
       (no_channels (co_devices co) secs \<or>
        (\<exists>path files'. record_voice (co_env co) (co_devices co) secs files = Some (Inr path, files') \<and>
           read_file (co_media co) path = Inr [])))"
proof (cases cmd)
  case Recv
  then show ?thesis by (simp add: run_command_def on_session_None receive_messages_None [OF assms])
next
  case (CallCmd x)
  then show ?thesis by (auto simp: run_command_def run_call_None [OF assms] send_call_media_None [OF assms])
next
  case (MediaCmd x)
  then show ?thesis by (auto simp: run_command_def run_media_None [OF assms])
qed (use assms in \<open>auto simp: run_command_def run_results run_some simp del: not_None_eq split: prod.splits\<close>)

text \<open>
  Bob's client and a first message of Mallory that announces a file without chunks, with a cipher that
  opens everything.
\<close>

definition panic_env :: client_env where
  "panic_env = demo_client_env\<lparr>
     ce_prims := demo_prims\<lparr>overflow_checks := False, chacha_decrypt := (\<lambda>k n c. Inr c)\<rparr>,
     ce_codecs := demo_codecs\<lparr>value_from_slice :=
       (\<lambda>_. Inr (JObject [(''__tintin_type'', JString ''file''), (''data'', JString [])]))\<rparr>,
     envelope_from_value := (\<lambda>_. Inr (Envelope_new 0 ''mallory'' ''bob'' [] PreKeyBundleType)),
     prekey_from_slice := (\<lambda>_. Inr \<lparr>pkm_identity_key = [], pkm_base_key = [], pkm_session_message =
       \<lparr>sm_version = 1, sm_ciphertext = [], sm_nonce = [], sm_ratchet_key = [], sm_message_number = 0\<rparr>\<rparr>)\<rparr>"

definition panic_console :: "unit console" where
  "panic_console = demo_console\<lparr>co_env := panic_env, co_net := (\<lambda>_ w. (Inr (JObject [(''status'', JString ''ok''),
     (''data'', JObject [(''messages'', JArray [JNull])])]), w))\<rparr>"

lemma panic_env_release: "release_build (ce_prims (co_env panic_console))"
  by (simp add: panic_console_def panic_env_def release_build_def hkdf_total_def demo_prims_def)

theorem client_panics_exactly_witness:
  "run_command panic_console 0 Recv (demo_client ''bob'', \<lambda>_. None, ()) = None \<and>
   run_command panic_console 0 (Msg ''mallory'' ''hi'') (demo_client ''bob'', \<lambda>_. None, ()) \<noteq> None"
proof -
  let ?c = "demo_client ''bob''" and ?e = "Envelope_new 0 ''mallory'' ''bob'' [] PreKeyBundleType"
  have "\<exists>p. opened panic_env ?c ?e = Some p"
    by (simp add: opened_def panic_env_def Envelope_new_def Session_new_responder_def Ratchet_new_responder_def
        derive_chain_keys_def Session_decrypt_def decrypt_message_def dh_ratchet_step_def next_recv_key_eq agree_def
        to_ratcheted_def decrypt_def demo_prims_def Let_def)
  then have "fatal_envelope panic_env ?c ?e"
    by (auto simp: fatal_envelope_def fatal_chunk_def panic_env_def demo_codecs_def demo_client_defs Let_def load_from_def
        get_str_def str_or_def u64_or_0_def json_index_def as_bytes_def)
  then have "fatal_at panic_env (co_net panic_console) (co_draws panic_console 0) 0 [JNull] (?c, \<lambda>_. None, ())"
    by (simp add: fatal_at_Cons panic_env_def)
  then show ?thesis
    unfolding client_panics_exactly [OF panic_env_release]
    by (simp add: panic_console_def resp_ok_def fetched_def json_index_def)
qed

end
