(* ===== verification/Broadcast_Properties.thy ===== *)
theory Broadcast_Properties
  imports Media_Properties Console_Properties
begin

text \<open>
  Messages to a channel, and edits: what the subscribers of a channel get, and what becomes of an edit at
  the other end and on a channel.
\<close>

section \<open>Channels\<close>

definition channel_payload :: "i64 \<Rightarrow> string \<Rightarrow> string \<Rightarrow> json" where
  "channel_payload cid name text =
     JObject [(''__tintin_type'', JString ''channel''), (''channel_id'', JNumber cid), (''channel_name'', JString name),
              (''text'', JString text)]"

definition subscribers_request :: "i64 \<Rightarrow> json" where
  "subscribers_request cid = JObject [(''cmd'', JString ''channel_members''), (''channel_id'', JNumber cid)]"

definition channel_log_entry :: "string \<Rightarrow> string \<Rightarrow> string \<Rightarrow> nat \<Rightarrow> MessageRecord" where
  "channel_log_entry sender name text now =
     \<lparr>mr_peer = sender, mr_text = text, mr_timestamp = word_of_nat now, mr_direction = Incoming, mr_is_group = False,
      mr_group_name = None, mr_is_channel = True, mr_channel_name = Some name, mr_edited = False\<rparr>"

lemma channel_payload_fields:
  assumes "- (2 ^ 63) \<le> cid" and "cid < 2 ^ 63"
  shows "get_str (jnorm (channel_payload cid name text)) ''__tintin_type'' = Some ''channel''"
    and "str_or (jnorm (channel_payload cid name text)) ''text'' d = text"
    and "str_or (jnorm (channel_payload cid name text)) ''channel_name'' d = name"
proof -
  have v: "jvalid (channel_payload cid name text)" using assms by (simp add: channel_payload_def)
  show "get_str (jnorm (channel_payload cid name text)) ''__tintin_type'' = Some ''channel''"
    by (subst get_str_jnorm [OF v]) (simp add: get_str_def channel_payload_def)
  show "str_or (jnorm (channel_payload cid name text)) ''text'' d = text"
    "str_or (jnorm (channel_payload cid name text)) ''channel_name'' d = name"
    by (simp_all add: str_or_jnorm [OF v]) (simp_all add: str_or_def json_index_def channel_payload_def)
qed

lemma channel_entry_logged:
  assumes "- (2 ^ 63) \<le> cid" and "cid < 2 ^ 63" and "value_from_slice cd p = Inr (jnorm (channel_payload cid name text))"
  shows "log_entry cd sender now p = channel_log_entry sender name text now"
  using assms by (simp add: log_entry_def log_fields_def channel_payload_fields channel_log_entry_def)

text \<open>
  Property C12. A channel message goes to every subscriber but its author, once each. The client asks for the
  subscribers and then sends one envelope per other subscriber, in the order of the answer and whatever
  the relay answers to each; every subscriber's client, receiving its envelope, opens it with its own
  session and logs the text under the channel's name. The author's history names the channel as
  the recipient.
\<close>

theorem channel_message_reaches_subscribers:
  assumes "wire_codec (ce_wire ce)" and "aead_total (ce_prims ce)" and "answers_sends ce net"
    and "net (subscribers_request cid) w = (Inr resp, w1)" and "resp_ok resp"
    and "others = filter (\<lambda>m. m \<noteq> c_user_id c) (strings_of (data_array ''members'' resp))"
    and "others \<noteq> []" and "distinct others"
    and "name = (case map_of (c_channels c) cid of None \<Rightarrow> ''ch'' @ show_int cid | Some x \<Rightarrow> x)"
    and "- (2 ^ 63) \<le> cid" and "cid < 2 ^ 63"
    and "value_to_string ce (channel_payload cid name text) = Inr t" and "length t < 2 ^ 32"
    and "value_from_slice (ce_codecs ce) (as_bytes t) = Inr (jnorm (channel_payload cid name text))"
    and "\<forall>m\<in>set others. c_user_id (member m) = m \<and> linked_clients (ce_prims ce) 1 c (member m)"
  shows "\<exists>c' files' w' envs.
    send_channel_message ce (logged net) dr drs cid text (c, files, [], w) =
      Some (Inr (), c', files', subscribers_request cid # map (send_request ce) envs, w') \<and>
    map sm_recipient (c_sent_messages c') = map sm_recipient (c_sent_messages c) @ [''['' @ name @ ''] ch'' @ show_int cid] \<and>
    map env_recipient_id envs = others \<and>
    (\<forall>e\<in>set envs. env_sender_id e = c_user_id c \<and>
      (\<exists>cm' fm' wm'. receive_message ce net' dr' e (member (env_recipient_id e), fm, wm) = Some (Inr (), cm', fm', wm') \<and>
        c_chat_log cm' = c_chat_log (member (env_recipient_id e)) @
          [channel_log_entry (c_user_id c) name text (dr_millis dr' 0)]))"
proof -
  have "c_user_id c \<notin> set others" using assms(6) by auto
  moreover have "chat_type ''channel''" by (simp add: chat_type_def)
  ultimately obtain sessions w' envs where
    sent: "send_to_members ce (logged net) drs 0 (as_bytes t) others (c, files, [subscribers_request cid], w1) =
      Some (Inr (), c\<lparr>c_sessions := sessions\<rparr>, files, [subscribers_request cid] @ map (send_request ce) envs, w')"
    and envs: "map env_recipient_id envs = others"
      "\<forall>e\<in>set envs. env_sender_id e = c_user_id c \<and>
        (\<exists>cm' fm' wm'. receive_message ce net' dr' e (member (env_recipient_id e), fm, wm) = Some (Inr (), cm', fm', wm') \<and>
          c_chat_log cm' = c_chat_log (member (env_recipient_id e)) @
            [log_entry (ce_codecs ce) (c_user_id c) (dr_millis dr' 0) (as_bytes t)])"
    by (rule members_receive [OF assms(1-3,8) _ assms(13,14) channel_payload_fields(1) [OF assms(10,11)] _ assms(15),
        where drs = drs])
  have nm: "unwrap_or (map_of (c_channels c) cid) (''ch'' @ show_int cid) = name"
    unfolding assms(9) unwrap_or_def by (rule refl)
  have "channel_members ce (logged net) cid ([], w) =
    (Inr (strings_of (data_array ''members'' resp)), [subscribers_request cid], w1)"
    using assms(4,5) by (simp add: channel_members_def ask_def map_reply_def logged_def subscribers_request_def)
  then have "\<exists>c' files'. send_channel_message ce (logged net) dr drs cid text (c, files, [], w) =
      Some (Inr (), c', files', subscribers_request cid # map (send_request ce) envs, w') \<and>
      map sm_recipient (c_sent_messages c') = map sm_recipient (c_sent_messages c) @ [''['' @ name @ ''] ch'' @ show_int cid]"
    unfolding send_channel_message_def Let_def prod.case nm channel_payload_def [symmetric]
    using assms(6,7,12) sent by (simp add: value_to_vec_def record_message_def push_sent_def Let_def)
  then show ?thesis using envs unfolding channel_entry_logged [OF assms(10,11,14)] by blast
qed

definition channel_env :: client_env where
  "channel_env = relay_client_env\<lparr>value_to_string := (\<lambda>v. Inr ''payload''),
     ce_codecs := (ce_codecs relay_client_env)\<lparr>value_from_slice := (\<lambda>b. Inr (jnorm (channel_payload 7 ''news'' ''hi'')))\<rparr>\<rparr>"

definition news_alice :: TinTinClient where
  "news_alice = linked_alice\<lparr>c_channels := [(7, ''news'')]\<rparr>"

theorem channel_message_reaches_subscribers_witness:
  "\<exists>c' files' w' envs.
    send_channel_message channel_env (logged group_net) demo_draw (\<lambda>_. demo_draw) 7 ''hi'' (news_alice, \<lambda>_. None, [], ()) =
      Some (Inr (), c', files', subscribers_request 7 # map (send_request channel_env) envs, w') \<and>
    map sm_recipient (c_sent_messages c') = [''[news] ch7''] \<and>
    map env_recipient_id envs = [''bob'', ''carol''] \<and>
    (\<forall>e\<in>set envs. env_sender_id e = ''alice'' \<and>
      (\<exists>cm' fm' wm'. receive_message channel_env group_net demo_draw e (linked_member (env_recipient_id e), \<lambda>_. None, ()) =
          Some (Inr (), cm', fm', wm') \<and>
        c_chat_log cm' = c_chat_log (linked_member (env_recipient_id e)) @ [channel_log_entry ''alice'' ''news'' ''hi'' 0]))"
proof -
  let ?resp = "JObject [(''status'', JString ''ok''),
     (''data'', JObject [(''members'', JArray [JString ''bob'', JString ''alice'', JString ''carol''])])]"
  have env: "ce_prims channel_env = demo_prims" "ce_wire channel_env = demo_wire"
    by (simp_all add: channel_env_def relay_client_env_def)
  have me: "c_user_id news_alice = ''alice''" "c_sent_messages news_alice = []"
    by (simp_all add: news_alice_def linked_alice_def relay_client_def TinTinClient_new_def Let_def load_chat_log_def
        load_channels_def load_groups_def load_history_def load_from_def)
  have nm: "''news'' = (case map_of (c_channels news_alice) 7 of None \<Rightarrow> ''ch'' @ show_int 7 | Some x \<Rightarrow> x)"
    by (simp add: news_alice_def)
  have answers: "answers_sends channel_env group_net" by (simp add: answers_sends_def group_net_def)
  have members: "[''bob'', ''carol''] = filter (\<lambda>m. m \<noteq> c_user_id news_alice) (strings_of (data_array ''members'' ?resp))"
    by (simp add: me strings_of_def data_array_def json_index_def List.map_filter_simps)
  have ok: "resp_ok ?resp" by (simp add: resp_ok_def json_index_def)
  have "linked_clients demo_prims 1 news_alice (linked_member m)" if "m \<in> {''bob'', ''carol''}" for m
    using linked_alice_member [OF that] by (simp add: linked_clients_def news_alice_def)
  then have link: "\<forall>m\<in>set [''bob'', ''carol'']. c_user_id (linked_member m) = m \<and> linked_clients demo_prims 1 news_alice (linked_member m)"
    by (simp add: linked_member_def relay_client_fields)
  have net: "group_net (subscribers_request 7) () = (Inr ?resp, ())" by (simp add: group_net_def)
  have codec: "value_to_string channel_env (channel_payload 7 ''news'' ''hi'') = Inr ''payload''"
    "value_from_slice (ce_codecs channel_env) (as_bytes ''payload'') = Inr (jnorm (channel_payload 7 ''news'' ''hi''))"
    by (simp_all add: channel_env_def)
  have "show_int 7 = ''7''" by code_simp
  with channel_message_reaches_subscribers [where ce = channel_env and c = news_alice and member = linked_member
      and dr = demo_draw and drs = "\<lambda>_. demo_draw" and dr' = demo_draw and net' = group_net and files = "\<lambda>_. None"
      and fm = "\<lambda>_. None" and wm = "()", unfolded env,
      OF demo_wire_codec demo_aead_total answers net ok members _ _ nm _ _ codec(1) _ codec(2) link]
  show ?thesis by (simp add: me demo_draw_def)
qed

section \<open>Edits\<close>

definition edit_payload :: "u64 \<Rightarrow> string \<Rightarrow> json" where
  "edit_payload ts new_text =
     JObject [(''__tintin_type'', JString ''edit''), (''original_timestamp'', JNumber (uint ts)),
              (''new_text'', JString new_text)]"

lemma edit_payload_type: "get_str (jnorm (edit_payload ts new_text)) ''__tintin_type'' = Some ''edit''"
proof -
  have "jvalid (edit_payload ts new_text)"
    using unsigned_less [where 'a = int, of ts] order_trans [of "- (2 ^ 63)" 0 "uint ts"]
    by (simp add: edit_payload_def)
  then show ?thesis by (simp add: get_str_jnorm) (simp add: get_str_def edit_payload_def)
qed

text \<open>A payload whose type the log knows nothing of is logged as the text of its bytes.\<close>

lemma edit_logged_raw:
  assumes "value_from_slice cd p = Inr (jnorm (edit_payload ts new_text))"
  shows "log_entry cd sender now p = incoming sender (from_utf8_lossy p) now"
  using assms by (simp add: log_entry_def log_fields_def edit_payload_type incoming_def)

text \<open>
  Property C30. An edit does not edit at the other end. Alice edits message \<open>i\<close> of her history, which went to Bob. Her client
  gives the entry the new text, and Bob's client gets one envelope and opens it; but it leaves every entry
  of his chat log as it is, the old text included, and adds the JSON of the edit as one more
  message of Alice.
\<close>

theorem edit_becomes_a_message:
  assumes "wire_codec (ce_wire ce)" and "aead_total (ce_prims ce)" and "linked_clients (ce_prims ce) 1 ca cb"
    and "c_user_id ca \<noteq> c_user_id cb" and "\<not> starts_with ''['' (c_user_id cb)"
    and "i < length (c_sent_messages ca)" and "sm_recipient (c_sent_messages ca ! i) = c_user_id cb"
    and "value_to_string ce (edit_payload (sm_timestamp (c_sent_messages ca ! i)) new_text) = Inr t" and "length t < 2 ^ 32"
    and "value_from_slice (ce_codecs ce) (as_bytes t) =
      Inr (jnorm (edit_payload (sm_timestamp (c_sent_messages ca ! i)) new_text))"
  shows "\<exists>ca' fa' w' e cb' fb' wb'.
    edit_message ce (logged net) (\<lambda>_ _. None) drs i new_text (ca, fa, [], w) =
      Some (Inr (), ca', fa', [send_request ce e], w') \<and>
    env_recipient_id e = c_user_id cb \<and>
    c_sent_messages ca' = (c_sent_messages ca)[i := (c_sent_messages ca ! i)\<lparr>sm_text := new_text, sm_edited := True\<rparr>] \<and>
    receive_message ce net' dr' e (cb, fb, wb) = Some (Inr (), cb', fb', wb') \<and>
    c_chat_log cb' = c_chat_log cb @ [incoming (c_user_id ca) (from_utf8_lossy (as_bytes t)) (dr_millis dr' 0)]"
proof -
  let ?m = "c_sent_messages ca ! i" and ?p = "as_bytes t" and ?me = "c_user_id ca" and ?r = "c_user_id cb" and ?pr = "ce_prims ce"
  have "length ?p < 2 ^ 32" using assms(9) by (simp add: as_bytes_def)
  then obtain s m s' content r r' where s: "SessionStore_get (c_sessions ca) ?r 1 = Some s"
    and enc: "Session_encrypt ?pr s (dr_nonce (drs 0)) ?p = Some (Inr m, s')"
    and ct: "SessionMessage_to_json (ce_wire ce) m = Inr content" "SessionMessage_from_json (ce_wire ce) content = Inr m"
    and r: "SessionStore_get (c_sessions cb) ?me 1 = Some r" and d: "Session_decrypt ?pr r m = Some (Inr ?p, r')"
    by (rule linked_exchange [OF assms(1-3)])
  let ?e = "Envelope_new (dr_millis (drs 0) 0) ?me ?r content Normal"
  obtain x w' where n: "net (send_request ce ?e) w = (x, w')" by (cases "net (send_request ce ?e) w")
  have "edit_send ce (logged net) (\<lambda>_ _. None) drs ?r new_text ?p (ca, fa, [], w) =
      Some (Inr (), ca\<lparr>c_sessions := store_put ?r s' (c_sessions ca)\<rparr>, fa, [send_request ce ?e], w')"
    using s enc ct(1) n assms(4,5)
    by (simp add: edit_send_def edit_for_def encrypt_in_store_def SessionStore_get_mut_def store_put_def send_unanswered_def
        logged_def Let_def)
  moreover obtain ca' fa' where "mark_edited ce i new_text (ca\<lparr>c_sessions := store_put ?r s' (c_sessions ca)\<rparr>, fa) = (ca', fa')"
    by (rule prod.exhaust)
  ultimately have sent: "edit_message ce (logged net) (\<lambda>_ _. None) drs i new_text (ca, fa, [], w) =
      Some (Inr (), ca', fa', [send_request ce ?e], w')"
    using assms(6-8) by (simp add: edit_message_def value_to_vec_def edit_payload_def)
  have "opens_to ce r ?e ?p" using ct(2) d by (auto simp: opens_to_def)
  with receive_chat_message [where e = ?e and net = net' and dr = dr' and files = fb and w = wb and cm = cb and r = r,
      OF assms(10) edit_payload_type] r assms(4)
  obtain cb' fb' wb' where "receive_message ce net' dr' ?e (cb, fb, wb) = Some (Inr (), cb', fb', wb')"
    "c_chat_log cb' = c_chat_log cb @ [log_entry (ce_codecs ce) ?me (dr_millis dr' 0) ?p]"
    by (auto simp: chat_type_def)
  with sent edit_marks_last_outgoing [OF sent] show ?thesis
    unfolding edit_logged_raw [OF assms(10)] by (intro exI conjI) auto
qed

definition edit_env :: client_env where
  "edit_env = relay_client_env\<lparr>value_to_string := (\<lambda>v. Inr ''{}''),
     ce_codecs := (ce_codecs relay_client_env)\<lparr>value_from_slice := (\<lambda>b. Inr (jnorm (edit_payload 1 ''new'')))\<rparr>\<rparr>"

definition editing_alice :: TinTinClient where
  "editing_alice = linked_alice\<lparr>c_sent_messages := [sent_to ''bob'']\<rparr>"

theorem edit_becomes_a_message_witness:
  "\<exists>ca' fa' w' e cb' fb' wb'.
    edit_message edit_env (logged group_net) (\<lambda>_ _. None) (\<lambda>_. demo_draw) 0 ''new'' (editing_alice, \<lambda>_. None, [], ()) =
      Some (Inr (), ca', fa', [send_request edit_env e], w') \<and>
    env_recipient_id e = ''bob'' \<and>
    c_sent_messages ca' = [(sent_to ''bob'')\<lparr>sm_text := ''new'', sm_edited := True\<rparr>] \<and>
    receive_message edit_env group_net demo_draw e (linked_member ''bob'', \<lambda>_. None, ()) = Some (Inr (), cb', fb', wb') \<and>
    c_chat_log cb' = c_chat_log (linked_member ''bob'') @ [incoming ''alice'' (from_utf8_lossy (as_bytes ''{}'')) 0]"
proof -
  have env: "ce_prims edit_env = demo_prims" "ce_wire edit_env = demo_wire"
    by (simp_all add: edit_env_def relay_client_env_def)
  have ids: "c_user_id editing_alice = ''alice''" "c_user_id (linked_member ''bob'') = ''bob''"
    "c_sent_messages editing_alice = [sent_to ''bob'']"
    by (simp_all add: editing_alice_def linked_alice_def linked_member_def relay_client_fields)
  have link: "linked_clients demo_prims 1 editing_alice (linked_member ''bob'')"
    using linked_alice_member [of "''bob''"] by (simp add: linked_clients_def editing_alice_def)
  have to: "sm_recipient (sent_to ''bob'') = ''bob''" "sm_timestamp (sent_to ''bob'') = 1" by (simp_all add: sent_to_def)
  have codec: "value_to_string edit_env (edit_payload 1 ''new'') = Inr ''{}''"
    "value_from_slice (ce_codecs edit_env) (as_bytes ''{}'') = Inr (jnorm (edit_payload 1 ''new''))"
    by (simp_all add: edit_env_def)
  from edit_becomes_a_message [where ce = edit_env and ca = editing_alice and cb = "linked_member ''bob''" and i = 0
      and drs = "\<lambda>_. demo_draw" and dr' = demo_draw and net = group_net and net' = group_net and fa = "\<lambda>_. None"
      and fb = "\<lambda>_. None" and w = "()" and wb = "()" and new_text = "''new''" and t = "''{}''", unfolded env, OF demo_wire_codec demo_aead_total link]
  show ?thesis by (simp add: ids to codec starts_with_def demo_draw_def)
qed

section \<open>Edits on a channel\<close>

lemma split_on_nonempty: "split_on sep s \<noteq> []"
  by (cases s) (auto split: list.split)

lemma split_on_last: "sep \<notin> set b \<Longrightarrow> last (split_on sep (a @ sep # b)) = b"
proof (induction a)
  case Nil
  then show ?case by (simp add: split_on_no_sep)
next
  case (Cons x a)
  obtain p ps where s: "split_on sep (a @ sep # b) = p # ps"
    by (cases "split_on sep (a @ sep # b)") (simp_all add: split_on_nonempty)
  have "ps \<noteq> []" if "x \<noteq> sep"
  proof
    assume "ps = []"
    moreover have "sep \<in> set c \<Longrightarrow> 2 \<le> length (split_on sep c)" for c
      using split_on_nonempty [of sep] by (induction c) (auto split: list.splits simp: neq_Nil_conv Suc_le_eq)
    from this [of "a @ sep # b"] have "2 \<le> length (split_on sep (a @ sep # b))" by simp
    ultimately show False using s by simp
  qed
  with s Cons show ?case by auto
qed

text \<open>
  The recipient that the history has for a channel message, \<open>[name] ch<id>\<close>, is
  read as that of a group message: the client asks for the members of a group \<open>ch<id>\<close>. Where there is
  no such group the answer has no members; nothing is sent to anyone, and the message is marked as edited.
\<close>

theorem channel_edit_reaches_nobody:
  assumes "i < length (c_sent_messages ca)"
    and "sm_recipient (c_sent_messages ca ! i) = ''['' @ name @ ''] ch'' @ show_int cid"
    and "sm_recipient (c_sent_messages ca ! i) \<noteq> c_user_id ca"
    and "value_to_string ce (edit_payload (sm_timestamp (c_sent_messages ca ! i)) new_text) = Inr t"
    and "net (members_request (''ch'' @ show_int cid)) w = (Inr resp, w1)" and "resp_ok resp"
    and "strings_of (data_array ''members'' resp) = []"
  shows "\<exists>ca' fa'. edit_message ce (logged net) wr drs i new_text (ca, fa, [], w) =
      Some (Inr (), ca', fa', [members_request (''ch'' @ show_int cid)], w1) \<and>
    c_sent_messages ca' = (c_sent_messages ca)[i := (c_sent_messages ca ! i)\<lparr>sm_text := new_text, sm_edited := True\<rparr>]"
proof -
  let ?r = "sm_recipient (c_sent_messages ca ! i)"
  have "CHR '' '' \<notin> set (''ch'' @ show_int cid)" using show_int_no_blank by simp
  from split_on_last [OF this, of "''['' @ name @ '']''"] have gid: "last (split_on (CHR '' '') ?r) = ''ch'' @ show_int cid"
    by (simp add: assms(2))
  have "group_members ce (logged net) (''ch'' @ show_int cid) ([], w) = (Inr [], [members_request (''ch'' @ show_int cid)], w1)"
    using assms(5-7) unfolding group_members_def members_request_def [symmetric]
    by (simp add: ask_def map_reply_def logged_def)
  moreover have "starts_with ''['' ?r" by (simp add: assms(2) starts_with_def)
  ultimately have "edit_send ce (logged net) wr drs ?r new_text (as_bytes t) (ca, fa, [], w) =
      Some (Inr (), ca, fa, [members_request (''ch'' @ show_int cid)], w1)"
    using assms(3) unfolding edit_send_def prod.case gid by simp
  then show ?thesis
    using assms(1,4) by (simp add: edit_message_def value_to_vec_def edit_payload_def mark_edited_def Let_def)
qed

end
