(* ===== verification/Spec2Isabelle.thy ===== *)
theory Spec2Isabelle
  imports Core_Properties Message_Properties Store_Properties Directory_Properties Server_Properties
    Sdk_Manifest Cli_Properties Client_Properties Delivery_Properties Media_Properties Jni_Properties Console_Properties
    Client_Commands File_Delivery Call_Delivery Voice_Properties Repository_Tests
    Server_Test_Results Bridge_Tests Client_Panics Broadcast_Properties
begin

text \<open>
  TinTin is an end-to-end encrypted messenger: a cryptographic core, a relay server that keeps key bundles,
  groups, channels, polls, a timeline and the messages of users who are not connected, a terminal client,
  bindings of the core for C and for Java, and a validator for mini-app packages. This development models the Rust sources and proves what makes
  them correct; where the code does something other than it means to, the theorem states what it does.

  \<^bold>\<open>How the program becomes HOL.\<close> A Rust panic is \<open>None\<close>, an \<open>Err\<close> is \<open>Inl\<close>, a struct a record, an enum a
  datatype; \<open>u8\<close>, \<open>u32\<close> and \<open>u64\<close> are words, and a \<open>String\<close> is the list of its UTF-8 bytes. A method with
  \<open>&mut self\<close> returns the new state. What is not in the repository is an argument: the record \<open>prims\<close> (X25519,
  hashes, HKDF, ChaCha20-Poly1305, hex, and whether the build checks overflow), \<open>wire\<close> and \<open>decoders\<close> (serde),
  \<open>env\<close> (for one store call the clock, the random numbers, and which of its SQL statements fail and which
  cursors stop early), \<open>storage\<close> (the file system, and the sizes the allocator grants), \<open>'w socket\<close> and \<open>'w net\<close> (the client's connection and
  one exchange over it), \<open>microphone\<close>, \<open>media_env\<close> and \<open>devices\<close>
  (image library, microphone, directories), \<open>bridge_env\<close> (the allocator) and \<open>jvm\<close>. Their documented laws
  are named predicates (\<open>dh_commutes\<close>, \<open>aead_correct\<close>, \<open>wire_codec\<close>, \<open>no_faults\<close>, \<open>reads_back\<close>, \<open>alloc_fresh\<close>), assumed only by the
  theorems that need them and shown to hold of the concrete instances (\<open>demo_prims\<close>, \<open>demo_wire\<close>, \<open>quiet_env\<close>)
  on which the witnesses run.

  \<^bold>\<open>Shared theories.\<close> \<open>Tintin_Prelude\<close> has the results, tables with row ids, orderings and lookups;
  \<open>Json_Value\<close> the \<open>serde_json::Value\<close> of requests and answers. \<open>Channel_Interface\<close> is the locale of a one-way
  secure channel, with the conversations of two parties as a step relation and their safety and progress
  proved once; \<open>Core_Ratchet\<close> and \<open>Core_Session\<close> interpret it. \<open>Table_Interfaces\<close> has the locales of a keyed store,
  a membership table and a table of numbered rows, interpreted by the session store and the store's tables.

  \<^bold>\<open>Core\<close> (\<open>tintin-core/src\<close>). \<open>Core_Keys\<close> (\<open>error.rs\<close>, \<open>keys.rs\<close>), \<open>Core_Cipher\<close> (\<open>cipher.rs\<close>), \<open>Core_Ratchet\<close>
  (\<open>ratchet.rs\<close>), \<open>Core_Message\<close> (\<open>message.rs\<close>, \<open>lib.rs\<close>), \<open>Core_Session\<close> (\<open>session.rs\<close>). \<open>Core_Properties\<close> shows that
  a handshake succeeds and any conversation over it delivers what was sealed, in order; that message
  numbers keep their 32 bits; that the session store is a map; and that the responder's
  first chain is public, verification does not bind the identity, and a failed message advances the chain.

  \<^bold>\<open>Store\<close> (\<open>tintin-server/src/store.rs\<close>). \<open>Store_Schema\<close> has the twelve tables and the invariant \<open>db_ok\<close> (unique
  keys, growing row ids, references that resolve); \<open>Store_Users\<close>, \<open>Store_Groups\<close>, \<open>Store_Channels\<close>,
  \<open>Store_Messages\<close>, \<open>Store_Polls\<close> and \<open>Store_Timeline\<close> one definition per method, each with the lemma that it keeps
  \<open>db_ok\<close> whatever fails. \<open>Store_Frames\<close> shows what every operation leaves alone. \<open>Message_Properties\<close>: the queue
  refines a FIFO mailbox per user, and what a failing or stopping statement loses of it. \<open>Store_Properties\<close> and \<open>Directory_Properties\<close>: polls, timeline, users, stories
  and groups on every branch.

  \<^bold>\<open>Server\<close> (\<open>tintin-server/src/main.rs\<close>). \<open>Server_Commands\<close> has the request structs, \<open>Server_Handlers\<close> the thirty
  handlers, \<open>handle_command\<close> and the connection loop \<open>handle_client\<close>. The store is behind a mutex taken once
  per store call, so a handler with two calls can be overtaken between them: \<open>Server_Concurrency\<close> splits
  these handlers at that point and runs any number of connections as a step relation. \<open>Server_Invariant\<close> and
  \<open>Server_Properties\<close> prove the invariant for every interleaving, that a check made earlier still holds, that a
  closed poll is frozen, and when a command can panic.

  \<^bold>\<open>Client\<close> (\<open>tintin-cli/src/main.rs\<close>). \<open>Cli_State\<close> has the client record and its files, \<open>Cli_Signals\<close> what it does
  with a decrypted payload (calls, file chunks, chat log) and contact URIs, \<open>Cli_Messaging\<close> registration,
  sending, receipts and calls, \<open>Cli_Receive\<close> the loop over fetched messages, \<open>Cli_Requests\<close> the plain requests,
  \<open>Cli_Fanout\<close> group and channel messages and edits, \<open>Cli_Voice\<close> the voice recorder, on the \<open>f32\<close> of
  \<open>F32_Arithmetic\<close>, \<open>Cli_Media\<close> files, stickers and call audio, \<open>Cli_Connection\<close> the connection, \<open>Cli_Commands\<close> the parsing of a typed line and \<open>Cli_Console\<close> what every command does, the loop and \<open>main\<close>.
  \<open>Cli_Properties\<close>: files survive chunking in any order, what one chunk of a peer can do, and the ways in which a
  client gets stuck. \<open>Call_Properties\<close>: whose signals control a call; \<open>Call_Delivery\<close>: a call from the offer that
  is sent to the two connected ends. \<open>Media_Properties\<close> and \<open>Voice_Properties\<close>: what becomes
  of audio chunks, what an edit changes, and how true a voice note is to what was said. \<open>Console_Lemmas\<close> and
  \<open>Console_Properties\<close>: typed commands read back, how the loop ends, what a restart finds, and where
  a line is cut otherwise than the help says. \<open>Client_Invariant\<close> is the locale of what commands do to the
  client: a relation that contains the primitive changes of the state holds across every operation.
  \<open>Client_Commands\<close> carries it to whole sessions of typed lines and interprets it three times: by the invariant
  of the client, which no relay and no peer can break, by what the client keeps for good, and by the
  sessions, which no command removes. \<open>Client_Panics\<close>: the exact conditions under which a command ends the
  program by a panic or an abort in a build without overflow checks.

  \<^bold>\<open>Client and relay together.\<close> \<open>Client_Relay\<close> puts the model of the server behind the socket of the client,
  \<open>Relay_Instance\<close> shows that the laws it asks for can hold. \<open>Client_Properties\<close>: a first message goes from one
  client through the relay to the other, is opened there and is acknowledged. \<open>Established_Session\<close> and
  \<open>Delivery_Properties\<close>: group messages over established sessions reach every member; a malformed message loses
  the fetch it is in; a pre-key message under a foreign name replaces a session. \<open>File_Delivery\<close>: a file goes
  from one disk through both loops and the relay to the other. \<open>Broadcast_Properties\<close>: channel messages reach
  every subscriber, and what becomes of an edit at the other end and on a channel.

  \<^bold>\<open>Bindings\<close> (\<open>tintin-ffi/src/lib.rs\<close>, \<open>tintin-jni/src/lib.rs\<close>). \<open>Bridge_Memory\<close> is the heap behind the handles, with
  undefined behaviour as a value and the locale of a kind of handle; \<open>Ffi_Bridge\<close> and \<open>Jni_Bridge\<close> have every
  exported function. \<open>Ffi_Protocol\<close> is the contract of the C functions, a table of live handles, which the
  functions refine: a legal call is undefined behaviour just when it frees a buffer whose capacity exceeds
  its length. \<open>Bridge_Properties\<close> and \<open>Jni_Properties\<close>: a message passes through both bindings, they
  agree with each other, and which failures the Java ones do not report.

  \<^bold>\<open>Mini-apps\<close> (\<open>tintin-sdk/src/lib.rs\<close>). \<open>Sdk_Manifest\<close>: manifest validation and the sandbox it leads to.

  \<^bold>\<open>Unit tests.\<close> \<open>Repository_Tests\<close>, \<open>Server_Tests\<close> and \<open>Bridge_Tests\<close> run the repository's unit tests on the model.
  Those of the core, of the SDK and of the Java bindings pass for every random draw, those of the server
  (\<open>Server_Test_Results\<close>) whatever the clock and the foreign key setting. The session test of the C functions
  passes and leaves no memory behind if vectors have no spare capacity; otherwise the test itself frees a buffer
  with the wrong size.

  \<^bold>\<open>Bounds.\<close> Loops recurse over their input; those that do not recurse structurally (\<open>chunks\<close>,
  \<open>from_utf8_lossy\<close>, \<open>utf8_error\<close>) have a measure. The one fuel is that of \<open>trim\<close>, the length of the text, of
  which every round removes something. The interactive loop may run forever and is a partial function,
  \<open>None\<close> being that it does. Row ids end at \<open>i64_max\<close>, where SQLite refuses the
  insert; theorems that an operation succeeds ask for room below it. Memory for a file of an announced size is
  there below \<open>2 ^ 63\<close> bytes and as far as the allocator (\<open>alloc_ok\<close>) grants it; other allocations of the
  client are taken to succeed. A conversation theorem that must not run into the counter asks for fewer than
  \<open>2 ^ 32\<close> messages.

  \<^bold>\<open>Not modelled.\<close> The TCP listener and the socket below the connection; the wording of what the client
  prints, its help text and the drawing of the QR code (a flush that fails is an error the commands return; a
  \<open>println!\<close> that fails, which panics, is left out); the audio and image libraries; the Swift and Kotlin
  applications, which are not Rust; unit tests of randomness and of the JSON parser.
\<close>

section \<open>A message through the relay\<close>

text \<open>What the sender does with a list of nonces and plaintexts, and the receiver with what it fetches.\<close>

primrec seal_all :: "prims \<Rightarrow> Session \<Rightarrow> (bytes \<times> bytes) list \<Rightarrow> (SessionMessage list \<times> Session) option" where
  "seal_all pr s [] = Some ([], s)"
| "seal_all pr s (np # nps) =
     (case Session_encrypt pr s (fst np) (snd np) of
        Some (Inr m, s') \<Rightarrow> map_option (\<lambda>(ms, s''). (m # ms, s'')) (seal_all pr s' nps)
      | _ \<Rightarrow> None)"

definition wrap :: "wire \<Rightarrow> nat \<Rightarrow> string \<Rightarrow> string \<Rightarrow> SessionMessage \<Rightarrow> Envelope" where
  "wrap w now sender recipient m =
     Envelope_new now sender recipient (unwrap_or_default (SessionMessage_to_json w m)) Normal"

primrec open_all :: "prims \<Rightarrow> wire \<Rightarrow> Session \<Rightarrow> Envelope list \<Rightarrow> (bytes list \<times> Session) option" where
  "open_all pr w s [] = Some ([], s)"
| "open_all pr w s (e # es) =
     (case SessionMessage_from_json w (env_content e) of
        Inl err \<Rightarrow> None
      | Inr m \<Rightarrow>
          (case Session_decrypt pr s m of
             Some (Inr p, s') \<Rightarrow> map_option (\<lambda>(ps, s''). (p # ps, s'')) (open_all pr w s' es)
           | _ \<Rightarrow> None))"

lemma wrap_content:
  "wire_codec w \<Longrightarrow> SessionMessage_from_json w (env_content (wrap w now a b m)) = Inr m"
  by (auto simp: wire_codec_def wrap_def SessionMessage_to_json_def SessionMessage_from_json_def unwrap_or_default_def
      dest!: spec [of "\<lambda>m. \<exists>b. session_message_to_vec w m = Inr b \<and> session_message_from_slice w b = Inr m" m])

lemma seal_all_linked:
  "session_linked pr s r q ps \<Longrightarrow> seal_all pr s nps = Some (ms, s') \<Longrightarrow>
   session_linked pr s' r (q @ ms) (ps @ map snd nps)"
proof (induction nps arbitrary: s q ps ms)
  case Nil
  then show ?case by simp
next
  case (Cons np nps)
  from Cons.prems(2) obtain m s1 ms1 where e: "Session_encrypt pr s (fst np) (snd np) = Some (Inr m, s1)"
    and rest: "seal_all pr s1 nps = Some (ms1, s')" and ms: "ms = m # ms1"
    by (auto split: option.splits sum.splits prod.splits)
  from Cons.IH [OF session.send_forward [OF Cons.prems(1) e] rest] show ?case by (simp add: ms)
qed

lemma session_recv_counts:
  assumes "session_linked pr s r (m # q) (p # ps)" and "unat (r_recv_msg_number (s_ratchet r)) < 2 ^ 32 - 1"
  obtains r' where "Session_decrypt pr r m = Some (Inr p, r')" and "session_linked pr s r' q ps"
    and "unat (r_recv_msg_number (s_ratchet r')) = unat (r_recv_msg_number (s_ratchet r)) + 1"
proof -
  from assms obtain r' where d: "Session_decrypt pr r m = Some (Inr p, r')"
    using session_recv_ready [OF assms(1)] by auto
  have "rm_ratchet_key (to_ratcheted m) = r_their_ratchet_key (s_ratchet r)"
    using assms(1) by (simp add: session_linked_def ratchet_linked_def)
  then obtain n where n: "add_u32 (overflow_checks pr) (r_recv_msg_number (s_ratchet r)) 1 = Some n"
    and r': "s_ratchet r' = (s_ratchet r)\<lparr>r_recv_chain_key := next_chain_key pr (r_recv_chain_key (s_ratchet r)),
      r_recv_msg_number := n\<rparr>"
    using Session_decrypt_SomeD [OF d]
    by (auto simp: decrypt_message_def next_recv_key_eq bind_eq_Some_conv split: option.splits)
  from r' have "r_recv_msg_number (s_ratchet r') = r_recv_msg_number (s_ratchet r) + 1"
    using add_u32_SomeD [OF n] by simp
  then have "unat (r_recv_msg_number (s_ratchet r')) = unat (r_recv_msg_number (s_ratchet r)) + 1"
    using assms(2) by (simp add: unat_word_ariths)
  with d session.recv_forward [OF assms(1) d] that show thesis by blast
qed

lemma open_all_linked:
  assumes "wire_codec w"
  shows "session_linked pr s r ms ps \<Longrightarrow> unat (r_recv_msg_number (s_ratchet r)) + length ms < 2 ^ 32 \<Longrightarrow>
    \<exists>r'. open_all pr w r (map (wrap w now a b) ms) = Some (ps, r')"
proof (induction ms arbitrary: r ps)
  case Nil
  then show ?case using session.linked_length by fastforce
next
  case (Cons m ms)
  obtain p ps' where ps: "ps = p # ps'"
    using session.linked_length [OF Cons.prems(1)] by (cases ps) auto
  obtain r1 where d: "Session_decrypt pr r m = Some (Inr p, r1)" and l: "session_linked pr s r1 ms ps'"
    and n: "unat (r_recv_msg_number (s_ratchet r1)) = unat (r_recv_msg_number (s_ratchet r)) + 1"
    using session_recv_counts [OF Cons.prems(1) [unfolded ps]] Cons.prems(2) by auto
  obtain r' where "open_all pr w r1 (map (wrap w now a b) ms) = Some (ps', r')"
    using Cons.IH [OF l] Cons.prems(2) n by auto
  with d show ?case by (simp add: ps wrap_content [OF assms])
qed

text \<open>
  Property C2. End to end. Two clients make a session pair by the handshake; Alice seals any list of
  plaintexts, wraps each message in an envelope for Bob and the relay queues them in order, whatever it
  holds for others. Bob's next fetch returns exactly these envelopes, and opening them in order gives
  exactly Alice's plaintexts.
\<close>

theorem relay_end_to_end:
  assumes "dh_commutes pr" and "aead_correct pr" and "wire_codec w"
    and "kp_public (spk_key_pair spk) = x25519_public pr (kp_secret (spk_key_pair spk))"
    and "handshake pr rng ia ib spk (alice, bob) = Some (a, b)"
    and "seal_all pr a nps = Some (msgs, a')" and "length nps < 2 ^ 32"
    and "db_ok st" and "no_faults ev" and "mailbox w st bob = []"
    and "auto_seq (t_messages st) + 2 * int (length nps) \<le> i64_max"
  shows "\<exists>st1 st2 b'.
     queue_all w ev (map (wrap w now alice bob) msgs) st = (Inr (), st1) \<and>
     fetch_messages w ev bob st1 = (Inr (map (wrap w now alice bob) msgs), st2) \<and>
     open_all pr w b (map (wrap w now alice bob) msgs) = Some (map snd nps, b')"
proof -
  note linked = seal_all_linked [OF handshake_linked(1) [OF assms(1,2,4,5)] assms(6), simplified]
  then have len: "length msgs = length nps"
    using session.linked_length by fastforce
  have zero: "r_recv_msg_number (s_ratchet b) = 0"
    using handshake_SomeD(2) [OF assms(5)] by (rule Session_new_responder_InrD)
  obtain b' where "open_all pr w b (map (wrap w now alice bob) msgs) = Some (map snd nps, b')"
    using open_all_linked [OF assms(3) linked, of now alice bob] assms(7) len zero by auto
  moreover have "auto_seq (t_messages st) + int (length (map (wrap w now alice bob) msgs)) \<le> i64_max"
    using assms(11) len by simp
  from queue_all_run [OF assms(3,9,8) this] obtain st1 where
    q: "queue_all w ev (map (wrap w now alice bob) msgs) st = (Inr (), st1)" and ok: "db_ok st1"
    and seq: "auto_seq (t_messages st1) = auto_seq (t_messages st) + int (length msgs)"
    and mb: "mailbox w st1 bob = filter (\<lambda>e. env_recipient_id e = bob) (map (wrap w now alice bob) msgs)"
    using assms(10) by auto
  have mb': "mailbox w st1 bob = map (wrap w now alice bob) msgs"
    unfolding mb by (rule filter_True) (auto simp: wrap_def)
  obtain es st2 where f: "fetch_messages w ev bob st1 = (Inr es, st2)"
    using fetch_messages_total [OF assms(9,3) _ ok, of bob] seq mb' len assms(11) by auto
  moreover have "es = map (wrap w now alice bob) msgs"
    using fetch_messages_Inr [OF assms(3) ok _ f] assms(9) mb' by (simp add: mb_fetch_def)
  ultimately show ?thesis using q by blast
qed

theorem relay_end_to_end_witness:
  "\<exists>a b msgs a' st1 st2 b'. demo_pair = Some (a, b) \<and> seal_all demo_prims a [([1], [104, 105])] = Some (msgs, a') \<and>
     queue_all demo_wire (quiet_env 0) (map (wrap demo_wire 0 ''alice'' ''bob'') msgs) (empty_db True) = (Inr (), st1) \<and>
     fetch_messages demo_wire (quiet_env 0) ''bob'' st1 = (Inr (map (wrap demo_wire 0 ''alice'' ''bob'') msgs), st2) \<and>
     open_all demo_prims demo_wire b (map (wrap demo_wire 0 ''alice'' ''bob'') msgs) = Some ([[104, 105]], b')"
proof -
  obtain a b where ab: "demo_pair = Some (a, b)" and za: "r_send_msg_number (s_ratchet a) = 0"
    by (rule demo_pair_Some)
  have "chacha_encrypt demo_prims k n p = Inr (k @ p)" for k n p
    by (simp add: demo_prims_def)
  with za obtain m a' where "Session_encrypt demo_prims a [1] [104, 105] = Some (Inr m, a')"
    using session_send_ready [of demo_prims a "[1]" "[104, 105]"] by force
  then have s: "seal_all demo_prims a [([1], [104, 105])] = Some ([m], a')" by simp
  from relay_end_to_end [OF demo_dh_commutes demo_aead_correct demo_wire_codec demo_spk_wf
      ab [unfolded demo_pair_def] s _ db_ok_empty quiet_env_simps(1), of True 0 0]
  have "\<exists>st1 st2 b'.
     queue_all demo_wire (quiet_env 0) (map (wrap demo_wire 0 ''alice'' ''bob'') [m]) (empty_db True) = (Inr (), st1) \<and>
     fetch_messages demo_wire (quiet_env 0) ''bob'' st1 = (Inr (map (wrap demo_wire 0 ''alice'' ''bob'') [m]), st2) \<and>
     open_all demo_prims demo_wire b (map (wrap demo_wire 0 ''alice'' ''bob'') [m]) = Some ([[104, 105]], b')"
    by (simp add: i64_max_def)
  with ab s show ?thesis by blast
qed

end
